(* ===== verification/Op_Prelude.thy ===== *)
theory Op_Prelude
  imports Main "HOL-Library.Char_ord" "HOL-Library.List_Lexorder" "HOL-Library.Sublist"
    "HOL-Library.Multiset"
begin

text \<open>
  The prelude of the development: the parts of Go's standard library that the operator's
  sources call, as executable functions on byte strings, with the generic lemmas the component
  theories share.

  A Go string is a sequence of bytes and is modelled by \<^typ>\<open>string\<close>, a list of 8-bit
  characters. The case mappings of \<^verbatim>\<open>strings.ToUpper\<close>, \<^verbatim>\<open>strings.ToLower\<close> and
  \<^verbatim>\<open>strings.EqualFold\<close> and the white space of \<^verbatim>\<open>strings.TrimSpace\<close> are those of ASCII; a byte
  outside ASCII is left as it is, so the models agree with Go on ASCII text. A Go
  \<^verbatim>\<open>int32\<close> or \<^verbatim>\<open>int64\<close> that is only compared and printed is an \<^typ>\<open>int\<close>.

  \<^verbatim>\<open>for k := range m\<close> visits the keys of a Go map in an unspecified order. A definition
  that does so takes the order as an argument of type \<open>range_order\<close>, and the
  hypothesis \<open>range_order_ok\<close> says what Go promises of it: every entry once.
\<close>

named_theorems go_str \<open>evaluation of the string operations\<close>
named_theorems go_map \<open>facts on maps built from lists and on iteration orders\<close>

section \<open>Strings\<close>

definition to_upper_char :: "char \<Rightarrow> char" where
  "to_upper_char c =
     (if CHR ''a'' \<le> c \<and> c \<le> CHR ''z''
      then (case c of Char b0 b1 b2 b3 b4 b5 b6 b7 \<Rightarrow> Char b0 b1 b2 b3 b4 False b6 b7)
      else c)"

definition to_lower_char :: "char \<Rightarrow> char" where
  "to_lower_char c =
     (if CHR ''A'' \<le> c \<and> c \<le> CHR ''Z''
      then (case c of Char b0 b1 b2 b3 b4 b5 b6 b7 \<Rightarrow> Char b0 b1 b2 b3 b4 True b6 b7)
      else c)"

definition ToUpper :: "string \<Rightarrow> string" where
  "ToUpper s = map to_upper_char s"

definition ToLower :: "string \<Rightarrow> string" where
  "ToLower s = map to_lower_char s"

definition EqualFold :: "string \<Rightarrow> string \<Rightarrow> bool" where
  "EqualFold s t \<longleftrightarrow> ToLower s = ToLower t"

definition is_space :: "char \<Rightarrow> bool" where
  "is_space c \<longleftrightarrow> c \<in> {CHR '' '', CHR 0x09, CHR 0x0A, CHR 0x0B, CHR 0x0C, CHR 0x0D}"

definition TrimSpace :: "string \<Rightarrow> string" where
  "TrimSpace s = rev (dropWhile is_space (rev (dropWhile is_space s)))"

text \<open>\<^verbatim>\<open>strings.ReplaceAll(s, old, new)\<close> for a one-byte \<^verbatim>\<open>old\<close>.\<close>

primrec replace_char :: "char \<Rightarrow> string \<Rightarrow> string \<Rightarrow> string" where
  "replace_char c r [] = []"
| "replace_char c r (x # xs) = (if x = c then r else [x]) @ replace_char c r xs"

primrec Join :: "string list \<Rightarrow> string \<Rightarrow> string" where
  "Join [] sep = ''''"
| "Join (x # xs) sep = (case xs of [] \<Rightarrow> x | _ \<Rightarrow> x @ sep @ Join xs sep)"

definition HasPrefix :: "string \<Rightarrow> string \<Rightarrow> bool" where
  "HasPrefix s p \<longleftrightarrow> take (length p) s = p"

definition HasSuffix :: "string \<Rightarrow> string \<Rightarrow> bool" where
  "HasSuffix s p \<longleftrightarrow> length p \<le> length s \<and> drop (length s - length p) s = p"

definition TrimPrefix :: "string \<Rightarrow> string \<Rightarrow> string" where
  "TrimPrefix s p = (if HasPrefix s p then drop (length p) s else s)"

definition TrimSuffix :: "string \<Rightarrow> string \<Rightarrow> string" where
  "TrimSuffix s p = (if HasSuffix s p then take (length s - length p) s else s)"

primrec Contains :: "string \<Rightarrow> string \<Rightarrow> bool" where
  "Contains [] p \<longleftrightarrow> p = []"
| "Contains (c # cs) p \<longleftrightarrow> HasPrefix (c # cs) p \<or> Contains cs p"

text \<open>
  \<^verbatim>\<open>strings.Split(s, sep)\<close> for a non-empty \<^verbatim>\<open>sep\<close>: the pieces between the leftmost,
  non-overlapping occurrences. The counter skips the bytes of a separator already matched.
\<close>

fun split_go :: "string \<Rightarrow> nat \<Rightarrow> string \<Rightarrow> string \<Rightarrow> string list" where
  "split_go sep k acc [] = [acc]"
| "split_go sep (Suc k) acc (c # cs) = split_go sep k acc cs"
| "split_go sep 0 acc (c # cs) =
     (if HasPrefix (c # cs) sep then acc # split_go sep (length sep - 1) [] cs
      else split_go sep 0 (acc @ [c]) cs)"

definition Split :: "string \<Rightarrow> string \<Rightarrow> string list" where
  "Split s sep = split_go sep 0 [] s"

fun nat_digits :: "nat \<Rightarrow> string" where
  "nat_digits n = (if n < 10 then [''0123456789'' ! n]
                   else nat_digits (n div 10) @ [''0123456789'' ! (n mod 10)])"

declare nat_digits.simps [simp del]

definition FormatInt :: "int \<Rightarrow> string" where
  "FormatInt n = (if n < 0 then CHR ''-'' # nat_digits (nat (- n)) else nat_digits (nat n))"

definition FormatBool :: "bool \<Rightarrow> string" where
  "FormatBool b = (if b then ''true'' else ''false'')"

lemmas go_str_defs [go_str] =
  ToUpper_def ToLower_def to_upper_char_def to_lower_char_def EqualFold_def is_space_def
  TrimSpace_def HasPrefix_def HasSuffix_def TrimPrefix_def TrimSuffix_def Split_def
  FormatBool_def

section \<open>Maps and their iteration order\<close>

type_synonym 'v go_map = "(string \<times> 'v) list"

type_synonym 'v range_order = "'v go_map \<Rightarrow> 'v go_map"

text \<open>
  \<^verbatim>\<open>m[k] = v\<close>: overwrite the entry of \<^verbatim>\<open>k\<close>, or add one. The keys stay distinct.
\<close>

fun map_put :: "string \<Rightarrow> 'v \<Rightarrow> 'v go_map \<Rightarrow> 'v go_map" where
  "map_put k v [] = [(k, v)]"
| "map_put k v ((k', v') # m) = (if k = k' then (k, v) # m else (k', v') # map_put k v m)"

definition map_puts :: "(string \<times> 'v) list \<Rightarrow> 'v go_map" where
  "map_puts kvs = fold (\<lambda>(k, v). map_put k v) kvs []"

definition has_key :: "'v go_map \<Rightarrow> string \<Rightarrow> bool" where
  "has_key m k \<longleftrightarrow> k \<in> set (map fst m)"

definition range_order_ok :: "'v range_order \<Rightarrow> bool" where
  "range_order_ok ord \<longleftrightarrow> (\<forall>m. mset (ord m) = mset m)"

lemma map_put_keys [go_map]: "set (map fst (map_put k v m)) = insert k (set (map fst m))"
  by (induction k v m rule: map_put.induct) auto

lemma map_put_distinct [go_map]:
  "distinct (map fst m) \<Longrightarrow> distinct (map fst (map_put k v m))"
proof (induction k v m rule: map_put.induct)
  case (2 k v k' v' m)
  then show ?case using map_put_keys [of k v m] by auto
qed simp

lemma map_put_lookup [go_map]: "map_of (map_put k v m) = (map_of m)(k \<mapsto> v)"
  by (induction k v m rule: map_put.induct) (auto simp: fun_eq_iff)

lemma map_puts_fold_distinct:
  "distinct (map fst m) \<Longrightarrow> distinct (map fst (fold (\<lambda>(k, v). map_put k v) kvs m))"
  by (induction kvs arbitrary: m) (auto simp: map_put_distinct split: prod.splits)

lemma map_puts_fold_keys:
  "set (map fst (fold (\<lambda>(k, v). map_put k v) kvs m)) = set (map fst kvs) \<union> set (map fst m)"
  by (induction kvs arbitrary: m) (auto simp: map_put_keys [simplified] split: prod.splits)

lemma map_puts_fold_lookup:
  "map_of (fold (\<lambda>(k, v). map_put k v) kvs m) = map_of m ++ map_of (rev kvs)"
proof (induction kvs arbitrary: m)
  case (Cons kv kvs)
  then show ?case by (cases kv) (simp add: map_put_lookup map_add_def fun_eq_iff split: option.splits)
qed simp

lemma map_puts_distinct [go_map]: "distinct (map fst (map_puts kvs))"
  by (simp add: map_puts_def map_puts_fold_distinct)

lemma map_puts_keys [go_map]: "set (map fst (map_puts kvs)) = set (map fst kvs)"
  using map_puts_fold_keys [of kvs "[]"] by (simp add: map_puts_def)

lemma map_puts_lookup [go_map]: "map_of (map_puts kvs) = map_of (rev kvs)"
  by (simp add: map_puts_def map_puts_fold_lookup)

lemma has_key_puts [go_map, simp]: "has_key (map_puts kvs) k \<longleftrightarrow> k \<in> fst ` set kvs"
  using map_puts_keys [of kvs] by (simp add: has_key_def)

lemma range_order_set [go_map]: "range_order_ok ord \<Longrightarrow> set (ord m) = set m"
  by (metis range_order_ok_def set_mset_mset)

lemma range_order_id: "range_order_ok (\<lambda>m. m)"
  by (simp add: range_order_ok_def)

lemma range_order_rev: "range_order_ok rev"
  by (simp add: range_order_ok_def)

text \<open>
  A list collected while ranging over a map and then sorted does not depend on the order of the
  iteration.
\<close>

lemma sorted_collect_order_irrelevant [go_map]:
  assumes "range_order_ok ord"
  shows "sort (map f (filter P (ord m))) = sort (map f (filter P m))"
proof (rule properties_for_sort)
  show "mset (sort (map f (filter P m))) = mset (map f (filter P (ord m)))"
    using assms by (simp add: range_order_ok_def)
qed simp

section \<open>Lemmas on strings\<close>

lemma replace_char_append [simp]:
  "replace_char c r (xs @ ys) = replace_char c r xs @ replace_char c r ys"
  by (induction xs) auto

lemma replace_char_absent [simp]: "c \<notin> set xs \<Longrightarrow> replace_char c r xs = xs"
  by (induction xs) auto

lemma Join_single [simp]: "Join [x] sep = x"
  by simp

lemma Join_Cons2 [simp]: "Join (x # y # ys) sep = x @ sep @ Join (y # ys) sep"
  by simp

declare Join.simps(2) [simp del]

lemma HasPrefix_append [simp]: "HasPrefix (p @ s) p"
  by (simp add: HasPrefix_def)

lemma HasPrefix_iff: "HasPrefix s p \<longleftrightarrow> (\<exists>t. s = p @ t)"
proof
  assume "HasPrefix s p"
  then have "s = p @ drop (length p) s"
    by (metis HasPrefix_def append_take_drop_id)
  then show "\<exists>t. s = p @ t" ..
qed auto

lemma Contains_unfold: "Contains s p \<longleftrightarrow> (\<exists>n \<le> length s. HasPrefix (drop n s) p)"
proof (induction s)
  case (Cons c cs)
  have "(\<exists>n \<le> length (c # cs). HasPrefix (drop n (c # cs)) p) \<longleftrightarrow>
        HasPrefix (c # cs) p \<or> (\<exists>n \<le> length cs. HasPrefix (drop n cs) p)"
    by (metis Suc_le_mono drop0 drop_Suc_Cons length_Cons not0_implies_Suc zero_le)
  with Cons.IH show ?case by simp
qed (auto simp: HasPrefix_def)

lemma Contains_iff: "Contains s p \<longleftrightarrow> (\<exists>a b. s = a @ p @ b)"
proof
  assume "Contains s p"
  then obtain n where "HasPrefix (drop n s) p" by (auto simp: Contains_unfold)
  then obtain b where "drop n s = p @ b" by (auto simp: HasPrefix_iff)
  then have "s = take n s @ p @ b" by (metis append_take_drop_id)
  then show "\<exists>a b. s = a @ p @ b" by blast
next
  assume "\<exists>a b. s = a @ p @ b"
  then obtain a b where "s = a @ p @ b" by blast
  then have "length a \<le> length s" and "HasPrefix (drop (length a) s) p" by simp_all
  then show "Contains s p" by (auto simp: Contains_unfold)
qed

lemma Contains_append: "Contains s p \<Longrightarrow> Contains (a @ s @ b) p"
  unfolding Contains_iff by (metis append.assoc)

lemma nat_digits_chars: "set (nat_digits n) \<subseteq> set ''0123456789''"
proof (induction n rule: nat_digits.induct)
  case (1 n)
  have digit: "''0123456789'' ! k \<in> set ''0123456789''" if "k < 10" for k :: nat
    using that by (intro nth_mem) simp
  show ?case
  proof (cases "n < 10")
    case True
    then show ?thesis using digit [of n] by (subst nat_digits.simps) simp
  next
    case False
    then show ?thesis using 1 [OF False] digit [of "n mod 10"]
      by (subst nat_digits.simps) simp
  qed
qed

lemma nat_digits_nonempty [simp]: "nat_digits n \<noteq> []"
  by (subst nat_digits.simps) simp

end
