(* ===== verification/Sql_Dialect.thy ===== *)
theory Sql_Dialect
  imports Op_Prelude
begin

text \<open>
  The SQL dialects of \<^verbatim>\<open>internal/adapter/sqlbuilder/dialect.go\<close>: how identifiers and string
  literals are quoted. The first section is the specification the quoting is judged against, a
  reader of SQL's lexical structure; the second holds the code's escaping functions; the third
  states the contract of the \<^verbatim>\<open>Dialect\<close> interface as a locale and interprets it on every
  dialect that meets it.
\<close>

datatype dialect = PgDialect | MySQLDialect | ClickHouseDialect

section \<open>A reader for SQL tokens\<close>

text \<open>
  The reader is a specification, not code of the repository: it is the lexical level of the three
  servers, restricted to what a builder's statement may hold. Words, quoted identifiers, string
  literals and single-character symbols are tokens. Comment openers, dollar quotes, semicolons
  inside a word and escapes other than a doubled quote or an escaped backslash are outside the
  fragment and make the reader fail, so a statement that is read holds none of them.
  A backslash escapes in MySQL and ClickHouse string literals, and in ClickHouse also between
  the quotes of an identifier.
\<close>

datatype sql_token = Word string | QIdent string | StrLit string | Sym char

datatype lex_mode =
    Start
  | InWord string
  | Dash
  | InQuote bool string
  | InEscape bool string
  | EndQuote bool string

definition ident_quote :: "dialect \<Rightarrow> char" where
  "ident_quote d = (case d of PgDialect \<Rightarrow> CHR 0x22 | _ \<Rightarrow> CHR 0x60)"

definition quote_char :: "dialect \<Rightarrow> bool \<Rightarrow> char" where
  "quote_char d ident = (if ident then ident_quote d else CHR 0x27)"

definition backslash_escapes :: "dialect \<Rightarrow> bool \<Rightarrow> bool" where
  "backslash_escapes d ident =
     (case d of PgDialect \<Rightarrow> False | MySQLDialect \<Rightarrow> \<not> ident | ClickHouseDialect \<Rightarrow> True)"

definition quote_token :: "bool \<Rightarrow> string \<Rightarrow> sql_token" where
  "quote_token ident s = (if ident then QIdent s else StrLit s)"

definition word_char :: "char \<Rightarrow> bool" where
  "word_char c \<longleftrightarrow> (CHR ''a'' \<le> c \<and> c \<le> CHR ''z'') \<or> (CHR ''A'' \<le> c \<and> c \<le> CHR ''Z'') \<or>
     (CHR ''0'' \<le> c \<and> c \<le> CHR ''9'') \<or> c = CHR ''_''"

definition lex_start :: "dialect \<Rightarrow> char \<Rightarrow> (lex_mode \<times> sql_token list) option" where
  "lex_start d c =
     (if is_space c then Some (Start, [])
      else if word_char c then Some (InWord [c], [])
      else if c = ident_quote d then Some (InQuote True [], [])
      else if c = CHR 0x27 then Some (InQuote False [], [])
      else if c = CHR ''-'' then Some (Dash, [])
      else if c \<in> set ''.,*=@();'' then Some (Start, [Sym c])
      else None)"

definition prepend :: "sql_token list \<Rightarrow> (lex_mode \<times> sql_token list) option
    \<Rightarrow> (lex_mode \<times> sql_token list) option" where
  "prepend ts r = map_option (\<lambda>(m, us). (m, ts @ us)) r"

fun lex_step :: "dialect \<Rightarrow> lex_mode \<Rightarrow> char \<Rightarrow> (lex_mode \<times> sql_token list) option" where
  "lex_step d Start c = lex_start d c"
| "lex_step d (InWord w) c =
     (if word_char c then Some (InWord (w @ [c]), [])
      else if c = ident_quote d \<or> c = CHR 0x27 then None
      else prepend [Word w] (lex_start d c))"
| "lex_step d Dash c = (if c = CHR ''-'' then None else prepend [Sym CHR ''-''] (lex_start d c))"
| "lex_step d (InQuote i s) c =
     (if c = quote_char d i then Some (EndQuote i s, [])
      else if backslash_escapes d i \<and> c = CHR 0x5C then Some (InEscape i s, [])
      else Some (InQuote i (s @ [c]), []))"
| "lex_step d (InEscape i s) c =
     (if c = CHR 0x5C \<or> c = quote_char d i then Some (InQuote i (s @ [c]), []) else None)"
| "lex_step d (EndQuote i s) c =
     (if c = quote_char d i then Some (InQuote i (s @ [c]), [])
      else prepend [quote_token i s] (lex_start d c))"

primrec lex_run :: "dialect \<Rightarrow> lex_mode \<Rightarrow> string \<Rightarrow> (lex_mode \<times> sql_token list) option" where
  "lex_run d m [] = Some (m, [])"
| "lex_run d m (c # cs) =
     (case lex_step d m c of None \<Rightarrow> None
      | Some (m', ts) \<Rightarrow> prepend ts (lex_run d m' cs))"

text \<open>
  The tokens of a whole statement: the end of the input closes the last token, as a space does.
\<close>

definition sql_lex :: "dialect \<Rightarrow> string \<Rightarrow> sql_token list option" where
  "sql_lex d s = (case lex_run d Start (s @ '' '') of
      Some (Start, ts) \<Rightarrow> Some ts | _ \<Rightarrow> None)"

section \<open>The escaping functions of the dialects\<close>

definition EscapeIdentifier :: "dialect \<Rightarrow> string \<Rightarrow> string" where
  "EscapeIdentifier d s = (case d of
      PgDialect \<Rightarrow> [CHR 0x22] @ replace_char (CHR 0x22) [CHR 0x22, CHR 0x22] s @ [CHR 0x22]
    | MySQLDialect \<Rightarrow> [CHR 0x60] @ replace_char (CHR 0x60) [CHR 0x60, CHR 0x60] s @ [CHR 0x60]
    | ClickHouseDialect \<Rightarrow>
        [CHR 0x60] @ replace_char (CHR 0x60) [CHR 0x60, CHR 0x60] s @ [CHR 0x60])"

definition EscapeLiteral :: "dialect \<Rightarrow> string \<Rightarrow> string" where
  "EscapeLiteral d s = (case d of
      PgDialect \<Rightarrow> [CHR 0x27] @ replace_char (CHR 0x27) [CHR 0x27, CHR 0x27] s @ [CHR 0x27]
    | MySQLDialect \<Rightarrow>
        (let escaped = replace_char (CHR 0x27) [CHR 0x27, CHR 0x27] s;
             escaped = replace_char (CHR 0x5C) [CHR 0x5C, CHR 0x5C] escaped
         in [CHR 0x27] @ escaped @ [CHR 0x27])
    | ClickHouseDialect \<Rightarrow>
        (let escaped = replace_char (CHR 0x27) [CHR 0x27, CHR 0x27] s;
             escaped = replace_char (CHR 0x5C) [CHR 0x5C, CHR 0x5C] escaped
         in [CHR 0x27] @ escaped @ [CHR 0x27]))"

section \<open>How the reader composes\<close>

lemma prepend_simps [simp]:
  "prepend ts None = None"
  "prepend ts (Some (m, us)) = Some (m, ts @ us)"
  "prepend [] r = r"
  "prepend ts (prepend us r) = prepend (ts @ us) r"
  by (cases r; auto simp: prepend_def)+

lemma prepend_eq_Some:
  "prepend ts r = Some (m, vs) \<longleftrightarrow> (\<exists>us. r = Some (m, us) \<and> vs = ts @ us)"
  by (cases r) (auto simp: prepend_def)

lemma lex_run_append:
  "lex_run d m (s @ t) =
     (case lex_run d m s of None \<Rightarrow> None | Some (m', ts) \<Rightarrow> prepend ts (lex_run d m' t))"
proof (induction s arbitrary: m)
  case (Cons c cs)
  then show ?case by (auto split: option.splits prod.splits)
qed simp

text \<open>The reader over a string of known characters, by rewriting.\<close>

lemmas lex_eval =
  lex_start_def is_space_def word_char_def ident_quote_def quote_char_def

definition lexes :: "dialect \<Rightarrow> string \<Rightarrow> sql_token list \<Rightarrow> bool" where
  "lexes d s ts \<longleftrightarrow> lex_run d Start (s @ '' '') = Some (Start, ts)"

lemma lexes_sql_lex: "lexes d s ts \<Longrightarrow> sql_lex d s = Some ts"
  by (simp add: lexes_def sql_lex_def)

lemma lexes_app:
  assumes "lexes d a ta" and "lexes d b tb"
  shows "lexes d (a @ CHR '' '' # b) (ta @ tb)"
proof -
  have "lex_run d Start ((a @ '' '') @ (b @ '' '')) = Some (Start, ta @ tb)"
    unfolding lex_run_append [of d Start "a @ '' ''"]
    using assms by (simp add: lexes_def)
  then show ?thesis by (simp add: lexes_def)
qed

lemma lexes_Nil: "lexes d [] []"
  by (simp add: lexes_def lex_eval)

lemma lexes_unique: "lexes d s ts \<Longrightarrow> lexes d s us \<Longrightarrow> ts = us"
  by (simp add: lexes_def)

lemma doubled_quote_read:
  assumes "q = quote_char d i" and "q \<noteq> CHR 0x5C" 
    and "\<not> backslash_escapes d i \<or> CHR 0x5C \<notin> set x"
  shows "lex_run d (InQuote i acc) (replace_char q [q, q] x @ rest) =
         lex_run d (InQuote i (acc @ x)) rest"
  using assms(3)
proof (induction x arbitrary: acc)
  case (Cons c cs)
  then have "\<not> backslash_escapes d i \<or> c \<noteq> CHR 0x5C" by auto
  with Cons show ?case using assms(1,2) by auto
qed simp

lemma doubled_escaped_read:
  assumes "q = quote_char d i" and "q \<noteq> CHR 0x5C" and "backslash_escapes d i"
  shows "lex_run d (InQuote i acc)
           (replace_char (CHR 0x5C) [CHR 0x5C, CHR 0x5C] (replace_char q [q, q] x) @ rest) =
         lex_run d (InQuote i (acc @ x)) rest"
  using assms by (induction x arbitrary: acc) auto

section \<open>The contract of a quoting function\<close>

text \<open>
  What the builders rely on: from the start of a token the reader takes \<^verbatim>\<open>esc x\<close> as exactly
  one quoted token with content \<open>x\<close>, whatever \<open>x\<close> holds and whatever follows.
\<close>

locale lexical_quote =
  fixes d :: dialect and ident :: bool and esc :: "string \<Rightarrow> string"
  assumes reads: "lex_run d Start (esc x @ rest) = lex_run d (EndQuote ident x) rest"
begin

lemma lexes_esc: "lexes d (esc x) [quote_token ident x]"
  using reads [of x "'' ''"] by (simp add: lexes_def lex_eval split: dialect.splits)

lemma esc_inject: "esc x = esc y \<longleftrightarrow> x = y"
proof
  assume "esc x = esc y"
  then have "[quote_token ident x] = [quote_token ident y]"
    using lexes_esc [of x] lexes_esc [of y] lexes_unique by metis
  then show "x = y" by (simp add: quote_token_def split: if_splits)
qed simp

end

interpretation pg_ident: lexical_quote PgDialect True "EscapeIdentifier PgDialect"
  by unfold_locales
    (simp add: EscapeIdentifier_def lex_eval doubled_quote_read backslash_escapes_def)

interpretation pg_literal: lexical_quote PgDialect False "EscapeLiteral PgDialect"
  by unfold_locales
    (simp add: EscapeLiteral_def lex_eval doubled_quote_read backslash_escapes_def)

interpretation mysql_ident: lexical_quote MySQLDialect True "EscapeIdentifier MySQLDialect"
  by unfold_locales
    (simp add: EscapeIdentifier_def lex_eval doubled_quote_read backslash_escapes_def)

interpretation mysql_literal: lexical_quote MySQLDialect False "EscapeLiteral MySQLDialect"
  by unfold_locales
    (simp add: EscapeLiteral_def lex_eval doubled_escaped_read backslash_escapes_def)

interpretation clickhouse_literal:
    lexical_quote ClickHouseDialect False "EscapeLiteral ClickHouseDialect"
  by unfold_locales
    (simp add: EscapeLiteral_def lex_eval doubled_escaped_read backslash_escapes_def)

text \<open>
  ClickHouse identifiers meet the contract only for names without a backslash: the code doubles
  the backtick and leaves the backslash, which the server reads as an escape.
\<close>

lemma clickhouse_ident_reads:
  assumes "CHR 0x5C \<notin> set x"
  shows "lex_run ClickHouseDialect Start (EscapeIdentifier ClickHouseDialect x @ rest) =
         lex_run ClickHouseDialect (EndQuote True x) rest"
  using assms by (simp add: EscapeIdentifier_def lex_eval doubled_quote_read)

lemmas quote_reads =
  pg_ident.reads pg_literal.reads mysql_ident.reads mysql_literal.reads clickhouse_literal.reads

section \<open>Reading words, numbers and lists\<close>

lemma ident_reads:
  "d \<noteq> ClickHouseDialect \<Longrightarrow>
   lex_run d Start (EscapeIdentifier d x @ rest) = lex_run d (EndQuote True x) rest"
  by (cases d) (simp_all add: quote_reads)

lemma literal_reads:
  "lex_run d Start (EscapeLiteral d x @ rest) = lex_run d (EndQuote False x) rest"
  by (cases d) (simp_all add: quote_reads)

lemmas esc_reads = ident_reads literal_reads

lemma esc_nonempty [simp]: "EscapeIdentifier d x \<noteq> []" "EscapeLiteral d x \<noteq> []"
  by (cases d; simp add: EscapeIdentifier_def EscapeLiteral_def Let_def)+

lemma lexes_ident: "d \<noteq> ClickHouseDialect \<Longrightarrow> lexes d (EscapeIdentifier d x) [QIdent x]"
  by (cases d) (simp_all add: lexes_def esc_reads lex_eval quote_token_def)

lemma lexes_app_opt:
  assumes "lexes d a ta" and "lexes d b tb"
  shows "lexes d (a @ (if P then CHR '' '' # b else [])) (ta @ (if P then tb else []))"
  using lexes_app [OF assms] assms(1) by simp

fun int_tokens :: "int \<Rightarrow> sql_token list" where
  "int_tokens n = (if n < 0 then [Sym CHR ''-'', Word (nat_digits (nat (- n)))]
                   else [Word (nat_digits (nat n))])"

lemma word_run:
  assumes "\<forall>c \<in> set w. word_char c"
  shows "lex_run d (InWord v) (w @ rest) = lex_run d (InWord (v @ w)) rest"
  using assms by (induction w arbitrary: v) auto

lemma word_char_not_space: "word_char c \<Longrightarrow> \<not> is_space c"
  by (auto simp: word_char_def is_space_def)

lemma word_start: "word_char c \<Longrightarrow> lex_run d Start (c # rest) = lex_run d (InWord [c]) rest"
  by (simp add: lex_start_def word_char_not_space)

lemma lexes_word:
  assumes "w \<noteq> []" and "\<forall>c \<in> set w. word_char c"
  shows "lexes d w [Word w]"
proof -
  from assms obtain c cs where w: "w = c # cs" and "word_char c" "\<forall>c \<in> set cs. word_char c"
    by (cases w) auto
  then have "lex_run d Start (w @ '' '') = lex_run d (InWord w) '' ''"
    using word_run [of cs d "[c]" "'' ''"] by (simp add: word_start del: lex_run.simps)
  then show ?thesis by (cases d) (simp_all add: lexes_def lex_eval)
qed

lemma digits_word: "\<forall>c \<in> set (nat_digits n). word_char c"
proof
  fix c assume "c \<in> set (nat_digits n)"
  then have "c \<in> set ''0123456789''" using nat_digits_chars by blast
  then show "word_char c" by (auto simp: word_char_def)
qed

lemma lexes_digits: "lexes d (nat_digits n) [Word (nat_digits n)]"
  by (intro lexes_word digits_word) simp

lemma lexes_int: "lexes d (FormatInt n) (int_tokens n)"
proof (cases "n < 0")
  case True
  obtain c cs where cs: "nat_digits (nat (- n)) = c # cs" "word_char c"
    using digits_word [of "nat (- n)"] nat_digits_nonempty [of "nat (- n)"]
    by (metis list.exhaust list.set_intros(1))
  then have "c \<noteq> CHR ''-''" by (auto simp: word_char_def)
  have "lex_run d Start ((c # cs) @ '' '') = Some (Start, [Word (c # cs)])"
    using lexes_digits [of d "nat (- n)"] by (simp add: lexes_def cs)
  with True cs(2) \<open>c \<noteq> CHR ''-''\<close> show ?thesis
    by (cases d)
      (auto simp: FormatInt_def cs(1) lexes_def lex_start_def [of _ "CHR ''-''"] is_space_def
        ident_quote_def word_char_def [of "CHR ''-''"] prepend_eq_Some split: option.splits)
next
  case False
  then show ?thesis by (simp add: FormatInt_def lexes_digits)
qed

lemma Join_cons: "xs \<noteq> [] \<Longrightarrow> Join (x # xs) sep = x @ sep @ Join xs sep"
  by (cases xs) simp_all

lemma lexes_join:
  "list_all2 (lexes d) ss tss \<Longrightarrow> lexes d (Join ss '' '') (concat tss)"
proof (induction ss tss rule: list_all2_induct)
  case Nil
  then show ?case by (simp add: lexes_Nil)
next
  case (Cons s ss ts tss)
  then show ?case
  proof (cases "ss = []")
    case False
    then show ?thesis using lexes_app [OF Cons(1,3)] by (simp add: Join_cons)
  qed (use Cons in simp)
qed

fun comma_idents :: "string list \<Rightarrow> sql_token list" where
  "comma_idents [] = []"
| "comma_idents [x] = [QIdent x]"
| "comma_idents (x # y # ys) = QIdent x # Sym CHR '','' # comma_idents (y # ys)"

lemma lexes_idents:
  assumes "d \<noteq> ClickHouseDialect"
  shows "lexes d (Join (map (EscapeIdentifier d) xs) '', '') (comma_idents xs)"
proof (induction xs rule: comma_idents.induct)
  case 1
  then show ?case by (simp add: lexes_Nil)
next
  case (2 x)
  then show ?case by (simp add: lexes_ident assms)
next
  case (3 x y ys)
  with assms show ?case
    by (cases d) (simp_all add: lexes_def ident_reads lex_eval quote_token_def)
qed

text \<open>Clause lists shared by the statement builders.\<close>

lemma lexes_literal: "lexes d (EscapeLiteral d x) [StrLit x]"
  by (cases d) (simp_all add: lexes_def esc_reads lex_eval quote_token_def)

lemma sql_lex_lexes: "sql_lex d s = Some ts \<longleftrightarrow> lexes d s ts"
  by (auto simp: sql_lex_def lexes_def split: option.splits lex_mode.splits)

abbreviation words_of :: "string list \<Rightarrow> sql_token list" where
  "words_of ws \<equiv> map Word ws"

definition with_opts :: "sql_token list list \<Rightarrow> sql_token list" where
  "with_opts oss = (if oss \<noteq> [] then Word ''WITH'' # concat oss else [])"

lemma lexes_with_opts:
  assumes "lexes d s ts" and "list_all2 (lexes d) oss tss"
  shows "lexes d (s @ (if oss \<noteq> [] then '' WITH '' @ Join oss '' '' else '''')) (ts @ with_opts tss)"
proof (cases "oss = []")
  case True
  with assms show ?thesis by (simp add: with_opts_def)
next
  case False
  then have "tss \<noteq> []" using assms(2) by (auto simp: list_all2_Nil2)
  have "lexes d (s @ CHR '' '' # ''WITH'' @ CHR '' '' # Join oss '' '') (ts @ [Word ''WITH''] @ concat tss)"
    using assms by (intro lexes_app lexes_join) (simp_all add: lexes_word word_char_def)
  with False \<open>tss \<noteq> []\<close> show ?thesis by (simp add: with_opts_def)
qed

lemma lexes_opts:
  assumes "lexes d s ts" and "list_all2 (lexes d) oss tss"
  shows "lexes d (s @ (if oss \<noteq> [] then '' '' @ Join oss '' '' else '''')) (ts @ concat tss)"
proof (cases "oss = []")
  case False
  then show ?thesis using lexes_app [OF assms(1) lexes_join [OF assms(2)]] by simp
qed (use assms in simp)

lemma lexes_app_if:
  assumes "lexes d a ta" and "lexes d b tb" and "lexes d c tc"
  shows "lexes d (a @ CHR '' '' # (if P then b @ '' '' else []) @ c) (ta @ (if P then tb else []) @ tc)"
  using lexes_app [OF assms(1) lexes_app [OF assms(2,3)]] lexes_app [OF assms(1,3)] by simp

end
