(* ===== verification/Sql_Grant_Spec.thy ===== *)
theory Sql_Grant_Spec
  imports Sql_Grant
begin

text \<open>
  What \<^verbatim>\<open>grant.go\<close> promises. An abstract builder follows the same fluent calls but keeps the
  tokens of the target and of the grantee instead of text. The refinement theorem says that after
  any sequence of calls the code's \<^verbatim>\<open>Build\<close> fails exactly as the abstract one does, and
  otherwise returns a text that the SQL reader takes as the abstract tokens. Injection
  safety is a corollary: the bare words of a built statement are from a fixed vocabulary.
\<close>

section \<open>The fluent calls\<close>

datatype grant_call =
    CGrant "string list" | CRevoke "string list" | CGrantRole string | CRevokeRole string
  | CAlterDefaultPrivileges string string
  | COnDatabase string | COnSchema string | COnTable string string | COnSequence string string
  | COnFunction string string | COnAllTablesInSchema string | COnAllSequencesInSchema string
  | COnGlobal | COnMySQLTable string string | COnProcedure string string
  | COnMySQLFunction string string
  | COnTables | COnSequences | COnFunctions | COnTypes | COnSchemas
  | CTo string | CFrom string | CToUser string string | CFromUser string string
  | CToLiteral string | CFromLiteral string | CWithGrantOption

fun do_call :: "grant_call \<Rightarrow> GrantBuilder \<Rightarrow> GrantBuilder" where
  "do_call (CGrant ps) b = Grant ps b"
| "do_call (CRevoke ps) b = Revoke ps b"
| "do_call (CGrantRole r) b = GrantRole r b"
| "do_call (CRevokeRole r) b = RevokeRole r b"
| "do_call (CAlterDefaultPrivileges r s) b = AlterDefaultPrivileges r s b"
| "do_call (COnDatabase n) b = OnDatabase n b"
| "do_call (COnSchema n) b = OnSchema n b"
| "do_call (COnTable s n) b = OnTable s n b"
| "do_call (COnSequence s n) b = OnSequence s n b"
| "do_call (COnFunction s n) b = OnFunction s n b"
| "do_call (COnAllTablesInSchema n) b = OnAllTablesInSchema n b"
| "do_call (COnAllSequencesInSchema n) b = OnAllSequencesInSchema n b"
| "do_call COnGlobal b = OnGlobal b"
| "do_call (COnMySQLTable s n) b = OnMySQLTable s n b"
| "do_call (COnProcedure s n) b = OnProcedure s n b"
| "do_call (COnMySQLFunction s n) b = OnMySQLFunction s n b"
| "do_call COnTables b = OnTables b"
| "do_call COnSequences b = OnSequences b"
| "do_call COnFunctions b = OnFunctions b"
| "do_call COnTypes b = OnTypes b"
| "do_call COnSchemas b = OnSchemas b"
| "do_call (CTo g) b = To g b"
| "do_call (CFrom g) b = From g b"
| "do_call (CToUser u h) b = ToUser u h b"
| "do_call (CFromUser u h) b = FromUser u h b"
| "do_call (CToLiteral g) b = ToLiteral g b"
| "do_call (CFromLiteral g) b = FromLiteral g b"
| "do_call CWithGrantOption b = WithGrantOption b"

definition build_calls :: "dialect \<Rightarrow> grant_call list \<Rightarrow> GrantBuilder" where
  "build_calls d cs = fold do_call cs (empty_grant_builder d)"

section \<open>The abstract builder\<close>

record agrant =
  ag_action :: grantAction
  ag_privileges :: "string list"
  ag_target :: "sql_token list option"
  ag_grantee :: "sql_token list option"
  ag_role :: string
  ag_option :: bool
  ag_forRole :: string
  ag_schema :: string
  ag_objType :: "string option"

definition ag_init :: agrant where
  "ag_init = \<lparr>ag_action = actionGrant, ag_privileges = [], ag_target = None, ag_grantee = None,
     ag_role = '''', ag_option = False, ag_forRole = '''', ag_schema = '''', ag_objType = None\<rparr>"

definition dotted :: "string \<Rightarrow> string \<Rightarrow> sql_token list" where
  "dotted s n = (if s \<noteq> '''' then [QIdent s, Sym CHR ''.'', QIdent n] else [QIdent n])"

definition pair_name :: "string \<Rightarrow> string \<Rightarrow> sql_token list" where
  "pair_name s n = [QIdent s, Sym CHR ''.'', QIdent n]"

definition user_at :: "string \<Rightarrow> string \<Rightarrow> sql_token list" where
  "user_at u h = [StrLit u, Sym CHR ''@'', StrLit h]"

abbreviation on_target :: "string list \<Rightarrow> sql_token list \<Rightarrow> agrant \<Rightarrow> agrant" where
  "on_target ws ts a \<equiv> a\<lparr>ag_target := Some (Word ''ON'' # map Word ws @ ts)\<rparr>"

fun ag_call :: "dialect \<Rightarrow> grant_call \<Rightarrow> agrant \<Rightarrow> agrant" where
  "ag_call d (CGrant ps) a = a\<lparr>ag_privileges := ps,
     ag_action := (if ag_action a = actionAlterDefaultGrant then ag_action a else actionGrant)\<rparr>"
| "ag_call d (CRevoke ps) a = a\<lparr>ag_action := actionRevoke, ag_privileges := ps\<rparr>"
| "ag_call d (CGrantRole r) a = a\<lparr>ag_action := actionGrantRole, ag_role := r\<rparr>"
| "ag_call d (CRevokeRole r) a = a\<lparr>ag_action := actionRevokeRole, ag_role := r\<rparr>"
| "ag_call d (CAlterDefaultPrivileges r s) a =
     a\<lparr>ag_action := actionAlterDefaultGrant, ag_forRole := r, ag_schema := s\<rparr>"
| "ag_call d (COnDatabase n) a =
     (if d = MySQLDialect then on_target [] [QIdent n, Sym CHR ''.'', Sym CHR ''*''] a
      else on_target [''DATABASE''] [QIdent n] a)"
| "ag_call d (COnSchema n) a = on_target [''SCHEMA''] [QIdent n] a"
| "ag_call d (COnTable s n) a = on_target [''TABLE''] (dotted s n) a"
| "ag_call d (COnSequence s n) a = on_target [''SEQUENCE''] (dotted s n) a"
| "ag_call d (COnFunction s n) a = on_target [''FUNCTION''] (dotted s n) a"
| "ag_call d (COnAllTablesInSchema n) a =
     on_target [''ALL'', ''TABLES'', ''IN'', ''SCHEMA''] [QIdent n] a"
| "ag_call d (COnAllSequencesInSchema n) a =
     on_target [''ALL'', ''SEQUENCES'', ''IN'', ''SCHEMA''] [QIdent n] a"
| "ag_call d COnGlobal a = on_target [] [Sym CHR ''*'', Sym CHR ''.'', Sym CHR ''*''] a"
| "ag_call d (COnMySQLTable s n) a = on_target [] (pair_name s n) a"
| "ag_call d (COnProcedure s n) a = on_target [''PROCEDURE''] (pair_name s n) a"
| "ag_call d (COnMySQLFunction s n) a = on_target [''FUNCTION''] (pair_name s n) a"
| "ag_call d COnTables a = a\<lparr>ag_objType := Some ''TABLES''\<rparr>"
| "ag_call d COnSequences a = a\<lparr>ag_objType := Some ''SEQUENCES''\<rparr>"
| "ag_call d COnFunctions a = a\<lparr>ag_objType := Some ''FUNCTIONS''\<rparr>"
| "ag_call d COnTypes a = a\<lparr>ag_objType := Some ''TYPES''\<rparr>"
| "ag_call d COnSchemas a = a\<lparr>ag_objType := Some ''SCHEMAS''\<rparr>"
| "ag_call d (CTo g) a = a\<lparr>ag_grantee := Some [QIdent g]\<rparr>"
| "ag_call d (CFrom g) a = a\<lparr>ag_grantee := Some [QIdent g]\<rparr>"
| "ag_call d (CToUser u h) a = a\<lparr>ag_grantee := Some (user_at u h)\<rparr>"
| "ag_call d (CFromUser u h) a = a\<lparr>ag_grantee := Some (user_at u h)\<rparr>"
| "ag_call d (CToLiteral g) a = a\<lparr>ag_grantee := Some [StrLit g]\<rparr>"
| "ag_call d (CFromLiteral g) a = a\<lparr>ag_grantee := Some [StrLit g]\<rparr>"
| "ag_call d CWithGrantOption a = a\<lparr>ag_option := True\<rparr>"

definition ag_calls :: "dialect \<Rightarrow> grant_call list \<Rightarrow> agrant" where
  "ag_calls d cs = fold (ag_call d) cs ag_init"

definition privilege_words :: "string \<Rightarrow> sql_token list" where
  "privilege_words p = map Word (Split p '' '')"

fun privilege_tokens :: "string list \<Rightarrow> sql_token list" where
  "privilege_tokens [] = []"
| "privilege_tokens [p] = privilege_words p"
| "privilege_tokens (p # q # ps) = privilege_words p @ Sym CHR '','' # privilege_tokens (q # ps)"

definition ag_grant_revoke ::
    "dialect \<Rightarrow> string \<Rightarrow> string \<Rightarrow> bool \<Rightarrow> agrant \<Rightarrow> sql_error + sql_token list" where
  "ag_grant_revoke d verb prep opt a =
     (case ValidatePrivileges (ag_privileges a) (ValidPrivileges d) of
        Some e \<Rightarrow> Inl e
      | None \<Rightarrow>
         (case ag_target a of None \<Rightarrow> Inl NoTarget | Some tgt \<Rightarrow>
         (case ag_grantee a of None \<Rightarrow> Inl NoGrantee | Some g \<Rightarrow>
            Inr (Word verb # privilege_tokens (normalizePrivileges (ag_privileges a)) @ tgt @
                 Word prep # g @
                 (if opt then [Word ''WITH'', Word ''GRANT'', Word ''OPTION''] else [])))))"

definition ag_role_grant :: "string \<Rightarrow> string \<Rightarrow> agrant \<Rightarrow> sql_error + sql_token list" where
  "ag_role_grant verb prep a =
     (if ag_role a = '''' then Inl NoRole
      else (case ag_grantee a of None \<Rightarrow> Inl NoGrantee
        | Some g \<Rightarrow> Inr ([Word verb, QIdent (ag_role a), Word prep] @ g)))"

definition ag_default :: "dialect \<Rightarrow> agrant \<Rightarrow> sql_error + sql_token list" where
  "ag_default d a =
     (case ValidatePrivileges (ag_privileges a) (ValidPrivileges d) of
        Some e \<Rightarrow> Inl e
      | None \<Rightarrow>
         (case ag_objType a of None \<Rightarrow> Inl NoObjectType | Some ty \<Rightarrow>
         (case ag_grantee a of None \<Rightarrow> Inl NoGrantee | Some g \<Rightarrow>
            Inr ([Word ''ALTER'', Word ''DEFAULT'', Word ''PRIVILEGES''] @
                 (if ag_forRole a \<noteq> '''' then [Word ''FOR'', Word ''ROLE'', QIdent (ag_forRole a)] else []) @
                 (if ag_schema a \<noteq> '''' then [Word ''IN'', Word ''SCHEMA'', QIdent (ag_schema a)] else []) @
                 Word ''GRANT'' # privilege_tokens (normalizePrivileges (ag_privileges a)) @
                 [Word ''ON'', Word ty, Word ''TO''] @ g))))"

definition ag_build :: "dialect \<Rightarrow> agrant \<Rightarrow> sql_error + sql_token list" where
  "ag_build d a = (case ag_action a of
      actionGrant \<Rightarrow> ag_grant_revoke d ''GRANT'' ''TO'' (ag_option a) a
    | actionRevoke \<Rightarrow> ag_grant_revoke d ''REVOKE'' ''FROM'' False a
    | actionGrantRole \<Rightarrow> ag_role_grant ''GRANT'' ''TO'' a
    | actionRevokeRole \<Rightarrow> ag_role_grant ''REVOKE'' ''FROM'' a
    | actionAlterDefaultGrant \<Rightarrow> ag_default d a)"

section \<open>Reading the pieces of a statement\<close>

lemma privileges_checked:
  "list_all (\<lambda>p. case lex_run d Start p of
      Some (InWord w, ts) \<Rightarrow> ts @ [Word w] = privilege_words p | _ \<Rightarrow> False) (ValidPrivileges d)"
  by (cases d) (simp only:, code_simp)+

lemma privilege_read:
  assumes "p \<in> set (ValidPrivileges d)"
  obtains w ts where "lex_run d Start p = Some (InWord w, ts)" "privilege_words p = ts @ [Word w]"
proof -
  have "case lex_run d Start p of
      Some (InWord w, ts) \<Rightarrow> ts @ [Word w] = privilege_words p | _ \<Rightarrow> False"
    using privileges_checked [of d] assms by (simp add: list_all_iff)
  then show thesis
    using that by (auto split: option.splits prod.splits lex_mode.splits)
qed

lemma privilege_read_space:
  assumes "p \<in> set (ValidPrivileges d)"
  shows "lexes d p (privilege_words p)"
  by (rule privilege_read [OF assms]; cases d; simp add: lexes_def lex_run_append lex_eval)

lemma privilege_read_comma:
  assumes "p \<in> set (ValidPrivileges d)"
  shows "lex_run d Start (p @ '', '' @ rest) =
         prepend (privilege_words p @ [Sym CHR '','']) (lex_run d Start rest)"
  by (rule privilege_read [OF assms]; cases d; simp add: lex_run_append lex_eval)

lemma privileges_read:
  assumes "ps \<noteq> []" and "set ps \<subseteq> set (ValidPrivileges d)"
  shows "lexes d (Join ps '', '') (privilege_tokens ps)"
  using assms
proof (induction ps rule: privilege_tokens.induct)
  case (2 p)
  then show ?case by (simp add: privilege_read_space)
next
  case (3 p q ps)
  then have "lexes d (Join (q # ps) '', '') (privilege_tokens (q # ps))" by simp
  with 3 show ?case
    using privilege_read_comma [of p d "Join (q # ps) '', '' @ '' ''"] by (simp add: lexes_def)
qed simp

lemma check_privileges_None:
  "check_privileges ps al = None \<longleftrightarrow> set (normalizePrivileges ps) \<subseteq> set al"
  by (induction ps) (auto simp: normalizePrivileges_def Let_def)

lemma validated_privileges:
  assumes "ValidatePrivileges ps (ValidPrivileges d) = None"
  shows "lexes d (Join (normalizePrivileges ps) '', '') (privilege_tokens (normalizePrivileges ps))"
proof (rule privileges_read)
  show "normalizePrivileges ps \<noteq> []"
    using assms by (auto simp: ValidatePrivileges_def normalizePrivileges_def split: if_splits)
  show "set (normalizePrivileges ps) \<subseteq> set (ValidPrivileges d)"
    using assms by (auto simp: ValidatePrivileges_def check_privileges_None [symmetric] split: if_splits)
qed

section \<open>Simulation\<close>

definition reads_as :: "dialect \<Rightarrow> string \<Rightarrow> sql_token list option \<Rightarrow> bool" where
  "reads_as d s r \<longleftrightarrow> (case r of None \<Rightarrow> s = '''' | Some ts \<Rightarrow> s \<noteq> '''' \<and> lexes d s ts)"

lemma reads_as_simps [simp]:
  "reads_as d s None \<longleftrightarrow> s = ''''"
  "reads_as d s (Some ts) \<longleftrightarrow> s \<noteq> '''' \<and> lexes d s ts"
  by (simp_all add: reads_as_def)

definition gb_sim :: "dialect \<Rightarrow> GrantBuilder \<Rightarrow> agrant \<Rightarrow> bool" where
  "gb_sim d b a \<longleftrightarrow>
     gb_dialect b = d \<and> gb_err b = None \<and> gb_action b = ag_action a \<and>
     gb_privileges b = ag_privileges a \<and> gb_role b = ag_role a \<and>
     gb_withGrantOption b = ag_option a \<and> gb_adpForRole b = ag_forRole a \<and>
     gb_adpSchema b = ag_schema a \<and>
     reads_as d (gb_target b) (ag_target a) \<and> reads_as d (gb_grantee b) (ag_grantee a) \<and>
     reads_as d (gb_adpObjType b) (map_option (\<lambda>w. [Word w]) (ag_objType a))"

lemmas builder_calls_def =
  Grant_def Revoke_def GrantRole_def RevokeRole_def AlterDefaultPrivileges_def OnDatabase_def
  OnSchema_def OnTable_def OnSequence_def OnFunction_def OnAllTablesInSchema_def
  OnAllSequencesInSchema_def OnGlobal_def OnMySQLTable_def OnProcedure_def OnMySQLFunction_def
  OnTables_def OnSequences_def OnFunctions_def OnTypes_def OnSchemas_def To_def From_def
  ToUser_def FromUser_def ToLiteral_def FromLiteral_def WithGrantOption_def

lemma gb_sim_init: "gb_sim d (empty_grant_builder d) ag_init"
  by (simp add: gb_sim_def empty_grant_builder_def ag_init_def)

lemma gb_sim_call:
  assumes "d \<noteq> ClickHouseDialect" and "gb_sim d b a"
  shows "gb_sim d (do_call c b) (ag_call d c a)"
  using assms
  by (cases c; cases d)
    (simp_all add: gb_sim_def builder_calls_def Let_def lexes_def lex_eval esc_reads dotted_def
      pair_name_def user_at_def quote_token_def)

lemma gb_sim_calls:
  assumes "d \<noteq> ClickHouseDialect"
  shows "gb_sim d (build_calls d cs) (ag_calls d cs)"
proof -
  have "gb_sim d (fold do_call cs b) (fold (ag_call d) cs a)" if "gb_sim d b a" for b a
    using that by (induction cs arbitrary: b a) (simp_all add: assms gb_sim_call)
  then show ?thesis by (simp add: build_calls_def ag_calls_def gb_sim_init)
qed

section \<open>Refinement\<close>

lemma lexes_words:
  "lexes d ''GRANT'' [Word ''GRANT'']" "lexes d ''REVOKE'' [Word ''REVOKE'']"
  "lexes d ''TO'' [Word ''TO'']" "lexes d ''FROM'' [Word ''FROM'']" "lexes d ''ON'' [Word ''ON'']"
  "lexes d ''WITH GRANT OPTION'' [Word ''WITH'', Word ''GRANT'', Word ''OPTION'']"
  "lexes d ''ALTER DEFAULT PRIVILEGES'' [Word ''ALTER'', Word ''DEFAULT'', Word ''PRIVILEGES'']"
  "lexes d ''FOR ROLE'' [Word ''FOR'', Word ''ROLE'']"
  "lexes d ''IN SCHEMA'' [Word ''IN'', Word ''SCHEMA'']"
  by (cases d; simp add: lexes_def lex_eval)+

definition built_as ::
    "dialect \<Rightarrow> sql_error + string \<Rightarrow> sql_error + sql_token list \<Rightarrow> bool" where
  "built_as d r t \<longleftrightarrow>
     (case r of Inl e \<Rightarrow> t = Inl e | Inr s \<Rightarrow> \<exists>ts. t = Inr ts \<and> lexes d s ts)"

lemma built_as_simps [simp]:
  "built_as d (Inl e) t \<longleftrightarrow> t = Inl e"
  "built_as d (Inr s) (Inr ts) \<longleftrightarrow> lexes d s ts"
  by (auto simp: built_as_def)

lemma grant_revoke_refines:
  assumes "gb_sim d b a" and "lexes d verb [Word verb]" and "lexes d prep [Word prep]"
  shows "built_as d (buildGrantRevoke verb prep b)
     (ag_grant_revoke d verb prep (ag_option a \<and> verb = ''GRANT'') a)"
proof (cases "ValidatePrivileges (ag_privileges a) (ValidPrivileges d)")
  case (Some e)
  with assms(1) show ?thesis
    by (simp add: buildGrantRevoke_def ag_grant_revoke_def gb_sim_def)
next
  case None
  note privs = validated_privileges [OF None]
  show ?thesis
  proof (cases "ag_target a"; cases "ag_grantee a")
    fix tgt g assume tg: "ag_target a = Some tgt" "ag_grantee a = Some g"
    then have "lexes d (gb_target b) tgt" and "lexes d (gb_grantee b) g"
      using assms(1) by (simp_all add: gb_sim_def)
    with privs assms(2,3) have "lexes d
        (verb @ CHR '' '' # Join (normalizePrivileges (ag_privileges a)) '', '' @ CHR '' '' #
         gb_target b @ CHR '' '' # prep @ CHR '' '' # gb_grantee b @
         (if ag_option a \<and> verb = ''GRANT'' then CHR '' '' # ''WITH GRANT OPTION'' else []))
        ([Word verb] @ privilege_tokens (normalizePrivileges (ag_privileges a)) @ tgt @ [Word prep] @
         g @ (if ag_option a \<and> verb = ''GRANT''
              then [Word ''WITH'', Word ''GRANT'', Word ''OPTION''] else []))"
      by (intro lexes_app lexes_app_opt lexes_words)
    with tg assms(1) None show ?thesis
      by (simp add: buildGrantRevoke_def ag_grant_revoke_def gb_sim_def Let_def)
  qed (use assms(1) None in \<open>simp_all add: buildGrantRevoke_def ag_grant_revoke_def gb_sim_def\<close>)
qed

lemma role_grant_refines:
  assumes "gb_sim d b a" and "d \<noteq> ClickHouseDialect"
    and "lexes d verb [Word verb]" and "lexes d prep [Word prep]"
  shows "built_as d (buildRoleGrant verb prep b) (ag_role_grant verb prep a)"
proof (cases "ag_grantee a")
  case (Some g)
  then have "lexes d (gb_grantee b) g" using assms(1) by (simp add: gb_sim_def)
  with assms(2-4) have "lexes d
      (verb @ CHR '' '' # EscapeIdentifier d (ag_role a) @ CHR '' '' # prep @ CHR '' '' # gb_grantee b)
      ([Word verb] @ [QIdent (ag_role a)] @ [Word prep] @ g)"
    by (intro lexes_app lexes_ident)
  with Some assms(1) show ?thesis
    by (simp add: buildRoleGrant_def ag_role_grant_def gb_sim_def)
qed (use assms(1) in \<open>simp add: buildRoleGrant_def ag_role_grant_def gb_sim_def\<close>)

lemma default_refines:
  assumes "gb_sim d b a" and d: "d \<noteq> ClickHouseDialect"
  shows "built_as d (buildAlterDefaultPrivileges b) (ag_default d a)"
proof (cases "ValidatePrivileges (ag_privileges a) (ValidPrivileges d)")
  case (Some e)
  with assms(1) show ?thesis
    by (simp add: buildAlterDefaultPrivileges_def ag_default_def gb_sim_def)
next
  case None
  note privs = validated_privileges [OF None]
  show ?thesis
  proof (cases "ag_objType a"; cases "ag_grantee a")
    fix ty g assume tg: "ag_objType a = Some ty" "ag_grantee a = Some g"
    then have ty: "lexes d (gb_adpObjType b) [Word ty]" and g: "lexes d (gb_grantee b) g"
      using assms(1) by (simp_all add: gb_sim_def)
    have "lexes d
        (((''ALTER DEFAULT PRIVILEGES'' @
           (if ag_forRole a \<noteq> '''' then CHR '' '' # ''FOR ROLE'' @ CHR '' '' # EscapeIdentifier d (ag_forRole a) else [])) @
           (if ag_schema a \<noteq> '''' then CHR '' '' # ''IN SCHEMA'' @ CHR '' '' # EscapeIdentifier d (ag_schema a) else [])) @
         CHR '' '' # ''GRANT'' @ CHR '' '' # Join (normalizePrivileges (ag_privileges a)) '', '' @ CHR '' '' #
         ''ON'' @ CHR '' '' # gb_adpObjType b @ CHR '' '' # ''TO'' @ CHR '' '' # gb_grantee b)
        ((([Word ''ALTER'', Word ''DEFAULT'', Word ''PRIVILEGES''] @
           (if ag_forRole a \<noteq> '''' then [Word ''FOR'', Word ''ROLE''] @ [QIdent (ag_forRole a)] else [])) @
           (if ag_schema a \<noteq> '''' then [Word ''IN'', Word ''SCHEMA''] @ [QIdent (ag_schema a)] else [])) @
         [Word ''GRANT''] @ privilege_tokens (normalizePrivileges (ag_privileges a)) @
         [Word ''ON''] @ [Word ty] @ [Word ''TO''] @ g)"
      using privs ty g d by (intro lexes_app lexes_app_opt lexes_words lexes_ident)
    with tg assms(1) None show ?thesis
      by (cases "ag_forRole a = []"; cases "ag_schema a = []")
        (simp_all add: buildAlterDefaultPrivileges_def ag_default_def gb_sim_def Let_def)
  qed (use assms(1) None in
      \<open>simp_all add: buildAlterDefaultPrivileges_def ag_default_def gb_sim_def\<close>)
qed

lemma build_refines:
  assumes "gb_sim d b a" and "d \<noteq> ClickHouseDialect"
  shows "built_as d (GrantBuilder_Build b) (ag_build d a)"
proof -
  have ab: "gb_action b = ag_action a" "gb_err b = None"
    using assms(1) by (simp_all add: gb_sim_def)
  show ?thesis
    using grant_revoke_refines [OF assms(1), of "''GRANT''" "''TO''"]
      grant_revoke_refines [OF assms(1), of "''REVOKE''" "''FROM''"]
      role_grant_refines [OF assms, of "''GRANT''" "''TO''"]
      role_grant_refines [OF assms, of "''REVOKE''" "''FROM''"] default_refines [OF assms]
    by (cases "ag_action a") (simp_all add: GrantBuilder_Build_def ag_build_def ab lexes_words)
qed

text \<open>
  C2: For PostgreSQL, CockroachDB and MySQL, after any sequence of fluent calls, \<^verbatim>\<open>Build\<close>
  returns an error exactly when the abstract builder does, the same one, and otherwise a statement
  whose tokens are the abstract builder's: every name the caller passed is one quoted token
  holding exactly that name.
\<close>

theorem grant_build_refines_tokens:
  assumes "d \<noteq> ClickHouseDialect"
  shows "case GrantBuilder_Build (build_calls d cs) of
      Inl e \<Rightarrow> ag_build d (ag_calls d cs) = Inl e
    | Inr s \<Rightarrow> \<exists>ts. ag_build d (ag_calls d cs) = Inr ts \<and> sql_lex d s = Some ts"
  using build_refines [OF gb_sim_calls [OF assms, of cs] assms]
  by (auto simp: built_as_def split: sum.splits dest: lexes_sql_lex)

theorem grant_build_refines_tokens_witness:
  "GrantBuilder_Build (build_calls PgDialect
      [CGrant [''select'', '' Insert ''], COnTable ''s'' ''t'', CTo ''u; DROP TABLE x''])
   = Inr (''GRANT SELECT, INSERT ON TABLE '' @ [CHR 0x22] @ ''s'' @ [CHR 0x22] @ ''.'' @ [CHR 0x22] @
          ''t'' @ [CHR 0x22] @ '' TO '' @ [CHR 0x22] @ ''u; DROP TABLE x'' @ [CHR 0x22])
   \<and> (case GrantBuilder_Build (build_calls PgDialect
      [CGrant [''select'', '' Insert ''], COnTable ''s'' ''t'', CTo ''u; DROP TABLE x'']) of
      Inl e \<Rightarrow> ag_build PgDialect (ag_calls PgDialect
      [CGrant [''select'', '' Insert ''], COnTable ''s'' ''t'', CTo ''u; DROP TABLE x'']) = Inl e
    | Inr s \<Rightarrow> \<exists>ts. ag_build PgDialect (ag_calls PgDialect
      [CGrant [''select'', '' Insert ''], COnTable ''s'' ''t'', CTo ''u; DROP TABLE x'']) = Inr ts
        \<and> sql_lex PgDialect s = Some ts)"
proof (rule conjI)
  show "GrantBuilder_Build (build_calls PgDialect
      [CGrant [''select'', '' Insert ''], COnTable ''s'' ''t'', CTo ''u; DROP TABLE x''])
   = Inr (''GRANT SELECT, INSERT ON TABLE '' @ [CHR 0x22] @ ''s'' @ [CHR 0x22] @ ''.'' @ [CHR 0x22] @
          ''t'' @ [CHR 0x22] @ '' TO '' @ [CHR 0x22] @ ''u; DROP TABLE x'' @ [CHR 0x22])"
    by code_simp
qed (rule grant_build_refines_tokens, simp)

section \<open>The vocabulary of a built statement\<close>

definition grant_vocabulary :: "dialect \<Rightarrow> string list" where
  "grant_vocabulary d =
     [''GRANT'', ''REVOKE'', ''TO'', ''FROM'', ''ON'', ''WITH'', ''OPTION'', ''ALTER'', ''DEFAULT'',
      ''PRIVILEGES'', ''FOR'', ''ROLE'', ''IN'', ''SCHEMA'', ''DATABASE'', ''TABLE'', ''SEQUENCE'',
      ''FUNCTION'', ''PROCEDURE'', ''ALL'', ''TABLES'', ''SEQUENCES'', ''FUNCTIONS'', ''TYPES'',
      ''SCHEMAS''] @ concat (map (\<lambda>p. Split p '' '') (ValidPrivileges d))"

definition plain_token :: "dialect \<Rightarrow> sql_token \<Rightarrow> bool" where
  "plain_token d t = (case t of
      Word w \<Rightarrow> w \<in> set (grant_vocabulary d) | Sym c \<Rightarrow> c \<in> set ''.,*@'' | _ \<Rightarrow> True)"

fun all_plain :: "dialect \<Rightarrow> sql_token list option \<Rightarrow> bool" where
  "all_plain d None = True"
| "all_plain d (Some ts) = list_all (plain_token d) ts"

definition ag_plain :: "dialect \<Rightarrow> agrant \<Rightarrow> bool" where
  "ag_plain d a \<longleftrightarrow> all_plain d (ag_target a) \<and> all_plain d (ag_grantee a) \<and>
     all_plain d (map_option (\<lambda>w. [Word w]) (ag_objType a))"

lemmas plain_defs = ag_plain_def plain_token_def grant_vocabulary_def dotted_def pair_name_def
  user_at_def

lemma ag_plain_calls: "ag_plain d (ag_calls d cs)"
proof -
  have "ag_plain d (fold (ag_call d) cs a)" if "ag_plain d a" for a
    using that
  proof (induction cs arbitrary: a)
    case (Cons c cs)
    then have "ag_plain d (ag_call d c a)" by (cases c) (auto simp: plain_defs)
    with Cons.IH show ?case by simp
  qed simp
  then show ?thesis by (simp add: ag_calls_def ag_init_def plain_defs)
qed

lemma privilege_tokens_plain:
  "set ps \<subseteq> set (ValidPrivileges d) \<Longrightarrow> list_all (plain_token d) (privilege_tokens ps)"
  by (induction ps rule: privilege_tokens.induct)
    (auto simp: list_all_iff privilege_words_def plain_token_def grant_vocabulary_def)

lemma validated_plain:
  "ValidatePrivileges ps (ValidPrivileges d) = None \<Longrightarrow>
   list_all (plain_token d) (privilege_tokens (normalizePrivileges ps))"
  by (intro privilege_tokens_plain)
    (auto simp: ValidatePrivileges_def check_privileges_None [symmetric] split: if_splits)

lemma ag_build_plain: "ag_plain d a \<Longrightarrow> ag_build d a = Inr ts \<Longrightarrow> list_all (plain_token d) ts"
  by (auto simp: ag_build_def ag_grant_revoke_def ag_role_grant_def ag_default_def ag_plain_def
      validated_plain plain_token_def grant_vocabulary_def
      split: grantAction.splits option.splits if_splits)

text \<open>
  C13: Whatever names, hosts and privileges the callers pass, in a statement that \<^verbatim>\<open>Build\<close>
  returns every bare word belongs to a fixed vocabulary of keywords and allowlisted privileges,
  and every other token is a quoted name, a quoted literal, or one of the symbols that join
  names; in particular there is no statement separator and no comment.
\<close>

theorem grant_build_no_injection:
  assumes "d \<noteq> ClickHouseDialect" and "GrantBuilder_Build (build_calls d cs) = Inr s"
  shows "\<exists>ts. sql_lex d s = Some ts \<and> list_all (plain_token d) ts"
proof -
  obtain ts where "ag_build d (ag_calls d cs) = Inr ts" and "lexes d s ts"
    using build_refines [OF gb_sim_calls [OF assms(1), of cs] assms(1)] assms(2)
    by (auto simp: built_as_def)
  then show ?thesis
    using ag_build_plain [OF ag_plain_calls] lexes_sql_lex by blast
qed

theorem grant_build_no_injection_witness:
  "\<exists>ts. sql_lex MySQLDialect ((\<lambda>r. case r of Inr s \<Rightarrow> s | Inl _ \<Rightarrow> [])
      (GrantBuilder_Build (build_calls MySQLDialect
        [CRevoke [''all''], COnDatabase ''a`b;'', CFromUser [CHR 0x27] ''%'']))) = Some ts
     \<and> list_all (plain_token MySQLDialect) ts"
proof -
  have "isl (GrantBuilder_Build (build_calls MySQLDialect
        [CRevoke [''all''], COnDatabase ''a`b;'', CFromUser [CHR 0x27] ''%''])) = False"
    by code_simp
  then obtain s where s: "GrantBuilder_Build (build_calls MySQLDialect
        [CRevoke [''all''], COnDatabase ''a`b;'', CFromUser [CHR 0x27] ''%'']) = Inr s"
    by (metis isl_def sum.exhaust)
  show ?thesis using grant_build_no_injection [OF _ s] s by simp
qed

end
