(* ===== verification/Sql_Role.thy ===== *)
theory Sql_Role
  imports Sql_Dialect
begin

text \<open>
  The role and user statements of \<^verbatim>\<open>internal/adapter/sqlbuilder/role.go\<close>. The option
  list of the builder holds finished SQL fragments. Two setters store text of the caller without
  quoting it, \<^verbatim>\<open>AuthPlugin\<close> and \<^verbatim>\<open>ResourceOption\<close>; the token theorem covers the others, and
  these two where the text is a plain word.
\<close>

record RoleBuilder =
  rb_dialect :: dialect
  rb_action :: string
  rb_name :: string
  rb_roleOpts :: "string list"
  rb_password :: string
  rb_inRoles :: "string list"
  rb_setParam :: string
  rb_setValue :: string
  rb_host :: string
  rb_authPlugin :: string
  rb_ifExists :: bool

definition new_role_builder :: "dialect \<Rightarrow> string \<Rightarrow> string \<Rightarrow> string \<Rightarrow> RoleBuilder" where
  "new_role_builder d action name host = \<lparr>rb_dialect = d, rb_action = action, rb_name = name,
     rb_roleOpts = [], rb_password = '''', rb_inRoles = [], rb_setParam = '''', rb_setValue = '''',
     rb_host = host, rb_authPlugin = '''', rb_ifExists = False\<rparr>"

definition PgCreateRole :: "string \<Rightarrow> RoleBuilder" where
  "PgCreateRole name = new_role_builder PgDialect ''CREATE ROLE'' name ''''"

definition PgAlterRole :: "string \<Rightarrow> RoleBuilder" where
  "PgAlterRole name = new_role_builder PgDialect ''ALTER ROLE'' name ''''"

definition PgDropRole :: "string \<Rightarrow> RoleBuilder" where
  "PgDropRole name = new_role_builder PgDialect ''DROP ROLE'' name ''''"

definition MySQLCreateRole :: "string \<Rightarrow> RoleBuilder" where
  "MySQLCreateRole name = new_role_builder MySQLDialect ''CREATE ROLE'' name ''''"

definition MySQLDropRole :: "string \<Rightarrow> RoleBuilder" where
  "MySQLDropRole name = new_role_builder MySQLDialect ''DROP ROLE'' name ''''"

definition MySQLCreateUser :: "string \<Rightarrow> string \<Rightarrow> RoleBuilder" where
  "MySQLCreateUser name host = new_role_builder MySQLDialect ''CREATE USER'' name host"

definition MySQLAlterUser :: "string \<Rightarrow> string \<Rightarrow> RoleBuilder" where
  "MySQLAlterUser name host = new_role_builder MySQLDialect ''ALTER USER'' name host"

definition MySQLDropUser :: "string \<Rightarrow> string \<Rightarrow> RoleBuilder" where
  "MySQLDropUser name host = new_role_builder MySQLDialect ''DROP USER'' name host"

section \<open>Option setters\<close>

abbreviation add_opt :: "string \<Rightarrow> RoleBuilder \<Rightarrow> RoleBuilder" where
  "add_opt o' b \<equiv> b\<lparr>rb_roleOpts := rb_roleOpts b @ [o']\<rparr>"

definition Login :: "bool \<Rightarrow> RoleBuilder \<Rightarrow> RoleBuilder" where
  "Login v b = (if v then add_opt ''LOGIN'' b else add_opt ''NOLOGIN'' b)"

definition Superuser :: "bool \<Rightarrow> RoleBuilder \<Rightarrow> RoleBuilder" where
  "Superuser v b = (if v then add_opt ''SUPERUSER'' b else add_opt ''NOSUPERUSER'' b)"

definition CreateDB :: "bool \<Rightarrow> RoleBuilder \<Rightarrow> RoleBuilder" where
  "CreateDB v b = (if v then add_opt ''CREATEDB'' b else add_opt ''NOCREATEDB'' b)"

definition CreateRoleOpt :: "bool \<Rightarrow> RoleBuilder \<Rightarrow> RoleBuilder" where
  "CreateRoleOpt v b = (if v then add_opt ''CREATEROLE'' b else add_opt ''NOCREATEROLE'' b)"

definition Inherit :: "bool \<Rightarrow> RoleBuilder \<Rightarrow> RoleBuilder" where
  "Inherit v b = (if v then add_opt ''INHERIT'' b else add_opt ''NOINHERIT'' b)"

definition Replication :: "bool \<Rightarrow> RoleBuilder \<Rightarrow> RoleBuilder" where
  "Replication v b = (if v then add_opt ''REPLICATION'' b else add_opt ''NOREPLICATION'' b)"

definition BypassRLS :: "bool \<Rightarrow> RoleBuilder \<Rightarrow> RoleBuilder" where
  "BypassRLS v b = (if v then add_opt ''BYPASSRLS'' b else add_opt ''NOBYPASSRLS'' b)"

definition WithPassword :: "string \<Rightarrow> RoleBuilder \<Rightarrow> RoleBuilder" where
  "WithPassword password b = b\<lparr>rb_password := password\<rparr>"

definition RoleConnectionLimit :: "int \<Rightarrow> RoleBuilder \<Rightarrow> RoleBuilder" where
  "RoleConnectionLimit n b = add_opt (''CONNECTION LIMIT '' @ FormatInt n) b"

definition ValidUntil :: "string \<Rightarrow> RoleBuilder \<Rightarrow> RoleBuilder" where
  "ValidUntil ts b = add_opt (''VALID UNTIL '' @ EscapeLiteral (rb_dialect b) ts) b"

definition InRoles :: "string list \<Rightarrow> RoleBuilder \<Rightarrow> RoleBuilder" where
  "InRoles roles b = b\<lparr>rb_inRoles := rb_inRoles b @ roles\<rparr>"

definition SetParam :: "string \<Rightarrow> string \<Rightarrow> RoleBuilder \<Rightarrow> RoleBuilder" where
  "SetParam param val b = b\<lparr>rb_setParam := param, rb_setValue := val\<rparr>"

definition IdentifiedBy :: "string \<Rightarrow> RoleBuilder \<Rightarrow> RoleBuilder" where
  "IdentifiedBy password b = b\<lparr>rb_password := password\<rparr>"

definition AuthPlugin :: "string \<Rightarrow> RoleBuilder \<Rightarrow> RoleBuilder" where
  "AuthPlugin plugin b = b\<lparr>rb_authPlugin := plugin\<rparr>"

definition RoleIfExists :: "RoleBuilder \<Rightarrow> RoleBuilder" where
  "RoleIfExists b = b\<lparr>rb_ifExists := True\<rparr>"

definition AccountLock :: "RoleBuilder \<Rightarrow> RoleBuilder" where
  "AccountLock b = add_opt ''ACCOUNT LOCK'' b"

definition AccountUnlock :: "RoleBuilder \<Rightarrow> RoleBuilder" where
  "AccountUnlock b = add_opt ''ACCOUNT UNLOCK'' b"

definition RequireSSL :: "RoleBuilder \<Rightarrow> RoleBuilder" where
  "RequireSSL b = add_opt ''REQUIRE SSL'' b"

definition RequireX509 :: "RoleBuilder \<Rightarrow> RoleBuilder" where
  "RequireX509 b = add_opt ''REQUIRE X509'' b"

definition RequireNone :: "RoleBuilder \<Rightarrow> RoleBuilder" where
  "RequireNone b = add_opt ''REQUIRE NONE'' b"

definition ResourceOption :: "string \<Rightarrow> RoleBuilder \<Rightarrow> RoleBuilder" where
  "ResourceOption opt b = add_opt opt b"

section \<open>Build\<close>

definition buildMySQL :: "RoleBuilder \<Rightarrow> string" where
  "buildMySQL b =
     (let d = rb_dialect b in
      (if rb_action b = ''CREATE ROLE'' then ''CREATE ROLE IF NOT EXISTS '' @ EscapeLiteral d (rb_name b)
       else if rb_action b = ''CREATE USER'' then
         ''CREATE USER IF NOT EXISTS '' @ EscapeLiteral d (rb_name b) @ ''@'' @ EscapeLiteral d (rb_host b) @
         (if rb_password b \<noteq> '''' then
            '' IDENTIFIED'' @ (if rb_authPlugin b \<noteq> '''' then '' WITH '' @ rb_authPlugin b else '''') @
            '' BY '' @ EscapeLiteral d (rb_password b)
          else if rb_authPlugin b \<noteq> '''' then '' IDENTIFIED WITH '' @ rb_authPlugin b
          else '''')
       else if rb_action b = ''ALTER USER'' then
         ''ALTER USER '' @ EscapeLiteral d (rb_name b) @ ''@'' @ EscapeLiteral d (rb_host b) @
         (if rb_password b \<noteq> '''' then '' IDENTIFIED BY '' @ EscapeLiteral d (rb_password b) else '''')
       else '''') @
      (if rb_roleOpts b \<noteq> [] then '' '' @ Join (rb_roleOpts b) '' '' else ''''))"

definition buildCreateOrAlter :: "RoleBuilder \<Rightarrow> string" where
  "buildCreateOrAlter b =
     (let d = rb_dialect b in
      (case d of
         MySQLDialect \<Rightarrow> buildMySQL b
       | _ \<Rightarrow>
         (let allOpts =
             (if rb_password b \<noteq> '''' then [''PASSWORD '' @ EscapeLiteral d (rb_password b)] else []) @
             rb_roleOpts b @
             (if rb_inRoles b \<noteq> []
              then [''IN ROLE '' @ Join (map (EscapeIdentifier d) (rb_inRoles b)) '', ''] else [])
          in rb_action b @ '' '' @ EscapeIdentifier d (rb_name b) @
             (if allOpts \<noteq> [] then '' WITH '' @ Join allOpts '' '' else ''''))))"

definition buildDropRole :: "RoleBuilder \<Rightarrow> string" where
  "buildDropRole b =
     ''DROP ROLE '' @ (if rb_ifExists b then ''IF EXISTS '' else '''') @
     (case rb_dialect b of
        MySQLDialect \<Rightarrow> EscapeLiteral (rb_dialect b) (rb_name b)
      | _ \<Rightarrow> EscapeIdentifier (rb_dialect b) (rb_name b))"

definition buildDropUser :: "RoleBuilder \<Rightarrow> string" where
  "buildDropUser b =
     ''DROP USER '' @ (if rb_ifExists b then ''IF EXISTS '' else '''') @
     (case rb_dialect b of
        MySQLDialect \<Rightarrow> EscapeLiteral (rb_dialect b) (rb_name b) @ ''@'' @
          EscapeLiteral (rb_dialect b) (rb_host b)
      | _ \<Rightarrow> EscapeIdentifier (rb_dialect b) (rb_name b))"

definition buildAlterRoleSet :: "RoleBuilder \<Rightarrow> string" where
  "buildAlterRoleSet b =
     ''ALTER ROLE '' @ EscapeIdentifier (rb_dialect b) (rb_name b) @ '' SET '' @
     EscapeIdentifier (rb_dialect b) (rb_setParam b) @ '' = '' @
     EscapeLiteral (rb_dialect b) (rb_setValue b)"

definition RoleBuilder_Build :: "RoleBuilder \<Rightarrow> string" where
  "RoleBuilder_Build b =
     (if rb_action b = ''DROP ROLE'' then buildDropRole b
      else if rb_action b = ''DROP USER'' then buildDropUser b
      else if rb_action b = ''ALTER ROLE'' \<and> rb_setParam b \<noteq> '''' then buildAlterRoleSet b
      else buildCreateOrAlter b)"

section \<open>The tokens of a role statement\<close>

text \<open>The constructors and the fluent calls, as data, and the abstract builder they drive.\<close>

datatype role_start =
    SPgCreateRole string | SPgAlterRole string | SPgDropRole string
  | SMySQLCreateRole string | SMySQLDropRole string | SMySQLCreateUser string string
  | SMySQLAlterUser string string | SMySQLDropUser string string

fun start_role :: "role_start \<Rightarrow> RoleBuilder" where
  "start_role (SPgCreateRole n) = PgCreateRole n"
| "start_role (SPgAlterRole n) = PgAlterRole n"
| "start_role (SPgDropRole n) = PgDropRole n"
| "start_role (SMySQLCreateRole n) = MySQLCreateRole n"
| "start_role (SMySQLDropRole n) = MySQLDropRole n"
| "start_role (SMySQLCreateUser n h) = MySQLCreateUser n h"
| "start_role (SMySQLAlterUser n h) = MySQLAlterUser n h"
| "start_role (SMySQLDropUser n h) = MySQLDropUser n h"

fun start_dialect :: "role_start \<Rightarrow> dialect" where
  "start_dialect (SPgCreateRole n) = PgDialect"
| "start_dialect (SPgAlterRole n) = PgDialect"
| "start_dialect (SPgDropRole n) = PgDialect"
| "start_dialect _ = MySQLDialect"

datatype role_call =
    RLogin bool | RSuperuser bool | RCreateDB bool | RCreateRole bool | RInherit bool
  | RReplication bool | RBypassRLS bool | RWithPassword string | RConnectionLimit int
  | RValidUntil string | RInRoles "string list" | RSet string string | RIdentifiedBy string
  | RAuthPlugin string | RIfExists | RAccountLock | RAccountUnlock | RRequireSSL | RRequireX509
  | RRequireNone | RResourceOption string

fun do_role_call :: "role_call \<Rightarrow> RoleBuilder \<Rightarrow> RoleBuilder" where
  "do_role_call (RLogin v) b = Login v b"
| "do_role_call (RSuperuser v) b = Superuser v b"
| "do_role_call (RCreateDB v) b = CreateDB v b"
| "do_role_call (RCreateRole v) b = CreateRoleOpt v b"
| "do_role_call (RInherit v) b = Inherit v b"
| "do_role_call (RReplication v) b = Replication v b"
| "do_role_call (RBypassRLS v) b = BypassRLS v b"
| "do_role_call (RWithPassword p) b = WithPassword p b"
| "do_role_call (RConnectionLimit n) b = RoleConnectionLimit n b"
| "do_role_call (RValidUntil t) b = ValidUntil t b"
| "do_role_call (RInRoles rs) b = InRoles rs b"
| "do_role_call (RSet p v) b = SetParam p v b"
| "do_role_call (RIdentifiedBy p) b = IdentifiedBy p b"
| "do_role_call (RAuthPlugin p) b = AuthPlugin p b"
| "do_role_call RIfExists b = RoleIfExists b"
| "do_role_call RAccountLock b = AccountLock b"
| "do_role_call RAccountUnlock b = AccountUnlock b"
| "do_role_call RRequireSSL b = RequireSSL b"
| "do_role_call RRequireX509 b = RequireX509 b"
| "do_role_call RRequireNone b = RequireNone b"
| "do_role_call (RResourceOption o') b = ResourceOption o' b"

text \<open>
  The two setters that store unquoted text are safe where that text is itself readable: a plugin
  name is one word, a resource option a sequence of tokens.
\<close>

fun safe_role_call :: "dialect \<Rightarrow> role_call \<Rightarrow> bool" where
  "safe_role_call d (RAuthPlugin p) = list_all word_char p"
| "safe_role_call d (RResourceOption o') = (sql_lex d o' \<noteq> None)"
| "safe_role_call d _ = True"

record arole =
  ar_opts :: "sql_token list list"
  ar_password :: string
  ar_inRoles :: "string list"
  ar_param :: string
  ar_value :: string
  ar_plugin :: string
  ar_ifExists :: bool

definition ar_init :: arole where
  "ar_init = \<lparr>ar_opts = [], ar_password = '''', ar_inRoles = [], ar_param = '''', ar_value = '''',
     ar_plugin = '''', ar_ifExists = False\<rparr>"

abbreviation flag :: "string \<Rightarrow> bool \<Rightarrow> sql_token list" where
  "flag w v \<equiv> [Word (if v then w else ''NO'' @ w)]"

abbreviation ar_opt :: "sql_token list \<Rightarrow> arole \<Rightarrow> arole" where
  "ar_opt ts a \<equiv> a\<lparr>ar_opts := ar_opts a @ [ts]\<rparr>"

fun ar_call :: "dialect \<Rightarrow> role_call \<Rightarrow> arole \<Rightarrow> arole" where
  "ar_call d (RLogin v) a = ar_opt (flag ''LOGIN'' v) a"
| "ar_call d (RSuperuser v) a = ar_opt (flag ''SUPERUSER'' v) a"
| "ar_call d (RCreateDB v) a = ar_opt (flag ''CREATEDB'' v) a"
| "ar_call d (RCreateRole v) a = ar_opt (flag ''CREATEROLE'' v) a"
| "ar_call d (RInherit v) a = ar_opt (flag ''INHERIT'' v) a"
| "ar_call d (RReplication v) a = ar_opt (flag ''REPLICATION'' v) a"
| "ar_call d (RBypassRLS v) a = ar_opt (flag ''BYPASSRLS'' v) a"
| "ar_call d (RWithPassword p) a = a\<lparr>ar_password := p\<rparr>"
| "ar_call d (RConnectionLimit n) a = ar_opt ([Word ''CONNECTION'', Word ''LIMIT''] @ int_tokens n) a"
| "ar_call d (RValidUntil t) a = ar_opt [Word ''VALID'', Word ''UNTIL'', StrLit t] a"
| "ar_call d (RInRoles rs) a = a\<lparr>ar_inRoles := ar_inRoles a @ rs\<rparr>"
| "ar_call d (RSet p v) a = a\<lparr>ar_param := p, ar_value := v\<rparr>"
| "ar_call d (RIdentifiedBy p) a = a\<lparr>ar_password := p\<rparr>"
| "ar_call d (RAuthPlugin p) a = a\<lparr>ar_plugin := p\<rparr>"
| "ar_call d RIfExists a = a\<lparr>ar_ifExists := True\<rparr>"
| "ar_call d RAccountLock a = ar_opt [Word ''ACCOUNT'', Word ''LOCK''] a"
| "ar_call d RAccountUnlock a = ar_opt [Word ''ACCOUNT'', Word ''UNLOCK''] a"
| "ar_call d RRequireSSL a = ar_opt [Word ''REQUIRE'', Word ''SSL''] a"
| "ar_call d RRequireX509 a = ar_opt [Word ''REQUIRE'', Word ''X509''] a"
| "ar_call d RRequireNone a = ar_opt [Word ''REQUIRE'', Word ''NONE''] a"
| "ar_call d (RResourceOption o') a = ar_opt (the (sql_lex d o')) a"

definition pg_opts :: "arole \<Rightarrow> sql_token list list" where
  "pg_opts a =
     (if ar_password a \<noteq> '''' then [[Word ''PASSWORD'', StrLit (ar_password a)]] else []) @
     ar_opts a @
     (if ar_inRoles a \<noteq> [] then [[Word ''IN'', Word ''ROLE''] @ comma_idents (ar_inRoles a)] else [])"

definition if_exists :: "arole \<Rightarrow> sql_token list" where
  "if_exists a = (if ar_ifExists a then [Word ''IF'', Word ''EXISTS''] else [])"

definition identified :: "arole \<Rightarrow> sql_token list" where
  "identified a =
     (if ar_password a \<noteq> '''' then
        [Word ''IDENTIFIED''] @ (if ar_plugin a \<noteq> '''' then [Word ''WITH'', Word (ar_plugin a)] else []) @
        [Word ''BY'', StrLit (ar_password a)]
      else if ar_plugin a \<noteq> '''' then [Word ''IDENTIFIED'', Word ''WITH'', Word (ar_plugin a)]
      else [])"

abbreviation user_host :: "string \<Rightarrow> string \<Rightarrow> sql_token list" where
  "user_host n h \<equiv> [StrLit n, Sym CHR ''@'', StrLit h]"

fun role_tokens :: "role_start \<Rightarrow> arole \<Rightarrow> sql_token list" where
  "role_tokens (SPgCreateRole n) a = words_of [''CREATE'', ''ROLE''] @ [QIdent n] @ with_opts (pg_opts a)"
| "role_tokens (SPgAlterRole n) a = words_of [''ALTER'', ''ROLE''] @ [QIdent n] @
     (if ar_param a \<noteq> ''''
      then [Word ''SET'', QIdent (ar_param a), Sym CHR ''='', StrLit (ar_value a)]
      else with_opts (pg_opts a))"
| "role_tokens (SPgDropRole n) a = words_of [''DROP'', ''ROLE''] @ if_exists a @ [QIdent n]"
| "role_tokens (SMySQLCreateRole n) a =
     words_of [''CREATE'', ''ROLE'', ''IF'', ''NOT'', ''EXISTS''] @ [StrLit n] @ concat (ar_opts a)"
| "role_tokens (SMySQLDropRole n) a = words_of [''DROP'', ''ROLE''] @ if_exists a @ [StrLit n]"
| "role_tokens (SMySQLCreateUser n h) a =
     words_of [''CREATE'', ''USER'', ''IF'', ''NOT'', ''EXISTS''] @ user_host n h @ identified a @
     concat (ar_opts a)"
| "role_tokens (SMySQLAlterUser n h) a =
     words_of [''ALTER'', ''USER''] @ user_host n h @
     (if ar_password a \<noteq> '''' then [Word ''IDENTIFIED'', Word ''BY'', StrLit (ar_password a)] else []) @
     concat (ar_opts a)"
| "role_tokens (SMySQLDropUser n h) a = words_of [''DROP'', ''USER''] @ if_exists a @ user_host n h"

section \<open>Simulation\<close>

fun start_fields :: "role_start \<Rightarrow> string \<times> string \<times> string" where
  "start_fields (SPgCreateRole n) = (''CREATE ROLE'', n, '''')"
| "start_fields (SPgAlterRole n) = (''ALTER ROLE'', n, '''')"
| "start_fields (SPgDropRole n) = (''DROP ROLE'', n, '''')"
| "start_fields (SMySQLCreateRole n) = (''CREATE ROLE'', n, '''')"
| "start_fields (SMySQLDropRole n) = (''DROP ROLE'', n, '''')"
| "start_fields (SMySQLCreateUser n h) = (''CREATE USER'', n, h)"
| "start_fields (SMySQLAlterUser n h) = (''ALTER USER'', n, h)"
| "start_fields (SMySQLDropUser n h) = (''DROP USER'', n, h)"

definition rb_sim :: "role_start \<Rightarrow> RoleBuilder \<Rightarrow> arole \<Rightarrow> bool" where
  "rb_sim st b a \<longleftrightarrow>
     rb_dialect b = start_dialect st \<and> (rb_action b, rb_name b, rb_host b) = start_fields st \<and>
     list_all2 (lexes (start_dialect st)) (rb_roleOpts b) (ar_opts a) \<and>
     rb_password b = ar_password a \<and> rb_inRoles b = ar_inRoles a \<and> rb_setParam b = ar_param a \<and>
     rb_setValue b = ar_value a \<and> rb_authPlugin b = ar_plugin a \<and> rb_ifExists b = ar_ifExists a \<and>
     list_all word_char (ar_plugin a)"

lemmas role_flags_def =
  Login_def Superuser_def CreateDB_def CreateRoleOpt_def Inherit_def Replication_def BypassRLS_def

lemmas role_calls_def =
  WithPassword_def RoleConnectionLimit_def ValidUntil_def InRoles_def SetParam_def IdentifiedBy_def
  AuthPlugin_def RoleIfExists_def AccountLock_def AccountUnlock_def RequireSSL_def RequireX509_def
  RequireNone_def ResourceOption_def

lemmas role_start_def =
  PgCreateRole_def PgAlterRole_def PgDropRole_def MySQLCreateRole_def MySQLDropRole_def
  MySQLCreateUser_def MySQLAlterUser_def MySQLDropUser_def new_role_builder_def

lemma lexes_fixed_options:
  "lexes d ''ACCOUNT LOCK'' (words_of [''ACCOUNT'', ''LOCK''])"
  "lexes d ''ACCOUNT UNLOCK'' (words_of [''ACCOUNT'', ''UNLOCK''])"
  "lexes d ''REQUIRE SSL'' (words_of [''REQUIRE'', ''SSL''])"
  "lexes d ''REQUIRE X509'' (words_of [''REQUIRE'', ''X509''])"
  "lexes d ''REQUIRE NONE'' (words_of [''REQUIRE'', ''NONE''])"
  "lexes d ''CONNECTION LIMIT'' (words_of [''CONNECTION'', ''LIMIT''])"
  "lexes d ''VALID UNTIL'' (words_of [''VALID'', ''UNTIL''])"
  by (cases d; simp add: lexes_def lex_eval)+

lemma lexes_flag:
  "w \<in> set [''LOGIN'', ''SUPERUSER'', ''CREATEDB'', ''CREATEROLE'', ''INHERIT'', ''REPLICATION'', ''BYPASSRLS'']
   \<Longrightarrow> lexes d (if v then w else ''NO'' @ w) (flag w v)"
  by (rule lexes_word) (auto simp: word_char_def)

lemma rb_sim_start: "rb_sim st (start_role st) ar_init"
  by (cases st) (simp_all add: rb_sim_def role_start_def ar_init_def)

lemma rb_sim_opt:
  "rb_sim st b a \<Longrightarrow> lexes (start_dialect st) s ts \<Longrightarrow> rb_sim st (add_opt s b) (ar_opt ts a)"
  by (simp add: rb_sim_def list_all2_appendI)

lemma rb_sim_flags:
  assumes "rb_sim st b a"
  shows "rb_sim st (Login v b) (ar_opt (flag ''LOGIN'' v) a)"
    and "rb_sim st (Superuser v b) (ar_opt (flag ''SUPERUSER'' v) a)"
    and "rb_sim st (CreateDB v b) (ar_opt (flag ''CREATEDB'' v) a)"
    and "rb_sim st (CreateRoleOpt v b) (ar_opt (flag ''CREATEROLE'' v) a)"
    and "rb_sim st (Inherit v b) (ar_opt (flag ''INHERIT'' v) a)"
    and "rb_sim st (Replication v b) (ar_opt (flag ''REPLICATION'' v) a)"
    and "rb_sim st (BypassRLS v b) (ar_opt (flag ''BYPASSRLS'' v) a)"
proof -
  have opt: "rb_sim st (if v then add_opt w b else add_opt (''NO'' @ w) b) (ar_opt (flag w v) a)"
    if "w \<in> set [''LOGIN'', ''SUPERUSER'', ''CREATEDB'', ''CREATEROLE'', ''INHERIT'',
                  ''REPLICATION'', ''BYPASSRLS'']" for w
    using rb_sim_opt [OF assms lexes_flag [OF that, of _ v]] by (cases v) simp_all
  show "rb_sim st (Login v b) (ar_opt (flag ''LOGIN'' v) a)"
    using opt [of "''LOGIN''"] by (cases v) (simp_all add: role_flags_def)
  show "rb_sim st (Superuser v b) (ar_opt (flag ''SUPERUSER'' v) a)"
    using opt [of "''SUPERUSER''"] by (cases v) (simp_all add: role_flags_def)
  show "rb_sim st (CreateDB v b) (ar_opt (flag ''CREATEDB'' v) a)"
    using opt [of "''CREATEDB''"] by (cases v) (simp_all add: role_flags_def)
  show "rb_sim st (CreateRoleOpt v b) (ar_opt (flag ''CREATEROLE'' v) a)"
    using opt [of "''CREATEROLE''"] by (cases v) (simp_all add: role_flags_def)
  show "rb_sim st (Inherit v b) (ar_opt (flag ''INHERIT'' v) a)"
    using opt [of "''INHERIT''"] by (cases v) (simp_all add: role_flags_def)
  show "rb_sim st (Replication v b) (ar_opt (flag ''REPLICATION'' v) a)"
    using opt [of "''REPLICATION''"] by (cases v) (simp_all add: role_flags_def)
  show "rb_sim st (BypassRLS v b) (ar_opt (flag ''BYPASSRLS'' v) a)"
    using opt [of "''BYPASSRLS''"] by (cases v) (simp_all add: role_flags_def)
qed

lemma rb_sim_call:
  assumes "rb_sim st b a" and "safe_role_call (start_dialect st) c"
  shows "rb_sim st (do_role_call c b) (ar_call (start_dialect st) c a)"
proof -
  have d: "rb_dialect b = start_dialect st" using assms(1) by (simp add: rb_sim_def)
  note opt = rb_sim_opt [OF assms(1)]
  show ?thesis
  proof (cases c)
    case (RConnectionLimit n)
    then show ?thesis
      using opt [OF lexes_app [OF lexes_fixed_options(6) lexes_int [of _ n]]]
      by (simp add: role_calls_def)
  next
    case (RValidUntil t)
    then show ?thesis
      using opt [OF lexes_app [OF lexes_fixed_options(7) lexes_literal [of _ t]]]
      by (simp add: role_calls_def d)
  next
    case (RResourceOption s)
    then obtain ts where ts: "sql_lex (start_dialect st) s = Some ts" using assms(2) by auto
    then have "lexes (start_dialect st) s ts" by (simp only: sql_lex_lexes)
    then show ?thesis
      using RResourceOption opt [of s ts] by (simp add: role_calls_def ts)
  next
    case (RAuthPlugin p)
    then show ?thesis using assms by (simp add: role_calls_def rb_sim_def)
  qed (use rb_sim_flags [OF assms(1)] opt [OF lexes_fixed_options(1)] opt [OF lexes_fixed_options(2)]
        opt [OF lexes_fixed_options(3)] opt [OF lexes_fixed_options(4)]
        opt [OF lexes_fixed_options(5)] in \<open>simp_all add: role_calls_def\<close>,
      use assms(1) in \<open>simp_all add: rb_sim_def\<close>)
qed

lemma rb_sim_calls:
  assumes "list_all (safe_role_call (start_dialect st)) cs" and "rb_sim st b a"
  shows "rb_sim st (fold do_role_call cs b) (fold (ar_call (start_dialect st)) cs a)"
  using assms by (induction cs arbitrary: b a) (simp_all add: rb_sim_call)

section \<open>The text of a role statement reads as its tokens\<close>

lemma lexes_pg_opts:
  assumes "rb_sim st b a" and "start_dialect st = PgDialect"
  shows "list_all2 (lexes PgDialect)
     ((if rb_password b \<noteq> '''' then [''PASSWORD '' @ EscapeLiteral PgDialect (rb_password b)] else []) @
      rb_roleOpts b @
      (if rb_inRoles b \<noteq> []
       then [''IN ROLE '' @ Join (map (EscapeIdentifier PgDialect) (rb_inRoles b)) '', ''] else []))
     (pg_opts a)"
proof -
  have pw: "lexes PgDialect (''PASSWORD'' @ CHR '' '' # EscapeLiteral PgDialect p) ([Word ''PASSWORD''] @ [StrLit p])" for p
    by (rule lexes_app) (simp_all add: lexes_literal lexes_word word_char_def)
  have inr: "lexes PgDialect (''IN ROLE'' @ CHR '' '' # Join (map (EscapeIdentifier PgDialect) rs) '', '')
     ([Word ''IN'', Word ''ROLE''] @ comma_idents rs)" for rs
    by (intro lexes_app lexes_idents) (simp_all add: lexes_def lex_eval)
  show ?thesis
    unfolding pg_opts_def
    using assms pw inr by (intro list_all2_appendI) (auto simp: rb_sim_def)
qed

lemma lexes_user_host: "lexes d (EscapeLiteral d n @ ''@'' @ EscapeLiteral d h) (user_host n h)"
  by (cases d) (simp_all add: lexes_def esc_reads lex_eval quote_token_def)

lemma lexes_heads:
  "lexes d ''CREATE ROLE'' (words_of [''CREATE'', ''ROLE''])"
  "lexes d ''ALTER ROLE'' (words_of [''ALTER'', ''ROLE''])"
  "lexes d ''DROP ROLE'' (words_of [''DROP'', ''ROLE''])"
  "lexes d ''DROP USER'' (words_of [''DROP'', ''USER''])"
  "lexes d ''ALTER USER'' (words_of [''ALTER'', ''USER''])"
  "lexes d ''IF EXISTS'' (words_of [''IF'', ''EXISTS''])"
  "lexes d ''CREATE ROLE IF NOT EXISTS'' (words_of [''CREATE'', ''ROLE'', ''IF'', ''NOT'', ''EXISTS''])"
  "lexes d ''CREATE USER IF NOT EXISTS'' (words_of [''CREATE'', ''USER'', ''IF'', ''NOT'', ''EXISTS''])"
  "lexes d ''IDENTIFIED'' [Word ''IDENTIFIED'']"
  "lexes d ''IDENTIFIED BY'' (words_of [''IDENTIFIED'', ''BY''])"
  "lexes d ''IDENTIFIED WITH'' (words_of [''IDENTIFIED'', ''WITH''])"
  "lexes d ''BY'' [Word ''BY'']" "lexes d ''WITH'' [Word ''WITH'']" "lexes d ''SET'' [Word ''SET'']"
  "lexes d ''='' [Sym CHR ''='']"
  by (cases d; simp add: lexes_def lex_eval)+

lemma lexes_identified:
  assumes "lexes d s ts" and "list_all word_char pl"
  shows "lexes d
     (s @ (if pw \<noteq> '''' then
            '' IDENTIFIED'' @ (if pl \<noteq> '''' then '' WITH '' @ pl else '''') @ '' BY '' @ EscapeLiteral d pw
          else if pl \<noteq> '''' then '' IDENTIFIED WITH '' @ pl
          else ''''))
     (ts @ identified (ar_init\<lparr>ar_password := pw, ar_plugin := pl\<rparr>))"
proof -
  have pl: "lexes d pl [Word pl]" if "pl \<noteq> []"
    using that assms(2) by (simp add: lexes_word list_all_iff)
  have "lexes d (s @ CHR '' '' # ''IDENTIFIED'' @ CHR '' '' # ''BY'' @ CHR '' '' # EscapeLiteral d pw)
      (ts @ [Word ''IDENTIFIED''] @ [Word ''BY''] @ [StrLit pw])"
    using assms(1) by (intro lexes_app lexes_heads lexes_literal)
  moreover have "lexes d (s @ CHR '' '' # ''IDENTIFIED WITH'' @ CHR '' '' # pl)
      (ts @ words_of [''IDENTIFIED'', ''WITH''] @ [Word pl])" if "pl \<noteq> []"
    using assms(1) pl [OF that] by (intro lexes_app lexes_heads)
  moreover have "lexes d (s @ CHR '' '' # ''IDENTIFIED WITH'' @ CHR '' '' # pl @ CHR '' '' # ''BY'' @ CHR '' '' # EscapeLiteral d pw)
      (ts @ words_of [''IDENTIFIED'', ''WITH''] @ [Word pl] @ [Word ''BY''] @ [StrLit pw])" if "pl \<noteq> []"
    using assms(1) pl [OF that] by (intro lexes_app lexes_heads lexes_literal)
  ultimately show ?thesis
    using assms(1) by (simp add: identified_def ar_init_def)
qed

lemma identified_fields:
  "identified a = identified (ar_init\<lparr>ar_password := ar_password a, ar_plugin := ar_plugin a\<rparr>)"
  by (simp add: identified_def)

lemma pg_create_alter_lexes:
  assumes "rb_sim st b a" and "start_dialect st = PgDialect" and "lexes PgDialect (rb_action b) ts"
  shows "lexes PgDialect (buildCreateOrAlter b) (ts @ [QIdent (rb_name b)] @ with_opts (pg_opts a))"
proof -
  have d: "rb_dialect b = PgDialect" using assms(1,2) by (simp add: rb_sim_def)
  define oss where "oss = (if rb_password b \<noteq> '''' then [''PASSWORD '' @ EscapeLiteral PgDialect (rb_password b)] else []) @
      rb_roleOpts b @
      (if rb_inRoles b \<noteq> []
       then [''IN ROLE '' @ Join (map (EscapeIdentifier PgDialect) (rb_inRoles b)) '', ''] else [])"
  have all: "list_all2 (lexes PgDialect) oss (pg_opts a)"
    unfolding oss_def by (rule lexes_pg_opts [OF assms(1,2)])
  have built: "buildCreateOrAlter b = rb_action b @ '' '' @ EscapeIdentifier PgDialect (rb_name b) @
      (if oss \<noteq> [] then '' WITH '' @ Join oss '' '' else '''')"
    unfolding buildCreateOrAlter_def d oss_def Let_def dialect.case ..
  have "lexes PgDialect (rb_action b @ CHR '' '' # EscapeIdentifier PgDialect (rb_name b))
      (ts @ [QIdent (rb_name b)])"
    using assms(3) by (intro lexes_app lexes_ident) simp_all
  from lexes_with_opts [OF this all] show ?thesis by (simp only: built append_assoc append.simps)
qed

lemma alter_set_lexes:
  assumes "rb_dialect b \<noteq> ClickHouseDialect"
  shows "lexes (rb_dialect b) (buildAlterRoleSet b)
     (words_of [''ALTER'', ''ROLE''] @ [QIdent (rb_name b)] @ [Word ''SET''] @ [QIdent (rb_setParam b)] @
      [Sym CHR ''=''] @ [StrLit (rb_setValue b)])"
proof -
  let ?d = "rb_dialect b"
  have "lexes ?d (''ALTER ROLE'' @ CHR '' '' # EscapeIdentifier ?d (rb_name b) @ CHR '' '' # ''SET'' @ CHR '' '' #
      EscapeIdentifier ?d (rb_setParam b) @ CHR '' '' # ''='' @ CHR '' '' # EscapeLiteral ?d (rb_setValue b))
     (words_of [''ALTER'', ''ROLE''] @ [QIdent (rb_name b)] @ [Word ''SET''] @ [QIdent (rb_setParam b)] @
      [Sym CHR ''=''] @ [StrLit (rb_setValue b)])"
    using assms by (intro lexes_app lexes_heads lexes_ident lexes_literal)
  then show ?thesis by (simp add: buildAlterRoleSet_def)
qed

lemma mysql_lexes:
  assumes "rb_dialect b = MySQLDialect" and "list_all2 (lexes MySQLDialect) (rb_roleOpts b) tss"
    and "list_all word_char (rb_authPlugin b)"
  shows "rb_action b = ''CREATE ROLE'' \<Longrightarrow> lexes MySQLDialect (buildCreateOrAlter b)
      (words_of [''CREATE'', ''ROLE'', ''IF'', ''NOT'', ''EXISTS''] @ [StrLit (rb_name b)] @ concat tss)"
    and "rb_action b = ''CREATE USER'' \<Longrightarrow> lexes MySQLDialect (buildCreateOrAlter b)
      (words_of [''CREATE'', ''USER'', ''IF'', ''NOT'', ''EXISTS''] @ user_host (rb_name b) (rb_host b) @
       identified (ar_init\<lparr>ar_password := rb_password b, ar_plugin := rb_authPlugin b\<rparr>) @ concat tss)"
    and "rb_action b = ''ALTER USER'' \<Longrightarrow> lexes MySQLDialect (buildCreateOrAlter b)
      (words_of [''ALTER'', ''USER''] @ user_host (rb_name b) (rb_host b) @
       (if rb_password b \<noteq> '''' then [Word ''IDENTIFIED'', Word ''BY'', StrLit (rb_password b)] else []) @
       concat tss)"
proof -
  let ?d = MySQLDialect
  note opts = lexes_opts [OF _ assms(2)]
  show "lexes ?d (buildCreateOrAlter b)
      (words_of [''CREATE'', ''ROLE'', ''IF'', ''NOT'', ''EXISTS''] @ [StrLit (rb_name b)] @ concat tss)"
    if "rb_action b = ''CREATE ROLE''"
    using that assms(1) opts [OF lexes_app [OF lexes_heads(7) lexes_literal [of _ "rb_name b"]]]
    by (simp add: buildCreateOrAlter_def buildMySQL_def Let_def)
  show "lexes ?d (buildCreateOrAlter b)
      (words_of [''CREATE'', ''USER'', ''IF'', ''NOT'', ''EXISTS''] @ user_host (rb_name b) (rb_host b) @
       identified (ar_init\<lparr>ar_password := rb_password b, ar_plugin := rb_authPlugin b\<rparr>) @ concat tss)"
    if "rb_action b = ''CREATE USER''"
    using that assms(1) opts [OF lexes_identified [OF lexes_app [OF lexes_heads(8)
          lexes_user_host [of _ "rb_name b" "rb_host b"]] assms(3), where pw = "rb_password b"]]
    by (simp add: buildCreateOrAlter_def buildMySQL_def Let_def)
  show "lexes ?d (buildCreateOrAlter b)
      (words_of [''ALTER'', ''USER''] @ user_host (rb_name b) (rb_host b) @
       (if rb_password b \<noteq> '''' then [Word ''IDENTIFIED'', Word ''BY'', StrLit (rb_password b)] else []) @
       concat tss)"
    if "rb_action b = ''ALTER USER''"
    using that assms(1) opts [OF lexes_app_opt [OF lexes_app [OF lexes_heads(5)
          lexes_user_host [of _ "rb_name b" "rb_host b"]]
          lexes_app [OF lexes_heads(10) lexes_literal [of _ "rb_password b"]],
          where P = "rb_password b \<noteq> ''''"]]
    by (cases "rb_password b = []"; cases "rb_roleOpts b = []")
      (simp_all add: buildCreateOrAlter_def buildMySQL_def Let_def)
qed

lemma drop_lexes:
  assumes "rb_dialect b = d" and "d \<noteq> ClickHouseDialect"
  shows "lexes d (buildDropRole b) (words_of [''DROP'', ''ROLE''] @
      (if rb_ifExists b then words_of [''IF'', ''EXISTS''] else []) @
      (if d = MySQLDialect then [StrLit (rb_name b)] else [QIdent (rb_name b)]))"
    and "d = MySQLDialect \<Longrightarrow> lexes d (buildDropUser b) (words_of [''DROP'', ''USER''] @
      (if rb_ifExists b then words_of [''IF'', ''EXISTS''] else []) @ user_host (rb_name b) (rb_host b))"
  using lexes_app_if [OF lexes_heads(3) lexes_heads(6) lexes_ident [OF assms(2), of "rb_name b"], where P = "rb_ifExists b"]
    lexes_app_if [OF lexes_heads(3) lexes_heads(6) lexes_literal [of d "rb_name b"], where P = "rb_ifExists b"]
    lexes_app_if [OF lexes_heads(4) lexes_heads(6) lexes_user_host [of d "rb_name b" "rb_host b"], where P = "rb_ifExists b"]
    assms
  by (cases d; cases "rb_ifExists b"; simp add: buildDropRole_def buildDropUser_def)+

lemma role_build_lexes:
  assumes "rb_sim st b a"
  shows "lexes (start_dialect st) (RoleBuilder_Build b) (role_tokens st a)"
proof -
  have opts: "list_all2 (lexes (start_dialect st)) (rb_roleOpts b) (ar_opts a)"
    and plugin: "list_all word_char (rb_authPlugin b)"
    using assms by (simp_all add: rb_sim_def)
  note fields = assms [unfolded rb_sim_def]
  show ?thesis
    using fields opts plugin pg_create_alter_lexes [OF assms, of "words_of [''CREATE'', ''ROLE'']"]
      pg_create_alter_lexes [OF assms, of "words_of [''ALTER'', ''ROLE'']"] alter_set_lexes [of b]
      mysql_lexes [of b "ar_opts a"] drop_lexes [of b "start_dialect st"]
    by (cases st)
      (auto simp: RoleBuilder_Build_def lexes_heads(1,2) [simplified] if_exists_def identified_fields [of a])
qed



end
