(* ===== verification/Sql_Database.thy ===== *)
theory Sql_Database
  imports Sql_Dialect
begin

text \<open>
  The database statements of \<^verbatim>\<open>internal/adapter/sqlbuilder/database.go\<close>: the builder, its
  constructors and setters, the three statement forms, and the theorem that the text of a finished
  statement reads as the clause list the setters asked for.
\<close>

record DatabaseBuilder =
  db_dialect :: dialect
  db_action :: string
  db_name :: string
  db_owner :: string
  db_encoding :: string
  db_template :: string
  db_lcCollate :: string
  db_lcCtype :: string
  db_tablespace :: string
  db_connectionLimit :: int
  db_isTemplate :: bool
  db_charset :: string
  db_collation :: string
  db_ifExists :: bool
  db_cascade :: bool

definition new_database_builder :: "dialect \<Rightarrow> string \<Rightarrow> string \<Rightarrow> DatabaseBuilder" where
  "new_database_builder d action name = \<lparr>db_dialect = d, db_action = action, db_name = name,
     db_owner = '''', db_encoding = '''', db_template = '''', db_lcCollate = '''', db_lcCtype = '''',
     db_tablespace = '''', db_connectionLimit = 0, db_isTemplate = False, db_charset = '''',
     db_collation = '''', db_ifExists = False, db_cascade = False\<rparr>"

definition PgCreateDatabase :: "string \<Rightarrow> DatabaseBuilder" where
  "PgCreateDatabase name = new_database_builder PgDialect ''CREATE'' name"

definition PgAlterDatabase :: "string \<Rightarrow> DatabaseBuilder" where
  "PgAlterDatabase name = new_database_builder PgDialect ''ALTER'' name"

definition PgDropDatabase :: "string \<Rightarrow> DatabaseBuilder" where
  "PgDropDatabase name = new_database_builder PgDialect ''DROP'' name"

definition MySQLCreateDatabase :: "string \<Rightarrow> DatabaseBuilder" where
  "MySQLCreateDatabase name = new_database_builder MySQLDialect ''CREATE'' name"

definition MySQLAlterDatabase :: "string \<Rightarrow> DatabaseBuilder" where
  "MySQLAlterDatabase name = new_database_builder MySQLDialect ''ALTER'' name"

definition MySQLDropDatabase :: "string \<Rightarrow> DatabaseBuilder" where
  "MySQLDropDatabase name = new_database_builder MySQLDialect ''DROP'' name"

section \<open>Option setters\<close>

text \<open>
  The twelve setters each assign one field; they are one operation indexed by the setter called.
\<close>

datatype db_call = DOwner string | DEncoding string | DTemplate string | DLCCollate string
  | DLCCtype string | DTablespace string | DConnectionLimit int | DIsTemplate bool
  | DCharset string | DCollation string | DIfExists | DCascade

fun do_db_call :: "db_call \<Rightarrow> DatabaseBuilder \<Rightarrow> DatabaseBuilder" where
  "do_db_call (DOwner v) b = b\<lparr>db_owner := v\<rparr>"
| "do_db_call (DEncoding v) b = b\<lparr>db_encoding := v\<rparr>"
| "do_db_call (DTemplate v) b = b\<lparr>db_template := v\<rparr>"
| "do_db_call (DLCCollate v) b = b\<lparr>db_lcCollate := v\<rparr>"
| "do_db_call (DLCCtype v) b = b\<lparr>db_lcCtype := v\<rparr>"
| "do_db_call (DTablespace v) b = b\<lparr>db_tablespace := v\<rparr>"
| "do_db_call (DConnectionLimit n) b = b\<lparr>db_connectionLimit := n\<rparr>"
| "do_db_call (DIsTemplate v) b = b\<lparr>db_isTemplate := v\<rparr>"
| "do_db_call (DCharset v) b = b\<lparr>db_charset := v\<rparr>"
| "do_db_call (DCollation v) b = b\<lparr>db_collation := v\<rparr>"
| "do_db_call DIfExists b = b\<lparr>db_ifExists := True\<rparr>"
| "do_db_call DCascade b = b\<lparr>db_cascade := True\<rparr>"

section \<open>Build\<close>

definition charset_clauses :: "DatabaseBuilder \<Rightarrow> string" where
  "charset_clauses b =
     (if db_charset b \<noteq> '''' then '' CHARACTER SET '' @ EscapeIdentifier (db_dialect b) (db_charset b) else '''') @
     (if db_collation b \<noteq> '''' then '' COLLATE '' @ EscapeIdentifier (db_dialect b) (db_collation b) else '''')"

definition create_opts :: "DatabaseBuilder \<Rightarrow> string list" where
  "create_opts b = (let d = db_dialect b in
     (if db_owner b \<noteq> '''' then [''OWNER = '' @ EscapeIdentifier d (db_owner b)] else []) @
     (if db_template b \<noteq> '''' then [''TEMPLATE = '' @ EscapeIdentifier d (db_template b)] else []) @
     (if db_encoding b \<noteq> '''' then [''ENCODING = '' @ EscapeLiteral d (db_encoding b)] else []) @
     (if db_lcCollate b \<noteq> '''' then [''LC_COLLATE = '' @ EscapeLiteral d (db_lcCollate b)] else []) @
     (if db_lcCtype b \<noteq> '''' then [''LC_CTYPE = '' @ EscapeLiteral d (db_lcCtype b)] else []) @
     (if db_tablespace b \<noteq> '''' then [''TABLESPACE = '' @ EscapeIdentifier d (db_tablespace b)] else []) @
     (if db_connectionLimit b \<noteq> 0 then [''CONNECTION LIMIT = '' @ FormatInt (db_connectionLimit b)] else []) @
     (if db_isTemplate b then [''IS_TEMPLATE = TRUE''] else []))"

definition buildCreate :: "DatabaseBuilder \<Rightarrow> string" where
  "buildCreate b =
     (case db_dialect b of
        MySQLDialect \<Rightarrow>
          ''CREATE DATABASE IF NOT EXISTS '' @ EscapeIdentifier (db_dialect b) (db_name b) @ charset_clauses b
      | _ \<Rightarrow>
          ''CREATE DATABASE '' @ EscapeIdentifier (db_dialect b) (db_name b) @
          (let opts = create_opts b in if opts \<noteq> [] then '' WITH '' @ Join opts '' '' else ''''))"

definition buildAlter :: "DatabaseBuilder \<Rightarrow> string" where
  "buildAlter b =
     ''ALTER DATABASE '' @ EscapeIdentifier (db_dialect b) (db_name b) @
     (case db_dialect b of
        MySQLDialect \<Rightarrow> charset_clauses b
      | _ \<Rightarrow>
          if db_owner b \<noteq> '''' then '' OWNER TO '' @ EscapeIdentifier (db_dialect b) (db_owner b)
          else if db_connectionLimit b \<noteq> 0 then '' CONNECTION LIMIT '' @ FormatInt (db_connectionLimit b)
          else '''')"

definition buildDrop :: "DatabaseBuilder \<Rightarrow> string" where
  "buildDrop b =
     ''DROP DATABASE '' @ (if db_ifExists b then ''IF EXISTS '' else '''') @
     EscapeIdentifier (db_dialect b) (db_name b) @ (if db_cascade b then '' CASCADE'' else '''')"

definition DatabaseBuilder_Build :: "DatabaseBuilder \<Rightarrow> string" where
  "DatabaseBuilder_Build b =
     (if db_action b = ''CREATE'' then buildCreate b
      else if db_action b = ''ALTER'' then buildAlter b
      else if db_action b = ''DROP'' then buildDrop b
      else '''')"

section \<open>The clause list of a statement\<close>

definition eq_ident :: "string \<Rightarrow> string \<Rightarrow> sql_token list list" where
  "eq_ident k v = (if v \<noteq> '''' then [[Word k, Sym CHR ''='', QIdent v]] else [])"

definition eq_str :: "string \<Rightarrow> string \<Rightarrow> sql_token list list" where
  "eq_str k v = (if v \<noteq> '''' then [[Word k, Sym CHR ''='', StrLit v]] else [])"

definition create_clauses :: "DatabaseBuilder \<Rightarrow> sql_token list list" where
  "create_clauses b =
     eq_ident ''OWNER'' (db_owner b) @ eq_ident ''TEMPLATE'' (db_template b) @
     eq_str ''ENCODING'' (db_encoding b) @ eq_str ''LC_COLLATE'' (db_lcCollate b) @
     eq_str ''LC_CTYPE'' (db_lcCtype b) @ eq_ident ''TABLESPACE'' (db_tablespace b) @
     (if db_connectionLimit b \<noteq> 0
      then [words_of [''CONNECTION'', ''LIMIT''] @ Sym CHR ''='' # int_tokens (db_connectionLimit b)] else []) @
     (if db_isTemplate b then [[Word ''IS_TEMPLATE'', Sym CHR ''='', Word ''TRUE'']] else [])"

definition charset_tokens :: "DatabaseBuilder \<Rightarrow> sql_token list" where
  "charset_tokens b =
     (if db_charset b \<noteq> '''' then words_of [''CHARACTER'', ''SET''] @ [QIdent (db_charset b)] else []) @
     (if db_collation b \<noteq> '''' then [Word ''COLLATE'', QIdent (db_collation b)] else [])"

definition database_tokens :: "DatabaseBuilder \<Rightarrow> sql_token list" where
  "database_tokens b =
     (if db_action b = ''CREATE'' then
        (if db_dialect b = MySQLDialect
         then words_of [''CREATE'', ''DATABASE'', ''IF'', ''NOT'', ''EXISTS''] @ [QIdent (db_name b)] @ charset_tokens b
         else words_of [''CREATE'', ''DATABASE''] @ [QIdent (db_name b)] @ with_opts (create_clauses b))
      else if db_action b = ''ALTER'' then
        words_of [''ALTER'', ''DATABASE''] @ [QIdent (db_name b)] @
        (if db_dialect b = MySQLDialect then charset_tokens b
         else if db_owner b \<noteq> '''' then words_of [''OWNER'', ''TO''] @ [QIdent (db_owner b)]
         else if db_connectionLimit b \<noteq> 0
         then words_of [''CONNECTION'', ''LIMIT''] @ int_tokens (db_connectionLimit b)
         else [])
      else if db_action b = ''DROP'' then
        words_of [''DROP'', ''DATABASE''] @ (if db_ifExists b then words_of [''IF'', ''EXISTS''] else []) @
        [QIdent (db_name b)] @ (if db_cascade b then [Word ''CASCADE''] else [])
      else [])"

lemma lexes_db_words:
  "lexes d ''CREATE DATABASE'' (words_of [''CREATE'', ''DATABASE''])"
  "lexes d ''ALTER DATABASE'' (words_of [''ALTER'', ''DATABASE''])"
  "lexes d ''DROP DATABASE'' (words_of [''DROP'', ''DATABASE''])"
  "lexes d ''IF EXISTS'' (words_of [''IF'', ''EXISTS''])"
  "lexes d ''CREATE DATABASE IF NOT EXISTS'' (words_of [''CREATE'', ''DATABASE'', ''IF'', ''NOT'', ''EXISTS''])"
  "lexes d ''CHARACTER SET'' (words_of [''CHARACTER'', ''SET''])"
  "lexes d ''COLLATE'' [Word ''COLLATE'']"
  "lexes d ''CASCADE'' [Word ''CASCADE'']"
  "lexes d ''OWNER TO'' (words_of [''OWNER'', ''TO''])"
  "lexes d ''CONNECTION LIMIT'' (words_of [''CONNECTION'', ''LIMIT''])"
  "lexes d ''CONNECTION LIMIT ='' (words_of [''CONNECTION'', ''LIMIT''] @ [Sym CHR ''=''])"
  "lexes d ''IS_TEMPLATE = TRUE'' [Word ''IS_TEMPLATE'', Sym CHR ''='', Word ''TRUE'']"
  "lexes d ''OWNER ='' [Word ''OWNER'', Sym CHR ''='']"
  "lexes d ''TEMPLATE ='' [Word ''TEMPLATE'', Sym CHR ''='']"
  "lexes d ''TABLESPACE ='' [Word ''TABLESPACE'', Sym CHR ''='']"
  "lexes d ''ENCODING ='' [Word ''ENCODING'', Sym CHR ''='']"
  "lexes d ''LC_COLLATE ='' [Word ''LC_COLLATE'', Sym CHR ''='']"
  "lexes d ''LC_CTYPE ='' [Word ''LC_CTYPE'', Sym CHR ''='']"
  by (cases d; simp add: lexes_def lex_eval)+

section \<open>The text of a database statement reads as its clause list\<close>

lemma lexes_charset:
  assumes "db_dialect b \<noteq> ClickHouseDialect" and "lexes (db_dialect b) s ts"
  shows "lexes (db_dialect b) (s @ charset_clauses b) (ts @ charset_tokens b)"
proof -
  have cs: "lexes (db_dialect b) (''CHARACTER SET'' @ CHR '' '' # EscapeIdentifier (db_dialect b) v)
      (words_of [''CHARACTER'', ''SET''] @ [QIdent v])" for v
    by (intro lexes_app lexes_db_words lexes_ident assms(1))
  have co: "lexes (db_dialect b) (''COLLATE'' @ CHR '' '' # EscapeIdentifier (db_dialect b) v)
      ([Word ''COLLATE''] @ [QIdent v])" for v
    by (intro lexes_app lexes_db_words lexes_ident assms(1))
  show ?thesis
    using lexes_app_opt [OF lexes_app_opt [OF assms(2) cs [of "db_charset b"], where P = "db_charset b \<noteq> []"]
        co [of "db_collation b"], where P = "db_collation b \<noteq> []"]
    by (cases "db_charset b = []"; cases "db_collation b = []")
      (simp_all add: charset_clauses_def charset_tokens_def)
qed

lemma lexes_create_opts:
  assumes "db_dialect b \<noteq> ClickHouseDialect"
  shows "list_all2 (lexes (db_dialect b)) (create_opts b) (create_clauses b)"
proof -
  let ?d = "db_dialect b"
  have ident: "lexes ?d (k @ CHR '' '' # EscapeIdentifier ?d v) (ts @ [QIdent v])" if "lexes ?d k ts" for k ts v
    by (intro lexes_app that lexes_ident assms)
  have str: "lexes ?d (k @ CHR '' '' # EscapeLiteral ?d v) (ts @ [StrLit v])" if "lexes ?d k ts" for k ts v
    by (intro lexes_app that lexes_literal)
  have opt: "list_all2 (lexes ?d) (if P then [s] else []) (if P then [ts] else [])" if "lexes ?d s ts" for P s ts
    using that by simp
  note idents = lexes_db_words(13-15) [THEN ident] and strs = lexes_db_words(16-18) [THEN str]
  have limit: "lexes ?d (''CONNECTION LIMIT ='' @ CHR '' '' # FormatInt n)
      ((words_of [''CONNECTION'', ''LIMIT''] @ [Sym CHR ''='']) @ int_tokens n)" for n
    by (intro lexes_app lexes_db_words lexes_int)
  show ?thesis
    unfolding create_opts_def create_clauses_def Let_def eq_ident_def eq_str_def
    using idents strs limit lexes_db_words(12)
    by (intro list_all2_appendI opt) simp_all
qed

lemma database_build_lexes:
  assumes "db_dialect b \<noteq> ClickHouseDialect"
  shows "lexes (db_dialect b) (DatabaseBuilder_Build b) (database_tokens b)"
proof -
  let ?d = "db_dialect b" and ?n = "EscapeIdentifier (db_dialect b) (db_name b)"
  have name: "lexes ?d (s @ CHR '' '' # ?n) (ts @ [QIdent (db_name b)])" if "lexes ?d s ts" for s ts
    by (intro lexes_app that lexes_ident assms)
  have empty: "lexes ?d [] []" by (cases ?d) (simp_all add: lexes_def lex_eval)
  have mysql_create: "lexes ?d (''CREATE DATABASE IF NOT EXISTS '' @ ?n @ charset_clauses b)
      (words_of [''CREATE'', ''DATABASE'', ''IF'', ''NOT'', ''EXISTS''] @ [QIdent (db_name b)] @ charset_tokens b)"
    using lexes_charset [OF assms name [OF lexes_db_words(5)]] by simp
  have mysql_alter: "lexes ?d (''ALTER DATABASE '' @ ?n @ charset_clauses b)
      (words_of [''ALTER'', ''DATABASE''] @ [QIdent (db_name b)] @ charset_tokens b)"
    using lexes_charset [OF assms name [OF lexes_db_words(2)]] by simp
  have pg_create: "lexes ?d (''CREATE DATABASE '' @ ?n @
      (if create_opts b \<noteq> [] then '' WITH '' @ Join (create_opts b) '' '' else ''''))
      (words_of [''CREATE'', ''DATABASE''] @ [QIdent (db_name b)] @ with_opts (create_clauses b))"
    using lexes_with_opts [OF name [OF lexes_db_words(1)] lexes_create_opts [OF assms]]
    by (simp only: append_assoc append.simps)
  have owner: "lexes ?d (''ALTER DATABASE '' @ ?n @ '' OWNER TO '' @ EscapeIdentifier ?d (db_owner b))
      (words_of [''ALTER'', ''DATABASE''] @ [QIdent (db_name b)] @ words_of [''OWNER'', ''TO''] @ [QIdent (db_owner b)])"
    using lexes_app [OF name [OF lexes_db_words(2)] lexes_app [OF lexes_db_words(9) lexes_ident [OF assms]]]
    by simp
  have limit: "lexes ?d (''ALTER DATABASE '' @ ?n @ '' CONNECTION LIMIT '' @ FormatInt (db_connectionLimit b))
      (words_of [''ALTER'', ''DATABASE''] @ [QIdent (db_name b)] @ words_of [''CONNECTION'', ''LIMIT''] @
       int_tokens (db_connectionLimit b))"
    using lexes_app [OF name [OF lexes_db_words(2)] lexes_app [OF lexes_db_words(10) lexes_int]]
    by (simp del: int_tokens.simps)
  have drop: "lexes ?d (buildDrop b) (words_of [''DROP'', ''DATABASE''] @
      (if db_ifExists b then words_of [''IF'', ''EXISTS''] else []) @
      [QIdent (db_name b)] @ (if db_cascade b then [Word ''CASCADE''] else []))"
    using lexes_app_opt [OF lexes_app_if [OF lexes_db_words(3) lexes_db_words(4) lexes_ident [OF assms, of "db_name b"],
          where P = "db_ifExists b"] lexes_db_words(8), where P = "db_cascade b"]
    by (cases "db_ifExists b"; cases "db_cascade b") (simp_all add: buildDrop_def)
  have create: "lexes ?d (buildCreate b)
      (if ?d = MySQLDialect
       then words_of [''CREATE'', ''DATABASE'', ''IF'', ''NOT'', ''EXISTS''] @ [QIdent (db_name b)] @ charset_tokens b
       else words_of [''CREATE'', ''DATABASE''] @ [QIdent (db_name b)] @ with_opts (create_clauses b))"
    unfolding buildCreate_def Let_def using mysql_create pg_create by (cases ?d) simp_all
  have alter: "lexes ?d (buildAlter b) (words_of [''ALTER'', ''DATABASE''] @ [QIdent (db_name b)] @
        (if ?d = MySQLDialect then charset_tokens b
         else if db_owner b \<noteq> '''' then words_of [''OWNER'', ''TO''] @ [QIdent (db_owner b)]
         else if db_connectionLimit b \<noteq> 0
         then words_of [''CONNECTION'', ''LIMIT''] @ int_tokens (db_connectionLimit b)
         else []))"
    unfolding buildAlter_def using mysql_alter owner limit name [OF lexes_db_words(2)]
    by (cases ?d) (simp_all del: int_tokens.simps)
  show ?thesis
    using create alter drop empty by (simp add: DatabaseBuilder_Build_def database_tokens_def)
qed

lemma do_db_call_fixed:
  "db_dialect (fold do_db_call cs b) = db_dialect b"
  "db_action (fold do_db_call cs b) = db_action b"
  "db_name (fold do_db_call cs b) = db_name b"
proof -
  have one: "db_dialect (do_db_call c b) = db_dialect b \<and> db_action (do_db_call c b) = db_action b \<and>
      db_name (do_db_call c b) = db_name b" for c b
    by (cases c) simp_all
  show "db_dialect (fold do_db_call cs b) = db_dialect b"
    "db_action (fold do_db_call cs b) = db_action b" "db_name (fold do_db_call cs b) = db_name b"
    by (induction cs arbitrary: b) (simp_all add: one)
qed

text \<open>
  C27: The database statements. For every statement begun for PostgreSQL or MySQL and any sequence of
  setter calls, the text of \<^verbatim>\<open>Build\<close> reads as the clause list: each name is one quoted
  identifier and each locale or encoding one string literal holding the caller's text, in the order
  the code writes the options; an \<^verbatim>\<open>ALTER DATABASE\<close> with an owner drops the connection limit.
\<close>

theorem database_build_tokens:
  assumes "d \<in> {PgDialect, MySQLDialect}"
  shows "sql_lex d (DatabaseBuilder_Build (fold do_db_call cs (new_database_builder d action name))) =
         Some (database_tokens (fold do_db_call cs (new_database_builder d action name)))"
proof -
  let ?b = "fold do_db_call cs (new_database_builder d action name)"
  have "db_dialect ?b = d" by (simp add: do_db_call_fixed new_database_builder_def)
  then show ?thesis
    using database_build_lexes [of ?b] assms by (auto intro: lexes_sql_lex)
qed

theorem database_build_tokens_witness:
  "sql_lex PgDialect (DatabaseBuilder_Build (fold do_db_call [DOwner ''o;--'', DEncoding ''UT;F8'', DConnectionLimit (-1)]
     (PgCreateDatabase ''a\"b''))) =
   Some [Word ''CREATE'', Word ''DATABASE'', QIdent ''a\"b'', Word ''WITH'', Word ''OWNER'', Sym CHR ''='',
         QIdent ''o;--'', Word ''ENCODING'', Sym CHR ''='', StrLit ''UT;F8'', Word ''CONNECTION'', Word ''LIMIT'',
         Sym CHR ''='', Sym CHR ''-'', Word ''1'']"
  unfolding PgCreateDatabase_def
  by (subst database_build_tokens) (simp, code_simp)

end
