(* ===== verification/Go_Errors.thy ===== *)
theory Go_Errors
  imports Op_Prelude
begin

text \<open>
  Error values and their classification: \<^verbatim>\<open>internal/service/errors.go\<close>, the error part of
  \<^verbatim>\<open>internal/util/retry.go\<close> and \<^verbatim>\<open>internal/util/timeout.go\<close>, and
  \<^verbatim>\<open>internal/reconcileutil/requeue.go\<close>, which turns an error into the requeue decision of a
  reconciliation.

  An error value is a tree: a sentinel, a typed error of the service package that wraps a cause, the
  result of \<^verbatim>\<open>fmt.Errorf("prefix: %w", err)\<close>, an error of the context package, or an error
  of other code, \<open>OtherError\<close>, with its message and, where its type implements
  \<^verbatim>\<open>RetryableError\<close>, the answer of its \<^verbatim>\<open>IsRetryable\<close> method. Every
  construction of a wrapping error in the sources passes an error that has been compared with
  \<^verbatim>\<open>nil\<close>, so the wrapped error is present; a possibly absent error is an option.
\<close>

datatype go_error =
    ErrNotFound | ErrAlreadyExists | ErrConnectionFailed | ErrNotReady | ErrUnsupportedEngine | ErrTimeout
  | DeadlineExceeded | Canceled
  | ValidationError (ve_Field: string) (ve_Message: string)
  | DatabaseError (de_Operation: string) (de_Resource: string) (de_Err: go_error)
  | ConnectionError (ce_Host: string) (ce_Port: int) (ce_Err: go_error)
  | TimeoutError (te_Operation: string) (te_Resource: string) (te_Timeout: string) (te_Err: go_error)
  | Errorf_w (ef_Prefix: string) (ef_Err: go_error)
  | OtherError (oe_Message: string) (oe_Retryable: "bool option")

section \<open>Messages and the chain of wrapped errors\<close>

primrec Error :: "go_error \<Rightarrow> string" where
  "Error ErrNotFound = ''not found''"
| "Error ErrAlreadyExists = ''already exists''"
| "Error ErrConnectionFailed = ''connection failed''"
| "Error ErrNotReady = ''not ready''"
| "Error ErrUnsupportedEngine = ''unsupported engine''"
| "Error ErrTimeout = ''operation timed out''"
| "Error DeadlineExceeded = ''context deadline exceeded''"
| "Error Canceled = ''context canceled''"
| "Error (ValidationError f m) = ''validation error for '' @ f @ '': '' @ m"
| "Error (DatabaseError op r e) = ''database error during '' @ op @ '' on '' @ r @ '': '' @ Error e"
| "Error (ConnectionError h p e) = ''connection to '' @ h @ '':'' @ FormatInt p @ '' failed: '' @ Error e"
| "Error (TimeoutError op r t e) =
     ''operation '' @ op @ '' on '' @ r @ '' timed out after '' @ t @ '': '' @ Error e"
| "Error (Errorf_w p e) = p @ Error e"
| "Error (OtherError m r) = m"

text \<open>The chain that \<^verbatim>\<open>errors.Is\<close> and \<^verbatim>\<open>errors.As\<close> walk by \<^verbatim>\<open>Unwrap\<close>.\<close>

fun Unwrap :: "go_error \<Rightarrow> go_error option" where
  "Unwrap (DatabaseError op r e) = Some e"
| "Unwrap (ConnectionError h p e) = Some e"
| "Unwrap (TimeoutError op r t e) = Some e"
| "Unwrap (Errorf_w p e) = Some e"
| "Unwrap e = None"

lemma Unwrap_size: "Unwrap e = Some e' \<Longrightarrow> size e' < size e"
  by (cases e) auto

function chain :: "go_error \<Rightarrow> go_error list" where
  "chain e = e # (case Unwrap e of None \<Rightarrow> [] | Some e' \<Rightarrow> chain e')"
  by pat_completeness auto
termination
  by (relation "measure size") (auto simp: Unwrap_size)

declare chain.simps [simp del]

lemma chain_None [simp]: "Unwrap e = None \<Longrightarrow> chain e = [e]"
  by (subst chain.simps) simp

lemma chain_Some: "Unwrap e = Some e' \<Longrightarrow> chain e = e # chain e'"
  by (subst chain.simps) simp

lemma chain_wrap [simp]:
  "chain (DatabaseError op r e) = DatabaseError op r e # chain e"
  "chain (ConnectionError h p e) = ConnectionError h p e # chain e"
  "chain (TimeoutError op r t e) = TimeoutError op r t e # chain e"
  "chain (Errorf_w s e) = Errorf_w s e # chain e"
  by (simp_all add: chain_Some)

definition errors_Is :: "go_error option \<Rightarrow> go_error \<Rightarrow> bool" where
  "errors_Is err target = (case err of None \<Rightarrow> False | Some e \<Rightarrow> target \<in> set (chain e))"

definition errors_As :: "go_error option \<Rightarrow> (go_error \<Rightarrow> bool) \<Rightarrow> go_error option" where
  "errors_As err is_type = (case err of None \<Rightarrow> None | Some e \<Rightarrow> find is_type (chain e))"

section \<open>\<^verbatim>\<open>service/errors.go\<close>\<close>

definition NewDatabaseError :: "string \<Rightarrow> string \<Rightarrow> go_error \<Rightarrow> go_error" where
  "NewDatabaseError operation resource err = DatabaseError operation resource err"

definition NewConnectionError :: "string \<Rightarrow> int \<Rightarrow> go_error \<Rightarrow> go_error" where
  "NewConnectionError host port err = ConnectionError host port err"

definition NewTimeoutError :: "string \<Rightarrow> string \<Rightarrow> string \<Rightarrow> go_error \<Rightarrow> go_error" where
  "NewTimeoutError operation resource timeout err = TimeoutError operation resource timeout err"

definition IsNotFound :: "go_error option \<Rightarrow> bool" where
  "IsNotFound err = errors_Is err ErrNotFound"

definition IsAlreadyExists :: "go_error option \<Rightarrow> bool" where
  "IsAlreadyExists err = errors_Is err ErrAlreadyExists"

definition IsConnectionFailed :: "go_error option \<Rightarrow> bool" where
  "IsConnectionFailed err =
     (errors_Is err ErrConnectionFailed \<or> errors_As err is_ConnectionError \<noteq> None)"

definition IsTimeout :: "go_error option \<Rightarrow> bool" where
  "IsTimeout err = (errors_Is err ErrTimeout \<or> errors_As err is_TimeoutError \<noteq> None)"

definition IsValidationError :: "go_error option \<Rightarrow> bool" where
  "IsValidationError err = (errors_As err is_ValidationError \<noteq> None)"

definition IsDatabaseError :: "go_error option \<Rightarrow> bool" where
  "IsDatabaseError err = (errors_As err is_DatabaseError \<noteq> None)"

section \<open>\<^verbatim>\<open>util/timeout.go\<close> and \<^verbatim>\<open>util/retry.go\<close>\<close>

definition IsTimeoutError :: "go_error option \<Rightarrow> bool" where
  "IsTimeoutError err = (err = Some DeadlineExceeded)"

definition IsCanceled :: "go_error option \<Rightarrow> bool" where
  "IsCanceled err = (err = Some Canceled)"

definition IsContextError :: "go_error option \<Rightarrow> bool" where
  "IsContextError err = (IsTimeoutError err \<or> IsCanceled err)"

definition transientPatterns :: "string list" where
  "transientPatterns =
     [''connection refused'', ''connection reset'', ''no such host'', ''i/o timeout'',
      ''deadline exceeded'', ''temporary failure'', ''too many connections'',
      ''server is starting up'', ''the database system is starting up'',
      ''not currently accepting connections'', ''connection timed out'', ''network is unreachable'',
      ''no route to host'', ''broken pipe'', ''connection closed'', ''eof'', ''unavailable'',
      ''try again'']"

fun is_RetryableError :: "go_error \<Rightarrow> bool" where
  "is_RetryableError (OtherError m r) = (r \<noteq> None)"
| "is_RetryableError e = False"

fun IsRetryable :: "go_error \<Rightarrow> bool" where
  "IsRetryable (OtherError m (Some r)) = r"
| "IsRetryable e = False"

definition IsRetryableError :: "go_error option \<Rightarrow> bool" where
  "IsRetryableError err =
     (case err of
        None \<Rightarrow> False
      | Some e \<Rightarrow>
          (case errors_As err is_RetryableError of
             Some r \<Rightarrow> IsRetryable r
           | None \<Rightarrow>
               (let errStr = ToLower (Error e)
                in list_ex (Contains errStr) transientPatterns)))"

section \<open>\<^verbatim>\<open>reconcileutil/requeue.go\<close>\<close>

text \<open>Durations are nanoseconds.\<close>

type_synonym duration = int

definition Nanosecond :: duration where "Nanosecond = 1"
definition Millisecond :: duration where "Millisecond = 1000000"
definition Second :: duration where "Second = 1000000000"
definition Minute :: duration where "Minute = 60 * Second"
definition Hour :: duration where "Hour = 60 * Minute"

lemmas duration_units = Nanosecond_def Millisecond_def Second_def Minute_def Hour_def

record ctrl_Result =
  Requeue :: bool
  RequeueAfter :: duration

definition RequeueDefault :: duration where "RequeueDefault = 30 * Second"
definition RequeueConnection :: duration where "RequeueConnection = 1 * Minute"

datatype ErrorClass = ErrorClassTransient | ErrorClassConnection | ErrorClassPermanent

definition ClassifyError :: "go_error option \<Rightarrow> ErrorClass" where
  "ClassifyError err =
     (if err = None then ErrorClassTransient
      else if IsValidationError err then ErrorClassPermanent
      else if errors_Is err ErrUnsupportedEngine then ErrorClassPermanent
      else if errors_Is err ErrAlreadyExists then ErrorClassPermanent
      else if IsConnectionFailed err then ErrorClassConnection
      else if IsTimeout err then ErrorClassConnection
      else if IsRetryableError err then ErrorClassConnection
      else ErrorClassTransient)"

definition ClassifyRequeue :: "go_error option \<Rightarrow> ctrl_Result \<times> go_error option" where
  "ClassifyRequeue err =
     (case ClassifyError err of
        ErrorClassPermanent \<Rightarrow> (\<lparr>Requeue = False, RequeueAfter = 0\<rparr>, None)
      | ErrorClassConnection \<Rightarrow> (\<lparr>Requeue = False, RequeueAfter = RequeueConnection\<rparr>, None)
      | _ \<Rightarrow> (\<lparr>Requeue = False, RequeueAfter = RequeueDefault\<rparr>, None))"

section \<open>The class of an error survives wrapping\<close>

lemma ToLower_append: "ToLower (a @ b) = ToLower a @ ToLower b"
  by (simp add: ToLower_def)

lemma Error_Unwrap: "Unwrap e' = Some e \<Longrightarrow> \<exists>p. Error e' = p @ Error e"
  by (cases e') (auto simp only: Unwrap.simps Error.simps append_assoc [symmetric] option.inject option.distinct)

lemma find_None_conv: "find P xs \<noteq> None \<longleftrightarrow> (\<exists>x \<in> set xs. P x)"
  by (auto simp: find_None_iff)

definition permanent_marker :: "go_error \<Rightarrow> bool" where
  "permanent_marker e \<longleftrightarrow> is_ValidationError e \<or> e = ErrUnsupportedEngine \<or> e = ErrAlreadyExists"

definition connection_marker :: "go_error \<Rightarrow> bool" where
  "connection_marker e \<longleftrightarrow>
     e = ErrConnectionFailed \<or> is_ConnectionError e \<or> e = ErrTimeout \<or> is_TimeoutError e"

lemma classify_markers:
  "ClassifyError (Some e) =
     (if \<exists>x \<in> set (chain e). permanent_marker x then ErrorClassPermanent
      else if (\<exists>x \<in> set (chain e). connection_marker x) \<or> IsRetryableError (Some e) then ErrorClassConnection
      else ErrorClassTransient)"
  unfolding ClassifyError_def IsValidationError_def IsConnectionFailed_def IsTimeout_def errors_Is_def
    errors_As_def permanent_marker_def connection_marker_def
  by (simp add: find_None_conv del: not_None_eq) blast

lemma retryable_wrap:
  assumes "Unwrap e' = Some e" and "IsRetryableError (Some e)"
  shows "IsRetryableError (Some e')"
proof -
  have outer: "\<not> is_RetryableError e'" using assms(1) by (cases e') auto
  then have as: "errors_As (Some e') is_RetryableError = errors_As (Some e) is_RetryableError"
    by (simp add: errors_As_def chain_Some [OF assms(1)])
  obtain p where "Error e' = p @ Error e" using Error_Unwrap [OF assms(1)] by blast
  then have "Contains (ToLower (Error e')) pat" if "Contains (ToLower (Error e)) pat" for pat
    using Contains_append [OF that, of "ToLower p" "[]"] by (simp add: ToLower_append)
  with assms(2) show ?thesis
    unfolding IsRetryableError_def as by (auto simp: Let_def list_ex_iff split: option.splits)
qed

lemma classify_wrap:
  assumes "Unwrap e' = Some e" and "ClassifyError (Some e) \<noteq> ErrorClassTransient"
  shows "ClassifyError (Some e') = ClassifyError (Some e)"
proof -
  have "\<not> permanent_marker e'" using assms(1) by (cases e') (auto simp: permanent_marker_def)
  with assms show ?thesis
    by (auto simp: classify_markers chain_Some dest: retryable_wrap split: if_splits)
qed



text \<open>
  What a reconciliation does with an error. It is never handed to the controller runtime, and it
  is retried (after one minute for connection errors and timeouts, else after thirty seconds) unless
  the chain holds a validation error, an unsupported engine or an existing resource; those are the
  only errors after which the resource is left alone.
\<close>

theorem requeue_decision:
  "snd (ClassifyRequeue err) = None \<and>
   (RequeueAfter (fst (ClassifyRequeue err)) = 0 \<longleftrightarrow>
     (\<exists>e. err = Some e \<and> (\<exists>x \<in> set (chain e).
        is_ValidationError x \<or> x = ErrUnsupportedEngine \<or> x = ErrAlreadyExists))) \<and>
   (RequeueAfter (fst (ClassifyRequeue err)) = 60000000000 \<longleftrightarrow> ClassifyError err = ErrorClassConnection) \<and>
   RequeueAfter (fst (ClassifyRequeue err)) \<in> {0, 30000000000, 60000000000}"
proof -
  have after: "RequeueAfter (fst (ClassifyRequeue err)) =
     (case ClassifyError err of ErrorClassPermanent \<Rightarrow> 0 | ErrorClassConnection \<Rightarrow> 60000000000 | _ \<Rightarrow> 30000000000)"
    by (simp add: ClassifyRequeue_def RequeueConnection_def RequeueDefault_def duration_units split: ErrorClass.split)
  have noerr: "snd (ClassifyRequeue err) = None" by (simp add: ClassifyRequeue_def split: ErrorClass.split)
  have left: "ClassifyError err = ErrorClassPermanent \<longleftrightarrow>
     (\<exists>e. err = Some e \<and> (\<exists>x \<in> set (chain e).
        is_ValidationError x \<or> x = ErrUnsupportedEngine \<or> x = ErrAlreadyExists))"
    by (cases err) (auto simp: classify_markers permanent_marker_def ClassifyError_def [of None])
  show ?thesis
    unfolding after left [symmetric] using noerr by (simp split: ErrorClass.split)
qed

end
