(* ===== verification/Retry.thy ===== *)
theory Retry
  imports Go_Errors Complex_Main
begin

text \<open>
  Timeouts and retries: \<^verbatim>\<open>internal/util/timeout.go\<close> and \<^verbatim>\<open>internal/util/retry.go\<close>.

  The environment of a run is a world of any type \<open>'w\<close>; the function under retry, the wait on the
  context and the timer, the random numbers and the clock are state-passing functions on it, packed
  in \<open>retry_env\<close>. Go's \<^verbatim>\<open>float64\<close> is a rational number with the rounding of each
  operation and the conversion to \<^verbatim>\<open>int64\<close> as the parameter \<open>float_ops\<close>.
\<close>

section \<open>Printing a duration\<close>

definition zeros :: "nat \<Rightarrow> string" where "zeros n = replicate n (CHR ''0'')"

definition pad_digits :: "nat \<Rightarrow> nat \<Rightarrow> string" where
  "pad_digits prec n = (let s = nat_digits n in zeros (prec - length s) @ s)"

text \<open>\<^verbatim>\<open>fmtFrac\<close>: the fraction without its trailing zeros, and no point when it is zero.\<close>

definition fmtFrac :: "nat \<Rightarrow> nat \<Rightarrow> string" where
  "fmtFrac v prec =
     (if v mod 10 ^ prec = 0 then ''''
      else ''.'' @ rev (dropWhile (\<lambda>c. c = CHR ''0'') (rev (pad_digits prec (v mod 10 ^ prec)))))"

definition Duration_String :: "duration \<Rightarrow> string" where
  "Duration_String d =
     (let u = nat \<bar>d\<bar>;
          body =
            (if u < 1000 then nat_digits u @ ''ns''
             else if u < 1000000 then nat_digits (u div 1000) @ fmtFrac u 3 @ [CHR 0xC2, CHR 0xB5] @ ''s''
             else if u < 1000000000 then nat_digits (u div 1000000) @ fmtFrac u 6 @ ''ms''
             else
               (let s = u div 1000000000; m = s div 60; h = m div 60;
                    secs = nat_digits (s mod 60) @ fmtFrac u 9 @ ''s''
                in if m = 0 then secs
                   else if h = 0 then nat_digits (m mod 60) @ ''m'' @ secs
                   else nat_digits h @ ''h'' @ nat_digits (m mod 60) @ ''m'' @ secs))
      in if u = 0 then ''0s'' else if d < 0 then ''-'' @ body else body)"

section \<open>Timeouts\<close>

record TimeoutConfig =
  ConnectTimeout :: duration
  OperationTimeout :: duration
  QueryTimeout :: duration
  LongOperationTimeout :: duration

definition DefaultTimeoutConfig :: TimeoutConfig where
  "DefaultTimeoutConfig = \<lparr>ConnectTimeout = 30 * Second, OperationTimeout = 60 * Second,
     QueryTimeout = 30 * Second, LongOperationTimeout = 10 * Minute\<rparr>"

definition FastTimeoutConfig :: TimeoutConfig where
  "FastTimeoutConfig = \<lparr>ConnectTimeout = 10 * Second, OperationTimeout = 30 * Second,
     QueryTimeout = 15 * Second, LongOperationTimeout = 2 * Minute\<rparr>"

definition NoTimeoutConfig :: TimeoutConfig where
  "NoTimeoutConfig = \<lparr>ConnectTimeout = 0, OperationTimeout = 0, QueryTimeout = 0, LongOperationTimeout = 0\<rparr>"

text \<open>
  A context is its deadline, if it has one; the standard library keeps the earlier of the parent's
  deadline and \<^verbatim>\<open>now + timeout\<close>. Whether a context has ended at a moment is a question to
  the world (\<open>env_ctx_err\<close> below), since a parent may be cancelled at any time.
\<close>

record ctx = ctx_deadline :: "int option"

definition context_WithTimeout :: "int \<Rightarrow> ctx \<Rightarrow> duration \<Rightarrow> ctx" where
  "context_WithTimeout now c timeout =
     c\<lparr>ctx_deadline := Some (case ctx_deadline c of None \<Rightarrow> now + timeout | Some d \<Rightarrow> min d (now + timeout))\<rparr>"

definition WithTimeout :: "int \<Rightarrow> ctx \<Rightarrow> duration \<Rightarrow> ctx" where
  "WithTimeout now c timeout = (if timeout \<le> 0 then c else context_WithTimeout now c timeout)"

definition WithConnectTimeout :: "TimeoutConfig \<Rightarrow> int \<Rightarrow> ctx \<Rightarrow> ctx" where
  "WithConnectTimeout t now c = WithTimeout now c (ConnectTimeout t)"

definition WithOperationTimeout :: "TimeoutConfig \<Rightarrow> int \<Rightarrow> ctx \<Rightarrow> ctx" where
  "WithOperationTimeout t now c = WithTimeout now c (OperationTimeout t)"

definition WithQueryTimeout :: "TimeoutConfig \<Rightarrow> int \<Rightarrow> ctx \<Rightarrow> ctx" where
  "WithQueryTimeout t now c = WithTimeout now c (QueryTimeout t)"

definition WithLongOperationTimeout :: "TimeoutConfig \<Rightarrow> int \<Rightarrow> ctx \<Rightarrow> ctx" where
  "WithLongOperationTimeout t now c = WithTimeout now c (LongOperationTimeout t)"

section \<open>Retry with exponential backoff\<close>

record RetryConfig =
  MaxRetries :: int
  InitialInterval :: duration
  MaxInterval :: duration
  Multiplier :: rat
  RandomizationFactor :: rat

definition DefaultRetryConfig :: RetryConfig where
  "DefaultRetryConfig = \<lparr>MaxRetries = 5, InitialInterval = 5 * Second, MaxInterval = 30 * Minute,
     Multiplier = 2, RandomizationFactor = 1/10\<rparr>"

definition ConnectionRetryConfig :: RetryConfig where
  "ConnectionRetryConfig = \<lparr>MaxRetries = 3, InitialInterval = 5 * Second, MaxInterval = 30 * Minute,
     Multiplier = 2, RandomizationFactor = 1/5\<rparr>"

definition BackupRetryConfig :: RetryConfig where
  "BackupRetryConfig = \<lparr>MaxRetries = 2, InitialInterval = 10 * Second, MaxInterval = 30 * Minute,
     Multiplier = 3, RandomizationFactor = 1/10\<rparr>"

record RetryResult =
  Attempts :: int
  LastError :: "go_error option"
  TotalTime :: duration
  LastInterval :: duration

record float_ops =
  fl :: "rat \<Rightarrow> rat"
  to_int64 :: "rat \<Rightarrow> int"

record 'w retry_env =
  re_fn :: "'w \<Rightarrow> 'w \<times> go_error option"
  re_wait :: "duration \<Rightarrow> 'w \<Rightarrow> 'w \<times> go_error option"
  re_rand :: "'w \<Rightarrow> 'w \<times> rat"
  re_now :: "'w \<Rightarrow> int"

text \<open>The 64-bit \<^verbatim>\<open>int\<close> of the attempt bound wraps around.\<close>

definition wrap64 :: "int \<Rightarrow> int" where
  "wrap64 n = (n + 2 ^ 63) mod 2 ^ 64 - 2 ^ 63"

definition max_attempts :: "RetryConfig \<Rightarrow> int" where
  "max_attempts cfg = (if MaxRetries cfg < 0 then 1000 else wrap64 (MaxRetries cfg + 1))"

definition scale :: "float_ops \<Rightarrow> rat \<Rightarrow> duration \<Rightarrow> duration" where
  "scale F m interval = to_int64 F (fl F (fl F (of_int interval) * m))"

definition backoff :: "float_ops \<Rightarrow> RetryConfig \<Rightarrow> int \<Rightarrow> duration \<Rightarrow> duration" where
  "backoff F cfg attempt interval =
     (let i = (if attempt = 0 then InitialInterval cfg else scale F (Multiplier cfg) interval)
      in if i > MaxInterval cfg then MaxInterval cfg else i)"

definition jitter :: "float_ops \<Rightarrow> RetryConfig \<Rightarrow> duration \<Rightarrow> rat \<Rightarrow> duration" where
  "jitter F cfg interval r =
     (let i = fl F (of_int interval);
          delta = fl F (RandomizationFactor cfg * i);
          minInterval = fl F (i - delta);
          maxInterval = fl F (i + delta)
      in to_int64 F (fl F (minInterval + fl F (r * fl F (maxInterval - minInterval)))))"

text \<open>The wait before an attempt, and the interval computed after a failed one.\<close>

definition pause :: "'w retry_env \<Rightarrow> duration \<Rightarrow> 'w \<Rightarrow> 'w \<times> go_error option" where
  "pause E interval w = (if interval > 0 then re_wait E interval w else (w, None))"

definition next_interval ::
  "float_ops \<Rightarrow> 'w retry_env \<Rightarrow> RetryConfig \<Rightarrow> int \<Rightarrow> duration \<Rightarrow> 'w \<Rightarrow> 'w \<times> duration" where
  "next_interval F E cfg attempt interval w =
     (let i = backoff F cfg attempt interval
      in if RandomizationFactor cfg > 0 then (let (w', r) = re_rand E w in (w', jitter F cfg i r)) else (w, i))"

fun retry_from ::
  "float_ops \<Rightarrow> 'w retry_env \<Rightarrow> RetryConfig \<Rightarrow> int \<Rightarrow> nat \<Rightarrow> int \<Rightarrow> duration \<Rightarrow> go_error option \<Rightarrow> 'w
   \<Rightarrow> 'w \<times> RetryResult" where
  "retry_from F E cfg start 0 attempt interval lastErr w =
     (w, \<lparr>Attempts = max_attempts cfg, LastError = lastErr, TotalTime = re_now E w - start, LastInterval = interval\<rparr>)"
| "retry_from F E cfg start (Suc n) attempt interval lastErr w =
     (case pause E interval w of
        (w1, Some e) \<Rightarrow> (w1, \<lparr>Attempts = attempt, LastError = Some e, TotalTime = re_now E w1 - start,
                              LastInterval = interval\<rparr>)
      | (w1, None) \<Rightarrow>
          (let (w2, err) = re_fn E w1
           in if err = None \<or> \<not> IsRetryableError err
              then (w2, \<lparr>Attempts = attempt + 1, LastError = err, TotalTime = re_now E w2 - start,
                         LastInterval = interval\<rparr>)
              else (let (w3, i) = next_interval F E cfg attempt interval w2
                    in retry_from F E cfg start n (attempt + 1) i err w3)))"

definition RetryWithBackoff :: "float_ops \<Rightarrow> 'w retry_env \<Rightarrow> RetryConfig \<Rightarrow> 'w \<Rightarrow> 'w \<times> RetryResult" where
  "RetryWithBackoff F E cfg w = retry_from F E cfg (re_now E w) (nat (max_attempts cfg)) 0 0 None w"

definition CalculateRequeueAfter :: "float_ops \<Rightarrow> RetryConfig \<Rightarrow> RetryResult \<Rightarrow> duration" where
  "CalculateRequeueAfter F cfg result =
     (if LastError result = None then 5 * Minute
      else
        (let next = (if LastInterval result = 0 then InitialInterval cfg
                     else scale F (Multiplier cfg) (LastInterval result));
             next = (if next > MaxInterval cfg then MaxInterval cfg else next)
         in if next < InitialInterval cfg then InitialInterval cfg else next))"

section \<open>What a retry run does\<close>

text \<open>
  A counter on the world that the function under retry advances by one and that waiting and random
  numbers leave alone: it counts the calls of the function.
\<close>

definition counts_calls :: "'w retry_env \<Rightarrow> ('w \<Rightarrow> nat) \<Rightarrow> bool" where
  "counts_calls E cnt \<longleftrightarrow>
     (\<forall>w. cnt (fst (re_fn E w)) = Suc (cnt w)) \<and> (\<forall>d w. cnt (fst (re_wait E d w)) = cnt w) \<and>
     (\<forall>w. cnt (fst (re_rand E w)) = cnt w)"

definition interrupted :: "'w retry_env \<Rightarrow> go_error \<Rightarrow> bool" where
  "interrupted E e \<longleftrightarrow> (\<exists>d w. snd (re_wait E d w) = Some e)"

lemma retry_step:
  assumes "retry_from F E cfg start (Suc n) attempt interval lastErr w = (w', r)"
  obtains
    (cancelled) e where "pause E interval w = (w', Some e)" "LastError r = Some e" "Attempts r = attempt"
      "LastInterval r = interval"
  | (stopped) w1 err where "pause E interval w = (w1, None)" "re_fn E w1 = (w', err)"
      "err = None \<or> \<not> IsRetryableError err" "LastError r = err" "Attempts r = attempt + 1"
      "LastInterval r = interval"
  | (again) w1 w2 w3 err i where "pause E interval w = (w1, None)" "re_fn E w1 = (w2, Some err)"
      "IsRetryableError (Some err)" "next_interval F E cfg attempt interval w2 = (w3, i)"
      "retry_from F E cfg start n (attempt + 1) i (Some err) w3 = (w', r)"
  using assms by (auto split: prod.splits option.splits if_splits)

lemma counts_pause: "counts_calls E cnt \<Longrightarrow> pause E i w = (w', d) \<Longrightarrow> cnt w' = cnt w"
  unfolding counts_calls_def pause_def by (metis fst_conv)

lemma counts_fn: "counts_calls E cnt \<Longrightarrow> re_fn E w = (w', e) \<Longrightarrow> cnt w' = Suc (cnt w)"
  unfolding counts_calls_def by (metis fst_conv)

lemma counts_next: "counts_calls E cnt \<Longrightarrow> next_interval F E cfg a i w = (w', j) \<Longrightarrow> cnt w' = cnt w"
  unfolding counts_calls_def next_interval_def
  by (cases "re_rand E w") (auto simp: Let_def split: if_splits, metis fst_conv)

lemmas counts = counts_pause counts_fn counts_next

lemma retry_from_calls:
  assumes "counts_calls E cnt" and "attempt + int n = max_attempts cfg" and "0 \<le> attempt"
    and "retry_from F E cfg start n attempt interval lastErr w = (w', r)"
  shows "int (cnt w') = int (cnt w) + (Attempts r - attempt) \<and> attempt \<le> Attempts r \<and> Attempts r \<le> max_attempts cfg"
  using assms
proof (induction n arbitrary: attempt interval lastErr w)
  case (Suc n)
  note cnt = counts [OF Suc.prems(1)]
  from Suc.prems(4) show ?case
  proof (cases rule: retry_step)
    case (cancelled e)
    then show ?thesis using cnt Suc.prems(2) by simp
  next
    case (stopped w1 err)
    then show ?thesis using cnt(1) [OF stopped(1)] cnt(2) [OF stopped(2)] Suc.prems(2) by simp
  next
    case (again w1 w2 w3 err i)
    then show ?thesis
      using cnt(1) [OF again(1)] cnt(2) [OF again(2)] cnt(3) [OF again(4)] Suc.prems
        Suc.IH [OF Suc.prems(1) _ _ again(5)] by simp
  qed
qed auto

lemma retry_from_outcome:
  assumes "retry_from F E cfg start n attempt interval lastErr w = (w', r)" and "attempt + int n = max_attempts cfg"
    and "LastError r = Some e" and "IsRetryableError (Some e)" and "\<not> interrupted E e"
  shows "Attempts r = max_attempts cfg"
  using assms
proof (induction n arbitrary: attempt interval lastErr w)
  case (Suc n)
  from Suc.prems(1) show ?case
  proof (cases rule: retry_step)
    case (cancelled e')
    then have "interrupted E e'" unfolding interrupted_def pause_def by (metis option.distinct(1) snd_conv)
    with cancelled Suc.prems show ?thesis by simp
  next
    case (again w1 w2 w3 err i)
    then show ?thesis using Suc.IH [OF again(5)] Suc.prems by simp
  qed (use Suc.prems in auto)
qed auto

text \<open>
  C21: A retry run ends after at most \<^verbatim>\<open>MaxRetries + 1\<close> calls (1000 when
  \<^verbatim>\<open>MaxRetries\<close> is negative), reports exactly the number of calls it made, and gives up early only on
  success, on an error that is not retryable, or because the wait was interrupted by the context.
\<close>

theorem retry_bounded:
  assumes "counts_calls E cnt" and "MaxRetries cfg < 2 ^ 63 - 1" and "- (2 ^ 63) \<le> MaxRetries cfg"
    and "RetryWithBackoff F E cfg w = (w', r)"
  shows "int (cnt w') = int (cnt w) + Attempts r \<and>
    Attempts r \<le> (if MaxRetries cfg < 0 then 1000 else MaxRetries cfg + 1) \<and>
    (Attempts r < (if MaxRetries cfg < 0 then 1000 else MaxRetries cfg + 1) \<longrightarrow>
       (case LastError r of None \<Rightarrow> True | Some e \<Rightarrow> \<not> IsRetryableError (Some e) \<or> interrupted E e))"
proof -
  have m: "max_attempts cfg = (if MaxRetries cfg < 0 then 1000 else MaxRetries cfg + 1)"
    using assms(2) by (simp add: max_attempts_def wrap64_def)
  then have pos: "0 < max_attempts cfg" by simp
  note run = assms(4) [unfolded RetryWithBackoff_def]
  have sum: "0 + int (nat (max_attempts cfg)) = max_attempts cfg" using pos by simp
  note calls = retry_from_calls [OF assms(1) sum order.refl run]
  have out: "Attempts r = max_attempts cfg"
    if "LastError r = Some e" "IsRetryableError (Some e)" "\<not> interrupted E e" for e
    by (rule retry_from_outcome [OF run sum that])
  have "case LastError r of None \<Rightarrow> True | Some e \<Rightarrow> \<not> IsRetryableError (Some e) \<or> interrupted E e"
    if "Attempts r < max_attempts cfg"
    using out that by (cases "LastError r") auto
  with calls show ?thesis unfolding m [symmetric] by simp
qed

text \<open>A concrete run: the world is the list of the results still to come, the number of calls made,
  and the waits taken.\<close>

type_synonym script = "go_error option list \<times> nat \<times> duration list"

definition script_env :: "script retry_env" where
  "script_env = \<lparr>
     re_fn = (\<lambda>(rs, n, ws). case rs of [] \<Rightarrow> (([], Suc n, ws), None) | r # rs' \<Rightarrow> ((rs', Suc n, ws), r)),
     re_wait = (\<lambda>d (rs, n, ws). ((rs, n, ws @ [d]), None)),
     re_rand = (\<lambda>w. (w, 9/10)),
     re_now = (\<lambda>(rs, n, ws). sum_list ws)\<rparr>"

definition exact_floats :: float_ops where
  "exact_floats = \<lparr>fl = (\<lambda>x. x), to_int64 = (\<lambda>x. if x < 0 then - \<lfloor>- x\<rfloor> else \<lfloor>x\<rfloor>)\<rparr>"

lemma script_counts: "counts_calls script_env (\<lambda>(rs, n, ws). n)"
  by (auto simp: counts_calls_def script_env_def split: list.splits)

lemma script_not_interrupted: "\<not> interrupted script_env e"
  by (auto simp: interrupted_def script_env_def)

abbreviation refused :: go_error where
  "refused \<equiv> OtherError ''dial: connection refused'' None"

lemma refused_retryable [simp]: "IsRetryableError (Some refused)"
  by code_simp

theorem retry_bounded_witness:
  "fst (snd (fst (RetryWithBackoff exact_floats script_env (BackupRetryConfig\<lparr>RandomizationFactor := 0\<rparr>)
     ([Some refused, Some refused, Some refused, Some refused], 0, [])))) = 3 \<and>
   Attempts (snd (RetryWithBackoff exact_floats script_env (BackupRetryConfig\<lparr>RandomizationFactor := 0\<rparr>)
     ([Some refused, Some refused, Some refused, Some refused], 0, []))) = 3"
proof -
  let ?cfg = "BackupRetryConfig\<lparr>RandomizationFactor := 0\<rparr>"
  let ?w = "([Some refused, Some refused, Some refused, Some refused], 0, [])"
  obtain w' r where run: "RetryWithBackoff exact_floats script_env ?cfg ?w = (w', r)" by (rule prod.exhaust)
  have "Attempts (snd (RetryWithBackoff exact_floats script_env ?cfg ?w)) = 3" by code_simp
  then have three: "Attempts r = 3" by (simp only: run snd_conv)
  show ?thesis
    using retry_bounded [OF script_counts _ _ run] three
    by (cases w') (simp only: run, simp add: BackupRetryConfig_def)
qed

lemma retry_from_succeeds:
  assumes "counts_calls E cnt" and "\<And>w d. snd (re_wait E d w) = None"
    and "\<And>w. snd (re_fn E w) = (if cnt w < k then Some e else None)" and "IsRetryableError (Some e)"
    and "cnt w \<le> k" and "k - cnt w < n"
    and "retry_from F E cfg start n attempt interval lastErr w = (w', r)"
  shows "LastError r = None \<and> Attempts r = attempt + int (k - cnt w) + 1"
  using assms(5-)
proof (induction n arbitrary: attempt interval lastErr w)
  case (Suc n)
  note cnt = counts [OF assms(1)]
  from Suc.prems(3) show ?case
  proof (cases rule: retry_step)
    case (cancelled e')
    then show ?thesis using assms(2) unfolding pause_def by (metis option.distinct(1) snd_conv)
  next
    case (stopped w1 err)
    then have "cnt w1 = cnt w" "err = (if cnt w1 < k then Some e else None)"
      using cnt(1) assms(3) by (force, metis snd_conv)
    then show ?thesis using stopped assms(4) Suc.prems(1) by (auto split: if_splits)
  next
    case (again w1 w2 w3 err i)
    have c: "cnt w1 = cnt w" "cnt w3 = Suc (cnt w)"
      using cnt(1) [OF again(1)] cnt(2) [OF again(2)] cnt(3) [OF again(4)] by simp_all
    have "cnt w < k" using assms(3) [of w1] again(2) c by (simp split: if_splits)
    then show ?thesis using Suc.IH [OF _ _ again(5)] c Suc.prems by simp
  qed
qed auto

text \<open>
  C32: A retry run reaches a success that is within its budget. If the function fails with a
  retryable error exactly \<open>k\<close> times, \<open>k\<close> is at most \<^verbatim>\<open>MaxRetries\<close>, and the context does not
  end, the run makes \<open>k + 1\<close> calls and reports no error.
\<close>

theorem retry_succeeds:
  assumes "counts_calls E cnt" and "\<And>w d. snd (re_wait E d w) = None"
    and "\<And>w. snd (re_fn E w) = (if cnt w < k then Some e else None)" and "IsRetryableError (Some e)"
    and "cnt w = 0" and "int k \<le> MaxRetries cfg" and "MaxRetries cfg < 2 ^ 63 - 1"
  shows "LastError (snd (RetryWithBackoff F E cfg w)) = None \<and>
         Attempts (snd (RetryWithBackoff F E cfg w)) = int k + 1"
proof -
  obtain w' r where run: "RetryWithBackoff F E cfg w = (w', r)" by force
  have "k - cnt w < nat (max_attempts cfg)"
    using assms(5-7) by (simp add: max_attempts_def wrap64_def)
  from retry_from_succeeds [OF assms(1-4) _ this run [unfolded RetryWithBackoff_def]] assms(5)
  show ?thesis by (simp add: run)
qed

text \<open>An environment whose function fails twice.\<close>

definition flaky_env :: "nat \<Rightarrow> nat retry_env" where
  "flaky_env k = \<lparr>re_fn = (\<lambda>n. (Suc n, if n < k then Some refused else None)), re_wait = (\<lambda>d n. (n, None)),
     re_rand = (\<lambda>n. (n, 1/2)), re_now = int\<rparr>"

theorem retry_succeeds_witness:
  "counts_calls (flaky_env 2) (\<lambda>n. n) \<and>
   Attempts (snd (RetryWithBackoff exact_floats (flaky_env 2) DefaultRetryConfig 0)) = 3"
proof -
  have c: "counts_calls (flaky_env 2) (\<lambda>n. n)" by (simp add: counts_calls_def flaky_env_def)
  then show ?thesis
    using retry_succeeds [OF c, where k = 2 and e = refused and w = 0 and cfg = DefaultRetryConfig and F = exact_floats]
    by (simp add: flaky_env_def DefaultRetryConfig_def)
qed

section \<open>Bounds on the intervals\<close>

lemma backoff_le: "backoff F cfg attempt interval \<le> MaxInterval cfg"
  by (simp add: backoff_def Let_def)

lemma retry_from_interval:
  assumes "RandomizationFactor cfg \<le> 0" and "interval \<le> MaxInterval cfg"
    and "retry_from F E cfg start n attempt interval lastErr w = (w', r)"
  shows "LastInterval r \<le> MaxInterval cfg"
  using assms(2-)
proof (induction n arbitrary: attempt interval lastErr w)
  case (Suc n)
  from Suc.prems(2) show ?case
  proof (cases rule: retry_step)
    case (again w1 w2 w3 err i)
    then have "i \<le> MaxInterval cfg" using assms(1) by (auto simp: next_interval_def Let_def backoff_le)
    then show ?thesis using Suc.IH again(5) by blast
  qed (use Suc.prems in auto)
qed auto

text \<open>
  Without jitter no wait is longer than \<^verbatim>\<open>MaxInterval\<close>, whatever the multiplier, the
  rounding and the results of the calls.
\<close>

theorem retry_interval_capped:
  assumes "RandomizationFactor cfg \<le> 0" and "0 \<le> MaxInterval cfg"
  shows "LastInterval (snd (RetryWithBackoff F E cfg w)) \<le> MaxInterval cfg"
proof -
  obtain w' r where run: "RetryWithBackoff F E cfg w = (w', r)" by (rule prod.exhaust)
  from retry_from_interval [OF assms run [unfolded RetryWithBackoff_def]] show ?thesis by (simp add: run)
qed

theorem retry_interval_capped_witness:
  "LastInterval (snd (RetryWithBackoff exact_floats (flaky_env 5)
     (DefaultRetryConfig\<lparr>RandomizationFactor := 0, MaxInterval := 7 * Second\<rparr>) 0)) \<le> 7000000000"
  using retry_interval_capped [of "DefaultRetryConfig\<lparr>RandomizationFactor := 0, MaxInterval := 7 * Second\<rparr>"
      exact_floats "flaky_env 5" 0]
  by (simp add: DefaultRetryConfig_def duration_units)

text \<open>With the jitter that all three presets use, the cap does not bound the wait: it is applied
  before the jitter.\<close>

lemma jitter_exceeds_cap:
  "LastInterval (snd (RetryWithBackoff exact_floats script_env
     (DefaultRetryConfig\<lparr>InitialInterval := 30 * Minute\<rparr>) ([Some refused], 0, []))) > MaxInterval DefaultRetryConfig"
  by code_simp

text \<open>
  The requeue interval that follows a failed run lies between \<^verbatim>\<open>InitialInterval\<close> and
  \<^verbatim>\<open>MaxInterval\<close>, and it is five minutes after a success.
\<close>

theorem requeue_after_bounds:
  assumes "InitialInterval cfg \<le> MaxInterval cfg"
  shows "(LastError r = None \<longrightarrow> CalculateRequeueAfter F cfg r = 300000000000) \<and>
         (LastError r \<noteq> None \<longrightarrow> InitialInterval cfg \<le> CalculateRequeueAfter F cfg r \<and>
            CalculateRequeueAfter F cfg r \<le> MaxInterval cfg)"
  using assms by (auto simp: CalculateRequeueAfter_def Let_def duration_units)

theorem requeue_after_bounds_witness:
  "CalculateRequeueAfter exact_floats ConnectionRetryConfig
     \<lparr>Attempts = 4, LastError = Some refused, TotalTime = 0, LastInterval = 20 * Second\<rparr> = 40000000000 \<and>
   CalculateRequeueAfter exact_floats ConnectionRetryConfig
     \<lparr>Attempts = 4, LastError = Some refused, TotalTime = 0, LastInterval = 20 * Second\<rparr>
     \<le> MaxInterval ConnectionRetryConfig"
proof
  show "CalculateRequeueAfter exact_floats ConnectionRetryConfig
     \<lparr>Attempts = 4, LastError = Some refused, TotalTime = 0, LastInterval = 20 * Second\<rparr> = 40000000000"
    by code_simp
  show "CalculateRequeueAfter exact_floats ConnectionRetryConfig
     \<lparr>Attempts = 4, LastError = Some refused, TotalTime = 0, LastInterval = 20 * Second\<rparr>
     \<le> MaxInterval ConnectionRetryConfig"
    using requeue_after_bounds [of ConnectionRetryConfig
        "\<lparr>Attempts = 4, LastError = Some refused, TotalTime = 0, LastInterval = 20 * Second\<rparr>" exact_floats]
    by (simp add: ConnectionRetryConfig_def duration_units)
qed

end
