(* ===== verification/Api_Types.thy ===== *)
theory Api_Types
  imports Go_Errors
begin

text \<open>
  The data the services pass around: the custom resource specs of \<^verbatim>\<open>api/v1alpha1\<close> and
  the option and information structs of \<^verbatim>\<open>internal/adapter/types/types.go\<close>. A pointer field
  is an option; a slice is a list, \<^verbatim>\<open>nil\<close> and empty slices being equal since the code only asks
  for the length and the elements; an \<^verbatim>\<open>int32\<close> that is only copied and compared is an integer.
  The spec records carry the fields that the modelled components read: references to instances and
  secrets and the status are not among them.
\<close>

section \<open>Engines\<close>

type_synonym EngineType = string

abbreviation EngineTypePostgres :: EngineType where "EngineTypePostgres \<equiv> ''postgres''"
abbreviation EngineTypeMySQL :: EngineType where "EngineTypeMySQL \<equiv> ''mysql''"
abbreviation EngineTypeMariaDB :: EngineType where "EngineTypeMariaDB \<equiv> ''mariadb''"
abbreviation EngineTypeCockroachDB :: EngineType where "EngineTypeCockroachDB \<equiv> ''cockroachdb''"
abbreviation EngineTypeClickHouse :: EngineType where "EngineTypeClickHouse \<equiv> ''clickhouse''"

section \<open>Specs\<close>

record PostgresExtension =
  pe_Name :: string
  pe_Schema :: string
  pe_Version :: string

record PostgresSchema =
  ps_Name :: string
  ps_Owner :: string

record PostgresDefaultPrivilege =
  pdp_Role :: string
  pdp_Schema :: string
  pdp_ObjectType :: string
  pdp_Privileges :: "string list"

record PostgresOwnershipConfig =
  poc_AutoOwnership :: bool
  poc_RoleName :: string
  poc_UserName :: string
  poc_DropOnDelete :: bool
  poc_SetDefaultPrivileges :: "bool option"

definition ShouldSetDefaultPrivileges :: "PostgresOwnershipConfig \<Rightarrow> bool" where
  "ShouldSetDefaultPrivileges c = (case poc_SetDefaultPrivileges c of None \<Rightarrow> True | Some v \<Rightarrow> v)"

record PostgresDatabaseConfig =
  pdc_Encoding :: string
  pdc_LCCollate :: string
  pdc_LCCtype :: string
  pdc_Tablespace :: string
  pdc_Template :: string
  pdc_ConnectionLimit :: int
  pdc_IsTemplate :: bool
  pdc_AllowConnections :: bool
  pdc_Extensions :: "PostgresExtension list"
  pdc_Schemas :: "PostgresSchema list"
  pdc_DefaultPrivileges :: "PostgresDefaultPrivilege list"
  pdc_Ownership :: "PostgresOwnershipConfig option"

record MySQLDatabaseConfig =
  mdc_Charset :: string
  mdc_Collation :: string
  mdc_SQLMode :: string
  mdc_DefaultStorageEngine :: string

record DatabaseSpec =
  ds_Name :: string
  ds_Owner :: string
  ds_DeletionPolicy :: string
  ds_DeletionProtection :: bool
  ds_Postgres :: "PostgresDatabaseConfig option"
  ds_MySQL :: "MySQLDatabaseConfig option"

record PostgresUserConfig =
  puc_ConnectionLimit :: int
  puc_ValidUntil :: string
  puc_Superuser :: bool
  puc_CreateDB :: bool
  puc_CreateRole :: bool
  puc_Inherit :: bool
  puc_Login :: bool
  puc_Replication :: bool
  puc_BypassRLS :: bool
  puc_InRoles :: "string list"
  puc_DefaultRole :: string
  puc_ConfigParameters :: "string go_map"

record MySQLUserConfig =
  muc_MaxQueriesPerHour :: int
  muc_MaxUpdatesPerHour :: int
  muc_MaxConnectionsPerHour :: int
  muc_MaxUserConnections :: int
  muc_AuthPlugin :: string
  muc_RequireSSL :: bool
  muc_RequireX509 :: bool
  muc_AllowedHosts :: "string list"
  muc_AccountLocked :: bool
  muc_FailedLoginAttempts :: int
  muc_PasswordLockTime :: int

record DatabaseUserSpec =
  us_Username :: string
  us_Roles :: "string list"
  us_Postgres :: "PostgresUserConfig option"
  us_MySQL :: "MySQLUserConfig option"

record PostgresGrant =
  pg_Database :: string
  pg_Schema :: string
  pg_Tables :: "string list"
  pg_Sequences :: "string list"
  pg_Functions :: "string list"
  pg_Privileges :: "string list"
  pg_WithGrantOption :: bool

record MySQLGrant =
  mg_Level :: string
  mg_Database :: string
  mg_Table :: string
  mg_Columns :: "string list"
  mg_Procedure :: string
  mg_Function :: string
  mg_Privileges :: "string list"
  mg_WithGrantOption :: bool

record ClickHouseGrant =
  cg_Level :: string
  cg_Database :: string
  cg_Table :: string
  cg_Privileges :: "string list"
  cg_WithGrantOption :: bool

record PostgresRoleConfig =
  prc_Login :: bool
  prc_Inherit :: bool
  prc_CreateDB :: bool
  prc_CreateRole :: bool
  prc_Superuser :: bool
  prc_Replication :: bool
  prc_BypassRLS :: bool
  prc_InRoles :: "string list"
  prc_Grants :: "PostgresGrant list"

record MySQLRoleConfig =
  mrc_UseNativeRoles :: bool
  mrc_Grants :: "MySQLGrant list"

record DatabaseRoleSpec =
  rs_RoleName :: string
  rs_Postgres :: "PostgresRoleConfig option"
  rs_MySQL :: "MySQLRoleConfig option"

record PostgresDefaultPrivilegeGrant =
  pdg_Database :: string
  pdg_Schema :: string
  pdg_GrantedBy :: string
  pdg_ObjectType :: string
  pdg_Privileges :: "string list"

record PostgresGrantConfig =
  pgc_Roles :: "string list"
  pgc_Grants :: "PostgresGrant list"
  pgc_DefaultPrivileges :: "PostgresDefaultPrivilegeGrant list"

record MySQLGrantConfig =
  mgc_Roles :: "string list"
  mgc_Grants :: "MySQLGrant list"

record ClickHouseGrantConfig =
  cgc_Roles :: "string list"
  cgc_Grants :: "ClickHouseGrant list"

record DatabaseGrantSpec =
  gs_Postgres :: "PostgresGrantConfig option"
  gs_MySQL :: "MySQLGrantConfig option"
  gs_ClickHouse :: "ClickHouseGrantConfig option"

section \<open>Adapter options\<close>

record CreateDatabaseOptions =
  cdo_Name :: string
  cdo_Owner :: string
  cdo_Encoding :: string
  cdo_LCCollate :: string
  cdo_LCCtype :: string
  cdo_Tablespace :: string
  cdo_Template :: string
  cdo_ConnectionLimit :: int
  cdo_IsTemplate :: bool
  cdo_AllowConnections :: bool
  cdo_Charset :: string
  cdo_Collation :: string
  cdo_SQLMode :: string
  cdo_StorageEngine :: string

definition empty_CreateDatabaseOptions :: CreateDatabaseOptions where
  "empty_CreateDatabaseOptions = \<lparr>cdo_Name = '''', cdo_Owner = '''', cdo_Encoding = '''', cdo_LCCollate = '''',
     cdo_LCCtype = '''', cdo_Tablespace = '''', cdo_Template = '''', cdo_ConnectionLimit = 0,
     cdo_IsTemplate = False, cdo_AllowConnections = False, cdo_Charset = '''', cdo_Collation = '''',
     cdo_SQLMode = '''', cdo_StorageEngine = ''''\<rparr>"

record ExtensionOptions =
  eo_Name :: string
  eo_Schema :: string
  eo_Version :: string

record SchemaOptions =
  so_Name :: string
  so_Owner :: string

record DefaultPrivilegeOptions =
  dpo_Role :: string
  dpo_Schema :: string
  dpo_ObjectType :: string
  dpo_Privileges :: "string list"

record UpdateDatabaseOptions =
  udo_Owner :: string
  udo_Extensions :: "ExtensionOptions list"
  udo_Schemas :: "SchemaOptions list"
  udo_DefaultPrivileges :: "DefaultPrivilegeOptions list"
  udo_ConnectionLimit :: "int option"
  udo_Charset :: string
  udo_Collation :: string

definition empty_UpdateDatabaseOptions :: UpdateDatabaseOptions where
  "empty_UpdateDatabaseOptions = \<lparr>udo_Owner = '''', udo_Extensions = [], udo_Schemas = [],
     udo_DefaultPrivileges = [], udo_ConnectionLimit = None, udo_Charset = '''', udo_Collation = ''''\<rparr>"

record DropDatabaseOptions =
  ddo_Force :: bool

record ExtensionInfo =
  ei_Name :: string
  ei_Version :: string

record DatabaseInfo =
  di_Name :: string
  di_Owner :: string
  di_SizeBytes :: int
  di_Encoding :: string
  di_Collation :: string
  di_Extensions :: "ExtensionInfo list"
  di_Schemas :: "string list"
  di_ConnectionLimit :: "int option"
  di_Charset :: string

record GrantOptions =
  go_Database :: string
  go_Schema :: string
  go_Tables :: "string list"
  go_Sequences :: "string list"
  go_Functions :: "string list"
  go_Privileges :: "string list"
  go_WithGrantOption :: bool
  go_Level :: string
  go_Table :: string
  go_Columns :: "string list"
  go_Procedure :: string
  go_Function :: string

definition empty_GrantOptions :: GrantOptions where
  "empty_GrantOptions = \<lparr>go_Database = '''', go_Schema = '''', go_Tables = [], go_Sequences = [],
     go_Functions = [], go_Privileges = [], go_WithGrantOption = False, go_Level = '''', go_Table = '''',
     go_Columns = [], go_Procedure = '''', go_Function = ''''\<rparr>"

record DefaultPrivilegeGrantOptions =
  dpg_Database :: string
  dpg_Schema :: string
  dpg_GrantedBy :: string
  dpg_ObjectType :: string
  dpg_Privileges :: "string list"

record GrantInfo =
  gi_Grantor :: string
  gi_Grantee :: string
  gi_Database :: string
  gi_Schema :: string
  gi_ObjectType :: string
  gi_ObjectName :: string
  gi_Privileges :: "string list"

record CreateUserOptions =
  cuo_Username :: string
  cuo_Password :: string
  cuo_ConnectionLimit :: int
  cuo_ValidUntil :: string
  cuo_Superuser :: bool
  cuo_CreateDB :: bool
  cuo_CreateRole :: bool
  cuo_Inherit :: bool
  cuo_Login :: bool
  cuo_Replication :: bool
  cuo_BypassRLS :: bool
  cuo_InRoles :: "string list"
  cuo_ConfigParams :: "string go_map"
  cuo_MaxQueriesPerHour :: int
  cuo_MaxUpdatesPerHour :: int
  cuo_MaxConnectionsPerHour :: int
  cuo_MaxUserConnections :: int
  cuo_AuthPlugin :: string
  cuo_RequireSSL :: bool
  cuo_RequireX509 :: bool
  cuo_AllowedHosts :: "string list"
  cuo_AccountLocked :: bool

definition empty_CreateUserOptions :: CreateUserOptions where
  "empty_CreateUserOptions = \<lparr>cuo_Username = '''', cuo_Password = '''', cuo_ConnectionLimit = 0,
     cuo_ValidUntil = '''', cuo_Superuser = False, cuo_CreateDB = False, cuo_CreateRole = False,
     cuo_Inherit = False, cuo_Login = False, cuo_Replication = False, cuo_BypassRLS = False,
     cuo_InRoles = [], cuo_ConfigParams = [], cuo_MaxQueriesPerHour = 0, cuo_MaxUpdatesPerHour = 0,
     cuo_MaxConnectionsPerHour = 0, cuo_MaxUserConnections = 0, cuo_AuthPlugin = '''',
     cuo_RequireSSL = False, cuo_RequireX509 = False, cuo_AllowedHosts = [], cuo_AccountLocked = False\<rparr>"

record UpdateUserOptions =
  uuo_ConnectionLimit :: "int option"
  uuo_ValidUntil :: "string option"
  uuo_Superuser :: "bool option"
  uuo_CreateDB :: "bool option"
  uuo_CreateRole :: "bool option"
  uuo_Inherit :: "bool option"
  uuo_Login :: "bool option"
  uuo_Replication :: "bool option"
  uuo_BypassRLS :: "bool option"
  uuo_InRoles :: "string list"
  uuo_ConfigParams :: "string go_map"
  uuo_MaxQueriesPerHour :: "int option"
  uuo_MaxUpdatesPerHour :: "int option"
  uuo_MaxConnectionsPerHour :: "int option"
  uuo_MaxUserConnections :: "int option"
  uuo_RequireSSL :: "bool option"
  uuo_RequireX509 :: "bool option"
  uuo_AccountLocked :: "bool option"

definition empty_UpdateUserOptions :: UpdateUserOptions where
  "empty_UpdateUserOptions = \<lparr>uuo_ConnectionLimit = None, uuo_ValidUntil = None, uuo_Superuser = None,
     uuo_CreateDB = None, uuo_CreateRole = None, uuo_Inherit = None, uuo_Login = None,
     uuo_Replication = None, uuo_BypassRLS = None, uuo_InRoles = [], uuo_ConfigParams = [],
     uuo_MaxQueriesPerHour = None, uuo_MaxUpdatesPerHour = None, uuo_MaxConnectionsPerHour = None,
     uuo_MaxUserConnections = None, uuo_RequireSSL = None, uuo_RequireX509 = None, uuo_AccountLocked = None\<rparr>"

record UserInfo =
  ui_Username :: string
  ui_CreatedAt :: string
  ui_ConnectionLimit :: int
  ui_ValidUntil :: string
  ui_Superuser :: bool
  ui_CreateDB :: bool
  ui_CreateRole :: bool
  ui_Inherit :: bool
  ui_Login :: bool
  ui_Replication :: bool
  ui_BypassRLS :: bool
  ui_InRoles :: "string list"
  ui_AllowedHosts :: "string list"

record OwnedObject =
  oo_Schema :: string
  oo_Name :: string
  oo_Type :: string

record CreateRoleOptions =
  cro_RoleName :: string
  cro_Login :: bool
  cro_Inherit :: bool
  cro_CreateDB :: bool
  cro_CreateRole :: bool
  cro_Superuser :: bool
  cro_Replication :: bool
  cro_BypassRLS :: bool
  cro_InRoles :: "string list"
  cro_Grants :: "GrantOptions list"
  cro_UseNativeRoles :: bool

definition empty_CreateRoleOptions :: CreateRoleOptions where
  "empty_CreateRoleOptions = \<lparr>cro_RoleName = '''', cro_Login = False, cro_Inherit = False, cro_CreateDB = False,
     cro_CreateRole = False, cro_Superuser = False, cro_Replication = False, cro_BypassRLS = False,
     cro_InRoles = [], cro_Grants = [], cro_UseNativeRoles = False\<rparr>"

record UpdateRoleOptions =
  uro_Login :: "bool option"
  uro_Inherit :: "bool option"
  uro_CreateDB :: "bool option"
  uro_CreateRole :: "bool option"
  uro_Superuser :: "bool option"
  uro_Replication :: "bool option"
  uro_BypassRLS :: "bool option"
  uro_InRoles :: "string list"
  uro_Grants :: "GrantOptions list"
  uro_AddGrants :: "GrantOptions list"
  uro_RemoveGrants :: "GrantOptions list"

definition empty_UpdateRoleOptions :: UpdateRoleOptions where
  "empty_UpdateRoleOptions = \<lparr>uro_Login = None, uro_Inherit = None, uro_CreateDB = None, uro_CreateRole = None,
     uro_Superuser = None, uro_Replication = None, uro_BypassRLS = None, uro_InRoles = [], uro_Grants = [],
     uro_AddGrants = [], uro_RemoveGrants = []\<rparr>"

record RoleInfo =
  ri_Name :: string
  ri_CreatedAt :: string
  ri_Login :: bool
  ri_Inherit :: bool
  ri_CreateDB :: bool
  ri_CreateRole :: bool
  ri_Superuser :: bool
  ri_Replication :: bool
  ri_BypassRLS :: bool
  ri_InRoles :: "string list"

end
