(* ===== verification/Service_Config.thy ===== *)
theory Service_Config
  imports Retry Api_Types
begin

text \<open>
  The connection configuration of a service, \<^verbatim>\<open>internal/service/types.go\<close>: the record, its
  construction from environment variables, from an instance resource and by the fluent builder,
  validation, and the result values of service operations. The logger field is left out, since it
  only feeds log lines. Duration texts are read by a parameter \<open>parse\<close> that stands for any reader
  of durations.
\<close>

record Config =
  Engine :: string
  Host :: string
  Port :: int
  Database :: string
  Username :: string
  Password :: string
  TLSEnabled :: bool
  SSLMode :: string
  TLSCA :: string
  TLSCert :: string
  TLSKey :: string
  Timeouts :: TimeoutConfig
  cfg_ConnectTimeout :: int
  StatementTimeout :: string
  ApplicationName :: string
  Charset :: string
  Collation :: string
  ParseTime :: bool
  Timeout :: string
  ReadTimeout :: string
  WriteTimeout :: string

definition empty_Config :: Config where
  "empty_Config = \<lparr>Engine = '''', Host = '''', Port = 0, Database = '''', Username = '''', Password = '''',
     TLSEnabled = False, SSLMode = '''', TLSCA = '''', TLSCert = '''', TLSKey = '''',
     Timeouts = NoTimeoutConfig, cfg_ConnectTimeout = 0, StatementTimeout = '''', ApplicationName = '''',
     Charset = '''', Collation = '''', ParseTime = False, Timeout = '''', ReadTimeout = '''',
     WriteTimeout = ''''\<rparr>"

section \<open>Environment variables\<close>

text \<open>\<^verbatim>\<open>strconv.ParseInt(s, 10, 32)\<close>: a sign, at least one digit, in the 32-bit range.\<close>

definition is_digit :: "char \<Rightarrow> bool" where
  "is_digit c \<longleftrightarrow> CHR ''0'' \<le> c \<and> c \<le> CHR ''9''"

definition digits_value :: "string \<Rightarrow> int" where
  "digits_value s = foldl (\<lambda>n c. 10 * n + (of_char c - 48)) 0 s"

definition ParseInt32 :: "string \<Rightarrow> int option" where
  "ParseInt32 s =
     (let (neg, ds) = (case s of [] \<Rightarrow> (False, []) | c # cs \<Rightarrow>
            if c = CHR ''-'' then (True, cs) else if c = CHR ''+'' then (False, cs) else (False, s));
          v = (if neg then - digits_value ds else digits_value ds)
      in if ds = [] \<or> \<not> list_all is_digit ds \<or> v < - (2 ^ 31) \<or> 2 ^ 31 - 1 < v then None else Some v)"

definition default_port :: "string \<Rightarrow> int \<Rightarrow> int" where
  "default_port engine p =
     (if engine = ''postgres'' then 5432 else if engine = ''mysql'' \<or> engine = ''mariadb'' then 3306 else p)"

definition default_database :: "string \<Rightarrow> string \<Rightarrow> string" where
  "default_database engine d =
     (if engine = ''postgres'' then ''postgres''
      else if engine = ''mysql'' \<or> engine = ''mariadb'' then ''mysql'' else d)"

definition env_timeout ::
  "(string \<Rightarrow> duration option) \<Rightarrow> (string \<Rightarrow> string) \<Rightarrow> string \<Rightarrow> duration \<Rightarrow> go_error + duration" where
  "env_timeout parse getEnv key dflt =
     (if getEnv key = '''' then Inr dflt
      else (case parse (getEnv key) of
              None \<Rightarrow> Inl (ValidationError key ''invalid duration format'')
            | Some d \<Rightarrow> Inr d))"

definition env_port :: "(string \<Rightarrow> string) \<Rightarrow> string \<Rightarrow> go_error + int" where
  "env_port getEnv engine =
     (if getEnv ''DBCTL_PORT'' \<noteq> ''''
      then (case ParseInt32 (getEnv ''DBCTL_PORT'') of
              None \<Rightarrow> Inl (ValidationError ''DBCTL_PORT'' ''invalid port number'')
            | Some p \<Rightarrow> Inr p)
      else Inr (default_port engine 0))"

definition bind_sum :: "go_error + 'a \<Rightarrow> ('a \<Rightarrow> go_error + 'b) \<Rightarrow> go_error + 'b" where
  "bind_sum m k = (case m of Inl e \<Rightarrow> Inl e | Inr x \<Rightarrow> k x)"

definition ConfigFromEnv ::
  "(string \<Rightarrow> duration option) \<Rightarrow> (string \<Rightarrow> string) \<Rightarrow> go_error + Config" where
  "ConfigFromEnv parse getEnv =
     (let engine = getEnv ''DBCTL_ENGINE'';
          t = DefaultTimeoutConfig
      in bind_sum (env_port getEnv engine) (\<lambda>port.
         let db = (if getEnv ''DBCTL_DATABASE'' = '''' then default_database engine ''''
                   else getEnv ''DBCTL_DATABASE'');
             ssl = (if getEnv ''DBCTL_SSL_MODE'' = '''' then ''disable'' else getEnv ''DBCTL_SSL_MODE'')
         in bind_sum (env_timeout parse getEnv ''DBCTL_CONNECT_TIMEOUT'' (ConnectTimeout t)) (\<lambda>ct.
            bind_sum (env_timeout parse getEnv ''DBCTL_OPERATION_TIMEOUT'' (OperationTimeout t)) (\<lambda>ot.
            bind_sum (env_timeout parse getEnv ''DBCTL_QUERY_TIMEOUT'' (QueryTimeout t)) (\<lambda>qt.
            bind_sum (env_timeout parse getEnv ''DBCTL_LONG_OPERATION_TIMEOUT'' (LongOperationTimeout t)) (\<lambda>lt.
              if engine = '''' then Inl (ValidationError ''DBCTL_ENGINE'' ''engine is required'')
              else if getEnv ''DBCTL_HOST'' = '''' then Inl (ValidationError ''DBCTL_HOST'' ''host is required'')
              else if getEnv ''DBCTL_USERNAME'' = ''''
                   then Inl (ValidationError ''DBCTL_USERNAME'' ''username is required'')
              else Inr (empty_Config\<lparr>Engine := engine, Host := getEnv ''DBCTL_HOST'', Port := port,
                     Database := db, Username := getEnv ''DBCTL_USERNAME'', Password := getEnv ''DBCTL_PASSWORD'',
                     SSLMode := ssl, TLSEnabled := (ssl \<noteq> ''disable''),
                     Timeouts := \<lparr>ConnectTimeout = ct, OperationTimeout = ot, QueryTimeout = qt,
                                   LongOperationTimeout = lt\<rparr>\<rparr>)))))))"

section \<open>Adapter configuration, engine type, validation\<close>

record ConnectionConfig =
  cc_Host :: string
  cc_Port :: int
  cc_Database :: string
  cc_Username :: string
  cc_Password :: string
  cc_TLSEnabled :: bool
  cc_TLSMode :: string
  cc_TLSCA :: string
  cc_TLSCert :: string
  cc_TLSKey :: string
  cc_SSLMode :: string
  cc_ConnectTimeout :: int
  cc_StatementTimeout :: string
  cc_ApplicationName :: string
  cc_Charset :: string
  cc_Collation :: string
  cc_ParseTime :: bool
  cc_Timeout :: string
  cc_ReadTimeout :: string
  cc_WriteTimeout :: string

definition ToAdapterConfig :: "Config \<Rightarrow> ConnectionConfig" where
  "ToAdapterConfig c = \<lparr>cc_Host = Host c, cc_Port = Port c, cc_Database = Database c, cc_Username = Username c,
     cc_Password = Password c, cc_TLSEnabled = TLSEnabled c, cc_TLSMode = SSLMode c, cc_TLSCA = TLSCA c,
     cc_TLSCert = TLSCert c, cc_TLSKey = TLSKey c, cc_SSLMode = SSLMode c,
     cc_ConnectTimeout = cfg_ConnectTimeout c, cc_StatementTimeout = StatementTimeout c,
     cc_ApplicationName = ApplicationName c, cc_Charset = Charset c, cc_Collation = Collation c,
     cc_ParseTime = ParseTime c, cc_Timeout = Timeout c, cc_ReadTimeout = ReadTimeout c,
     cc_WriteTimeout = WriteTimeout c\<rparr>"

definition GetEngineType :: "Config \<Rightarrow> EngineType" where
  "GetEngineType c =
     (if Engine c = ''postgres'' then EngineTypePostgres
      else if Engine c = ''mysql'' then EngineTypeMySQL
      else if Engine c = ''mariadb'' then EngineTypeMariaDB
      else Engine c)"

definition validSSLModes :: "string list" where
  "validSSLModes = ['''', ''disable'', ''require'', ''verify-ca'', ''verify-full'']"

definition Validate :: "Config option \<Rightarrow> go_error option" where
  "Validate cfg =
     (case cfg of
        None \<Rightarrow> Some (ValidationError ''config'' ''config is nil'')
      | Some c \<Rightarrow>
          if Engine c = '''' then Some (ValidationError ''engine'' ''engine is required'')
          else if Engine c \<noteq> ''postgres'' \<and> Engine c \<noteq> ''mysql'' \<and> Engine c \<noteq> ''mariadb''
               then Some (ValidationError ''engine'' (''engine must be '' @ [CHR 0x27] @ ''postgres'' @ [CHR 0x27] @ '', '' @
                      [CHR 0x27] @ ''mysql'' @ [CHR 0x27] @ '', or '' @ [CHR 0x27] @ ''mariadb'' @ [CHR 0x27]))
          else if Host c = '''' then Some (ValidationError ''host'' ''host is required'')
          else if Port c \<le> 0 \<or> Port c > 65535
               then Some (ValidationError ''port'' ''port must be between 1 and 65535'')
          else if Username c = '''' then Some (ValidationError ''username'' ''username is required'')
          else if SSLMode c \<notin> set validSSLModes then Some (ValidationError ''sslMode'' ''invalid SSL mode'')
          else None)"

definition Config_WithTimeouts :: "Config \<Rightarrow> TimeoutConfig \<Rightarrow> Config" where
  "Config_WithTimeouts c t = c\<lparr>Timeouts := t\<rparr>"

definition Clone :: "Config option \<Rightarrow> Config option" where
  "Clone c = c"

section \<open>The fluent builder\<close>

definition NewConfigBuilder :: Config where
  "NewConfigBuilder = empty_Config\<lparr>Timeouts := DefaultTimeoutConfig\<rparr>"

definition WithEngine :: "string \<Rightarrow> Config \<Rightarrow> Config" where
  "WithEngine engine c =
     (let c = c\<lparr>Engine := engine\<rparr>
      in if engine = ''postgres'' then
           c\<lparr>Port := (if Port c = 0 then 5432 else Port c),
             Database := (if Database c = '''' then ''postgres'' else Database c)\<rparr>
         else if engine = ''mysql'' \<or> engine = ''mariadb'' then
           c\<lparr>Port := (if Port c = 0 then 3306 else Port c),
             Database := (if Database c = '''' then ''mysql'' else Database c)\<rparr>
         else c)"

definition WithSSL :: "string \<Rightarrow> string \<Rightarrow> string \<Rightarrow> string \<Rightarrow> Config \<Rightarrow> Config" where
  "WithSSL mode ca cert key c = c\<lparr>SSLMode := mode, TLSEnabled := (mode \<noteq> '''' \<and> mode \<noteq> ''disable''),
     TLSCA := ca, TLSCert := cert, TLSKey := key\<rparr>"

definition WithPostgresOptions :: "int \<Rightarrow> string \<Rightarrow> string \<Rightarrow> Config \<Rightarrow> Config" where
  "WithPostgresOptions connectTimeout statementTimeout appName c =
     c\<lparr>cfg_ConnectTimeout := connectTimeout, StatementTimeout := statementTimeout, ApplicationName := appName\<rparr>"

definition WithMySQLOptions :: "string \<Rightarrow> string \<Rightarrow> bool \<Rightarrow> Config \<Rightarrow> Config" where
  "WithMySQLOptions charset collation parseTime c =
     c\<lparr>Charset := charset, Collation := collation, ParseTime := parseTime\<rparr>"

datatype config_call =
    CEngine string | CHost string | CPort int | CDatabase string | CCredentials string string
  | CSSL string string string string | CTimeouts TimeoutConfig | CDefaultTimeouts | CFastTimeouts
  | CNoTimeouts | CPostgresOptions int string string | CMySQLOptions string string bool

fun config_builder_call :: "config_call \<Rightarrow> Config \<Rightarrow> Config" where
  "config_builder_call (CEngine e) c = WithEngine e c"
| "config_builder_call (CHost h) c = c\<lparr>Host := h\<rparr>"
| "config_builder_call (CPort p) c = c\<lparr>Port := p\<rparr>"
| "config_builder_call (CDatabase d) c = c\<lparr>Database := d\<rparr>"
| "config_builder_call (CCredentials u p) c = c\<lparr>Username := u, Password := p\<rparr>"
| "config_builder_call (CSSL m ca ce k) c = WithSSL m ca ce k c"
| "config_builder_call (CTimeouts t) c = c\<lparr>Timeouts := t\<rparr>"
| "config_builder_call CDefaultTimeouts c = c\<lparr>Timeouts := DefaultTimeoutConfig\<rparr>"
| "config_builder_call CFastTimeouts c = c\<lparr>Timeouts := FastTimeoutConfig\<rparr>"
| "config_builder_call CNoTimeouts c = c\<lparr>Timeouts := NoTimeoutConfig\<rparr>"
| "config_builder_call (CPostgresOptions t s a) c = WithPostgresOptions t s a c"
| "config_builder_call (CMySQLOptions cs co p) c = WithMySQLOptions cs co p c"

definition ConfigBuilder_Build :: "Config \<Rightarrow> go_error + Config" where
  "ConfigBuilder_Build c = (case Validate (Some c) of Some e \<Rightarrow> Inl e | None \<Rightarrow> Inr c)"

section \<open>From an instance resource\<close>

record PostgresInstanceConfig =
  pic_SSLMode :: string
  pic_ConnectTimeout :: int
  pic_StatementTimeout :: string
  pic_ApplicationName :: string

record MySQLInstanceConfig =
  mic_Charset :: string
  mic_Collation :: string
  mic_ParseTime :: bool
  mic_Timeout :: string
  mic_ReadTimeout :: string
  mic_WriteTimeout :: string

record CredentialKeys =
  ck_Username :: string
  ck_Password :: string

record CredentialSecretRef =
  csr_Name :: string
  csr_Namespace :: string
  csr_Keys :: "CredentialKeys option"

record TLSKeys =
  tk_CA :: string
  tk_Cert :: string
  tk_Key :: string

record TLSSecretRef =
  tsr_Name :: string
  tsr_Keys :: "TLSKeys option"

record TLSConfig =
  tls_Enabled :: bool
  tls_Mode :: string
  tls_SecretRef :: "TLSSecretRef option"

record DatabaseInstanceSpec =
  dis_Engine :: EngineType
  dis_Host :: string
  dis_Port :: int
  dis_Database :: string
  dis_SecretRef :: "CredentialSecretRef option"
  dis_TLS :: "TLSConfig option"
  dis_Postgres :: "PostgresInstanceConfig option"
  dis_MySQL :: "MySQLInstanceConfig option"

definition ConfigFromInstance ::
  "DatabaseInstanceSpec \<Rightarrow> string \<Rightarrow> string \<Rightarrow> string \<Rightarrow> string \<Rightarrow> string \<Rightarrow> Config" where
  "ConfigFromInstance spec username password tlsCA tlsCert tlsKey =
     (let c = empty_Config\<lparr>Engine := dis_Engine spec, Host := dis_Host spec, Port := dis_Port spec,
                Database := dis_Database spec, Username := username, Password := password,
                Timeouts := DefaultTimeoutConfig\<rparr>;
          c = (if Database c = '''' then c\<lparr>Database := default_database (dis_Engine spec) ''''\<rparr> else c);
          c = (if Port c = 0 then c\<lparr>Port := default_port (dis_Engine spec) 0\<rparr> else c);
          c = (case dis_Postgres spec of None \<Rightarrow> c | Some p \<Rightarrow>
                c\<lparr>SSLMode := pic_SSLMode p, cfg_ConnectTimeout := pic_ConnectTimeout p,
                  StatementTimeout := pic_StatementTimeout p, ApplicationName := pic_ApplicationName p\<rparr>);
          c = (case dis_MySQL spec of None \<Rightarrow> c | Some m \<Rightarrow>
                c\<lparr>Charset := mic_Charset m, Collation := mic_Collation m, Timeout := mic_Timeout m,
                  ReadTimeout := mic_ReadTimeout m, WriteTimeout := mic_WriteTimeout m, ParseTime := mic_ParseTime m\<rparr>);
          c = (if tlsCA \<noteq> '''' \<or> tlsCert \<noteq> '''' \<or> tlsKey \<noteq> ''''
               then c\<lparr>TLSEnabled := True, TLSCA := tlsCA, TLSCert := tlsCert, TLSKey := tlsKey\<rparr> else c);
          c = (if SSLMode c = '''' then c\<lparr>SSLMode := ''disable''\<rparr> else c)
      in if SSLMode c \<noteq> ''disable'' then c\<lparr>TLSEnabled := True\<rparr> else c)"

section \<open>Results of service operations\<close>

record Result =
  Success :: bool
  Message :: string
  Created :: bool
  Updated :: bool

definition NewSuccessResult :: "string \<Rightarrow> Result" where
  "NewSuccessResult m = \<lparr>Success = True, Message = m, Created = False, Updated = False\<rparr>"

definition NewCreatedResult :: "string \<Rightarrow> Result" where
  "NewCreatedResult m = \<lparr>Success = True, Message = m, Created = True, Updated = False\<rparr>"

definition NewUpdatedResult :: "string \<Rightarrow> Result" where
  "NewUpdatedResult m = \<lparr>Success = True, Message = m, Created = False, Updated = True\<rparr>"

definition NewExistsResult :: "string \<Rightarrow> Result" where
  "NewExistsResult m = \<lparr>Success = True, Message = m, Created = False, Updated = False\<rparr>"

section \<open>What the constructors promise\<close>

lemma bind_sum_Inr: "bind_sum m k = Inr y \<longleftrightarrow> (\<exists>x. m = Inr x \<and> k x = Inr y)"
  by (auto simp: bind_sum_def split: sum.splits)

lemma bind_sum_Inl: "bind_sum m k = Inl e \<longleftrightarrow> m = Inl e \<or> (\<exists>x. m = Inr x \<and> k x = Inl e)"
  by (auto simp: bind_sum_def split: sum.splits)

lemma env_timeout_Inl: "env_timeout parse g key d = Inl e \<Longrightarrow> is_ValidationError e"
  by (auto simp: env_timeout_def split: if_splits option.splits)

lemma env_port_Inl: "env_port g engine = Inl e \<Longrightarrow> is_ValidationError e"
  by (auto simp: env_port_def split: if_splits option.splits)

lemma env_port_Inr: "env_port g engine = Inr p \<Longrightarrow> - (2 ^ 31) \<le> p \<and> p < 2 ^ 31"
  by (auto simp: env_port_def ParseInt32_def default_port_def Let_def split: if_splits option.splits prod.splits)

text \<open>
  A configuration read from the environment names its engine, host and user, has a 32-bit port
  (the engine's own port when none is given), and has TLS on exactly when its SSL mode is not
  \<^verbatim>\<open>disable\<close>; every failure is a validation error, so a reconciliation does not retry it.
\<close>

theorem config_from_env:
  "case ConfigFromEnv parse getEnv of
     Inl e \<Rightarrow> is_ValidationError e \<and> ClassifyError (Some e) = ErrorClassPermanent
   | Inr c \<Rightarrow> Engine c \<noteq> '''' \<and> Host c \<noteq> '''' \<and> Username c \<noteq> '''' \<and> - (2 ^ 31) \<le> Port c \<and> Port c < 2 ^ 31 \<and>
       TLSEnabled c = (SSLMode c \<noteq> ''disable'') \<and> SSLMode c \<noteq> '''' \<and>
       (getEnv ''DBCTL_PORT'' = '''' \<and> Engine c = ''postgres'' \<longrightarrow> Port c = 5432) \<and>
       (getEnv ''DBCTL_PORT'' = '''' \<and> Engine c \<in> {''mysql'', ''mariadb''} \<longrightarrow> Port c = 3306)"
proof (cases "ConfigFromEnv parse getEnv")
  case (Inl e)
  then have v: "is_ValidationError e"
    by (auto simp: ConfigFromEnv_def Let_def bind_sum_Inl dest: env_timeout_Inl env_port_Inl split: if_splits)
  moreover have "Unwrap e = None" using v by (cases e) auto
  ultimately show ?thesis using Inl by (simp add: classify_markers permanent_marker_def)
next
  case (Inr c)
  then obtain p where p: "env_port getEnv (Engine c) = Inr p" "Port c = p" and rest: "Engine c \<noteq> ''''" "Host c \<noteq> ''''"
    "Username c \<noteq> ''''" "TLSEnabled c = (SSLMode c \<noteq> ''disable'')" "SSLMode c \<noteq> ''''"
    by (auto simp: ConfigFromEnv_def Let_def bind_sum_Inr split: if_splits)
  have "getEnv ''DBCTL_PORT'' = '''' \<longrightarrow> Port c = default_port (Engine c) 0" using p by (auto simp: env_port_def)
  with Inr rest env_port_Inr [OF p(1)] p(2) show ?thesis by (auto simp: default_port_def)
qed

theorem config_from_env_witness:
  "\<exists>c. ConfigFromEnv (\<lambda>s. None) (\<lambda>k. if k = ''DBCTL_ENGINE'' then ''mysql'' else if k = ''DBCTL_HOST'' then ''db''
      else if k = ''DBCTL_USERNAME'' then ''root'' else '''') = Inr c \<and> Port c = 3306 \<and> \<not> TLSEnabled c"
proof -
  let ?g = "\<lambda>k. if k = ''DBCTL_ENGINE'' then ''mysql'' else if k = ''DBCTL_HOST'' then ''db''
      else if k = ''DBCTL_USERNAME'' then ''root'' else ''''"
  obtain c where "ConfigFromEnv (\<lambda>s. None) ?g = Inr c" "SSLMode c = ''disable''" "Engine c = ''mysql''"
    by (simp add: ConfigFromEnv_def Let_def bind_sum_def env_timeout_def env_port_def)
  then show ?thesis using config_from_env [of ?g "\<lambda>s. None"] by auto
qed

text \<open>The calls that give usable values.\<close>

fun good_call :: "config_call \<Rightarrow> bool" where
  "good_call (CEngine e) = (e \<in> {''postgres'', ''mysql'', ''mariadb''})"
| "good_call (CHost h) = (h \<noteq> '''')"
| "good_call (CPort p) = (0 < p \<and> p \<le> 65535)"
| "good_call (CCredentials u p) = (u \<noteq> '''')"
| "good_call (CSSL m ca ce k) = (m \<in> set validSSLModes)"
| "good_call c = True"

definition good_so_far :: "config_call list \<Rightarrow> Config \<Rightarrow> bool" where
  "good_so_far cs c \<longleftrightarrow>
     SSLMode c \<in> set validSSLModes \<and> 0 \<le> Port c \<and> Port c \<le> 65535 \<and>
     ((\<exists>e. CEngine e \<in> set cs) \<longrightarrow> Engine c \<in> {''postgres'', ''mysql'', ''mariadb''} \<and> 0 < Port c) \<and>
     ((\<exists>h. CHost h \<in> set cs) \<longrightarrow> Host c \<noteq> '''') \<and> ((\<exists>u p. CCredentials u p \<in> set cs) \<longrightarrow> Username c \<noteq> '''')"

lemma good_so_far_step:
  "good_so_far cs c \<Longrightarrow> good_call k \<Longrightarrow> good_so_far (cs @ [k]) (config_builder_call k c)"
  by (cases k) (auto simp: good_so_far_def WithEngine_def WithSSL_def WithPostgresOptions_def WithMySQLOptions_def Let_def)

lemma good_so_far_calls:
  "list_all good_call cs \<Longrightarrow> good_so_far cs (fold config_builder_call cs NewConfigBuilder)"
proof (induction cs rule: rev_induct)
  case Nil
  show ?case by (simp add: good_so_far_def NewConfigBuilder_def empty_Config_def validSSLModes_def)
next
  case (snoc k cs)
  then show ?case using good_so_far_step by simp
qed

text \<open>
  The builder is complete. Whatever the order of the calls, once an engine, a host and a user
  have been given and no call gave an unusable value, \<^verbatim>\<open>Build\<close> returns a configuration; ports
  and databases left out are filled by the engine's defaults.
\<close>

theorem config_builder_complete:
  assumes "list_all good_call cs" and "\<exists>e. CEngine e \<in> set cs" and "\<exists>h. CHost h \<in> set cs"
    and "\<exists>u p. CCredentials u p \<in> set cs"
  shows "ConfigBuilder_Build (fold config_builder_call cs NewConfigBuilder) =
         Inr (fold config_builder_call cs NewConfigBuilder)"
  using good_so_far_calls [OF assms(1)] assms(2-4)
  by (auto simp: good_so_far_def ConfigBuilder_Build_def Validate_def)

theorem config_builder_complete_witness:
  "\<exists>c. ConfigBuilder_Build (fold config_builder_call
      [CCredentials ''root'' '''', CSSL ''require'' '''' '''' '''', CHost ''db'', CEngine ''mariadb''] NewConfigBuilder) = Inr c \<and>
    Port c = 3306 \<and> Database c = ''mysql''"
proof -
  let ?cs = "[CCredentials ''root'' '''', CSSL ''require'' '''' '''' '''', CHost ''db'', CEngine ''mariadb'']"
  have "ConfigBuilder_Build (fold config_builder_call ?cs NewConfigBuilder) =
      Inr (fold config_builder_call ?cs NewConfigBuilder)"
    by (rule config_builder_complete) (auto simp: validSSLModes_def)
  then show ?thesis by (simp add: WithEngine_def WithSSL_def NewConfigBuilder_def empty_Config_def)
qed

end
