(* ===== verification/Spec_Builder.thy ===== *)
theory Spec_Builder
  imports Api_Types
begin

text \<open>
  The engine-specific option builders: the \<^verbatim>\<open>SpecBuilder\<close> interface of
  \<^verbatim>\<open>internal/service/spec_builder.go\<close>, its three implementations and the factory. The
  interface is a record of its methods; what every implementation keeps of a spec (the name, the
  password, and no attribute change on an update that the spec does not ask for) is the locale
  \<open>spec_builder\<close>, interpreted on the three builders.
\<close>

record SpecBuilder =
  BuildDatabaseCreateOptions :: "DatabaseSpec \<Rightarrow> CreateDatabaseOptions"
  BuildDatabaseUpdateOptions :: "DatabaseSpec \<Rightarrow> UpdateDatabaseOptions"
  BuildUserCreateOptions :: "DatabaseUserSpec \<Rightarrow> string \<Rightarrow> CreateUserOptions"
  BuildUserUpdateOptions :: "DatabaseUserSpec \<Rightarrow> UpdateUserOptions"
  BuildRoleCreateOptions :: "DatabaseRoleSpec \<Rightarrow> CreateRoleOptions"
  BuildRoleUpdateOptions :: "DatabaseRoleSpec \<Rightarrow> UpdateRoleOptions"

section \<open>PostgreSQL\<close>

definition pg_BuildDatabaseCreateOptions :: "DatabaseSpec \<Rightarrow> CreateDatabaseOptions" where
  "pg_BuildDatabaseCreateOptions spec =
     (let opts = empty_CreateDatabaseOptions\<lparr>cdo_Name := ds_Name spec, cdo_Owner := ds_Owner spec\<rparr>
      in case ds_Postgres spec of
           None \<Rightarrow> opts
         | Some p \<Rightarrow> opts\<lparr>cdo_Encoding := pdc_Encoding p, cdo_LCCollate := pdc_LCCollate p,
             cdo_LCCtype := pdc_LCCtype p, cdo_Tablespace := pdc_Tablespace p, cdo_Template := pdc_Template p,
             cdo_ConnectionLimit := pdc_ConnectionLimit p, cdo_IsTemplate := pdc_IsTemplate p,
             cdo_AllowConnections := pdc_AllowConnections p\<rparr>)"

definition pg_BuildDatabaseUpdateOptions :: "DatabaseSpec \<Rightarrow> UpdateDatabaseOptions" where
  "pg_BuildDatabaseUpdateOptions spec =
     (let opts = empty_UpdateDatabaseOptions\<lparr>udo_Owner := ds_Owner spec\<rparr>
      in case ds_Postgres spec of
           None \<Rightarrow> opts
         | Some p \<Rightarrow> opts\<lparr>
             udo_Extensions := map (\<lambda>e. \<lparr>eo_Name = pe_Name e, eo_Schema = pe_Schema e, eo_Version = pe_Version e\<rparr>)
               (pdc_Extensions p),
             udo_Schemas := map (\<lambda>s. \<lparr>so_Name = ps_Name s, so_Owner = ps_Owner s\<rparr>) (pdc_Schemas p),
             udo_DefaultPrivileges := map (\<lambda>d. \<lparr>dpo_Role = pdp_Role d, dpo_Schema = pdp_Schema d,
                 dpo_ObjectType = pdp_ObjectType d, dpo_Privileges = pdp_Privileges d\<rparr>) (pdc_DefaultPrivileges p)\<rparr>)"

definition pg_BuildUserCreateOptions :: "DatabaseUserSpec \<Rightarrow> string \<Rightarrow> CreateUserOptions" where
  "pg_BuildUserCreateOptions spec password =
     (let opts = empty_CreateUserOptions\<lparr>cuo_Username := us_Username spec, cuo_Password := password,
                   cuo_Login := True, cuo_Inherit := True\<rparr>
      in case us_Postgres spec of
           None \<Rightarrow> opts
         | Some p \<Rightarrow> opts\<lparr>cuo_ConnectionLimit := puc_ConnectionLimit p, cuo_ValidUntil := puc_ValidUntil p,
             cuo_Superuser := puc_Superuser p, cuo_CreateDB := puc_CreateDB p, cuo_CreateRole := puc_CreateRole p,
             cuo_Inherit := puc_Inherit p, cuo_Login := puc_Login p, cuo_Replication := puc_Replication p,
             cuo_BypassRLS := puc_BypassRLS p, cuo_InRoles := puc_InRoles p,
             cuo_ConfigParams := puc_ConfigParameters p\<rparr>)"

definition pg_BuildUserUpdateOptions :: "DatabaseUserSpec \<Rightarrow> UpdateUserOptions" where
  "pg_BuildUserUpdateOptions spec =
     (case us_Postgres spec of
        None \<Rightarrow> empty_UpdateUserOptions
      | Some p \<Rightarrow> empty_UpdateUserOptions\<lparr>
          uuo_ConnectionLimit := (if puc_ConnectionLimit p \<noteq> 0 then Some (puc_ConnectionLimit p) else None),
          uuo_ValidUntil := (if puc_ValidUntil p \<noteq> '''' then Some (puc_ValidUntil p) else None),
          uuo_InRoles := puc_InRoles p, uuo_ConfigParams := puc_ConfigParameters p\<rparr>)"

definition pg_grant_options :: "PostgresGrant \<Rightarrow> GrantOptions" where
  "pg_grant_options g = empty_GrantOptions\<lparr>go_Database := pg_Database g, go_Schema := pg_Schema g,
     go_Tables := pg_Tables g, go_Sequences := pg_Sequences g, go_Functions := pg_Functions g,
     go_Privileges := pg_Privileges g, go_WithGrantOption := pg_WithGrantOption g\<rparr>"

definition pg_BuildRoleCreateOptions :: "DatabaseRoleSpec \<Rightarrow> CreateRoleOptions" where
  "pg_BuildRoleCreateOptions spec =
     (let opts = empty_CreateRoleOptions\<lparr>cro_RoleName := rs_RoleName spec, cro_Inherit := True\<rparr>
      in case rs_Postgres spec of
           None \<Rightarrow> opts
         | Some p \<Rightarrow> opts\<lparr>cro_Login := prc_Login p, cro_Inherit := prc_Inherit p, cro_CreateDB := prc_CreateDB p,
             cro_CreateRole := prc_CreateRole p, cro_Superuser := prc_Superuser p,
             cro_Replication := prc_Replication p, cro_BypassRLS := prc_BypassRLS p,
             cro_InRoles := prc_InRoles p, cro_Grants := map pg_grant_options (prc_Grants p)\<rparr>)"

definition pg_BuildRoleUpdateOptions :: "DatabaseRoleSpec \<Rightarrow> UpdateRoleOptions" where
  "pg_BuildRoleUpdateOptions spec =
     (case rs_Postgres spec of
        None \<Rightarrow> empty_UpdateRoleOptions
      | Some p \<Rightarrow> empty_UpdateRoleOptions\<lparr>uro_Login := Some (prc_Login p), uro_Inherit := Some (prc_Inherit p),
          uro_CreateDB := Some (prc_CreateDB p), uro_CreateRole := Some (prc_CreateRole p),
          uro_Superuser := Some (prc_Superuser p), uro_Replication := Some (prc_Replication p),
          uro_BypassRLS := Some (prc_BypassRLS p), uro_InRoles := prc_InRoles p,
          uro_Grants := map pg_grant_options (prc_Grants p)\<rparr>)"

definition NewPostgresSpecBuilder :: SpecBuilder where
  "NewPostgresSpecBuilder = \<lparr>
     BuildDatabaseCreateOptions = pg_BuildDatabaseCreateOptions,
     BuildDatabaseUpdateOptions = pg_BuildDatabaseUpdateOptions,
     BuildUserCreateOptions = pg_BuildUserCreateOptions,
     BuildUserUpdateOptions = pg_BuildUserUpdateOptions,
     BuildRoleCreateOptions = pg_BuildRoleCreateOptions,
     BuildRoleUpdateOptions = pg_BuildRoleUpdateOptions\<rparr>"

section \<open>MySQL and MariaDB\<close>

definition mysql_BuildDatabaseCreateOptions :: "DatabaseSpec \<Rightarrow> CreateDatabaseOptions" where
  "mysql_BuildDatabaseCreateOptions spec =
     (let opts = empty_CreateDatabaseOptions\<lparr>cdo_Name := ds_Name spec, cdo_Owner := ds_Owner spec\<rparr>
      in case ds_MySQL spec of
           None \<Rightarrow> opts
         | Some m \<Rightarrow> opts\<lparr>cdo_Charset := mdc_Charset m, cdo_Collation := mdc_Collation m\<rparr>)"

definition mysql_BuildDatabaseUpdateOptions :: "DatabaseSpec \<Rightarrow> UpdateDatabaseOptions" where
  "mysql_BuildDatabaseUpdateOptions spec =
     (case ds_MySQL spec of
        None \<Rightarrow> empty_UpdateDatabaseOptions
      | Some m \<Rightarrow> empty_UpdateDatabaseOptions\<lparr>udo_Charset := mdc_Charset m, udo_Collation := mdc_Collation m\<rparr>)"

definition mysql_BuildUserCreateOptions :: "DatabaseUserSpec \<Rightarrow> string \<Rightarrow> CreateUserOptions" where
  "mysql_BuildUserCreateOptions spec password =
     (let opts = empty_CreateUserOptions\<lparr>cuo_Username := us_Username spec, cuo_Password := password,
                   cuo_Login := True, cuo_Inherit := True\<rparr>
      in case us_MySQL spec of
           None \<Rightarrow> opts
         | Some m \<Rightarrow> opts\<lparr>cuo_MaxQueriesPerHour := muc_MaxQueriesPerHour m,
             cuo_MaxUpdatesPerHour := muc_MaxUpdatesPerHour m,
             cuo_MaxConnectionsPerHour := muc_MaxConnectionsPerHour m,
             cuo_MaxUserConnections := muc_MaxUserConnections m, cuo_AuthPlugin := muc_AuthPlugin m,
             cuo_RequireSSL := muc_RequireSSL m, cuo_RequireX509 := muc_RequireX509 m,
             cuo_AllowedHosts := muc_AllowedHosts m, cuo_AccountLocked := muc_AccountLocked m\<rparr>)"

definition nonzero :: "int \<Rightarrow> int option" where
  "nonzero n = (if n \<noteq> 0 then Some n else None)"

definition mysql_BuildUserUpdateOptions :: "DatabaseUserSpec \<Rightarrow> UpdateUserOptions" where
  "mysql_BuildUserUpdateOptions spec =
     (case us_MySQL spec of
        None \<Rightarrow> empty_UpdateUserOptions
      | Some m \<Rightarrow> empty_UpdateUserOptions\<lparr>
          uuo_MaxQueriesPerHour := nonzero (muc_MaxQueriesPerHour m),
          uuo_MaxUpdatesPerHour := nonzero (muc_MaxUpdatesPerHour m),
          uuo_MaxConnectionsPerHour := nonzero (muc_MaxConnectionsPerHour m),
          uuo_MaxUserConnections := nonzero (muc_MaxUserConnections m)\<rparr>)"

definition mysql_grant_options :: "MySQLGrant \<Rightarrow> GrantOptions" where
  "mysql_grant_options g = empty_GrantOptions\<lparr>go_Level := mg_Level g, go_Database := mg_Database g,
     go_Table := mg_Table g, go_Columns := mg_Columns g, go_Procedure := mg_Procedure g,
     go_Function := mg_Function g, go_Privileges := mg_Privileges g, go_WithGrantOption := mg_WithGrantOption g\<rparr>"

definition mysql_BuildRoleCreateOptions :: "DatabaseRoleSpec \<Rightarrow> CreateRoleOptions" where
  "mysql_BuildRoleCreateOptions spec =
     (let opts = empty_CreateRoleOptions\<lparr>cro_RoleName := rs_RoleName spec, cro_Inherit := True\<rparr>
      in case rs_MySQL spec of
           None \<Rightarrow> opts
         | Some m \<Rightarrow> opts\<lparr>cro_UseNativeRoles := mrc_UseNativeRoles m,
             cro_Grants := map mysql_grant_options (mrc_Grants m)\<rparr>)"

definition mysql_BuildRoleUpdateOptions :: "DatabaseRoleSpec \<Rightarrow> UpdateRoleOptions" where
  "mysql_BuildRoleUpdateOptions spec =
     (case rs_MySQL spec of
        None \<Rightarrow> empty_UpdateRoleOptions
      | Some m \<Rightarrow> empty_UpdateRoleOptions\<lparr>uro_AddGrants := map mysql_grant_options (mrc_Grants m)\<rparr>)"

definition NewMySQLSpecBuilder :: SpecBuilder where
  "NewMySQLSpecBuilder = \<lparr>
     BuildDatabaseCreateOptions = mysql_BuildDatabaseCreateOptions,
     BuildDatabaseUpdateOptions = mysql_BuildDatabaseUpdateOptions,
     BuildUserCreateOptions = mysql_BuildUserCreateOptions,
     BuildUserUpdateOptions = mysql_BuildUserUpdateOptions,
     BuildRoleCreateOptions = mysql_BuildRoleCreateOptions,
     BuildRoleUpdateOptions = mysql_BuildRoleUpdateOptions\<rparr>"

section \<open>Unknown engines and the factory\<close>

definition emptySpecBuilder :: SpecBuilder where
  "emptySpecBuilder = \<lparr>
     BuildDatabaseCreateOptions = (\<lambda>spec. empty_CreateDatabaseOptions\<lparr>cdo_Name := ds_Name spec\<rparr>),
     BuildDatabaseUpdateOptions = (\<lambda>_. empty_UpdateDatabaseOptions),
     BuildUserCreateOptions = (\<lambda>spec password. empty_CreateUserOptions\<lparr>cuo_Username := us_Username spec,
        cuo_Password := password, cuo_Login := True, cuo_Inherit := True\<rparr>),
     BuildUserUpdateOptions = (\<lambda>_. empty_UpdateUserOptions),
     BuildRoleCreateOptions = (\<lambda>spec. empty_CreateRoleOptions\<lparr>cro_RoleName := rs_RoleName spec, cro_Inherit := True\<rparr>),
     BuildRoleUpdateOptions = (\<lambda>_. empty_UpdateRoleOptions)\<rparr>"

definition GetSpecBuilder :: "EngineType \<Rightarrow> SpecBuilder" where
  "GetSpecBuilder engine =
     (if engine = EngineTypePostgres then NewPostgresSpecBuilder
      else if engine = EngineTypeMySQL \<or> engine = EngineTypeMariaDB then NewMySQLSpecBuilder
      else if engine = EngineTypeCockroachDB then NewPostgresSpecBuilder
      else if engine = EngineTypeClickHouse then emptySpecBuilder
      else emptySpecBuilder)"

section \<open>The contract of a spec builder\<close>

text \<open>The login and privilege attributes that an update of a user would change.\<close>

definition uuo_attributes :: "UpdateUserOptions \<Rightarrow> bool option list" where
  "uuo_attributes o' = [uuo_Superuser o', uuo_CreateDB o', uuo_CreateRole o', uuo_Inherit o', uuo_Login o',
     uuo_Replication o', uuo_BypassRLS o', uuo_RequireSSL o', uuo_RequireX509 o', uuo_AccountLocked o']"

locale spec_builder =
  fixes b :: SpecBuilder
  assumes database_name: "cdo_Name (BuildDatabaseCreateOptions b spec) = ds_Name spec"
    and user_name: "cuo_Username (BuildUserCreateOptions b uspec pw) = us_Username uspec"
    and user_password: "cuo_Password (BuildUserCreateOptions b uspec pw) = pw"
    and role_name: "cro_RoleName (BuildRoleCreateOptions b rspec) = rs_RoleName rspec"
    and user_update_attributes: "list_all (\<lambda>v. v = None) (uuo_attributes (BuildUserUpdateOptions b uspec))"
    and plain_database_update: "ds_Postgres spec = None \<Longrightarrow> ds_MySQL spec = None \<Longrightarrow> ds_Owner spec = '''' \<Longrightarrow>
          BuildDatabaseUpdateOptions b spec = empty_UpdateDatabaseOptions"
    and no_removal: "uro_RemoveGrants (BuildRoleUpdateOptions b rspec) = []"

lemmas option_defaults = empty_CreateDatabaseOptions_def empty_UpdateDatabaseOptions_def empty_CreateUserOptions_def
  empty_UpdateUserOptions_def empty_CreateRoleOptions_def empty_UpdateRoleOptions_def empty_GrantOptions_def

lemmas pg_builder_defs = NewPostgresSpecBuilder_def pg_BuildDatabaseCreateOptions_def
  pg_BuildDatabaseUpdateOptions_def pg_BuildUserCreateOptions_def pg_BuildUserUpdateOptions_def
  pg_BuildRoleCreateOptions_def pg_BuildRoleUpdateOptions_def

lemmas mysql_builder_defs = NewMySQLSpecBuilder_def mysql_BuildDatabaseCreateOptions_def
  mysql_BuildDatabaseUpdateOptions_def mysql_BuildUserCreateOptions_def mysql_BuildUserUpdateOptions_def
  mysql_BuildRoleCreateOptions_def mysql_BuildRoleUpdateOptions_def

interpretation pg_builder: spec_builder NewPostgresSpecBuilder
  by unfold_locales (auto simp: pg_builder_defs option_defaults uuo_attributes_def Let_def split: option.split)

interpretation mysql_builder: spec_builder NewMySQLSpecBuilder
  by unfold_locales (auto simp: mysql_builder_defs option_defaults uuo_attributes_def Let_def split: option.split)

interpretation empty_builder: spec_builder emptySpecBuilder
  by unfold_locales (auto simp: emptySpecBuilder_def option_defaults uuo_attributes_def)

interpretation any_builder: spec_builder "GetSpecBuilder engine"
  unfolding GetSpecBuilder_def
  using pg_builder.spec_builder_axioms mysql_builder.spec_builder_axioms empty_builder.spec_builder_axioms
  by (simp split: if_split)

text \<open>
  For every engine, known or not, the options built from a spec name the database, user or role
  of the spec and carry the given password unchanged; an update of a user never touches the login and
  privilege attributes, and an update of a role never asks to remove grants.
\<close>

theorem spec_builder_keeps_identity:
  "cdo_Name (BuildDatabaseCreateOptions (GetSpecBuilder engine) ds) = ds_Name ds \<and>
   cuo_Username (BuildUserCreateOptions (GetSpecBuilder engine) us pw) = us_Username us \<and>
   cuo_Password (BuildUserCreateOptions (GetSpecBuilder engine) us pw) = pw \<and>
   cro_RoleName (BuildRoleCreateOptions (GetSpecBuilder engine) rs) = rs_RoleName rs \<and>
   list_all (\<lambda>v. v = None) (uuo_attributes (BuildUserUpdateOptions (GetSpecBuilder engine) us)) \<and>
   uro_RemoveGrants (BuildRoleUpdateOptions (GetSpecBuilder engine) rs) = []"
  by (simp add: any_builder.database_name any_builder.user_name any_builder.user_password
      any_builder.role_name any_builder.user_update_attributes any_builder.no_removal)

end
