(* ===== verification/Adapter.thy ===== *)
theory Adapter
  imports Service_Config Spec_Builder
begin

text \<open>
  The adapter interface \<^verbatim>\<open>DatabaseAdapter\<close> of \<^verbatim>\<open>internal/adapter/types/types.go\<close> as the
  services see it, and the base of the services: \<^verbatim>\<open>internal/service/base.go\<close> and
  \<^verbatim>\<open>internal/service/resource_service.go\<close>.

  An adapter talks to a database server, so its methods are state-passing functions on a world of
  any type \<open>'w\<close>, which also answers what the time is and whether a context has ended. The theorems
  about services hold for every adapter. To speak about the calls a service makes, \<open>traced\<close> turns an
  adapter into one that also records each call with its outcome.
\<close>

type_synonym ('w, 'a) op = "'w \<Rightarrow> 'w \<times> (go_error + 'a)"

record 'w adapter =
  ad_now :: "'w \<Rightarrow> int"
  ad_ctx_err :: "ctx \<Rightarrow> 'w \<Rightarrow> go_error option"
  ad_Connect :: "ctx \<Rightarrow> ('w, unit) op"
  ad_Close :: "('w, unit) op"
  ad_Ping :: "ctx \<Rightarrow> ('w, unit) op"
  ad_GetVersion :: "ctx \<Rightarrow> ('w, string) op"
  ad_CreateDatabase :: "ctx \<Rightarrow> CreateDatabaseOptions \<Rightarrow> ('w, unit) op"
  ad_DropDatabase :: "ctx \<Rightarrow> string \<Rightarrow> DropDatabaseOptions \<Rightarrow> ('w, unit) op"
  ad_DatabaseExists :: "ctx \<Rightarrow> string \<Rightarrow> ('w, bool) op"
  ad_GetDatabaseInfo :: "ctx \<Rightarrow> string \<Rightarrow> ('w, DatabaseInfo) op"
  ad_UpdateDatabase :: "ctx \<Rightarrow> string \<Rightarrow> UpdateDatabaseOptions \<Rightarrow> ('w, unit) op"
  ad_VerifyDatabaseAccess :: "ctx \<Rightarrow> string \<Rightarrow> ('w, unit) op"
  ad_TransferDatabaseOwnership :: "ctx \<Rightarrow> string \<Rightarrow> string \<Rightarrow> ('w, unit) op"
  ad_ExecSQLAsRole :: "ctx \<Rightarrow> string \<Rightarrow> string \<Rightarrow> string \<Rightarrow> ('w, unit) op"
  ad_CreateUser :: "ctx \<Rightarrow> CreateUserOptions \<Rightarrow> ('w, unit) op"
  ad_DropUser :: "ctx \<Rightarrow> string \<Rightarrow> ('w, unit) op"
  ad_UserExists :: "ctx \<Rightarrow> string \<Rightarrow> ('w, bool) op"
  ad_UpdateUser :: "ctx \<Rightarrow> string \<Rightarrow> UpdateUserOptions \<Rightarrow> ('w, unit) op"
  ad_UpdatePassword :: "ctx \<Rightarrow> string \<Rightarrow> string \<Rightarrow> ('w, unit) op"
  ad_GetUserInfo :: "ctx \<Rightarrow> string \<Rightarrow> ('w, UserInfo) op"
  ad_GetOwnedObjects :: "ctx \<Rightarrow> string \<Rightarrow> ('w, OwnedObject list) op"
  ad_DisableUser :: "ctx \<Rightarrow> string \<Rightarrow> ('w, unit) op"
  ad_CreateRole :: "ctx \<Rightarrow> CreateRoleOptions \<Rightarrow> ('w, unit) op"
  ad_DropRole :: "ctx \<Rightarrow> string \<Rightarrow> ('w, unit) op"
  ad_RoleExists :: "ctx \<Rightarrow> string \<Rightarrow> ('w, bool) op"
  ad_UpdateRole :: "ctx \<Rightarrow> string \<Rightarrow> UpdateRoleOptions \<Rightarrow> ('w, unit) op"
  ad_GetRoleInfo :: "ctx \<Rightarrow> string \<Rightarrow> ('w, RoleInfo) op"
  ad_Grant :: "ctx \<Rightarrow> string \<Rightarrow> GrantOptions list \<Rightarrow> ('w, unit) op"
  ad_Revoke :: "ctx \<Rightarrow> string \<Rightarrow> GrantOptions list \<Rightarrow> ('w, unit) op"
  ad_GrantRole :: "ctx \<Rightarrow> string \<Rightarrow> string list \<Rightarrow> ('w, unit) op"
  ad_RevokeRole :: "ctx \<Rightarrow> string \<Rightarrow> string list \<Rightarrow> ('w, unit) op"
  ad_SetDefaultPrivileges :: "ctx \<Rightarrow> string \<Rightarrow> DefaultPrivilegeGrantOptions list \<Rightarrow> ('w, unit) op"
  ad_GetGrants :: "ctx \<Rightarrow> string \<Rightarrow> ('w, GrantInfo list) op"

section \<open>Sequencing\<close>

definition ret :: "'a \<Rightarrow> ('w, 'a) op" where
  "ret x w = (w, Inr x)"

definition fail :: "go_error \<Rightarrow> ('w, 'a) op" where
  "fail e w = (w, Inl e)"

text \<open>
  \<^verbatim>\<open>x, err := m(); if err != nil { return wrap(err) }; k(x)\<close>: the error is wrapped in the
  world that the failed call left.
\<close>

definition check :: "('w, 'a) op \<Rightarrow> (go_error \<Rightarrow> 'w \<Rightarrow> go_error) \<Rightarrow> ('a \<Rightarrow> ('w, 'b) op) \<Rightarrow> ('w, 'b) op" where
  "check m wrap k w = (case m w of (w', Inl e) \<Rightarrow> (w', Inl (wrap e w')) | (w', Inr x) \<Rightarrow> k x w')"

abbreviation as_is :: "go_error \<Rightarrow> 'w \<Rightarrow> go_error" where
  "as_is e w \<equiv> e"

lemma ret_eq [simp]: "ret x w = (w, Inr x)"
  by (simp add: ret_def)

lemma fail_eq [simp]: "fail e w = (w, Inl e)"
  by (simp add: fail_def)

lemma check_cases:
  assumes "check m wrap k w = (w', r)"
  obtains (err) e where "m w = (w', Inl e)" "r = Inl (wrap e w')"
  | (ok) w1 x where "m w = (w1, Inr x)" "k x w1 = (w', r)"
  using assms unfolding check_def by (auto split: prod.splits sum.splits)

section \<open>\<^verbatim>\<open>base.go\<close> and \<^verbatim>\<open>resource_service.go\<close>\<close>

record 'w ResourceService =
  svc_adapter :: "'w adapter"
  svc_config :: Config
  svc_specBuilder :: SpecBuilder

definition wrapError :: "'w ResourceService \<Rightarrow> ctx \<Rightarrow> string \<Rightarrow> string \<Rightarrow> go_error \<Rightarrow> 'w \<Rightarrow> go_error" where
  "wrapError s c operation resource err w =
     (if ad_ctx_err (svc_adapter s) c w = Some DeadlineExceeded
      then NewTimeoutError operation resource (Duration_String (OperationTimeout (Timeouts (svc_config s)))) err
      else NewDatabaseError operation resource err)"

text \<open>\<^verbatim>\<open>adapter.NewAdapter\<close> picks an engine's adapter; it is the parameter \<open>newAdapter\<close>.\<close>

definition NewResourceService ::
  "(EngineType \<Rightarrow> ConnectionConfig \<Rightarrow> go_error + 'w adapter) \<Rightarrow> Config option \<Rightarrow> go_error + 'w ResourceService" where
  "NewResourceService newAdapter cfg =
     (case cfg of
        None \<Rightarrow> Inl (ValidationError ''config'' ''config is required'')
      | Some c \<Rightarrow>
          (case newAdapter (GetEngineType c) (ToAdapterConfig c) of
             Inl e \<Rightarrow> Inl (Errorf_w ''failed to create adapter: '' e)
           | Inr a \<Rightarrow> Inr \<lparr>svc_adapter = a, svc_config = c, svc_specBuilder = GetSpecBuilder (GetEngineType c)\<rparr>))"

definition NewResourceServiceWithAdapter :: "'w adapter \<Rightarrow> Config \<Rightarrow> 'w ResourceService" where
  "NewResourceServiceWithAdapter adp cfg =
     \<lparr>svc_adapter = adp, svc_config = cfg, svc_specBuilder = GetSpecBuilder (GetEngineType cfg)\<rparr>"

text \<open>The context of an operation: the caller's, with the timeout counted from now.\<close>

definition op_ctx :: "'w ResourceService \<Rightarrow> ctx \<Rightarrow> 'w \<Rightarrow> ctx" where
  "op_ctx s c w = WithOperationTimeout (Timeouts (svc_config s)) (ad_now (svc_adapter s) w) c"

definition query_ctx :: "'w ResourceService \<Rightarrow> ctx \<Rightarrow> 'w \<Rightarrow> ctx" where
  "query_ctx s c w = WithQueryTimeout (Timeouts (svc_config s)) (ad_now (svc_adapter s) w) c"

definition connect_ctx :: "'w ResourceService \<Rightarrow> ctx \<Rightarrow> 'w \<Rightarrow> ctx" where
  "connect_ctx s c w = WithConnectTimeout (Timeouts (svc_config s)) (ad_now (svc_adapter s) w) c"

definition with_ctx :: "('w \<Rightarrow> ctx) \<Rightarrow> (ctx \<Rightarrow> ('w, 'a) op) \<Rightarrow> ('w, 'a) op" where
  "with_ctx g m w = m (g w) w"

definition Connect :: "'w ResourceService \<Rightarrow> ctx \<Rightarrow> ('w, unit) op" where
  "Connect s c0 =
     (let cfg = svc_config s
      in with_ctx (connect_ctx s c0) (\<lambda>c. check (ad_Connect (svc_adapter s) c)
           (\<lambda>err w. if ad_ctx_err (svc_adapter s) c w = Some DeadlineExceeded
                    then NewTimeoutError ''connect'' (Host cfg) (Duration_String (ConnectTimeout (Timeouts cfg))) err
                    else NewConnectionError (Host cfg) (Port cfg) err)
           ret))"

definition Close :: "'w ResourceService \<Rightarrow> ('w, unit) op" where
  "Close s = ad_Close (svc_adapter s)"

section \<open>Recording the calls\<close>

datatype adapter_call =
    CallConnect | CallClose | CallPing | CallGetVersion
  | CallCreateDatabase CreateDatabaseOptions | CallDropDatabase string DropDatabaseOptions
  | CallDatabaseExists string | CallGetDatabaseInfo string | CallUpdateDatabase string UpdateDatabaseOptions
  | CallVerifyDatabaseAccess string | CallTransferDatabaseOwnership string string
  | CallExecSQLAsRole string string string
  | CallCreateUser CreateUserOptions | CallDropUser string | CallUserExists string
  | CallUpdateUser string UpdateUserOptions | CallUpdatePassword string string | CallGetUserInfo string
  | CallGetOwnedObjects string | CallDisableUser string
  | CallCreateRole CreateRoleOptions | CallDropRole string | CallRoleExists string
  | CallUpdateRole string UpdateRoleOptions | CallGetRoleInfo string
  | CallGrant string "GrantOptions list" | CallRevoke string "GrantOptions list"
  | CallGrantRole string "string list" | CallRevokeRole string "string list"
  | CallSetDefaultPrivileges string "DefaultPrivilegeGrantOptions list" | CallGetGrants string

datatype outcome = Failed go_error | Done | Answer bool

definition unit_outcome :: "go_error + 'a \<Rightarrow> outcome" where
  "unit_outcome r = (case r of Inl e \<Rightarrow> Failed e | Inr _ \<Rightarrow> Done)"

definition bool_outcome :: "go_error + bool \<Rightarrow> outcome" where
  "bool_outcome r = (case r of Inl e \<Rightarrow> Failed e | Inr b \<Rightarrow> Answer b)"

type_synonym trace = "(adapter_call \<times> outcome) list"

definition log_op :: "(go_error + 'a \<Rightarrow> outcome) \<Rightarrow> adapter_call \<Rightarrow> ('w, 'a) op \<Rightarrow> ('w \<times> trace, 'a) op" where
  "log_op out call m = (\<lambda>(w, t). case m w of (w', r) \<Rightarrow> ((w', t @ [(call, out r)]), r))"

abbreviation log_u :: "adapter_call \<Rightarrow> ('w, 'a) op \<Rightarrow> ('w \<times> trace, 'a) op" where
  "log_u \<equiv> log_op unit_outcome"

abbreviation log_b :: "adapter_call \<Rightarrow> ('w, bool) op \<Rightarrow> ('w \<times> trace, bool) op" where
  "log_b \<equiv> log_op bool_outcome"

definition traced :: "'w adapter \<Rightarrow> ('w \<times> trace) adapter" where
  "traced a = \<lparr>
     ad_now = (\<lambda>(w, t). ad_now a w),
     ad_ctx_err = (\<lambda>c (w, t). ad_ctx_err a c w),
     ad_Connect = (\<lambda>c. log_u CallConnect (ad_Connect a c)),
     ad_Close = log_u CallClose (ad_Close a),
     ad_Ping = (\<lambda>c. log_u CallPing (ad_Ping a c)),
     ad_GetVersion = (\<lambda>c. log_u CallGetVersion (ad_GetVersion a c)),
     ad_CreateDatabase = (\<lambda>c x. log_u (CallCreateDatabase x) (ad_CreateDatabase a c x)),
     ad_DropDatabase = (\<lambda>c x y. log_u (CallDropDatabase x y) (ad_DropDatabase a c x y)),
     ad_DatabaseExists = (\<lambda>c x. log_b (CallDatabaseExists x) (ad_DatabaseExists a c x)),
     ad_GetDatabaseInfo = (\<lambda>c x. log_u (CallGetDatabaseInfo x) (ad_GetDatabaseInfo a c x)),
     ad_UpdateDatabase = (\<lambda>c x y. log_u (CallUpdateDatabase x y) (ad_UpdateDatabase a c x y)),
     ad_VerifyDatabaseAccess = (\<lambda>c x. log_u (CallVerifyDatabaseAccess x) (ad_VerifyDatabaseAccess a c x)),
     ad_TransferDatabaseOwnership =
       (\<lambda>c x y. log_u (CallTransferDatabaseOwnership x y) (ad_TransferDatabaseOwnership a c x y)),
     ad_ExecSQLAsRole = (\<lambda>c x y z. log_u (CallExecSQLAsRole x y z) (ad_ExecSQLAsRole a c x y z)),
     ad_CreateUser = (\<lambda>c x. log_u (CallCreateUser x) (ad_CreateUser a c x)),
     ad_DropUser = (\<lambda>c x. log_u (CallDropUser x) (ad_DropUser a c x)),
     ad_UserExists = (\<lambda>c x. log_b (CallUserExists x) (ad_UserExists a c x)),
     ad_UpdateUser = (\<lambda>c x y. log_u (CallUpdateUser x y) (ad_UpdateUser a c x y)),
     ad_UpdatePassword = (\<lambda>c x y. log_u (CallUpdatePassword x y) (ad_UpdatePassword a c x y)),
     ad_GetUserInfo = (\<lambda>c x. log_u (CallGetUserInfo x) (ad_GetUserInfo a c x)),
     ad_GetOwnedObjects = (\<lambda>c x. log_u (CallGetOwnedObjects x) (ad_GetOwnedObjects a c x)),
     ad_DisableUser = (\<lambda>c x. log_u (CallDisableUser x) (ad_DisableUser a c x)),
     ad_CreateRole = (\<lambda>c x. log_u (CallCreateRole x) (ad_CreateRole a c x)),
     ad_DropRole = (\<lambda>c x. log_u (CallDropRole x) (ad_DropRole a c x)),
     ad_RoleExists = (\<lambda>c x. log_b (CallRoleExists x) (ad_RoleExists a c x)),
     ad_UpdateRole = (\<lambda>c x y. log_u (CallUpdateRole x y) (ad_UpdateRole a c x y)),
     ad_GetRoleInfo = (\<lambda>c x. log_u (CallGetRoleInfo x) (ad_GetRoleInfo a c x)),
     ad_Grant = (\<lambda>c x y. log_u (CallGrant x y) (ad_Grant a c x y)),
     ad_Revoke = (\<lambda>c x y. log_u (CallRevoke x y) (ad_Revoke a c x y)),
     ad_GrantRole = (\<lambda>c x y. log_u (CallGrantRole x y) (ad_GrantRole a c x y)),
     ad_RevokeRole = (\<lambda>c x y. log_u (CallRevokeRole x y) (ad_RevokeRole a c x y)),
     ad_SetDefaultPrivileges =
       (\<lambda>c x y. log_u (CallSetDefaultPrivileges x y) (ad_SetDefaultPrivileges a c x y)),
     ad_GetGrants = (\<lambda>c x. log_u (CallGetGrants x) (ad_GetGrants a c x))\<rparr>"

definition traced_svc :: "'w ResourceService \<Rightarrow> ('w \<times> trace) ResourceService" where
  "traced_svc s = \<lparr>svc_adapter = traced (svc_adapter s), svc_config = svc_config s,
     svc_specBuilder = svc_specBuilder s\<rparr>"

lemma traced_svc_simps [simp]:
  "svc_adapter (traced_svc s) = traced (svc_adapter s)"
  "svc_config (traced_svc s) = svc_config s"
  "svc_specBuilder (traced_svc s) = svc_specBuilder s"
  by (simp_all add: traced_svc_def)

lemma traced_env [simp]:
  "ad_now (traced a) (w, t) = ad_now a w"
  "ad_ctx_err (traced a) c (w, t) = ad_ctx_err a c w"
  by (simp_all add: traced_def)

lemma traced_ctx [simp]:
  "op_ctx (traced_svc s) c (w, t) = op_ctx s c w"
  "query_ctx (traced_svc s) c (w, t) = query_ctx s c w"
  "connect_ctx (traced_svc s) c (w, t) = connect_ctx s c w"
  "wrapError (traced_svc s) c op' res e (w, t) = wrapError s c op' res e w"
  by (simp_all add: op_ctx_def query_ctx_def connect_ctx_def wrapError_def)

lemma log_op_eq: "log_op out call m (w, t) = ((fst (m w), t @ [(call, out (snd (m w)))]), snd (m w))"
  by (simp add: log_op_def split: prod.split)

lemma outcome_simps [simp]:
  "unit_outcome (Inl e) = Failed e" "unit_outcome (Inr x) = Done"
  "bool_outcome (Inl e) = Failed e" "bool_outcome (Inr b) = Answer b"
  by (simp_all add: unit_outcome_def bool_outcome_def)

end
