(* ===== verification/Service_Logic.thy ===== *)
theory Service_Logic
  imports Adapter
begin

text \<open>
  A small program logic for service operations: \<open>triple P m Q R\<close> says that from a world with \<open>P\<close> the
  operation \<open>m\<close> ends with \<open>Q\<close> on its result when it succeeds and with \<open>R\<close> on its error when it fails.
  Operations always return, so this is total correctness. Two contracts of the services are stated
  with it: \<open>fail_stop\<close> (no call is made after a failed one, and the failure is reported with its cause
  kept in the error chain), for recorded runs of any adapter, and \<open>tracks\<close> (what the
  interface documents of existence, creation and removal), a hypothesis on the adapter.
\<close>

definition triple ::
  "('w \<Rightarrow> bool) \<Rightarrow> ('w, 'a) op \<Rightarrow> ('a \<Rightarrow> 'w \<Rightarrow> bool) \<Rightarrow> (go_error \<Rightarrow> 'w \<Rightarrow> bool) \<Rightarrow> bool" where
  "triple P m Q R \<longleftrightarrow> (\<forall>w. P w \<longrightarrow> (case m w of (w', Inr x) \<Rightarrow> Q x w' | (w', Inl e) \<Rightarrow> R e w'))"

named_theorems triple_rules \<open>rules of the program logic\<close>

lemma tripleI:
  assumes "\<And>w w' x. P w \<Longrightarrow> m w = (w', Inr x) \<Longrightarrow> Q x w'"
    and "\<And>w w' e. P w \<Longrightarrow> m w = (w', Inl e) \<Longrightarrow> R e w'"
  shows "triple P m Q R"
  unfolding triple_def using assms by (auto split: prod.split sum.split)

lemma triple_ok: "triple P m Q R \<Longrightarrow> P w \<Longrightarrow> m w = (w', Inr x) \<Longrightarrow> Q x w'"
  unfolding triple_def by fastforce

lemma triple_err: "triple P m Q R \<Longrightarrow> P w \<Longrightarrow> m w = (w', Inl e) \<Longrightarrow> R e w'"
  unfolding triple_def by fastforce

lemma triple_ret: "(\<And>w. P w \<Longrightarrow> Q x w) \<Longrightarrow> triple P (ret x) Q R"
  by (simp add: triple_def)

lemma triple_fail: "(\<And>w. P w \<Longrightarrow> R e w) \<Longrightarrow> triple P (fail e) Q R"
  by (simp add: triple_def)

lemma triple_check:
  assumes "triple P m Q1 R1" and "\<And>e w. R1 e w \<Longrightarrow> R (wrap e w) w" and "\<And>x. triple (Q1 x) (k x) Q R"
  shows "triple P (check m wrap k) Q R"
proof (rule tripleI)
  show "Q x w'" if "P w" "check m wrap k w = (w', Inr x)" for w w' x
    using that(2) by (cases rule: check_cases) (simp, metis that(1) assms(1,3) triple_ok)
  show "R e w'" if "P w" "check m wrap k w = (w', Inl e)" for w w' e
    using that(2)
  proof (cases rule: check_cases)
    case (err e')
    then show ?thesis using assms(2) triple_err [OF assms(1) that(1)] by simp
  next
    case (ok w1 x)
    then show ?thesis using triple_ok [OF assms(1) that(1)] triple_err [OF assms(3)] by blast
  qed
qed

lemma triple_if:
  "(b \<Longrightarrow> triple P m Q R) \<Longrightarrow> (\<not> b \<Longrightarrow> triple P m' Q R) \<Longrightarrow> triple P (if b then m else m') Q R"
  by simp

lemma triple_ctx: "(\<And>c. triple P (m c) Q R) \<Longrightarrow> triple P (with_ctx g m) Q R"
  by (simp add: triple_def with_ctx_def)

lemma triple_weaken:
  assumes "triple P' m Q' R'" and "\<And>w. P w \<Longrightarrow> P' w" and "\<And>x w. Q' x w \<Longrightarrow> Q x w" and "\<And>e w. R' e w \<Longrightarrow> R e w"
  shows "triple P m Q R"
  using assms unfolding triple_def by (fastforce split: prod.split sum.split)

section \<open>No call after a failure\<close>

definition failed :: "adapter_call \<times> outcome \<Rightarrow> bool" where
  "failed x \<longleftrightarrow> (\<exists>e. snd x = Failed e)"

definition clean :: "trace \<Rightarrow> 'w \<times> trace \<Rightarrow> bool" where
  "clean t0 wt \<longleftrightarrow> (\<exists>u. snd wt = t0 @ u \<and> list_all (\<lambda>x. \<not> failed x) u)"

definition failed_last :: "trace \<Rightarrow> go_error \<Rightarrow> 'w \<times> trace \<Rightarrow> bool" where
  "failed_last t0 e wt \<longleftrightarrow>
     (\<exists>u call e0. snd wt = t0 @ u @ [(call, Failed e0)] \<and> list_all (\<lambda>x. \<not> failed x) u \<and> e0 \<in> set (chain e))"

text \<open>
  \<open>E\<close> are the errors an operation raises by itself, without a failed call.
\<close>

definition fail_stop :: "(go_error \<Rightarrow> bool) \<Rightarrow> ('w \<times> trace, 'a) op \<Rightarrow> bool" where
  "fail_stop E m \<longleftrightarrow> (\<forall>t0. triple (clean t0) m (\<lambda>_. clean t0)
     (\<lambda>e wt. failed_last t0 e wt \<or> E e \<and> clean t0 wt))"

definition keeps_cause :: "(go_error \<Rightarrow> 'w \<Rightarrow> go_error) \<Rightarrow> bool" where
  "keeps_cause wrap \<longleftrightarrow> (\<forall>e w. set (chain e) \<subseteq> set (chain (wrap e w)))"

lemma keeps_causeI: "(\<And>e w. set (chain e) \<subseteq> set (chain (wrap e w))) \<Longrightarrow> keeps_cause wrap"
  by (simp add: keeps_cause_def)

lemma keeps_cause_wrapError [triple_rules]: "keeps_cause (wrapError s c op' res)"
  by (rule keeps_causeI) (auto simp: wrapError_def NewTimeoutError_def NewDatabaseError_def)

lemma keeps_cause_as_is [triple_rules]: "keeps_cause as_is"
  by (rule keeps_causeI) simp

lemma keeps_cause_Errorf [triple_rules]: "keeps_cause (\<lambda>e w. Errorf_w p e)"
  by (rule keeps_causeI) auto

lemma clean_log:
  "clean t0 (w, t) \<Longrightarrow> \<not> failed x \<Longrightarrow> clean t0 (w', t @ [x])"
  unfolding clean_def by force

lemma failed_log:
  assumes "clean t0 (w, t)"
  shows "failed_last t0 e (w', t @ [(call, Failed e)])"
proof -
  have "e \<in> set (chain e)" by (subst chain.simps) simp
  with assms show ?thesis unfolding clean_def failed_last_def by force
qed

definition reports :: "(go_error + 'a \<Rightarrow> outcome) \<Rightarrow> bool" where
  "reports out \<longleftrightarrow> (\<forall>e. out (Inl e) = Failed e) \<and> (\<forall>x e. out (Inr x) \<noteq> Failed e)"

lemma reports_outcomes [triple_rules]: "reports unit_outcome" "reports bool_outcome"
  by (simp_all add: reports_def)

lemma fail_stop_log:
  assumes "reports out"
  shows "fail_stop E (log_op out call m)"
  unfolding fail_stop_def
proof (intro allI tripleI)
  fix t0 wt wt' x
  assume "clean t0 wt" "log_op out call m wt = (wt', Inr x)"
  then show "clean t0 wt'"
    using assms by (cases wt) (auto simp: log_op_eq reports_def failed_def intro: clean_log)
next
  fix t0 wt wt' e
  assume "clean t0 wt" "log_op out call m wt = (wt', Inl e)"
  then show "failed_last t0 e wt' \<or> E e \<and> clean t0 wt'"
    using assms by (cases wt) (auto simp: log_op_eq reports_def intro: failed_log)
qed

lemma fail_stop_ret: "fail_stop E (ret x)"
  by (simp add: fail_stop_def triple_ret)

lemma fail_stop_fail: "E e \<Longrightarrow> fail_stop E (fail e)"
  by (simp add: fail_stop_def triple_fail)

lemma fail_stop_check:
  assumes "fail_stop (\<lambda>_. False) m" and "keeps_cause wrap" and "\<And>x. fail_stop E (k x)"
  shows "fail_stop E (check m wrap k)"
  unfolding fail_stop_def
proof (intro allI triple_check)
  fix t0
  show "triple (clean t0) m (\<lambda>_. clean t0) (\<lambda>e wt. failed_last t0 e wt \<or> False \<and> clean t0 wt)"
    using assms(1) unfolding fail_stop_def by blast
  show "failed_last t0 (wrap e w) w \<or> E (wrap e w) \<and> clean t0 w" if "failed_last t0 e w \<or> False \<and> clean t0 w" for e w
    using that assms(2) unfolding failed_last_def keeps_cause_def by blast
  show "triple (clean t0) (k x) (\<lambda>_. clean t0) (\<lambda>e wt. failed_last t0 e wt \<or> E e \<and> clean t0 wt)" for x
    using assms(3) unfolding fail_stop_def by blast
qed

lemma fail_stop_check_ret:
  assumes "fail_stop E m" and "\<And>x. fail_stop E (k x)"
  shows "fail_stop E (check m as_is k)"
  unfolding fail_stop_def
  by (intro allI triple_check, rule assms(1) [unfolded fail_stop_def, rule_format], assumption,
      rule assms(2) [unfolded fail_stop_def, rule_format])

lemma fail_stop_if:
  "(b \<Longrightarrow> fail_stop E m) \<Longrightarrow> (\<not> b \<Longrightarrow> fail_stop E m') \<Longrightarrow> fail_stop E (if b then m else m')"
  by simp

lemma fail_stop_option:
  "(x = None \<Longrightarrow> fail_stop E m) \<Longrightarrow> (\<And>y. x = Some y \<Longrightarrow> fail_stop E (k y)) \<Longrightarrow>
   fail_stop E (case x of None \<Rightarrow> m | Some y \<Rightarrow> k y)"
  by (cases x) simp_all

lemma fail_stop_ctx: "(\<And>c. fail_stop E (m c)) \<Longrightarrow> fail_stop E (with_ctx g m)"
  by (simp add: fail_stop_def triple_ctx)

lemma fail_stop_mono: "fail_stop E m \<Longrightarrow> (\<And>e. E e \<Longrightarrow> E' e) \<Longrightarrow> fail_stop E' m"
  unfolding fail_stop_def by (blast intro: triple_weaken)

text \<open>Every call of a recorded adapter is a recorded call.\<close>

lemma traced_calls:
  "ad_Connect (traced a) c = log_u CallConnect (ad_Connect a c)"
  "ad_Close (traced a) = log_u CallClose (ad_Close a)"
  "ad_Ping (traced a) c = log_u CallPing (ad_Ping a c)"
  "ad_GetVersion (traced a) c = log_u CallGetVersion (ad_GetVersion a c)"
  "ad_CreateDatabase (traced a) c o1 = log_u (CallCreateDatabase o1) (ad_CreateDatabase a c o1)"
  "ad_DropDatabase (traced a) c x o2 = log_u (CallDropDatabase x o2) (ad_DropDatabase a c x o2)"
  "ad_DatabaseExists (traced a) c x = log_b (CallDatabaseExists x) (ad_DatabaseExists a c x)"
  "ad_GetDatabaseInfo (traced a) c x = log_u (CallGetDatabaseInfo x) (ad_GetDatabaseInfo a c x)"
  "ad_UpdateDatabase (traced a) c x o3 = log_u (CallUpdateDatabase x o3) (ad_UpdateDatabase a c x o3)"
  "ad_VerifyDatabaseAccess (traced a) c x = log_u (CallVerifyDatabaseAccess x) (ad_VerifyDatabaseAccess a c x)"
  "ad_TransferDatabaseOwnership (traced a) c x y =
     log_u (CallTransferDatabaseOwnership x y) (ad_TransferDatabaseOwnership a c x y)"
  "ad_ExecSQLAsRole (traced a) c x y z = log_u (CallExecSQLAsRole x y z) (ad_ExecSQLAsRole a c x y z)"
  "ad_CreateUser (traced a) c o4 = log_u (CallCreateUser o4) (ad_CreateUser a c o4)"
  "ad_DropUser (traced a) c x = log_u (CallDropUser x) (ad_DropUser a c x)"
  "ad_UserExists (traced a) c x = log_b (CallUserExists x) (ad_UserExists a c x)"
  "ad_UpdateUser (traced a) c x o5 = log_u (CallUpdateUser x o5) (ad_UpdateUser a c x o5)"
  "ad_UpdatePassword (traced a) c x y = log_u (CallUpdatePassword x y) (ad_UpdatePassword a c x y)"
  "ad_GetUserInfo (traced a) c x = log_u (CallGetUserInfo x) (ad_GetUserInfo a c x)"
  "ad_GetOwnedObjects (traced a) c x = log_u (CallGetOwnedObjects x) (ad_GetOwnedObjects a c x)"
  "ad_DisableUser (traced a) c x = log_u (CallDisableUser x) (ad_DisableUser a c x)"
  "ad_CreateRole (traced a) c o6 = log_u (CallCreateRole o6) (ad_CreateRole a c o6)"
  "ad_DropRole (traced a) c x = log_u (CallDropRole x) (ad_DropRole a c x)"
  "ad_RoleExists (traced a) c x = log_b (CallRoleExists x) (ad_RoleExists a c x)"
  "ad_UpdateRole (traced a) c x o7 = log_u (CallUpdateRole x o7) (ad_UpdateRole a c x o7)"
  "ad_GetRoleInfo (traced a) c x = log_u (CallGetRoleInfo x) (ad_GetRoleInfo a c x)"
  "ad_Grant (traced a) c x g = log_u (CallGrant x g) (ad_Grant a c x g)"
  "ad_Revoke (traced a) c x g = log_u (CallRevoke x g) (ad_Revoke a c x g)"
  "ad_GrantRole (traced a) c x rs = log_u (CallGrantRole x rs) (ad_GrantRole a c x rs)"
  "ad_RevokeRole (traced a) c x rs = log_u (CallRevokeRole x rs) (ad_RevokeRole a c x rs)"
  "ad_SetDefaultPrivileges (traced a) c x ds =
     log_u (CallSetDefaultPrivileges x ds) (ad_SetDefaultPrivileges a c x ds)"
  "ad_GetGrants (traced a) c x = log_u (CallGetGrants x) (ad_GetGrants a c x)"
  by (simp_all add: traced_def)

lemmas fail_stop_intros = fail_stop_check fail_stop_ret fail_stop_fail fail_stop_if fail_stop_log fail_stop_ctx
  keeps_cause_wrapError keeps_cause_as_is keeps_cause_Errorf reports_outcomes

end
