(* ===== verification/Drift.thy ===== *)
theory Drift
  imports Service_Logic
begin

text \<open>
  Drift results and the correction loop: \<^verbatim>\<open>internal/service/drift/result.go\<close>,
  \<^verbatim>\<open>internal/service/drift/service.go\<close> and the loop that the four \<^verbatim>\<open>Correct...Drift\<close>
  functions share.

  A comparison function of the sources adds its differences to the result it is given; here it
  returns the differences it adds, in order. A correction dereferences the engine section of the
  spec, and Go panics when that section is absent: \<^term>\<open>None\<close> stands for the panic.
\<close>

named_theorems drift_defs \<open>definitions of the drift comparisons\<close>

section \<open>\<^verbatim>\<open>result.go\<close>\<close>

record Diff =
  df_Field :: string
  df_Expected :: string
  df_Actual :: string
  df_Destructive :: bool
  df_Immutable :: bool

definition diff :: "string \<Rightarrow> string \<Rightarrow> string \<Rightarrow> Diff" where
  "diff field expected actual = \<lparr>df_Field = field, df_Expected = expected, df_Actual = actual,
     df_Destructive = False, df_Immutable = False\<rparr>"

definition diff_if :: "bool \<Rightarrow> Diff \<Rightarrow> Diff list" where
  "diff_if b d = (if b then [d] else [])"

record DriftResult =
  dr_ResourceType :: string
  dr_ResourceName :: string
  dr_CheckedAt :: int
  dr_Diffs :: "Diff list"

definition NewDriftResult :: "string \<Rightarrow> string \<Rightarrow> int \<Rightarrow> DriftResult" where
  "NewDriftResult resourceType resourceName now =
     \<lparr>dr_ResourceType = resourceType, dr_ResourceName = resourceName, dr_CheckedAt = now, dr_Diffs = []\<rparr>"

definition HasDrift :: "DriftResult \<Rightarrow> bool" where
  "HasDrift r \<longleftrightarrow> dr_Diffs r \<noteq> []"

definition HasDestructiveDrift :: "DriftResult \<Rightarrow> bool" where
  "HasDestructiveDrift r \<longleftrightarrow> list_ex df_Destructive (dr_Diffs r)"

definition HasImmutableDrift :: "DriftResult \<Rightarrow> bool" where
  "HasImmutableDrift r \<longleftrightarrow> list_ex df_Immutable (dr_Diffs r)"

definition AddDiff :: "Diff \<Rightarrow> DriftResult \<Rightarrow> DriftResult" where
  "AddDiff d r = r\<lparr>dr_Diffs := dr_Diffs r @ [d]\<rparr>"

text \<open>The status that is written to the resource (\<^verbatim>\<open>api/v1alpha1/driftpolicy_types.go\<close>).\<close>

record DriftStatus =
  st_Detected :: bool
  st_LastChecked :: "int option"
  st_Diffs :: "Diff list"

definition ToAPIStatus :: "DriftResult \<Rightarrow> DriftStatus" where
  "ToAPIStatus r = \<lparr>st_Detected = HasDrift r, st_LastChecked = Some (dr_CheckedAt r), st_Diffs = dr_Diffs r\<rparr>"

record CorrectionResult =
  cr_ResourceName :: string
  cr_Corrected :: "Diff list"
  cr_Skipped :: "(Diff \<times> string) list"
  cr_Failed :: "(Diff \<times> go_error) list"

definition NewCorrectionResult :: "string \<Rightarrow> CorrectionResult" where
  "NewCorrectionResult name = \<lparr>cr_ResourceName = name, cr_Corrected = [], cr_Skipped = [], cr_Failed = []\<rparr>"

definition HasCorrections :: "CorrectionResult \<Rightarrow> bool" where
  "HasCorrections r \<longleftrightarrow> cr_Corrected r \<noteq> []"

definition HasFailures :: "CorrectionResult \<Rightarrow> bool" where
  "HasFailures r \<longleftrightarrow> cr_Failed r \<noteq> []"

definition AddCorrected :: "Diff \<Rightarrow> CorrectionResult \<Rightarrow> CorrectionResult" where
  "AddCorrected d r = r\<lparr>cr_Corrected := cr_Corrected r @ [d]\<rparr>"

definition AddSkipped :: "Diff \<Rightarrow> string \<Rightarrow> CorrectionResult \<Rightarrow> CorrectionResult" where
  "AddSkipped d reason r = r\<lparr>cr_Skipped := cr_Skipped r @ [(d, reason)]\<rparr>"

definition AddFailed :: "Diff \<Rightarrow> go_error \<Rightarrow> CorrectionResult \<Rightarrow> CorrectionResult" where
  "AddFailed d err r = r\<lparr>cr_Failed := cr_Failed r @ [(d, err)]\<rparr>"

section \<open>The drift service\<close>

record 'w drift_Service =
  dsv_adapter :: "'w adapter"
  dsv_AllowDestructive :: bool

definition drift_NewConfig :: bool where
  "drift_NewConfig = False"

text \<open>Detection reads the actual state, then compares.\<close>

definition detect_with ::
  "'w drift_Service \<Rightarrow> ('w, 'i) op \<Rightarrow> string \<Rightarrow> string \<Rightarrow> string \<Rightarrow> ('i \<Rightarrow> Diff list) \<Rightarrow> ('w, DriftResult) op" where
  "detect_with s get doing resourceType name compare =
     check get (\<lambda>e w. Errorf_w (doing @ '': '') e) (\<lambda>info w.
       ret (fold AddDiff (compare info) (NewDriftResult resourceType name (ad_now (dsv_adapter s) w))) w)"

section \<open>The correction loop\<close>

type_synonym 'w correction = "Diff \<Rightarrow> ('w, unit) op option"

definition immutable_reason :: string where
  "immutable_reason = ''immutable field, requires resource recreation''"

fun correct_diffs ::
  "bool \<Rightarrow> string \<Rightarrow> 'w correction \<Rightarrow> Diff list \<Rightarrow> CorrectionResult \<Rightarrow> 'w \<Rightarrow> ('w \<times> CorrectionResult) option" where
  "correct_diffs allow reason app [] r w = Some (w, r)"
| "correct_diffs allow reason app (d # ds) r w =
     (if df_Immutable d then correct_diffs allow reason app ds (AddSkipped d immutable_reason r) w
      else if df_Destructive d \<and> \<not> allow then correct_diffs allow reason app ds (AddSkipped d reason r) w
      else
        (case app d of
           None \<Rightarrow> None
         | Some m \<Rightarrow>
             (case m w of
                (w', Inl e) \<Rightarrow> correct_diffs allow reason app ds (AddFailed d e r) w'
              | (w', Inr _) \<Rightarrow> correct_diffs allow reason app ds (AddCorrected d r) w')))"

section \<open>What a correction run does\<close>

text \<open>
  The differences a run may act on, and the run as it should be: each of them is corrected once, in
  order, whatever happens to the others.
\<close>

definition eligible :: "bool \<Rightarrow> Diff \<Rightarrow> bool" where
  "eligible allow d \<longleftrightarrow> \<not> df_Immutable d \<and> (df_Destructive d \<longrightarrow> allow)"

fun attempts :: "'w correction \<Rightarrow> Diff list \<Rightarrow> 'w \<Rightarrow> 'w \<times> (Diff \<times> (go_error + unit)) list" where
  "attempts app [] w = (w, [])"
| "attempts app (d # ds) w =
     (let (w1, r) = the (app d) w; (w2, rs) = attempts app ds w1 in (w2, (d, r) # rs))"

definition succeeded :: "(Diff \<times> (go_error + unit)) list \<Rightarrow> Diff list" where
  "succeeded rs = map fst (filter (\<lambda>p. \<not> isl (snd p)) rs)"

definition failures :: "(Diff \<times> (go_error + unit)) list \<Rightarrow> (Diff \<times> go_error) list" where
  "failures rs = map (\<lambda>p. (fst p, projl (snd p))) (filter (\<lambda>p. isl (snd p)) rs)"

definition careful_run ::
  "bool \<Rightarrow> 'w correction \<Rightarrow> Diff list \<Rightarrow> 'w \<Rightarrow> 'w \<times> CorrectionResult \<Rightarrow> bool" where
  "careful_run allow app ds w run \<longleftrightarrow>
     (let (w', rs) = attempts app (filter (eligible allow) ds) w
      in fst run = w' \<and> cr_Corrected (snd run) = succeeded rs \<and> cr_Failed (snd run) = failures rs \<and>
         map fst (cr_Skipped (snd run)) = filter (\<lambda>d. \<not> eligible allow d) ds)"

lemmas correction_result_defs = AddCorrected_def AddSkipped_def AddFailed_def NewCorrectionResult_def

lemma attempts_fst: "map fst (snd (attempts app ds w)) = ds"
  by (induction app ds w rule: attempts.induct) (auto simp: Let_def split: prod.splits)

lemma attempted_split: "mset (succeeded rs) + mset (map fst (failures rs)) = mset (map fst rs)"
  by (induction rs) (auto simp: succeeded_def failures_def)

text \<open>
  An invariant that follows a run in which no correction failed: it is indexed by the fields
  corrected so far.
\<close>

lemma attempts_invariant:
  assumes step: "\<And>d F w w' u. d \<in> set ds \<Longrightarrow> I F w \<Longrightarrow> the (app d) w = (w', Inr u) \<Longrightarrow> I (insert (df_Field d) F) w'"
    and "I F w" and "failures (snd (attempts app ds w)) = []"
  shows "I (F \<union> df_Field ` set ds) (fst (attempts app ds w))"
  using assms
proof (induction ds arbitrary: F w)
  case (Cons d ds)
  obtain w1 r where run: "the (app d) w = (w1, r)" by (rule prod.exhaust)
  obtain w2 rs where rest: "attempts app ds w1 = (w2, rs)" by (rule prod.exhaust)
  have "\<not> isl r" "failures rs = []" using Cons.prems(3) by (auto simp: run rest failures_def split: if_splits)
  then obtain u where "r = Inr u" by (cases r) auto
  then have "I (insert (df_Field d) F) w1" using Cons.prems(1,2) run by force
  then have "I (insert (df_Field d) F \<union> df_Field ` set ds) (fst (attempts app ds w1))"
    using Cons.prems(1) \<open>failures rs = []\<close> by (intro Cons.IH) (auto simp: rest)
  then show ?case by (simp add: run rest)
qed simp

lemma correct_diffs_careful:
  assumes "\<And>d. d \<in> set ds \<Longrightarrow> eligible allow d \<Longrightarrow> app d \<noteq> None"
  shows "\<exists>w' r'. correct_diffs allow reason app ds r w = Some (w', r') \<and>
    cr_ResourceName r' = cr_ResourceName r \<and>
    w' = fst (attempts app (filter (eligible allow) ds) w) \<and>
    cr_Corrected r' = cr_Corrected r @ succeeded (snd (attempts app (filter (eligible allow) ds) w)) \<and>
    cr_Failed r' = cr_Failed r @ failures (snd (attempts app (filter (eligible allow) ds) w)) \<and>
    map fst (cr_Skipped r') = map fst (cr_Skipped r) @ filter (\<lambda>d. \<not> eligible allow d) ds"
  using assms
proof (induction ds arbitrary: r w)
  case Nil
  then show ?case by (simp add: succeeded_def failures_def)
next
  case (Cons d ds)
  note IH = Cons.IH [OF Cons.prems [OF list.set_intros(2)]]
  show ?case
  proof (cases "eligible allow d")
    case False
    then show ?thesis using IH [of "AddSkipped d immutable_reason r" w] IH [of "AddSkipped d reason r" w]
      by (auto simp: eligible_def AddSkipped_def)
  next
    case True
    then obtain m where m: "app d = Some m" using Cons.prems by force
    obtain w1 x where run: "m w = (w1, x)" by (rule prod.exhaust)
    have elig: "\<not> df_Immutable d" "\<not> (df_Destructive d \<and> \<not> allow)" using True by (auto simp: eligible_def)
    show ?thesis
    proof (cases x)
      case (Inl e)
      then show ?thesis using IH [of "AddFailed d e r" w1] elig True
        by (auto simp: m run AddFailed_def succeeded_def failures_def split: prod.splits)
    next
      case (Inr u)
      then show ?thesis using IH [of "AddCorrected d r" w1] elig True
        by (auto simp: m run AddCorrected_def succeeded_def failures_def split: prod.splits)
    qed
  qed
qed

lemma correct_diffs_new:
  assumes "\<And>d. d \<in> set ds \<Longrightarrow> eligible allow d \<Longrightarrow> app d \<noteq> None"
  shows "\<exists>run. correct_diffs allow reason app ds (NewCorrectionResult name) w = Some run \<and>
    careful_run allow app ds w run \<and> cr_ResourceName (snd run) = name"
  using correct_diffs_careful [where ds = ds and allow = allow and app = app and reason = reason and
      r = "NewCorrectionResult name" and w = w] assms
  by (force simp: careful_run_def NewCorrectionResult_def Let_def split_beta)

text \<open>
  The contract between a kind of resource and the loop: the corrections a kind offers are defined on
  the differences that its detection reports.
\<close>

locale drift_kind =
  fixes compare :: "'i \<Rightarrow> Diff list"
    and app :: "'w correction"
    and correct :: "Diff list \<Rightarrow> 'w \<Rightarrow> ('w \<times> CorrectionResult) option"
    and allow :: bool and reason :: string and name :: string
  assumes loop: "correct ds w = correct_diffs allow reason app ds (NewCorrectionResult name) w"
    and defined: "d \<in> set (compare info) \<Longrightarrow> app d \<noteq> None"
begin

lemma no_panic: "\<exists>run. correct (compare info) w = Some run"
  unfolding loop using correct_diffs_new [where ds = "compare info" and allow = allow and app = app] defined by blast

lemma careful:
  assumes "correct (compare info) w = Some run"
  shows "careful_run allow app (compare info) w run \<and> cr_ResourceName (snd run) = name"
proof -
  obtain run' where "correct_diffs allow reason app (compare info) (NewCorrectionResult name) w = Some run'"
    "careful_run allow app (compare info) w run'" "cr_ResourceName (snd run') = name"
    using correct_diffs_new [where ds = "compare info" and allow = allow and app = app] defined by blast
  with assms show ?thesis by (simp add: loop)
qed

lemma runs: "\<exists>run. correct (compare info) w = Some run \<and> careful_run allow app (compare info) w run"
  using no_panic [of info w] careful by blast

lemma every_diff_accounted:
  assumes "correct (compare info) w = Some run"
  shows "mset (cr_Corrected (snd run)) + mset (map fst (cr_Failed (snd run))) + mset (map fst (cr_Skipped (snd run))) =
    mset (compare info)"
proof -
  let ?a = "attempts app (filter (eligible allow) (compare info)) w"
  have "mset (succeeded (snd ?a)) + mset (map fst (failures (snd ?a))) = mset (filter (eligible allow) (compare info))"
    by (simp only: attempted_split attempts_fst)
  then show ?thesis
    using conjunct1 [OF careful [OF assms]] unfolding careful_run_def
    by (simp add: Let_def split_beta mset_filter del: mset_map)
qed

lemma corrected_invariant:
  assumes run: "correct (compare info) w = Some run" and ok: "cr_Failed (snd run) = []"
    and step: "\<And>d F w w' u. d \<in> set (compare info) \<Longrightarrow> I F w \<Longrightarrow> the (app d) w = (w', Inr u) \<Longrightarrow> I (insert (df_Field d) F) w'"
    and start: "I {} w"
  shows "I (df_Field ` {d \<in> set (compare info). eligible allow d}) (fst run)"
proof -
  let ?ds = "filter (eligible allow) (compare info)"
  have eqs: "fst run = fst (attempts app ?ds w)" "failures (snd (attempts app ?ds w)) = []"
    using careful [OF run] ok by (simp_all add: careful_run_def Let_def split_beta)
  have "I ({} \<union> df_Field ` set ?ds) (fst (attempts app ?ds w))"
    by (rule attempts_invariant [where I = I]) (use step start eqs in auto)
  then show ?thesis by (simp add: eqs)
qed

lemma skipped:
  assumes "correct (compare info) w = Some run"
  shows "fst ` set (cr_Skipped (snd run)) = {d \<in> set (compare info). \<not> eligible allow d}"
proof -
  have "map fst (cr_Skipped (snd run)) = filter (\<lambda>d. \<not> eligible allow d) (compare info)"
    using careful [OF assms] by (simp add: careful_run_def Let_def split_beta)
  then show ?thesis by (metis list.set_map set_filter)
qed

lemma corrected:
  assumes "correct (compare info) w = Some run" "cr_Failed (snd run) = []"
  shows "set (cr_Corrected (snd run)) = {d \<in> set (compare info). eligible allow d}"
proof -
  let ?a = "attempts app (filter (eligible allow) (compare info)) w"
  have "mset (succeeded (snd ?a)) + mset (map fst (failures (snd ?a))) = mset (filter (eligible allow) (compare info))"
    by (simp only: attempted_split attempts_fst)
  moreover have "failures (snd ?a) = []" "cr_Corrected (snd run) = succeeded (snd ?a)"
    using careful [OF assms(1)] assms(2) by (simp_all add: careful_run_def Let_def split_beta)
  ultimately have "mset (cr_Corrected (snd run)) = mset (filter (eligible allow) (compare info))" by simp
  then show ?thesis by (metis mset_eq_setD set_filter)
qed

lemma fully_corrected:
  assumes "correct (compare info) w = Some run" "cr_Failed (snd run) = []" "cr_Skipped (snd run) = []"
  shows "mset (cr_Corrected (snd run)) = mset (compare info)"
  using every_diff_accounted [OF assms(1)] assms(2,3) by simp

end

lemma concat_map_mset:
  assumes "mset xs = mset ys"
  shows "mset (concat (map f xs)) = mset (concat (map f ys))"
proof -
  have "mset (concat (map f zs)) = (\<Sum>x \<in># mset zs. mset (f x))" for zs
    by (induction zs) auto
  then show ?thesis using assms by metis
qed

lemma fold_AddDiff [simp]: "dr_Diffs (fold AddDiff ds r) = dr_Diffs r @ ds"
  by (induction ds arbitrary: r) (simp_all add: AddDiff_def)

lemma NewDriftResult_Diffs [simp]: "dr_Diffs (NewDriftResult t n now) = []"
  by (simp add: NewDriftResult_def)

lemma diff_if_set [simp]: "set (diff_if b d) = (if b then {d} else {})"
  by (simp add: diff_if_def)

lemma detect_with_ok:
  assumes "detect_with s get doing ty name compare w = (w', Inr r)"
  obtains info where "get w = (w', Inr info)" "dr_Diffs r = compare info"
  using assms unfolding detect_with_def by (elim check_cases) auto

end
