(* ===== verification/Mem_Adapter.thy ===== *)
theory Mem_Adapter
  imports Adapter
begin

text \<open>
  A database server in memory, as a concrete adapter on which the hypotheses about adapters hold and
  on which recorded runs can be evaluated. It keeps the databases with their owners, the users
  with their passwords, the roles, the memberships and the default privileges; its clock stands
  still and its contexts never end. Calls about grants and settings succeed without effect.
\<close>

record mem =
  m_databases :: "(string \<times> string) list"
  m_users :: "(string \<times> string) list"
  m_roles :: "string list"
  m_members :: "(string \<times> string) list"
  m_defaults :: "(string \<times> DefaultPrivilegeGrantOptions) list"
  m_sql :: "string list"

definition mem_init :: mem where
  "mem_init = \<lparr>m_databases = [], m_users = [], m_roles = [], m_members = [], m_defaults = [], m_sql = []\<rparr>"

definition mem_do :: "(mem \<Rightarrow> mem) \<Rightarrow> (mem, unit) op" where
  "mem_do f w = (f w, Inr ())"

definition mem_db_info :: "string \<Rightarrow> (mem, DatabaseInfo) op" where
  "mem_db_info n w = (w, Inr \<lparr>di_Name = n, di_Owner = (case map_of (m_databases w) n of None \<Rightarrow> '''' | Some x \<Rightarrow> x),
     di_SizeBytes = 0, di_Encoding = '''', di_Collation = '''', di_Extensions = [], di_Schemas = [],
     di_ConnectionLimit = None, di_Charset = ''''\<rparr>)"

definition mem_user_info :: "string \<Rightarrow> (mem, UserInfo) op" where
  "mem_user_info n w = (w, Inr \<lparr>ui_Username = n, ui_CreatedAt = '''', ui_ConnectionLimit = 0, ui_ValidUntil = '''',
     ui_Superuser = False, ui_CreateDB = False, ui_CreateRole = False, ui_Inherit = True, ui_Login = True,
     ui_Replication = False, ui_BypassRLS = False,
     ui_InRoles = map snd (filter (\<lambda>p. fst p = n) (m_members w)), ui_AllowedHosts = []\<rparr>)"

definition mem_role_info :: "string \<Rightarrow> (mem, RoleInfo) op" where
  "mem_role_info n w = (w, Inr \<lparr>ri_Name = n, ri_CreatedAt = '''', ri_Login = False, ri_Inherit = True,
     ri_CreateDB = False, ri_CreateRole = False, ri_Superuser = False, ri_Replication = False,
     ri_BypassRLS = False, ri_InRoles = map snd (filter (\<lambda>p. fst p = n) (m_members w))\<rparr>)"

definition del_key :: "string \<Rightarrow> (string \<times> 'v) list \<Rightarrow> (string \<times> 'v) list" where
  "del_key k m = filter (\<lambda>p. fst p \<noteq> k) m"

definition mem_adapter :: "mem adapter" where
  "mem_adapter = \<lparr>
     ad_now = (\<lambda>w. 0),
     ad_ctx_err = (\<lambda>c w. None),
     ad_Connect = (\<lambda>c. mem_do id),
     ad_Close = mem_do id,
     ad_Ping = (\<lambda>c. mem_do id),
     ad_GetVersion = (\<lambda>c w. (w, Inr ''1'')),
     ad_CreateDatabase = (\<lambda>c o1. mem_do (\<lambda>w. w\<lparr>m_databases := map_put (cdo_Name o1) (cdo_Owner o1) (m_databases w)\<rparr>)),
     ad_DropDatabase = (\<lambda>c n o1. mem_do (\<lambda>w. w\<lparr>m_databases := del_key n (m_databases w)\<rparr>)),
     ad_DatabaseExists = (\<lambda>c n w. (w, Inr (has_key (m_databases w) n))),
     ad_GetDatabaseInfo = (\<lambda>c. mem_db_info),
     ad_UpdateDatabase = (\<lambda>c n o1. mem_do id),
     ad_VerifyDatabaseAccess = (\<lambda>c n w. (w, if has_key (m_databases w) n then Inr () else Inl ErrNotFound)),
     ad_TransferDatabaseOwnership = (\<lambda>c n r w. if has_key (m_databases w) n
       then (w\<lparr>m_databases := map_put n r (m_databases w)\<rparr>, Inr ()) else (w, Inl ErrNotFound)),
     ad_ExecSQLAsRole = (\<lambda>c db r q. mem_do (\<lambda>w. w\<lparr>m_sql := m_sql w @ [q]\<rparr>)),
     ad_CreateUser = (\<lambda>c o1. mem_do (\<lambda>w. w\<lparr>m_users := map_put (cuo_Username o1) (cuo_Password o1) (m_users w)\<rparr>)),
     ad_DropUser = (\<lambda>c n. mem_do (\<lambda>w. w\<lparr>m_users := del_key n (m_users w)\<rparr>)),
     ad_UserExists = (\<lambda>c n w. (w, Inr (has_key (m_users w) n))),
     ad_UpdateUser = (\<lambda>c n o1. mem_do id),
     ad_UpdatePassword = (\<lambda>c n p. mem_do (\<lambda>w. w\<lparr>m_users := map_put n p (m_users w)\<rparr>)),
     ad_GetUserInfo = (\<lambda>c. mem_user_info),
     ad_GetOwnedObjects = (\<lambda>c n w. (w, Inr [])),
     ad_DisableUser = (\<lambda>c n. mem_do id),
     ad_CreateRole = (\<lambda>c o1. mem_do (\<lambda>w. w\<lparr>m_roles := List.insert (cro_RoleName o1) (m_roles w)\<rparr>)),
     ad_DropRole = (\<lambda>c n. mem_do (\<lambda>w. w\<lparr>m_roles := removeAll n (m_roles w)\<rparr>)),
     ad_RoleExists = (\<lambda>c n w. (w, Inr (n \<in> set (m_roles w)))),
     ad_UpdateRole = (\<lambda>c n o1. mem_do id),
     ad_GetRoleInfo = (\<lambda>c. mem_role_info),
     ad_Grant = (\<lambda>c n g. mem_do id),
     ad_Revoke = (\<lambda>c n g. mem_do id),
     ad_GrantRole = (\<lambda>c n rs. mem_do (\<lambda>w. w\<lparr>m_members := m_members w @ map (\<lambda>r. (n, r)) rs\<rparr>)),
     ad_RevokeRole = (\<lambda>c n rs. mem_do (\<lambda>w. w\<lparr>m_members := filter (\<lambda>p. \<not> (fst p = n \<and> snd p \<in> set rs)) (m_members w)\<rparr>)),
     ad_SetDefaultPrivileges = (\<lambda>c n ds. mem_do (\<lambda>w. w\<lparr>m_defaults := m_defaults w @ map (\<lambda>d. (n, d)) ds\<rparr>)),
     ad_GetGrants = (\<lambda>c n w. (w, Inr []))\<rparr>"

definition mem_service :: "string \<Rightarrow> mem ResourceService" where
  "mem_service engine = NewResourceServiceWithAdapter mem_adapter (empty_Config\<lparr>Engine := engine\<rparr>)"

lemmas mem_defs = mem_adapter_def mem_do_def mem_db_info_def mem_user_info_def mem_role_info_def

lemma mem_service_simps [simp]:
  "svc_adapter (mem_service engine) = mem_adapter"
  "svc_config (mem_service engine) = empty_Config\<lparr>Engine := engine\<rparr>"
  by (simp_all add: mem_service_def NewResourceServiceWithAdapter_def)

end
