(* ===== verification/Database_Service.thy ===== *)
theory Database_Service
  imports Service_Logic Mem_Adapter
begin

text \<open>
  The database service, \<^verbatim>\<open>internal/service/database.go\<close>: each operation with its validation,
  its timeout, its calls to the adapter in order, and its error wrapping. A nil pointer argument is
  \<open>None\<close>. Log lines are left out.
\<close>

abbreviation quoted :: "string \<Rightarrow> string" where
  "quoted s \<equiv> [CHR 0x27] @ s @ [CHR 0x27]"

definition required :: "string \<Rightarrow> string \<Rightarrow> go_error" where
  "required field msg = ValidationError field msg"

section \<open>Operations\<close>

definition Database_Create :: "'w ResourceService \<Rightarrow> ctx \<Rightarrow> DatabaseSpec option \<Rightarrow> ('w, Result) op" where
  "Database_Create s c0 spec0 =
     (case spec0 of
        None \<Rightarrow> fail (required ''spec'' ''spec is required'')
      | Some spec \<Rightarrow>
          if ds_Name spec = '''' then fail (required ''name'' ''database name is required'')
          else
            (let a = svc_adapter s; name = ds_Name spec
             in with_ctx (op_ctx s c0) (\<lambda>c. check (ad_DatabaseExists a c name) (wrapError s c ''check existence'' name) (\<lambda>exists.
                if exists then ret (NewExistsResult (''Database '' @ quoted name @ '' already exists''))
                else
                  check (ad_CreateDatabase a c (BuildDatabaseCreateOptions (svc_specBuilder s) spec))
                    (wrapError s c ''create'' name) (\<lambda>_.
                  check (ad_VerifyDatabaseAccess a c name)
                    (\<lambda>err w. if ad_ctx_err a c w = Some DeadlineExceeded
                             then NewTimeoutError ''verify access'' name
                                    (Duration_String (OperationTimeout (Timeouts (svc_config s)))) err
                             else DatabaseError ''verify access'' name
                                    (Errorf_w ''database created but not accepting connections: '' err)) (\<lambda>_.
                  ret (NewCreatedResult (''Database '' @ quoted name @ '' created successfully''))))))))"

definition Database_CreateOnly :: "'w ResourceService \<Rightarrow> ctx \<Rightarrow> DatabaseSpec option \<Rightarrow> ('w, Result) op" where
  "Database_CreateOnly s c0 spec0 =
     (case spec0 of
        None \<Rightarrow> fail (required ''spec'' ''spec is required'')
      | Some spec \<Rightarrow>
          if ds_Name spec = '''' then fail (required ''name'' ''database name is required'')
          else
            (let a = svc_adapter s; name = ds_Name spec
             in with_ctx (op_ctx s c0) (\<lambda>c. check (ad_DatabaseExists a c name) (wrapError s c ''check existence'' name) (\<lambda>exists.
                if exists then ret (NewExistsResult (''Database '' @ quoted name @ '' already exists''))
                else
                  check (ad_CreateDatabase a c (BuildDatabaseCreateOptions (svc_specBuilder s) spec))
                    (wrapError s c ''create'' name) (\<lambda>_.
                  ret (NewCreatedResult (''Database '' @ quoted name @ '' created successfully'')))))))"

definition Database_Get :: "'w ResourceService \<Rightarrow> ctx \<Rightarrow> string \<Rightarrow> ('w, DatabaseInfo) op" where
  "Database_Get s c0 name =
     (if name = '''' then fail (required ''name'' ''database name is required'')
      else
        (let a = svc_adapter s
         in with_ctx (query_ctx s c0) (\<lambda>c. check (ad_DatabaseExists a c name) (wrapError s c ''check existence'' name) (\<lambda>exists.
            if \<not> exists then fail ErrNotFound
            else check (ad_GetDatabaseInfo a c name) (wrapError s c ''get info'' name) ret))))"

text \<open>The owner part of \<^verbatim>\<open>Update\<close>: ownership is transferred only when it differs.\<close>

definition reconcile_owner :: "'w ResourceService \<Rightarrow> ctx \<Rightarrow> string \<Rightarrow> string \<Rightarrow> ('w, 'b) op \<Rightarrow> ('w, 'b) op" where
  "reconcile_owner s c name owner k =
     (let a = svc_adapter s
      in if owner \<noteq> ''''
         then check (ad_GetDatabaseInfo a c name) (wrapError s c ''get info'' name) (\<lambda>info.
              if di_Owner info \<noteq> owner
              then check (ad_TransferDatabaseOwnership a c name owner)
                     (wrapError s c ''transfer ownership'' name) (\<lambda>_. k)
              else k)
         else k)"

definition Database_Update :: "'w ResourceService \<Rightarrow> ctx \<Rightarrow> string \<Rightarrow> DatabaseSpec option \<Rightarrow> ('w, Result) op" where
  "Database_Update s c0 name spec0 =
     (if name = '''' then fail (required ''name'' ''database name is required'')
      else case spec0 of
        None \<Rightarrow> fail (required ''spec'' ''spec is required'')
      | Some spec \<Rightarrow>
          (let a = svc_adapter s
           in with_ctx (op_ctx s c0) (\<lambda>c. check (ad_DatabaseExists a c name) (wrapError s c ''check existence'' name) (\<lambda>exists.
              if \<not> exists then fail ErrNotFound
              else
                (let opts = BuildDatabaseUpdateOptions (svc_specBuilder s) spec
                 in reconcile_owner s c name (udo_Owner opts)
                      (check (ad_UpdateDatabase a c name opts) (wrapError s c ''update'' name) (\<lambda>_.
                       ret (NewUpdatedResult (''Database '' @ quoted name @ '' updated successfully'')))))))))"

definition Database_Delete :: "'w ResourceService \<Rightarrow> ctx \<Rightarrow> string \<Rightarrow> bool \<Rightarrow> ('w, Result) op" where
  "Database_Delete s c0 name force =
     (if name = '''' then fail (required ''name'' ''database name is required'')
      else
        (let a = svc_adapter s
         in with_ctx (op_ctx s c0) (\<lambda>c. check (ad_DatabaseExists a c name) (wrapError s c ''check existence'' name) (\<lambda>exists.
            if \<not> exists then ret (NewSuccessResult (''Database '' @ quoted name @ '' does not exist''))
            else
              check (ad_DropDatabase a c name \<lparr>ddo_Force = force\<rparr>) (wrapError s c ''delete'' name) (\<lambda>_.
              ret (NewSuccessResult (''Database '' @ quoted name @ '' deleted successfully'')))))))"

definition Database_Exists :: "'w ResourceService \<Rightarrow> ctx \<Rightarrow> string \<Rightarrow> ('w, bool) op" where
  "Database_Exists s c0 name =
     (if name = '''' then fail (required ''name'' ''database name is required'')
      else
        (with_ctx (query_ctx s c0) (\<lambda>c.
         check (ad_DatabaseExists (svc_adapter s) c name) (wrapError s c ''check existence'' name) ret)))"

definition Database_VerifyAccess :: "'w ResourceService \<Rightarrow> ctx \<Rightarrow> string \<Rightarrow> ('w, unit) op" where
  "Database_VerifyAccess s c0 name =
     (if name = '''' then fail (required ''name'' ''database name is required'')
      else
        (with_ctx (query_ctx s c0) (\<lambda>c.
         check (ad_VerifyDatabaseAccess (svc_adapter s) c name) (wrapError s c ''verify access'' name) ret)))"

text \<open>
  \<^verbatim>\<open>ExecInitSQL\<close> returns the number of statements run and the first error, so its result is a pair
  and not a sum. Blank statements are skipped but counted in the numbering of the message.
\<close>

fun exec_from :: "'w ResourceService \<Rightarrow> ctx \<Rightarrow> string \<Rightarrow> string \<Rightarrow> nat \<Rightarrow> int \<Rightarrow> string list \<Rightarrow> 'w
    \<Rightarrow> 'w \<times> int \<times> go_error option" where
  "exec_from s c database asRole i executed [] w = (w, executed, None)"
| "exec_from s c database asRole i executed (stmt # rest) w =
     (let stmt' = TrimSpace stmt
      in if stmt' = '''' then exec_from s c database asRole (i + 1) executed rest w
         else (case ad_ExecSQLAsRole (svc_adapter s) c database asRole stmt' w of
                 (w', Inl e) \<Rightarrow> (w', executed, Some (Errorf_w (''statement '' @ FormatInt (int i + 1) @ '': '') e))
               | (w', Inr _) \<Rightarrow> exec_from s c database asRole (i + 1) (executed + 1) rest w'))"

definition ExecInitSQL :: "'w ResourceService \<Rightarrow> ctx \<Rightarrow> string \<Rightarrow> string list \<Rightarrow> string \<Rightarrow> 'w
    \<Rightarrow> 'w \<times> int \<times> go_error option" where
  "ExecInitSQL s c database statements asRole w = exec_from s c database asRole 0 0 statements w"

section \<open>Failures stop an operation and are reported\<close>

text \<open>The errors the service raises by itself: validation, and a database that is not there.\<close>

definition own_error :: "go_error \<Rightarrow> bool" where
  "own_error e \<longleftrightarrow> is_ValidationError e \<or> e = ErrNotFound"

lemma own_error_required [simp]: "own_error (required f m)" "own_error ErrNotFound"
  by (simp_all add: own_error_def required_def)

lemma keeps_cause_verify:
  "keeps_cause (\<lambda>err w. if B w then NewTimeoutError o1 n t err else DatabaseError o2 n (Errorf_w p err))"
  by (rule keeps_causeI) (auto simp: NewTimeoutError_def)

lemma fail_stop_reconcile_owner:
  "fail_stop E k \<Longrightarrow> fail_stop E (reconcile_owner (traced_svc s) c name owner k)"
  unfolding reconcile_owner_def Let_def traced_svc_simps traced_calls by (intro fail_stop_intros)

text \<open>
  C28: The database operations stop at the first failed call. For every adapter and every argument,
  a run of an operation makes no adapter call after one that failed, returns a success only when no
  call failed, and otherwise returns an error whose chain holds the error of the failed call; the
  only errors without a failed call are validation errors and \<^verbatim>\<open>ErrNotFound\<close>.
\<close>

theorem database_ops_fail_stop:
  "fail_stop own_error (Database_Create (traced_svc s) c spec) \<and>
   fail_stop own_error (Database_CreateOnly (traced_svc s) c spec) \<and>
   fail_stop own_error (Database_Get (traced_svc s) c name) \<and>
   fail_stop own_error (Database_Update (traced_svc s) c name spec) \<and>
   fail_stop own_error (Database_Delete (traced_svc s) c name force) \<and>
   fail_stop own_error (Database_Exists (traced_svc s) c name) \<and>
   fail_stop own_error (Database_VerifyAccess (traced_svc s) c name)"
  unfolding Database_Create_def Database_CreateOnly_def Database_Get_def Database_Update_def
    Database_Delete_def Database_Exists_def Database_VerifyAccess_def Let_def traced_svc_simps traced_calls
  by (intro conjI fail_stop_intros fail_stop_option keeps_cause_verify fail_stop_reconcile_owner) simp_all

section \<open>Initial SQL\<close>

definition init_statements :: "string list \<Rightarrow> string list" where
  "init_statements stmts = filter (\<lambda>q. q \<noteq> '''') (map TrimSpace stmts)"

lemma exec_from_run:
  assumes "exec_from (traced_svc s) c db role i n stmts (w, t) = ((w', t'), m, err)"
  shows "\<exists>k. m = n + int k \<and> k \<le> length (init_statements stmts) \<and>
     (case err of
        None \<Rightarrow> k = length (init_statements stmts) \<and>
          t' = t @ map (\<lambda>q. (CallExecSQLAsRole db role q, Done)) (init_statements stmts)
      | Some e \<Rightarrow> k < length (init_statements stmts) \<and> (\<exists>e0. e0 \<in> set (chain e) \<and>
          t' = t @ map (\<lambda>q. (CallExecSQLAsRole db role q, Done)) (take k (init_statements stmts)) @
               [(CallExecSQLAsRole db role (init_statements stmts ! k), Failed e0)]))"
  using assms
proof (induction stmts arbitrary: i n w t)
  case Nil
  then show ?case by (simp add: init_statements_def)
next
  case (Cons stmt rest)
  show ?case
  proof (cases "TrimSpace stmt = ''''")
    case True
    then have same: "init_statements (stmt # rest) = init_statements rest" by (simp add: init_statements_def)
    have "exec_from (traced_svc s) c db role (i + 1) n rest (w, t) = ((w', t'), m, err)"
      using Cons.prems True by simp
    then show ?thesis unfolding same by (rule Cons.IH)
  next
    case False
    let ?q = "TrimSpace stmt"
    have todo: "init_statements (stmt # rest) = ?q # init_statements rest"
      using False by (simp add: init_statements_def)
    obtain w1 r where run: "ad_ExecSQLAsRole (svc_adapter s) c db role ?q w = (w1, r)" by (rule prod.exhaust)
    show ?thesis
    proof (cases r)
      case (Inl e)
      have "e \<in> set (chain (Errorf_w p e))" for p by (simp, subst chain.simps, simp)
      with Cons.prems False Inl run show ?thesis
        unfolding todo by (intro exI [where x = 0]) (auto simp: traced_calls log_op_eq)
    next
      case (Inr x)
      have "exec_from (traced_svc s) c db role (i + 1) (n + 1) rest
          (w1, t @ [(CallExecSQLAsRole db role ?q, Done)]) = ((w', t'), m, err)"
        using Cons.prems False Inr run by (simp add: traced_calls log_op_eq)
      from Cons.IH [OF this] obtain k where k: "m = n + 1 + int k" "k \<le> length (init_statements rest)"
        "case err of
           None \<Rightarrow> k = length (init_statements rest) \<and> t' = (t @ [(CallExecSQLAsRole db role ?q, Done)]) @
             map (\<lambda>q. (CallExecSQLAsRole db role q, Done)) (init_statements rest)
         | Some e \<Rightarrow> k < length (init_statements rest) \<and> (\<exists>e0. e0 \<in> set (chain e) \<and>
             t' = (t @ [(CallExecSQLAsRole db role ?q, Done)]) @
               map (\<lambda>q. (CallExecSQLAsRole db role q, Done)) (take k (init_statements rest)) @
               [(CallExecSQLAsRole db role (init_statements rest ! k), Failed e0)])" by auto
      then show ?thesis
        unfolding todo by (intro exI [where x = "Suc k"]) (auto split: option.splits)
    qed
  qed
qed

text \<open>
  The initial SQL of a database is run in order, each statement trimmed and blank ones skipped,
  until one fails. The returned count is the number of statements that succeeded, a nil error means
  that all of them did, and an error wraps the error of the statement after the counted ones.
\<close>

theorem exec_init_sql_in_order:
  assumes "ExecInitSQL (traced_svc s) c db stmts role (w, []) = ((w', t), n, err)"
  shows "0 \<le> n \<and> nat n \<le> length (init_statements stmts) \<and>
    (case err of
       None \<Rightarrow> nat n = length (init_statements stmts) \<and>
         t = map (\<lambda>q. (CallExecSQLAsRole db role q, Done)) (init_statements stmts)
     | Some e \<Rightarrow> nat n < length (init_statements stmts) \<and> (\<exists>e0. e0 \<in> set (chain e) \<and>
         t = map (\<lambda>q. (CallExecSQLAsRole db role q, Done)) (take (nat n) (init_statements stmts)) @
             [(CallExecSQLAsRole db role (init_statements stmts ! nat n), Failed e0)]))"
  using exec_from_run [OF assms [unfolded ExecInitSQL_def]] by (cases err) auto

theorem exec_init_sql_in_order_witness:
  "m_sql (fst (fst (ExecInitSQL (traced_svc (mem_service ''postgres'')) \<lparr>ctx_deadline = None\<rparr> ''app''
       [''  CREATE TABLE a();'', ''   '', ''SELECT 1 ''] ''owner'' (mem_init, [])))) =
     [''CREATE TABLE a();'', ''SELECT 1''] \<and>
   fst (snd (ExecInitSQL (traced_svc (mem_service ''postgres'')) \<lparr>ctx_deadline = None\<rparr> ''app''
       [''  CREATE TABLE a();'', ''   '', ''SELECT 1 ''] ''owner'' (mem_init, []))) = 2"
proof
  let ?run = "ExecInitSQL (traced_svc (mem_service ''postgres'')) \<lparr>ctx_deadline = None\<rparr> ''app''
       [''  CREATE TABLE a();'', ''   '', ''SELECT 1 ''] ''owner'' (mem_init, [])"
  show "m_sql (fst (fst ?run)) = [''CREATE TABLE a();'', ''SELECT 1'']" by code_simp
  have err: "snd (snd ?run) = None" by code_simp
  obtain w t n e where run: "?run = ((w, t), n, e)" by (metis prod.exhaust)
  have e: "e = None" using err by (simp only: run snd_conv)
  have two: "length (init_statements [''  CREATE TABLE a();'', ''   '', ''SELECT 1 '']) = 2" by code_simp
  have "nat n = 2" using exec_init_sql_in_order [OF run] by (simp only: e two option.case)
  then have "n = 2" by simp
  then show "fst (snd ?run) = 2" by (simp only: run fst_conv snd_conv)
qed

section \<open>Convergence\<close>

text \<open>
  What the interface documents of the database calls: \<open>dbs\<close> is the set of existing databases, the
  existence check answers it, create adds and drop removes the named database (a failed call may
  or may not have had its effect), and the other calls leave it alone.
\<close>

definition tracks_databases :: "'w adapter \<Rightarrow> ('w \<Rightarrow> string set) \<Rightarrow> bool" where
  "tracks_databases a dbs \<longleftrightarrow>
     (\<forall>c n D. triple (\<lambda>w. dbs w = D) (ad_DatabaseExists a c n) (\<lambda>b w. dbs w = D \<and> b = (n \<in> D)) (\<lambda>e w. dbs w = D)) \<and>
     (\<forall>c o1 D. triple (\<lambda>w. dbs w = D) (ad_CreateDatabase a c o1) (\<lambda>_ w. dbs w = insert (cdo_Name o1) D)
        (\<lambda>e w. dbs w \<in> {D, insert (cdo_Name o1) D})) \<and>
     (\<forall>c n o1 D. triple (\<lambda>w. dbs w = D) (ad_DropDatabase a c n o1) (\<lambda>_ w. dbs w = D - {n})
        (\<lambda>e w. dbs w \<in> {D, D - {n}})) \<and>
     (\<forall>c n D. triple (\<lambda>w. dbs w = D) (ad_VerifyDatabaseAccess a c n) (\<lambda>_ w. dbs w = D) (\<lambda>e w. dbs w = D)) \<and>
     (\<forall>c n D. triple (\<lambda>w. dbs w = D) (ad_GetDatabaseInfo a c n) (\<lambda>_ w. dbs w = D) (\<lambda>e w. dbs w = D)) \<and>
     (\<forall>c n o1 D. triple (\<lambda>w. dbs w = D) (ad_UpdateDatabase a c n o1) (\<lambda>_ w. dbs w = D) (\<lambda>e w. dbs w = D)) \<and>
     (\<forall>c n r D. triple (\<lambda>w. dbs w = D) (ad_TransferDatabaseOwnership a c n r) (\<lambda>_ w. dbs w = D) (\<lambda>e w. dbs w = D))"

lemma tracks_calls:
  assumes "tracks_databases a dbs"
  shows "triple (\<lambda>w. dbs w = D) (ad_DatabaseExists a c n) (\<lambda>b w. dbs w = D \<and> b = (n \<in> D)) (\<lambda>e w. dbs w = D)"
    and "triple (\<lambda>w. dbs w = D) (ad_CreateDatabase a c o1) (\<lambda>_ w. dbs w = insert (cdo_Name o1) D)
        (\<lambda>e w. dbs w \<in> {D, insert (cdo_Name o1) D})"
    and "triple (\<lambda>w. dbs w = D) (ad_DropDatabase a c n o2) (\<lambda>_ w. dbs w = D - {n}) (\<lambda>e w. dbs w \<in> {D, D - {n}})"
    and "triple (\<lambda>w. dbs w = D) (ad_VerifyDatabaseAccess a c n) (\<lambda>_ w. dbs w = D) (\<lambda>e w. dbs w = D)"
    and "triple (\<lambda>w. dbs w = D) (ad_GetDatabaseInfo a c n) (\<lambda>_ w. dbs w = D) (\<lambda>e w. dbs w = D)"
    and "triple (\<lambda>w. dbs w = D) (ad_UpdateDatabase a c n o3) (\<lambda>_ w. dbs w = D) (\<lambda>e w. dbs w = D)"
    and "triple (\<lambda>w. dbs w = D) (ad_TransferDatabaseOwnership a c n r) (\<lambda>_ w. dbs w = D) (\<lambda>e w. dbs w = D)"
  using assms unfolding tracks_databases_def by simp_all

lemma triple_pre: "(B \<Longrightarrow> triple P m Q R) \<Longrightarrow> triple (\<lambda>w. P w \<and> B) m Q R"
  by (cases B) (simp_all add: triple_def)

lemma create_converges:
  assumes t: "tracks_databases (svc_adapter s) dbs" and b: "svc_specBuilder s = GetSpecBuilder e"
    and n: "ds_Name spec \<noteq> ''''"
  shows "triple (\<lambda>w. dbs w = D) (Database_Create s c (Some spec))
     (\<lambda>r w. dbs w = insert (ds_Name spec) D \<and> Created r = (ds_Name spec \<notin> D))
     (\<lambda>e w. dbs w - {ds_Name spec} = D - {ds_Name spec})"
proof -
  have name: "cdo_Name (BuildDatabaseCreateOptions (svc_specBuilder s) spec) = ds_Name spec"
    by (simp add: b any_builder.database_name)
  note calls = tracks_calls [OF t]
  note create = calls(2) [where ?o1.0 = "BuildDatabaseCreateOptions (svc_specBuilder s) spec", unfolded name]
  show ?thesis
    unfolding Database_Create_def option.case Let_def
    by (intro triple_if triple_ctx triple_check [OF calls(1)] triple_pre triple_check [OF create]
        triple_check [OF calls(4)] triple_ret triple_fail)
      (use n in \<open>auto simp: NewExistsResult_def NewCreatedResult_def\<close>)
qed

lemma create_only_converges:
  assumes t: "tracks_databases (svc_adapter s) dbs" and b: "svc_specBuilder s = GetSpecBuilder e"
    and n: "ds_Name spec \<noteq> ''''"
  shows "triple (\<lambda>w. dbs w = D) (Database_CreateOnly s c (Some spec))
     (\<lambda>r w. dbs w = insert (ds_Name spec) D \<and> Created r = (ds_Name spec \<notin> D))
     (\<lambda>e w. dbs w - {ds_Name spec} = D - {ds_Name spec})"
proof -
  have name: "cdo_Name (BuildDatabaseCreateOptions (svc_specBuilder s) spec) = ds_Name spec"
    by (simp add: b any_builder.database_name)
  note calls = tracks_calls [OF t]
  note create = calls(2) [where ?o1.0 = "BuildDatabaseCreateOptions (svc_specBuilder s) spec", unfolded name]
  show ?thesis
    unfolding Database_CreateOnly_def option.case Let_def
    by (intro triple_if triple_ctx triple_check [OF calls(1)] triple_pre triple_check [OF create]
        triple_ret triple_fail)
      (use n in \<open>auto simp: NewExistsResult_def NewCreatedResult_def\<close>)
qed

lemma delete_converges:
  assumes t: "tracks_databases (svc_adapter s) dbs" and n: "name \<noteq> ''''"
  shows "triple (\<lambda>w. dbs w = D) (Database_Delete s c name force)
     (\<lambda>r w. dbs w = D - {name}) (\<lambda>e w. dbs w - {name} = D - {name})"
proof -
  note calls = tracks_calls [OF t]
  show ?thesis
    unfolding Database_Delete_def Let_def
    by (intro triple_if triple_ctx triple_check [OF calls(1)] triple_pre triple_check [OF calls(3)]
        triple_ret triple_fail)
      (use n in auto)
qed

lemma update_keeps_databases:
  assumes t: "tracks_databases (svc_adapter s) dbs"
  shows "triple (\<lambda>w. dbs w = D) (Database_Update s c name spec)
     (\<lambda>r w. dbs w = D \<and> name \<in> D) (\<lambda>e w. dbs w = D \<and> (e = ErrNotFound \<longrightarrow> name \<notin> D))"
proof -
  note calls = tracks_calls [OF t]
  have [simp]: "wrapError s c' op' res e w \<noteq> ErrNotFound" for c' op' res e w
    by (simp add: wrapError_def NewTimeoutError_def NewDatabaseError_def)
  show ?thesis
    unfolding Database_Update_def reconcile_owner_def Let_def
    by (cases spec; simp only: option.case;
        intro triple_if triple_ctx triple_check [OF calls(1)] triple_pre triple_check [OF calls(5)]
          triple_check [OF calls(6)] triple_check [OF calls(7)] triple_ret triple_fail)
      (auto simp: required_def)
qed


lemma map_put_dom: "fst ` set (map_put k v m) = insert k (fst ` set m)"
  using map_put_keys [of k v m] by simp

lemma mem_tracks_databases: "tracks_databases mem_adapter (\<lambda>w. fst ` set (m_databases w))"
  unfolding tracks_databases_def triple_def
  by (auto simp: mem_defs map_put_dom del_key_def has_key_def)


end
