(* ===== verification/Account_Service.thy ===== *)
theory Account_Service
  imports Database_Service
begin

text \<open>
  Users, roles and instances: \<^verbatim>\<open>internal/service/user.go\<close>,
  \<^verbatim>\<open>internal/service/role.go\<close> and \<^verbatim>\<open>internal/service/instance.go\<close>. Creating a user or
  a role that exists updates it instead; a user's password is then set as well.
\<close>

section \<open>Users\<close>

definition no_username :: go_error where
  "no_username = required ''username'' ''username is required''"

definition User_Create :: "'w ResourceService \<Rightarrow> ctx \<Rightarrow> DatabaseUserSpec option \<Rightarrow> string \<Rightarrow> ('w, Result) op" where
  "User_Create s c0 spec0 password =
     (case spec0 of
        None \<Rightarrow> fail (required ''spec'' ''spec is required'')
      | Some spec \<Rightarrow>
          if us_Username spec = '''' then fail no_username
          else if password = '''' then fail (required ''password'' ''password is required'')
          else
            (let a = svc_adapter s; name = us_Username spec
             in with_ctx (op_ctx s c0) (\<lambda>c.
                check (ad_UserExists a c name) (wrapError s c ''check existence'' name) (\<lambda>exists.
                if exists then
                  check (ad_UpdateUser a c name (BuildUserUpdateOptions (svc_specBuilder s) spec))
                    (wrapError s c ''update'' name) (\<lambda>_.
                  check (ad_UpdatePassword a c name password) (wrapError s c ''update password'' name) (\<lambda>_.
                  ret (NewUpdatedResult (''User '' @ quoted name @ '' updated successfully''))))
                else
                  check (ad_CreateUser a c (BuildUserCreateOptions (svc_specBuilder s) spec password))
                    (wrapError s c ''create'' name) (\<lambda>_.
                  ret (NewCreatedResult (''User '' @ quoted name @ '' created successfully'')))))))"

definition User_Get :: "'w ResourceService \<Rightarrow> ctx \<Rightarrow> string \<Rightarrow> ('w, UserInfo) op" where
  "User_Get s c0 name =
     (if name = '''' then fail no_username
      else with_ctx (query_ctx s c0) (\<lambda>c.
        check (ad_UserExists (svc_adapter s) c name) (wrapError s c ''check existence'' name) (\<lambda>exists.
        if \<not> exists then fail ErrNotFound
        else check (ad_GetUserInfo (svc_adapter s) c name) (wrapError s c ''get info'' name) ret)))"

definition User_Update :: "'w ResourceService \<Rightarrow> ctx \<Rightarrow> string \<Rightarrow> DatabaseUserSpec option \<Rightarrow> ('w, Result) op" where
  "User_Update s c0 name spec0 =
     (if name = '''' then fail no_username
      else case spec0 of
        None \<Rightarrow> fail (required ''spec'' ''spec is required'')
      | Some spec \<Rightarrow> with_ctx (op_ctx s c0) (\<lambda>c.
          check (ad_UserExists (svc_adapter s) c name) (wrapError s c ''check existence'' name) (\<lambda>exists.
          if \<not> exists then fail ErrNotFound
          else
            check (ad_UpdateUser (svc_adapter s) c name (BuildUserUpdateOptions (svc_specBuilder s) spec))
              (wrapError s c ''update'' name) (\<lambda>_.
            ret (NewUpdatedResult (''User '' @ quoted name @ '' updated successfully''))))))"

definition User_UpdatePassword :: "'w ResourceService \<Rightarrow> ctx \<Rightarrow> string \<Rightarrow> string \<Rightarrow> ('w, Result) op" where
  "User_UpdatePassword s c0 name password =
     (if name = '''' then fail no_username
      else if password = '''' then fail (required ''password'' ''password is required'')
      else with_ctx (op_ctx s c0) (\<lambda>c.
        check (ad_UserExists (svc_adapter s) c name) (wrapError s c ''check existence'' name) (\<lambda>exists.
        if \<not> exists then fail ErrNotFound
        else
          check (ad_UpdatePassword (svc_adapter s) c name password) (wrapError s c ''update password'' name) (\<lambda>_.
          ret (NewSuccessResult (''Password updated for user '' @ quoted name))))))"

definition User_Delete :: "'w ResourceService \<Rightarrow> ctx \<Rightarrow> string \<Rightarrow> ('w, Result) op" where
  "User_Delete s c0 name =
     (if name = '''' then fail no_username
      else with_ctx (op_ctx s c0) (\<lambda>c.
        check (ad_UserExists (svc_adapter s) c name) (wrapError s c ''check existence'' name) (\<lambda>exists.
        if \<not> exists then ret (NewSuccessResult (''User '' @ quoted name @ '' does not exist''))
        else
          check (ad_DropUser (svc_adapter s) c name) (wrapError s c ''delete'' name) (\<lambda>_.
          ret (NewSuccessResult (''User '' @ quoted name @ '' deleted successfully''))))))"

definition User_Exists :: "'w ResourceService \<Rightarrow> ctx \<Rightarrow> string \<Rightarrow> ('w, bool) op" where
  "User_Exists s c0 name =
     (if name = '''' then fail no_username
      else with_ctx (query_ctx s c0) (\<lambda>c.
        check (ad_UserExists (svc_adapter s) c name) (wrapError s c ''check existence'' name) ret))"

definition User_DisableLogin :: "'w ResourceService \<Rightarrow> ctx \<Rightarrow> string \<Rightarrow> ('w, unit) op" where
  "User_DisableLogin s c0 name =
     (if name = '''' then fail no_username
      else with_ctx (op_ctx s c0) (\<lambda>c.
        check (ad_DisableUser (svc_adapter s) c name) (wrapError s c ''disable login'' name) ret))"

definition User_GetOwnedObjects :: "'w ResourceService \<Rightarrow> ctx \<Rightarrow> string \<Rightarrow> ('w, OwnedObject list) op" where
  "User_GetOwnedObjects s c0 name =
     (if name = '''' then fail no_username
      else with_ctx (query_ctx s c0) (\<lambda>c.
        check (ad_GetOwnedObjects (svc_adapter s) c name) (wrapError s c ''get owned objects'' name) ret))"

section \<open>Roles\<close>

definition no_rolename :: go_error where
  "no_rolename = required ''roleName'' ''role name is required''"

definition Role_Create :: "'w ResourceService \<Rightarrow> ctx \<Rightarrow> DatabaseRoleSpec option \<Rightarrow> ('w, Result) op" where
  "Role_Create s c0 spec0 =
     (case spec0 of
        None \<Rightarrow> fail (required ''spec'' ''spec is required'')
      | Some spec \<Rightarrow>
          if rs_RoleName spec = '''' then fail no_rolename
          else
            (let a = svc_adapter s; name = rs_RoleName spec
             in with_ctx (op_ctx s c0) (\<lambda>c.
                check (ad_RoleExists a c name) (wrapError s c ''check existence'' name) (\<lambda>exists.
                if exists then
                  check (ad_UpdateRole a c name (BuildRoleUpdateOptions (svc_specBuilder s) spec))
                    (wrapError s c ''update'' name) (\<lambda>_.
                  ret (NewUpdatedResult (''Role '' @ quoted name @ '' updated successfully'')))
                else
                  check (ad_CreateRole a c (BuildRoleCreateOptions (svc_specBuilder s) spec))
                    (wrapError s c ''create'' name) (\<lambda>_.
                  ret (NewCreatedResult (''Role '' @ quoted name @ '' created successfully'')))))))"

definition Role_Get :: "'w ResourceService \<Rightarrow> ctx \<Rightarrow> string \<Rightarrow> ('w, RoleInfo) op" where
  "Role_Get s c0 name =
     (if name = '''' then fail no_rolename
      else with_ctx (query_ctx s c0) (\<lambda>c.
        check (ad_RoleExists (svc_adapter s) c name) (wrapError s c ''check existence'' name) (\<lambda>exists.
        if \<not> exists then fail ErrNotFound
        else check (ad_GetRoleInfo (svc_adapter s) c name) (wrapError s c ''get info'' name) ret)))"

definition Role_Update :: "'w ResourceService \<Rightarrow> ctx \<Rightarrow> string \<Rightarrow> DatabaseRoleSpec option \<Rightarrow> ('w, Result) op" where
  "Role_Update s c0 name spec0 =
     (if name = '''' then fail no_rolename
      else case spec0 of
        None \<Rightarrow> fail (required ''spec'' ''spec is required'')
      | Some spec \<Rightarrow> with_ctx (op_ctx s c0) (\<lambda>c.
          check (ad_RoleExists (svc_adapter s) c name) (wrapError s c ''check existence'' name) (\<lambda>exists.
          if \<not> exists then fail ErrNotFound
          else
            check (ad_UpdateRole (svc_adapter s) c name (BuildRoleUpdateOptions (svc_specBuilder s) spec))
              (wrapError s c ''update'' name) (\<lambda>_.
            ret (NewUpdatedResult (''Role '' @ quoted name @ '' updated successfully''))))))"

definition Role_Delete :: "'w ResourceService \<Rightarrow> ctx \<Rightarrow> string \<Rightarrow> ('w, Result) op" where
  "Role_Delete s c0 name =
     (if name = '''' then fail no_rolename
      else with_ctx (op_ctx s c0) (\<lambda>c.
        check (ad_RoleExists (svc_adapter s) c name) (wrapError s c ''check existence'' name) (\<lambda>exists.
        if \<not> exists then ret (NewSuccessResult (''Role '' @ quoted name @ '' does not exist''))
        else
          check (ad_DropRole (svc_adapter s) c name) (wrapError s c ''delete'' name) (\<lambda>_.
          ret (NewSuccessResult (''Role '' @ quoted name @ '' deleted successfully''))))))"

definition Role_Exists :: "'w ResourceService \<Rightarrow> ctx \<Rightarrow> string \<Rightarrow> ('w, bool) op" where
  "Role_Exists s c0 name =
     (if name = '''' then fail no_rolename
      else with_ctx (query_ctx s c0) (\<lambda>c.
        check (ad_RoleExists (svc_adapter s) c name) (wrapError s c ''check existence'' name) ret))"

section \<open>Instances\<close>

record HealthCheckResult =
  hc_Healthy :: bool
  hc_Version :: string
  hc_Message :: string
  hc_Latency :: duration
  hc_ErrorMessage :: string

text \<open>\<^verbatim>\<open>HealthCheck\<close> returns its result also next to an error.\<close>

definition HealthCheck :: "'w ResourceService \<Rightarrow> ctx \<Rightarrow> 'w \<Rightarrow> 'w \<times> HealthCheckResult \<times> go_error option" where
  "HealthCheck s c0 w =
     (let c = query_ctx s c0 w; a = svc_adapter s; start = ad_now a w
      in case ad_Ping a c w of
           (w1, Inl err) \<Rightarrow>
             (w1, \<lparr>hc_Healthy = False, hc_Version = '''', hc_Message = ''Database is not healthy'', hc_Latency = 0,
                   hc_ErrorMessage = ''Ping failed: '' @ Error err\<rparr>,
              Some (wrapError s c ''ping'' (Host (svc_config s)) err w1))
         | (w1, Inr _) \<Rightarrow>
             (let latency = ad_now a w1 - start
              in case ad_GetVersion a c w1 of
                   (w2, r) \<Rightarrow>
                     (let version = (case r of Inl _ \<Rightarrow> ''unknown'' | Inr v \<Rightarrow> v)
                      in (w2, \<lparr>hc_Healthy = True, hc_Version = version,
                               hc_Message = ''Connected to '' @ Engine (svc_config s) @ '' '' @ version,
                               hc_Latency = latency, hc_ErrorMessage = ''''\<rparr>, None))))"

definition TestConnection :: "'w ResourceService \<Rightarrow> ctx \<Rightarrow> ('w, Result) op" where
  "TestConnection s c w =
     (case HealthCheck s c w of
        (w', h, Some err) \<Rightarrow> (w', Inl err)
      | (w', h, None) \<Rightarrow>
          if \<not> hc_Healthy h
          then (w', Inr \<lparr>Success = False, Message = hc_ErrorMessage h, Created = False, Updated = False\<rparr>)
          else (w', Inr \<lparr>Success = True, Message = hc_Message h, Created = False, Updated = False\<rparr>))"

definition Instance_GetVersion :: "'w ResourceService \<Rightarrow> ctx \<Rightarrow> ('w, string) op" where
  "Instance_GetVersion s c0 = with_ctx (query_ctx s c0) (\<lambda>c.
     check (ad_GetVersion (svc_adapter s) c) (wrapError s c ''get version'' (Host (svc_config s))) ret)"

definition Instance_Ping :: "'w ResourceService \<Rightarrow> ctx \<Rightarrow> ('w, unit) op" where
  "Instance_Ping s c0 = with_ctx (query_ctx s c0) (\<lambda>c.
     check (ad_Ping (svc_adapter s) c) (wrapError s c ''ping'' (Host (svc_config s))) ret)"

section \<open>Failures stop an operation and are reported\<close>

lemma own_error_accounts [simp]: "own_error no_username" "own_error no_rolename"
  by (simp_all add: no_username_def no_rolename_def)

lemmas user_ops_def = User_Create_def User_Get_def User_Update_def User_UpdatePassword_def User_Delete_def
  User_Exists_def User_DisableLogin_def User_GetOwnedObjects_def

lemmas role_ops_def = Role_Create_def Role_Get_def Role_Update_def Role_Delete_def Role_Exists_def

text \<open>
  The user and role operations stop at the first failed call, as the database operations do:
  nothing is called after a failure, a success means that no call failed, and the error returned
  holds the failed call's error in its chain.
\<close>

theorem account_ops_fail_stop:
  "fail_stop own_error (User_Create (traced_svc s) c uspec password) \<and>
   fail_stop own_error (User_Get (traced_svc s) c name) \<and>
   fail_stop own_error (User_Update (traced_svc s) c name uspec) \<and>
   fail_stop own_error (User_UpdatePassword (traced_svc s) c name password) \<and>
   fail_stop own_error (User_Delete (traced_svc s) c name) \<and>
   fail_stop own_error (User_Exists (traced_svc s) c name) \<and>
   fail_stop own_error (User_DisableLogin (traced_svc s) c name) \<and>
   fail_stop own_error (User_GetOwnedObjects (traced_svc s) c name) \<and>
   fail_stop own_error (Role_Create (traced_svc s) c rspec) \<and>
   fail_stop own_error (Role_Get (traced_svc s) c name) \<and>
   fail_stop own_error (Role_Update (traced_svc s) c name rspec) \<and>
   fail_stop own_error (Role_Delete (traced_svc s) c name) \<and>
   fail_stop own_error (Role_Exists (traced_svc s) c name)"
  unfolding user_ops_def role_ops_def Let_def traced_svc_simps traced_calls
  by (intro conjI fail_stop_intros fail_stop_option) simp_all

section \<open>Convergence of users and their passwords\<close>

text \<open>
  What the interface documents of the user calls, with \<open>creds\<close> the map from the existing users to
  their passwords. A failed call may or may not have had its effect.
\<close>

definition tracks_users :: "'w adapter \<Rightarrow> ('w \<Rightarrow> string \<Rightarrow> string option) \<Rightarrow> bool" where
  "tracks_users a creds \<longleftrightarrow>
     (\<forall>c n C. triple (\<lambda>w. creds w = C) (ad_UserExists a c n) (\<lambda>b w. creds w = C \<and> b = (n \<in> dom C)) (\<lambda>e w. creds w = C)) \<and>
     (\<forall>c o1 C. triple (\<lambda>w. creds w = C) (ad_CreateUser a c o1)
        (\<lambda>_ w. creds w = C(cuo_Username o1 \<mapsto> cuo_Password o1))
        (\<lambda>e w. creds w \<in> {C, C(cuo_Username o1 \<mapsto> cuo_Password o1)})) \<and>
     (\<forall>c n o1 C. triple (\<lambda>w. creds w = C) (ad_UpdateUser a c n o1) (\<lambda>_ w. creds w = C) (\<lambda>e w. creds w = C)) \<and>
     (\<forall>c n p C. triple (\<lambda>w. creds w = C) (ad_UpdatePassword a c n p) (\<lambda>_ w. creds w = C(n \<mapsto> p))
        (\<lambda>e w. creds w \<in> {C, C(n \<mapsto> p)})) \<and>
     (\<forall>c n C. triple (\<lambda>w. creds w = C) (ad_DropUser a c n) (\<lambda>_ w. creds w = C(n := None))
        (\<lambda>e w. creds w \<in> {C, C(n := None)}))"

lemma tracks_user_calls:
  assumes "tracks_users a creds"
  shows "triple (\<lambda>w. creds w = C) (ad_UserExists a c n) (\<lambda>b w. creds w = C \<and> b = (n \<in> dom C)) (\<lambda>e w. creds w = C)"
    and "triple (\<lambda>w. creds w = C) (ad_CreateUser a c o1) (\<lambda>_ w. creds w = C(cuo_Username o1 \<mapsto> cuo_Password o1))
        (\<lambda>e w. creds w \<in> {C, C(cuo_Username o1 \<mapsto> cuo_Password o1)})"
    and "triple (\<lambda>w. creds w = C) (ad_UpdateUser a c n o2) (\<lambda>_ w. creds w = C) (\<lambda>e w. creds w = C)"
    and "triple (\<lambda>w. creds w = C) (ad_UpdatePassword a c n p) (\<lambda>_ w. creds w = C(n \<mapsto> p)) (\<lambda>e w. creds w \<in> {C, C(n \<mapsto> p)})"
    and "triple (\<lambda>w. creds w = C) (ad_DropUser a c n) (\<lambda>_ w. creds w = C(n := None)) (\<lambda>e w. creds w \<in> {C, C(n := None)})"
  using assms unfolding tracks_users_def by simp_all

definition same_except :: "'k \<Rightarrow> ('k \<Rightarrow> 'v) \<Rightarrow> ('k \<Rightarrow> 'v) \<Rightarrow> bool" where
  "same_except n f g \<longleftrightarrow> (\<forall>x. x \<noteq> n \<longrightarrow> f x = g x)"

lemma user_create_converges:
  assumes t: "tracks_users (svc_adapter s) creds" and b: "svc_specBuilder s = GetSpecBuilder engine"
    and "us_Username spec \<noteq> ''''" and "pw \<noteq> ''''"
  shows "triple (\<lambda>w. creds w = C) (User_Create s c (Some spec) pw)
     (\<lambda>r w. creds w = C(us_Username spec \<mapsto> pw) \<and> Created r = (us_Username spec \<notin> dom C) \<and> Updated r = (us_Username spec \<in> dom C))
     (\<lambda>e w. same_except (us_Username spec) (creds w) C)"
proof -
  have opts: "cuo_Username (BuildUserCreateOptions (svc_specBuilder s) spec pw) = us_Username spec"
    "cuo_Password (BuildUserCreateOptions (svc_specBuilder s) spec pw) = pw"
    by (simp_all add: b any_builder.user_name any_builder.user_password)
  note calls = tracks_user_calls [OF t]
  note create = calls(2) [where ?o1.0 = "BuildUserCreateOptions (svc_specBuilder s) spec pw", unfolded opts]
  show ?thesis
    unfolding User_Create_def option.case Let_def
    by (intro triple_if triple_ctx triple_check [OF calls(1)] triple_pre triple_check [OF create]
        triple_check [OF calls(3)] triple_check [OF calls(4)] triple_ret triple_fail)
      (use assms(3,4) in \<open>auto simp: NewUpdatedResult_def NewCreatedResult_def same_except_def\<close>)
qed

lemma wrapError_not_found [simp]: "wrapError s c op' res e w \<noteq> ErrNotFound"
  by (simp add: wrapError_def NewTimeoutError_def NewDatabaseError_def)

lemma user_password_converges:
  assumes t: "tracks_users (svc_adapter s) creds"
  shows "triple (\<lambda>w. creds w = C) (User_UpdatePassword s c name pw)
     (\<lambda>r w. creds w = C(name \<mapsto> pw) \<and> name \<in> dom C \<and> pw \<noteq> '''')
     (\<lambda>e w. same_except name (creds w) C \<and> (e = ErrNotFound \<longrightarrow> name \<notin> dom C))"
proof -
  note calls = tracks_user_calls [OF t]
  show ?thesis
    unfolding User_UpdatePassword_def
    by (intro triple_if triple_ctx triple_check [OF calls(1)] triple_pre triple_check [OF calls(4)]
        triple_ret triple_fail)
      (auto simp: same_except_def required_def no_username_def)
qed

lemma user_delete_converges:
  assumes t: "tracks_users (svc_adapter s) creds" and "name \<noteq> ''''"
  shows "triple (\<lambda>w. creds w = C) (User_Delete s c name)
     (\<lambda>r w. creds w = C(name := None)) (\<lambda>e w. same_except name (creds w) C)"
proof -
  note calls = tracks_user_calls [OF t]
  show ?thesis
    unfolding User_Delete_def
    by (intro triple_if triple_ctx triple_check [OF calls(1)] triple_pre triple_check [OF calls(5)]
        triple_ret triple_fail)
      (use assms(2) in \<open>auto simp: same_except_def\<close>)
qed

text \<open>
  C19: users and their passwords converge. For every adapter whose user calls behave as documented,
  a successful create leaves the user with the given password, whether the user existed or not, and
  reports which; a password change succeeds only for an existing user; a successful delete leaves no
  such user; and no other user's password is ever touched, on success or on failure.
\<close>

theorem user_service_converges:
  assumes "tracks_users (svc_adapter s) creds" and "svc_specBuilder s = GetSpecBuilder engine"
    and "us_Username spec \<noteq> ''''" and "pw \<noteq> ''''"
  shows "triple (\<lambda>w. creds w = C) (User_Create s c (Some spec) pw)
       (\<lambda>r w. creds w = C(us_Username spec \<mapsto> pw) \<and> Created r = (us_Username spec \<notin> dom C) \<and> Updated r = (us_Username spec \<in> dom C))
       (\<lambda>e w. same_except (us_Username spec) (creds w) C) \<and>
     triple (\<lambda>w. creds w = C) (User_UpdatePassword s c (us_Username spec) pw)
       (\<lambda>r w. creds w = C(us_Username spec \<mapsto> pw) \<and> us_Username spec \<in> dom C \<and> pw \<noteq> '''')
       (\<lambda>e w. same_except (us_Username spec) (creds w) C \<and> (e = ErrNotFound \<longrightarrow> us_Username spec \<notin> dom C)) \<and>
     triple (\<lambda>w. creds w = C) (User_Delete s c (us_Username spec))
       (\<lambda>r w. creds w = C(us_Username spec := None)) (\<lambda>e w. same_except (us_Username spec) (creds w) C)"
  by (intro conjI user_create_converges [OF assms] user_password_converges [OF assms(1)]
      user_delete_converges [OF assms(1,3)])

lemma map_of_put: "map_of (map_put k v m) = (map_of m)(k \<mapsto> v)"
  by (induction m) (auto simp: fun_eq_iff)

lemma map_of_del: "map_of (del_key k m) = (map_of m)(k := None)"
  by (induction m) (auto simp: fun_eq_iff del_key_def)

lemma mem_tracks_users: "tracks_users mem_adapter (\<lambda>w. map_of (m_users w))"
  unfolding tracks_users_def triple_def
  by (auto simp: mem_defs map_of_put map_of_del has_key_def dom_map_of_conv_image_fst)

theorem user_service_converges_witness:
  "\<exists>r w. User_Create (mem_service ''mysql'') \<lparr>ctx_deadline = None\<rparr>
      (Some \<lparr>us_Username = ''app'', us_Roles = [], us_Postgres = None, us_MySQL = None\<rparr>) ''new''
      (mem_init\<lparr>m_users := [(''app'', ''old''), (''other'', ''x'')]\<rparr>) = (w, Inr r) \<and>
    map_of (m_users w) ''app'' = Some ''new'' \<and> Updated r"
proof -
  let ?spec = "\<lparr>us_Username = ''app'', us_Roles = [], us_Postgres = None, us_MySQL = None\<rparr>"
  let ?w0 = "mem_init\<lparr>m_users := [(''app'', ''old''), (''other'', ''x'')]\<rparr>"
  let ?run = "User_Create (mem_service ''mysql'') \<lparr>ctx_deadline = None\<rparr> (Some ?spec) ''new'' ?w0"
  have t: "tracks_users (svc_adapter (mem_service ''mysql'')) (\<lambda>w. map_of (m_users w))"
    using mem_tracks_users by simp
  have b: "svc_specBuilder (mem_service ''mysql'') = GetSpecBuilder ''mysql''"
    by (simp add: mem_service_def NewResourceServiceWithAdapter_def GetEngineType_def)
  have ok: "isl (snd ?run) = False" by code_simp
  then obtain r w where run: "?run = (w, Inr r)" by (cases ?run; cases "snd ?run") auto
  have "triple (\<lambda>w. map_of (m_users w) = map_of (m_users ?w0)) (User_Create (mem_service ''mysql'') \<lparr>ctx_deadline = None\<rparr> (Some ?spec) ''new'')
     (\<lambda>r w. map_of (m_users w) = (map_of (m_users ?w0))(''app'' \<mapsto> ''new'') \<and> Created r = (''app'' \<notin> dom (map_of (m_users ?w0))) \<and>
        Updated r = (''app'' \<in> dom (map_of (m_users ?w0))))
     (\<lambda>e w. same_except ''app'' (map_of (m_users w)) (map_of (m_users ?w0)))"
    using user_service_converges [OF t b, where spec = ?spec and pw = "''new''" and C = "map_of (m_users ?w0)" and
        c = "\<lparr>ctx_deadline = None\<rparr>", THEN conjunct1] by simp
  from triple_ok [OF this _ run] show ?thesis using run by auto
qed

section \<open>Convergence of roles\<close>

definition tracks_roles :: "'w adapter \<Rightarrow> ('w \<Rightarrow> string set) \<Rightarrow> bool" where
  "tracks_roles a rls \<longleftrightarrow>
     (\<forall>c n D. triple (\<lambda>w. rls w = D) (ad_RoleExists a c n) (\<lambda>b w. rls w = D \<and> b = (n \<in> D)) (\<lambda>e w. rls w = D)) \<and>
     (\<forall>c o1 D. triple (\<lambda>w. rls w = D) (ad_CreateRole a c o1) (\<lambda>_ w. rls w = insert (cro_RoleName o1) D)
        (\<lambda>e w. rls w \<in> {D, insert (cro_RoleName o1) D})) \<and>
     (\<forall>c n o1 D. triple (\<lambda>w. rls w = D) (ad_UpdateRole a c n o1) (\<lambda>_ w. rls w = D) (\<lambda>e w. rls w = D)) \<and>
     (\<forall>c n D. triple (\<lambda>w. rls w = D) (ad_DropRole a c n) (\<lambda>_ w. rls w = D - {n}) (\<lambda>e w. rls w \<in> {D, D - {n}}))"

lemma tracks_role_calls:
  assumes "tracks_roles a rls"
  shows "triple (\<lambda>w. rls w = D) (ad_RoleExists a c n) (\<lambda>b w. rls w = D \<and> b = (n \<in> D)) (\<lambda>e w. rls w = D)"
    and "triple (\<lambda>w. rls w = D) (ad_CreateRole a c o1) (\<lambda>_ w. rls w = insert (cro_RoleName o1) D)
        (\<lambda>e w. rls w \<in> {D, insert (cro_RoleName o1) D})"
    and "triple (\<lambda>w. rls w = D) (ad_UpdateRole a c n o2) (\<lambda>_ w. rls w = D) (\<lambda>e w. rls w = D)"
    and "triple (\<lambda>w. rls w = D) (ad_DropRole a c n) (\<lambda>_ w. rls w = D - {n}) (\<lambda>e w. rls w \<in> {D, D - {n}})"
  using assms unfolding tracks_roles_def by simp_all

lemma role_create_converges:
  assumes t: "tracks_roles (svc_adapter s) rls" and b: "svc_specBuilder s = GetSpecBuilder engine"
    and "rs_RoleName spec \<noteq> ''''"
  shows "triple (\<lambda>w. rls w = D) (Role_Create s c (Some spec))
     (\<lambda>r w. rls w = insert (rs_RoleName spec) D \<and> Created r = (rs_RoleName spec \<notin> D) \<and> Updated r = (rs_RoleName spec \<in> D))
     (\<lambda>e w. rls w - {rs_RoleName spec} = D - {rs_RoleName spec})"
proof -
  have opts: "cro_RoleName (BuildRoleCreateOptions (svc_specBuilder s) spec) = rs_RoleName spec"
    by (simp add: b any_builder.role_name)
  note calls = tracks_role_calls [OF t]
  note create = calls(2) [where ?o1.0 = "BuildRoleCreateOptions (svc_specBuilder s) spec", unfolded opts]
  show ?thesis
    unfolding Role_Create_def option.case Let_def
    by (intro triple_if triple_ctx triple_check [OF calls(1)] triple_pre triple_check [OF create]
        triple_check [OF calls(3)] triple_ret triple_fail)
      (use assms(3) in \<open>auto simp: NewUpdatedResult_def NewCreatedResult_def\<close>)
qed

lemma role_delete_converges:
  assumes t: "tracks_roles (svc_adapter s) rls" and "name \<noteq> ''''"
  shows "triple (\<lambda>w. rls w = D) (Role_Delete s c name)
     (\<lambda>r w. rls w = D - {name}) (\<lambda>e w. rls w - {name} = D - {name})"
proof -
  note calls = tracks_role_calls [OF t]
  show ?thesis
    unfolding Role_Delete_def
    by (intro triple_if triple_ctx triple_check [OF calls(1)] triple_pre triple_check [OF calls(4)]
        triple_ret triple_fail)
      (use assms(2) in auto)
qed

text \<open>
  Roles converge. For every adapter whose role calls behave as documented, a successful create
  leaves the role in place and says whether it was created or updated, a successful delete leaves it
  absent, and no other role appears or disappears.
\<close>

theorem role_service_converges:
  assumes "tracks_roles (svc_adapter s) rls" and "svc_specBuilder s = GetSpecBuilder engine"
    and "rs_RoleName spec \<noteq> ''''"
  shows "triple (\<lambda>w. rls w = D) (Role_Create s c (Some spec))
       (\<lambda>r w. rls w = insert (rs_RoleName spec) D \<and> Created r = (rs_RoleName spec \<notin> D) \<and> Updated r = (rs_RoleName spec \<in> D))
       (\<lambda>e w. rls w - {rs_RoleName spec} = D - {rs_RoleName spec}) \<and>
     triple (\<lambda>w. rls w = D) (Role_Delete s c (rs_RoleName spec))
       (\<lambda>r w. rls w = D - {rs_RoleName spec}) (\<lambda>e w. rls w - {rs_RoleName spec} = D - {rs_RoleName spec})"
  by (intro conjI role_create_converges [OF assms] role_delete_converges [OF assms(1,3)])

lemma mem_tracks_roles: "tracks_roles mem_adapter (\<lambda>w. set (m_roles w))"
  unfolding tracks_roles_def triple_def by (auto simp: mem_defs)

theorem role_service_converges_witness:
  "\<exists>r w. Role_Create (mem_service ''clickhouse'') \<lparr>ctx_deadline = None\<rparr>
      (Some \<lparr>rs_RoleName = ''ops'', rs_Postgres = None, rs_MySQL = None\<rparr>)
      (mem_init\<lparr>m_roles := [''dev'']\<rparr>) = (w, Inr r) \<and> set (m_roles w) = {''ops'', ''dev''} \<and> Created r"
proof -
  let ?spec = "\<lparr>rs_RoleName = ''ops'', rs_Postgres = None, rs_MySQL = None\<rparr>"
  let ?run = "Role_Create (mem_service ''clickhouse'') \<lparr>ctx_deadline = None\<rparr> (Some ?spec) (mem_init\<lparr>m_roles := [''dev'']\<rparr>)"
  have t: "tracks_roles (svc_adapter (mem_service ''clickhouse'')) (\<lambda>w. set (m_roles w))"
    using mem_tracks_roles by simp
  have b: "svc_specBuilder (mem_service ''clickhouse'') = GetSpecBuilder ''clickhouse''"
    by (simp add: mem_service_def NewResourceServiceWithAdapter_def GetEngineType_def empty_Config_def)
  have ok: "isl (snd ?run) = False" by code_simp
  then obtain r w where run: "?run = (w, Inr r)" by (cases ?run; cases "snd ?run") auto
  have "triple (\<lambda>w. set (m_roles w) = {''dev''}) (Role_Create (mem_service ''clickhouse'') \<lparr>ctx_deadline = None\<rparr> (Some ?spec))
     (\<lambda>r w. set (m_roles w) = insert ''ops'' {''dev''} \<and> Created r = (''ops'' \<notin> {''dev''}) \<and> Updated r = (''ops'' \<in> {''dev''}))
     (\<lambda>e w. set (m_roles w) - {''ops''} = {''dev''} - {''ops''})"
    using role_service_converges [OF t b, where spec = ?spec and D = "{''dev''}" and c = "\<lparr>ctx_deadline = None\<rparr>", THEN conjunct1]
    by simp
  from triple_ok [OF this _ run] show ?thesis using run by auto
qed

end
