(* ===== verification/Grant_Service.thy ===== *)
theory Grant_Service
  imports Account_Service
begin

text \<open>
  The grant service and its engine strategies: \<^verbatim>\<open>internal/service/grant.go\<close> and
  \<^verbatim>\<open>internal/service/grant_strategy*.go\<close>. The strategy interface is a record of two methods;
  its contract is the locale \<open>grant_strategy\<close>: which calls apply and revoke make, that a
  failure stops them, what they report, and that revoke undoes the role and privilege grants of apply.
\<close>

record GrantResult =
  AppliedRoles :: "string list"
  AppliedDirectGrants :: int
  AppliedDefaultPrivileges :: int

definition empty_GrantResult :: GrantResult where
  "empty_GrantResult = \<lparr>AppliedRoles = [], AppliedDirectGrants = 0, AppliedDefaultPrivileges = 0\<rparr>"

record 'w grantStrategy =
  gst_apply :: "ctx \<Rightarrow> string \<Rightarrow> DatabaseGrantSpec \<Rightarrow> ('w, GrantResult) op"
  gst_revoke :: "ctx \<Rightarrow> string \<Rightarrow> DatabaseGrantSpec \<Rightarrow> ('w, int) op"

section \<open>Strategies\<close>

text \<open>A guarded call: \<^verbatim>\<open>if cond { if err := call(); err != nil { return wrap(err) } }\<close>.\<close>

definition when_call :: "bool \<Rightarrow> ('w, unit) op \<Rightarrow> (go_error \<Rightarrow> 'w \<Rightarrow> go_error) \<Rightarrow> ('w, 'b) op \<Rightarrow> ('w, 'b) op" where
  "when_call cond m wrap k = (if cond then check m wrap (\<lambda>_. k) else k)"

definition buildPostgresGrantOptions :: "PostgresGrant list \<Rightarrow> GrantOptions list" where
  "buildPostgresGrantOptions grants = map (\<lambda>g. empty_GrantOptions\<lparr>go_Database := pg_Database g, go_Schema := pg_Schema g,
     go_Tables := pg_Tables g, go_Sequences := pg_Sequences g, go_Functions := pg_Functions g,
     go_Privileges := pg_Privileges g, go_WithGrantOption := pg_WithGrantOption g\<rparr>) grants"

definition buildDefaultPrivilegeOptions :: "PostgresDefaultPrivilegeGrant list \<Rightarrow> DefaultPrivilegeGrantOptions list" where
  "buildDefaultPrivilegeOptions defPrivs = map (\<lambda>d. \<lparr>dpg_Database = pdg_Database d, dpg_Schema = pdg_Schema d,
     dpg_GrantedBy = pdg_GrantedBy d, dpg_ObjectType = pdg_ObjectType d, dpg_Privileges = pdg_Privileges d\<rparr>) defPrivs"

definition pg_strategy_apply :: "'w ResourceService \<Rightarrow> ctx \<Rightarrow> string \<Rightarrow> DatabaseGrantSpec \<Rightarrow> ('w, GrantResult) op" where
  "pg_strategy_apply s c username spec =
     (case gs_Postgres spec of
        None \<Rightarrow> ret empty_GrantResult
      | Some p \<Rightarrow>
          (let a = svc_adapter s
           in when_call (pgc_Roles p \<noteq> []) (ad_GrantRole a c username (pgc_Roles p)) (wrapError s c ''grant roles'' username)
             (when_call (pgc_Grants p \<noteq> []) (ad_Grant a c username (buildPostgresGrantOptions (pgc_Grants p)))
                (wrapError s c ''apply grants'' username)
             (when_call (pgc_DefaultPrivileges p \<noteq> [])
                (ad_SetDefaultPrivileges a c username (buildDefaultPrivilegeOptions (pgc_DefaultPrivileges p)))
                (wrapError s c ''set default privileges'' username)
             (ret \<lparr>AppliedRoles = pgc_Roles p, AppliedDirectGrants = int (length (pgc_Grants p)),
                   AppliedDefaultPrivileges = int (length (pgc_DefaultPrivileges p))\<rparr>)))))"

definition pg_strategy_revoke :: "'w ResourceService \<Rightarrow> ctx \<Rightarrow> string \<Rightarrow> DatabaseGrantSpec \<Rightarrow> ('w, int) op" where
  "pg_strategy_revoke s c username spec =
     (case gs_Postgres spec of
        None \<Rightarrow> ret 0
      | Some p \<Rightarrow>
          (let a = svc_adapter s
           in when_call (pgc_Roles p \<noteq> []) (ad_RevokeRole a c username (pgc_Roles p)) (wrapError s c ''revoke roles'' username)
             (when_call (pgc_Grants p \<noteq> []) (ad_Revoke a c username (buildPostgresGrantOptions (pgc_Grants p)))
                (wrapError s c ''revoke grants'' username)
             (ret (int (length (pgc_Roles p)) + int (length (pgc_Grants p)))))))"

definition buildMySQLGrantOptions :: "MySQLGrant list \<Rightarrow> GrantOptions list" where
  "buildMySQLGrantOptions grants = map (\<lambda>g. empty_GrantOptions\<lparr>go_Level := mg_Level g, go_Database := mg_Database g,
     go_Table := mg_Table g, go_Columns := mg_Columns g, go_Procedure := mg_Procedure g,
     go_Function := mg_Function g, go_Privileges := mg_Privileges g, go_WithGrantOption := mg_WithGrantOption g\<rparr>) grants"

definition mysql_strategy_apply :: "'w ResourceService \<Rightarrow> ctx \<Rightarrow> string \<Rightarrow> DatabaseGrantSpec \<Rightarrow> ('w, GrantResult) op" where
  "mysql_strategy_apply s c username spec =
     (case gs_MySQL spec of
        None \<Rightarrow> ret empty_GrantResult
      | Some m \<Rightarrow>
          (let a = svc_adapter s
           in when_call (mgc_Roles m \<noteq> []) (ad_GrantRole a c username (mgc_Roles m)) (wrapError s c ''grant roles'' username)
             (when_call (mgc_Grants m \<noteq> []) (ad_Grant a c username (buildMySQLGrantOptions (mgc_Grants m)))
                (wrapError s c ''apply grants'' username)
             (ret \<lparr>AppliedRoles = mgc_Roles m, AppliedDirectGrants = int (length (mgc_Grants m)),
                   AppliedDefaultPrivileges = 0\<rparr>))))"

definition mysql_strategy_revoke :: "'w ResourceService \<Rightarrow> ctx \<Rightarrow> string \<Rightarrow> DatabaseGrantSpec \<Rightarrow> ('w, int) op" where
  "mysql_strategy_revoke s c username spec =
     (case gs_MySQL spec of
        None \<Rightarrow> ret 0
      | Some m \<Rightarrow>
          (let a = svc_adapter s
           in when_call (mgc_Roles m \<noteq> []) (ad_RevokeRole a c username (mgc_Roles m)) (wrapError s c ''revoke roles'' username)
             (when_call (mgc_Grants m \<noteq> []) (ad_Revoke a c username (buildMySQLGrantOptions (mgc_Grants m)))
                (wrapError s c ''revoke grants'' username)
             (ret (int (length (mgc_Roles m)) + int (length (mgc_Grants m)))))))"

definition buildClickHouseGrantOptions :: "ClickHouseGrant list \<Rightarrow> GrantOptions list" where
  "buildClickHouseGrantOptions grants = map (\<lambda>g. empty_GrantOptions\<lparr>go_Level := cg_Level g, go_Database := cg_Database g,
     go_Table := cg_Table g, go_Privileges := cg_Privileges g, go_WithGrantOption := cg_WithGrantOption g\<rparr>) grants"

definition clickhouse_strategy_apply :: "'w ResourceService \<Rightarrow> ctx \<Rightarrow> string \<Rightarrow> DatabaseGrantSpec \<Rightarrow> ('w, GrantResult) op" where
  "clickhouse_strategy_apply s c username spec =
     (case gs_ClickHouse spec of
        None \<Rightarrow> ret empty_GrantResult
      | Some h \<Rightarrow>
          (let a = svc_adapter s
           in when_call (cgc_Roles h \<noteq> []) (ad_GrantRole a c username (cgc_Roles h)) (wrapError s c ''grant roles'' username)
             (when_call (cgc_Grants h \<noteq> []) (ad_Grant a c username (buildClickHouseGrantOptions (cgc_Grants h)))
                (wrapError s c ''apply grants'' username)
             (ret \<lparr>AppliedRoles = cgc_Roles h, AppliedDirectGrants = int (length (cgc_Grants h)),
                   AppliedDefaultPrivileges = 0\<rparr>))))"

definition clickhouse_strategy_revoke :: "'w ResourceService \<Rightarrow> ctx \<Rightarrow> string \<Rightarrow> DatabaseGrantSpec \<Rightarrow> ('w, int) op" where
  "clickhouse_strategy_revoke s c username spec =
     (case gs_ClickHouse spec of
        None \<Rightarrow> ret 0
      | Some h \<Rightarrow>
          (let a = svc_adapter s
           in when_call (cgc_Roles h \<noteq> []) (ad_RevokeRole a c username (cgc_Roles h)) (wrapError s c ''revoke roles'' username)
             (when_call (cgc_Grants h \<noteq> []) (ad_Revoke a c username (buildClickHouseGrantOptions (cgc_Grants h)))
                (wrapError s c ''revoke grants'' username)
             (ret (int (length (cgc_Roles h)) + int (length (cgc_Grants h)))))))"

definition strategyFor :: "'w ResourceService \<Rightarrow> EngineType \<Rightarrow> go_error + 'w grantStrategy" where
  "strategyFor s engine =
     (if engine = EngineTypePostgres \<or> engine = EngineTypeCockroachDB
      then Inr \<lparr>gst_apply = pg_strategy_apply s, gst_revoke = pg_strategy_revoke s\<rparr>
      else if engine = EngineTypeMySQL \<or> engine = EngineTypeMariaDB
      then Inr \<lparr>gst_apply = mysql_strategy_apply s, gst_revoke = mysql_strategy_revoke s\<rparr>
      else if engine = EngineTypeClickHouse
      then Inr \<lparr>gst_apply = clickhouse_strategy_apply s, gst_revoke = clickhouse_strategy_revoke s\<rparr>
      else Inl (OtherError (''unsupported engine for grants: '' @ engine) None))"

section \<open>Operations\<close>

definition Grant_Apply :: "'w ResourceService \<Rightarrow> ctx \<Rightarrow> string \<Rightarrow> DatabaseGrantSpec option \<Rightarrow> ('w, GrantResult) op" where
  "Grant_Apply s c0 username spec0 =
     (if username = '''' then fail no_username
      else case spec0 of
        None \<Rightarrow> fail (required ''spec'' ''spec is required'')
      | Some spec \<Rightarrow> with_ctx (op_ctx s c0) (\<lambda>c.
          case strategyFor s (GetEngineType (svc_config s)) of
            Inl e \<Rightarrow> fail e
          | Inr st \<Rightarrow> gst_apply st c username spec))"

definition Grant_Revoke :: "'w ResourceService \<Rightarrow> ctx \<Rightarrow> string \<Rightarrow> DatabaseGrantSpec option \<Rightarrow> ('w, Result) op" where
  "Grant_Revoke s c0 username spec0 =
     (if username = '''' then fail no_username
      else case spec0 of
        None \<Rightarrow> fail (required ''spec'' ''spec is required'')
      | Some spec \<Rightarrow> with_ctx (op_ctx s c0) (\<lambda>c.
          case strategyFor s (GetEngineType (svc_config s)) of
            Inl e \<Rightarrow> fail e
          | Inr st \<Rightarrow> check (gst_revoke st c username spec) as_is (\<lambda>n.
              ret (NewSuccessResult (''Revoked '' @ FormatInt n @ '' grants from user '' @ quoted username)))))"

definition GrantRoles :: "'w ResourceService \<Rightarrow> ctx \<Rightarrow> string \<Rightarrow> string list \<Rightarrow> ('w, Result) op" where
  "GrantRoles s c0 username roles =
     (if username = '''' then fail no_username
      else if roles = [] then fail (required ''roles'' ''at least one role is required'')
      else with_ctx (op_ctx s c0) (\<lambda>c.
        check (ad_GrantRole (svc_adapter s) c username roles) (wrapError s c ''grant roles'' username) (\<lambda>_.
        ret (NewSuccessResult (''Granted '' @ FormatInt (int (length roles)) @ '' roles to user '' @ quoted username)))))"

definition RevokeRoles :: "'w ResourceService \<Rightarrow> ctx \<Rightarrow> string \<Rightarrow> string list \<Rightarrow> ('w, Result) op" where
  "RevokeRoles s c0 username roles =
     (if username = '''' then fail no_username
      else if roles = [] then fail (required ''roles'' ''at least one role is required'')
      else with_ctx (op_ctx s c0) (\<lambda>c.
        check (ad_RevokeRole (svc_adapter s) c username roles) (wrapError s c ''revoke roles'' username) (\<lambda>_.
        ret (NewSuccessResult (''Revoked '' @ FormatInt (int (length roles)) @ '' roles from user '' @ quoted username)))))"

definition GetGrants :: "'w ResourceService \<Rightarrow> ctx \<Rightarrow> string \<Rightarrow> ('w, GrantInfo list) op" where
  "GetGrants s c0 grantee =
     (if grantee = '''' then fail (required ''grantee'' ''grantee is required'')
      else with_ctx (query_ctx s c0) (\<lambda>c.
        check (ad_GetGrants (svc_adapter s) c grantee) (wrapError s c ''get grants'' grantee) ret))"

section \<open>The contract of a strategy\<close>

text \<open>
  \<open>runs cs m x\<close>: the recorded operation \<open>m\<close> makes the calls \<open>cs\<close> in order; if all succeed it returns
  \<open>x\<close>, and otherwise it stops at the first failed one with an error that holds its cause.
\<close>

definition runs :: "adapter_call list \<Rightarrow> ('w \<times> trace, 'a) op \<Rightarrow> 'a \<Rightarrow> bool" where
  "runs cs m x \<longleftrightarrow>
     (\<forall>w t. case m (w, t) of
        ((w', t'), Inr y) \<Rightarrow> y = x \<and> t' = t @ map (\<lambda>c. (c, Done)) cs
      | ((w', t'), Inl e) \<Rightarrow> \<exists>i < length cs. \<exists>e0 \<in> set (chain e).
          t' = t @ map (\<lambda>c. (c, Done)) (take i cs) @ [(cs ! i, Failed e0)])"

lemma runs_ok: "runs cs m x \<Longrightarrow> m (w, t) = ((w', t'), Inr y) \<Longrightarrow> y = x \<and> t' = t @ map (\<lambda>c. (c, Done)) cs"
  unfolding runs_def by (drule spec [where x = w], drule spec [where x = t]) simp

lemma runs_err: "runs cs m x \<Longrightarrow> m (w, t) = ((w', t'), Inl e) \<Longrightarrow>
    \<exists>i < length cs. \<exists>e0 \<in> set (chain e). t' = t @ map (\<lambda>c. (c, Done)) (take i cs) @ [(cs ! i, Failed e0)]"
  unfolding runs_def by (drule spec [where x = w], drule spec [where x = t]) simp

lemma runs_ret: "runs [] (ret x) x"
  by (simp add: runs_def)

lemma chain_self: "e \<in> set (chain e)"
  by (subst chain.simps) simp

lemma runs_check:
  assumes "keeps_cause wrap" and "runs cs k x"
  shows "runs (call # cs) (check (log_u call m) wrap (\<lambda>_. k)) x"
  unfolding runs_def
proof (intro allI)
  fix w t
  obtain w1 r where m: "m w = (w1, r)" by (rule prod.exhaust)
  show "case check (log_u call m) wrap (\<lambda>_. k) (w, t) of
      ((w', t'), Inr y) \<Rightarrow> y = x \<and> t' = t @ map (\<lambda>c. (c, Done)) (call # cs)
    | ((w', t'), Inl e) \<Rightarrow> \<exists>i < length (call # cs). \<exists>e0 \<in> set (chain e).
        t' = t @ map (\<lambda>c. (c, Done)) (take i (call # cs)) @ [((call # cs) ! i, Failed e0)]"
  proof (cases r)
    case (Inl e)
    have "e \<in> set (chain (wrap e (w1, t @ [(call, Failed e)])))"
      using assms(1) chain_self unfolding keeps_cause_def by blast
    with m Inl show ?thesis by (auto simp: check_def log_op_eq)
  next
    case (Inr y)
    obtain w2 t2 r2 where k: "k (w1, t @ [(call, Done)]) = ((w2, t2), r2)" by (metis prod.exhaust)
    have "case k (w1, t @ [(call, Done)]) of
        ((w', t'), Inr y) \<Rightarrow> y = x \<and> t' = (t @ [(call, Done)]) @ map (\<lambda>c. (c, Done)) cs
      | ((w', t'), Inl e) \<Rightarrow> \<exists>i < length cs. \<exists>e0 \<in> set (chain e).
          t' = (t @ [(call, Done)]) @ map (\<lambda>c. (c, Done)) (take i cs) @ [(cs ! i, Failed e0)]"
      by (rule assms(2) [unfolded runs_def, THEN spec, THEN spec])
    with k m Inr show ?thesis
      by (cases r2) (auto simp: check_def log_op_eq intro: exI [where x = "Suc _"])
  qed
qed

text \<open>What undoes a granting call; default privileges have no undoing call.\<close>

fun undo_call :: "adapter_call \<Rightarrow> adapter_call option" where
  "undo_call (CallGrantRole u rs) = Some (CallRevokeRole u rs)"
| "undo_call (CallGrant u gs) = Some (CallRevoke u gs)"
| "undo_call _ = None"

locale grant_strategy =
  fixes apply_grants :: "ctx \<Rightarrow> string \<Rightarrow> DatabaseGrantSpec \<Rightarrow> ('w \<times> trace, GrantResult) op"
    and revoke_grants :: "ctx \<Rightarrow> string \<Rightarrow> DatabaseGrantSpec \<Rightarrow> ('w \<times> trace, int) op"
    and grant_calls :: "string \<Rightarrow> DatabaseGrantSpec \<Rightarrow> adapter_call list"
    and outcome_of :: "DatabaseGrantSpec \<Rightarrow> GrantResult"
  assumes applies: "runs (grant_calls u spec) (apply_grants c u spec) (outcome_of spec)"
    and revokes: "runs (List.map_filter undo_call (grant_calls u spec)) (revoke_grants c u spec)
          (int (length (AppliedRoles (outcome_of spec))) + AppliedDirectGrants (outcome_of spec))"
begin

lemma applied_all:
  assumes "apply_grants c u spec (w, t) = ((w', t'), Inr r)"
  shows "t' = t @ map (\<lambda>c. (c, Done)) (grant_calls u spec)" and "r = outcome_of spec"
  using runs_ok [OF applies assms] by simp_all

lemma revoke_after_apply:
  assumes "apply_grants c u spec (w, t) = ((w1, t1), Inr r)"
    and "revoke_grants c' u spec (w1, t1) = ((w2, t2), Inr n)"
  shows "t2 = t @ map (\<lambda>c. (c, Done)) (grant_calls u spec @ List.map_filter undo_call (grant_calls u spec))"
    and "n = int (length (AppliedRoles r)) + AppliedDirectGrants r"
  using runs_ok [OF revokes assms(2)] applied_all [OF assms(1)] by simp_all

end

section \<open>The three strategies meet the contract\<close>

definition calls_of :: "string \<Rightarrow> string list \<Rightarrow> GrantOptions list \<Rightarrow> DefaultPrivilegeGrantOptions list \<Rightarrow> adapter_call list" where
  "calls_of u roles grants defaults =
     (if roles \<noteq> [] then [CallGrantRole u roles] else []) @
     (if grants \<noteq> [] then [CallGrant u grants] else []) @
     (if defaults \<noteq> [] then [CallSetDefaultPrivileges u defaults] else [])"

definition pg_grant_calls :: "string \<Rightarrow> DatabaseGrantSpec \<Rightarrow> adapter_call list" where
  "pg_grant_calls u spec = (case gs_Postgres spec of None \<Rightarrow> []
     | Some p \<Rightarrow> calls_of u (pgc_Roles p) (buildPostgresGrantOptions (pgc_Grants p))
                   (buildDefaultPrivilegeOptions (pgc_DefaultPrivileges p)))"

definition mysql_grant_calls :: "string \<Rightarrow> DatabaseGrantSpec \<Rightarrow> adapter_call list" where
  "mysql_grant_calls u spec = (case gs_MySQL spec of None \<Rightarrow> []
     | Some m \<Rightarrow> calls_of u (mgc_Roles m) (buildMySQLGrantOptions (mgc_Grants m)) [])"

definition clickhouse_grant_calls :: "string \<Rightarrow> DatabaseGrantSpec \<Rightarrow> adapter_call list" where
  "clickhouse_grant_calls u spec = (case gs_ClickHouse spec of None \<Rightarrow> []
     | Some h \<Rightarrow> calls_of u (cgc_Roles h) (buildClickHouseGrantOptions (cgc_Grants h)) [])"

definition pg_outcome :: "DatabaseGrantSpec \<Rightarrow> GrantResult" where
  "pg_outcome spec = (case gs_Postgres spec of None \<Rightarrow> empty_GrantResult
     | Some p \<Rightarrow> \<lparr>AppliedRoles = pgc_Roles p, AppliedDirectGrants = int (length (pgc_Grants p)),
                  AppliedDefaultPrivileges = int (length (pgc_DefaultPrivileges p))\<rparr>)"

definition mysql_outcome :: "DatabaseGrantSpec \<Rightarrow> GrantResult" where
  "mysql_outcome spec = (case gs_MySQL spec of None \<Rightarrow> empty_GrantResult
     | Some m \<Rightarrow> \<lparr>AppliedRoles = mgc_Roles m, AppliedDirectGrants = int (length (mgc_Grants m)),
                  AppliedDefaultPrivileges = 0\<rparr>)"

definition clickhouse_outcome :: "DatabaseGrantSpec \<Rightarrow> GrantResult" where
  "clickhouse_outcome spec = (case gs_ClickHouse spec of None \<Rightarrow> empty_GrantResult
     | Some h \<Rightarrow> \<lparr>AppliedRoles = cgc_Roles h, AppliedDirectGrants = int (length (cgc_Grants h)),
                  AppliedDefaultPrivileges = 0\<rparr>)"

lemma map_filter_undo [simp]:
  "List.map_filter undo_call (calls_of u roles grants defaults) =
     (if roles \<noteq> [] then [CallRevokeRole u roles] else []) @ (if grants \<noteq> [] then [CallRevoke u grants] else [])"
  by (simp add: calls_of_def map_filter_simps)

lemma build_nonempty [simp]:
  "buildPostgresGrantOptions gs = [] \<longleftrightarrow> gs = []" "buildMySQLGrantOptions ms = [] \<longleftrightarrow> ms = []"
  "buildClickHouseGrantOptions hs = [] \<longleftrightarrow> hs = []" "buildDefaultPrivilegeOptions ds = [] \<longleftrightarrow> ds = []"
  by (simp_all add: buildPostgresGrantOptions_def buildMySQLGrantOptions_def buildClickHouseGrantOptions_def
      buildDefaultPrivilegeOptions_def)

lemmas runs_intros = runs_ret runs_check keeps_cause_wrapError

interpretation pg_strategy: grant_strategy "pg_strategy_apply (traced_svc s)" "pg_strategy_revoke (traced_svc s)"
  pg_grant_calls pg_outcome for s
proof unfold_locales
  fix u spec c
  show "runs (pg_grant_calls u spec) (pg_strategy_apply (traced_svc s) c u spec) (pg_outcome spec)"
    unfolding pg_strategy_apply_def pg_grant_calls_def pg_outcome_def calls_of_def Let_def traced_svc_simps traced_calls
    by (cases "gs_Postgres spec") (auto simp: when_call_def intro!: runs_intros)
  show "runs (List.map_filter undo_call (pg_grant_calls u spec)) (pg_strategy_revoke (traced_svc s) c u spec)
      (int (length (AppliedRoles (pg_outcome spec))) + AppliedDirectGrants (pg_outcome spec))"
    unfolding pg_strategy_revoke_def pg_grant_calls_def pg_outcome_def Let_def traced_svc_simps traced_calls
    by (cases "gs_Postgres spec") (auto simp: when_call_def map_filter_simps empty_GrantResult_def intro!: runs_intros)
qed

interpretation mysql_strategy: grant_strategy "mysql_strategy_apply (traced_svc s)" "mysql_strategy_revoke (traced_svc s)"
  mysql_grant_calls mysql_outcome for s
proof unfold_locales
  fix u spec c
  show "runs (mysql_grant_calls u spec) (mysql_strategy_apply (traced_svc s) c u spec) (mysql_outcome spec)"
    unfolding mysql_strategy_apply_def mysql_grant_calls_def mysql_outcome_def calls_of_def Let_def traced_svc_simps traced_calls
    by (cases "gs_MySQL spec") (auto simp: when_call_def intro!: runs_intros)
  show "runs (List.map_filter undo_call (mysql_grant_calls u spec)) (mysql_strategy_revoke (traced_svc s) c u spec)
      (int (length (AppliedRoles (mysql_outcome spec))) + AppliedDirectGrants (mysql_outcome spec))"
    unfolding mysql_strategy_revoke_def mysql_grant_calls_def mysql_outcome_def Let_def traced_svc_simps traced_calls
    by (cases "gs_MySQL spec") (auto simp: when_call_def map_filter_simps empty_GrantResult_def intro!: runs_intros)
qed

interpretation clickhouse_strategy: grant_strategy "clickhouse_strategy_apply (traced_svc s)"
  "clickhouse_strategy_revoke (traced_svc s)" clickhouse_grant_calls clickhouse_outcome for s
proof unfold_locales
  fix u spec c
  show "runs (clickhouse_grant_calls u spec) (clickhouse_strategy_apply (traced_svc s) c u spec) (clickhouse_outcome spec)"
    unfolding clickhouse_strategy_apply_def clickhouse_grant_calls_def clickhouse_outcome_def calls_of_def Let_def
      traced_svc_simps traced_calls
    by (cases "gs_ClickHouse spec") (auto simp: when_call_def intro!: runs_intros)
  show "runs (List.map_filter undo_call (clickhouse_grant_calls u spec)) (clickhouse_strategy_revoke (traced_svc s) c u spec)
      (int (length (AppliedRoles (clickhouse_outcome spec))) + AppliedDirectGrants (clickhouse_outcome spec))"
    unfolding clickhouse_strategy_revoke_def clickhouse_grant_calls_def clickhouse_outcome_def Let_def
      traced_svc_simps traced_calls
    by (cases "gs_ClickHouse spec") (auto simp: when_call_def map_filter_simps empty_GrantResult_def intro!: runs_intros)
qed

section \<open>Apply and revoke\<close>

lemma runs_ctx: "(\<And>c. runs cs (m c) x) \<Longrightarrow> runs cs (with_ctx g m) x"
  by (simp add: runs_def with_ctx_def)

lemma runs_map:
  assumes "runs cs m x"
  shows "runs cs (check m as_is (\<lambda>n. ret (f n))) (f x)"
  unfolding runs_def
proof (intro allI)
  fix w t
  obtain w' t' r where m: "m (w, t) = ((w', t'), r)" by (metis prod.exhaust)
  show "case check m as_is (\<lambda>n. ret (f n)) (w, t) of
      ((w', t'), Inr y) \<Rightarrow> y = f x \<and> t' = t @ map (\<lambda>c. (c, Done)) cs
    | ((w', t'), Inl e) \<Rightarrow> \<exists>i < length cs. \<exists>e0 \<in> set (chain e).
        t' = t @ map (\<lambda>c. (c, Done)) (take i cs) @ [(cs ! i, Failed e0)]"
    using m runs_ok [OF assms, of w t] runs_err [OF assms, of w t] by (cases r) (auto simp: check_def)
qed

definition engine_grant_calls :: "EngineType \<Rightarrow> string \<Rightarrow> DatabaseGrantSpec \<Rightarrow> adapter_call list" where
  "engine_grant_calls engine =
     (if engine \<in> {EngineTypePostgres, EngineTypeCockroachDB} then pg_grant_calls
      else if engine \<in> {EngineTypeMySQL, EngineTypeMariaDB} then mysql_grant_calls
      else clickhouse_grant_calls)"

definition engine_outcome :: "EngineType \<Rightarrow> DatabaseGrantSpec \<Rightarrow> GrantResult" where
  "engine_outcome engine =
     (if engine \<in> {EngineTypePostgres, EngineTypeCockroachDB} then pg_outcome
      else if engine \<in> {EngineTypeMySQL, EngineTypeMariaDB} then mysql_outcome
      else clickhouse_outcome)"

abbreviation grant_engines :: "EngineType set" where
  "grant_engines \<equiv> {EngineTypePostgres, EngineTypeCockroachDB, EngineTypeMySQL, EngineTypeMariaDB, EngineTypeClickHouse}"

text \<open>
  C17: Applying and revoking grants. For each of the five engines and any adapter, \<^verbatim>\<open>Apply\<close>
  makes the role grant, the privilege grant and (PostgreSQL and CockroachDB) the default privilege
  call of the spec, in that order, each only when there is something to grant, stops at the first
  failure, and reports the roles and the numbers of grants; \<^verbatim>\<open>Revoke\<close> makes exactly the calls that
  undo the role and privilege grants, in the same order, and reports their number. The default
  privileges that \<^verbatim>\<open>Apply\<close> set have no undoing call and stay.
\<close>

theorem grant_apply_revoke:
  assumes "u \<noteq> ''''" and "GetEngineType (svc_config s) = engine" and "engine \<in> grant_engines"
  shows "runs (engine_grant_calls engine u spec) (Grant_Apply (traced_svc s) c u (Some spec)) (engine_outcome engine spec) \<and>
    runs (List.map_filter undo_call (engine_grant_calls engine u spec)) (Grant_Revoke (traced_svc s) c u (Some spec))
      (NewSuccessResult (''Revoked '' @
         FormatInt (int (length (AppliedRoles (engine_outcome engine spec))) + AppliedDirectGrants (engine_outcome engine spec)) @
         '' grants from user '' @ quoted u))"
proof -
  have "runs (engine_grant_calls engine u spec) (Grant_Apply (traced_svc s) c u (Some spec)) (engine_outcome engine spec)"
    unfolding Grant_Apply_def strategyFor_def engine_grant_calls_def engine_outcome_def traced_svc_simps
    using assms by (auto intro!: runs_ctx pg_strategy.applies mysql_strategy.applies clickhouse_strategy.applies)
  moreover have "runs (List.map_filter undo_call (engine_grant_calls engine u spec)) (Grant_Revoke (traced_svc s) c u (Some spec))
      (NewSuccessResult (''Revoked '' @
         FormatInt (int (length (AppliedRoles (engine_outcome engine spec))) + AppliedDirectGrants (engine_outcome engine spec)) @
         '' grants from user '' @ quoted u))"
    unfolding Grant_Revoke_def strategyFor_def engine_grant_calls_def engine_outcome_def traced_svc_simps
    using assms
    by (auto intro!: runs_ctx runs_map [OF pg_strategy.revokes]
        runs_map [OF mysql_strategy.revokes] runs_map [OF clickhouse_strategy.revokes])
  ultimately show ?thesis by blast
qed

theorem grant_apply_revoke_witness:
  "Grant_Apply (traced_svc (mem_service ''cockroachdb'')) \<lparr>ctx_deadline = None\<rparr> ''app''
      (Some \<lparr>gs_Postgres = Some \<lparr>pgc_Roles = [''reader'', ''writer''], pgc_Grants = [], pgc_DefaultPrivileges = []\<rparr>,
        gs_MySQL = None, gs_ClickHouse = None\<rparr>) (mem_init, []) =
   ((mem_init\<lparr>m_members := [(''app'', ''reader''), (''app'', ''writer'')]\<rparr>, [(CallGrantRole ''app'' [''reader'', ''writer''], Done)]),
    Inr \<lparr>AppliedRoles = [''reader'', ''writer''], AppliedDirectGrants = 0, AppliedDefaultPrivileges = 0\<rparr>)"
proof -
  let ?spec = "\<lparr>gs_Postgres = Some \<lparr>pgc_Roles = [''reader'', ''writer''], pgc_Grants = [], pgc_DefaultPrivileges = []\<rparr>,
        gs_MySQL = None, gs_ClickHouse = None\<rparr>"
  let ?run = "Grant_Apply (traced_svc (mem_service ''cockroachdb'')) \<lparr>ctx_deadline = None\<rparr> ''app'' (Some ?spec) (mem_init, [])"
  have engine: "GetEngineType (svc_config (mem_service ''cockroachdb'')) = EngineTypeCockroachDB"
    by (simp add: GetEngineType_def)
  have r: "runs (engine_grant_calls EngineTypeCockroachDB ''app'' ?spec)
      (Grant_Apply (traced_svc (mem_service ''cockroachdb'')) \<lparr>ctx_deadline = None\<rparr> ''app'' (Some ?spec)) (engine_outcome EngineTypeCockroachDB ?spec)"
    using grant_apply_revoke [OF _ engine, of "''app''"] by simp
  have ok: "isl (snd ?run) = False" and w: "fst (fst ?run) = mem_init\<lparr>m_members := [(''app'', ''reader''), (''app'', ''writer'')]\<rparr>"
    by code_simp+
  obtain w' t' x where run: "?run = ((w', t'), x)" by (metis prod.exhaust)
  have "isl x = False" using ok by (simp only: run snd_conv)
  then obtain y where x: "x = Inr y" by (cases x) auto
  have "w' = mem_init\<lparr>m_members := [(''app'', ''reader''), (''app'', ''writer'')]\<rparr>" using w by (simp only: run fst_conv)
  then show ?thesis
    using runs_ok [OF r run [unfolded x]] run x
    by (simp add: engine_grant_calls_def engine_outcome_def pg_grant_calls_def pg_outcome_def calls_of_def
        buildPostgresGrantOptions_def buildDefaultPrivilegeOptions_def)
qed

lemma runs_fail_stop:
  assumes "runs cs m x"
  shows "fail_stop E m"
  unfolding fail_stop_def
proof (intro allI tripleI)
  fix t0 wt wt' y
  assume c: "clean t0 wt" and m: "m wt = (wt', Inr y)"
  obtain w t w' t' where wt: "wt = (w, t)" "wt' = (w', t')" by (metis prod.exhaust)
  from runs_ok [OF assms m [unfolded wt]] c show "clean t0 wt'"
    by (force simp: wt clean_def failed_def list_all_iff)
next
  fix t0 wt wt' e
  assume c: "clean t0 wt" and m: "m wt = (wt', Inl e)"
  obtain w t w' t' where wt: "wt = (w, t)" "wt' = (w', t')" by (metis prod.exhaust)
  from c obtain u where u: "t = t0 @ u" "list_all (\<lambda>x. \<not> failed x) u" by (auto simp: wt clean_def)
  from runs_err [OF assms m [unfolded wt]] obtain i e0 where e0: "e0 \<in> set (chain e)"
    "t' = t @ map (\<lambda>c. (c, Done)) (take i cs) @ [(cs ! i, Failed e0)]" by blast
  have "list_all (\<lambda>x. \<not> failed x) (u @ map (\<lambda>c. (c, Done)) (take i cs))"
    using u(2) by (auto simp: failed_def list_all_iff)
  moreover have "snd wt' = t0 @ (u @ map (\<lambda>c. (c, Done)) (take i cs)) @ [(cs ! i, Failed e0)]"
    using u(1) e0(2) by (simp add: wt)
  ultimately show "failed_last t0 e wt' \<or> E e \<and> clean t0 wt'"
    using e0(1) unfolding failed_last_def by blast
qed

lemmas strategies_fail_stop =
  pg_strategy.applies [THEN runs_fail_stop] pg_strategy.revokes [THEN runs_fail_stop]
  mysql_strategy.applies [THEN runs_fail_stop] mysql_strategy.revokes [THEN runs_fail_stop]
  clickhouse_strategy.applies [THEN runs_fail_stop] clickhouse_strategy.revokes [THEN runs_fail_stop]

lemma strategy_fail_stop:
  assumes "strategyFor (traced_svc s) engine = Inr st"
  shows "fail_stop E (gst_apply st c u spec)" and "fail_stop E (gst_revoke st c u spec)"
proof -
  let ?t = "traced_svc s"
  consider "st = \<lparr>gst_apply = pg_strategy_apply ?t, gst_revoke = pg_strategy_revoke ?t\<rparr>"
    | "st = \<lparr>gst_apply = mysql_strategy_apply ?t, gst_revoke = mysql_strategy_revoke ?t\<rparr>"
    | "st = \<lparr>gst_apply = clickhouse_strategy_apply ?t, gst_revoke = clickhouse_strategy_revoke ?t\<rparr>"
    using assms unfolding strategyFor_def by (simp split: if_splits)
  then have "fail_stop E (gst_apply st c u spec) \<and> fail_stop E (gst_revoke st c u spec)"
    by cases (simp_all only: grantStrategy.select_convs strategies_fail_stop simp_thms)
  then show "fail_stop E (gst_apply st c u spec)" "fail_stop E (gst_revoke st c u spec)" by simp_all
qed

lemma fail_stop_sum:
  "(\<And>e. x = Inl e \<Longrightarrow> E e) \<Longrightarrow> (\<And>y. x = Inr y \<Longrightarrow> fail_stop E (k y)) \<Longrightarrow>
   fail_stop E (case x of Inl e \<Rightarrow> fail e | Inr y \<Rightarrow> k y)"
  by (cases x) (simp_all add: fail_stop_fail)

definition grant_error :: "go_error \<Rightarrow> bool" where
  "grant_error e \<longleftrightarrow> own_error e \<or> (\<exists>engine. engine \<notin> grant_engines \<and>
     e = OtherError (''unsupported engine for grants: '' @ engine) None)"

lemma grant_error_simps [simp]: "own_error e \<Longrightarrow> grant_error e"
  by (simp add: grant_error_def)

lemma strategy_error: "strategyFor s engine = Inl e \<Longrightarrow> grant_error e"
  by (auto simp: strategyFor_def grant_error_def split: if_splits)

text \<open>
  The grant operations stop at the first failed call and report it with its cause; without a
  failed call the only errors are validation errors and the refusal of an engine that is none of the five.
\<close>

theorem grant_ops_fail_stop:
  "fail_stop grant_error (Grant_Apply (traced_svc s) c u spec) \<and>
   fail_stop grant_error (Grant_Revoke (traced_svc s) c u spec) \<and>
   fail_stop grant_error (GrantRoles (traced_svc s) c u roles) \<and>
   fail_stop grant_error (RevokeRoles (traced_svc s) c u roles) \<and>
   fail_stop grant_error (GetGrants (traced_svc s) c u)"
  unfolding Grant_Apply_def Grant_Revoke_def GrantRoles_def RevokeRoles_def GetGrants_def traced_svc_simps traced_calls
  by (intro conjI fail_stop_if fail_stop_option fail_stop_ctx fail_stop_sum fail_stop_intros)
    (auto dest: strategy_error strategy_fail_stop)

end
