(* ===== verification/Ownership.thy ===== *)
theory Ownership
  imports Grant_Service
begin

text \<open>
  Automatic ownership: \<^verbatim>\<open>internal/service/ownership.go\<close>, the generic pipeline of
  \<^verbatim>\<open>internal/service/provision.go\<close>, the ownership pipeline of
  \<^verbatim>\<open>internal/service/database_ownership_pipeline.go\<close> and the operations of
  \<^verbatim>\<open>database.go\<close> that use them. The plan keeps the create result in a variable that one step
  assigns, so the steps of the pipeline run on the world paired with that variable. The order in
  which Go visits the schema set is the parameter \<open>ord\<close>.
\<close>

section \<open>Names\<close>

definition truncateIdentifier :: "string \<Rightarrow> string" where
  "truncateIdentifier name = (if length name > 63 then take 63 name else name)"

definition DeriveRoleName :: "PostgresOwnershipConfig option \<Rightarrow> string \<Rightarrow> string" where
  "DeriveRoleName cfg dbName =
     (case cfg of
        Some c \<Rightarrow> if poc_RoleName c \<noteq> '''' then poc_RoleName c else truncateIdentifier (''db_'' @ dbName @ ''_owner'')
      | None \<Rightarrow> truncateIdentifier (''db_'' @ dbName @ ''_owner''))"

definition DeriveUserName :: "PostgresOwnershipConfig option \<Rightarrow> string \<Rightarrow> string" where
  "DeriveUserName cfg dbName =
     (case cfg of
        Some c \<Rightarrow> if poc_UserName c \<noteq> '''' then poc_UserName c else truncateIdentifier (''db_'' @ dbName @ ''_app'')
      | None \<Rightarrow> truncateIdentifier (''db_'' @ dbName @ ''_app''))"

definition HasAutoOwnership :: "DatabaseSpec \<Rightarrow> bool" where
  "HasAutoOwnership spec =
     (case ds_Postgres spec of
        None \<Rightarrow> False
      | Some p \<Rightarrow> (case pdc_Ownership p of None \<Rightarrow> False | Some o' \<Rightarrow> poc_AutoOwnership o'))"

definition IsOwnershipSupported :: "string \<Rightarrow> bool" where
  "IsOwnershipSupported engine = (let e = ToLower engine in e = ''postgres'' \<or> e = ''cockroachdb'')"

section \<open>The ownership service\<close>

definition EnsureOwnerRole :: "'w ResourceService \<Rightarrow> ctx \<Rightarrow> string \<Rightarrow> ('w, unit) op" where
  "EnsureOwnerRole s c roleName =
     check (ad_RoleExists (svc_adapter s) c roleName) (\<lambda>e w. Errorf_w ''check role existence: '' e) (\<lambda>exists.
     if exists then ret ()
     else
       check (ad_CreateRole (svc_adapter s) c
           (empty_CreateRoleOptions\<lparr>cro_RoleName := roleName, cro_Login := False, cro_Inherit := True\<rparr>))
         (\<lambda>e w. Errorf_w ''create owner role: '' e) ret)"

definition EnsureOwnerUser :: "'w ResourceService \<Rightarrow> ctx \<Rightarrow> string \<Rightarrow> string \<Rightarrow> ('w, unit) op" where
  "EnsureOwnerUser s c userName roleName =
     check (ad_RoleExists (svc_adapter s) c userName) (\<lambda>e w. Errorf_w ''check user existence: '' e) (\<lambda>exists.
     when_call (\<not> exists)
       (ad_CreateRole (svc_adapter s) c
          (empty_CreateRoleOptions\<lparr>cro_RoleName := userName, cro_Login := True, cro_Inherit := True\<rparr>))
       (\<lambda>e w. Errorf_w ''create owner user: '' e)
     (check (ad_GrantRole (svc_adapter s) c userName [roleName]) (\<lambda>e w. Errorf_w ''grant role to user: '' e) ret))"

definition TransferOwnership :: "'w ResourceService \<Rightarrow> ctx \<Rightarrow> string \<Rightarrow> string \<Rightarrow> ('w, unit) op" where
  "TransferOwnership s c dbName roleName =
     check (ad_TransferDatabaseOwnership (svc_adapter s) c dbName roleName)
       (\<lambda>e w. Errorf_w ''transfer ownership: '' e) ret"

fun for_each :: "('x \<Rightarrow> ('w, unit) op) \<Rightarrow> 'x list \<Rightarrow> ('w, unit) op" where
  "for_each f [] = ret ()"
| "for_each f (x # xs) = check (f x) as_is (\<lambda>_. for_each f xs)"

definition privDefs :: "(string \<times> string list) list" where
  "privDefs = [(''tables'', [''SELECT'', ''INSERT'', ''UPDATE'', ''DELETE'']), (''sequences'', [''USAGE'', ''SELECT'']),
     (''functions'', [''EXECUTE''])]"

definition priv_opts :: "string \<Rightarrow> string \<Rightarrow> string \<Rightarrow> string \<times> string list \<Rightarrow> DefaultPrivilegeGrantOptions" where
  "priv_opts dbName schemaName grantedBy dp = \<lparr>dpg_Database = dbName, dpg_Schema = schemaName,
     dpg_GrantedBy = grantedBy, dpg_ObjectType = fst dp, dpg_Privileges = snd dp\<rparr>"

definition schema_set :: "string list \<Rightarrow> bool go_map" where
  "schema_set schemas = fold (\<lambda>s. map_put s True) schemas [(''public'', True)]"

definition SetDefaultPrivileges ::
  "bool range_order \<Rightarrow> 'w ResourceService \<Rightarrow> ctx \<Rightarrow> string \<Rightarrow> string \<Rightarrow> string \<Rightarrow> string list \<Rightarrow> ('w, unit) op" where
  "SetDefaultPrivileges ord s c dbName ownerRole appUser schemas =
     for_each (\<lambda>(schemaName, _).
       for_each (\<lambda>dp.
         check (ad_SetDefaultPrivileges (svc_adapter s) c appUser [priv_opts dbName schemaName ownerRole dp])
           (\<lambda>e w. Errorf_w (''set forward default privileges for '' @ fst dp @ '' in '' @ schemaName @ '': '') e) (\<lambda>_.
         check (ad_SetDefaultPrivileges (svc_adapter s) c ownerRole [priv_opts dbName schemaName appUser dp])
           (\<lambda>e w. Errorf_w (''set reverse default privileges for '' @ fst dp @ '' in '' @ schemaName @ '': '') e) ret))
         privDefs)
       (ord (schema_set schemas))"

text \<open>A failure to drop the user is logged and ignored; one to drop the role is returned.\<close>

definition DropOwnershipResources :: "'w ResourceService \<Rightarrow> ctx \<Rightarrow> string \<Rightarrow> string \<Rightarrow> ('w, unit) op" where
  "DropOwnershipResources s c roleName userName w =
     (let w1 = (if userName \<noteq> '''' then fst (ad_DropRole (svc_adapter s) c userName w) else w)
      in if roleName \<noteq> ''''
         then check (ad_DropRole (svc_adapter s) c roleName) (\<lambda>e w. Errorf_w ''drop owner role: '' e) ret w1
         else ret () w1)"

section \<open>The provisioning pipeline\<close>

record 'w ProvisionStep =
  ps_StepName :: string
  ps_Execute :: "ctx \<Rightarrow> ('w, unit) op"

fun run_steps :: "'w ProvisionStep list \<Rightarrow> ctx \<Rightarrow> int \<Rightarrow> 'w \<Rightarrow> 'w \<times> int \<times> go_error option" where
  "run_steps [] c i w = (w, i, None)"
| "run_steps (step # rest) c i w =
     (case ps_Execute step c w of
        (w', Inl e) \<Rightarrow> (w', i, Some (Errorf_w (''step '' @ [CHR 0x22] @ ps_StepName step @ [CHR 0x22] @ '' failed: '') e))
      | (w', Inr _) \<Rightarrow> run_steps rest c (i + 1) w')"

definition Pipeline_Run :: "'w ProvisionStep list \<Rightarrow> ctx \<Rightarrow> 'w \<Rightarrow> 'w \<times> int \<times> go_error option" where
  "Pipeline_Run steps c w = run_steps steps c 0 w"

section \<open>The ownership pipeline\<close>

record OwnershipResult =
  or_RoleName :: string
  or_UserName :: string

record ownershipProvisionPlan =
  pl_spec :: DatabaseSpec
  pl_roleName :: string
  pl_userName :: string
  pl_schemaNames :: "string list"

definition collectSchemaNames :: "PostgresSchema list \<Rightarrow> string list" where
  "collectSchemaNames schemas = map ps_Name schemas"

text \<open>
  The caller has checked that the ownership configuration is present; the spec is changed in place, so
  the changed spec is part of the plan.
\<close>

definition newOwnershipProvisionPlan :: "DatabaseSpec \<Rightarrow> PostgresDatabaseConfig \<Rightarrow> ownershipProvisionPlan" where
  "newOwnershipProvisionPlan spec p =
     (let roleName = DeriveRoleName (pdc_Ownership p) (ds_Name spec);
          userName = DeriveUserName (pdc_Ownership p) (ds_Name spec);
          p' = p\<lparr>pdc_Schemas := map (\<lambda>s. if ps_Owner s = '''' then s\<lparr>ps_Owner := roleName\<rparr> else s) (pdc_Schemas p)\<rparr>
      in \<lparr>pl_spec = spec\<lparr>ds_Postgres := Some p', ds_Owner := roleName\<rparr>, pl_roleName = roleName,
          pl_userName = userName, pl_schemaNames = collectSchemaNames (pdc_Schemas p')\<rparr>)"

type_synonym 'w planned = "'w \<times> Result option"

definition on_world :: "('w, 'a) op \<Rightarrow> ('w planned, 'a) op" where
  "on_world m = (\<lambda>(w, r). case m w of (w', x) \<Rightarrow> ((w', r), x))"

definition stepCreateDatabase :: "'w ResourceService \<Rightarrow> ownershipProvisionPlan \<Rightarrow> ctx \<Rightarrow> ('w planned, unit) op" where
  "stepCreateDatabase s plan c = (\<lambda>(w, r).
     case Database_CreateOnly s c (Some (pl_spec plan)) w of
       (w', Inl e) \<Rightarrow> ((w', r), Inl e)
     | (w', Inr result) \<Rightarrow> ((w', Some result), Inr ()))"

definition stepUpdateDatabase :: "'w ResourceService \<Rightarrow> ownershipProvisionPlan \<Rightarrow> ctx \<Rightarrow> ('w, unit) op" where
  "stepUpdateDatabase s plan c =
     (let opts = BuildDatabaseUpdateOptions (svc_specBuilder s) (pl_spec plan)
      in if udo_Extensions opts = [] \<and> udo_Schemas opts = [] \<and> udo_DefaultPrivileges opts = [] then ret ()
         else ad_UpdateDatabase (svc_adapter s) c (ds_Name (pl_spec plan)) opts)"

definition should_set_defaults :: "DatabaseSpec \<Rightarrow> bool" where
  "should_set_defaults spec =
     (case ds_Postgres spec of
        None \<Rightarrow> False
      | Some p \<Rightarrow> (case pdc_Ownership p of None \<Rightarrow> False | Some o' \<Rightarrow> ShouldSetDefaultPrivileges o'))"

definition buildPipeline ::
  "bool range_order \<Rightarrow> 'w ResourceService \<Rightarrow> ownershipProvisionPlan \<Rightarrow> 'w planned ProvisionStep list" where
  "buildPipeline ord s plan =
     (let name = ds_Name (pl_spec plan); role = pl_roleName plan; user = pl_userName plan
      in [\<lparr>ps_StepName = ''create-owner-role'', ps_Execute = (\<lambda>c. on_world (EnsureOwnerRole s c role))\<rparr>,
          \<lparr>ps_StepName = ''create-database'', ps_Execute = stepCreateDatabase s plan\<rparr>,
          \<lparr>ps_StepName = ''verify-access'', ps_Execute = (\<lambda>c. on_world (ad_VerifyDatabaseAccess (svc_adapter s) c name))\<rparr>,
          \<lparr>ps_StepName = ''transfer-ownership'', ps_Execute = (\<lambda>c. on_world (TransferOwnership s c name role))\<rparr>,
          \<lparr>ps_StepName = ''create-app-user'', ps_Execute = (\<lambda>c. on_world (EnsureOwnerUser s c user role))\<rparr>] @
         (if should_set_defaults (pl_spec plan)
          then [\<lparr>ps_StepName = ''set-default-privileges'',
                 ps_Execute = (\<lambda>c. on_world (SetDefaultPrivileges ord s c name role user (pl_schemaNames plan)))\<rparr>]
          else []) @
         [\<lparr>ps_StepName = ''update-database'', ps_Execute = (\<lambda>c. on_world (stepUpdateDatabase s plan c))\<rparr>])"

definition plan_run ::
  "bool range_order \<Rightarrow> 'w ResourceService \<Rightarrow> ownershipProvisionPlan \<Rightarrow> ctx \<Rightarrow> 'w
   \<Rightarrow> 'w \<times> Result option \<times> OwnershipResult option \<times> go_error option" where
  "plan_run ord s plan c w =
     (case Pipeline_Run (buildPipeline ord s plan) c (w, None) of
        ((w', createResult), _, Some err) \<Rightarrow> (w', createResult, None, Some err)
      | ((w', createResult), _, None) \<Rightarrow>
          (w', Some (case createResult of
                       Some r \<Rightarrow> r
                     | None \<Rightarrow> NewCreatedResult (''Database '' @ quoted (ds_Name (pl_spec plan)) @ '' created with ownership'')),
           Some \<lparr>or_RoleName = pl_roleName plan, or_UserName = pl_userName plan\<rparr>, None))"

definition validateOwnershipCreate :: "DatabaseSpec option \<Rightarrow> go_error option" where
  "validateOwnershipCreate spec0 =
     (case spec0 of
        None \<Rightarrow> Some (required ''spec'' ''spec is required'')
      | Some spec \<Rightarrow> if \<not> HasAutoOwnership spec then Some (required ''ownership'' ''autoOwnership is not enabled'') else None)"

definition CreateWithOwnership ::
  "bool range_order \<Rightarrow> 'w ResourceService \<Rightarrow> ctx \<Rightarrow> DatabaseSpec option \<Rightarrow> 'w
   \<Rightarrow> 'w \<times> Result option \<times> OwnershipResult option \<times> go_error option" where
  "CreateWithOwnership ord s c0 spec0 w =
     (case validateOwnershipCreate spec0 of
        Some e \<Rightarrow> (w, None, None, Some e)
      | None \<Rightarrow>
          (case spec0 of
             Some spec \<Rightarrow>
               (case ds_Postgres spec of
                  Some p \<Rightarrow> plan_run ord s (newOwnershipProvisionPlan spec p) (op_ctx s c0 w) w
                | None \<Rightarrow> (w, None, None, Some (required ''ownership'' ''autoOwnership is not enabled'')))
           | None \<Rightarrow> (w, None, None, Some (required ''spec'' ''spec is required''))))"

definition DeleteOwnershipResources :: "'w ResourceService \<Rightarrow> ctx \<Rightarrow> string \<Rightarrow> string \<Rightarrow> ('w, unit) op" where
  "DeleteOwnershipResources s c roleName userName = DropOwnershipResources s c roleName userName"

section \<open>Derived names\<close>

lemma truncate_take: "truncateIdentifier name = take 63 name"
  by (simp add: truncateIdentifier_def)

text \<open>
  The derived owner role and application user of a database. Both fit into the 63 bytes of a
  PostgreSQL identifier; they differ exactly when the database name has at most 58 bytes, and for
  names of at most 54 bytes two databases never share a role. From 59 bytes on, which the resource's
  schema allows, the role and its login user are one and the same name.
\<close>

theorem derived_names:
  "length (DeriveRoleName None n) \<le> 63 \<and> length (DeriveUserName None n) \<le> 63 \<and>
   (DeriveRoleName None n = DeriveUserName None n \<longleftrightarrow> 59 \<le> length n) \<and>
   (length n \<le> 54 \<and> length n' \<le> 54 \<longrightarrow> (DeriveRoleName None n = DeriveRoleName None n' \<longleftrightarrow> n = n'))"
proof -
  have split: "take 63 (''db_'' @ n @ CHR ''_'' # x # ys) =
      (if 59 \<le> length n then ''db_'' @ take 60 (n @ ''_'') else ''db_'' @ n @ ''_'' @ x # take (58 - length n) ys)" for x ys
    by (auto simp: take_Cons' not_le Suc_diff_le split: if_splits)
  have eq: "DeriveRoleName None n = DeriveUserName None n \<longleftrightarrow> 59 \<le> length n"
    unfolding DeriveRoleName_def DeriveUserName_def option.case truncate_take
    using split [of "CHR ''o''" "''wner''"] split [of "CHR ''a''" "''pp''"] by simp
  have inj: "DeriveRoleName None n = DeriveRoleName None n' \<longleftrightarrow> n = n'" if "length n \<le> 54" "length n' \<le> 54"
    using that by (simp add: DeriveRoleName_def truncate_take)
  show ?thesis
    using eq inj by (auto simp: DeriveRoleName_def DeriveUserName_def truncate_take)
qed

theorem derived_names_witness:
  "DeriveRoleName None ''orders'' = ''db_orders_owner'' \<and> DeriveUserName None ''orders'' = ''db_orders_app'' \<and>
   DeriveRoleName None ''orders'' \<noteq> DeriveRoleName None ''order''"
  using derived_names [of "''orders''" "''order''"] by (simp add: DeriveRoleName_def DeriveUserName_def truncateIdentifier_def)

section \<open>The pipeline runs in order and stops at the first failing step\<close>

lemma run_steps_append:
  "run_steps (xs @ ys) c i w =
     (case run_steps xs c i w of (w', n, Some e) \<Rightarrow> (w', n, Some e) | (w', n, None) \<Rightarrow> run_steps ys c n w')"
  by (induction xs arbitrary: i w) (auto split: prod.split sum.split)

text \<open>
  A pipeline that fails reports how many steps completed, ran exactly those and the failing
  one, whose error and name it returns; a pipeline that succeeds ran every step, in order.
\<close>

theorem pipeline_run:
  assumes "Pipeline_Run steps c w = (w', n, err)"
  shows "case err of
     None \<Rightarrow> n = int (length steps)
   | Some e \<Rightarrow> (\<exists>w1 e0. 0 \<le> n \<and> n < int (length steps) \<and>
       Pipeline_Run (take (nat n) steps) c w = (w1, n, None) \<and>
       ps_Execute (steps ! nat n) c w1 = (w', Inl e0) \<and>
       e = Errorf_w (''step '' @ [CHR 0x22] @ ps_StepName (steps ! nat n) @ [CHR 0x22] @ '' failed: '') e0)"
proof -
  have gen: "case err of
     None \<Rightarrow> n = i + int (length steps)
   | Some e \<Rightarrow> (\<exists>k < length steps. \<exists>w1 e0. n = i + int k \<and> run_steps (take k steps) c i w = (w1, n, None) \<and>
       ps_Execute (steps ! k) c w1 = (w', Inl e0) \<and>
       e = Errorf_w (''step '' @ [CHR 0x22] @ ps_StepName (steps ! k) @ [CHR 0x22] @ '' failed: '') e0)"
    if "run_steps steps c i w = (w', n, err)" for i
    using that
  proof (induction steps arbitrary: i w)
    case (Cons step rest)
    obtain w1 r where x: "ps_Execute step c w = (w1, r)" by (rule prod.exhaust)
    show ?case
    proof (cases r)
      case (Inl e)
      with Cons.prems x show ?thesis by (auto intro!: exI [where x = 0])
    next
      case (Inr u)
      with Cons.prems x have run: "run_steps rest c (i + 1) w1 = (w', n, err)" by simp
      show ?thesis
      proof (cases err)
        case (Some e)
        with Cons.IH [OF run] obtain k w2 e0 where "k < length rest" "n = i + 1 + int k"
          "run_steps (take k rest) c (i + 1) w1 = (w2, n, None)" "ps_Execute (rest ! k) c w2 = (w', Inl e0)"
          "e = Errorf_w (''step '' @ [CHR 0x22] @ ps_StepName (rest ! k) @ [CHR 0x22] @ '' failed: '') e0" by auto
        then show ?thesis using Some x Inr by (auto intro!: exI [where x = "Suc k"])
      qed (use Cons.IH [OF run] in simp)
    qed
  qed simp
  show ?thesis using gen [OF assms [unfolded Pipeline_Run_def]] by (cases err) (auto simp: Pipeline_Run_def)
qed

theorem pipeline_run_witness:
  "Pipeline_Run [\<lparr>ps_StepName = ''a'', ps_Execute = (\<lambda>c w. (w + 1, Inr ()))\<rparr>,
      \<lparr>ps_StepName = ''b'', ps_Execute = (\<lambda>c w. (w, Inl ErrTimeout))\<rparr>,
      \<lparr>ps_StepName = ''c'', ps_Execute = (\<lambda>c w. (w + 5, Inr ()))\<rparr>] \<lparr>ctx_deadline = None\<rparr> (0::nat) =
   (1, 1, Some (Errorf_w (''step '' @ [CHR 0x22] @ ''b'' @ [CHR 0x22] @ '' failed: '') ErrTimeout))"
proof -
  let ?steps = "[\<lparr>ps_StepName = ''a'', ps_Execute = (\<lambda>c w. (w + 1, Inr ()))\<rparr>,
      \<lparr>ps_StepName = ''b'', ps_Execute = (\<lambda>c w. (w, Inl ErrTimeout))\<rparr>,
      \<lparr>ps_StepName = ''c'', ps_Execute = (\<lambda>c w. (w + 5, Inr ()))\<rparr>]"
  obtain w n err where run: "Pipeline_Run ?steps \<lparr>ctx_deadline = None\<rparr> (0::nat) = (w, n, err)" by (metis prod.exhaust)
  then have "n = 1" "err \<noteq> None" "w = 1" by (auto simp: Pipeline_Run_def)
  with run pipeline_run [OF run] show ?thesis by auto
qed

section \<open>What automatic ownership provisions\<close>

text \<open>
  The part of the server's state that ownership is about, and what the interface documents of the
  calls that the pipeline makes when they succeed.
\<close>

record oview =
  o_dbs :: "string set"
  o_owner :: "string \<Rightarrow> string option"
  o_roles :: "string set"
  o_members :: "(string \<times> string) set"
  o_defaults :: "(string \<times> DefaultPrivilegeGrantOptions) set"

abbreviation moves :: "('w \<Rightarrow> 'v) \<Rightarrow> 'v \<Rightarrow> ('w, 'a) op \<Rightarrow> 'v \<Rightarrow> bool" where
  "moves view V m V' \<equiv> triple (\<lambda>w. view w = V) m (\<lambda>_ w. view w = V') (\<lambda>_ _. True)"

definition tracks_ownership :: "'w adapter \<Rightarrow> ('w \<Rightarrow> oview) \<Rightarrow> bool" where
  "tracks_ownership a view \<longleftrightarrow>
     (\<forall>c n V. triple (\<lambda>w. view w = V) (ad_RoleExists a c n) (\<lambda>b w. view w = V \<and> b = (n \<in> o_roles V)) (\<lambda>_ _. True)) \<and>
     (\<forall>c o1 V. moves view V (ad_CreateRole a c o1) (V\<lparr>o_roles := insert (cro_RoleName o1) (o_roles V)\<rparr>)) \<and>
     (\<forall>c n V. triple (\<lambda>w. view w = V) (ad_DatabaseExists a c n) (\<lambda>b w. view w = V \<and> b = (n \<in> o_dbs V)) (\<lambda>_ _. True)) \<and>
     (\<forall>c o1 V. moves view V (ad_CreateDatabase a c o1)
        (V\<lparr>o_dbs := insert (cdo_Name o1) (o_dbs V), o_owner := (o_owner V)(cdo_Name o1 \<mapsto> cdo_Owner o1)\<rparr>)) \<and>
     (\<forall>c n V. moves view V (ad_VerifyDatabaseAccess a c n) V) \<and>
     (\<forall>c n r V. moves view V (ad_TransferDatabaseOwnership a c n r) (V\<lparr>o_owner := (o_owner V)(n \<mapsto> r)\<rparr>)) \<and>
     (\<forall>c u rs V. moves view V (ad_GrantRole a c u rs) (V\<lparr>o_members := o_members V \<union> {u} \<times> set rs\<rparr>)) \<and>
     (\<forall>c u ds V. moves view V (ad_SetDefaultPrivileges a c u ds) (V\<lparr>o_defaults := o_defaults V \<union> {u} \<times> set ds\<rparr>)) \<and>
     (\<forall>c n o1 V. moves view V (ad_UpdateDatabase a c n o1) V)"

lemma tracks_ownership_calls:
  assumes "tracks_ownership a view"
  shows "triple (\<lambda>w. view w = V) (ad_RoleExists a c n) (\<lambda>b w. view w = V \<and> b = (n \<in> o_roles V)) (\<lambda>_ _. True)"
    and "moves view V (ad_CreateRole a c o1) (V\<lparr>o_roles := insert (cro_RoleName o1) (o_roles V)\<rparr>)"
    and "triple (\<lambda>w. view w = V) (ad_DatabaseExists a c n) (\<lambda>b w. view w = V \<and> b = (n \<in> o_dbs V)) (\<lambda>_ _. True)"
    and "moves view V (ad_CreateDatabase a c o2)
        (V\<lparr>o_dbs := insert (cdo_Name o2) (o_dbs V), o_owner := (o_owner V)(cdo_Name o2 \<mapsto> cdo_Owner o2)\<rparr>)"
    and "moves view V (ad_VerifyDatabaseAccess a c n) V"
    and "moves view V (ad_TransferDatabaseOwnership a c n r) (V\<lparr>o_owner := (o_owner V)(n \<mapsto> r)\<rparr>)"
    and "moves view V (ad_GrantRole a c u rs) (V\<lparr>o_members := o_members V \<union> {u} \<times> set rs\<rparr>)"
    and "moves view V (ad_SetDefaultPrivileges a c u ds) (V\<lparr>o_defaults := o_defaults V \<union> {u} \<times> set ds\<rparr>)"
    and "moves view V (ad_UpdateDatabase a c n o3) V"
  using assms unfolding tracks_ownership_def by simp_all

lemma oview_same [simp]: "V\<lparr>o_roles := o_roles V\<rparr> = V" "V\<lparr>o_defaults := o_defaults V\<rparr> = V"
  by (cases V; simp)+

lemma ensure_role_moves:
  assumes t: "tracks_ownership (svc_adapter s) view"
  shows "moves view V (EnsureOwnerRole s c role) (V\<lparr>o_roles := insert role (o_roles V)\<rparr>)"
proof -
  note calls = tracks_ownership_calls [OF t]
  note create = calls(2) [where ?o1.0 = "empty_CreateRoleOptions\<lparr>cro_RoleName := role, cro_Login := False, cro_Inherit := True\<rparr>"]
  show ?thesis
    unfolding EnsureOwnerRole_def
    by (intro triple_check [OF calls(1)] triple_pre triple_if triple_ret triple_check [OF create])
      (auto simp: insert_absorb)
qed

lemma ensure_user_moves:
  assumes t: "tracks_ownership (svc_adapter s) view"
  shows "moves view V (EnsureOwnerUser s c user role)
     (V\<lparr>o_roles := insert user (o_roles V), o_members := o_members V \<union> {(user, role)}\<rparr>)"
proof -
  note calls = tracks_ownership_calls [OF t]
  note create = calls(2) [where ?o1.0 = "empty_CreateRoleOptions\<lparr>cro_RoleName := user, cro_Login := True, cro_Inherit := True\<rparr>"]
  show ?thesis
    unfolding EnsureOwnerUser_def when_call_def
    by (intro triple_check [OF calls(1)] triple_pre triple_if triple_ret triple_check [OF create] triple_check [OF calls(7)])
      (auto simp: insert_absorb)
qed

lemma for_each_moves:
  assumes "\<And>x V. moves view V (f x) (V\<lparr>o_defaults := o_defaults V \<union> g x\<rparr>)"
  shows "moves view V (for_each f xs) (V\<lparr>o_defaults := o_defaults V \<union> (\<Union>x \<in> set xs. g x)\<rparr>)"
proof (induction xs arbitrary: V)
  case Nil
  show ?case unfolding for_each.simps by (rule triple_ret) simp
next
  case (Cons x xs)
  show ?case
    using triple_check [OF assms [of V x] _ Cons.IH] by (simp add: Un_assoc)
qed

definition defaults_for :: "string \<Rightarrow> string \<Rightarrow> string \<Rightarrow> string set \<Rightarrow> (string \<times> DefaultPrivilegeGrantOptions) set" where
  "defaults_for db role user schemas = (\<Union>schema \<in> schemas. \<Union>dp \<in> set privDefs.
     {(user, priv_opts db schema role dp), (role, priv_opts db schema user dp)})"

lemma schema_set_keys: "fst ` set (schema_set schemas) = insert ''public'' (set schemas)"
proof -
  have "fst ` set (fold (\<lambda>s. map_put s True) schemas m) = fst ` set m \<union> set schemas" for m :: "bool go_map"
    by (induction schemas arbitrary: m) (auto simp: map_put_dom)
  then show ?thesis by (simp add: schema_set_def)
qed

lemma set_defaults_moves:
  assumes t: "tracks_ownership (svc_adapter s) view" and ord: "range_order_ok ord"
  shows "moves view V (SetDefaultPrivileges ord s c db role user schemas)
     (V\<lparr>o_defaults := o_defaults V \<union> defaults_for db role user (insert ''public'' (set schemas))\<rparr>)"
proof -
  note calls = tracks_ownership_calls [OF t]
  have one: "moves view V
      (check (ad_SetDefaultPrivileges (svc_adapter s) c user [priv_opts db schema role dp]) wr1 (\<lambda>_.
       check (ad_SetDefaultPrivileges (svc_adapter s) c role [priv_opts db schema user dp]) wr2 ret))
      (V\<lparr>o_defaults := o_defaults V \<union> {(user, priv_opts db schema role dp), (role, priv_opts db schema user dp)}\<rparr>)"
    for schema dp V wr1 wr2
    by (intro triple_check [OF calls(8)] triple_ret) (auto simp: insert_commute)
  have all: "moves view V (for_each (\<lambda>(schemaName, _).
       for_each (\<lambda>dp.
         check (ad_SetDefaultPrivileges (svc_adapter s) c user [priv_opts db schemaName role dp])
           (\<lambda>e w. Errorf_w (''set forward default privileges for '' @ fst dp @ '' in '' @ schemaName @ '': '') e) (\<lambda>_.
         check (ad_SetDefaultPrivileges (svc_adapter s) c role [priv_opts db schemaName user dp])
           (\<lambda>e w. Errorf_w (''set reverse default privileges for '' @ fst dp @ '' in '' @ schemaName @ '': '') e) ret))
         privDefs) xs)
      (V\<lparr>o_defaults := o_defaults V \<union> (\<Union>x \<in> set xs. \<Union>dp \<in> set privDefs.
          {(user, priv_opts db (fst x) role dp), (role, priv_opts db (fst x) user dp)})\<rparr>)" for xs :: "bool go_map"
    by (rule for_each_moves, unfold case_prod_beta, rule for_each_moves, rule one)
  have "(\<Union>x \<in> set (ord (schema_set schemas)). \<Union>dp \<in> set privDefs.
          {(user, priv_opts db (fst x) role dp), (role, priv_opts db (fst x) user dp)}) =
      defaults_for db role user (fst ` set (ord (schema_set schemas)))"
    by (auto simp: defaults_for_def)
  also have "fst ` set (ord (schema_set schemas)) = insert ''public'' (set schemas)"
    using ord schema_set_keys [of schemas] unfolding range_order_ok_def by (metis set_mset_mset)
  finally have eq: "(\<Union>x \<in> set (ord (schema_set schemas)). \<Union>dp \<in> set privDefs.
          {(user, priv_opts db (fst x) role dp), (role, priv_opts db (fst x) user dp)}) =
      defaults_for db role user (insert ''public'' (set schemas))" .
  show ?thesis unfolding SetDefaultPrivileges_def eq [symmetric] by (rule all)
qed

lemma create_only_moves:
  assumes t: "tracks_ownership (svc_adapter s) view" and b: "svc_specBuilder s = GetSpecBuilder engine"
  shows "triple (\<lambda>w. view w = V) (Database_CreateOnly s c (Some spec))
     (\<lambda>_ w. \<exists>own. view w = V\<lparr>o_dbs := insert (ds_Name spec) (o_dbs V), o_owner := own\<rparr>) (\<lambda>_ _. True)"
proof -
  have name: "cdo_Name (BuildDatabaseCreateOptions (svc_specBuilder s) spec) = ds_Name spec"
    by (simp add: b any_builder.database_name)
  note calls = tracks_ownership_calls [OF t]
  note create = calls(4) [where ?o2.0 = "BuildDatabaseCreateOptions (svc_specBuilder s) spec", unfolded name]
  have absorb: "V\<lparr>o_dbs := insert n (o_dbs V), o_owner := o_owner V\<rparr> = V" if "n \<in> o_dbs V" for n
    using that by (cases V) (simp add: insert_absorb)
  show ?thesis
    unfolding Database_CreateOnly_def option.case Let_def
    by (intro triple_if triple_ctx triple_check [OF calls(3)] triple_pre triple_check [OF create]
        triple_ret triple_fail)
      (use absorb in \<open>auto intro: exI [where x = "o_owner V"]\<close>)
qed

text \<open>Establishing a predicate along a pipeline.\<close>

definition establishes :: "('w \<Rightarrow> bool) \<Rightarrow> 'w ProvisionStep list \<Rightarrow> ctx \<Rightarrow> ('w \<Rightarrow> bool) \<Rightarrow> bool" where
  "establishes P steps c Q \<longleftrightarrow> (\<forall>i w w' n. P w \<longrightarrow> run_steps steps c i w = (w', n, None) \<longrightarrow> Q w')"

lemma establishes_Nil: "establishes P [] c P"
  by (simp add: establishes_def)

lemma establishes_Cons:
  assumes "triple P (ps_Execute step c) (\<lambda>_. P') (\<lambda>_ _. True)" and "establishes P' rest c Q"
  shows "establishes P (step # rest) c Q"
  unfolding establishes_def
proof (intro allI impI)
  fix i w w' n
  assume P: "P w" and run: "run_steps (step # rest) c i w = (w', n, None)"
  then obtain w1 where "ps_Execute step c w = (w1, Inr ())" "run_steps rest c (i + 1) w1 = (w', n, None)"
    by (auto split: prod.splits sum.splits)
  with triple_ok [OF assms(1) P] assms(2) show "Q w'" unfolding establishes_def by blast
qed

abbreviation seen :: "('w \<Rightarrow> oview) \<Rightarrow> (oview \<Rightarrow> bool) \<Rightarrow> 'w planned \<Rightarrow> bool" where
  "seen view A wr \<equiv> A (view (fst wr))"

lemma seen_on_world:
  assumes "\<And>V. moves view V m (f V)" and "\<And>V. A V \<Longrightarrow> B (f V)"
  shows "triple (seen view A) (on_world m) (\<lambda>_. seen view B) (\<lambda>_ _. True)"
proof (rule tripleI)
  fix wr wr' x
  assume A: "seen view A wr" and run: "on_world m wr = (wr', Inr x)"
  then have "m (fst wr) = (fst wr', Inr x)" by (auto simp: on_world_def split: prod.splits)
  from triple_ok [OF assms(1) refl this] show "seen view B wr'" using assms(2) [OF A] by simp
qed simp

lemma seen_create:
  assumes "tracks_ownership (svc_adapter s) view" and "svc_specBuilder s = GetSpecBuilder engine"
    and "\<And>V own. A V \<Longrightarrow> B (V\<lparr>o_dbs := insert (ds_Name (pl_spec plan)) (o_dbs V), o_owner := own\<rparr>)"
  shows "triple (seen view A) (stepCreateDatabase s plan c) (\<lambda>_. seen view B) (\<lambda>_ _. True)"
proof (rule tripleI)
  fix wr wr' x
  assume A: "seen view A wr" and run: "stepCreateDatabase s plan c wr = (wr', Inr x)"
  obtain w r where wr: "wr = (w, r)" by (rule prod.exhaust)
  then obtain w1 res where "Database_CreateOnly s c (Some (pl_spec plan)) w = (w1, Inr res)" "fst wr' = w1"
    using run by (auto simp: stepCreateDatabase_def split: prod.splits sum.splits)
  with triple_ok [OF create_only_moves [OF assms(1,2)] refl] obtain own where
    "view (fst wr') = (view w)\<lparr>o_dbs := insert (ds_Name (pl_spec plan)) (o_dbs (view w)), o_owner := own\<rparr>" by blast
  then show "seen view B wr'" using assms(3) A wr by simp
qed simp

lemma transfer_moves:
  assumes "tracks_ownership (svc_adapter s) view"
  shows "moves view V (TransferOwnership s c n r) (V\<lparr>o_owner := (o_owner V)(n \<mapsto> r)\<rparr>)"
  unfolding TransferOwnership_def
  by (intro triple_check [OF tracks_ownership_calls(6) [OF assms]] triple_ret) simp_all

lemma update_step_moves:
  "tracks_ownership (svc_adapter s) view \<Longrightarrow> moves view V (stepUpdateDatabase s plan c) V"
  unfolding stepUpdateDatabase_def Let_def by (intro triple_if triple_ret tracks_ownership_calls(9))

definition provisioned :: "ownershipProvisionPlan \<Rightarrow> oview \<Rightarrow> bool" where
  "provisioned plan V \<longleftrightarrow>
     ds_Name (pl_spec plan) \<in> o_dbs V \<and> o_owner V (ds_Name (pl_spec plan)) = Some (pl_roleName plan) \<and>
     pl_roleName plan \<in> o_roles V \<and> pl_userName plan \<in> o_roles V \<and>
     (pl_userName plan, pl_roleName plan) \<in> o_members V \<and>
     (should_set_defaults (pl_spec plan) \<longrightarrow>
        defaults_for (ds_Name (pl_spec plan)) (pl_roleName plan) (pl_userName plan)
          (insert ''public'' (set (pl_schemaNames plan))) \<subseteq> o_defaults V)"

lemma plan_provisions:
  assumes t: "tracks_ownership (svc_adapter s) view" and b: "svc_specBuilder s = GetSpecBuilder engine"
    and ord: "range_order_ok ord"
  shows "establishes (\<lambda>_. True) (buildPipeline ord s plan) c (seen view (provisioned plan))"
proof -
  let ?name = "ds_Name (pl_spec plan)" and ?role = "pl_roleName plan" and ?user = "pl_userName plan"
  let ?dflt = "defaults_for ?name ?role ?user (insert ''public'' (set (pl_schemaNames plan)))"
  define A1 where "A1 = (\<lambda>V :: oview. ?role \<in> o_roles V)"
  define A2 where "A2 = (\<lambda>V :: oview. A1 V \<and> ?name \<in> o_dbs V)"
  define A4 where "A4 = (\<lambda>V :: oview. A2 V \<and> o_owner V ?name = Some ?role)"
  define A5 where "A5 = (\<lambda>V :: oview. A4 V \<and> ?user \<in> o_roles V \<and> (?user, ?role) \<in> o_members V)"
  note defs = A1_def A2_def A4_def A5_def
  have 1: "triple (\<lambda>_. True) (on_world (EnsureOwnerRole s c ?role)) (\<lambda>_. seen view A1) (\<lambda>_ _. True)"
    using seen_on_world [where A = "\<lambda>_. True" and B = A1, OF ensure_role_moves [OF t]] by (simp add: defs)
  have 2: "triple (seen view A1) (stepCreateDatabase s plan c) (\<lambda>_. seen view A2) (\<lambda>_ _. True)"
    by (rule seen_create [OF t b]) (simp add: defs)
  have 3: "triple (seen view A2) (on_world (ad_VerifyDatabaseAccess (svc_adapter s) c ?name)) (\<lambda>_. seen view A2) (\<lambda>_ _. True)"
    by (rule seen_on_world [OF tracks_ownership_calls(5) [OF t]])
  have 4: "triple (seen view A2) (on_world (TransferOwnership s c ?name ?role)) (\<lambda>_. seen view A4) (\<lambda>_ _. True)"
    by (rule seen_on_world [OF transfer_moves [OF t]]) (simp add: defs)
  have 5: "triple (seen view A4) (on_world (EnsureOwnerUser s c ?user ?role)) (\<lambda>_. seen view A5) (\<lambda>_ _. True)"
    by (rule seen_on_world [OF ensure_user_moves [OF t]]) (simp add: defs)
  have 6: "triple (seen view A5) (on_world (SetDefaultPrivileges ord s c ?name ?role ?user (pl_schemaNames plan)))
      (\<lambda>_. seen view (\<lambda>V. A5 V \<and> ?dflt \<subseteq> o_defaults V)) (\<lambda>_ _. True)"
    by (rule seen_on_world [OF set_defaults_moves [OF t ord]]) (simp add: defs)
  have 7: "triple (seen view A) (on_world (stepUpdateDatabase s plan c)) (\<lambda>_. seen view (provisioned plan)) (\<lambda>_ _. True)"
    if "\<And>V. A V \<Longrightarrow> provisioned plan V" for A
    by (rule seen_on_world [OF update_step_moves [OF t]]) (rule that)
  show ?thesis
  proof (cases "should_set_defaults (pl_spec plan)")
    case True
    then have "provisioned plan V" if "A5 V \<and> ?dflt \<subseteq> o_defaults V" for V
      using that by (simp add: provisioned_def defs)
    note last = 7 [where A = "\<lambda>V. A5 V \<and> ?dflt \<subseteq> o_defaults V", OF this]
    show ?thesis
      unfolding buildPipeline_def Let_def if_P [OF True] append.simps
      by (rule establishes_Cons [where P' = "seen view A1"], simp add: 1, rule establishes_Cons [where P' = "seen view A2"],
          simp add: 2, rule establishes_Cons [where P' = "seen view A2"], simp add: 3,
          rule establishes_Cons [where P' = "seen view A4"], simp add: 4,
          rule establishes_Cons [where P' = "seen view A5"], simp add: 5,
          rule establishes_Cons [where P' = "seen view (\<lambda>V. A5 V \<and> ?dflt \<subseteq> o_defaults V)"], simp add: 6,
          rule establishes_Cons [OF _ establishes_Nil], simp add: last)
  next
    case False
    then have "provisioned plan V" if "A5 V" for V using that by (simp add: provisioned_def defs)
    note last = 7 [where A = A5, OF this]
    show ?thesis
      unfolding buildPipeline_def Let_def if_not_P [OF False] append.simps
      by (rule establishes_Cons [where P' = "seen view A1"], simp add: 1, rule establishes_Cons [where P' = "seen view A2"],
          simp add: 2, rule establishes_Cons [where P' = "seen view A2"], simp add: 3,
          rule establishes_Cons [where P' = "seen view A4"], simp add: 4,
          rule establishes_Cons [where P' = "seen view A5"], simp add: 5,
          rule establishes_Cons [OF _ establishes_Nil], simp add: last)
  qed
qed

text \<open>
  C3: Automatic ownership delivers what it promises. For every adapter whose calls behave as
  documented and whatever order Go visits the schemas in, a successful \<^verbatim>\<open>CreateWithOwnership\<close>
  leaves the database in place and owned by the owner role, the owner role and the application user
  in existence, the user a member of the role, and, unless it is switched off, the default privileges
  of tables, sequences and functions set in both directions for the public schema and every schema of
  the spec; it returns the two names. A failed run returns no ownership result.
\<close>

theorem ownership_provisioned:
  assumes "tracks_ownership (svc_adapter s) view" and "svc_specBuilder s = GetSpecBuilder engine"
    and "range_order_ok ord"
  shows "case CreateWithOwnership ord s c (Some spec) w of
     (w', res, own, Some e) \<Rightarrow> own = None
   | (w', res, own, None) \<Rightarrow> (\<exists>p role user. ds_Postgres spec = Some p \<and> HasAutoOwnership spec \<and> res \<noteq> None \<and>
       role = DeriveRoleName (pdc_Ownership p) (ds_Name spec) \<and> user = DeriveUserName (pdc_Ownership p) (ds_Name spec) \<and>
       own = Some \<lparr>or_RoleName = role, or_UserName = user\<rparr> \<and>
       ds_Name spec \<in> o_dbs (view w') \<and> o_owner (view w') (ds_Name spec) = Some role \<and>
       role \<in> o_roles (view w') \<and> user \<in> o_roles (view w') \<and> (user, role) \<in> o_members (view w') \<and>
       (should_set_defaults spec \<longrightarrow>
          defaults_for (ds_Name spec) role user (insert ''public'' (ps_Name ` set (pdc_Schemas p))) \<subseteq> o_defaults (view w')))"
proof (cases "HasAutoOwnership spec")
  case False
  then show ?thesis by (simp add: CreateWithOwnership_def validateOwnershipCreate_def)
next
  case True
  then obtain p where p: "ds_Postgres spec = Some p" by (auto simp: HasAutoOwnership_def split: option.splits)
  let ?plan = "newOwnershipProvisionPlan spec p"
  let ?c = "op_ctx s c w"
  obtain w' r n err where run: "Pipeline_Run (buildPipeline ord s ?plan) ?c (w, None) = ((w', r), n, err)" by (metis prod.exhaust)
  have create: "CreateWithOwnership ord s c (Some spec) w = plan_run ord s ?plan ?c w"
    using True by (simp add: CreateWithOwnership_def validateOwnershipCreate_def p)
  have plan: "ds_Name (pl_spec ?plan) = ds_Name spec" "pl_roleName ?plan = DeriveRoleName (pdc_Ownership p) (ds_Name spec)"
    "pl_userName ?plan = DeriveUserName (pdc_Ownership p) (ds_Name spec)"
    "set (pl_schemaNames ?plan) = ps_Name ` set (pdc_Schemas p)" "should_set_defaults (pl_spec ?plan) = should_set_defaults spec"
    by (force simp: newOwnershipProvisionPlan_def Let_def collectSchemaNames_def should_set_defaults_def p)+
  show ?thesis
  proof (cases err)
    case (Some e)
    then show ?thesis by (simp add: create plan_run_def run)
  next
    case None
    then have "provisioned ?plan (view w')"
      using plan_provisions [OF assms, of ?plan ?c] run unfolding establishes_def Pipeline_Run_def by fastforce
    then show ?thesis
      using None True by (simp add: create plan_run_def run p provisioned_def plan)
  qed
qed

definition mem_view :: "mem \<Rightarrow> oview" where
  "mem_view w = \<lparr>o_dbs = fst ` set (m_databases w), o_owner = map_of (m_databases w), o_roles = set (m_roles w),
     o_members = set (m_members w), o_defaults = set (m_defaults w)\<rparr>"

lemma mem_tracks_ownership: "tracks_ownership mem_adapter mem_view"
  unfolding tracks_ownership_def triple_def mem_view_def
  by (auto simp: mem_defs map_put_dom map_of_put has_key_def)

definition ownership_spec :: DatabaseSpec where
  "ownership_spec = \<lparr>ds_Name = ''app'', ds_Owner = '''', ds_DeletionPolicy = '''', ds_DeletionProtection = False,
     ds_Postgres = Some \<lparr>pdc_Encoding = '''', pdc_LCCollate = '''', pdc_LCCtype = '''', pdc_Tablespace = '''',
       pdc_Template = '''', pdc_ConnectionLimit = 0, pdc_IsTemplate = False, pdc_AllowConnections = True,
       pdc_Extensions = [], pdc_Schemas = [], pdc_DefaultPrivileges = [],
       pdc_Ownership = Some \<lparr>poc_AutoOwnership = True, poc_RoleName = '''', poc_UserName = '''', poc_DropOnDelete = False,
         poc_SetDefaultPrivileges = None\<rparr>\<rparr>, ds_MySQL = None\<rparr>"

theorem ownership_provisioned_witness:
  "\<exists>w' r. CreateWithOwnership (\<lambda>m. m) (mem_service ''postgres'') \<lparr>ctx_deadline = None\<rparr> (Some ownership_spec) mem_init =
      (w', r, Some \<lparr>or_RoleName = ''db_app_owner'', or_UserName = ''db_app_app''\<rparr>, None) \<and>
    map_of (m_databases w') ''app'' = Some ''db_app_owner'' \<and> (''db_app_app'', ''db_app_owner'') \<in> set (m_members w') \<and>
    (''db_app_owner'', priv_opts ''app'' ''public'' ''db_app_app'' (''functions'', [''EXECUTE''])) \<in> set (m_defaults w')"
proof -
  let ?run = "CreateWithOwnership (\<lambda>m. m) (mem_service ''postgres'') \<lparr>ctx_deadline = None\<rparr> (Some ownership_spec) mem_init"
  have t: "tracks_ownership (svc_adapter (mem_service ''postgres'')) mem_view" using mem_tracks_ownership by simp
  have b: "svc_specBuilder (mem_service ''postgres'') = GetSpecBuilder ''postgres''"
    by (simp add: mem_service_def NewResourceServiceWithAdapter_def GetEngineType_def)
  have ord: "range_order_ok (\<lambda>m. m)" by (simp add: range_order_ok_def)
  have ok: "snd (snd (snd ?run)) = None" by code_simp
  obtain w' r own err where run: "?run = (w', r, own, err)" by (metis prod.exhaust)
  have err: "err = None" using ok by (simp only: run snd_conv)
  have names: "DeriveRoleName (pdc_Ownership (the (ds_Postgres ownership_spec))) (ds_Name ownership_spec) = ''db_app_owner''"
    "DeriveUserName (pdc_Ownership (the (ds_Postgres ownership_spec))) (ds_Name ownership_spec) = ''db_app_app''"
    "ds_Name ownership_spec = ''app''" "should_set_defaults ownership_spec" by code_simp+
  have fn: "(''db_app_owner'', priv_opts ''app'' ''public'' ''db_app_app'' (''functions'', [''EXECUTE'']))
      \<in> defaults_for ''app'' ''db_app_owner'' ''db_app_app'' (insert ''public'' (ps_Name ` set (pdc_Schemas (the (ds_Postgres ownership_spec)))))"
    by (simp add: defaults_for_def privDefs_def ownership_spec_def)
  from ownership_provisioned [OF t b ord, where c = "\<lparr>ctx_deadline = None\<rparr>" and spec = ownership_spec and w = mem_init] run err
  have "own = Some \<lparr>or_RoleName = ''db_app_owner'', or_UserName = ''db_app_app''\<rparr> \<and>
      map_of (m_databases w') ''app'' = Some ''db_app_owner'' \<and> (''db_app_app'', ''db_app_owner'') \<in> set (m_members w') \<and>
      defaults_for ''app'' ''db_app_owner'' ''db_app_app''
        (insert ''public'' (ps_Name ` set (pdc_Schemas (the (ds_Postgres ownership_spec))))) \<subseteq> set (m_defaults w')"
    using names by (auto simp: mem_view_def)
  then show ?thesis using run err fn by auto
qed

end
