(* ===== verification/Drift_Database.thy ===== *)
theory Drift_Database
  imports Drift Ownership
begin

text \<open>
  Drift of a database: \<^verbatim>\<open>internal/service/drift/database.go\<close>. The order in which Go visits the
  extensions of the spec is the argument \<open>ord\<close>.
\<close>

section \<open>Detection\<close>

definition deriveOwnershipRoleName :: "PostgresOwnershipConfig option \<Rightarrow> string \<Rightarrow> string" where
  "deriveOwnershipRoleName cfg dbName =
     (if (case cfg of None \<Rightarrow> False | Some c \<Rightarrow> poc_RoleName c \<noteq> '''') then poc_RoleName (the cfg)
      else
        (let name = ''db_'' @ dbName @ ''_owner''
         in if length name > 63 then take 63 name else name))"

fun versionDiff :: "string go_map \<Rightarrow> string \<times> string \<Rightarrow> Diff list" where
  "versionDiff actualMap (name, expectedVersion) =
     (if expectedVersion = '''' then []
      else (case map_of actualMap name of
              None \<Rightarrow> []
            | Some actualVersion \<Rightarrow>
                diff_if (actualVersion \<noteq> expectedVersion)
                  ((diff (''extensions.'' @ name @ ''.version'') expectedVersion actualVersion)\<lparr>df_Destructive := True\<rparr>)))"

definition compareExtensions ::
  "string range_order \<Rightarrow> PostgresExtension list \<Rightarrow> ExtensionInfo list \<Rightarrow> Diff list" where
  "compareExtensions ord expected actual =
     (let actualMap = map_puts (map (\<lambda>ext. (ei_Name ext, ei_Version ext)) actual);
          expectedMap = map_puts (map (\<lambda>ext. (pe_Name ext, pe_Version ext)) expected);
          missing = sort (map fst (filter (\<lambda>(name, _). \<not> has_key actualMap name) (ord expectedMap)))
      in diff_if (missing \<noteq> []) (diff ''extensions.missing'' (Join missing '', '') '''') @
         concat (map (versionDiff actualMap) (ord expectedMap)))"

definition compareSchemas :: "PostgresSchema list \<Rightarrow> string list \<Rightarrow> Diff list" where
  "compareSchemas expected actual =
     (let actualSet = map_puts (map (\<lambda>schema. (schema, True)) actual);
          missing = sort (map ps_Name (filter (\<lambda>schema. \<not> has_key actualSet (ps_Name schema)) expected))
      in diff_if (missing \<noteq> []) (diff ''schemas.missing'' (Join missing '', '') ''''))"

definition ownerDiff :: "DatabaseSpec \<Rightarrow> PostgresDatabaseConfig \<Rightarrow> DatabaseInfo \<Rightarrow> Diff list" where
  "ownerDiff spec pgSpec info =
     (if (case pdc_Ownership pgSpec of None \<Rightarrow> False | Some o' \<Rightarrow> poc_AutoOwnership o')
      then (let expectedRole = deriveOwnershipRoleName (pdc_Ownership pgSpec) (ds_Name spec)
            in diff_if (di_Owner info \<noteq> expectedRole) (diff ''owner'' expectedRole (di_Owner info)))
      else diff_if (ds_Owner spec \<noteq> '''' \<and> di_Owner info \<noteq> ds_Owner spec) (diff ''owner'' (ds_Owner spec) (di_Owner info)))"

definition connectionLimitDiff :: "PostgresDatabaseConfig \<Rightarrow> DatabaseInfo \<Rightarrow> Diff list" where
  "connectionLimitDiff pgSpec info =
     (case di_ConnectionLimit info of
        None \<Rightarrow> []
      | Some actual \<Rightarrow>
          diff_if (pdc_ConnectionLimit pgSpec \<noteq> 0 \<and> pdc_ConnectionLimit pgSpec \<noteq> actual)
            (diff ''connectionLimit'' (FormatInt (pdc_ConnectionLimit pgSpec)) (FormatInt actual)))"

definition detectPostgresDatabaseDrift ::
  "string range_order \<Rightarrow> DatabaseSpec \<Rightarrow> PostgresDatabaseConfig \<Rightarrow> DatabaseInfo \<Rightarrow> Diff list" where
  "detectPostgresDatabaseDrift ord spec pgSpec info =
     ownerDiff spec pgSpec info @
     diff_if (pdc_Encoding pgSpec \<noteq> '''' \<and> \<not> EqualFold (pdc_Encoding pgSpec) (di_Encoding info))
       ((diff ''encoding'' (pdc_Encoding pgSpec) (di_Encoding info))\<lparr>df_Immutable := True\<rparr>) @
     connectionLimitDiff pgSpec info @
     compareExtensions ord (pdc_Extensions pgSpec) (di_Extensions info) @
     compareSchemas (pdc_Schemas pgSpec) (di_Schemas info)"

definition detectMySQLDatabaseDrift :: "MySQLDatabaseConfig \<Rightarrow> DatabaseInfo \<Rightarrow> Diff list" where
  "detectMySQLDatabaseDrift mysqlSpec info =
     diff_if (mdc_Charset mysqlSpec \<noteq> '''' \<and> \<not> EqualFold (mdc_Charset mysqlSpec) (di_Charset info))
       (diff ''charset'' (mdc_Charset mysqlSpec) (di_Charset info)) @
     diff_if (mdc_Collation mysqlSpec \<noteq> '''' \<and> \<not> EqualFold (mdc_Collation mysqlSpec) (di_Collation info))
       (diff ''collation'' (mdc_Collation mysqlSpec) (di_Collation info))"

definition database_diffs :: "string range_order \<Rightarrow> DatabaseSpec \<Rightarrow> DatabaseInfo \<Rightarrow> Diff list" where
  "database_diffs ord spec info =
     (case ds_Postgres spec of None \<Rightarrow> [] | Some p \<Rightarrow> detectPostgresDatabaseDrift ord spec p info) @
     (case ds_MySQL spec of None \<Rightarrow> [] | Some m \<Rightarrow> detectMySQLDatabaseDrift m info)"

definition DetectDatabaseDrift ::
  "string range_order \<Rightarrow> 'w drift_Service \<Rightarrow> ctx \<Rightarrow> DatabaseSpec \<Rightarrow> ('w, DriftResult) op" where
  "DetectDatabaseDrift ord s c spec =
     detect_with s (ad_GetDatabaseInfo (dsv_adapter s) c (ds_Name spec)) ''get database info'' ''database'' (ds_Name spec)
       (database_diffs ord spec)"

section \<open>Correction\<close>

definition installMissingExtensions :: "'w drift_Service \<Rightarrow> ctx \<Rightarrow> DatabaseSpec \<Rightarrow> ('w, unit) op" where
  "installMissingExtensions s c spec =
     (case ds_Postgres spec of
        None \<Rightarrow> ret ()
      | Some p \<Rightarrow> ad_UpdateDatabase (dsv_adapter s) c (ds_Name spec)
          (empty_UpdateDatabaseOptions\<lparr>udo_Extensions := map (\<lambda>ext.
             \<lparr>eo_Name = pe_Name ext, eo_Schema = pe_Schema ext, eo_Version = pe_Version ext\<rparr>) (pdc_Extensions p)\<rparr>))"

definition updateExtensionVersion ::
  "'w drift_Service \<Rightarrow> ctx \<Rightarrow> string \<Rightarrow> string \<Rightarrow> string \<Rightarrow> ('w, unit) op" where
  "updateExtensionVersion s c dbName extName version =
     ad_UpdateDatabase (dsv_adapter s) c dbName
       (empty_UpdateDatabaseOptions\<lparr>udo_Extensions := [\<lparr>eo_Name = extName, eo_Schema = '''', eo_Version = version\<rparr>]\<rparr>)"

definition createMissingSchemas :: "'w drift_Service \<Rightarrow> ctx \<Rightarrow> DatabaseSpec \<Rightarrow> ('w, unit) op" where
  "createMissingSchemas s c spec =
     (case ds_Postgres spec of
        None \<Rightarrow> ret ()
      | Some p \<Rightarrow> ad_UpdateDatabase (dsv_adapter s) c (ds_Name spec)
          (empty_UpdateDatabaseOptions\<lparr>udo_Schemas := map (\<lambda>schema.
             \<lparr>so_Name = ps_Name schema, so_Owner = ps_Owner schema\<rparr>) (pdc_Schemas p)\<rparr>))"

definition correctMySQLCharset :: "'w drift_Service \<Rightarrow> ctx \<Rightarrow> DatabaseSpec \<Rightarrow> ('w, unit) op" where
  "correctMySQLCharset s c spec =
     (case ds_MySQL spec of
        None \<Rightarrow> ret ()
      | Some m \<Rightarrow> ad_UpdateDatabase (dsv_adapter s) c (ds_Name spec)
          (empty_UpdateDatabaseOptions\<lparr>udo_Charset := mdc_Charset m, udo_Collation := mdc_Collation m\<rparr>))"

definition unsupported_field :: "string \<Rightarrow> go_error" where
  "unsupported_field field = OtherError (''unsupported drift correction for field: '' @ field) None"

definition applyDatabaseCorrection :: "'w drift_Service \<Rightarrow> ctx \<Rightarrow> DatabaseSpec \<Rightarrow> 'w correction" where
  "applyDatabaseCorrection s c spec d =
     (let field = df_Field d
      in if field = ''owner''
         then Some (ad_TransferDatabaseOwnership (dsv_adapter s) c (ds_Name spec) (df_Expected d))
         else if field = ''connectionLimit''
         then (case ds_Postgres spec of
                 None \<Rightarrow> None
               | Some p \<Rightarrow> Some (ad_UpdateDatabase (dsv_adapter s) c (ds_Name spec)
                   (empty_UpdateDatabaseOptions\<lparr>udo_ConnectionLimit := Some (pdc_ConnectionLimit p)\<rparr>)))
         else if HasPrefix field ''extensions.missing'' then Some (installMissingExtensions s c spec)
         else if HasPrefix field ''extensions.'' \<and> HasSuffix field ''.version''
         then Some (updateExtensionVersion s c (ds_Name spec)
                (TrimPrefix (TrimSuffix field ''.version'') ''extensions.'') (df_Expected d))
         else if HasPrefix field ''schemas.missing'' then Some (createMissingSchemas s c spec)
         else if field = ''charset'' \<or> field = ''collation'' then Some (correctMySQLCharset s c spec)
         else Some (fail (unsupported_field field)))"

definition CorrectDatabaseDrift ::
  "'w drift_Service \<Rightarrow> ctx \<Rightarrow> DatabaseSpec \<Rightarrow> Diff list \<Rightarrow> 'w \<Rightarrow> ('w \<times> CorrectionResult) option" where
  "CorrectDatabaseDrift s c spec ds =
     correct_diffs (dsv_AllowDestructive s) ''destructive correction not allowed (set annotation to enable)''
       (applyDatabaseCorrection s c spec) ds (NewCorrectionResult (ds_Name spec))"

section \<open>What detection reports\<close>

lemma diff_fields [simp]:
  "df_Field (diff f e a) = f" "df_Destructive (diff f e a) = False" "df_Immutable (diff f e a) = False"
  by (simp_all add: diff_def)

lemma defined_applyDatabaseCorrection:
  "d \<in> set (database_diffs ord spec info) \<Longrightarrow> applyDatabaseCorrection s c spec d \<noteq> None"
  unfolding applyDatabaseCorrection_def database_diffs_def detectMySQLDatabaseDrift_def
  by (auto simp: Let_def split: option.splits if_splits)

interpretation db_drift: drift_kind "database_diffs ord spec" "applyDatabaseCorrection s c spec" "CorrectDatabaseDrift s c spec"
    "dsv_AllowDestructive s" "''destructive correction not allowed (set annotation to enable)''" "ds_Name spec"
  for ord s c spec
  by unfold_locales (auto simp: CorrectDatabaseDrift_def dest: defined_applyDatabaseCorrection)

text \<open>
  The state of a database that needs no change: what the sections of the spec ask for, independent of
  the maps and loops of the code.
\<close>

definition last_version :: "PostgresExtension list \<Rightarrow> string \<Rightarrow> string option" where
  "last_version exts = map_of (rev (map (\<lambda>ext. (pe_Name ext, pe_Version ext)) exts))"

definition installed_version :: "ExtensionInfo list \<Rightarrow> string \<Rightarrow> string option" where
  "installed_version exts = map_of (rev (map (\<lambda>ext. (ei_Name ext, ei_Version ext)) exts))"

definition pg_in_line :: "DatabaseSpec \<Rightarrow> PostgresDatabaseConfig \<Rightarrow> DatabaseInfo \<Rightarrow> bool" where
  "pg_in_line spec p info \<longleftrightarrow>
     (if HasAutoOwnership (spec\<lparr>ds_Postgres := Some p\<rparr>) then di_Owner info = DeriveRoleName (pdc_Ownership p) (ds_Name spec)
      else ds_Owner spec = '''' \<or> di_Owner info = ds_Owner spec) \<and>
     (pdc_Encoding p = '''' \<or> EqualFold (pdc_Encoding p) (di_Encoding info)) \<and>
     (pdc_ConnectionLimit p = 0 \<or> di_ConnectionLimit info = None \<or> di_ConnectionLimit info = Some (pdc_ConnectionLimit p)) \<and>
     pe_Name ` set (pdc_Extensions p) \<subseteq> ei_Name ` set (di_Extensions info) \<and>
     (\<forall>name v. last_version (pdc_Extensions p) name = Some v \<longrightarrow> v = '''' \<or> installed_version (di_Extensions info) name = Some v) \<and>
     ps_Name ` set (pdc_Schemas p) \<subseteq> set (di_Schemas info)"

definition mysql_in_line :: "MySQLDatabaseConfig \<Rightarrow> DatabaseInfo \<Rightarrow> bool" where
  "mysql_in_line m info \<longleftrightarrow>
     (mdc_Charset m = '''' \<or> EqualFold (mdc_Charset m) (di_Charset info)) \<and>
     (mdc_Collation m = '''' \<or> EqualFold (mdc_Collation m) (di_Collation info))"

lemma derived_role_names: "deriveOwnershipRoleName cfg dbName = DeriveRoleName cfg dbName"
  by (auto simp: deriveOwnershipRoleName_def DeriveRoleName_def truncateIdentifier_def Let_def split: option.splits)

lemma sort_empty [simp]: "sort xs = [] \<longleftrightarrow> xs = []"
  by (metis set_empty set_sort)

lemma filter_map_empty: "map f (filter P xs) = [] \<longleftrightarrow> (\<forall>x \<in> set xs. \<not> P x)"
  by (simp add: filter_empty_conv)

lemma set_map_puts: "(k, v) \<in> set (map_puts kvs) \<longleftrightarrow> map_of (rev kvs) k = Some v"
  using map_puts_distinct [of kvs] map_puts_lookup [of kvs] by (metis map_of_eq_Some_iff)

lemma compareExtensions_empty:
  assumes "range_order_ok ord"
  shows "compareExtensions ord expected actual = [] \<longleftrightarrow>
    pe_Name ` set expected \<subseteq> ei_Name ` set actual \<and>
    (\<forall>name v. last_version expected name = Some v \<longrightarrow> v = '''' \<or> installed_version actual name = Some v)"
    (is "_ \<longleftrightarrow> ?names \<and> ?versions")
proof -
  let ?E = "map_puts (map (\<lambda>ext. (pe_Name ext, pe_Version ext)) expected)"
  let ?A = "map_puts (map (\<lambda>ext. (ei_Name ext, ei_Version ext)) actual)"
  have look: "map_of ?A = installed_version actual"
    by (simp add: map_puts_lookup installed_version_def)
  have keys: "has_key ?A n \<longleftrightarrow> n \<in> ei_Name ` set actual" for n by (force simp: image_iff)
  have dom: "installed_version actual n = None \<longleftrightarrow> n \<notin> ei_Name ` set actual" for n
    by (force simp: installed_version_def map_of_eq_None_iff image_iff)
  have names: "fst ` set ?E = pe_Name ` set expected"
    using map_puts_keys [of "map (\<lambda>ext. (pe_Name ext, pe_Version ext)) expected"] by (simp add: image_image)
  have E: "(n, v) \<in> set ?E \<longleftrightarrow> last_version expected n = Some v" for n v
    by (simp add: set_map_puts last_version_def)
  have set: "set (ord ?E) = set ?E" by (rule range_order_set [OF assms])
  have 1: "sort (map fst (filter (\<lambda>(name, u). \<not> has_key ?A name) (ord ?E))) = [] \<longleftrightarrow> ?names"
    unfolding sort_empty filter_map_empty set keys names [symmetric] by auto
  have vd: "versionDiff ?A (n, v) = [] \<longleftrightarrow> v = '''' \<or> installed_version actual n \<in> {None, Some v}" for n v
    by (auto simp: look diff_if_def split: option.splits)
  have 2: "(\<forall>x \<in> set ?E. versionDiff ?A x = []) \<longleftrightarrow> ?versions" if "?names"
  proof -
    have inst: "installed_version actual n \<noteq> None" if "(n, v) \<in> set ?E" for n v
    proof -
      have "n \<in> fst ` set ?E" using that by (rule image_eqI [where x = "(n, v)", rotated]) simp
      then show ?thesis using \<open>?names\<close> unfolding names dom by (simp only: subset_iff not_not)
    qed
    have "(\<forall>x \<in> set ?E. versionDiff ?A x = []) \<longleftrightarrow> (\<forall>(n, v) \<in> set ?E. v = '''' \<or> installed_version actual n = Some v)"
      by (intro ball_cong refl) (use inst vd in \<open>fastforce simp del: versionDiff.simps\<close>)
    also have "\<dots> \<longleftrightarrow> ?versions" by (auto simp: E) blast
    finally show ?thesis .
  qed
  have "compareExtensions ord expected actual = [] \<longleftrightarrow>
      sort (map fst (filter (\<lambda>(name, u). \<not> has_key ?A name) (ord ?E))) = [] \<and> (\<forall>x \<in> set ?E. versionDiff ?A x = [])"
    unfolding compareExtensions_def Let_def append_is_Nil_conv concat_eq_Nil_conv set_map set
    by (simp add: diff_if_def del: versionDiff.simps has_key_puts sort_empty)
  then show ?thesis using 1 2 by blast
qed

lemma compareSchemas_empty: "compareSchemas expected actual = [] \<longleftrightarrow> ps_Name ` set expected \<subseteq> set actual"
  unfolding compareSchemas_def Let_def by (auto simp: diff_if_def filter_empty_conv image_iff)

lemma ownerDiff_empty: "ownerDiff spec p info = [] \<longleftrightarrow>
  (if HasAutoOwnership (spec\<lparr>ds_Postgres := Some p\<rparr>) then di_Owner info = DeriveRoleName (pdc_Ownership p) (ds_Name spec)
   else ds_Owner spec = '''' \<or> di_Owner info = ds_Owner spec)"
  by (auto simp: ownerDiff_def diff_if_def HasAutoOwnership_def Let_def derived_role_names split: option.splits)

text \<open>
  C15: drift detection of a database is exact. It reports nothing exactly when the
  server's state is what the spec asks for: the owner (the role of the ownership plan, under the name
  that provisioning gives it, when ownership is automatic), encoding, connection limit, extensions
  with their versions, schemas, character set and collation; and which differences it reports does
  not depend on the order in which Go visits its maps.
\<close>

theorem database_drift_exact:
  assumes "range_order_ok ord" and "range_order_ok ord'"
  shows "(database_diffs ord spec info = [] \<longleftrightarrow>
      (\<forall>p. ds_Postgres spec = Some p \<longrightarrow> pg_in_line spec p info) \<and>
      (\<forall>m. ds_MySQL spec = Some m \<longrightarrow> mysql_in_line m info)) \<and>
    mset (database_diffs ord spec info) = mset (database_diffs ord' spec info)"
proof -
  have pg: "detectPostgresDatabaseDrift ord spec p info = [] \<longleftrightarrow> pg_in_line spec p info" for p
    unfolding detectPostgresDatabaseDrift_def pg_in_line_def append_is_Nil_conv ownerDiff_empty
      compareExtensions_empty [OF assms(1)] compareSchemas_empty
    by (auto simp: diff_if_def connectionLimitDiff_def split: option.splits)
  have my: "detectMySQLDatabaseDrift m info = [] \<longleftrightarrow> mysql_in_line m info" for m
    by (auto simp: detectMySQLDatabaseDrift_def mysql_in_line_def diff_if_def)
  have ext: "mset (compareExtensions ord x y) = mset (compareExtensions ord' x y)" for x y
    unfolding compareExtensions_def Let_def mset_append sorted_collect_order_irrelevant [OF assms(1)]
      sorted_collect_order_irrelevant [OF assms(2)]
    using assms by (intro arg_cong2 [where f = "(+)"] refl concat_map_mset) (simp add: range_order_ok_def)
  have pgset: "mset (detectPostgresDatabaseDrift ord spec p info) = mset (detectPostgresDatabaseDrift ord' spec p info)" for p
    by (simp add: detectPostgresDatabaseDrift_def ext)
  show ?thesis
    by (auto simp: database_diffs_def pg my pgset split: option.splits)
qed

definition drift_db_spec :: DatabaseSpec where
  "drift_db_spec = ownership_spec\<lparr>ds_Postgres := map_option (\<lambda>p. p\<lparr>pdc_Extensions :=
     [\<lparr>pe_Name = ''hstore'', pe_Schema = '''', pe_Version = ''1.8''\<rparr>, \<lparr>pe_Name = ''citext'', pe_Schema = '''', pe_Version = ''''\<rparr>]\<rparr>)
     (ds_Postgres ownership_spec)\<rparr>"

definition drift_db_info :: DatabaseInfo where
  "drift_db_info = \<lparr>di_Name = ''app'', di_Owner = ''db_app_owner'', di_SizeBytes = 0, di_Encoding = ''UTF8'',
     di_Collation = '''', di_Extensions = [\<lparr>ei_Name = ''citext'', ei_Version = ''1.6''\<rparr>, \<lparr>ei_Name = ''hstore'', ei_Version = ''1.8''\<rparr>],
     di_Schemas = [''public''], di_ConnectionLimit = None, di_Charset = ''''\<rparr>"

theorem database_drift_exact_witness:
  "pg_in_line drift_db_spec (the (ds_Postgres drift_db_spec)) drift_db_info \<and>
   mset (database_diffs (\<lambda>m. m) drift_db_spec drift_db_info) = mset (database_diffs rev drift_db_spec drift_db_info)"
proof -
  have "database_diffs (\<lambda>m. m) drift_db_spec drift_db_info = []" by code_simp
  moreover have "ds_Postgres drift_db_spec = Some (the (ds_Postgres drift_db_spec))" by code_simp
  ultimately show ?thesis
    using database_drift_exact [OF range_order_id range_order_rev, where spec = drift_db_spec and info = drift_db_info]
    by blast
qed

end
