(* ===== verification/Drift_Account.thy ===== *)
theory Drift_Account
  imports Drift_Database
begin

text \<open>
  Drift of roles and users: \<^verbatim>\<open>internal/service/drift/role.go\<close> and
  \<^verbatim>\<open>internal/service/drift/user.go\<close>.
\<close>

section \<open>Roles\<close>

text \<open>
  \<^verbatim>\<open>compareRoleRoleMemberships\<close> of \<^verbatim>\<open>role.go\<close> and \<^verbatim>\<open>compareRoleMemberships\<close> of
  \<^verbatim>\<open>user.go\<close> are the same code.
\<close>

definition role_set :: "string list \<Rightarrow> bool go_map" where
  "role_set roles = map_puts (map (\<lambda>role. (role, True)) roles)"

definition compareRoleMemberships :: "bool range_order \<Rightarrow> string list \<Rightarrow> string list \<Rightarrow> Diff list" where
  "compareRoleMemberships ord expected actual =
     (let expectedSet = role_set expected; actualSet = role_set actual;
          missing = sort (map fst (filter (\<lambda>(role, _). \<not> has_key actualSet role) (ord expectedSet)));
          extra = sort (map fst (filter (\<lambda>(role, _). \<not> has_key expectedSet role) (ord actualSet)))
      in diff_if (missing \<noteq> []) (diff ''inRoles.missing'' (Join missing '', '') '''') @
         diff_if (extra \<noteq> []) ((diff ''inRoles.extra'' '''' (Join extra '', ''))\<lparr>df_Destructive := True\<rparr>))"

definition attributeDiff :: "string \<Rightarrow> bool \<Rightarrow> bool \<Rightarrow> bool \<Rightarrow> Diff list" where
  "attributeDiff field expected actual destructive =
     diff_if (expected \<noteq> actual) ((diff field (FormatBool expected) (FormatBool actual))\<lparr>df_Destructive := destructive\<rparr>)"

definition detectPostgresRoleDrift :: "bool range_order \<Rightarrow> PostgresRoleConfig \<Rightarrow> RoleInfo \<Rightarrow> Diff list" where
  "detectPostgresRoleDrift ord pgSpec info =
     attributeDiff ''login'' (prc_Login pgSpec) (ri_Login info) (ri_Login info) @
     attributeDiff ''inherit'' (prc_Inherit pgSpec) (ri_Inherit info) False @
     attributeDiff ''createdb'' (prc_CreateDB pgSpec) (ri_CreateDB info) False @
     attributeDiff ''createrole'' (prc_CreateRole pgSpec) (ri_CreateRole info) False @
     attributeDiff ''superuser'' (prc_Superuser pgSpec) (ri_Superuser info) True @
     attributeDiff ''replication'' (prc_Replication pgSpec) (ri_Replication info) (ri_Replication info) @
     attributeDiff ''bypassrls'' (prc_BypassRLS pgSpec) (ri_BypassRLS info) (ri_BypassRLS info) @
     compareRoleMemberships ord (prc_InRoles pgSpec) (ri_InRoles info)"

definition role_diffs :: "bool range_order \<Rightarrow> DatabaseRoleSpec \<Rightarrow> RoleInfo \<Rightarrow> Diff list" where
  "role_diffs ord spec info = (case rs_Postgres spec of None \<Rightarrow> [] | Some p \<Rightarrow> detectPostgresRoleDrift ord p info)"

definition DetectRoleDrift ::
  "bool range_order \<Rightarrow> 'w drift_Service \<Rightarrow> ctx \<Rightarrow> DatabaseRoleSpec \<Rightarrow> ('w, DriftResult) op" where
  "DetectRoleDrift ord s c spec =
     detect_with s (ad_GetRoleInfo (dsv_adapter s) c (rs_RoleName spec)) ''get role info'' ''role'' (rs_RoleName spec)
       (role_diffs ord spec)"

definition roleAttributeOptions :: "PostgresRoleConfig \<Rightarrow> string \<Rightarrow> UpdateRoleOptions option" where
  "roleAttributeOptions p field =
     (if field = ''login'' then Some (empty_UpdateRoleOptions\<lparr>uro_Login := Some (prc_Login p)\<rparr>)
      else if field = ''inherit'' then Some (empty_UpdateRoleOptions\<lparr>uro_Inherit := Some (prc_Inherit p)\<rparr>)
      else if field = ''createdb'' then Some (empty_UpdateRoleOptions\<lparr>uro_CreateDB := Some (prc_CreateDB p)\<rparr>)
      else if field = ''createrole'' then Some (empty_UpdateRoleOptions\<lparr>uro_CreateRole := Some (prc_CreateRole p)\<rparr>)
      else if field = ''superuser'' then Some (empty_UpdateRoleOptions\<lparr>uro_Superuser := Some (prc_Superuser p)\<rparr>)
      else if field = ''replication'' then Some (empty_UpdateRoleOptions\<lparr>uro_Replication := Some (prc_Replication p)\<rparr>)
      else if field = ''bypassrls'' then Some (empty_UpdateRoleOptions\<lparr>uro_BypassRLS := Some (prc_BypassRLS p)\<rparr>)
      else None)"

definition updateRoleAttribute :: "'w drift_Service \<Rightarrow> ctx \<Rightarrow> DatabaseRoleSpec \<Rightarrow> string \<Rightarrow> ('w, unit) op" where
  "updateRoleAttribute s c spec field =
     (case rs_Postgres spec of
        None \<Rightarrow> ret ()
      | Some p \<Rightarrow>
          (case roleAttributeOptions p field of
             None \<Rightarrow> fail (OtherError (''unknown role attribute: '' @ field) None)
           | Some opts \<Rightarrow> ad_UpdateRole (dsv_adapter s) c (rs_RoleName spec) opts))"

definition updateRoleRoles :: "'w drift_Service \<Rightarrow> ctx \<Rightarrow> DatabaseRoleSpec \<Rightarrow> ('w, unit) op" where
  "updateRoleRoles s c spec =
     (case rs_Postgres spec of
        None \<Rightarrow> ret ()
      | Some p \<Rightarrow> if prc_InRoles p \<noteq> [] then ad_GrantRole (dsv_adapter s) c (rs_RoleName spec) (prc_InRoles p) else ret ())"

definition applyRoleCorrection :: "'w drift_Service \<Rightarrow> ctx \<Rightarrow> DatabaseRoleSpec \<Rightarrow> 'w correction" where
  "applyRoleCorrection s c spec d =
     Some (let field = df_Field d
           in if field = ''login'' \<or> field = ''inherit'' \<or> field = ''createdb'' \<or> field = ''createrole'' \<or>
                 field = ''superuser'' \<or> field = ''replication'' \<or> field = ''bypassrls''
              then updateRoleAttribute s c spec field
              else if HasPrefix field ''inRoles'' then updateRoleRoles s c spec
              else fail (unsupported_field field))"

definition CorrectRoleDrift ::
  "'w drift_Service \<Rightarrow> ctx \<Rightarrow> DatabaseRoleSpec \<Rightarrow> Diff list \<Rightarrow> 'w \<Rightarrow> ('w \<times> CorrectionResult) option" where
  "CorrectRoleDrift s c spec ds =
     correct_diffs (dsv_AllowDestructive s) ''destructive correction not allowed''
       (applyRoleCorrection s c spec) ds (NewCorrectionResult (rs_RoleName spec))"

section \<open>Users\<close>

definition detectPostgresUserDrift :: "bool range_order \<Rightarrow> PostgresUserConfig \<Rightarrow> UserInfo \<Rightarrow> Diff list" where
  "detectPostgresUserDrift ord pgSpec info =
     diff_if (puc_ConnectionLimit pgSpec \<noteq> ui_ConnectionLimit info)
       (diff ''connectionLimit'' (FormatInt (puc_ConnectionLimit pgSpec)) (FormatInt (ui_ConnectionLimit info))) @
     attributeDiff ''superuser'' (puc_Superuser pgSpec) (ui_Superuser info) True @
     attributeDiff ''createdb'' (puc_CreateDB pgSpec) (ui_CreateDB info) False @
     attributeDiff ''createrole'' (puc_CreateRole pgSpec) (ui_CreateRole info) False @
     attributeDiff ''inherit'' (puc_Inherit pgSpec) (ui_Inherit info) False @
     attributeDiff ''replication'' (puc_Replication pgSpec) (ui_Replication info) (ui_Replication info) @
     attributeDiff ''bypassrls'' (puc_BypassRLS pgSpec) (ui_BypassRLS info) (ui_BypassRLS info) @
     compareRoleMemberships ord (puc_InRoles pgSpec) (ui_InRoles info)"

definition user_diffs :: "bool range_order \<Rightarrow> DatabaseUserSpec \<Rightarrow> UserInfo \<Rightarrow> Diff list" where
  "user_diffs ord spec info = (case us_Postgres spec of None \<Rightarrow> [] | Some p \<Rightarrow> detectPostgresUserDrift ord p info)"

definition DetectUserDrift ::
  "bool range_order \<Rightarrow> 'w drift_Service \<Rightarrow> ctx \<Rightarrow> DatabaseUserSpec \<Rightarrow> ('w, DriftResult) op" where
  "DetectUserDrift ord s c spec =
     detect_with s (ad_GetUserInfo (dsv_adapter s) c (us_Username spec)) ''get user info'' ''user'' (us_Username spec)
       (user_diffs ord spec)"

definition userAttributeOptions :: "PostgresUserConfig \<Rightarrow> UpdateUserOptions" where
  "userAttributeOptions p = empty_UpdateUserOptions\<lparr>uuo_ConnectionLimit := Some (puc_ConnectionLimit p),
     uuo_Superuser := Some (puc_Superuser p), uuo_CreateDB := Some (puc_CreateDB p),
     uuo_CreateRole := Some (puc_CreateRole p), uuo_Inherit := Some (puc_Inherit p),
     uuo_Replication := Some (puc_Replication p), uuo_BypassRLS := Some (puc_BypassRLS p)\<rparr>"

definition updateUserAttributes :: "'w drift_Service \<Rightarrow> ctx \<Rightarrow> DatabaseUserSpec \<Rightarrow> ('w, unit) op" where
  "updateUserAttributes s c spec =
     (case us_Postgres spec of
        None \<Rightarrow> ret ()
      | Some p \<Rightarrow> ad_UpdateUser (dsv_adapter s) c (us_Username spec) (userAttributeOptions p))"

definition updateUserRoles :: "'w drift_Service \<Rightarrow> ctx \<Rightarrow> DatabaseUserSpec \<Rightarrow> ('w, unit) op" where
  "updateUserRoles s c spec =
     (case us_Postgres spec of
        None \<Rightarrow> ret ()
      | Some p \<Rightarrow> if puc_InRoles p \<noteq> [] then ad_GrantRole (dsv_adapter s) c (us_Username spec) (puc_InRoles p) else ret ())"

definition applyUserCorrection :: "'w drift_Service \<Rightarrow> ctx \<Rightarrow> DatabaseUserSpec \<Rightarrow> 'w correction" where
  "applyUserCorrection s c spec d =
     Some (let field = df_Field d
           in if field = ''connectionLimit'' \<or> field = ''superuser'' \<or> field = ''createdb'' \<or> field = ''createrole'' \<or>
                 field = ''inherit'' \<or> field = ''replication'' \<or> field = ''bypassrls''
              then updateUserAttributes s c spec
              else if HasPrefix field ''inRoles'' then updateUserRoles s c spec
              else fail (unsupported_field field))"

definition CorrectUserDrift ::
  "'w drift_Service \<Rightarrow> ctx \<Rightarrow> DatabaseUserSpec \<Rightarrow> Diff list \<Rightarrow> 'w \<Rightarrow> ('w \<times> CorrectionResult) option" where
  "CorrectUserDrift s c spec ds =
     correct_diffs (dsv_AllowDestructive s) ''destructive correction not allowed''
       (applyUserCorrection s c spec) ds (NewCorrectionResult (us_Username spec))"

section \<open>Detection of role and user drift\<close>

lemma attributeDiff_set [simp]:
  "df_Field ` set (attributeDiff f e a d) = (if e = a then {} else {f})"
  "x \<in> set (attributeDiff f e a d) \<Longrightarrow> \<not> df_Immutable x"
  by (auto simp: attributeDiff_def split: if_splits)

lemma role_set_keys [simp]: "fst ` set (role_set rs) = set rs" "has_key (role_set rs) r \<longleftrightarrow> r \<in> set rs"
  using map_puts_keys [of "map (\<lambda>role. (role, True)) rs"] by (auto simp: role_set_def image_image)

lemma fst_filter_set: "fst ` {x \<in> S. case x of (r, u) \<Rightarrow> P r} = {r \<in> fst ` S. P r}"
  by force

lemma collected_roles:
  assumes "range_order_ok ord"
  shows "set (sort (map fst (filter (\<lambda>(role, u). \<not> has_key (role_set bs) role) (ord (role_set as))))) = set as - set bs"
proof -
  have "set (sort (map fst (filter (\<lambda>(role, u). \<not> has_key (role_set bs) role) (ord (role_set as))))) =
      {r \<in> fst ` set (role_set as). \<not> has_key (role_set bs) r}"
    by (simp only: set_sort set_map set_filter range_order_set [OF assms] fst_filter_set)
  then show ?thesis by auto
qed

lemma sort_Nil_set: "sort xs = [] \<longleftrightarrow> set (sort xs) = {}"
  by simp

lemma compareRoleMemberships_fields:
  assumes "range_order_ok ord"
  shows "df_Field ` set (compareRoleMemberships ord expected actual) =
     (if set expected \<subseteq> set actual then {} else {''inRoles.missing''}) \<union>
     (if set actual \<subseteq> set expected then {} else {''inRoles.extra''})"
  unfolding compareRoleMemberships_def Let_def set_append image_Un sort_Nil_set collected_roles [OF assms] diff_if_set
  by auto

lemma compareRoleMemberships_eligible:
  "d \<in> set (compareRoleMemberships ord expected actual) \<Longrightarrow>
     \<not> df_Immutable d \<and> (df_Destructive d \<longleftrightarrow> df_Field d = ''inRoles.extra'')"
  unfolding compareRoleMemberships_def Let_def by (auto split: if_splits)

interpretation role_drift: drift_kind "role_diffs ord spec" "applyRoleCorrection s c spec" "CorrectRoleDrift s c spec"
    "dsv_AllowDestructive s" "''destructive correction not allowed''" "rs_RoleName spec"
  for ord s c spec
  by unfold_locales (simp_all add: CorrectRoleDrift_def applyRoleCorrection_def)

interpretation user_drift: drift_kind "user_diffs ord spec" "applyUserCorrection s c spec" "CorrectUserDrift s c spec"
    "dsv_AllowDestructive s" "''destructive correction not allowed''" "us_Username spec"
  for ord s c spec
  by unfold_locales (simp_all add: CorrectUserDrift_def applyUserCorrection_def)

section \<open>Correction of roles\<close>

text \<open>
  What the interface documents of the calls that drift correction makes on a role: reading it changes
  nothing, an update sets the attributes that are given and leaves the others, and a role grant adds
  memberships.
\<close>

definition pick :: "'a option \<Rightarrow> 'a \<Rightarrow> 'a" where
  "pick x y = (case x of None \<Rightarrow> y | Some z \<Rightarrow> z)"

definition role_updated :: "UpdateRoleOptions \<Rightarrow> RoleInfo \<Rightarrow> RoleInfo \<Rightarrow> bool" where
  "role_updated opts i i' \<longleftrightarrow>
     ri_Login i' = pick (uro_Login opts) (ri_Login i) \<and> ri_Inherit i' = pick (uro_Inherit opts) (ri_Inherit i) \<and>
     ri_CreateDB i' = pick (uro_CreateDB opts) (ri_CreateDB i) \<and> ri_CreateRole i' = pick (uro_CreateRole opts) (ri_CreateRole i) \<and>
     ri_Superuser i' = pick (uro_Superuser opts) (ri_Superuser i) \<and>
     ri_Replication i' = pick (uro_Replication opts) (ri_Replication i) \<and>
     ri_BypassRLS i' = pick (uro_BypassRLS opts) (ri_BypassRLS i) \<and>
     set (ri_InRoles i') = set (ri_InRoles i)"

definition role_joined :: "string list \<Rightarrow> RoleInfo \<Rightarrow> RoleInfo \<Rightarrow> bool" where
  "role_joined roles i i' \<longleftrightarrow> role_updated empty_UpdateRoleOptions (i\<lparr>ri_InRoles := ri_InRoles i @ roles\<rparr>) i'"

definition tracks_role_infos :: "'w adapter \<Rightarrow> ('w \<Rightarrow> string \<Rightarrow> RoleInfo option) \<Rightarrow> bool" where
  "tracks_role_infos a view \<longleftrightarrow>
     (\<forall>c n w w' i. ad_GetRoleInfo a c n w = (w', Inr i) \<longrightarrow> view w n = Some i \<and> view w' = view w) \<and>
     (\<forall>c n opts w w' u. ad_UpdateRole a c n opts w = (w', Inr u) \<and> uro_InRoles opts = [] \<and> uro_Grants opts = [] \<and>
        uro_AddGrants opts = [] \<and> uro_RemoveGrants opts = [] \<longrightarrow> rel_option (role_updated opts) (view w n) (view w' n)) \<and>
     (\<forall>c n roles w w' u. ad_GrantRole a c n roles w = (w', Inr u) \<longrightarrow> rel_option (role_joined roles) (view w n) (view w' n))"

text \<open>
  Which fields of a role differ from the spec, as a table, and the effect of one correction on it.
\<close>

definition role_drifts :: "PostgresRoleConfig \<Rightarrow> RoleInfo \<Rightarrow> (string \<times> bool) list" where
  "role_drifts p i =
     [(''login'', prc_Login p \<noteq> ri_Login i), (''inherit'', prc_Inherit p \<noteq> ri_Inherit i),
      (''createdb'', prc_CreateDB p \<noteq> ri_CreateDB i), (''createrole'', prc_CreateRole p \<noteq> ri_CreateRole i),
      (''superuser'', prc_Superuser p \<noteq> ri_Superuser i), (''replication'', prc_Replication p \<noteq> ri_Replication i),
      (''bypassrls'', prc_BypassRLS p \<noteq> ri_BypassRLS i),
      (''inRoles.missing'', \<not> set (prc_InRoles p) \<subseteq> set (ri_InRoles i)),
      (''inRoles.extra'', \<not> set (ri_InRoles i) \<subseteq> set (prc_InRoles p))]"

definition drifted :: "(string \<times> bool) list \<Rightarrow> string \<Rightarrow> bool" where
  "drifted tab f \<longleftrightarrow> map_of tab f = Some True"

lemma drifted_fields:
  assumes "distinct (map fst tab)"
  shows "{f. drifted tab f} = (\<Union>(f, b) \<in> set tab. if b then {f} else {})"
  using assms by (auto simp: drifted_def split: if_splits)

lemma role_drifts_distinct: "distinct (map fst (role_drifts p i))"
  by (simp add: role_drifts_def)

lemma flip_if: "(if \<not> b then x else y) = (if b then y else x)"
  by simp

lemma role_diffs_fields:
  assumes "range_order_ok ord" and "rs_Postgres spec = Some p"
  shows "df_Field ` set (role_diffs ord spec i) = {f. drifted (role_drifts p i) f}"
  unfolding drifted_fields [OF role_drifts_distinct]
  by (simp only: role_diffs_def assms(2) option.case detectPostgresRoleDrift_def set_append image_Un attributeDiff_set(1)
      compareRoleMemberships_fields [OF assms(1)] role_drifts_def list.set UN_insert UN_empty prod.case flip_if
      Un_empty_right Un_assoc)

lemma role_attribute_step:
  assumes "roleAttributeOptions p f = Some opts" and "role_updated opts i1 i2"
  shows "drifted (role_drifts p i2) g \<longleftrightarrow> drifted (role_drifts p i1) g \<and> g \<noteq> f"
proof -
  have "f \<in> {''login'', ''inherit'', ''createdb'', ''createrole'', ''superuser'', ''replication'', ''bypassrls''}"
    using assms(1) by (simp add: roleAttributeOptions_def split: if_splits)
  moreover have "role_updated (the (roleAttributeOptions p f)) i1 i2" using assms by simp
  ultimately show ?thesis
    by (elim insertE emptyE; cases "g = f")
       (simp_all add: roleAttributeOptions_def role_updated_def pick_def empty_UpdateRoleOptions_def drifted_def role_drifts_def)
qed

lemma role_members_step:
  assumes "role_joined (prc_InRoles p) i1 i2"
  shows "drifted (role_drifts p i2) g \<longleftrightarrow> drifted (role_drifts p i1) g \<and> g \<noteq> ''inRoles.missing''"
proof -
  have "set (ri_InRoles i2) = set (ri_InRoles i1) \<union> set (prc_InRoles p)"
    using assms by (simp add: role_joined_def role_updated_def)
  then show ?thesis using assms
    by (cases "g = ''inRoles.missing''")
       (simp_all add: role_joined_def role_updated_def drifted_def role_drifts_def pick_def empty_UpdateRoleOptions_def)
qed

text \<open>
  The fields a run has put in line after correcting the fields \<open>F\<close>: correcting either membership field
  grants the missing roles, and none removes the extra ones.
\<close>

definition cleared :: "string set \<Rightarrow> string \<Rightarrow> bool" where
  "cleared F g \<longleftrightarrow> (if g = ''inRoles.missing'' then ''inRoles.missing'' \<in> F \<or> ''inRoles.extra'' \<in> F
     else g \<noteq> ''inRoles.extra'' \<and> g \<in> F)"

definition member_fields :: "string set" where
  "member_fields = {''inRoles.missing'', ''inRoles.extra''}"

lemma cleared_insert:
  "f \<in> member_fields \<Longrightarrow> cleared (insert f F) g \<longleftrightarrow> cleared F g \<or> g = ''inRoles.missing''"
  "f \<notin> member_fields \<Longrightarrow> cleared (insert f F) g \<longleftrightarrow> cleared F g \<or> g = f"
  by (auto simp: cleared_def member_fields_def)

definition role_attributes :: "string set" where
  "role_attributes = {''login'', ''inherit'', ''createdb'', ''createrole'', ''superuser'', ''replication'', ''bypassrls''}"

lemma role_attributes_options: "f \<in> role_attributes \<Longrightarrow> \<exists>opts. roleAttributeOptions p f = Some opts"
  by (auto simp: role_attributes_def roleAttributeOptions_def)

lemma role_attribute_only:
  "roleAttributeOptions p f = Some opts \<Longrightarrow>
     uro_InRoles opts = [] \<and> uro_Grants opts = [] \<and> uro_AddGrants opts = [] \<and> uro_RemoveGrants opts = []"
  by (auto simp: roleAttributeOptions_def empty_UpdateRoleOptions_def split: if_splits)

lemma applyRoleCorrection_cases:
  "df_Field d \<in> role_attributes \<Longrightarrow> applyRoleCorrection s c spec d = Some (updateRoleAttribute s c spec (df_Field d))"
  "df_Field d \<in> member_fields \<Longrightarrow> applyRoleCorrection s c spec d = Some (updateRoleRoles s c spec)"
  by (auto simp: applyRoleCorrection_def role_attributes_def member_fields_def HasPrefix_def)

lemma role_fields_disjoint: "f \<in> role_attributes \<Longrightarrow> f \<notin> member_fields"
  by (auto simp: role_attributes_def member_fields_def)

lemma role_joined_nothing: "role_joined [] i i"
  by (simp add: role_joined_def role_updated_def pick_def empty_UpdateRoleOptions_def)

lemma role_correction_step:
  assumes t: "tracks_role_infos (dsv_adapter s) view" and p: "rs_Postgres spec = Some p"
    and f: "df_Field d \<in> role_attributes \<union> member_fields" and i: "view w (rs_RoleName spec) = Some i1"
    and inv: "\<And>g. drifted (role_drifts p i1) g \<longleftrightarrow> drifted T g \<and> \<not> cleared F g"
    and run: "the (applyRoleCorrection s c spec d) w = (w', Inr u)"
  shows "\<exists>i2. view w' (rs_RoleName spec) = Some i2 \<and>
    (\<forall>g. drifted (role_drifts p i2) g \<longleftrightarrow> drifted T g \<and> \<not> cleared (insert (df_Field d) F) g)"
proof (cases "df_Field d \<in> member_fields")
  case True
  then have run': "updateRoleRoles s c spec w = (w', Inr u)" using run by (simp add: applyRoleCorrection_cases)
  obtain i2 where i2: "view w' (rs_RoleName spec) = Some i2" "role_joined (prc_InRoles p) i1 i2"
  proof (cases "prc_InRoles p = []")
    case True
    then show ?thesis using run' i that role_joined_nothing by (simp add: updateRoleRoles_def p)
  next
    case False
    then have "ad_GrantRole (dsv_adapter s) c (rs_RoleName spec) (prc_InRoles p) w = (w', Inr u)"
      using run' by (simp add: updateRoleRoles_def p)
    then have "rel_option (role_joined (prc_InRoles p)) (view w (rs_RoleName spec)) (view w' (rs_RoleName spec))"
      using t unfolding tracks_role_infos_def by blast
    then show ?thesis using i that by (auto simp: option_rel_Some1)
  qed
  then show ?thesis by (auto simp: role_members_step [OF i2(2)] inv cleared_insert(1) [OF True])
next
  case False
  with f have attr: "df_Field d \<in> role_attributes" by blast
  then obtain opts where opts: "roleAttributeOptions p (df_Field d) = Some opts" using role_attributes_options by blast
  then have "ad_UpdateRole (dsv_adapter s) c (rs_RoleName spec) opts w = (w', Inr u)"
    using run attr by (simp add: applyRoleCorrection_cases updateRoleAttribute_def p)
  then have "rel_option (role_updated opts) (view w (rs_RoleName spec)) (view w' (rs_RoleName spec))"
    using t role_attribute_only [OF opts] unfolding tracks_role_infos_def by blast
  then obtain i2 where i2: "view w' (rs_RoleName spec) = Some i2" "role_updated opts i1 i2"
    using i by (auto simp: option_rel_Some1)
  then show ?thesis by (auto simp: role_attribute_step [OF opts i2(2)] inv cleared_insert(2) [OF False])
qed

lemma image_filter:
  assumes "\<And>d. d \<in> A \<Longrightarrow> P d \<longleftrightarrow> Q (f d)"
  shows "f ` {d \<in> A. P d} = {y \<in> f ` A. Q y}"
  using assms by auto

definition role_destructive :: "RoleInfo \<Rightarrow> string \<Rightarrow> bool" where
  "role_destructive i f \<longleftrightarrow> f = ''superuser'' \<or> f = ''inRoles.extra'' \<or> f = ''login'' \<and> ri_Login i \<or>
     f = ''replication'' \<and> ri_Replication i \<or> f = ''bypassrls'' \<and> ri_BypassRLS i"

lemma attributeDiff_eligible:
  "d \<in> set (attributeDiff f e a x) \<Longrightarrow> df_Field d = f \<and> \<not> df_Immutable d \<and> df_Destructive d = x"
  by (auto simp: attributeDiff_def split: if_splits)

lemma member_diff_eligible:
  assumes "d \<in> set (compareRoleMemberships ord expected actual)"
  shows "df_Field d \<in> member_fields \<and> \<not> df_Immutable d \<and> (df_Destructive d \<longleftrightarrow> df_Field d = ''inRoles.extra'')"
  using assms unfolding compareRoleMemberships_def Let_def member_fields_def by (auto split: if_splits)

lemma role_diffs_eligible:
  assumes "d \<in> set (role_diffs ord spec i)"
  shows "df_Field d \<in> role_attributes \<union> member_fields \<and> (eligible allow d \<longleftrightarrow> (role_destructive i (df_Field d) \<longrightarrow> allow))"
proof -
  obtain p where d: "d \<in> set (detectPostgresRoleDrift ord p i)"
    using assms by (auto simp: role_diffs_def split: option.splits)
  have attr: ?thesis
    if "d \<in> set (attributeDiff f e a x)" "f \<in> role_attributes" "x = role_destructive i f" for f e a x
    using attributeDiff_eligible [OF that(1)] that(2,3) by (auto simp: eligible_def)
  have member: ?thesis if "d \<in> set (compareRoleMemberships ord (prc_InRoles p) (ri_InRoles i))"
    using member_diff_eligible [OF that] by (auto simp: eligible_def role_destructive_def member_fields_def)
  show ?thesis
    using d [unfolded detectPostgresRoleDrift_def set_append Un_iff]
    by (elim disjE) ((rule attr, assumption, simp add: role_attributes_def, simp add: role_destructive_def)+, rule member)
qed


section \<open>Correction of users\<close>

definition user_updated :: "UpdateUserOptions \<Rightarrow> UserInfo \<Rightarrow> UserInfo \<Rightarrow> bool" where
  "user_updated opts i i' \<longleftrightarrow>
     ui_ConnectionLimit i' = pick (uuo_ConnectionLimit opts) (ui_ConnectionLimit i) \<and>
     ui_Superuser i' = pick (uuo_Superuser opts) (ui_Superuser i) \<and> ui_CreateDB i' = pick (uuo_CreateDB opts) (ui_CreateDB i) \<and>
     ui_CreateRole i' = pick (uuo_CreateRole opts) (ui_CreateRole i) \<and> ui_Inherit i' = pick (uuo_Inherit opts) (ui_Inherit i) \<and>
     ui_Replication i' = pick (uuo_Replication opts) (ui_Replication i) \<and>
     ui_BypassRLS i' = pick (uuo_BypassRLS opts) (ui_BypassRLS i) \<and> set (ui_InRoles i') = set (ui_InRoles i)"

definition user_joined :: "string list \<Rightarrow> UserInfo \<Rightarrow> UserInfo \<Rightarrow> bool" where
  "user_joined roles i i' \<longleftrightarrow> user_updated empty_UpdateUserOptions (i\<lparr>ui_InRoles := ui_InRoles i @ roles\<rparr>) i'"

definition tracks_user_infos :: "'w adapter \<Rightarrow> ('w \<Rightarrow> string \<Rightarrow> UserInfo option) \<Rightarrow> bool" where
  "tracks_user_infos a view \<longleftrightarrow>
     (\<forall>c n w w' i. ad_GetUserInfo a c n w = (w', Inr i) \<longrightarrow> view w n = Some i \<and> view w' = view w) \<and>
     (\<forall>c n opts w w' u. ad_UpdateUser a c n opts w = (w', Inr u) \<and> uuo_InRoles opts = [] \<and> uuo_ConfigParams opts = [] \<longrightarrow>
        rel_option (user_updated opts) (view w n) (view w' n)) \<and>
     (\<forall>c n roles w w' u. ad_GrantRole a c n roles w = (w', Inr u) \<longrightarrow> rel_option (user_joined roles) (view w n) (view w' n))"

definition user_drifts :: "PostgresUserConfig \<Rightarrow> UserInfo \<Rightarrow> (string \<times> bool) list" where
  "user_drifts p i =
     [(''connectionLimit'', puc_ConnectionLimit p \<noteq> ui_ConnectionLimit i), (''superuser'', puc_Superuser p \<noteq> ui_Superuser i),
      (''createdb'', puc_CreateDB p \<noteq> ui_CreateDB i), (''createrole'', puc_CreateRole p \<noteq> ui_CreateRole i),
      (''inherit'', puc_Inherit p \<noteq> ui_Inherit i), (''replication'', puc_Replication p \<noteq> ui_Replication i),
      (''bypassrls'', puc_BypassRLS p \<noteq> ui_BypassRLS i),
      (''inRoles.missing'', \<not> set (puc_InRoles p) \<subseteq> set (ui_InRoles i)),
      (''inRoles.extra'', \<not> set (ui_InRoles i) \<subseteq> set (puc_InRoles p))]"

definition user_attributes :: "string set" where
  "user_attributes = {''connectionLimit'', ''superuser'', ''createdb'', ''createrole'', ''inherit'', ''replication'', ''bypassrls''}"

lemma user_drifts_distinct: "distinct (map fst (user_drifts p i))"
  by (simp add: user_drifts_def)

lemma limit_diff_fields:
  "df_Field ` set (diff_if (a \<noteq> b) (diff f x y)) = (if a = b then {} else {f})"
  by simp

lemma user_diffs_fields:
  assumes "range_order_ok ord" and "us_Postgres spec = Some p"
  shows "df_Field ` set (user_diffs ord spec i) = {f. drifted (user_drifts p i) f}"
  unfolding drifted_fields [OF user_drifts_distinct]
  by (simp only: user_diffs_def assms(2) option.case detectPostgresUserDrift_def set_append image_Un attributeDiff_set(1)
      limit_diff_fields compareRoleMemberships_fields [OF assms(1)] user_drifts_def list.set UN_insert UN_empty prod.case flip_if
      Un_empty_right Un_assoc)

lemma user_attribute_step:
  assumes "user_updated (userAttributeOptions p) i1 i2"
  shows "drifted (user_drifts p i2) g \<longleftrightarrow> drifted (user_drifts p i1) g \<and> g \<notin> user_attributes"
  using assms by (simp add: user_updated_def userAttributeOptions_def pick_def drifted_def user_drifts_def user_attributes_def)

lemma user_members_step:
  assumes "user_joined (puc_InRoles p) i1 i2"
  shows "drifted (user_drifts p i2) g \<longleftrightarrow> drifted (user_drifts p i1) g \<and> g \<noteq> ''inRoles.missing''"
proof -
  have "set (ui_InRoles i2) = set (ui_InRoles i1) \<union> set (puc_InRoles p)"
    using assms by (simp add: user_joined_def user_updated_def)
  then show ?thesis using assms
    by (cases "g = ''inRoles.missing''")
       (simp_all add: user_joined_def user_updated_def drifted_def user_drifts_def pick_def empty_UpdateUserOptions_def)
qed

text \<open>Correcting one attribute of a user sends all of them.\<close>

definition user_cleared :: "string set \<Rightarrow> string \<Rightarrow> bool" where
  "user_cleared F g \<longleftrightarrow> g = ''inRoles.missing'' \<and> F \<inter> member_fields \<noteq> {} \<or> g \<in> user_attributes \<and> F \<inter> user_attributes \<noteq> {}"

lemma user_fields_disjoint: "f \<in> user_attributes \<Longrightarrow> f \<notin> member_fields" "''inRoles.missing'' \<notin> user_attributes"
  by (auto simp: user_attributes_def member_fields_def)

lemma user_cleared_insert:
  "f \<in> member_fields \<Longrightarrow> user_cleared (insert f F) g \<longleftrightarrow> user_cleared F g \<or> g = ''inRoles.missing''"
  "f \<in> user_attributes \<Longrightarrow> user_cleared (insert f F) g \<longleftrightarrow> user_cleared F g \<or> g \<in> user_attributes"
  using user_fields_disjoint by (auto simp: user_cleared_def)

lemma applyUserCorrection_cases:
  "df_Field d \<in> user_attributes \<Longrightarrow> applyUserCorrection s c spec d = Some (updateUserAttributes s c spec)"
  "df_Field d \<in> member_fields \<Longrightarrow> applyUserCorrection s c spec d = Some (updateUserRoles s c spec)"
  by (auto simp: applyUserCorrection_def user_attributes_def member_fields_def HasPrefix_def)

lemma user_joined_nothing: "user_joined [] i i"
  by (simp add: user_joined_def user_updated_def pick_def empty_UpdateUserOptions_def)

lemma user_correction_step:
  assumes t: "tracks_user_infos (dsv_adapter s) view" and p: "us_Postgres spec = Some p"
    and f: "df_Field d \<in> user_attributes \<union> member_fields" and i: "view w (us_Username spec) = Some i1"
    and inv: "\<And>g. drifted (user_drifts p i1) g \<longleftrightarrow> drifted T g \<and> \<not> user_cleared F g"
    and run: "the (applyUserCorrection s c spec d) w = (w', Inr u)"
  shows "\<exists>i2. view w' (us_Username spec) = Some i2 \<and>
    (\<forall>g. drifted (user_drifts p i2) g \<longleftrightarrow> drifted T g \<and> \<not> user_cleared (insert (df_Field d) F) g)"
proof (cases "df_Field d \<in> member_fields")
  case True
  then have run': "updateUserRoles s c spec w = (w', Inr u)" using run by (simp add: applyUserCorrection_cases)
  obtain i2 where i2: "view w' (us_Username spec) = Some i2" "user_joined (puc_InRoles p) i1 i2"
  proof (cases "puc_InRoles p = []")
    case True
    then show ?thesis using run' i that user_joined_nothing by (simp add: updateUserRoles_def p)
  next
    case False
    then have "ad_GrantRole (dsv_adapter s) c (us_Username spec) (puc_InRoles p) w = (w', Inr u)"
      using run' by (simp add: updateUserRoles_def p)
    then have "rel_option (user_joined (puc_InRoles p)) (view w (us_Username spec)) (view w' (us_Username spec))"
      using t unfolding tracks_user_infos_def by blast
    then show ?thesis using i that by (auto simp: option_rel_Some1)
  qed
  then show ?thesis by (auto simp: user_members_step [OF i2(2)] inv user_cleared_insert(1) [OF True])
next
  case False
  with f have attr: "df_Field d \<in> user_attributes" by blast
  then have "ad_UpdateUser (dsv_adapter s) c (us_Username spec) (userAttributeOptions p) w = (w', Inr u)"
    using run by (simp add: applyUserCorrection_cases updateUserAttributes_def p)
  moreover have "uuo_InRoles (userAttributeOptions p) = []" "uuo_ConfigParams (userAttributeOptions p) = []"
    by (simp_all add: userAttributeOptions_def empty_UpdateUserOptions_def)
  ultimately have "rel_option (user_updated (userAttributeOptions p)) (view w (us_Username spec)) (view w' (us_Username spec))"
    using t unfolding tracks_user_infos_def by blast
  then obtain i2 where i2: "view w' (us_Username spec) = Some i2" "user_updated (userAttributeOptions p) i1 i2"
    using i by (auto simp: option_rel_Some1)
  then show ?thesis by (auto simp: user_attribute_step [OF i2(2)] inv user_cleared_insert(2) [OF attr])
qed

lemma user_diffs_kinds:
  assumes "d \<in> set (user_diffs ord spec i)"
  shows "df_Field d \<in> user_attributes \<union> member_fields \<and> (df_Field d = ''inRoles.missing'' \<longrightarrow> eligible allow d)"
proof -
  obtain p where d: "d \<in> set (detectPostgresUserDrift ord p i)"
    using assms by (auto simp: user_diffs_def split: option.splits)
  have limit: ?thesis if "d \<in> set (diff_if b (diff ''connectionLimit'' x y))" for b x y
    using that by (auto simp: user_attributes_def split: if_splits)
  have attr: ?thesis if "d \<in> set (attributeDiff f e a x)" "f \<in> user_attributes" for f e a x
    using attributeDiff_eligible [OF that(1)] that(2) user_fields_disjoint(2) by auto
  have member: ?thesis if "d \<in> set (compareRoleMemberships ord (puc_InRoles p) (ui_InRoles i))"
    using member_diff_eligible [OF that] by (auto simp: eligible_def)
  show ?thesis
    using d [unfolded detectPostgresUserDrift_def set_append Un_iff]
    by (elim disjE) (rule limit, assumption, (rule attr, assumption, simp add: user_attributes_def)+, rule member)
qed

lemma user_fields_left:
  assumes kinds: "\<And>d. d \<in> D \<Longrightarrow> df_Field d \<in> user_attributes \<union> member_fields \<and> (df_Field d = ''inRoles.missing'' \<longrightarrow> P d)"
  shows "{g. g \<in> df_Field ` D \<and> \<not> user_cleared (df_Field ` {d \<in> D. P d}) g} =
    {f \<in> df_Field ` {d \<in> D. \<not> P d}. df_Field ` {d \<in> D. P d} \<inter> user_attributes = {} \<or> f \<in> member_fields} \<union>
    {''inRoles.extra''} \<inter> df_Field ` D" (is "?L = ?R")
proof (rule set_eqI)
  fix g
  consider (attr) "g \<in> user_attributes" | (missing) "g = ''inRoles.missing''" | (extra) "g = ''inRoles.extra''"
    | (other) "g \<notin> user_attributes \<union> member_fields"
    by (auto simp: member_fields_def)
  then show "g \<in> ?L \<longleftrightarrow> g \<in> ?R"
  proof cases
    case attr
    then have "g \<notin> member_fields" "g \<noteq> ''inRoles.missing''" "g \<noteq> ''inRoles.extra''"
      using user_fields_disjoint by (auto simp: user_attributes_def)
    then show ?thesis using attr unfolding user_cleared_def by blast
  next
    case missing
    have "g \<in> member_fields" using missing by (simp add: member_fields_def)
    moreover have "g \<in> df_Field ` {d \<in> D. P d}" if "g \<in> df_Field ` D" using that kinds missing by blast
    ultimately have "g \<notin> ?L" using missing unfolding user_cleared_def by blast
    moreover have "g \<notin> df_Field ` {d \<in> D. \<not> P d}" using kinds missing by blast
    moreover have "g \<noteq> ''inRoles.extra''" using missing by simp
    ultimately show ?thesis by blast
  next
    case extra
    then have "g \<notin> user_attributes" "g \<noteq> ''inRoles.missing''" by (simp_all add: user_attributes_def)
    then have "\<not> user_cleared (df_Field ` {d \<in> D. P d}) g" by (simp add: user_cleared_def)
    moreover have "g \<in> {''inRoles.extra''}" using extra by simp
    ultimately show ?thesis by blast
  next
    case other
    then have "g \<notin> df_Field ` D" using kinds by blast
    moreover have "g \<noteq> ''inRoles.extra''" using other by (auto simp: member_fields_def)
    ultimately show ?thesis by blast
  qed
qed


section \<open>A server in memory for roles and users\<close>

record accounts =
  ac_roles :: "(string \<times> RoleInfo) list"
  ac_users :: "(string \<times> UserInfo) list"

definition null_adapter :: "'w adapter" where
  "null_adapter = \<lparr>ad_now = (\<lambda>w. 0), ad_ctx_err = (\<lambda>c w. None), ad_Connect = (\<lambda>c. ret ()), ad_Close = ret (),
     ad_Ping = (\<lambda>c. ret ()), ad_GetVersion = (\<lambda>c. ret ''1''), ad_CreateDatabase = (\<lambda>c x. ret ()),
     ad_DropDatabase = (\<lambda>c n x. ret ()), ad_DatabaseExists = (\<lambda>c n. ret False), ad_GetDatabaseInfo = (\<lambda>c n. fail ErrNotFound),
     ad_UpdateDatabase = (\<lambda>c n x. ret ()), ad_VerifyDatabaseAccess = (\<lambda>c n. ret ()),
     ad_TransferDatabaseOwnership = (\<lambda>c n x. ret ()), ad_ExecSQLAsRole = (\<lambda>c n x q. ret ()), ad_CreateUser = (\<lambda>c x. ret ()),
     ad_DropUser = (\<lambda>c n. ret ()), ad_UserExists = (\<lambda>c n. ret False), ad_UpdateUser = (\<lambda>c n x. ret ()),
     ad_UpdatePassword = (\<lambda>c n x. ret ()), ad_GetUserInfo = (\<lambda>c n. fail ErrNotFound), ad_GetOwnedObjects = (\<lambda>c n. ret []),
     ad_DisableUser = (\<lambda>c n. ret ()), ad_CreateRole = (\<lambda>c x. ret ()), ad_DropRole = (\<lambda>c n. ret ()),
     ad_RoleExists = (\<lambda>c n. ret False), ad_UpdateRole = (\<lambda>c n x. ret ()), ad_GetRoleInfo = (\<lambda>c n. fail ErrNotFound),
     ad_Grant = (\<lambda>c n x. ret ()), ad_Revoke = (\<lambda>c n x. ret ()), ad_GrantRole = (\<lambda>c n x. ret ()),
     ad_RevokeRole = (\<lambda>c n x. ret ()), ad_SetDefaultPrivileges = (\<lambda>c n x. ret ()), ad_GetGrants = (\<lambda>c n. ret [])\<rparr>"

definition set_role :: "UpdateRoleOptions \<Rightarrow> RoleInfo \<Rightarrow> RoleInfo" where
  "set_role x i = i\<lparr>ri_Login := pick (uro_Login x) (ri_Login i), ri_Inherit := pick (uro_Inherit x) (ri_Inherit i),
     ri_CreateDB := pick (uro_CreateDB x) (ri_CreateDB i), ri_CreateRole := pick (uro_CreateRole x) (ri_CreateRole i),
     ri_Superuser := pick (uro_Superuser x) (ri_Superuser i), ri_Replication := pick (uro_Replication x) (ri_Replication i),
     ri_BypassRLS := pick (uro_BypassRLS x) (ri_BypassRLS i)\<rparr>"

definition set_user :: "UpdateUserOptions \<Rightarrow> UserInfo \<Rightarrow> UserInfo" where
  "set_user x i = i\<lparr>ui_ConnectionLimit := pick (uuo_ConnectionLimit x) (ui_ConnectionLimit i),
     ui_Superuser := pick (uuo_Superuser x) (ui_Superuser i), ui_CreateDB := pick (uuo_CreateDB x) (ui_CreateDB i),
     ui_CreateRole := pick (uuo_CreateRole x) (ui_CreateRole i), ui_Inherit := pick (uuo_Inherit x) (ui_Inherit i),
     ui_Replication := pick (uuo_Replication x) (ui_Replication i), ui_BypassRLS := pick (uuo_BypassRLS x) (ui_BypassRLS i)\<rparr>"

definition change :: "(string \<times> 'v) list \<Rightarrow> string \<Rightarrow> ('v \<Rightarrow> 'v) \<Rightarrow> (string \<times> 'v) list" where
  "change m n f = map (\<lambda>(k, v). (k, if k = n then f v else v)) m"

lemma map_of_change: "map_of (change m n f) n = map_option f (map_of m n)"
  by (induction m) (auto simp: change_def)

definition accounts_adapter :: "accounts adapter" where
  "accounts_adapter = null_adapter\<lparr>
     ad_GetRoleInfo := (\<lambda>c n w. (w, case map_of (ac_roles w) n of None \<Rightarrow> Inl ErrNotFound | Some i \<Rightarrow> Inr i)),
     ad_UpdateRole := (\<lambda>c n x w. (w\<lparr>ac_roles := change (ac_roles w) n (set_role x)\<rparr>, Inr ())),
     ad_GetUserInfo := (\<lambda>c n w. (w, case map_of (ac_users w) n of None \<Rightarrow> Inl ErrNotFound | Some i \<Rightarrow> Inr i)),
     ad_UpdateUser := (\<lambda>c n x w. (w\<lparr>ac_users := change (ac_users w) n (set_user x)\<rparr>, Inr ())),
     ad_GrantRole := (\<lambda>c n rs w. (w\<lparr>ac_roles := change (ac_roles w) n (\<lambda>i. i\<lparr>ri_InRoles := ri_InRoles i @ rs\<rparr>),
        ac_users := change (ac_users w) n (\<lambda>i. i\<lparr>ui_InRoles := ui_InRoles i @ rs\<rparr>)\<rparr>, Inr ()))\<rparr>"

lemma accounts_track_roles: "tracks_role_infos accounts_adapter (\<lambda>w. map_of (ac_roles w))"
  unfolding tracks_role_infos_def accounts_adapter_def
  by (auto simp: map_of_change set_role_def role_updated_def role_joined_def pick_def empty_UpdateRoleOptions_def
      option.rel_map intro!: option.rel_refl split: option.splits)

lemma accounts_track_users: "tracks_user_infos accounts_adapter (\<lambda>w. map_of (ac_users w))"
  unfolding tracks_user_infos_def accounts_adapter_def
  by (auto simp: map_of_change set_user_def user_updated_def user_joined_def pick_def empty_UpdateUserOptions_def
      option.rel_map intro!: option.rel_refl split: option.splits)

definition careful_service :: "accounts drift_Service" where
  "careful_service = \<lparr>dsv_adapter = accounts_adapter, dsv_AllowDestructive = False\<rparr>"

definition role_spec_x :: DatabaseRoleSpec where
  "role_spec_x = \<lparr>rs_RoleName = ''r'', rs_Postgres = Some \<lparr>prc_Login = False, prc_Inherit = True, prc_CreateDB = False,
     prc_CreateRole = False, prc_Superuser = False, prc_Replication = False, prc_BypassRLS = False,
     prc_InRoles = [''a''], prc_Grants = []\<rparr>, rs_MySQL = None\<rparr>"

definition user_spec_x :: DatabaseUserSpec where
  "user_spec_x = \<lparr>us_Username = ''u'', us_Roles = [], us_Postgres = Some \<lparr>puc_ConnectionLimit = 5, puc_ValidUntil = '''',
     puc_Superuser = False, puc_CreateDB = False, puc_CreateRole = False, puc_Inherit = True, puc_Login = True,
     puc_Replication = False, puc_BypassRLS = False, puc_InRoles = [], puc_DefaultRole = '''', puc_ConfigParameters = []\<rparr>,
     us_MySQL = None\<rparr>"

definition accounts_x :: accounts where
  "accounts_x = \<lparr>ac_roles = [(''r'', \<lparr>ri_Name = ''r'', ri_CreatedAt = '''', ri_Login = False, ri_Inherit = False, ri_CreateDB = False,
      ri_CreateRole = False, ri_Superuser = True, ri_Replication = False, ri_BypassRLS = False, ri_InRoles = [''b'']\<rparr>)],
     ac_users = [(''u'', \<lparr>ui_Username = ''u'', ui_CreatedAt = '''', ui_ConnectionLimit = 1, ui_ValidUntil = '''',
      ui_Superuser = True, ui_CreateDB = False, ui_CreateRole = False, ui_Inherit = True, ui_Login = True,
      ui_Replication = False, ui_BypassRLS = False, ui_InRoles = [], ui_AllowedHosts = []\<rparr>)]\<rparr>"

text \<open>A check, a correction and a second check.\<close>

definition drift_cycle ::
  "('w, DriftResult) op \<Rightarrow> (Diff list \<Rightarrow> 'w \<Rightarrow> ('w \<times> CorrectionResult) option) \<Rightarrow> ('w, DriftResult) op \<Rightarrow> 'w
   \<Rightarrow> (DriftResult \<times> CorrectionResult \<times> DriftResult) option" where
  "drift_cycle detect correct again w =
     (case detect w of
        (w1, Inl e) \<Rightarrow> None
      | (w1, Inr r) \<Rightarrow>
          (case correct (dr_Diffs r) w1 of
             None \<Rightarrow> None
           | Some (w2, cr) \<Rightarrow> (case again w2 of (w3, Inl e) \<Rightarrow> None | (w3, Inr r') \<Rightarrow> Some (r, cr, r'))))"

lemma drift_cycle_Some:
  assumes "drift_cycle detect correct again w = Some (r, cr, r')"
  obtains w1 w2 w3 where "detect w = (w1, Inr r)" "correct (dr_Diffs r) w1 = Some (w2, cr)" "again w2 = (w3, Inr r')"
  using assms unfolding drift_cycle_def by (auto split: prod.splits sum.splits option.splits)

definition cycle_fields ::
  "(DriftResult \<times> CorrectionResult \<times> DriftResult) option \<Rightarrow> (string list \<times> string list \<times> string list \<times> bool) option" where
  "cycle_fields x = map_option (\<lambda>(r, cr, r'). (map df_Field (dr_Diffs r), map df_Field (cr_Corrected cr),
     map df_Field (map fst (cr_Skipped cr)), cr_Failed cr = [])) x"

lemma cycle_fields_Some:
  assumes "cycle_fields x = Some (d, co, sk, True)"
  obtains r cr r' where "x = Some (r, cr, r')" "df_Field ` set (dr_Diffs r) = set d"
    "df_Field ` set (cr_Corrected cr) = set co" "df_Field ` fst ` set (cr_Skipped cr) = set sk" "cr_Failed cr = []"
  using assms unfolding cycle_fields_def by (auto simp: image_image)

definition role_cycle :: "(DriftResult \<times> CorrectionResult \<times> DriftResult) option" where
  "role_cycle = drift_cycle (DetectRoleDrift (\<lambda>m. m) careful_service \<lparr>ctx_deadline = None\<rparr> role_spec_x)
     (CorrectRoleDrift careful_service \<lparr>ctx_deadline = None\<rparr> role_spec_x)
     (DetectRoleDrift rev careful_service \<lparr>ctx_deadline = None\<rparr> role_spec_x) accounts_x"

definition user_cycle :: "(DriftResult \<times> CorrectionResult \<times> DriftResult) option" where
  "user_cycle = drift_cycle (DetectUserDrift (\<lambda>m. m) careful_service \<lparr>ctx_deadline = None\<rparr> user_spec_x)
     (CorrectUserDrift careful_service \<lparr>ctx_deadline = None\<rparr> user_spec_x)
     (DetectUserDrift rev careful_service \<lparr>ctx_deadline = None\<rparr> user_spec_x) accounts_x"



end
