(* ===== verification/Drift_Grant.thy ===== *)
theory Drift_Grant
  imports Drift_Account
begin

text \<open>
  Drift of grants: \<^verbatim>\<open>internal/service/drift/grant.go\<close>.
\<close>

section \<open>Detection\<close>

definition detectRoleMembershipDrift :: "bool range_order \<Rightarrow> string list \<Rightarrow> GrantInfo list \<Rightarrow> Diff list" where
  "detectRoleMembershipDrift ord expectedRoles actualGrants =
     (let actualRoles = role_set (map gi_ObjectName (filter (\<lambda>g. EqualFold (gi_ObjectType g) ''ROLE'') actualGrants));
          missing = sort (filter (\<lambda>role. \<not> has_key actualRoles role) expectedRoles);
          expectedSet = role_set expectedRoles;
          extra = sort (map fst (filter (\<lambda>(role, _). \<not> has_key expectedSet role) (ord actualRoles)))
      in diff_if (missing \<noteq> []) (diff ''roles.missing'' (Join missing '', '') '''') @
         diff_if (extra \<noteq> []) ((diff ''roles.extra'' '''' (Join extra '', ''))\<lparr>df_Destructive := True\<rparr>))"

definition buildGrantKey :: "string \<Rightarrow> string \<Rightarrow> string \<Rightarrow> string \<Rightarrow> string" where
  "buildGrantKey database schema objectType objectName =
     ToLower (Join ([database] @ (if schema \<noteq> '''' then [schema] else []) @ [objectType, objectName]) ''.'')"

definition missing_privileges :: "string list \<Rightarrow> string list \<Rightarrow> string list" where
  "missing_privileges expectedPrivs actualPrivileges =
     (let actualPrivSet = role_set (map ToUpper actualPrivileges)
      in filter (\<lambda>priv. \<not> has_key actualPrivSet (ToUpper priv)) expectedPrivs)"

definition checkObjectGrant ::
  "string \<Rightarrow> string \<Rightarrow> string \<Rightarrow> string \<Rightarrow> string list \<Rightarrow> string list go_map \<Rightarrow> Diff list" where
  "checkObjectGrant database schema objectType objectName expectedPrivs actualGrantMap =
     (case map_of actualGrantMap (buildGrantKey database schema objectType objectName) of
        None \<Rightarrow> [diff (''grants.'' @ ToLower objectType @ ''.'' @ objectName) (Join expectedPrivs '', '') '''']
      | Some actualPrivileges \<Rightarrow>
          (let missingPrivs = missing_privileges expectedPrivs actualPrivileges;
               extraPrivs = missing_privileges actualPrivileges expectedPrivs
           in diff_if (missingPrivs \<noteq> [])
                (diff (''grants.'' @ ToLower objectType @ ''.'' @ objectName @ ''.missing'') (Join missingPrivs '', '') '''') @
              diff_if (extraPrivs \<noteq> [])
                ((diff (''grants.'' @ ToLower objectType @ ''.'' @ objectName @ ''.extra'') '''' (Join extraPrivs '', ''))
                   \<lparr>df_Destructive := True\<rparr>)))"

definition detectPostgresDirectGrantDrift :: "GrantInfo list \<Rightarrow> PostgresGrant \<Rightarrow> Diff list" where
  "detectPostgresDirectGrantDrift actualGrants grant =
     (let actualGrantMap = map_puts (map (\<lambda>g. (buildGrantKey (gi_Database g) (gi_Schema g) (gi_ObjectType g) (gi_ObjectName g), gi_Privileges g))
            (filter (\<lambda>g. \<not> EqualFold (gi_ObjectType g) ''ROLE'') actualGrants));
          check = (\<lambda>objectType name. checkObjectGrant (pg_Database grant) (pg_Schema grant) objectType name (pg_Privileges grant) actualGrantMap)
      in concat (map (check ''TABLE'') (pg_Tables grant)) @ concat (map (check ''SEQUENCE'') (pg_Sequences grant)) @
         concat (map (check ''FUNCTION'') (pg_Functions grant)))"

definition grant_table :: "string \<Rightarrow> string" where
  "grant_table table = (if table \<noteq> '''' then table else ''*'')"

definition detectMySQLDirectGrantDrift :: "GrantInfo list \<Rightarrow> MySQLGrant \<Rightarrow> Diff list" where
  "detectMySQLDirectGrantDrift actualGrants grant =
     (let actualGrantMap = map_puts (map (\<lambda>g. (buildGrantKey (gi_Database g) '''' (gi_ObjectType g) (gi_ObjectName g), gi_Privileges g)) actualGrants);
          tableName = grant_table (mg_Table grant)
      in case map_of actualGrantMap (buildGrantKey (mg_Database grant) '''' ''TABLE'' tableName) of
           None \<Rightarrow> [diff (''grants.'' @ mg_Database grant @ ''.'' @ tableName) (Join (mg_Privileges grant) '', '') '''']
         | Some actualPrivileges \<Rightarrow>
             (let missingPrivs = missing_privileges (mg_Privileges grant) actualPrivileges
              in diff_if (missingPrivs \<noteq> [])
                   (diff (''grants.'' @ mg_Database grant @ ''.'' @ tableName @ ''.missing'') (Join missingPrivs '', '') '''')))"

definition detectClickHouseDirectGrantDrift :: "bool range_order \<Rightarrow> GrantInfo list \<Rightarrow> ClickHouseGrant \<Rightarrow> Diff list" where
  "detectClickHouseDirectGrantDrift ord actualGrants grant =
     (let targetDB = cg_Database grant; targetTable = grant_table (cg_Table grant);
          normal = (\<lambda>ps. role_set (map (\<lambda>p. ToUpper (TrimSpace p)) ps));
          expectedPrivs = normal (cg_Privileges grant);
          matching = filter (\<lambda>actual. gi_Database actual = targetDB) actualGrants;
          field = ''grants.'' @ targetDB @ ''.'' @ targetTable @ ''.missing''
      in concat (map (\<lambda>actual.
           let actualPrivs = normal (gi_Privileges actual);
               missing = sort (map fst (filter (\<lambda>(p, _). \<not> has_key actualPrivs p) (ord expectedPrivs)))
           in diff_if (missing \<noteq> []) (diff field (Join missing '', '') '''')) matching) @
         diff_if (matching = [] \<and> cg_Privileges grant \<noteq> []) (diff field (Join (cg_Privileges grant) '', '') ''''))"

definition detectPostgresGrantDrift :: "bool range_order \<Rightarrow> PostgresGrantConfig \<Rightarrow> GrantInfo list \<Rightarrow> Diff list" where
  "detectPostgresGrantDrift ord spec actualGrants =
     detectRoleMembershipDrift ord (pgc_Roles spec) actualGrants @
     concat (map (detectPostgresDirectGrantDrift actualGrants) (pgc_Grants spec))"

definition detectMySQLGrantDrift :: "MySQLGrantConfig \<Rightarrow> GrantInfo list \<Rightarrow> Diff list" where
  "detectMySQLGrantDrift spec actualGrants = concat (map (detectMySQLDirectGrantDrift actualGrants) (mgc_Grants spec))"

definition detectClickHouseGrantDrift :: "bool range_order \<Rightarrow> ClickHouseGrantConfig \<Rightarrow> GrantInfo list \<Rightarrow> Diff list" where
  "detectClickHouseGrantDrift ord spec actualGrants =
     (if cgc_Roles spec \<noteq> [] then detectRoleMembershipDrift ord (cgc_Roles spec) actualGrants else []) @
     concat (map (detectClickHouseDirectGrantDrift ord actualGrants) (cgc_Grants spec))"

definition grant_diffs :: "bool range_order \<Rightarrow> DatabaseGrantSpec \<Rightarrow> GrantInfo list \<Rightarrow> Diff list" where
  "grant_diffs ord spec actualGrants =
     (case gs_Postgres spec of None \<Rightarrow> [] | Some p \<Rightarrow> detectPostgresGrantDrift ord p actualGrants) @
     (case gs_MySQL spec of None \<Rightarrow> [] | Some m \<Rightarrow> detectMySQLGrantDrift m actualGrants) @
     (case gs_ClickHouse spec of None \<Rightarrow> [] | Some h \<Rightarrow> detectClickHouseGrantDrift ord h actualGrants)"

definition DetectGrantDrift ::
  "bool range_order \<Rightarrow> 'w drift_Service \<Rightarrow> ctx \<Rightarrow> DatabaseGrantSpec \<Rightarrow> string \<Rightarrow> ('w, DriftResult) op" where
  "DetectGrantDrift ord s c spec grantee =
     detect_with s (ad_GetGrants (dsv_adapter s) c grantee) ''get grants'' ''grant'' grantee (grant_diffs ord spec)"

section \<open>Correction\<close>

text \<open>
  A search for the grant of the spec that a difference is about: \<^term>\<open>Some call\<close> when one matched and
  its call was made, \<^term>\<open>None\<close> when nothing matched.
\<close>

fun find_target :: "(string \<Rightarrow> GrantOptions) \<Rightarrow> string \<Rightarrow> string list \<Rightarrow> GrantOptions option" where
  "find_target mk field [] = None"
| "find_target mk field (n # ns) = (if Contains field n then Some (mk n) else find_target mk field ns)"

fun applyMissingPostgresGrant :: "PostgresGrant list \<Rightarrow> string \<Rightarrow> string list \<Rightarrow> GrantOptions option" where
  "applyMissingPostgresGrant [] field privileges = None"
| "applyMissingPostgresGrant (grant # grants) field privileges =
     (let base = empty_GrantOptions\<lparr>go_Database := pg_Database grant, go_Schema := pg_Schema grant, go_Privileges := privileges\<rparr>
      in case find_target (\<lambda>table. base\<lparr>go_Tables := [table]\<rparr>) field (pg_Tables grant) of
           Some x \<Rightarrow> Some x
         | None \<Rightarrow>
             (case find_target (\<lambda>seq. base\<lparr>go_Sequences := [seq]\<rparr>) field (pg_Sequences grant) of
                Some x \<Rightarrow> Some x
              | None \<Rightarrow>
                  (case find_target (\<lambda>fn. base\<lparr>go_Functions := [fn]\<rparr>) field (pg_Functions grant) of
                     Some x \<Rightarrow> Some x
                   | None \<Rightarrow> applyMissingPostgresGrant grants field privileges)))"

fun applyMissingMySQLGrant :: "MySQLGrant list \<Rightarrow> string \<Rightarrow> string list \<Rightarrow> GrantOptions option" where
  "applyMissingMySQLGrant [] field privileges = None"
| "applyMissingMySQLGrant (grant # grants) field privileges =
     (let tableName = grant_table (mg_Table grant)
      in if Contains field tableName \<or> Contains field (mg_Database grant)
         then Some (empty_GrantOptions\<lparr>go_Database := mg_Database grant, go_Table := tableName, go_Privileges := privileges\<rparr>)
         else applyMissingMySQLGrant grants field privileges)"

fun applyMissingClickHouseGrant :: "ClickHouseGrant list \<Rightarrow> string \<Rightarrow> string list \<Rightarrow> GrantOptions option" where
  "applyMissingClickHouseGrant [] field privileges = None"
| "applyMissingClickHouseGrant (grant # grants) field privileges =
     (let tableName = grant_table (cg_Table grant)
      in if Contains field tableName \<or> Contains field (cg_Database grant)
         then Some (empty_GrantOptions\<lparr>go_Level := cg_Level grant, go_Database := cg_Database grant, go_Table := tableName,
                go_Privileges := privileges\<rparr>)
         else applyMissingClickHouseGrant grants field privileges)"

definition applyMissingGrants :: "'w drift_Service \<Rightarrow> ctx \<Rightarrow> DatabaseGrantSpec \<Rightarrow> string \<Rightarrow> Diff \<Rightarrow> ('w, unit) op" where
  "applyMissingGrants s c spec grantee d =
     (let privileges = Split (df_Expected d) '', ''; field = df_Field d;
          pg = (case gs_Postgres spec of None \<Rightarrow> None | Some p \<Rightarrow> applyMissingPostgresGrant (pgc_Grants p) field privileges);
          my = (case gs_MySQL spec of None \<Rightarrow> None | Some m \<Rightarrow> applyMissingMySQLGrant (mgc_Grants m) field privileges);
          ch = (case gs_ClickHouse spec of None \<Rightarrow> None | Some h \<Rightarrow> applyMissingClickHouseGrant (cgc_Grants h) field privileges)
      in case pg of
           Some g \<Rightarrow> ad_Grant (dsv_adapter s) c grantee [g]
         | None \<Rightarrow>
             (case my of
                Some g \<Rightarrow> ad_Grant (dsv_adapter s) c grantee [g]
              | None \<Rightarrow>
                  (case ch of
                     Some g \<Rightarrow> ad_Grant (dsv_adapter s) c grantee [g]
                   | None \<Rightarrow> fail (OtherError (''could not find matching grant for field: '' @ field) None))))"

definition revokeExtraGrants :: "'w drift_Service \<Rightarrow> ctx \<Rightarrow> string \<Rightarrow> Diff \<Rightarrow> ('w, unit) op" where
  "revokeExtraGrants s c grantee d =
     (let privileges = Split (df_Actual d) '', ''; parts = Split (df_Field d) ''.''
      in if length parts < 3 then fail (OtherError (''invalid field format: '' @ df_Field d) None)
         else ad_Revoke (dsv_adapter s) c grantee [empty_GrantOptions\<lparr>go_Tables := [parts ! 2], go_Privileges := privileges\<rparr>])"

definition applyGrantCorrection :: "'w drift_Service \<Rightarrow> ctx \<Rightarrow> DatabaseGrantSpec \<Rightarrow> string \<Rightarrow> 'w correction" where
  "applyGrantCorrection s c spec grantee d =
     Some (let field = df_Field d
           in if field = ''roles.missing'' then ad_GrantRole (dsv_adapter s) c grantee (Split (df_Expected d) '', '')
              else if field = ''roles.extra'' then ad_RevokeRole (dsv_adapter s) c grantee (Split (df_Actual d) '', '')
              else if Contains field ''.missing'' then applyMissingGrants s c spec grantee d
              else if Contains field ''.extra'' then revokeExtraGrants s c grantee d
              else fail (unsupported_field field))"

definition CorrectGrantDrift ::
  "'w drift_Service \<Rightarrow> ctx \<Rightarrow> DatabaseGrantSpec \<Rightarrow> string \<Rightarrow> Diff list \<Rightarrow> 'w \<Rightarrow> ('w \<times> CorrectionResult) option" where
  "CorrectGrantDrift s c spec grantee ds =
     correct_diffs (dsv_AllowDestructive s) ''destructive correction not allowed''
       (applyGrantCorrection s c spec grantee) ds (NewCorrectionResult grantee)"

interpretation grant_drift: drift_kind "grant_diffs ord spec" "applyGrantCorrection s c spec grantee"
    "CorrectGrantDrift s c spec grantee" "dsv_AllowDestructive s" "''destructive correction not allowed''" grantee
  for ord s c spec grantee
  by unfold_locales (simp_all add: CorrectGrantDrift_def applyGrantCorrection_def)

section \<open>Corrections are careful\<close>

text \<open>
  C1: for all four kinds of resources, every adapter and every state of the server, correcting the
  drift that detection reports does not panic; it leaves immutable fields alone, and destructive ones
  too unless they are allowed, and lists exactly those as skipped; it attempts every other difference
  once, in order, even after a failure, changes the server by nothing else, and lists each attempt
  under its outcome.
\<close>

theorem drift_correction_careful:
  "(\<exists>run. CorrectDatabaseDrift s c dspec (database_diffs ordd dspec dinfo) w = Some run \<and>
     careful_run (dsv_AllowDestructive s) (applyDatabaseCorrection s c dspec) (database_diffs ordd dspec dinfo) w run) \<and>
   (\<exists>run. CorrectRoleDrift s c rspec (role_diffs ord rspec rinfo) w = Some run \<and>
     careful_run (dsv_AllowDestructive s) (applyRoleCorrection s c rspec) (role_diffs ord rspec rinfo) w run) \<and>
   (\<exists>run. CorrectUserDrift s c uspec (user_diffs ord uspec uinfo) w = Some run \<and>
     careful_run (dsv_AllowDestructive s) (applyUserCorrection s c uspec) (user_diffs ord uspec uinfo) w run) \<and>
   (\<exists>run. CorrectGrantDrift s c gspec grantee (grant_diffs ord gspec ginfo) w = Some run \<and>
     careful_run (dsv_AllowDestructive s) (applyGrantCorrection s c gspec grantee) (grant_diffs ord gspec ginfo) w run)"
  by (intro conjI db_drift.runs role_drift.runs user_drift.runs grant_drift.runs)

section \<open>Role memberships survive the trip through a difference\<close>

lemma HasPrefix_sep: "HasPrefix s '', '' \<longleftrightarrow> (\<exists>t. s = CHR '','' # CHR '' '' # t)"
  by (auto simp: HasPrefix_iff)

lemma split_piece:
  assumes "\<not> Contains x '', ''"
  shows "split_go '', '' 0 acc (x @ '', '' @ rest) = (acc @ x) # split_go '', '' 0 [] rest"
  using assms
proof (induction x arbitrary: acc)
  case Nil
  then show ?case by (simp add: HasPrefix_def numeral_2_eq_2)
next
  case (Cons a x)
  have "\<not> HasPrefix (a # x @ '', '' @ rest) '', ''"
  proof (cases x)
    case Nil
    then show ?thesis by (simp add: HasPrefix_def)
  next
    case (Cons b y)
    then show ?thesis using \<open>\<not> Contains (a # x) '', ''\<close> by (simp add: HasPrefix_def)
  qed
  then show ?case using Cons by simp
qed

lemma split_last:
  assumes "\<not> Contains x '', ''"
  shows "split_go '', '' 0 acc x = [acc @ x]"
  using assms by (induction x arbitrary: acc) auto

lemma Split_Join:
  assumes "xs \<noteq> []" and "\<forall>x \<in> set xs. \<not> Contains x '', ''"
  shows "Split (Join xs '', '') '', '' = xs"
  using assms unfolding Split_def
proof (induction xs)
  case (Cons x xs)
  then show ?case by (cases xs) (simp_all add: split_last split_piece [simplified])
qed simp

definition actual_roles :: "GrantInfo list \<Rightarrow> string set" where
  "actual_roles gs = gi_ObjectName ` {g \<in> set gs. EqualFold (gi_ObjectType g) ''ROLE''}"

lemma actual_roles_list:
  "actual_roles gs = set (map gi_ObjectName (filter (\<lambda>g. EqualFold (gi_ObjectType g) ''ROLE'') gs))"
  by (auto simp: actual_roles_def)

lemma sorted_extra:
  assumes "range_order_ok ord"
  shows "sort (map fst (filter (\<lambda>(role, u). \<not> has_key (role_set bs) role) (ord (role_set as)))) =
    sorted_list_of_set (set as - set bs)"
proof -
  have "distinct (map fst (role_set as))" unfolding role_set_def by (rule map_puts_distinct)
  then have "distinct (map fst (filter (\<lambda>(role, u). \<not> has_key (role_set bs) role) (role_set as)))"
    by (rule distinct_map_filter)
  moreover have "set (map fst (filter (\<lambda>(role, u). \<not> has_key (role_set bs) role) (role_set as))) = set as - set bs"
    using collected_roles [OF range_order_id, of bs as] by simp
  ultimately have "sort (map fst (filter (\<lambda>(role, u). \<not> has_key (role_set bs) role) (role_set as))) =
      sorted_list_of_set (set as - set bs)"
    by (metis sorted_list_of_set_sort_remdups remdups_id_iff_distinct)
  then show ?thesis by (simp only: sorted_collect_order_irrelevant [OF assms])
qed

text \<open>
  Role memberships go through the text of a difference without loss. Unless a role name holds a
  comma followed by a space, the correction of the membership drift of a grant grants exactly the
  roles of the spec that are missing and revokes exactly the roles that are not in the spec, each in
  one call and in order of their names, whatever the order of Go's maps.
\<close>

theorem grant_role_corrections:
  assumes "range_order_ok ord" and "\<forall>r \<in> set expected \<union> actual_roles gs. \<not> Contains r '', ''"
  shows "let missing = sort (filter (\<lambda>r. r \<notin> actual_roles gs) expected);
      extra = sorted_list_of_set (actual_roles gs - set expected)
    in map (applyGrantCorrection s c spec grantee) (detectRoleMembershipDrift ord expected gs) =
      (if missing = [] then [] else [Some (ad_GrantRole (dsv_adapter s) c grantee missing)]) @
      (if extra = [] then [] else [Some (ad_RevokeRole (dsv_adapter s) c grantee extra)])"
proof -
  let ?as = "map gi_ObjectName (filter (\<lambda>g. EqualFold (gi_ObjectType g) ''ROLE'') gs)"
  let ?missing = "sort (filter (\<lambda>r. r \<notin> actual_roles gs) expected)"
  let ?extra = "sorted_list_of_set (actual_roles gs - set expected)"
  note as = actual_roles_list [symmetric]
  have diffs: "detectRoleMembershipDrift ord expected gs =
      diff_if (?missing \<noteq> []) (diff ''roles.missing'' (Join ?missing '', '') '''') @
      diff_if (?extra \<noteq> []) ((diff ''roles.extra'' '''' (Join ?extra '', ''))\<lparr>df_Destructive := True\<rparr>)"
    unfolding detectRoleMembershipDrift_def Let_def unfolding sorted_extra [OF assms(1)] unfolding role_set_keys as ..
  have split: "?missing \<noteq> [] \<Longrightarrow> Split (Join ?missing '', '') '', '' = ?missing"
    "?extra \<noteq> [] \<Longrightarrow> Split (Join ?extra '', '') '', '' = ?extra"
    using assms(2) by (intro Split_Join; auto simp: actual_roles_def)+
  have mis: "applyGrantCorrection s c spec grantee (diff ''roles.missing'' (Join ?missing '', '') '''') =
      Some (ad_GrantRole (dsv_adapter s) c grantee ?missing)" if "?missing \<noteq> []"
    using split(1) [OF that] unfolding applyGrantCorrection_def by (simp add: diff_def)
  have ext: "applyGrantCorrection s c spec grantee ((diff ''roles.extra'' '''' (Join ?extra '', ''))\<lparr>df_Destructive := True\<rparr>) =
      Some (ad_RevokeRole (dsv_adapter s) c grantee ?extra)" if "?extra \<noteq> []"
    using split(2) [OF that] unfolding applyGrantCorrection_def by (simp add: diff_def)
  show ?thesis
    unfolding Let_def diffs diff_if_def using mis ext by auto
qed

definition member_of :: "string \<Rightarrow> GrantInfo" where
  "member_of role = \<lparr>gi_Grantor = '''', gi_Grantee = ''u'', gi_Database = '''', gi_Schema = '''', gi_ObjectType = ''role'',
     gi_ObjectName = role, gi_Privileges = []\<rparr>"

definition empty_grant_spec :: DatabaseGrantSpec where
  "empty_grant_spec = \<lparr>gs_Postgres = None, gs_MySQL = None, gs_ClickHouse = None\<rparr>"

theorem grant_role_corrections_witness:
  "map (applyGrantCorrection careful_service \<lparr>ctx_deadline = None\<rparr> empty_grant_spec ''u'')
     (detectRoleMembershipDrift rev [''b'', ''a'', ''c''] [member_of ''c'', member_of ''x'']) =
   [Some (ad_GrantRole accounts_adapter \<lparr>ctx_deadline = None\<rparr> ''u'' [''a'', ''b'']),
    Some (ad_RevokeRole accounts_adapter \<lparr>ctx_deadline = None\<rparr> ''u'' [''x''])]"
proof -
  have roles: "actual_roles [member_of ''c'', member_of ''x''] = {''c'', ''x''}"
    unfolding actual_roles_list by code_simp
  have names: "\<forall>r \<in> set [''b'', ''a'', ''c''] \<union> actual_roles [member_of ''c'', member_of ''x'']. \<not> Contains r '', ''"
    by (simp add: roles HasPrefix_def)
  have sorted: "sort (filter (\<lambda>r. r \<notin> {''c'', ''x''}) [''b'', ''a'', ''c'']) = [''a'', ''b'']"
    "sorted_list_of_set ({''c'', ''x''} - set [''b'', ''a'', ''c'']) = [''x'']"
    by code_simp+
  show ?thesis
    using grant_role_corrections [OF range_order_rev names, where s = careful_service and c = "\<lparr>ctx_deadline = None\<rparr>" and
        spec = empty_grant_spec and grantee = "''u''"]
    unfolding Let_def roles sorted by (simp add: careful_service_def)
qed

section \<open>Grants that are wholly absent\<close>

text \<open>
  A grant on a table, sequence or function of which the server has no privilege at all is
  detected as a correctable difference, but its correction is always refused and changes nothing: the field of the
  difference lacks the suffix that the correction looks for.
\<close>

theorem absent_grant_not_corrected:
  assumes "objectType \<in> {''TABLE'', ''SEQUENCE'', ''FUNCTION''}"
    and "map_of actual (buildGrantKey database schema objectType name) = None"
    and "\<not> Contains (''grants.'' @ ToLower objectType @ ''.'' @ name) ''.missing''"
    and "\<not> Contains (''grants.'' @ ToLower objectType @ ''.'' @ name) ''.extra''"
  shows "\<exists>d. checkObjectGrant database schema objectType name privs actual = [d] \<and> eligible False d \<and>
    the (applyGrantCorrection s c spec grantee d) w = (w, Inl (unsupported_field (df_Field d)))"
  using assms by (auto simp: checkObjectGrant_def eligible_def applyGrantCorrection_def Let_def)

theorem absent_grant_not_corrected_witness:
  "\<exists>d. checkObjectGrant ''app'' ''public'' ''TABLE'' ''t'' [''SELECT''] [] = [d] \<and> eligible False d \<and>
    the (applyGrantCorrection careful_service \<lparr>ctx_deadline = None\<rparr> empty_grant_spec ''u'' d) accounts_x =
      (accounts_x, Inl (unsupported_field (df_Field d)))"
proof (rule absent_grant_not_corrected)
  show "\<not> Contains (''grants.'' @ ToLower ''TABLE'' @ ''.'' @ ''t'') ''.missing''"
    "\<not> Contains (''grants.'' @ ToLower ''TABLE'' @ ''.'' @ ''t'') ''.extra''" by code_simp+
qed simp_all

end
