(* ===== verification/Drift_Orchestrator.thy ===== *)
theory Drift_Orchestrator
  imports Drift_Grant
begin

text \<open>
  The drift policy of a resource and the orchestration of detection and correction:
  \<^verbatim>\<open>internal/controller/drift/orchestrator.go\<close>, \<^verbatim>\<open>internal/util/drift.go\<close> and the types of
  \<^verbatim>\<open>api/v1alpha1/driftpolicy_types.go\<close>.

  A detector is the pair of functions a controller passes in. The resource's drift status and the
  recorded events are state that a run returns beside the world. \<^verbatim>\<open>time.ParseDuration\<close> is the
  argument \<open>parse\<close>.
\<close>

section \<open>Policies\<close>

datatype DriftMode = DriftModeIgnore | DriftModeDetect | DriftModeCorrect | DriftModeOther string

record DriftPolicy =
  dp_Mode :: DriftMode
  dp_Interval :: string

definition ParseDriftRequeueInterval :: "(string \<Rightarrow> duration option) \<Rightarrow> DriftPolicy \<Rightarrow> duration \<Rightarrow> duration" where
  "ParseDriftRequeueInterval parse policy defaultInterval =
     (if dp_Mode policy = DriftModeIgnore \<or> dp_Interval policy = '''' then defaultInterval
      else (case parse (dp_Interval policy) of None \<Rightarrow> defaultInterval | Some interval \<Rightarrow> interval))"

record DriftableResource =
  rs_driftPolicy :: "DriftPolicy option"
  rs_annotations :: "string go_map option"

text \<open>The policy of the parent instance: an absent instance has none.\<close>

definition getEffectiveDriftPolicy :: "DriftableResource \<Rightarrow> DriftPolicy option option \<Rightarrow> duration \<Rightarrow> DriftPolicy" where
  "getEffectiveDriftPolicy resource instance' defaultInterval =
     (case rs_driftPolicy resource of
        Some p \<Rightarrow> p
      | None \<Rightarrow>
          (case instance' of
             Some (Some p) \<Rightarrow> p
           | _ \<Rightarrow> \<lparr>dp_Mode = DriftModeDetect, dp_Interval = Duration_String defaultInterval\<rparr>))"

definition AnnotationAllowDestructiveDrift :: string where
  "AnnotationAllowDestructiveDrift = ''dbops.dbprovision.io/allow-destructive-drift''"

definition hasDestructiveDriftAnnotation :: "DriftableResource \<Rightarrow> bool" where
  "hasDestructiveDriftAnnotation resource =
     (case rs_annotations resource of
        None \<Rightarrow> False
      | Some annotations \<Rightarrow> map_of annotations AnnotationAllowDestructiveDrift = Some ''true'')"

section \<open>The orchestrator\<close>

record 'w Detector =
  dt_DetectDrift :: "ctx \<Rightarrow> bool \<Rightarrow> ('w, DriftResult option) op"
  dt_CorrectDrift :: "ctx \<Rightarrow> DriftResult \<Rightarrow> bool \<Rightarrow> ('w, CorrectionResult option) op"

record k8s_event =
  ev_Type :: string
  ev_Reason :: string
  ev_Message :: string

record 'w drift_state =
  os_world :: 'w
  os_status :: "DriftStatus option"
  os_events :: "k8s_event list"

text \<open>\<^verbatim>\<open>%v\<close> of a slice of strings.\<close>

definition fmt_strings :: "string list \<Rightarrow> string" where
  "fmt_strings xs = ''['' @ Join xs '' '' @ '']''"

definition Eventf :: "string \<Rightarrow> string \<Rightarrow> string \<Rightarrow> 'w drift_state \<Rightarrow> 'w drift_state" where
  "Eventf ty reason msg st = st\<lparr>os_events := os_events st @ [\<lparr>ev_Type = ty, ev_Reason = reason, ev_Message = msg\<rparr>]\<rparr>"

definition SetDriftStatus :: "DriftStatus \<Rightarrow> 'w drift_state \<Rightarrow> 'w drift_state" where
  "SetDriftStatus s st = st\<lparr>os_status := Some s\<rparr>"

definition correctDrift :: "'w Detector \<Rightarrow> ctx \<Rightarrow> DriftResult \<Rightarrow> bool \<Rightarrow> 'w drift_state \<Rightarrow> 'w drift_state" where
  "correctDrift detector c driftResult allowDestructive st =
     (case dt_DetectDrift detector c allowDestructive (os_world st) of
        (w1, Inl e) \<Rightarrow> st\<lparr>os_world := w1\<rparr>
      | (w1, Inr None) \<Rightarrow> st\<lparr>os_world := w1\<rparr>
      | (w1, Inr (Some handlerDriftResult)) \<Rightarrow>
          if \<not> HasDrift handlerDriftResult then st\<lparr>os_world := w1\<rparr>
          else
            (case dt_CorrectDrift detector c handlerDriftResult allowDestructive w1 of
               (w2, Inl e) \<Rightarrow> Eventf ''Warning'' ''DriftCorrectionFailed'' (''Failed to correct drift: '' @ Error e) (st\<lparr>os_world := w2\<rparr>)
             | (w2, Inr None) \<Rightarrow> st\<lparr>os_world := w2\<rparr>
             | (w2, Inr (Some cr)) \<Rightarrow>
                 if HasCorrections cr
                 then SetDriftStatus ((ToAPIStatus driftResult)\<lparr>st_Detected := False, st_Diffs := []\<rparr>)
                        (SetDriftStatus (ToAPIStatus driftResult)
                           (Eventf ''Normal'' ''DriftCorrected''
                              (''Drift corrected for fields: '' @ fmt_strings (map df_Field (cr_Corrected cr))) (st\<lparr>os_world := w2\<rparr>)))
                 else st\<lparr>os_world := w2\<rparr>))"

definition PerformDriftDetection ::
  "duration \<Rightarrow> ctx \<Rightarrow> DriftableResource \<Rightarrow> DriftPolicy option option \<Rightarrow> 'w Detector \<Rightarrow> 'w drift_state \<Rightarrow> 'w drift_state" where
  "PerformDriftDetection defaultInterval c resource instance' detector st =
     (let policy = getEffectiveDriftPolicy resource instance' defaultInterval
      in if dp_Mode policy = DriftModeIgnore then st
         else
           (let allowDestructive = hasDestructiveDriftAnnotation resource
            in case dt_DetectDrift detector c allowDestructive (os_world st) of
                 (w1, Inl e) \<Rightarrow> st\<lparr>os_world := w1\<rparr>
               | (w1, Inr None) \<Rightarrow> st\<lparr>os_world := w1\<rparr>
               | (w1, Inr (Some driftResult)) \<Rightarrow>
                   (let st1 = SetDriftStatus (ToAPIStatus driftResult) (st\<lparr>os_world := w1\<rparr>)
                    in if HasDrift driftResult
                       then
                         (let st2 = Eventf ''Warning'' ''DriftDetected''
                                (''Configuration drift detected in fields: '' @ fmt_strings (map df_Field (dr_Diffs driftResult))) st1
                          in if dp_Mode policy = DriftModeCorrect
                             then correctDrift detector c driftResult allowDestructive st2
                             else st2)
                       else st1)))"

definition GetRequeueInterval ::
  "(string \<Rightarrow> duration option) \<Rightarrow> duration \<Rightarrow> DriftableResource \<Rightarrow> DriftPolicy option option \<Rightarrow> duration" where
  "GetRequeueInterval parse defaultInterval resource instance' =
     ParseDriftRequeueInterval parse (getEffectiveDriftPolicy resource instance' defaultInterval) defaultInterval"

section \<open>The policy is respected\<close>

lemmas drift_state_defs = Eventf_def SetDriftStatus_def ToAPIStatus_def HasDrift_def

definition status_ok :: "DriftStatus option \<Rightarrow> bool" where
  "status_ok s \<longleftrightarrow> (case s of None \<Rightarrow> True | Some x \<Rightarrow> st_Detected x \<longleftrightarrow> st_Diffs x \<noteq> [])"

lemma correctDrift_keeps:
  "status_ok (os_status st) \<Longrightarrow> status_ok (os_status (correctDrift detector c r allow st)) \<and>
   prefix (os_events st) (os_events (correctDrift detector c r allow st))"
  by (auto simp: correctDrift_def drift_state_defs status_ok_def split: prod.splits sum.splits option.splits)

text \<open>
  C25: The drift policy is respected. Under \<^verbatim>\<open>ignore\<close> nothing is called and nothing changes. For
  every detector whose detection only reads, the server is changed only under \<^verbatim>\<open>correct\<close>.
  Whatever the detector does, a status says \<^verbatim>\<open>detected\<close> exactly when it lists
  differences, and recorded events are only added. When a correction run corrects anything the status is
  cleared, even if other differences were skipped or failed.
\<close>

theorem drift_policy_respected:
  fixes detector :: "'w Detector" and view :: "'w \<Rightarrow> 'v" and defaultInterval c resource inst
  defines "run \<equiv> PerformDriftDetection defaultInterval c resource inst detector"
  assumes reads: "\<And>ctx allow w. view (fst (dt_DetectDrift detector ctx allow w)) = view w"
    and ok: "status_ok (os_status st)"
  shows "(dp_Mode (getEffectiveDriftPolicy resource inst defaultInterval) = DriftModeIgnore \<longrightarrow> run st = st) \<and>
    (dp_Mode (getEffectiveDriftPolicy resource inst defaultInterval) \<noteq> DriftModeCorrect \<longrightarrow>
       view (os_world (run st)) = view (os_world st)) \<and>
    status_ok (os_status (run st)) \<and> prefix (os_events st) (os_events (run st)) \<and>
    (\<forall>w1 r w2 r2 w3 cr. dp_Mode (getEffectiveDriftPolicy resource inst defaultInterval) = DriftModeCorrect \<and>
       dt_DetectDrift detector c (hasDestructiveDriftAnnotation resource) (os_world st) = (w1, Inr (Some r)) \<and> HasDrift r \<and>
       dt_DetectDrift detector c (hasDestructiveDriftAnnotation resource) w1 = (w2, Inr (Some r2)) \<and> HasDrift r2 \<and>
       dt_CorrectDrift detector c r2 (hasDestructiveDriftAnnotation resource) w2 = (w3, Inr (Some cr)) \<longrightarrow>
       os_status (run st) = Some (if HasCorrections cr then (ToAPIStatus r)\<lparr>st_Detected := False, st_Diffs := []\<rparr> else ToAPIStatus r))"
proof (intro conjI impI allI; (elim conjE)?)
  let ?mode = "dp_Mode (getEffectiveDriftPolicy resource inst defaultInterval)"
  let ?allow = "hasDestructiveDriftAnnotation resource"
  show "run st = st" if "?mode = DriftModeIgnore"
    using that by (simp add: run_def PerformDriftDetection_def)
  show "view (os_world (run st)) = view (os_world st)" if "?mode \<noteq> DriftModeCorrect"
    using reads [of c ?allow "os_world st"] that
    by (auto simp: run_def PerformDriftDetection_def Let_def drift_state_defs split: prod.splits sum.splits option.splits)
  have detected: "status_ok (Some (ToAPIStatus r))" for r
    by (simp add: status_ok_def ToAPIStatus_def HasDrift_def)
  show "status_ok (os_status (run st))" and "prefix (os_events st) (os_events (run st))"
    unfolding run_def PerformDriftDetection_def Let_def
    using ok detected by (auto simp: Eventf_def SetDriftStatus_def intro!: conjunct1 [OF correctDrift_keeps]
        prefix_order.trans [OF _ conjunct2 [OF correctDrift_keeps]] split: prod.split sum.split option.split)
  show "os_status (run st) = Some (if HasCorrections cr then (ToAPIStatus r)\<lparr>st_Detected := False, st_Diffs := []\<rparr> else ToAPIStatus r)"
    if "?mode = DriftModeCorrect" "dt_DetectDrift detector c ?allow (os_world st) = (w1, Inr (Some r))" "HasDrift r"
      "dt_DetectDrift detector c ?allow w1 = (w2, Inr (Some r2))" "HasDrift r2"
      "dt_CorrectDrift detector c r2 ?allow w2 = (w3, Inr (Some cr))" for w1 r w2 r2 w3 cr
    using that by (simp add: run_def PerformDriftDetection_def correctDrift_def Let_def Eventf_def SetDriftStatus_def)
qed

text \<open>
  The detectors of the role and user controllers, with the adapter as their connection.
\<close>

definition role_detector :: "bool range_order \<Rightarrow> 'w adapter \<Rightarrow> DatabaseRoleSpec \<Rightarrow> 'w Detector" where
  "role_detector ord a spec = \<lparr>
     dt_DetectDrift = (\<lambda>c allow. check (DetectRoleDrift ord \<lparr>dsv_adapter = a, dsv_AllowDestructive = allow\<rparr> c spec) as_is (\<lambda>r. ret (Some r))),
     dt_CorrectDrift = (\<lambda>c r allow w.
       (case CorrectRoleDrift \<lparr>dsv_adapter = a, dsv_AllowDestructive = allow\<rparr> c spec (dr_Diffs r) w of
          Some (w', cr) \<Rightarrow> (w', Inr (Some cr))
        | None \<Rightarrow> (w, Inr None)))\<rparr>"

definition correcting :: DriftableResource where
  "correcting = \<lparr>rs_driftPolicy = Some \<lparr>dp_Mode = DriftModeCorrect, dp_Interval = ''1h''\<rparr>, rs_annotations = None\<rparr>"

theorem drift_policy_respected_witness:
  "let st = PerformDriftDetection 0 \<lparr>ctx_deadline = None\<rparr> correcting None (role_detector (\<lambda>m. m) accounts_adapter role_spec_x)
      \<lparr>os_world = accounts_x, os_status = None, os_events = []\<rparr>
   in status_ok (os_status st) \<and> map ev_Reason (os_events st) = [''DriftDetected'', ''DriftCorrected''] \<and>
      map_option st_Detected (os_status st) = Some False"
proof -
  let ?d = "role_detector (\<lambda>m. m) accounts_adapter role_spec_x"
  let ?st = "\<lparr>os_world = accounts_x, os_status = None, os_events = []\<rparr>"
  let ?run = "PerformDriftDetection 0 \<lparr>ctx_deadline = None\<rparr> correcting None ?d ?st"
  have reads: "id (fst (dt_DetectDrift ?d ctx allow w)) = id w" for ctx allow w
    by (auto simp: role_detector_def DetectRoleDrift_def detect_with_def check_def accounts_adapter_def split: option.splits)
  have "map ev_Reason (os_events ?run) = [''DriftDetected'', ''DriftCorrected''] \<and> map_option st_Detected (os_status ?run) = Some False"
    by code_simp
  moreover have "status_ok (os_status ?run)"
    using drift_policy_respected [where view = id and detector = ?d and st = ?st and defaultInterval = 0 and
        c = "\<lparr>ctx_deadline = None\<rparr>" and resource = correcting and inst = None, OF reads]
    by (simp add: status_ok_def)
  ultimately show ?thesis by (simp add: Let_def)
qed

end
