(* ===== verification/Conditions.thy ===== *)
theory Conditions
  imports Op_Prelude
begin

text \<open>
  Conditions, finalizers and deletion confirmation of custom resources:
  \<^verbatim>\<open>internal/util/conditions.go\<close>, \<^verbatim>\<open>internal/util/finalizers.go\<close> and
  \<^verbatim>\<open>internal/util/deletion_confirmation.go\<close>. The clock is an argument, and so is the hash function
  \<^verbatim>\<open>sha256.Sum256\<close>, a list of bytes.
\<close>

section \<open>Conditions\<close>

datatype ConditionStatus = ConditionTrue | ConditionFalse | ConditionUnknown

record Condition =
  cn_Type :: string
  cn_Status :: ConditionStatus
  cn_Reason :: string
  cn_Message :: string
  cn_LastTransitionTime :: int
  cn_ObservedGeneration :: int

definition ConditionTypeReady :: string where "ConditionTypeReady = ''Ready''"
definition ConditionTypeConnected :: string where "ConditionTypeConnected = ''Connected''"
definition ConditionTypeHealthy :: string where "ConditionTypeHealthy = ''Healthy''"
definition ConditionTypeSynced :: string where "ConditionTypeSynced = ''Synced''"

fun SetCondition :: "int \<Rightarrow> string \<Rightarrow> ConditionStatus \<Rightarrow> string \<Rightarrow> string \<Rightarrow> Condition list \<Rightarrow> Condition list" where
  "SetCondition now conditionType status reason message [] =
     [\<lparr>cn_Type = conditionType, cn_Status = status, cn_Reason = reason, cn_Message = message,
       cn_LastTransitionTime = now, cn_ObservedGeneration = 0\<rparr>]"
| "SetCondition now conditionType status reason message (c # cs) =
     (if cn_Type c = conditionType
      then (if cn_Status c \<noteq> status \<or> cn_Reason c \<noteq> reason \<or> cn_Message c \<noteq> message
            then \<lparr>cn_Type = conditionType, cn_Status = status, cn_Reason = reason, cn_Message = message,
                   cn_LastTransitionTime = now, cn_ObservedGeneration = cn_ObservedGeneration c\<rparr>
            else c) # cs
      else c # SetCondition now conditionType status reason message cs)"

fun GetCondition :: "Condition list \<Rightarrow> string \<Rightarrow> Condition option" where
  "GetCondition [] conditionType = None"
| "GetCondition (c # cs) conditionType = (if cn_Type c = conditionType then Some c else GetCondition cs conditionType)"

definition IsConditionTrue :: "Condition list \<Rightarrow> string \<Rightarrow> bool" where
  "IsConditionTrue conditions conditionType \<longleftrightarrow>
     (case GetCondition conditions conditionType of None \<Rightarrow> False | Some c \<Rightarrow> cn_Status c = ConditionTrue)"

definition IsConditionFalse :: "Condition list \<Rightarrow> string \<Rightarrow> bool" where
  "IsConditionFalse conditions conditionType \<longleftrightarrow>
     (case GetCondition conditions conditionType of None \<Rightarrow> False | Some c \<Rightarrow> cn_Status c = ConditionFalse)"

definition RemoveCondition :: "string \<Rightarrow> Condition list \<Rightarrow> Condition list" where
  "RemoveCondition conditionType conditions = filter (\<lambda>c. cn_Type c \<noteq> conditionType) conditions"

definition SetReadyCondition :: "int \<Rightarrow> ConditionStatus \<Rightarrow> string \<Rightarrow> string \<Rightarrow> Condition list \<Rightarrow> Condition list" where
  "SetReadyCondition now = SetCondition now ConditionTypeReady"

definition SetConnectedCondition :: "int \<Rightarrow> ConditionStatus \<Rightarrow> string \<Rightarrow> string \<Rightarrow> Condition list \<Rightarrow> Condition list" where
  "SetConnectedCondition now = SetCondition now ConditionTypeConnected"

definition SetHealthyCondition :: "int \<Rightarrow> ConditionStatus \<Rightarrow> string \<Rightarrow> string \<Rightarrow> Condition list \<Rightarrow> Condition list" where
  "SetHealthyCondition now = SetCondition now ConditionTypeHealthy"

definition SetSyncedCondition :: "int \<Rightarrow> ConditionStatus \<Rightarrow> string \<Rightarrow> string \<Rightarrow> Condition list \<Rightarrow> Condition list" where
  "SetSyncedCondition now = SetCondition now ConditionTypeSynced"

section \<open>Conditions as a keyed store\<close>

text \<open>
  The contract of a store of at most one value per key, as an interface: what a lookup returns after
  every change. The lemmas of a client are proved from it once.
\<close>

locale keyed_store =
  fixes get :: "'s \<Rightarrow> string \<Rightarrow> 'v option"
    and put :: "string \<Rightarrow> 'p \<Rightarrow> 's \<Rightarrow> 's"
    and del :: "string \<Rightarrow> 's \<Rightarrow> 's"
    and merge :: "string \<Rightarrow> 'p \<Rightarrow> 'v option \<Rightarrow> 'v"
    and inv :: "'s \<Rightarrow> bool"
  assumes get_put: "get (put k p s) j = (if j = k then Some (merge k p (get s k)) else get s j)"
    and get_del: "inv s \<Longrightarrow> get (del k s) j = (if j = k then None else get s j)"
    and inv_put: "inv s \<Longrightarrow> inv (put k p s)"
    and inv_del: "inv s \<Longrightarrow> inv (del k s)"
    and merge_idem: "merge k p (Some (merge k p v)) = merge k p v"
begin

lemma put_idem: "get (put k p (put k p s)) = get (put k p s)"
  by (rule ext) (simp add: get_put merge_idem)

lemma put_commute: "j \<noteq> k \<Longrightarrow> get (put k p (put j q s)) = get (put j q (put k p s))"
  by (rule ext) (auto simp: get_put)

lemma inv_fold: "inv s \<Longrightarrow> inv (fold (\<lambda>(k, p). put k p) kps s)"
  by (induction kps arbitrary: s) (auto simp: inv_put)

lemma untouched: "k \<notin> fst ` set kps \<Longrightarrow> get (fold (\<lambda>(k, p). put k p) kps s) k = get s k"
  by (induction kps arbitrary: s) (auto simp: get_put)

end

definition one_per_type :: "Condition list \<Rightarrow> bool" where
  "one_per_type cs \<longleftrightarrow> distinct (map cn_Type cs)"

type_synonym setting = "int \<times> ConditionStatus \<times> string \<times> string"

fun put_condition :: "string \<Rightarrow> setting \<Rightarrow> Condition list \<Rightarrow> Condition list" where
  "put_condition ty (now, status, reason, message) = SetCondition now ty status reason message"

text \<open>What a setting makes of the old condition: an unchanged one keeps its transition time.\<close>

fun merge_condition :: "string \<Rightarrow> setting \<Rightarrow> Condition option \<Rightarrow> Condition" where
  "merge_condition ty (now, status, reason, message) old =
     (case old of
        None \<Rightarrow> \<lparr>cn_Type = ty, cn_Status = status, cn_Reason = reason, cn_Message = message,
                  cn_LastTransitionTime = now, cn_ObservedGeneration = 0\<rparr>
      | Some c \<Rightarrow>
          if (cn_Status c, cn_Reason c, cn_Message c) = (status, reason, message) then c
          else \<lparr>cn_Type = ty, cn_Status = status, cn_Reason = reason, cn_Message = message,
                 cn_LastTransitionTime = now, cn_ObservedGeneration = cn_ObservedGeneration c\<rparr>)"

lemma get_SetCondition:
  "GetCondition (SetCondition now ty status reason message cs) j =
     (if j = ty then Some (merge_condition ty (now, status, reason, message) (GetCondition cs ty)) else GetCondition cs j)"
  by (induction cs) auto

lemma types_SetCondition:
  "map cn_Type (SetCondition now ty status reason message cs) =
     (if ty \<in> cn_Type ` set cs then map cn_Type cs else map cn_Type cs @ [ty])"
  by (induction cs) auto

lemma get_RemoveCondition:
  "GetCondition (RemoveCondition ty cs) j = (if j = ty then None else GetCondition cs j)"
  by (induction cs) (auto simp: RemoveCondition_def)

lemma distinct_RemoveCondition: "one_per_type cs \<Longrightarrow> one_per_type (RemoveCondition ty cs)"
  by (simp add: one_per_type_def RemoveCondition_def distinct_map_filter)

lemma distinct_SetCondition: "one_per_type cs \<Longrightarrow> one_per_type (SetCondition now ty status reason message cs)"
  by (simp add: one_per_type_def types_SetCondition image_iff)

interpretation conditions: keyed_store GetCondition put_condition RemoveCondition merge_condition one_per_type
proof
  show "GetCondition (put_condition k p s) j =
      (if j = k then Some (merge_condition k p (GetCondition s k)) else GetCondition s j)" for k p s j
    by (cases p) (simp add: get_SetCondition del: merge_condition.simps)
  show "GetCondition (RemoveCondition k s) j = (if j = k then None else GetCondition s j)" for k s j
    by (rule get_RemoveCondition)
  show "one_per_type s \<Longrightarrow> one_per_type (put_condition k p s)" for s k p
    by (cases p) (simp add: distinct_SetCondition)
  show "one_per_type s \<Longrightarrow> one_per_type (RemoveCondition k s)" for s k
    by (rule distinct_RemoveCondition)
  show "merge_condition k p (Some (merge_condition k p v)) = merge_condition k p v" for k p v
    by (cases p) (auto split: option.splits)
qed

text \<open>
  C33: conditions are a store with one entry per type. Whatever sequence of settings and removals is made
  on a list with one condition per type, the list keeps one condition per type; a
  condition that was set is what a lookup finds, with the time of its last real change, and conditions of other
  types are untouched. Repeating a setting later changes nothing, not even its time.
\<close>

theorem conditions_store:
  assumes "one_per_type cs"
  shows "one_per_type (fold (\<lambda>(ty, p). put_condition ty p) ps cs) \<and>
    (\<forall>ty. ty \<notin> fst ` set ps \<longrightarrow> GetCondition (fold (\<lambda>(ty, p). put_condition ty p) ps cs) ty = GetCondition cs ty) \<and>
    GetCondition (SetCondition now ty status reason message cs) ty =
      Some (merge_condition ty (now, status, reason, message) (GetCondition cs ty)) \<and>
    GetCondition (SetCondition later ty status reason message (SetCondition now ty status reason message cs)) =
      GetCondition (SetCondition now ty status reason message cs) \<and>
    (IsConditionTrue (SetCondition now ty status reason message cs) ty \<longleftrightarrow> status = ConditionTrue) \<and>
    one_per_type (RemoveCondition ty cs) \<and> GetCondition (RemoveCondition ty cs) ty = None"
proof (intro conjI allI impI)
  show "one_per_type (fold (\<lambda>(ty, p). put_condition ty p) ps cs)" by (rule conditions.inv_fold [OF assms])
  show "GetCondition (fold (\<lambda>(ty, p). put_condition ty p) ps cs) j = GetCondition cs j" if "j \<notin> fst ` set ps" for j
    by (rule conditions.untouched [OF that])
  show "GetCondition (SetCondition later ty status reason message (SetCondition now ty status reason message cs)) =
      GetCondition (SetCondition now ty status reason message cs)"
    by (rule ext) (auto simp: get_SetCondition split: option.splits)
  show "IsConditionTrue (SetCondition now ty status reason message cs) ty \<longleftrightarrow> status = ConditionTrue"
    by (auto simp: IsConditionTrue_def get_SetCondition split: option.splits)
  show "one_per_type (RemoveCondition ty cs)" by (rule distinct_RemoveCondition [OF assms])
qed (simp_all add: get_SetCondition get_RemoveCondition del: merge_condition.simps)

definition ready_x :: Condition where
  "ready_x = \<lparr>cn_Type = ''Ready'', cn_Status = ConditionFalse, cn_Reason = ''Creating'', cn_Message = '''',
     cn_LastTransitionTime = 1, cn_ObservedGeneration = 3\<rparr>"

theorem conditions_store_witness:
  "one_per_type [ready_x] \<and> IsConditionTrue (SetCondition 7 ''Ready'' ConditionTrue ''ReconcileSuccess'' '''' [ready_x]) ''Ready'' \<and>
   map_option cn_ObservedGeneration (GetCondition (SetCondition 7 ''Ready'' ConditionTrue ''ReconcileSuccess'' '''' [ready_x]) ''Ready'') = Some 3"
proof -
  have one: "one_per_type [ready_x]" by (simp add: one_per_type_def)
  show ?thesis
    using conditions_store [OF one, where now = 7 and ty = "''Ready''" and status = ConditionTrue and
        reason = "''ReconcileSuccess''" and message = "''''" and ps = "[]" and later = 8]
    by (simp add: one ready_x_def)
qed

section \<open>Annotations and finalizers\<close>

record OwnerReference =
  or_APIVersion :: string
  or_Kind :: string
  or_Name :: string
  or_UID :: string
  or_Controller :: "bool option"
  or_BlockOwnerDeletion :: "bool option"

record object_meta =
  om_name :: string
  om_namespace :: string
  om_uid :: string
  om_labels :: "string go_map option"
  om_annotations :: "string go_map option"
  om_ownerReferences :: "OwnerReference list"
  om_creationTimestamp :: int
  om_deletionTimestamp :: "int option"
  om_finalizers :: "string list"

definition annotation :: "object_meta \<Rightarrow> string \<Rightarrow> string" where
  "annotation obj key = (case om_annotations obj of None \<Rightarrow> '''' | Some m \<Rightarrow> (case map_of m key of None \<Rightarrow> '''' | Some v \<Rightarrow> v))"

definition AnnotationForceDelete :: string where
  "AnnotationForceDelete = ''dbops.dbprovision.io/force-delete''"
definition AnnotationSkipReconcile :: string where
  "AnnotationSkipReconcile = ''dbops.dbprovision.io/skip-reconcile''"
definition AnnotationPauseReconcile :: string where
  "AnnotationPauseReconcile = ''dbops.dbprovision.io/pause-reconcile''"
definition AnnotationConfirmForceDelete :: string where
  "AnnotationConfirmForceDelete = ''dbops.dbprovision.io/confirm-force-delete''"

definition IsMarkedForDeletion :: "object_meta \<Rightarrow> bool" where
  "IsMarkedForDeletion obj \<longleftrightarrow> om_deletionTimestamp obj \<noteq> None"

definition HasForceDeleteAnnotation :: "object_meta \<Rightarrow> bool" where
  "HasForceDeleteAnnotation obj =
     (case om_annotations obj of None \<Rightarrow> False | Some m \<Rightarrow> map_of m AnnotationForceDelete = Some ''true'')"

definition ShouldSkipReconcile :: "object_meta \<Rightarrow> bool" where
  "ShouldSkipReconcile obj =
     (case om_annotations obj of
        None \<Rightarrow> False
      | Some m \<Rightarrow> map_of m AnnotationSkipReconcile = Some ''true'' \<or> map_of m AnnotationPauseReconcile = Some ''true'')"

section \<open>Confirmation of a cascading deletion\<close>

definition hex_byte :: "nat \<Rightarrow> string" where
  "hex_byte b = [''0123456789abcdef'' ! (b div 16 mod 16), ''0123456789abcdef'' ! (b mod 16)]"

definition ComputeDeletionHash :: "(string \<Rightarrow> nat list) \<Rightarrow> string list \<Rightarrow> string" where
  "ComputeDeletionHash Sum256 children =
     concat (map hex_byte (take 4 (Sum256 (Join (sort children) [CHR 0x0A]))))"

definition GetConfirmForceDeleteAnnotation :: "object_meta \<Rightarrow> string" where
  "GetConfirmForceDeleteAnnotation obj = annotation obj AnnotationConfirmForceDelete"

definition IsForceDeleteConfirmed :: "(string \<Rightarrow> nat list) \<Rightarrow> object_meta \<Rightarrow> string list \<Rightarrow> bool" where
  "IsForceDeleteConfirmed Sum256 obj children \<longleftrightarrow> GetConfirmForceDeleteAnnotation obj = ComputeDeletionHash Sum256 children"

lemma Join_newline_inj:
  assumes "\<forall>x \<in> set xs. sep \<notin> set x" "\<forall>x \<in> set ys. sep \<notin> set x" "xs \<noteq> []" "ys \<noteq> []" "Join xs [sep] = Join ys [sep]"
  shows "xs = ys"
  using assms
proof (induction xs arbitrary: ys)
  case (Cons x xs)
  obtain y ys' where ys: "ys = y # ys'" using Cons.prems(4) by (cases ys) auto
  have absent: "sep \<notin> set x" "sep \<notin> set y" using Cons.prems by (auto simp: ys)
  have form: "Join (z # zs) [sep] = z @ (if zs = [] then [] else sep # Join zs [sep])" for z zs
    by (cases zs) simp_all
  have eq: "x @ (if xs = [] then [] else sep # Join xs [sep]) = y @ (if ys' = [] then [] else sep # Join ys' [sep])"
    using Cons.prems(5) by (simp only: ys form)
  have tw: "takeWhile (\<lambda>c. c \<noteq> sep) (z @ (if zs = [] then [] else sep # t)) = z" if "sep \<notin> set z" for z zs and t
    using that by (auto simp: takeWhile_append takeWhile_eq_all_conv)
  have xy: "x = y" using arg_cong [OF eq, of "takeWhile (\<lambda>c. c \<noteq> sep)"] by (simp add: tw absent)
  then have "(if xs = [] then [] else sep # Join xs [sep]) = (if ys' = [] then [] else sep # Join ys' [sep])" using eq by simp
  then have "xs = ys'" using Cons.IH [of ys'] Cons.prems(1,2) by (auto simp: ys split: if_splits)
  then show ?case by (simp add: ys xy)
qed simp

lemma hex_byte_inj:
  assumes "a < 256" "b < 256" "hex_byte a = hex_byte b"
  shows "a = b"
proof -
  have d: "distinct ''0123456789abcdef''" "length ''0123456789abcdef'' = 16" by simp_all
  have "a div 16 mod 16 = b div 16 mod 16" "a mod 16 = b mod 16"
    using assms(3) nth_eq_iff_index_eq [OF d(1)] unfolding hex_byte_def d(2) list.inject by (metis mod_less_divisor zero_less_numeral)+
  moreover have "a div 16 mod 16 = a div 16" "b div 16 mod 16 = b div 16" using assms by simp_all
  ultimately show ?thesis by (metis div_mult_mod_eq)
qed

lemma hex_inj:
  assumes "\<forall>b \<in> set xs \<union> set ys. b < 256" and "concat (map hex_byte xs) = concat (map hex_byte ys)"
  shows "xs = ys"
  using assms
proof (induction xs arbitrary: ys)
  case Nil
  then show ?case by (cases ys) (simp_all add: hex_byte_def)
next
  case (Cons x xs)
  then obtain y ys' where ys: "ys = y # ys'" by (cases ys) (simp_all add: hex_byte_def)
  have "length (hex_byte x) = length (hex_byte y)" by (simp add: hex_byte_def)
  then have "hex_byte x = hex_byte y" "concat (map hex_byte xs) = concat (map hex_byte ys')"
    using Cons.prems(2) by (simp_all add: ys)
  moreover have "x < 256" "y < 256" "\<forall>b \<in> set xs \<union> set ys'. b < 256" using Cons.prems(1) by (simp_all add: ys)
  ultimately show ?case using Cons.IH hex_byte_inj unfolding ys by metis
qed

lemma Join_nonempty: "xs \<noteq> [] \<Longrightarrow> '''' \<notin> set xs \<Longrightarrow> Join xs sep \<noteq> ''''"
proof (cases xs)
  case (Cons x xs')
  then show "'''' \<notin> set xs \<Longrightarrow> Join xs sep \<noteq> ''''" by (cases xs') auto
qed simp

lemma child_text_inj:
  assumes "\<forall>x \<in> set xs \<union> set ys. x \<noteq> '''' \<and> CHR 0x0A \<notin> set x" "Join (sort xs) [CHR 0x0A] = Join (sort ys) [CHR 0x0A]"
  shows "mset xs = mset ys"
proof (cases "xs = [] \<or> ys = []")
  case True
  then have "sort xs = [] \<and> sort ys = []"
    using assms Join_nonempty [of "sort xs" "[CHR 0x0A]"] Join_nonempty [of "sort ys" "[CHR 0x0A]"]
    by (metis Join.simps(1) UnCI set_empty set_sort)
  then show ?thesis by (metis mset_sort)
next
  case False
  then have "sort xs = sort ys"
    using assms by (intro Join_newline_inj [where sep = "CHR 0x0A"]) (auto simp del: sort_key_simps, (metis set_empty set_sort)+)
  then show ?thesis by (metis mset_sort)
qed

text \<open>
  C34: the confirmation of a cascading deletion. A confirmation is eight characters, so an object without
  the annotation is never confirmed; a confirmation given for one list of children is accepted for
  another exactly when the lists hold the same names, in any order, provided the hash tells the
  texts of the two lists apart in its first four bytes (names are not empty and hold no line break).
\<close>

theorem deletion_confirmation:
  assumes bytes: "\<And>t. length (hash t) = 32 \<and> (\<forall>b \<in> set (hash t). b < 256)"
    and names: "\<forall>x \<in> set cs \<union> set ds. x \<noteq> '''' \<and> CHR 0x0A \<notin> set x"
    and apart: "take 4 (hash (Join (sort cs) [CHR 0x0A])) = take 4 (hash (Join (sort ds) [CHR 0x0A])) \<Longrightarrow>
      Join (sort cs) [CHR 0x0A] = Join (sort ds) [CHR 0x0A]"
    and confirmed: "IsForceDeleteConfirmed hash obj cs"
  shows "length (ComputeDeletionHash hash cs) = 8 \<and> om_annotations obj \<noteq> None \<and>
    (IsForceDeleteConfirmed hash obj ds \<longleftrightarrow> mset cs = mset ds)"
proof (intro conjI iffI)
  have len: "length (concat (map hex_byte xs)) = 2 * length xs" for xs by (induction xs) (simp_all add: hex_byte_def)
  show eight: "length (ComputeDeletionHash hash cs) = 8" using bytes by (simp add: ComputeDeletionHash_def len)
  then show "om_annotations obj \<noteq> None"
    using confirmed by (auto simp: IsForceDeleteConfirmed_def GetConfirmForceDeleteAnnotation_def annotation_def split: option.splits)
  show "mset cs = mset ds" if "IsForceDeleteConfirmed hash obj ds"
  proof -
    have "ComputeDeletionHash hash cs = ComputeDeletionHash hash ds"
      using that confirmed by (simp add: IsForceDeleteConfirmed_def)
    then have "take 4 (hash (Join (sort cs) [CHR 0x0A])) = take 4 (hash (Join (sort ds) [CHR 0x0A]))"
      unfolding ComputeDeletionHash_def using bytes by (intro hex_inj) (auto dest: in_set_takeD)
    then show ?thesis using child_text_inj [OF names] apart by blast
  qed
  show "IsForceDeleteConfirmed hash obj ds" if "mset cs = mset ds"
  proof -
    have "sort cs = sort ds" using that by (metis mset_sort properties_for_sort sorted_sort)
    then show ?thesis using confirmed by (simp add: IsForceDeleteConfirmed_def ComputeDeletionHash_def)
  qed
qed

definition sum_x :: "string \<Rightarrow> nat list" where
  "sum_x t = (length t mod 256) # replicate 31 0"

definition confirmed_x :: object_meta where
  "confirmed_x =
     \<lparr>om_name = ''orders'', om_namespace = ''prod'', om_uid = '''', om_labels = None,
      om_annotations = Some [(AnnotationConfirmForceDelete, ''03000000'')], om_ownerReferences = [],
      om_creationTimestamp = 1, om_deletionTimestamp = Some 5, om_finalizers = []\<rparr>"

theorem deletion_confirmation_witness:
  "IsForceDeleteConfirmed sum_x confirmed_x [''b'', ''a''] \<and> \<not> IsForceDeleteConfirmed sum_x confirmed_x [''a'', ''b'', ''c'']"
proof -
  have c: "IsForceDeleteConfirmed sum_x confirmed_x [''b'', ''a'']" by code_simp
  have differ: "take 4 (sum_x (Join (sort [''b'', ''a'']) [CHR 0x0A])) \<noteq> take 4 (sum_x (Join (sort [''a'', ''b'', ''c'']) [CHR 0x0A]))"
    by code_simp
  have "IsForceDeleteConfirmed sum_x confirmed_x [''a'', ''b'', ''c''] \<longleftrightarrow> mset [''b'', ''a''] = mset [''a'', ''b'', ''c'']"
    using deletion_confirmation [where hash = sum_x and cs = "[''b'', ''a'']" and ds = "[''a'', ''b'', ''c'']" and obj = confirmed_x]
      c differ by (simp add: sum_x_def)
  then show ?thesis using c by simp
qed

end
