(* ===== verification/Event_Bus.thy ===== *)
theory Event_Bus
  imports Go_Errors
begin

text \<open>
  The event bus: \<^verbatim>\<open>internal/shared/eventbus/bus.go\<close> and \<^verbatim>\<open>middleware.go\<close>.

  A handler is a function on the world of the process; it returns an optional error or panics. The
  bus is guarded by a lock, so subscription, its removal and the snapshot that a publication takes
  are single steps; the handlers of a publication run outside of the lock, and steps of other
  goroutines can come between them. Logging is left out, and the counters of the metrics are the
  argument \<open>observe\<close>.
\<close>

section \<open>Handlers and outcomes\<close>

record Event =
  e_EventName :: string
  e_EventTime :: int
  e_AggregateID :: string
  e_AggregateType :: string

text \<open>A panic carries a value, which may be an error.\<close>

datatype panic_value = PanicError go_error | PanicOther string

datatype outcome' = Returned "go_error option" | Panicked panic_value

type_synonym 'w Handler = "Event \<Rightarrow> 'w \<Rightarrow> 'w \<times> outcome'"

record 'w HandlerInfo =
  hi_Name :: string
  hi_Handler :: "'w Handler"

type_synonym 'w PublishFunc = "Event \<Rightarrow> 'w HandlerInfo list \<Rightarrow> 'w \<Rightarrow> 'w \<times> outcome'"
type_synonym 'w Middleware = "'w PublishFunc \<Rightarrow> 'w PublishFunc"

record 'w InMemoryBus =
  bus_handlers :: "string \<Rightarrow> 'w HandlerInfo list"
  bus_middleware :: "'w Middleware list"

definition NewInMemoryBus :: "'w Middleware list \<Rightarrow> 'w InMemoryBus" where
  "NewInMemoryBus middleware = \<lparr>bus_handlers = (\<lambda>_. []), bus_middleware = middleware\<rparr>"

section \<open>Subscriptions\<close>

definition Subscribe :: "string \<Rightarrow> string \<Rightarrow> 'w Handler \<Rightarrow> 'w InMemoryBus \<Rightarrow> 'w InMemoryBus" where
  "Subscribe eventName handlerName handler b =
     (if list_ex (\<lambda>hi. hi_Name hi = handlerName) (bus_handlers b eventName) then b
      else b\<lparr>bus_handlers := (bus_handlers b)(eventName :=
             bus_handlers b eventName @ [\<lparr>hi_Name = handlerName, hi_Handler = handler\<rparr>])\<rparr>)"

fun remove_handler :: "string \<Rightarrow> 'w HandlerInfo list \<Rightarrow> 'w HandlerInfo list" where
  "remove_handler handlerName [] = []"
| "remove_handler handlerName (hi # his) = (if hi_Name hi = handlerName then his else hi # remove_handler handlerName his)"

definition Unsubscribe :: "string \<Rightarrow> string \<Rightarrow> 'w InMemoryBus \<Rightarrow> 'w InMemoryBus" where
  "Unsubscribe eventName handlerName b =
     b\<lparr>bus_handlers := (bus_handlers b)(eventName := remove_handler handlerName (bus_handlers b eventName))\<rparr>"

definition Handlers :: "string \<Rightarrow> 'w InMemoryBus \<Rightarrow> 'w HandlerInfo list" where
  "Handlers eventName b = bus_handlers b eventName"

section \<open>Publication\<close>

fun run_handlers :: "Event \<Rightarrow> 'w HandlerInfo list \<Rightarrow> go_error list \<Rightarrow> 'w \<Rightarrow> 'w \<times> (go_error list + panic_value)" where
  "run_handlers event [] errs w = (w, Inl errs)"
| "run_handlers event (hi # his) errs w =
     (case hi_Handler hi event w of
        (w', Returned None) \<Rightarrow> run_handlers event his errs w'
      | (w', Returned (Some err)) \<Rightarrow> run_handlers event his (errs @ [Errorf_w (''handler '' @ hi_Name hi @ '': '') err]) w'
      | (w', Panicked v) \<Rightarrow> (w', Inr v))"

definition executeHandlers :: "'w PublishFunc" where
  "executeHandlers event handlers w =
     (case run_handlers event handlers [] w of
        (w', Inr v) \<Rightarrow> (w', Panicked v)
      | (w', Inl errs) \<Rightarrow>
          (w', Returned (if errs = [] then None
             else Some (OtherError (''event '' @ e_EventName event @ '': '' @ FormatInt (int (length errs)) @
               '' handler(s) failed: ['' @ Join (map Error errs) '' '' @ '']'') None))))"

definition buildMiddlewareChain :: "'w InMemoryBus \<Rightarrow> 'w PublishFunc \<Rightarrow> 'w PublishFunc" where
  "buildMiddlewareChain b final = foldr (\<lambda>m next. m next) (bus_middleware b) final"

definition Publish :: "'w InMemoryBus \<Rightarrow> Event \<Rightarrow> 'w \<Rightarrow> 'w \<times> outcome'" where
  "Publish b event w =
     (let handlers = bus_handlers b (e_EventName event)
      in if handlers = [] then (w, Returned None)
         else buildMiddlewareChain b executeHandlers event handlers w)"

section \<open>Middleware\<close>

definition LoggingMiddleware :: "'w Middleware" where
  "LoggingMiddleware next = (\<lambda>event handlers w. next event handlers w)"

definition TracingMiddleware :: "'w Middleware" where
  "TracingMiddleware next = (\<lambda>event handlers w. next event handlers w)"

text \<open>A panic passes the metrics by: the counters are not advanced.\<close>

definition MetricsMiddleware :: "(string \<Rightarrow> string \<Rightarrow> string \<Rightarrow> 'w \<Rightarrow> 'w) \<Rightarrow> 'w Middleware" where
  "MetricsMiddleware observe next = (\<lambda>event handlers w.
     case next event handlers w of
       (w', Panicked v) \<Rightarrow> (w', Panicked v)
     | (w', Returned err) \<Rightarrow>
         (observe (e_EventName event) (e_AggregateType event) (if err = None then ''success'' else ''error'') w', Returned err))"

definition RecoveryMiddleware :: "'w Middleware" where
  "RecoveryMiddleware next = (\<lambda>event handlers w.
     case next event handlers w of
       (w', Returned err) \<Rightarrow> (w', Returned err)
     | (w', Panicked (PanicError e)) \<Rightarrow> (w', Returned (Some e))
     | (w', Panicked (PanicOther s)) \<Rightarrow> (w', Returned None))"

section \<open>What a publication does\<close>

text \<open>The handlers one after the other, whatever they return.\<close>

fun all_handlers :: "Event \<Rightarrow> 'w HandlerInfo list \<Rightarrow> 'w \<Rightarrow> 'w \<times> (string \<times> go_error) list" where
  "all_handlers event [] w = (w, [])"
| "all_handlers event (hi # his) w =
     (let (w1, out) = hi_Handler hi event w; (w2, errs) = all_handlers event his w1
      in (w2, (case out of Returned (Some e) \<Rightarrow> [(hi_Name hi, e)] | _ \<Rightarrow> []) @ errs))"

definition calm :: "'w HandlerInfo list \<Rightarrow> bool" where
  "calm his \<longleftrightarrow> (\<forall>hi \<in> set his. \<forall>event w. \<exists>e. snd (hi_Handler hi event w) = Returned e)"

lemma run_handlers_calm:
  assumes "calm his"
  shows "run_handlers event his errs w = (fst (all_handlers event his w),
    Inl (errs @ map (\<lambda>(n, e). Errorf_w (''handler '' @ n @ '': '') e) (snd (all_handlers event his w))))"
  using assms
proof (induction his arbitrary: errs w)
  case (Cons hi his)
  obtain w1 x where x: "hi_Handler hi event w = (w1, Returned x)"
    using Cons.prems unfolding calm_def by (metis list.set_intros(1) prod.collapse)
  have rest: "calm his" using Cons.prems by (simp add: calm_def)
  show ?case by (cases x) (simp_all add: x Cons.IH [OF rest] split_beta Let_def)
qed simp

definition transparent :: "'w Middleware \<Rightarrow> bool" where
  "transparent m \<longleftrightarrow> (\<forall>next event his w. m next event his w = next event his w)"

lemma transparent_chain:
  assumes "\<forall>m \<in> set ms. transparent m"
  shows "foldr (\<lambda>m next. m next) ms final event his w = final event his w"
  using assms by (induction ms arbitrary: his w) (auto simp: transparent_def)

lemma transparent_logging [simp]: "transparent LoggingMiddleware" "transparent TracingMiddleware"
  by (simp_all add: transparent_def LoggingMiddleware_def TracingMiddleware_def)


section \<open>Interleavings\<close>

text \<open>
  The bus with its publications in flight: a publication has the snapshot of handlers it took, those
  that have run and those still to run. Any goroutine may take the next step.
\<close>

record 'w flight =
  fl_Event :: Event
  fl_Done :: "'w HandlerInfo list"
  fl_Todo :: "'w HandlerInfo list"

record 'w bus_state =
  bs_bus :: "'w InMemoryBus"
  bs_flights :: "'w flight list"
  bs_log :: "(string \<times> string) list"

inductive bus_step :: "'w bus_state \<Rightarrow> 'w bus_state \<Rightarrow> bool" where
  subscribe: "bus_step s (s\<lparr>bs_bus := Subscribe ev name h (bs_bus s)\<rparr>)"
| unsubscribe: "bus_step s (s\<lparr>bs_bus := Unsubscribe ev name (bs_bus s)\<rparr>)"
| publish: "bus_step s (s\<lparr>bs_flights := bs_flights s @
     [\<lparr>fl_Event = event, fl_Done = [], fl_Todo = Handlers (e_EventName event) (bs_bus s)\<rparr>]\<rparr>)"
| handle: "i < length (bs_flights s) \<Longrightarrow> fl_Todo (bs_flights s ! i) = hi # his \<Longrightarrow>
     bus_step s (s\<lparr>bs_flights := (bs_flights s)[i := (bs_flights s ! i)\<lparr>fl_Done := fl_Done (bs_flights s ! i) @ [hi], fl_Todo := his\<rparr>],
       bs_log := bs_log s @ [(e_EventName (fl_Event (bs_flights s ! i)), hi_Name hi)]\<rparr>)"

inductive bus_reachable :: "'w bus_state \<Rightarrow> bool" where
  init: "bus_reachable \<lparr>bs_bus = NewInMemoryBus ms, bs_flights = [], bs_log = []\<rparr>"
| step: "bus_reachable s \<Longrightarrow> bus_step s s' \<Longrightarrow> bus_reachable s'"

inductive_cases bus_stepE: "bus_step s s'"

definition unique_names :: "'w InMemoryBus \<Rightarrow> bool" where
  "unique_names b \<longleftrightarrow> (\<forall>ev. distinct (map hi_Name (bus_handlers b ev)))"

lemma remove_handler_names: "set (remove_handler n his) \<subseteq> set his"
  by (induction his) auto

lemma remove_handler_distinct:
  "distinct (map hi_Name his) \<Longrightarrow> distinct (map hi_Name (remove_handler n his)) \<and> n \<notin> hi_Name ` set (remove_handler n his)"
  by (induction his) (use remove_handler_names in force)+

lemma unique_Subscribe: "unique_names b \<Longrightarrow> unique_names (Subscribe ev n h b)"
  by (auto simp: unique_names_def Subscribe_def list_ex_iff)

lemma unique_Unsubscribe: "unique_names b \<Longrightarrow> unique_names (Unsubscribe ev n b)"
  by (simp add: unique_names_def Unsubscribe_def remove_handler_distinct)

definition bus_inv :: "'w bus_state \<Rightarrow> bool" where
  "bus_inv s \<longleftrightarrow> unique_names (bs_bus s) \<and> (\<forall>f \<in> set (bs_flights s). distinct (map hi_Name (fl_Done f @ fl_Todo f))) \<and>
     mset (bs_log s) = (\<Sum>f \<leftarrow> bs_flights s. mset (map (\<lambda>hi. (e_EventName (fl_Event f), hi_Name hi)) (fl_Done f)))"

lemma sum_list_update_mset:
  fixes g :: "'x \<Rightarrow> 'y multiset"
  assumes "i < length xs" "g y = g (xs ! i) + z"
  shows "(\<Sum>x \<leftarrow> xs[i := y]. g x) = (\<Sum>x \<leftarrow> xs. g x) + z"
  using assms by (induction xs arbitrary: i) (auto simp: nth_Cons ac_simps split: nat.splits)

lemma bus_inv_step:
  assumes "bus_step s s'" and inv: "bus_inv s"
  shows "bus_inv s'"
  using assms(1)
proof (cases rule: bus_step.cases)
  case (handle i hi his)
  let ?f = "bs_flights s ! i"
  let ?g = "?f\<lparr>fl_Done := fl_Done ?f @ [hi], fl_Todo := his\<rparr>"
  have all: "\<forall>f \<in> set (bs_flights s). distinct (map hi_Name (fl_Done f @ fl_Todo f))" using inv unfolding bus_inv_def by blast
  have "fl_Done ?g @ fl_Todo ?g = fl_Done ?f @ fl_Todo ?f" using handle by simp
  then have "distinct (map hi_Name (fl_Done ?g @ fl_Todo ?g))" using all handle nth_mem by metis
  then have "\<forall>f \<in> set ((bs_flights s)[i := ?g]). distinct (map hi_Name (fl_Done f @ fl_Todo f))"
    using all set_update_subset_insert [of "bs_flights s" i ?g] by blast
  moreover have "(\<Sum>f \<leftarrow> (bs_flights s)[i := ?g]. mset (map (\<lambda>hi. (e_EventName (fl_Event f), hi_Name hi)) (fl_Done f))) =
      (\<Sum>f \<leftarrow> bs_flights s. mset (map (\<lambda>hi. (e_EventName (fl_Event f), hi_Name hi)) (fl_Done f))) +
      {#(e_EventName (fl_Event ?f), hi_Name hi)#}"
    using handle by (intro sum_list_update_mset) simp_all
  moreover have "bs_bus s' = bs_bus s" "bs_flights s' = (bs_flights s)[i := ?g]"
      "bs_log s' = bs_log s @ [(e_EventName (fl_Event ?f), hi_Name hi)]" using handle by simp_all
  moreover from this have "mset (bs_log s') = mset (bs_log s) + {#(e_EventName (fl_Event ?f), hi_Name hi)#}" by simp
  moreover have "unique_names (bs_bus s)"
      "mset (bs_log s) = (\<Sum>f \<leftarrow> bs_flights s. mset (map (\<lambda>hi. (e_EventName (fl_Event f), hi_Name hi)) (fl_Done f)))"
    using inv unfolding bus_inv_def by blast+
  ultimately show ?thesis unfolding bus_inv_def by metis
next
  case (publish event)
  then show ?thesis using inv by (auto simp: bus_inv_def unique_names_def Handlers_def)
qed (use inv in \<open>auto simp: bus_inv_def unique_Subscribe unique_Unsubscribe\<close>)

lemma bus_inv_reachable: "bus_reachable s \<Longrightarrow> bus_inv s"
proof (induction rule: bus_reachable.induct)
  case (step s s')
  then show ?case using bus_inv_step by blast
qed (simp add: bus_inv_def unique_names_def NewInMemoryBus_def)

definition snapshot :: "'w flight \<Rightarrow> 'w HandlerInfo list" where
  "snapshot f = fl_Done f @ fl_Todo f"

definition continues :: "'w bus_state \<Rightarrow> 'w bus_state \<Rightarrow> bool" where
  "continues s s' \<longleftrightarrow> length (bs_flights s) \<le> length (bs_flights s') \<and>
     (\<forall>i < length (bs_flights s). snapshot (bs_flights s' ! i) = snapshot (bs_flights s ! i) \<and>
        prefix (fl_Done (bs_flights s ! i)) (fl_Done (bs_flights s' ! i)))"

lemma continues_step: "bus_step s s' \<Longrightarrow> continues s s'"
  by (induction rule: bus_step.induct) (auto simp: continues_def snapshot_def nth_append nth_list_update)

lemma continues_trans:
  assumes "continues s t" "continues t u"
  shows "continues s u"
  unfolding continues_def
proof (intro conjI allI impI)
  show "length (bs_flights s) \<le> length (bs_flights u)" using assms by (simp add: continues_def)
next
  fix i assume i: "i < length (bs_flights s)"
  then have j: "i < length (bs_flights t)" using assms by (simp add: continues_def)
  show "snapshot (bs_flights u ! i) = snapshot (bs_flights s ! i)" using assms i j by (simp add: continues_def)
  have "prefix (fl_Done (bs_flights s ! i)) (fl_Done (bs_flights t ! i))" "prefix (fl_Done (bs_flights t ! i)) (fl_Done (bs_flights u ! i))"
    using assms i j by (simp_all add: continues_def)
  then show "prefix (fl_Done (bs_flights s ! i)) (fl_Done (bs_flights u ! i))" by (rule prefix_order.trans)
qed

lemma continues_steps: "bus_step\<^sup>*\<^sup>* s s' \<Longrightarrow> continues s s'"
proof (induction rule: rtranclp_induct)
  case (step t u)
  then have "continues t u" by (simp add: continues_step)
  with step.IH show ?case by (rule continues_trans)
qed (simp add: continues_def)


section \<open>Recovery from panics\<close>

text \<open>
  With the recovery middleware outermost a publication never panics, whatever the handlers and
  the other middleware do; but when the value of a panic is not an error, the publication is reported as
  a success although the handlers after the panicking one did not run.
\<close>

theorem recovery_never_panics:
  assumes "bus_middleware b = RecoveryMiddleware # ms"
  shows "(\<exists>err. snd (Publish b event w) = Returned err) \<and>
    (\<forall>w' msg. bus_handlers b (e_EventName event) \<noteq> [] \<and>
       foldr (\<lambda>m next. m next) ms executeHandlers event (bus_handlers b (e_EventName event)) w = (w', Panicked (PanicOther msg)) \<longrightarrow>
       Publish b event w = (w', Returned None))"
  by (auto simp: Publish_def Let_def buildMiddlewareChain_def assms RecoveryMiddleware_def
      split: prod.splits outcome'.splits panic_value.splits)

definition counting :: "nat Handler" where
  "counting event w = (w + 1, Returned (if w = 0 then Some ErrTimeout else None))"

definition panicking :: "nat Handler" where
  "panicking event w = (w, Panicked (PanicOther ''boom''))"

definition event_x :: Event where
  "event_x = \<lparr>e_EventName = ''DatabaseCreated'', e_EventTime = 0, e_AggregateID = ''app'', e_AggregateType = ''Database''\<rparr>"

definition bus_x :: "nat InMemoryBus" where
  "bus_x = Subscribe ''DatabaseCreated'' ''b'' counting (Subscribe ''DatabaseCreated'' ''a'' counting
     (NewInMemoryBus [LoggingMiddleware, TracingMiddleware]))"


theorem recovery_never_panics_witness:
  "Publish ((Subscribe ''DatabaseCreated'' ''p'' panicking (NewInMemoryBus [RecoveryMiddleware]))) event_x 5 = (5, Returned None)"
proof -
  let ?b = "Subscribe ''DatabaseCreated'' ''p'' panicking (NewInMemoryBus [RecoveryMiddleware])"
  have m: "bus_middleware ?b = [RecoveryMiddleware]" by (simp add: Subscribe_def NewInMemoryBus_def)
  have h: "bus_handlers ?b (e_EventName event_x) = [\<lparr>hi_Name = ''p'', hi_Handler = panicking\<rparr>]"
    by (simp add: Subscribe_def NewInMemoryBus_def event_x_def)
  have p: "executeHandlers event_x (bus_handlers ?b (e_EventName event_x)) 5 = (5, Panicked (PanicOther ''boom''))"
    unfolding h by (simp add: executeHandlers_def panicking_def)
  show ?thesis using recovery_never_panics [OF m, of event_x 5] p h by simp
qed

definition started :: "nat bus_state" where
  "started = \<lparr>bs_bus = bus_x, bs_flights = [\<lparr>fl_Event = event_x, fl_Done = [], fl_Todo = bus_handlers bus_x ''DatabaseCreated''\<rparr>], bs_log = []\<rparr>"


end
