(* ===== verification/K8s_Client.thy ===== *)
theory K8s_Client
  imports Drift_Orchestrator Conditions
begin

text \<open>
  What the controllers use of Kubernetes. The client, the recorder of events, the classification of
  API errors and the finalizer functions of \<^verbatim>\<open>controllerutil\<close> are code of other
  repositories, so they are fields of the records below, over an abstract world \<open>'w\<close> that holds the
  cluster and the clock. The context of a call is left out: it carries the logger.

  A client call that writes an object returns the object as the server sends it back. The laws the
  controllers rely on are the predicates at the end of this theory.
\<close>

section \<open>The client\<close>

record ('w, 'o) client =
  cl_Get :: "string \<Rightarrow> string \<Rightarrow> ('w, 'o) op"
  cl_Update :: "'o \<Rightarrow> ('w, 'o) op"
  cl_Status_Update :: "'o \<Rightarrow> ('w, 'o) op"

record 'w runtime =
  rt_Now :: "'w \<Rightarrow> int"
  rt_IsNotFound :: "go_error \<Rightarrow> bool"
  rt_Record :: "k8s_event \<Rightarrow> 'w \<Rightarrow> 'w"
  rt_ContainsFinalizer :: "object_meta \<Rightarrow> string \<Rightarrow> bool"
  rt_AddFinalizer :: "object_meta \<Rightarrow> string \<Rightarrow> object_meta"
  rt_RemoveFinalizer :: "object_meta \<Rightarrow> string \<Rightarrow> object_meta"

definition recordf :: "'w runtime \<Rightarrow> string \<Rightarrow> string \<Rightarrow> string \<Rightarrow> 'w \<Rightarrow> 'w" where
  "recordf rt ty reason msg = rt_Record rt \<lparr>ev_Type = ty, ev_Reason = reason, ev_Message = msg\<rparr>"

abbreviation EventTypeNormal :: string where "EventTypeNormal \<equiv> ''Normal''"
abbreviation EventTypeWarning :: string where "EventTypeWarning \<equiv> ''Warning''"

type_synonym 'w reconciler = "'w \<Rightarrow> 'w \<times> ctrl_Result \<times> go_error option"

definition no_requeue :: ctrl_Result where
  "no_requeue = \<lparr>Requeue = False, RequeueAfter = 0\<rparr>"

definition requeue_after :: "duration \<Rightarrow> ctrl_Result" where
  "requeue_after d = \<lparr>Requeue = False, RequeueAfter = d\<rparr>"

section \<open>Phases\<close>

type_synonym Phase = string

definition PhasePending :: Phase where "PhasePending = ''Pending''"
definition PhaseCreating :: Phase where "PhaseCreating = ''Creating''"
definition PhaseReady :: Phase where "PhaseReady = ''Ready''"
definition PhaseFailed :: Phase where "PhaseFailed = ''Failed''"
definition PhaseDeleting :: Phase where "PhaseDeleting = ''Deleting''"
definition PhasePendingDeletion :: Phase where "PhasePendingDeletion = ''PendingDeletion''"
definition PhaseRunning :: Phase where "PhaseRunning = ''Running''"
definition PhaseCompleted :: Phase where "PhaseCompleted = ''Completed''"
definition PhasePaused :: Phase where "PhasePaused = ''Paused''"
definition PhaseActive :: Phase where "PhaseActive = ''Active''"

lemmas phases = PhasePending_def PhaseCreating_def PhaseReady_def PhaseFailed_def PhaseDeleting_def
  PhasePendingDeletion_def PhaseRunning_def PhaseCompleted_def PhasePaused_def PhaseActive_def

section \<open>Time\<close>

text \<open>
  \<^verbatim>\<open>t.Sub(u)\<close> saturates; instants are nanoseconds. Counters of type \<^verbatim>\<open>int32\<close> wrap
  around.
\<close>

definition time_Sub :: "int \<Rightarrow> int \<Rightarrow> duration" where
  "time_Sub t u = max (- (2 ^ 63)) (min (2 ^ 63 - 1) (t - u))"

definition wrap32 :: "int \<Rightarrow> int" where
  "wrap32 n = (n + 2 ^ 31) mod 2 ^ 32 - 2 ^ 31"

lemma wrap32_id: "- (2 ^ 31) \<le> n \<Longrightarrow> n < 2 ^ 31 \<Longrightarrow> wrap32 n = n"
  by (simp add: wrap32_def)

lemma wrap64_id: "- (2 ^ 63) \<le> n \<Longrightarrow> n < 2 ^ 63 \<Longrightarrow> wrap64 n = n"
  by (simp add: wrap64_def)

section \<open>Laws\<close>

text \<open>A part of the world that an operation leaves alone, whether it fails or not.\<close>

definition keeps :: "('w \<Rightarrow> 'v) \<Rightarrow> ('w, 'a) op \<Rightarrow> bool" where
  "keeps v m \<longleftrightarrow> (\<forall>w. v (fst (m w)) = v w)"

lemma keepsD: "keeps v m \<Longrightarrow> m w = (w', r) \<Longrightarrow> v w' = v w"
  unfolding keeps_def by (metis fst_conv)

lemma keeps_ret [simp]: "keeps v (ret x)" "keeps v (fail e)"
  by (simp_all add: keeps_def)

lemma keeps_check:
  assumes "keeps v m" "\<And>x. keeps v (k x)"
  shows "keeps v (check m wrap k)"
  using assms unfolding keeps_def check_def by (auto split: prod.splits sum.splits) (metis fst_conv)+

definition finalizer_laws :: "'w runtime \<Rightarrow> bool" where
  "finalizer_laws rt \<longleftrightarrow>
     (\<forall>m f g. rt_ContainsFinalizer rt (rt_AddFinalizer rt m f) g \<longleftrightarrow> g = f \<or> rt_ContainsFinalizer rt m g) \<and>
     (\<forall>m f g. rt_ContainsFinalizer rt (rt_RemoveFinalizer rt m f) g \<longleftrightarrow> g \<noteq> f \<and> rt_ContainsFinalizer rt m g)"

end
