(* ===== verification/Recorded_Runs.thy ===== *)
theory Recorded_Runs
  imports K8s_Client
begin

text \<open>
  Runs over a world that also records the calls a component makes. An environment is watched by
  replacing each of its functions by \<open>logged\<close> or \<open>unlogged\<close>; the code under it stays the same. \<open>records\<close>
  is the weakest precondition of such code: whatever was recorded before, the run adds calls \<open>u\<close>, ends in
  \<open>w'\<close> and returns \<open>r\<close> with \<open>Q u w' r\<close>.
\<close>

section \<open>Recording\<close>

definition error_of :: "go_error + 'a \<Rightarrow> go_error option" where
  "error_of r = (case r of Inl e \<Rightarrow> Some e | Inr _ \<Rightarrow> None)"

lemma error_of_simps [simp]: "error_of (Inl e) = Some e" "error_of (Inr x) = None"
  by (simp_all add: error_of_def)

definition unlogged :: "('w, 'a) op \<Rightarrow> ('w \<times> 't, 'a) op" where
  "unlogged m wt = (case m (fst wt) of (w', r) \<Rightarrow> ((w', snd wt), r))"

definition logged :: "(go_error option \<Rightarrow> 'c) \<Rightarrow> ('w, 'a) op \<Rightarrow> ('w \<times> 'c list, 'a) op" where
  "logged call m wt = (case m (fst wt) of (w', r) \<Rightarrow> ((w', snd wt @ [call (error_of r)]), r))"

definition watched_runtime :: "'w runtime \<Rightarrow> ('w \<times> 't) runtime" where
  "watched_runtime rt =
     \<lparr>rt_Now = (\<lambda>wt. rt_Now rt (fst wt)), rt_IsNotFound = rt_IsNotFound rt,
      rt_Record = (\<lambda>ev wt. (rt_Record rt ev (fst wt), snd wt)),
      rt_ContainsFinalizer = rt_ContainsFinalizer rt, rt_AddFinalizer = rt_AddFinalizer rt,
      rt_RemoveFinalizer = rt_RemoveFinalizer rt\<rparr>"

lemma logged_eq [simp]: "logged call m (w, t) = (case m w of (w', r) \<Rightarrow> ((w', t @ [call (error_of r)]), r))"
  by (simp add: logged_def)

lemma unlogged_eq [simp]: "unlogged m (w, t) = (case m w of (w', r) \<Rightarrow> ((w', t), r))"
  by (simp add: unlogged_def)

lemma watched_runtime_simps [simp]:
  "rt_Now (watched_runtime rt) (w, t) = rt_Now rt w"
  "rt_IsNotFound (watched_runtime rt) = rt_IsNotFound rt"
  "rt_Record (watched_runtime rt) ev (w, t) = (rt_Record rt ev w, t)"
  "rt_ContainsFinalizer (watched_runtime rt) = rt_ContainsFinalizer rt"
  "rt_AddFinalizer (watched_runtime rt) = rt_AddFinalizer rt"
  "rt_RemoveFinalizer (watched_runtime rt) = rt_RemoveFinalizer rt"
  by (simp_all add: watched_runtime_def)

section \<open>Weakest preconditions\<close>

definition records :: "('w \<times> 'c list \<Rightarrow> ('w \<times> 'c list) \<times> 'a) \<Rightarrow> 'w \<Rightarrow> ('c list \<Rightarrow> 'w \<Rightarrow> 'a \<Rightarrow> bool) \<Rightarrow> bool" where
  "records m w Q \<longleftrightarrow> (\<forall>t. \<exists>u w' r. m (w, t) = ((w', t @ u), r) \<and> Q u w' r)"

named_theorems wp \<open>rules that compute the weakest precondition of recorded code\<close>

lemma recordsE:
  assumes "records m w Q"
  obtains u w' r where "m (w, t) = ((w', t @ u), r)" "Q u w' r"
  using assms unfolding records_def by blast

lemma recordsI: "(\<And>t. \<exists>u w' r. m (w, t) = ((w', t @ u), r) \<and> Q u w' r) \<Longrightarrow> records m w Q"
  by (simp add: records_def)

lemma records_mono: "records m w Q \<Longrightarrow> (\<And>u w' r. Q u w' r \<Longrightarrow> Q' u w' r) \<Longrightarrow> records m w Q'"
  unfolding records_def by meson

lemma records_simps [simp]:
  "records (\<lambda>s. (s, x)) w Q \<longleftrightarrow> Q [] w x"
  "records (ret y) w Q' \<longleftrightarrow> Q' [] w (Inr y)"
  "records (fail e) w Q' \<longleftrightarrow> Q' [] w (Inl e)"
  "records (unlogged m) w Q' \<longleftrightarrow> (case m w of (w', r) \<Rightarrow> Q' [] w' r)"
  "records (logged call m) w Q' \<longleftrightarrow> (case m w of (w', r) \<Rightarrow> Q' [call (error_of r)] w' r)"
  by (auto simp: records_def split: prod.split)

lemma records_if [simp]: "records (\<lambda>s. if b then f s else g s) w Q \<longleftrightarrow> (if b then records f w Q else records g w Q)"
  by simp

lemma records_seq:
  assumes "records m w (\<lambda>u1 w1 r. records (k r) w1 (\<lambda>u2. Q (u1 @ u2)))"
  shows "records (\<lambda>s. case m s of (s', r) \<Rightarrow> k r s') w Q"
  unfolding records_def
proof
  fix t
  obtain u1 w1 r where 1: "m (w, t) = ((w1, t @ u1), r)" "records (k r) w1 (\<lambda>u2. Q (u1 @ u2))"
    using assms by (rule recordsE)
  obtain u2 w2 x where "k r (w1, t @ u1) = ((w2, (t @ u1) @ u2), x)" "Q (u1 @ u2) w2 x"
    using 1(2) by (rule recordsE)
  then show "\<exists>u w' x. (case m (w, t) of (s', r) \<Rightarrow> k r s') = ((w', t @ u), x) \<and> Q u w' x"
    using 1(1) by auto
qed

lemma records_case_sum [wp]:
  assumes "records m w (\<lambda>u1 w1 r. case r of Inl e \<Rightarrow> records (f e) w1 (\<lambda>u2. Q (u1 @ u2)) | Inr x \<Rightarrow> records (g x) w1 (\<lambda>u2. Q (u1 @ u2)))"
  shows "records (\<lambda>s. case m s of (s', Inl e) \<Rightarrow> f e s' | (s', Inr x) \<Rightarrow> g x s') w Q"
proof -
  have "records (\<lambda>s. case m s of (s', r) \<Rightarrow> (case r of Inl e \<Rightarrow> f e | Inr x \<Rightarrow> g x) s') w Q"
    by (rule records_seq, rule records_mono [OF assms]) (simp split: sum.splits)
  moreover have "(\<lambda>s. case m s of (s', r) \<Rightarrow> (case r of Inl e \<Rightarrow> f e | Inr x \<Rightarrow> g x) s') =
      (\<lambda>s. case m s of (s', Inl e) \<Rightarrow> f e s' | (s', Inr x) \<Rightarrow> g x s')"
    by (auto simp: fun_eq_iff split: prod.split sum.split)
  ultimately show ?thesis by simp
qed

lemma records_check [wp]:
  assumes "records m w (\<lambda>u1 w1 r. case r of Inl e \<Rightarrow> Q u1 w1 (Inl (f e)) | Inr x \<Rightarrow> records (k x) w1 (\<lambda>u2. Q (u1 @ u2)))"
  shows "records (check m (\<lambda>e _. f e) k) w Q"
proof -
  have "records (\<lambda>s. case m s of (s', Inl e) \<Rightarrow> (\<lambda>s. (s, Inl (f e))) s' | (s', Inr x) \<Rightarrow> k x s') w Q"
    by (rule records_case_sum, rule records_mono [OF assms]) (auto split: sum.splits)
  then show ?thesis by (simp add: records_def check_def)
qed

lemma records_drop [wp]:
  assumes "records m w (\<lambda>u1 w1 _. records k w1 (\<lambda>u2. Q (u1 @ u2)))"
  shows "records (\<lambda>s. k (fst (m s))) w Q"
  using records_seq [OF assms] by (simp add: case_prod_beta)

text \<open>Events go to the recorder and leave the calls alone.\<close>

lemma recordf_watched [simp]: "recordf (watched_runtime rt) ty reason msg (w, t) = (recordf rt ty reason msg w, t)"
  by (simp add: recordf_def)

lemma records_recordf [simp]:
  "records (\<lambda>s. (recordf (watched_runtime rt) ty reason msg s, x)) w Q \<longleftrightarrow> Q [] (recordf rt ty reason msg w) x"
  by (auto simp: records_def)

lemma records_event [wp]:
  assumes "records k (recordf rt ty reason msg w) Q"
  shows "records (\<lambda>s. k (recordf (watched_runtime rt) ty reason msg s)) w Q"
  using assms by (simp add: records_def recordf_def)

end
