(* ===== verification/Backup_Schedule.thy ===== *)
theory Backup_Schedule
  imports Recorded_Runs "HOL-Library.Multiset"
begin

text \<open>
  Scheduled backups: \<^verbatim>\<open>internal/features/backupschedule\<close> (\<^verbatim>\<open>repository.go\<close>,
  \<^verbatim>\<open>handler.go\<close>, \<^verbatim>\<open>controller.go\<close>) and the types of
  \<^verbatim>\<open>api/v1alpha1/databasebackupschedule_types.go\<close>.

  The cron parser and its \<^verbatim>\<open>Next\<close>, the time zone database, calendar arithmetic and formatting of
  the local time, \<^verbatim>\<open>sort.Slice\<close> (which promises a sorted permutation and no stability) and the
  truncation of seconds to an integer are fields of \<open>schedule_env\<close>. The spec of a backup is a type variable
  \<open>'b\<close>, since the schedule only copies it; the name of its database is read by \<open>se_DatabaseRef\<close>. Logs and
  metrics are left out.
\<close>

section \<open>Types\<close>

record BackupInfo =
  bi_SizeBytes :: int

record 'b DatabaseBackup =
  bk_APIVersion :: string
  bk_Kind :: string
  bk_meta :: object_meta
  bk_Spec :: 'b
  bk_Phase :: Phase
  bk_StartedAt :: "int option"
  bk_CompletedAt :: "int option"
  bk_Backup :: "BackupInfo option"

abbreviation bk_Name :: "'b DatabaseBackup \<Rightarrow> string" where
  "bk_Name b \<equiv> om_name (bk_meta b)"

abbreviation bk_created :: "'b DatabaseBackup \<Rightarrow> int" where
  "bk_created b \<equiv> om_creationTimestamp (bk_meta b)"

record RetentionPolicy =
  rp_KeepLast :: int
  rp_KeepHourly :: int
  rp_KeepDaily :: int
  rp_KeepWeekly :: int
  rp_KeepMonthly :: int
  rp_KeepYearly :: int
  rp_MinAge :: string

datatype ConcurrencyPolicy = ConcurrencyPolicyAllow | ConcurrencyPolicyForbid | ConcurrencyPolicyReplace | ConcurrencyPolicyOther string

record BackupTemplateMeta =
  btm_Labels :: "string go_map"
  btm_Annotations :: "string go_map"

record 'b BackupTemplateSpec =
  bt_Metadata :: BackupTemplateMeta
  bt_Spec :: 'b

record 'b DatabaseBackupScheduleSpec =
  ss_Schedule :: string
  ss_Timezone :: string
  ss_Paused :: bool
  ss_ConcurrencyPolicy :: ConcurrencyPolicy
  ss_Template :: "'b BackupTemplateSpec"
  ss_Retention :: "RetentionPolicy option"
  ss_SuccessfulBackupsHistoryLimit :: int
  ss_FailedBackupsHistoryLimit :: int
  ss_DeletionProtection :: bool

record ScheduledBackupInfo =
  sbi_Name :: string
  sbi_Status :: string
  sbi_StartedAt :: "int option"
  sbi_CompletedAt :: "int option"

record BackupStatistics =
  bst_TotalBackups :: int
  bst_SuccessfulBackups :: int
  bst_FailedBackups :: int
  bst_AverageDurationSeconds :: int
  bst_AverageSizeBytes :: int
  bst_TotalStorageBytes :: int

definition empty_BackupStatistics :: BackupStatistics where
  "empty_BackupStatistics =
     \<lparr>bst_TotalBackups = 0, bst_SuccessfulBackups = 0, bst_FailedBackups = 0, bst_AverageDurationSeconds = 0,
      bst_AverageSizeBytes = 0, bst_TotalStorageBytes = 0\<rparr>"

record RecentBackupInfo =
  rbi_Name :: string
  rbi_Status :: string

record DatabaseBackupScheduleStatus =
  st_Phase :: Phase
  st_LastBackup :: "ScheduledBackupInfo option"
  st_NextBackupTime :: "int option"
  st_Statistics :: "BackupStatistics option"
  st_RecentBackups :: "RecentBackupInfo list"
  st_Conditions :: "Condition list"

record 'b DatabaseBackupSchedule =
  bs_APIVersion :: string
  bs_Kind :: string
  bs_meta :: object_meta
  bs_Spec :: "'b DatabaseBackupScheduleSpec"
  bs_Status :: DatabaseBackupScheduleStatus

abbreviation bs_Name :: "'b DatabaseBackupSchedule \<Rightarrow> string" where
  "bs_Name s \<equiv> om_name (bs_meta s)"

abbreviation bs_Namespace :: "'b DatabaseBackupSchedule \<Rightarrow> string" where
  "bs_Namespace s \<equiv> om_namespace (bs_meta s)"

record ScheduledBackupTriggered =
  sbt_ScheduleName :: string
  sbt_BackupName :: string
  sbt_DatabaseRef :: string
  sbt_Namespace :: string
  sbt_TriggeredAt :: int

section \<open>The environment\<close>

record ('w, 'b) schedule_env =
  se_runtime :: "'w runtime"
  se_client :: "('w, 'b DatabaseBackupSchedule) client"
  se_List :: "string \<Rightarrow> (string \<times> string) list \<Rightarrow> ('w, 'b DatabaseBackup list) op"
  se_Create :: "'b DatabaseBackup \<Rightarrow> ('w, 'b DatabaseBackup) op"
  se_Delete :: "'b DatabaseBackup \<Rightarrow> ('w, unit) op"
  se_PublishAsync :: "(ScheduledBackupTriggered \<Rightarrow> 'w \<Rightarrow> 'w) option"
  se_LoadLocation :: "string \<Rightarrow> go_error + string"
  se_Parse :: "string \<Rightarrow> go_error + (string \<Rightarrow> int \<Rightarrow> int)"
  se_AddDays :: "int \<Rightarrow> int \<Rightarrow> int"
  se_Format :: "int \<Rightarrow> string"
  se_Seconds :: "duration \<Rightarrow> int"
  se_Slice :: "('b DatabaseBackup \<Rightarrow> 'b DatabaseBackup \<Rightarrow> bool) \<Rightarrow> 'b DatabaseBackup list \<Rightarrow> 'b DatabaseBackup list"
  se_DatabaseRef :: "'b \<Rightarrow> string"

abbreviation se_Now :: "('w, 'b) schedule_env \<Rightarrow> 'w \<Rightarrow> int" where
  "se_Now h \<equiv> rt_Now (se_runtime h)"

section \<open>\<^verbatim>\<open>repository.go\<close>\<close>

definition LabelBackupSchedule :: string where
  "LabelBackupSchedule = ''dbops.dbprovision.io/schedule''"

definition ListBackupsForSchedule :: "('w, 'b) schedule_env \<Rightarrow> 'b DatabaseBackupSchedule \<Rightarrow> ('w, 'b DatabaseBackup list) op" where
  "ListBackupsForSchedule h schedule =
     check (se_List h (bs_Namespace schedule) [(LabelBackupSchedule, bs_Name schedule)])
       (\<lambda>e w. Errorf_w ''list backups: '' e) ret"

definition FilterBackupsByPhase :: "'b DatabaseBackup list \<Rightarrow> Phase \<Rightarrow> 'b DatabaseBackup list" where
  "FilterBackupsByPhase backups phase = filter (\<lambda>backup. bk_Phase backup = phase) backups"

definition newer :: "'b DatabaseBackup \<Rightarrow> 'b DatabaseBackup \<Rightarrow> bool" where
  "newer a b \<longleftrightarrow> bk_created a > bk_created b"

definition backup_labels :: "'b DatabaseBackupSchedule \<Rightarrow> string go_map" where
  "backup_labels schedule =
     map_put ''dbops.dbprovision.io/scheduled-backup'' ''true''
       (map_put LabelBackupSchedule (bs_Name schedule) (map_puts (btm_Labels (bt_Metadata (ss_Template (bs_Spec schedule))))))"

definition template_backup :: "('w, 'b) schedule_env \<Rightarrow> 'b DatabaseBackupSchedule \<Rightarrow> int \<Rightarrow> 'b DatabaseBackup" where
  "template_backup h schedule now =
     \<lparr>bk_APIVersion = '''', bk_Kind = '''',
      bk_meta =
        \<lparr>om_name = bs_Name schedule @ ''-'' @ se_Format h now, om_namespace = bs_Namespace schedule, om_uid = '''',
         om_labels = Some (backup_labels schedule),
         om_annotations = Some (map_puts (btm_Annotations (bt_Metadata (ss_Template (bs_Spec schedule))))),
         om_ownerReferences =
           [\<lparr>or_APIVersion = bs_APIVersion schedule, or_Kind = bs_Kind schedule, or_Name = bs_Name schedule,
             or_UID = om_uid (bs_meta schedule), or_Controller = Some True, or_BlockOwnerDeletion = Some True\<rparr>],
         om_creationTimestamp = 0, om_deletionTimestamp = None, om_finalizers = []\<rparr>,
      bk_Spec = bt_Spec (ss_Template (bs_Spec schedule)),
      bk_Phase = '''', bk_StartedAt = None, bk_CompletedAt = None, bk_Backup = None\<rparr>"

definition CreateBackupFromTemplate :: "('w, 'b) schedule_env \<Rightarrow> 'b DatabaseBackupSchedule \<Rightarrow> ('w, 'b DatabaseBackup) op" where
  "CreateBackupFromTemplate h schedule w =
     check (se_Create h (template_backup h schedule (se_Now h w))) (\<lambda>e w. Errorf_w ''create backup: '' e) ret w"

definition DeleteBackup :: "('w, 'b) schedule_env \<Rightarrow> 'b DatabaseBackup \<Rightarrow> ('w, unit) op" where
  "DeleteBackup h backup w =
     (case se_Delete h backup w of
        (w', Inl e) \<Rightarrow>
          if rt_IsNotFound (se_runtime h) e then ret () w'
          else fail (Errorf_w (''delete backup '' @ bk_Name backup @ '': '') e) w'
      | (w', Inr _) \<Rightarrow> ret () w')"

fun DeleteBackups :: "('w, 'b) schedule_env \<Rightarrow> 'b DatabaseBackup list \<Rightarrow> 'w \<Rightarrow> 'w \<times> string list" where
  "DeleteBackups h [] w = (w, [])"
| "DeleteBackups h (backup # backups) w =
     (case DeleteBackup h backup w of
        (w', Inl e) \<Rightarrow> DeleteBackups h backups w'
      | (w', Inr _) \<Rightarrow> (case DeleteBackups h backups w' of (w'', deleted) \<Rightarrow> (w'', bk_Name backup # deleted)))"

definition GetCompletedBackupsSortedByTime :: "('w, 'b) schedule_env \<Rightarrow> 'b DatabaseBackup list \<Rightarrow> 'b DatabaseBackup list" where
  "GetCompletedBackupsSortedByTime h backups = se_Slice h newer (FilterBackupsByPhase backups PhaseCompleted)"

definition GetBackupsSortedByTime :: "('w, 'b) schedule_env \<Rightarrow> 'b DatabaseBackup list \<Rightarrow> 'b DatabaseBackup list" where
  "GetBackupsSortedByTime h backups = se_Slice h newer backups"

fun latest_from :: "'b DatabaseBackup option \<Rightarrow> 'b DatabaseBackup list \<Rightarrow> 'b DatabaseBackup option" where
  "latest_from latest [] = latest"
| "latest_from latest (b # bs) =
     latest_from (case latest of None \<Rightarrow> Some b | Some l \<Rightarrow> if newer b l then Some b else latest) bs"

definition GetLatestBackup :: "'b DatabaseBackup list \<Rightarrow> 'b DatabaseBackup option" where
  "GetLatestBackup backups = (if backups = [] then None else latest_from None backups)"

section \<open>\<^verbatim>\<open>handler.go\<close>\<close>

record TriggerResult =
  tr_Triggered :: bool
  tr_BackupName :: string
  tr_Message :: string

definition TriggerBackup :: "('w, 'b) schedule_env \<Rightarrow> 'b DatabaseBackupSchedule \<Rightarrow> ('w, TriggerResult) op" where
  "TriggerBackup h schedule =
     check (CreateBackupFromTemplate h schedule) as_is (\<lambda>backup w.
       let w' = (case se_PublishAsync h of
                   None \<Rightarrow> w
                 | Some publish \<Rightarrow>
                     publish \<lparr>sbt_ScheduleName = bs_Name schedule, sbt_BackupName = bk_Name backup,
                              sbt_DatabaseRef = se_DatabaseRef h (bt_Spec (ss_Template (bs_Spec schedule))),
                              sbt_Namespace = bs_Namespace schedule, sbt_TriggeredAt = se_Now h w\<rparr> w)
       in ret \<lparr>tr_Triggered = True, tr_BackupName = bk_Name backup, tr_Message = ''Backup triggered successfully''\<rparr> w')"

record ScheduleEvaluation =
  sv_BackupDue :: bool
  sv_NextBackupTime :: int
  sv_LastBackupTime :: "int option"
  sv_RunningBackups :: nat
  sv_Message :: string

definition getTimezone :: "('w, 'b) schedule_env \<Rightarrow> string \<Rightarrow> go_error + string" where
  "getTimezone h tz = (if tz = '''' \<or> tz = ''UTC'' then Inr ''UTC'' else se_LoadLocation h tz)"

definition lastBackupStart :: "'b DatabaseBackupSchedule \<Rightarrow> int option" where
  "lastBackupStart schedule = (case st_LastBackup (bs_Status schedule) of None \<Rightarrow> None | Some lb \<Rightarrow> sbi_StartedAt lb)"

definition EvaluateSchedule :: "('w, 'b) schedule_env \<Rightarrow> 'b DatabaseBackupSchedule \<Rightarrow> ('w, ScheduleEvaluation) op" where
  "EvaluateSchedule h schedule w =
     (case getTimezone h (ss_Timezone (bs_Spec schedule)) of
        Inl e \<Rightarrow> fail (Errorf_w ''invalid timezone: '' e) w
      | Inr loc \<Rightarrow>
     (case se_Parse h (ss_Schedule (bs_Spec schedule)) of
        Inl e \<Rightarrow> fail (Errorf_w ''invalid cron schedule: '' e) w
      | Inr cron_Next \<Rightarrow>
     (let now = se_Now h w; nextTime = cron_Next loc now in
      check (ListBackupsForSchedule h schedule) (\<lambda>e w. Errorf_w ''list backups: '' e) (\<lambda>backups.
        let runningBackups = FilterBackupsByPhase backups PhaseRunning;
            lastBackupTime = lastBackupStart schedule;
            backupDue = (case lastBackupTime of None \<Rightarrow> False | Some t \<Rightarrow> now \<ge> cron_Next loc t)
        in ret \<lparr>sv_BackupDue = backupDue, sv_NextBackupTime = nextTime, sv_LastBackupTime = lastBackupTime,
                sv_RunningBackups = length runningBackups, sv_Message = ''Schedule evaluated''\<rparr>) w)))"

record RetentionResult =
  rr_DeletedCount :: nat
  rr_DeletedNames :: "string list"
  rr_Message :: string

definition keep_last :: "RetentionPolicy \<Rightarrow> 'b DatabaseBackup list \<Rightarrow> 'b DatabaseBackup list" where
  "keep_last policy completedBackups =
     (if rp_KeepLast policy > 0 \<and> wrap32 (int (length completedBackups)) > rp_KeepLast policy
      then drop (nat (rp_KeepLast policy)) completedBackups else [])"

fun keep_daily :: "int \<Rightarrow> 'b DatabaseBackup list \<Rightarrow> 'b DatabaseBackup list \<Rightarrow> 'b DatabaseBackup list" where
  "keep_daily cutoff [] toDelete = toDelete"
| "keep_daily cutoff (backup # backups) toDelete =
     keep_daily cutoff backups
       (if bk_created backup < cutoff \<and> \<not> list_ex (\<lambda>d. bk_Name d = bk_Name backup) toDelete
        then toDelete @ [backup] else toDelete)"

definition retention_marks :: "('w, 'b) schedule_env \<Rightarrow> RetentionPolicy \<Rightarrow> int \<Rightarrow> 'b DatabaseBackup list \<Rightarrow> 'b DatabaseBackup list" where
  "retention_marks h policy now completedBackups =
     (if rp_KeepDaily policy > 0
      then keep_daily (se_AddDays h now (- rp_KeepDaily policy)) completedBackups (keep_last policy completedBackups)
      else keep_last policy completedBackups)"

definition EnforceRetention :: "('w, 'b) schedule_env \<Rightarrow> 'b DatabaseBackupSchedule \<Rightarrow> ('w, RetentionResult) op" where
  "EnforceRetention h schedule =
     (case ss_Retention (bs_Spec schedule) of
        None \<Rightarrow> ret \<lparr>rr_DeletedCount = 0, rr_DeletedNames = [], rr_Message = ''No retention policy configured''\<rparr>
      | Some policy \<Rightarrow>
          check (ListBackupsForSchedule h schedule) (\<lambda>e w. Errorf_w ''list backups: '' e) (\<lambda>backups w.
            let toDelete = retention_marks h policy (se_Now h w) (GetCompletedBackupsSortedByTime h backups);
                (w', deletedNames) = DeleteBackups h toDelete w
            in ret \<lparr>rr_DeletedCount = length deletedNames, rr_DeletedNames = deletedNames,
                    rr_Message = ''Deleted '' @ FormatInt (int (length deletedNames)) @ '' backups due to retention policy''\<rparr> w'))"

record ConcurrencyResult =
  cr_ShouldProceed :: bool
  cr_CancelledCount :: nat
  cr_CancelledNames :: "string list"
  cr_Message :: string

definition HandleConcurrency :: "('w, 'b) schedule_env \<Rightarrow> 'b DatabaseBackupSchedule \<Rightarrow> ('w, ConcurrencyResult) op" where
  "HandleConcurrency h schedule =
     check (ListBackupsForSchedule h schedule) (\<lambda>e w. Errorf_w ''list backups: '' e) (\<lambda>backups.
       case FilterBackupsByPhase backups PhaseRunning of
         [] \<Rightarrow> ret \<lparr>cr_ShouldProceed = True, cr_CancelledCount = 0, cr_CancelledNames = [], cr_Message = ''No running backups''\<rparr>
       | running # others \<Rightarrow>
         (case ss_ConcurrencyPolicy (bs_Spec schedule) of
            ConcurrencyPolicyForbid \<Rightarrow>
              ret \<lparr>cr_ShouldProceed = False, cr_CancelledCount = 0, cr_CancelledNames = [],
                   cr_Message = ''Backup '' @ bk_Name running @ '' is still running (Forbid policy)''\<rparr>
          | ConcurrencyPolicyReplace \<Rightarrow> (\<lambda>w.
              case DeleteBackups h (running # others) w of
                (w', deletedNames) \<Rightarrow>
                  ret \<lparr>cr_ShouldProceed = True, cr_CancelledCount = length deletedNames, cr_CancelledNames = deletedNames,
                       cr_Message = ''Cancelled '' @ FormatInt (int (length deletedNames)) @ '' running backups (Replace policy)''\<rparr> w')
          | _ \<Rightarrow>
              ret \<lparr>cr_ShouldProceed = True, cr_CancelledCount = 0, cr_CancelledNames = [],
                   cr_Message = ''Allowing concurrent backup (Allow policy)''\<rparr>))"

text \<open>The loop of \<^verbatim>\<open>UpdateStatistics\<close> with its two totals, which wrap around.\<close>

fun count_backups ::
  "('w, 'b) schedule_env \<Rightarrow> 'b DatabaseBackup list \<Rightarrow> BackupStatistics \<times> int \<times> int \<Rightarrow> BackupStatistics \<times> int \<times> int" where
  "count_backups h [] acc = acc"
| "count_backups h (backup # backups) (stats, totalDuration, totalSize) =
     count_backups h backups
       (if bk_Phase backup = PhaseCompleted
        then (stats\<lparr>bst_SuccessfulBackups := wrap64 (bst_SuccessfulBackups stats + 1)\<rparr>,
              (case (bk_StartedAt backup, bk_CompletedAt backup) of
                 (Some s, Some f) \<Rightarrow> wrap64 (totalDuration + se_Seconds h (time_Sub f s))
               | _ \<Rightarrow> totalDuration),
              (case bk_Backup backup of Some info \<Rightarrow> wrap64 (totalSize + bi_SizeBytes info) | None \<Rightarrow> totalSize))
        else if bk_Phase backup = PhaseFailed
        then (stats\<lparr>bst_FailedBackups := wrap64 (bst_FailedBackups stats + 1)\<rparr>, totalDuration, totalSize)
        else (stats, totalDuration, totalSize))"

text \<open>Go's division truncates towards zero.\<close>

definition go_div :: "int \<Rightarrow> int \<Rightarrow> int" where
  "go_div a b = sgn a * sgn b * (\<bar>a\<bar> div \<bar>b\<bar>)"

definition backup_statistics :: "('w, 'b) schedule_env \<Rightarrow> 'b DatabaseBackup list \<Rightarrow> BackupStatistics" where
  "backup_statistics h backups =
     (case count_backups h backups (empty_BackupStatistics, 0, 0) of (stats, totalDuration, totalSize) \<Rightarrow>
        let stats1 = stats\<lparr>bst_TotalBackups := wrap64 (bst_SuccessfulBackups stats + bst_FailedBackups stats),
                           bst_TotalStorageBytes := totalSize\<rparr>
        in if bst_SuccessfulBackups stats1 > 0
           then stats1\<lparr>bst_AverageDurationSeconds := go_div totalDuration (bst_SuccessfulBackups stats1),
                       bst_AverageSizeBytes := go_div totalSize (bst_SuccessfulBackups stats1)\<rparr>
           else stats1)"

definition UpdateStatistics :: "('w, 'b) schedule_env \<Rightarrow> 'b DatabaseBackupSchedule \<Rightarrow> ('w, BackupStatistics) op" where
  "UpdateStatistics h schedule =
     check (ListBackupsForSchedule h schedule) (\<lambda>e w. Errorf_w ''list backups: '' e) (\<lambda>backups. ret (backup_statistics h backups))"

fun recent_backups :: "int \<Rightarrow> int \<Rightarrow> int \<Rightarrow> int \<Rightarrow> 'b DatabaseBackup list \<Rightarrow> RecentBackupInfo list" where
  "recent_backups successLimit failedLimit successCount failedCount [] = []"
| "recent_backups successLimit failedLimit successCount failedCount (backup # backups) =
     (let info = \<lparr>rbi_Name = bk_Name backup, rbi_Status = bk_Phase backup\<rparr> in
      if bk_Phase backup = PhaseCompleted
      then (if successCount < successLimit
            then info # recent_backups successLimit failedLimit (wrap32 (successCount + 1)) failedCount backups
            else recent_backups successLimit failedLimit successCount failedCount backups)
      else if bk_Phase backup = PhaseFailed
      then (if failedCount < failedLimit
            then info # recent_backups successLimit failedLimit successCount (wrap32 (failedCount + 1)) backups
            else recent_backups successLimit failedLimit successCount failedCount backups)
      else if bk_Phase backup = PhaseRunning \<or> bk_Phase backup = PhasePending
      then info # recent_backups successLimit failedLimit successCount failedCount backups
      else recent_backups successLimit failedLimit successCount failedCount backups)"

definition GetRecentBackupsList :: "('w, 'b) schedule_env \<Rightarrow> 'b DatabaseBackupSchedule \<Rightarrow> 'b DatabaseBackup list \<Rightarrow> RecentBackupInfo list" where
  "GetRecentBackupsList h schedule backups =
     (let successLimit = ss_SuccessfulBackupsHistoryLimit (bs_Spec schedule);
          failedLimit = ss_FailedBackupsHistoryLimit (bs_Spec schedule)
      in recent_backups (if successLimit = 0 then 5 else successLimit) (if failedLimit = 0 then 3 else failedLimit) 0 0
           (GetBackupsSortedByTime h backups))"

abbreviation with_status :: "(DatabaseBackupScheduleStatus \<Rightarrow> DatabaseBackupScheduleStatus) \<Rightarrow> 'b DatabaseBackupSchedule \<Rightarrow> 'b DatabaseBackupSchedule" where
  "with_status f s \<equiv> s\<lparr>bs_Status := f (bs_Status s)\<rparr>"

definition UpdateLastBackupStatus :: "'b DatabaseBackup list \<Rightarrow> 'b DatabaseBackupSchedule \<Rightarrow> 'b DatabaseBackupSchedule" where
  "UpdateLastBackupStatus backups schedule =
     (case (GetLatestBackup backups, st_LastBackup (bs_Status schedule)) of
        (Some latest, Some lb) \<Rightarrow>
          with_status (\<lambda>st. st\<lparr>st_LastBackup :=
            Some (lb\<lparr>sbi_Status := bk_Phase latest,
                     sbi_CompletedAt := (case bk_CompletedAt latest of None \<Rightarrow> sbi_CompletedAt lb | Some t \<Rightarrow> Some t)\<rparr>)\<rparr>) schedule
      | _ \<Rightarrow> schedule)"

section \<open>\<^verbatim>\<open>controller.go\<close>\<close>

definition RequeueAfterError :: duration where "RequeueAfterError = 30 * Second"
definition MaxRequeueAfter :: duration where "MaxRequeueAfter = 1 * Hour"
definition MinRequeueAfter :: duration where "MinRequeueAfter = 10 * Second"

definition FinalizerDatabaseBackupSchedule :: string where
  "FinalizerDatabaseBackupSchedule = ''dbops.dbprovision.io/schedule-protection''"

abbreviation se_status_update :: "('w, 'b) schedule_env \<Rightarrow> 'b DatabaseBackupSchedule \<Rightarrow> ('w, 'b DatabaseBackupSchedule) op" where
  "se_status_update h \<equiv> cl_Status_Update (se_client h)"

definition set_ready :: "int \<Rightarrow> Phase \<Rightarrow> ConditionStatus \<Rightarrow> string \<Rightarrow> string \<Rightarrow> 'b DatabaseBackupSchedule \<Rightarrow> 'b DatabaseBackupSchedule" where
  "set_ready now phase status reason message =
     with_status (\<lambda>st. st\<lparr>st_Phase := phase, st_Conditions := SetReadyCondition now status reason message (st_Conditions st)\<rparr>)"

definition handleError :: "('w, 'b) schedule_env \<Rightarrow> 'b DatabaseBackupSchedule \<Rightarrow> go_error \<Rightarrow> string \<Rightarrow> 'w reconciler" where
  "handleError h schedule err operation w =
     (let msg = ''Failed to '' @ operation @ '': '' @ Error err;
          w1 = recordf (se_runtime h) EventTypeWarning ''ReconcileFailed'' msg w;
          schedule' = set_ready (se_Now h w1) PhaseActive ConditionFalse ''Error'' msg schedule;
          (w2, _) = se_status_update h schedule' w1
      in (w2, requeue_after RequeueAfterError, Some err))"

definition handlePaused :: "('w, 'b) schedule_env \<Rightarrow> 'b DatabaseBackupSchedule \<Rightarrow> 'w reconciler" where
  "handlePaused h schedule w =
     (let w1 = (if st_Phase (bs_Status schedule) \<noteq> PhasePaused
                then recordf (se_runtime h) EventTypeNormal ''Paused'' ''Backup schedule paused'' w else w);
          schedule' = set_ready (se_Now h w1) PhasePaused ConditionTrue ''Paused'' ''Schedule is paused''
                        (with_status (\<lambda>st. st\<lparr>st_NextBackupTime := None\<rparr>) schedule)
      in case se_status_update h schedule' w1 of
           (w2, Inl e) \<Rightarrow> (w2, no_requeue, Some e)
         | (w2, Inr _) \<Rightarrow> (w2, no_requeue, None))"

definition hasDeletionProtection :: "'b DatabaseBackupSchedule \<Rightarrow> bool" where
  "hasDeletionProtection schedule = ss_DeletionProtection (bs_Spec schedule)"

definition handleDeletion :: "('w, 'b) schedule_env \<Rightarrow> 'b DatabaseBackupSchedule \<Rightarrow> 'w reconciler" where
  "handleDeletion h schedule w =
     (if \<not> rt_ContainsFinalizer (se_runtime h) (bs_meta schedule) FinalizerDatabaseBackupSchedule then (w, no_requeue, None)
      else if hasDeletionProtection schedule \<and> \<not> HasForceDeleteAnnotation (bs_meta schedule) then
        (let w1 = recordf (se_runtime h) EventTypeWarning ''DeletionBlocked'' ''Deletion blocked by deletion protection'' w;
             schedule' = set_ready (se_Now h w1) PhaseFailed ConditionFalse ''DeletionProtected'' ''Deletion protection is enabled'' schedule;
             (w2, _) = se_status_update h schedule' w1
         in (w2, no_requeue, Some (OtherError ''deletion protection enabled'' None)))
      else
        (case cl_Update (se_client h)
                (schedule\<lparr>bs_meta := rt_RemoveFinalizer (se_runtime h) (bs_meta schedule) FinalizerDatabaseBackupSchedule\<rparr>) w of
           (w', Inl e) \<Rightarrow> (w', no_requeue, Some e)
         | (w', Inr _) \<Rightarrow> (w', no_requeue, None)))"

text \<open>
  The parts of \<^verbatim>\<open>reconcile\<close>. A part ends the reconciliation with a result, \<open>Inl\<close>, or hands the
  schedule in memory on, \<open>Inr\<close>.
\<close>

type_synonym ('w, 'b) stage = "'w \<Rightarrow> 'w \<times> ((ctrl_Result \<times> go_error option) + 'b DatabaseBackupSchedule)"

definition stop :: "'w \<times> ctrl_Result \<times> go_error option \<Rightarrow> 'w \<times> ((ctrl_Result \<times> go_error option) + 'a)" where
  "stop r = (fst r, Inl (snd r))"

definition concurrency_stage :: "('w, 'b) schedule_env \<Rightarrow> ScheduleEvaluation \<Rightarrow> 'b DatabaseBackupSchedule \<Rightarrow> ('w, 'b) stage" where
  "concurrency_stage h evaluation schedule w =
     (if sv_BackupDue evaluation \<and> sv_RunningBackups evaluation > 0 then
        (case HandleConcurrency h schedule w of
           (w1, Inl e) \<Rightarrow> stop (handleError h schedule e ''handle concurrency'' w1)
         | (w1, Inr concurrencyResult) \<Rightarrow>
             if \<not> cr_ShouldProceed concurrencyResult then
               (let schedule' = set_ready (se_Now h w1) PhaseActive ConditionTrue ''WaitingForCompletion'' (cr_Message concurrencyResult) schedule;
                    (w2, _) = se_status_update h schedule' w1
                in stop (w2, requeue_after RequeueAfterError, None))
             else (w1, Inr schedule))
      else (w, Inr schedule))"

definition trigger_stage :: "('w, 'b) schedule_env \<Rightarrow> ScheduleEvaluation \<Rightarrow> 'b DatabaseBackupSchedule \<Rightarrow> ('w, 'b) stage" where
  "trigger_stage h evaluation schedule w =
     (if sv_BackupDue evaluation then
        (case TriggerBackup h schedule w of
           (w1, Inl e) \<Rightarrow> stop (handleError h schedule e ''trigger backup'' w1)
         | (w1, Inr result) \<Rightarrow>
             if tr_Triggered result then
               (let lb = \<lparr>sbi_Name = tr_BackupName result, sbi_Status = PhasePending, sbi_StartedAt = Some (se_Now h w1), sbi_CompletedAt = None\<rparr>;
                    stats = (case st_Statistics (bs_Status schedule) of None \<Rightarrow> empty_BackupStatistics | Some s \<Rightarrow> s);
                    schedule' = with_status (\<lambda>st. st\<lparr>st_LastBackup := Some lb,
                                  st_Statistics := Some (stats\<lparr>bst_TotalBackups := wrap64 (bst_TotalBackups stats + 1)\<rparr>)\<rparr>) schedule
                in (recordf (se_runtime h) EventTypeNormal ''BackupTriggered'' (''Scheduled backup '' @ tr_BackupName result @ '' triggered'') w1,
                    Inr schedule'))
             else (w1, Inr schedule))
      else (w, Inr schedule))"

definition bookkeeping_stage :: "('w, 'b) schedule_env \<Rightarrow> 'b DatabaseBackupSchedule \<Rightarrow> 'w \<Rightarrow> 'w \<times> 'b DatabaseBackupSchedule" where
  "bookkeeping_stage h schedule w =
     (case ListBackupsForSchedule h schedule w of
        (w1, Inl e) \<Rightarrow> (w1, schedule)
      | (w1, Inr backups) \<Rightarrow>
          (let w2 = (if ss_Retention (bs_Spec schedule) \<noteq> None then fst (EnforceRetention h schedule w1) else w1);
               schedule1 = with_status (\<lambda>st. st\<lparr>st_RecentBackups := GetRecentBackupsList h schedule backups\<rparr>) schedule;
               (w3, r) = UpdateStatistics h schedule1 w2;
               schedule2 = (case r of Inl e \<Rightarrow> schedule1 | Inr stats \<Rightarrow> with_status (\<lambda>st. st\<lparr>st_Statistics := Some stats\<rparr>) schedule1)
           in (w3, UpdateLastBackupStatus backups schedule2)))"

definition schedule_requeue :: "('w, 'b) schedule_env \<Rightarrow> int \<Rightarrow> 'w \<Rightarrow> duration" where
  "schedule_requeue h nextBackupTime w =
     (let requeueAfter = time_Sub nextBackupTime (se_Now h w)
      in if requeueAfter < 0 then MinRequeueAfter
         else if requeueAfter > MaxRequeueAfter then MaxRequeueAfter else requeueAfter)"

definition finish_stage :: "('w, 'b) schedule_env \<Rightarrow> ScheduleEvaluation \<Rightarrow> 'b DatabaseBackupSchedule \<Rightarrow> 'w reconciler" where
  "finish_stage h evaluation schedule w =
     (let schedule' = set_ready (se_Now h w) PhaseActive ConditionTrue ''Active'' ''Schedule is active'' schedule
      in case se_status_update h schedule' w of
           (w1, Inl e) \<Rightarrow> (w1, no_requeue, Some e)
         | (w1, Inr _) \<Rightarrow> (w1, requeue_after (schedule_requeue h (sv_NextBackupTime evaluation) w1), None))"

definition schedule_reconcile :: "('w, 'b) schedule_env \<Rightarrow> 'b DatabaseBackupSchedule \<Rightarrow> 'w reconciler" where
  "schedule_reconcile h schedule w =
     (if ss_Paused (bs_Spec schedule) then handlePaused h schedule w
      else case EvaluateSchedule h schedule w of
        (w1, Inl e) \<Rightarrow> handleError h schedule e ''evaluate schedule'' w1
      | (w1, Inr evaluation) \<Rightarrow>
          (let schedule1 = with_status (\<lambda>st. st\<lparr>st_NextBackupTime := Some (sv_NextBackupTime evaluation)\<rparr>) schedule in
           case concurrency_stage h evaluation schedule1 w1 of
             (w2, Inl r) \<Rightarrow> (w2, r)
           | (w2, Inr schedule2) \<Rightarrow>
             (case trigger_stage h evaluation schedule2 w2 of
                (w3, Inl r) \<Rightarrow> (w3, r)
              | (w3, Inr schedule3) \<Rightarrow>
                (case bookkeeping_stage h schedule3 w3 of (w4, schedule4) \<Rightarrow> finish_stage h evaluation schedule4 w4))))"

definition schedule_Reconcile :: "('w, 'b) schedule_env \<Rightarrow> string \<Rightarrow> string \<Rightarrow> 'w reconciler" where
  "schedule_Reconcile h namespace name w =
     (case cl_Get (se_client h) namespace name w of
        (w1, Inl e) \<Rightarrow> if rt_IsNotFound (se_runtime h) e then (w1, no_requeue, None) else (w1, no_requeue, Some e)
      | (w1, Inr schedule) \<Rightarrow>
          if ShouldSkipReconcile (bs_meta schedule) then (w1, no_requeue, None)
          else if IsMarkedForDeletion (bs_meta schedule) then handleDeletion h schedule w1
          else if \<not> rt_ContainsFinalizer (se_runtime h) (bs_meta schedule) FinalizerDatabaseBackupSchedule then
            (case cl_Update (se_client h)
                    (schedule\<lparr>bs_meta := rt_AddFinalizer (se_runtime h) (bs_meta schedule) FinalizerDatabaseBackupSchedule\<rparr>) w1 of
               (w2, Inl e) \<Rightarrow> (w2, no_requeue, Some e)
             | (w2, Inr schedule') \<Rightarrow> schedule_reconcile h schedule' w2)
          else schedule_reconcile h schedule w1)"

section \<open>Recorded runs\<close>

text \<open>
  \<open>watched\<close> is the same environment over a world that also records the calls that change the cluster,
  each with its error.
\<close>

datatype 'b cluster_call =
    CreateCall "'b DatabaseBackup" "go_error option"
  | DeleteCall "'b DatabaseBackup" "go_error option"
  | StatusCall "'b DatabaseBackupSchedule" "go_error option"
  | UpdateCall "'b DatabaseBackupSchedule" "go_error option"

definition watched :: "('w, 'b) schedule_env \<Rightarrow> ('w \<times> 'b cluster_call list, 'b) schedule_env" where
  "watched h =
     \<lparr>se_runtime = watched_runtime (se_runtime h),
      se_client =
        \<lparr>cl_Get = (\<lambda>ns n. unlogged (cl_Get (se_client h) ns n)),
         cl_Update = (\<lambda>s. logged (UpdateCall s) (cl_Update (se_client h) s)),
         cl_Status_Update = (\<lambda>s. logged (StatusCall s) (cl_Status_Update (se_client h) s))\<rparr>,
      se_List = (\<lambda>ns l. unlogged (se_List h ns l)),
      se_Create = (\<lambda>b. logged (CreateCall b) (se_Create h b)),
      se_Delete = (\<lambda>b. logged (DeleteCall b) (se_Delete h b)),
      se_PublishAsync = map_option (\<lambda>publish ev wt. (publish ev (fst wt), snd wt)) (se_PublishAsync h),
      se_LoadLocation = se_LoadLocation h, se_Parse = se_Parse h, se_AddDays = se_AddDays h,
      se_Format = se_Format h, se_Seconds = se_Seconds h, se_Slice = se_Slice h, se_DatabaseRef = se_DatabaseRef h\<rparr>"

lemma watched_simps [simp]:
  "se_runtime (watched h) = watched_runtime (se_runtime h)"
  "cl_Get (se_client (watched h)) ns n = unlogged (cl_Get (se_client h) ns n)"
  "cl_Update (se_client (watched h)) s = logged (UpdateCall s) (cl_Update (se_client h) s)"
  "cl_Status_Update (se_client (watched h)) s = logged (StatusCall s) (cl_Status_Update (se_client h) s)"
  "se_List (watched h) ns l = unlogged (se_List h ns l)"
  "se_Create (watched h) b = logged (CreateCall b) (se_Create h b)"
  "se_Delete (watched h) b = logged (DeleteCall b) (se_Delete h b)"
  "se_LoadLocation (watched h) = se_LoadLocation h"
  "se_Parse (watched h) = se_Parse h"
  "se_AddDays (watched h) = se_AddDays h"
  "se_Format (watched h) = se_Format h"
  "se_Slice (watched h) = se_Slice h"
  "se_PublishAsync (watched h) = map_option (\<lambda>publish ev wt. (publish ev (fst wt), snd wt)) (se_PublishAsync h)"
  "se_DatabaseRef (watched h) = se_DatabaseRef h"
  by (simp_all add: watched_def)

section \<open>Retention\<close>

text \<open>A deletion is counted when it succeeds or when the backup was already gone.\<close>

definition accepted :: "('w, 'b) schedule_env \<Rightarrow> go_error option \<Rightarrow> bool" where
  "accepted h err = (case err of None \<Rightarrow> True | Some e \<Rightarrow> rt_IsNotFound (se_runtime h) e)"

lemma accepted_simps [simp]: "accepted h None" "accepted h (Some e) = rt_IsNotFound (se_runtime h) e"
  by (simp_all add: accepted_def)

abbreviation delete_calls :: "('b DatabaseBackup \<times> go_error option) list \<Rightarrow> 'b cluster_call list" where
  "delete_calls ds \<equiv> map (\<lambda>(b, e). DeleteCall b e) ds"

lemma DeleteBackups_watched:
  "\<exists>w' ds. DeleteBackups (watched h) bs (w, t) = ((w', t @ delete_calls ds), map (bk_Name \<circ> fst) (filter (accepted h \<circ> snd) ds)) \<and>
     map fst ds = bs"
proof (induction bs arbitrary: w t)
  case (Cons b bs)
  obtain w1 r where d: "se_Delete h b w = (w1, r)" by (cases "se_Delete h b w") auto
  obtain w' ds where rest:
    "DeleteBackups (watched h) bs (w1, t @ [DeleteCall b (error_of r)]) =
       ((w', (t @ [DeleteCall b (error_of r)]) @ delete_calls ds), map (bk_Name \<circ> fst) (filter (accepted h \<circ> snd) ds))"
    "map fst ds = bs"
    using Cons.IH by blast
  show ?case
    by (rule exI [of _ w'], rule exI [of _ "(b, error_of r) # ds"])
      (use rest d in \<open>cases r; auto simp: DeleteBackup_def comp_def\<close>)
qed simp

lemma keep_daily_eq:
  assumes "distinct (map bk_Name bs)"
  shows "keep_daily cutoff bs del = del @ filter (\<lambda>b. bk_created b < cutoff \<and> (\<forall>d \<in> set del. bk_Name d \<noteq> bk_Name b)) bs"
  using assms
proof (induction bs arbitrary: del)
  case (Cons b bs del)
  have fresh: "bk_Name x \<noteq> bk_Name b" if "x \<in> set bs" for x
    using Cons.prems that by (auto simp: image_iff)
  have "filter (\<lambda>x. bk_created x < cutoff \<and> (\<forall>d \<in> set (del @ [b]). bk_Name d \<noteq> bk_Name x)) bs =
        filter (\<lambda>x. bk_created x < cutoff \<and> (\<forall>d \<in> set del. bk_Name d \<noteq> bk_Name x)) bs"
    using fresh by (intro filter_cong) (auto dest: sym)
  then show ?case using Cons by (auto simp: list_ex_iff)
qed simp

text \<open>What \<^verbatim>\<open>sort.Slice\<close> promises of the comparison by creation time.\<close>

definition sorts_newest :: "('w, 'b) schedule_env \<Rightarrow> bool" where
  "sorts_newest h \<longleftrightarrow>
     (\<forall>xs. mset (se_Slice h newer xs) = mset xs \<and> sorted_wrt (\<lambda>a b. \<not> newer b a) (se_Slice h newer xs))"

definition completed :: "'b DatabaseBackup list \<Rightarrow> 'b DatabaseBackup set" where
  "completed backups = {b \<in> set backups. bk_Phase b = PhaseCompleted}"

definition at_least_as_new :: "'b DatabaseBackup list \<Rightarrow> 'b DatabaseBackup \<Rightarrow> 'b DatabaseBackup set" where
  "at_least_as_new backups b = {x \<in> completed backups. x \<noteq> b \<and> bk_created x \<ge> bk_created b}"

definition too_old :: "('w, 'b) schedule_env \<Rightarrow> RetentionPolicy \<Rightarrow> int \<Rightarrow> 'b DatabaseBackup \<Rightarrow> bool" where
  "too_old h p now b \<longleftrightarrow> 0 < rp_KeepDaily p \<and> bk_created b < se_AddDays h now (- rp_KeepDaily p)"

lemma distinct_names: "distinct (map f xs) \<Longrightarrow> distinct xs"
  by (simp add: distinct_map)

lemma same_name: "distinct (map f xs) \<Longrightarrow> a \<in> set xs \<Longrightarrow> b \<in> set xs \<Longrightarrow> f a = f b \<Longrightarrow> a = b"
  by (auto simp: distinct_map inj_on_def)

lemma sorted_completed:
  assumes "sorts_newest h" "distinct (map bk_Name backups)" "length backups < 2 ^ 31"
  defines "cs \<equiv> GetCompletedBackupsSortedByTime h backups"
  shows "set cs = completed backups" "distinct (map bk_Name cs)" "wrap32 (int (length cs)) = int (length cs)"
    and "sorted_wrt (\<lambda>a b. \<not> newer b a) cs"
proof -
  have m: "mset cs = mset (FilterBackupsByPhase backups PhaseCompleted)" and s: "sorted_wrt (\<lambda>a b. \<not> newer b a) cs"
    using assms(1) by (simp_all add: cs_def GetCompletedBackupsSortedByTime_def sorts_newest_def)
  show "set cs = completed backups"
    using mset_eq_setD [OF m] by (simp add: FilterBackupsByPhase_def completed_def)
  have "mset (map bk_Name cs) = mset (map bk_Name (FilterBackupsByPhase backups PhaseCompleted))"
    using m by (simp add: mset_map)
  moreover have "distinct (map bk_Name (FilterBackupsByPhase backups PhaseCompleted))"
    using assms(2) by (simp add: FilterBackupsByPhase_def distinct_map_filter)
  ultimately show "distinct (map bk_Name cs)" using mset_eq_imp_distinct_iff by blast
  have "length cs \<le> length backups"
    using mset_eq_length [OF m] by (simp add: FilterBackupsByPhase_def)
  then show "wrap32 (int (length cs)) = int (length cs)" using assms(3) by (intro wrap32_id) auto
  show "sorted_wrt (\<lambda>a b. \<not> newer b a) cs" by (rule s)
qed

lemma keep_last_newer:
  assumes "sorted_wrt (\<lambda>a b. \<not> newer b a) cs" "distinct cs" "b \<in> set (drop n cs)"
  shows "n \<le> card {x \<in> set cs. x \<noteq> b \<and> bk_created x \<ge> bk_created b}"
proof -
  have "set (take n cs) \<subseteq> {x \<in> set cs. x \<noteq> b \<and> bk_created x \<ge> bk_created b}"
  proof
    fix x assume x: "x \<in> set (take n cs)"
    have "sorted_wrt (\<lambda>a b. \<not> newer b a) (take n cs @ drop n cs)" using assms(1) by simp
    then have "\<not> newer b x" using assms(3) x unfolding sorted_wrt_append by blast
    moreover have "x \<noteq> b" using assms(2,3) x set_take_disj_set_drop_if_distinct [of cs n n] by auto
    ultimately show "x \<in> {x \<in> set cs. x \<noteq> b \<and> bk_created x \<ge> bk_created b}"
      using x by (auto simp: newer_def dest: in_set_takeD)
  qed
  then have "card (set (take n cs)) \<le> card {x \<in> set cs. x \<noteq> b \<and> bk_created x \<ge> bk_created b}"
    by (rule card_mono [rotated]) simp
  moreover have "card (set (take n cs)) = n"
    using assms(2,3) by (subst distinct_card) (auto simp: min_def)
  ultimately show ?thesis by simp
qed

lemma retention_marks_eq:
  assumes "distinct (map bk_Name cs)"
  shows "set (retention_marks h p now cs) = set (keep_last p cs) \<union> {b \<in> set cs. too_old h p now b}"
    and "distinct (map bk_Name (retention_marks h p now cs))"
proof -
  let ?kl = "keep_last p cs"
  have sub: "set ?kl \<subseteq> set cs" by (auto simp: keep_last_def dest: in_set_dropD)
  have d: "distinct (map bk_Name ?kl)" using assms by (simp add: keep_last_def drop_map [symmetric])
  have other: "(\<forall>d \<in> set ?kl. bk_Name d \<noteq> bk_Name b) \<longleftrightarrow> b \<notin> set ?kl" if "b \<in> set cs" for b
    using same_name [OF assms] sub that by blast
  have eq: "retention_marks h p now cs =
        ?kl @ (if rp_KeepDaily p > 0 then filter (\<lambda>b. bk_created b < se_AddDays h now (- rp_KeepDaily p) \<and>
                  (\<forall>d \<in> set ?kl. bk_Name d \<noteq> bk_Name b)) cs else [])"
    by (simp add: retention_marks_def keep_daily_eq [OF assms])
  show "set (retention_marks h p now cs) = set ?kl \<union> {b \<in> set cs. too_old h p now b}"
    unfolding eq using other by (auto simp: too_old_def)
  show "distinct (map bk_Name (retention_marks h p now cs))"
    unfolding eq using d assms by (auto simp: distinct_map_filter)
qed


section \<open>What a reconciliation does to the cluster\<close>

definition schedule_due :: "('w, 'b) schedule_env \<Rightarrow> 'b DatabaseBackupSchedule \<Rightarrow> 'w \<Rightarrow> bool" where
  "schedule_due h schedule w \<longleftrightarrow>
     \<not> ss_Paused (bs_Spec schedule) \<and>
     (\<exists>start loc cron_Next. lastBackupStart schedule = Some start \<and>
        getTimezone h (ss_Timezone (bs_Spec schedule)) = Inr loc \<and>
        se_Parse h (ss_Schedule (bs_Spec schedule)) = Inr cron_Next \<and> cron_Next loc start \<le> se_Now h w)"

abbreviation answers :: "('w, 'b) schedule_env \<Rightarrow> 'b DatabaseBackupSchedule \<Rightarrow> 'w \<Rightarrow> 'w \<times> (go_error + 'b DatabaseBackup list)" where
  "answers h schedule \<equiv> se_List h (bs_Namespace schedule) [(LabelBackupSchedule, bs_Name schedule)]"

definition same_schedule :: "'b DatabaseBackupSchedule \<Rightarrow> 'b DatabaseBackupSchedule \<Rightarrow> bool" where
  "same_schedule s s' \<longleftrightarrow> bs_APIVersion s' = bs_APIVersion s \<and> bs_Kind s' = bs_Kind s \<and> bs_meta s' = bs_meta s \<and> bs_Spec s' = bs_Spec s"

lemma same_schedule_refl [simp]: "same_schedule s s"
  by (simp add: same_schedule_def)

lemma same_template: "same_schedule s s' \<Longrightarrow> template_backup h s' now = template_backup h s now"
  by (simp add: same_schedule_def template_backup_def backup_labels_def)

lemma set_ready_keeps [simp]:
  "lastBackupStart (set_ready now ph st reason msg s) = lastBackupStart s"
  "st_LastBackup (bs_Status (set_ready now ph st reason msg s)) = st_LastBackup (bs_Status s)"
  "same_schedule s0 (set_ready now ph st reason msg s) = same_schedule s0 s"
  by (simp_all add: set_ready_def lastBackupStart_def same_schedule_def)

lemma start_keeps [simp]:
  "lastBackupStart (with_status (\<lambda>st. st\<lparr>st_NextBackupTime := n\<rparr>) s) = lastBackupStart s"
  "lastBackupStart (with_status (\<lambda>st. st\<lparr>st_RecentBackups := rb\<rparr>) s) = lastBackupStart s"
  "lastBackupStart (with_status (\<lambda>st. st\<lparr>st_Statistics := sts\<rparr>) s) = lastBackupStart s"
  by (simp_all add: lastBackupStart_def)

lemma UpdateLastBackupStatus_keeps [simp]:
  "lastBackupStart (UpdateLastBackupStatus bs s) = lastBackupStart s"
  "map_option sbi_Name (st_LastBackup (bs_Status (UpdateLastBackupStatus bs s))) = map_option sbi_Name (st_LastBackup (bs_Status s))"
  by (auto simp: UpdateLastBackupStatus_def lastBackupStart_def split: option.splits)

lemma ListBackups_watched [simp]:
  "ListBackupsForSchedule (watched h) s (w, t) =
     (case answers h s w of
        (w', Inl e) \<Rightarrow> ((w', t), Inl (Errorf_w ''list backups: '' e))
      | (w', Inr bs) \<Rightarrow> ((w', t), Inr bs))"
  by (simp add: ListBackupsForSchedule_def check_def split: prod.split sum.split)

lemma getTimezone_watched: "getTimezone (watched h) = getTimezone h"
  by (rule ext) (simp add: getTimezone_def)

lemma handleError_watched:
  "\<exists>w' s e. handleError (watched h) schedule err op' (w, t) = ((w', t @ [StatusCall s e]), requeue_after RequeueAfterError, Some err) \<and>
     lastBackupStart s = lastBackupStart schedule"
  by (simp add: handleError_def recordf_def Let_def split: prod.split)

lemma handlePaused_watched:
  "\<exists>w' s e r. handlePaused (watched h) schedule (w, t) = ((w', t @ [StatusCall s e]), r) \<and>
     lastBackupStart s = lastBackupStart schedule"
  by (simp add: handlePaused_def recordf_def Let_def split: prod.split sum.split)

lemma EvaluateSchedule_watched:
  assumes "\<not> ss_Paused (bs_Spec schedule)"
  shows "(\<exists>w' e. EvaluateSchedule (watched h) schedule (w, t) = ((w', t), Inl e) \<and>
       (schedule_due h schedule w \<longrightarrow> (\<exists>e. answers h schedule w = (w', Inl e)))) \<or>
    (\<exists>w' ev. EvaluateSchedule (watched h) schedule (w, t) = ((w', t), Inr ev) \<and>
       (sv_BackupDue ev \<longleftrightarrow> schedule_due h schedule w) \<and>
       (\<exists>bs. answers h schedule w = (w', Inr bs) \<and> sv_RunningBackups ev = length (FilterBackupsByPhase bs PhaseRunning)))"
  using assms
  by (auto simp: EvaluateSchedule_def schedule_due_def getTimezone_watched check_def Let_def split: sum.split prod.split option.split)

definition forbids :: "('w, 'b) schedule_env \<Rightarrow> 'b DatabaseBackupSchedule \<Rightarrow> bool" where
  "forbids h schedule \<longleftrightarrow> ss_ConcurrencyPolicy (bs_Spec schedule) = ConcurrencyPolicyForbid \<and>
     (\<forall>w w' bs. answers h schedule w = (w', Inr bs) \<longrightarrow> FilterBackupsByPhase bs PhaseRunning \<noteq> [])"

text \<open>A due backup is not created when a list fails, or when the policy forbids it.\<close>

definition blocked :: "('w, 'b) schedule_env \<Rightarrow> 'b DatabaseBackupSchedule \<Rightarrow> bool" where
  "blocked h schedule \<longleftrightarrow> (\<exists>w w' e. answers h schedule w = (w', Inl e)) \<or>
     ss_ConcurrencyPolicy (bs_Spec schedule) = ConcurrencyPolicyForbid \<and>
     (\<exists>w w' bs. answers h schedule w = (w', Inr bs) \<and> FilterBackupsByPhase bs PhaseRunning \<noteq> [])"

definition in_phase :: "Phase \<Rightarrow> ('b DatabaseBackup \<times> go_error option) list \<Rightarrow> bool" where
  "in_phase phase ds \<longleftrightarrow> (\<forall>b \<in> set (map fst ds). bk_Phase b = phase)"

lemma in_phase_Nil [simp]: "in_phase phase []"
  by (simp add: in_phase_def)

lemma DeleteBackups_in_phase:
  assumes "\<forall>b \<in> set bs. bk_Phase b = phase"
  shows "\<exists>w' ds names. DeleteBackups (watched h) bs (w, t) = ((w', t @ delete_calls ds), names) \<and> in_phase phase ds"
  using DeleteBackups_watched [of h bs w t] assms by (metis in_phase_def)

lemma stops_with_error:
  "\<exists>w' s e r. stop (handleError (watched h) schedule err op' (w, t)) = ((w', t @ [StatusCall s e]), Inl r) \<and>
     lastBackupStart s = lastBackupStart schedule"
  using handleError_watched [of h schedule err op' w t] by (auto simp: stop_def)

lemma concurrency_watched:
  "(\<exists>w' s e r. concurrency_stage (watched h) ev schedule (w, t) = ((w', t @ [StatusCall s e]), Inl r) \<and>
      lastBackupStart s = lastBackupStart schedule \<and>
      blocked h schedule) \<or>
   (\<exists>w' ds. concurrency_stage (watched h) ev schedule (w, t) = ((w', t @ delete_calls ds), Inr schedule) \<and>
      in_phase PhaseRunning ds \<and>
      (ds \<noteq> [] \<longrightarrow> sv_BackupDue ev \<and> ss_ConcurrencyPolicy (bs_Spec schedule) = ConcurrencyPolicyReplace) \<and>
      (sv_BackupDue ev \<and> sv_RunningBackups ev > 0 \<longrightarrow> \<not> forbids h schedule))"
proof (cases "sv_BackupDue ev \<and> sv_RunningBackups ev > 0")
  case False
  then show ?thesis
    by (intro disjI2 exI [of _ w] exI [of _ "[]"]) (auto simp: concurrency_stage_def)
next
  case due: True
  obtain w1 a where a: "answers h schedule w = (w1, a)" by force
  show ?thesis
  proof (cases a)
    case (Inl e)
    then have "concurrency_stage (watched h) ev schedule (w, t) =
        stop (handleError (watched h) schedule (Errorf_w ''list backups: '' (Errorf_w ''list backups: '' e)) ''handle concurrency'' (w1, t))"
      using due a by (simp add: concurrency_stage_def HandleConcurrency_def check_def)
    moreover have "blocked h schedule" using a Inl by (auto simp: blocked_def)
    ultimately show ?thesis using stops_with_error by metis
  next
    case (Inr bs)
    have running: "\<forall>b \<in> set (FilterBackupsByPhase bs PhaseRunning). bk_Phase b = PhaseRunning"
      by (simp add: FilterBackupsByPhase_def)
    obtain w2 ds names where del: "DeleteBackups (watched h) (FilterBackupsByPhase bs PhaseRunning) (w1, t) = ((w2, t @ delete_calls ds), names)"
      and ds: "in_phase PhaseRunning ds"
      using DeleteBackups_in_phase [OF running, of h w1 t] by (elim exE conjE)
    have pass: ?thesis if "concurrency_stage (watched h) ev schedule (w, t) = ((w1, t), Inr schedule)" "\<not> forbids h schedule"
      using that due by (intro disjI2 exI [of _ w1] exI [of _ "[]"]) simp
    show ?thesis
    proof (cases "FilterBackupsByPhase bs PhaseRunning")
      case Nil
      then have "\<not> forbids h schedule" using a Inr by (auto simp: forbids_def)
      then show ?thesis using due a Inr Nil by (intro pass) (simp_all add: concurrency_stage_def HandleConcurrency_def check_def)
    next
      case (Cons b rest)
      show ?thesis
      proof (cases "ss_ConcurrencyPolicy (bs_Spec schedule)")
        case ConcurrencyPolicyForbid
        then have "blocked h schedule" using a Inr Cons unfolding blocked_def by auto
        then show ?thesis using due a Inr Cons ConcurrencyPolicyForbid
          by (auto simp: concurrency_stage_def HandleConcurrency_def check_def stop_def Let_def split: prod.split)
      next
        case ConcurrencyPolicyReplace
        then show ?thesis using due a Inr Cons del ds
          by (intro disjI2 exI [of _ w2] exI [of _ ds]) (auto simp: concurrency_stage_def HandleConcurrency_def check_def forbids_def)
      qed (use due a Inr Cons in \<open>intro pass, simp_all add: concurrency_stage_def HandleConcurrency_def check_def forbids_def\<close>)+
    qed
  qed
qed

lemma trigger_watched:
  "(\<not> sv_BackupDue ev \<and> trigger_stage (watched h) ev schedule (w, t) = ((w, t), Inr schedule)) \<or>
   (sv_BackupDue ev \<and> (\<exists>w1 b w' s. se_Create h (template_backup h schedule (se_Now h w)) w = (w1, Inr b) \<and>
      trigger_stage (watched h) ev schedule (w, t) = ((w', t @ [CreateCall (template_backup h schedule (se_Now h w)) None]), Inr s) \<and>
      same_schedule schedule s \<and> lastBackupStart s \<noteq> None \<and> map_option sbi_Name (st_LastBackup (bs_Status s)) = Some (bk_Name b))) \<or>
   (sv_BackupDue ev \<and> (\<exists>w1 e0 w' s e r. se_Create h (template_backup h schedule (se_Now h w)) w = (w1, Inl e0) \<and>
      trigger_stage (watched h) ev schedule (w, t) =
        ((w', t @ [CreateCall (template_backup h schedule (se_Now h w)) (Some e0), StatusCall s e]), Inl r) \<and>
      lastBackupStart s = lastBackupStart schedule))"
proof (cases "sv_BackupDue ev")
  case due: True
  obtain w1 a where a: "se_Create h (template_backup h schedule (se_Now h w)) w = (w1, a)" by force
  have same: "template_backup (watched h) schedule (se_Now h w) = template_backup h schedule (se_Now h w)"
    by (simp add: template_backup_def)
  show ?thesis
  proof (cases a)
    case (Inl e0)
    then show ?thesis
      using due a stops_with_error [of h schedule "Errorf_w ''create backup: '' e0" "''trigger backup''" w1
          "t @ [CreateCall (template_backup h schedule (se_Now h w)) (Some e0)]"]
      by (auto simp: trigger_stage_def TriggerBackup_def CreateBackupFromTemplate_def check_def same)
  next
    case (Inr b)
    then show ?thesis
      using due a
      by (auto simp: trigger_stage_def TriggerBackup_def CreateBackupFromTemplate_def check_def same Let_def
          recordf_def same_schedule_def lastBackupStart_def split: option.split)
  qed
qed (simp add: trigger_stage_def)

lemma keep_daily_subset: "x \<in> set (keep_daily cutoff xs del) \<Longrightarrow> x \<in> set xs \<or> x \<in> set del"
proof (induction xs arbitrary: del)
  case (Cons a xs)
  show ?case using Cons.IH [of "del @ [a]"] Cons.IH [of del] Cons.prems by (auto split: if_splits)
qed simp

lemma sorted_set: "sorts_newest h \<Longrightarrow> set (se_Slice h newer xs) = set xs"
  by (meson mset_eq_setD sorts_newest_def)

lemma EnforceRetention_watched:
  assumes "sorts_newest h"
  shows "\<exists>w' ds r. EnforceRetention (watched h) schedule (w, t) = ((w', t @ delete_calls ds), r) \<and>
     in_phase PhaseCompleted ds \<and> (ds \<noteq> [] \<longrightarrow> ss_Retention (bs_Spec schedule) \<noteq> None)"
proof (cases "ss_Retention (bs_Spec schedule)")
  case None
  then show ?thesis by (intro exI [of _ w] exI [of _ "[]"]) (simp add: EnforceRetention_def)
next
  case (Some p)
  obtain w1 a where a: "answers h schedule w = (w1, a)" by force
  show ?thesis
  proof (cases a)
    case (Inl e)
    then show ?thesis using a Some
      by (intro exI [of _ w1] exI [of _ "[]"]) (simp add: EnforceRetention_def check_def)
  next
    case (Inr bs)
    let ?cs = "GetCompletedBackupsSortedByTime (watched h) bs"
    have cs: "\<forall>b \<in> set ?cs. bk_Phase b = PhaseCompleted"
      by (simp add: GetCompletedBackupsSortedByTime_def sorted_set [OF assms] FilterBackupsByPhase_def)
    have last: "set (keep_last p ?cs) \<subseteq> set ?cs" by (auto simp: keep_last_def dest: in_set_dropD)
    have "set (retention_marks (watched h) p (se_Now h w1) ?cs) \<subseteq> set ?cs"
      unfolding retention_marks_def using keep_daily_subset last by (auto split: if_splits dest!: keep_daily_subset)
    with cs have marks: "\<forall>b \<in> set (retention_marks (watched h) p (se_Now h w1) ?cs). bk_Phase b = PhaseCompleted"
      by blast
    obtain w2 ds names where "DeleteBackups (watched h) (retention_marks (watched h) p (se_Now h w1) ?cs) (w1, t) = ((w2, t @ delete_calls ds), names)"
      and "in_phase PhaseCompleted ds"
      using DeleteBackups_in_phase [OF marks, of h w1 t] by (elim exE conjE)
    then show ?thesis using a Inr Some
      by (intro exI [of _ w2] exI [of _ ds]) (simp add: EnforceRetention_def check_def)
  qed
qed

text \<open>The status that is written keeps the start time and the name of the last backup.\<close>

definition same_last :: "'b DatabaseBackupSchedule \<Rightarrow> 'b DatabaseBackupSchedule \<Rightarrow> bool" where
  "same_last s s' \<longleftrightarrow> lastBackupStart s' = lastBackupStart s \<and>
     map_option sbi_Name (st_LastBackup (bs_Status s')) = map_option sbi_Name (st_LastBackup (bs_Status s))"

lemma same_last_refl [simp]: "same_last s s"
  by (simp add: same_last_def)

lemma same_last_UpdateLast [simp]: "same_last s (UpdateLastBackupStatus bs s') = same_last s s'"
  by (simp only: same_last_def UpdateLastBackupStatus_keeps)

lemma same_last_more [simp]:
  "same_last s (set_ready now ph st reason msg s') = same_last s s'"
  "same_last s (with_status (\<lambda>st. st\<lparr>st_RecentBackups := rb\<rparr>) s') = same_last s s'"
  "same_last s (with_status (\<lambda>st. st\<lparr>st_Statistics := sts\<rparr>) s') = same_last s s'"
  by (simp_all add: same_last_def)

lemma UpdateStatistics_watched:
  "\<exists>w' r. UpdateStatistics (watched h) schedule (w, t) = ((w', t), r)"
  by (simp add: UpdateStatistics_def check_def split: prod.split sum.split)

lemma bookkeeping_watched:
  assumes "sorts_newest h"
  shows "\<exists>w' ds s. bookkeeping_stage (watched h) schedule (w, t) = ((w', t @ delete_calls ds), s) \<and>
     in_phase PhaseCompleted ds \<and> (ds \<noteq> [] \<longrightarrow> ss_Retention (bs_Spec schedule) \<noteq> None) \<and> same_last schedule s"
proof (cases "answers h schedule w")
  case (Pair w1 a)
  show ?thesis
  proof (cases a)
    case (Inl e)
    then show ?thesis using Pair by (intro exI [of _ w1] exI [of _ "[]"]) (simp add: bookkeeping_stage_def)
  next
    case (Inr bs)
    obtain w2 ds r where er: "EnforceRetention (watched h) schedule (w1, t) = ((w2, t @ delete_calls ds), r)"
      and ds: "in_phase PhaseCompleted ds" "ds \<noteq> [] \<longrightarrow> ss_Retention (bs_Spec schedule) \<noteq> None"
      using EnforceRetention_watched [OF assms, of schedule w1 t] by (elim exE conjE)
    have off: "ss_Retention (bs_Spec schedule) = None \<Longrightarrow> w2 = w1 \<and> ds = []"
      using er by (simp add: EnforceRetention_def)
    let ?s1 = "with_status (\<lambda>st. st\<lparr>st_RecentBackups := GetRecentBackupsList (watched h) schedule bs\<rparr>) schedule"
    obtain w3 r3 where us: "UpdateStatistics (watched h) ?s1 (w2, t @ delete_calls ds) = ((w3, t @ delete_calls ds), r3)"
      using UpdateStatistics_watched [of h ?s1 w2 "t @ delete_calls ds"] by (elim exE)
    define s2 where "s2 = (case r3 of Inl e \<Rightarrow> ?s1 | Inr stats \<Rightarrow> with_status (\<lambda>st. st\<lparr>st_Statistics := Some stats\<rparr>) ?s1)"
    have "bookkeeping_stage (watched h) schedule (w, t) = ((w3, t @ delete_calls ds), UpdateLastBackupStatus bs s2)"
      using Pair Inr us er off
      by (cases "ss_Retention (bs_Spec schedule)") (simp_all add: bookkeeping_stage_def Let_def s2_def)
    moreover have "same_last schedule s2"
      by (simp add: s2_def same_last_def lastBackupStart_def split: sum.split)
    ultimately show ?thesis
      using ds by (intro exI [of _ w3] exI [of _ ds] exI [of _ "UpdateLastBackupStatus bs s2"]) simp
  qed
qed

lemma finish_watched:
  "\<exists>w' s e r. finish_stage (watched h) ev schedule (w, t) = ((w', t @ [StatusCall s e]), r) \<and> same_last schedule s"
  by (simp add: finish_stage_def Let_def split: prod.split sum.split)

text \<open>
  The calls of one reconciliation: running backups are cancelled, at most one backup is created,
  completed backups are deleted, and the status is written once, at the end.
\<close>

definition creation ::
  "('w, 'b) schedule_env \<Rightarrow> 'b DatabaseBackupSchedule \<Rightarrow> 'b DatabaseBackupSchedule \<Rightarrow> 'b cluster_call list \<Rightarrow> bool" where
  "creation h schedule s created \<longleftrightarrow>
     (\<exists>w1 now. let b = template_backup h schedule now; err = error_of (snd (se_Create h b w1))
        in created = [CreateCall b err] \<and> (err = None \<longrightarrow> lastBackupStart s \<noteq> None))"

definition reconcile_calls ::
  "('w, 'b) schedule_env \<Rightarrow> 'b DatabaseBackupSchedule \<Rightarrow> 'w \<Rightarrow> 'b cluster_call list \<Rightarrow> bool" where
  "reconcile_calls h schedule w u \<longleftrightarrow>
     (\<exists>cancelled created retired s e.
        u = delete_calls cancelled @ created @ delete_calls retired @ [StatusCall s e] \<and>
        in_phase PhaseRunning cancelled \<and>
        (cancelled \<noteq> [] \<longrightarrow> schedule_due h schedule w \<and> ss_ConcurrencyPolicy (bs_Spec schedule) = ConcurrencyPolicyReplace) \<and>
        (created = [] \<and> (schedule_due h schedule w \<longrightarrow> blocked h schedule) \<or>
           schedule_due h schedule w \<and> \<not> forbids h schedule \<and> creation h schedule s created) \<and>
        in_phase PhaseCompleted retired \<and> (retired \<noteq> [] \<longrightarrow> ss_Retention (bs_Spec schedule) \<noteq> None) \<and>
        (created = [] \<longrightarrow> lastBackupStart s = lastBackupStart schedule))"

lemma reconcile_callsI:
  assumes "u = delete_calls cancelled @ created @ delete_calls retired @ [StatusCall s e]"
    "in_phase PhaseRunning cancelled"
    "cancelled \<noteq> [] \<Longrightarrow> schedule_due h schedule w \<and> ss_ConcurrencyPolicy (bs_Spec schedule) = ConcurrencyPolicyReplace"
    "created = [] \<and> (schedule_due h schedule w \<longrightarrow> blocked h schedule) \<or>
       schedule_due h schedule w \<and> \<not> forbids h schedule \<and> creation h schedule s created"
    "in_phase PhaseCompleted retired" "retired \<noteq> [] \<Longrightarrow> ss_Retention (bs_Spec schedule) \<noteq> None"
    "created = [] \<Longrightarrow> lastBackupStart s = lastBackupStart schedule"
  shows "reconcile_calls h schedule w u"
  unfolding reconcile_calls_def using assms by (intro exI conjI) auto

lemma status_only:
  "lastBackupStart s = lastBackupStart schedule \<Longrightarrow> (schedule_due h schedule w \<Longrightarrow> blocked h schedule) \<Longrightarrow>
     reconcile_calls h schedule w [StatusCall s e]"
  by (rule reconcile_callsI [where cancelled = "[]" and created = "[]" and retired = "[]" and s = s and e = e]) auto

lemma policy_status [simp]:
  "forbids h (with_status f schedule) = forbids h schedule" "blocked h (with_status f schedule) = blocked h schedule"
  by (simp_all add: forbids_def blocked_def)

lemma template_status [simp]: "template_backup h (with_status f schedule) now = template_backup h schedule now"
  by (simp add: template_backup_def backup_labels_def)

lemma finish_calls:
  assumes "sorts_newest h"
  shows "\<exists>w' retired s e r.
     (case bookkeeping_stage (watched h) schedule (w, t) of (w4, schedule4) \<Rightarrow> finish_stage (watched h) ev schedule4 w4) =
       ((w', t @ delete_calls retired @ [StatusCall s e]), r) \<and>
     in_phase PhaseCompleted retired \<and> (retired \<noteq> [] \<longrightarrow> ss_Retention (bs_Spec schedule) \<noteq> None) \<and> same_last schedule s"
proof -
  obtain w1 ds s1 where b: "bookkeeping_stage (watched h) schedule (w, t) = ((w1, t @ delete_calls ds), s1)"
    and ds: "in_phase PhaseCompleted ds" "ds \<noteq> [] \<longrightarrow> ss_Retention (bs_Spec schedule) \<noteq> None" "same_last schedule s1"
    using bookkeeping_watched [OF assms, of schedule w t] by (elim exE conjE)
  obtain w' s e r where f: "finish_stage (watched h) ev s1 (w1, t @ delete_calls ds) = ((w', (t @ delete_calls ds) @ [StatusCall s e]), r)"
    and s: "same_last s1 s"
    using finish_watched [of h ev s1 w1 "t @ delete_calls ds"] by (elim exE conjE)
  show ?thesis using b ds f s by (intro exI [of _ w'] exI [of _ ds] exI [of _ s] exI [of _ e] exI [of _ r]) (simp add: same_last_def)
qed

lemma after_trigger:
  assumes "sorts_newest h" "same_schedule schedule s0" "lastBackupStart s0 = lastBackupStart schedule"
    and "sv_BackupDue ev = schedule_due h schedule w0"
  shows "\<exists>w' created retired s e r.
     (case trigger_stage (watched h) ev s0 (w, t) of
        (w3, Inl r) \<Rightarrow> (w3, r)
      | (w3, Inr s3) \<Rightarrow> (case bookkeeping_stage (watched h) s3 w3 of (w4, s4) \<Rightarrow> finish_stage (watched h) ev s4 w4)) =
       ((w', t @ created @ delete_calls retired @ [StatusCall s e]), r) \<and>
     (created = [] \<and> \<not> schedule_due h schedule w0 \<or>
        schedule_due h schedule w0 \<and> creation h schedule s created) \<and>
     in_phase PhaseCompleted retired \<and> (retired \<noteq> [] \<longrightarrow> ss_Retention (bs_Spec schedule) \<noteq> None) \<and>
     (created = [] \<longrightarrow> lastBackupStart s = lastBackupStart schedule)"
  using trigger_watched [of ev h s0 w t]
proof (elim disjE conjE exE)
  assume "\<not> sv_BackupDue ev" and run: "trigger_stage (watched h) ev s0 (w, t) = ((w, t), Inr s0)"
  obtain w' retired s e r where fin: "(case bookkeeping_stage (watched h) s0 (w, t) of (w4, s4) \<Rightarrow> finish_stage (watched h) ev s4 w4) =
       ((w', t @ delete_calls retired @ [StatusCall s e]), r)" "in_phase PhaseCompleted retired"
       "retired \<noteq> [] \<longrightarrow> ss_Retention (bs_Spec s0) \<noteq> None" "same_last s0 s"
    using finish_calls [OF assms(1), where schedule = s0 and w = w and t = t and ev = ev] by (elim exE conjE)
  then show ?thesis
    using run \<open>\<not> sv_BackupDue ev\<close> assms(2-4)
    by (intro exI [of _ w'] exI [of _ "[]"] exI [of _ retired] exI [of _ s] exI [of _ e] exI [of _ r])
      (simp add: same_last_def same_schedule_def)
next
  fix w1 b wt and sx :: "'b DatabaseBackupSchedule"
  assume cr: "se_Create h (template_backup h s0 (se_Now h w)) w = (w1, Inr b)" and some: "lastBackupStart sx \<noteq> None"
  let ?create = "CreateCall (template_backup h s0 (se_Now h w)) None"
  assume "sv_BackupDue ev" and run: "trigger_stage (watched h) ev s0 (w, t) = ((wt, t @ [?create]), Inr sx)"
    and same: "same_schedule s0 sx"
  obtain w' retired s e r where fin: "(case bookkeeping_stage (watched h) sx (wt, t @ [?create]) of (w4, s4) \<Rightarrow> finish_stage (watched h) ev s4 w4) =
       ((w', (t @ [?create]) @ delete_calls retired @ [StatusCall s e]), r)" "in_phase PhaseCompleted retired"
       "retired \<noteq> [] \<longrightarrow> ss_Retention (bs_Spec sx) \<noteq> None" and last: "same_last sx s"
    using finish_calls [OF assms(1), where schedule = sx and w = wt and t = "t @ [?create]" and ev = ev] by (elim exE conjE)
  moreover have "creation h schedule s [?create]"
    using cr some last unfolding creation_def same_template [OF assms(2)]
    by (intro exI [of _ w] exI [of _ "se_Now h w"]) (simp add: Let_def same_last_def)
  ultimately show ?thesis
    using run same \<open>sv_BackupDue ev\<close> assms(2-4)
    by (intro exI [of _ w'] exI [of _ "[?create]"] exI [of _ retired] exI [of _ s] exI [of _ e] exI [of _ r])
      (auto simp: same_schedule_def)
next
  fix w1 e0 w' s e r
  let ?create = "CreateCall (template_backup h s0 (se_Now h w)) (Some e0)"
  assume "sv_BackupDue ev" and run: "trigger_stage (watched h) ev s0 (w, t) = ((w', t @ [?create, StatusCall s e]), Inl r)"
    and cr: "se_Create h (template_backup h s0 (se_Now h w)) w = (w1, Inl e0)"
  have "creation h schedule s [?create]"
    using cr unfolding creation_def same_template [OF assms(2)]
    by (intro exI [of _ w] exI [of _ "se_Now h w"]) (simp add: Let_def)
  then show ?thesis using run \<open>sv_BackupDue ev\<close> assms(4)
    by (intro exI [of _ w'] exI [of _ "[?create]"] exI [of _ "[]"] exI [of _ s] exI [of _ e] exI [of _ r]) simp
qed

lemma reconcile_calls_watched:
  assumes "sorts_newest h"
  shows "\<exists>w' u r. schedule_reconcile (watched h) schedule (w, t) = ((w', t @ u), r) \<and> reconcile_calls h schedule w u"
proof (cases "ss_Paused (bs_Spec schedule)")
  case True
  obtain w' s e r where "handlePaused (watched h) schedule (w, t) = ((w', t @ [StatusCall s e]), r)"
    and "lastBackupStart s = lastBackupStart schedule"
    using handlePaused_watched [of h schedule w t] by (elim exE conjE)
  moreover have "\<not> schedule_due h schedule w" using True by (simp add: schedule_due_def)
  ultimately show ?thesis
    using True status_only [of s schedule h w e]
    by (intro exI [of _ w'] exI [of _ "[StatusCall s e]"] exI [of _ r]) (simp add: schedule_reconcile_def)
next
  case active: False
  show ?thesis using EvaluateSchedule_watched [OF active, of h w t]
  proof (elim disjE exE conjE)
    fix w1 e assume "EvaluateSchedule (watched h) schedule (w, t) = ((w1, t), Inl e)"
      and why: "schedule_due h schedule w \<longrightarrow> (\<exists>e. answers h schedule w = (w1, Inl e))"
    then have run: "schedule_reconcile (watched h) schedule (w, t) = handleError (watched h) schedule e ''evaluate schedule'' (w1, t)"
      using active by (simp add: schedule_reconcile_def)
    obtain w' s e' where "handleError (watched h) schedule e ''evaluate schedule'' (w1, t) =
        ((w', t @ [StatusCall s e']), requeue_after RequeueAfterError, Some e)" "lastBackupStart s = lastBackupStart schedule"
      using handleError_watched [of h schedule e "''evaluate schedule''" w1 t] by (elim exE conjE)
    moreover have "schedule_due h schedule w \<Longrightarrow> blocked h schedule" using why by (auto simp: blocked_def)
    ultimately show ?thesis using run status_only [of s schedule h w e']
      by (intro exI [of _ w'] exI [of _ "[StatusCall s e']"]) simp
  next
    fix w1 ev bs
    assume eval: "EvaluateSchedule (watched h) schedule (w, t) = ((w1, t), Inr ev)"
      and due: "sv_BackupDue ev = schedule_due h schedule w"
      and bs: "answers h schedule w = (w1, Inr bs)" "sv_RunningBackups ev = length (FilterBackupsByPhase bs PhaseRunning)"
    define s1 where "s1 = with_status (\<lambda>st. st\<lparr>st_NextBackupTime := Some (sv_NextBackupTime ev)\<rparr>) schedule"
    have s1: "same_schedule schedule s1" "lastBackupStart s1 = lastBackupStart schedule" "forbids h s1 = forbids h schedule" "blocked h s1 = blocked h schedule"
      by (simp_all add: s1_def same_schedule_def)
    have idle: "sv_RunningBackups ev = 0 \<Longrightarrow> \<not> forbids h schedule" using bs by (auto simp: forbids_def)
    have stopped: ?thesis
      if "concurrency_stage (watched h) ev s1 (w1, t) = ((w', t @ [StatusCall s e]), Inl r)" "lastBackupStart s = lastBackupStart s1"
        "blocked h s1" for w' s e r
      using that active eval s1 status_only [of s schedule h w e]
      by (intro exI [of _ w'] exI [of _ "[StatusCall s e]"] exI [of _ r]) (simp add: schedule_reconcile_def s1_def)
    show ?thesis using concurrency_watched [of h ev s1 w1 t]
    proof (elim disjE exE conjE, goal_cases)
      case 1
      then show ?thesis by (intro stopped)
    next
      case (2 w2 ds)
      note run = 2(1) and ds = 2(2-4)
      obtain w' created retired s e r where rest:
        "(case trigger_stage (watched h) ev s1 (w2, t @ delete_calls ds) of
            (w3, Inl r) \<Rightarrow> (w3, r)
          | (w3, Inr s3) \<Rightarrow> (case bookkeeping_stage (watched h) s3 w3 of (w4, s4) \<Rightarrow> finish_stage (watched h) ev s4 w4)) =
           ((w', (t @ delete_calls ds) @ created @ delete_calls retired @ [StatusCall s e]), r)"
        and c: "created = [] \<and> \<not> schedule_due h schedule w \<or>
          schedule_due h schedule w \<and> creation h schedule s created"
        and ret: "in_phase PhaseCompleted retired" "retired \<noteq> [] \<longrightarrow> ss_Retention (bs_Spec schedule) \<noteq> None"
          "created = [] \<longrightarrow> lastBackupStart s = lastBackupStart schedule"
        using after_trigger [OF assms s1(1,2) due, of w2 "t @ delete_calls ds"] by (elim exE conjE)
      have "schedule_reconcile (watched h) schedule (w, t) =
          ((w', t @ (delete_calls ds @ created @ delete_calls retired @ [StatusCall s e])), r)"
        using active eval run rest by (simp add: schedule_reconcile_def s1_def)
      moreover have "reconcile_calls h schedule w (delete_calls ds @ created @ delete_calls retired @ [StatusCall s e])"
        by (rule reconcile_callsI [OF refl]) (use ds due c ret idle s1 in \<open>auto simp: same_schedule_def\<close>)
      ultimately show ?thesis by blast
    qed
  qed
qed

section \<open>Reconcile\<close>

definition protected :: "'b DatabaseBackupSchedule \<Rightarrow> bool" where
  "protected s \<longleftrightarrow> hasDeletionProtection s \<and> \<not> HasForceDeleteAnnotation (bs_meta s)"

lemma handleDeletion_watched:
  "\<exists>w' u r. handleDeletion (watched h) schedule (w, t) = ((w', t @ u), r) \<and>
     (u = [] \<or> (\<exists>s e. u = [StatusCall s e] \<and> lastBackupStart s = lastBackupStart schedule) \<or>
      (\<exists>s e. u = [UpdateCall s e] \<and> \<not> protected schedule))"
  by (auto simp: handleDeletion_def protected_def recordf_def Let_def split: prod.split sum.split)

text \<open>The calls of \<^verbatim>\<open>Reconcile\<close>, by what \<^verbatim>\<open>Get\<close> returns.\<close>

definition Reconcile_calls ::
  "('w, 'b) schedule_env \<Rightarrow> 'w \<times> (go_error + 'b DatabaseBackupSchedule) \<Rightarrow> 'b cluster_call list \<Rightarrow> bool" where
  "Reconcile_calls h found u \<longleftrightarrow>
     (case found of
        (w1, Inl e) \<Rightarrow> u = []
      | (w1, Inr s) \<Rightarrow>
          if ShouldSkipReconcile (bs_meta s) then u = []
          else if IsMarkedForDeletion (bs_meta s) then
            u = [] \<or> (\<exists>s' e. u = [StatusCall s' e] \<and> lastBackupStart s' = lastBackupStart s) \<or> (\<exists>s' e. u = [UpdateCall s' e] \<and> \<not> protected s)
          else if rt_ContainsFinalizer (se_runtime h) (bs_meta s) FinalizerDatabaseBackupSchedule then reconcile_calls h s w1 u
          else
            (let s1 = s\<lparr>bs_meta := rt_AddFinalizer (se_runtime h) (bs_meta s) FinalizerDatabaseBackupSchedule\<rparr>
             in case cl_Update (se_client h) s1 w1 of
                  (w2, Inl e) \<Rightarrow> u = [UpdateCall s1 (Some e)]
                | (w2, Inr s2) \<Rightarrow> \<exists>v. u = UpdateCall s1 None # v \<and> reconcile_calls h s2 w2 v))"

lemma Reconcile_watched:
  assumes "sorts_newest h"
  shows "\<exists>w' u r. schedule_Reconcile (watched h) ns n (w, t) = ((w', t @ u), r) \<and> Reconcile_calls h (cl_Get (se_client h) ns n w) u"
proof -
  obtain w1 a where got: "cl_Get (se_client h) ns n w = (w1, a)" by force
  show ?thesis
  proof (cases a)
    case (Inl e)
    then show ?thesis using got by (simp add: schedule_Reconcile_def Reconcile_calls_def)
  next
    case (Inr s)
    let ?has = "rt_ContainsFinalizer (se_runtime h) (bs_meta s) FinalizerDatabaseBackupSchedule"
    let ?s1 = "s\<lparr>bs_meta := rt_AddFinalizer (se_runtime h) (bs_meta s) FinalizerDatabaseBackupSchedule\<rparr>"
    consider (skip) "ShouldSkipReconcile (bs_meta s)"
      | (deleted) "\<not> ShouldSkipReconcile (bs_meta s)" "IsMarkedForDeletion (bs_meta s)"
      | (ready) "\<not> ShouldSkipReconcile (bs_meta s)" "\<not> IsMarkedForDeletion (bs_meta s)" ?has
      | (fresh) "\<not> ShouldSkipReconcile (bs_meta s)" "\<not> IsMarkedForDeletion (bs_meta s)" "\<not> ?has"
      by blast
    then show ?thesis
    proof cases
      case skip
      then show ?thesis using got Inr by (simp add: schedule_Reconcile_def Reconcile_calls_def)
    next
      case deleted
      then show ?thesis using got Inr handleDeletion_watched [of h s w1 t] by (simp add: schedule_Reconcile_def Reconcile_calls_def)
    next
      case ready
      then show ?thesis using got Inr reconcile_calls_watched [OF assms, of s w1 t]
        by (simp add: schedule_Reconcile_def Reconcile_calls_def)
    next
      case fresh
      obtain w2 b where upd: "cl_Update (se_client h) ?s1 w1 = (w2, b)" by force
      show ?thesis
      proof (cases b)
        case (Inr s2)
        obtain w' u r where "schedule_reconcile (watched h) s2 (w2, t @ [UpdateCall ?s1 None]) = ((w', (t @ [UpdateCall ?s1 None]) @ u), r)"
          and "reconcile_calls h s2 w2 u"
          using reconcile_calls_watched [OF assms, of s2 w2 "t @ [UpdateCall ?s1 None]"] by (elim exE conjE)
        then show ?thesis using got \<open>a = Inr s\<close> fresh upd Inr
          by (intro exI [of _ w'] exI [of _ "UpdateCall ?s1 None # u"] exI [of _ r])
            (simp add: schedule_Reconcile_def Reconcile_calls_def)
      qed (use got Inr fresh upd in \<open>simp add: schedule_Reconcile_def Reconcile_calls_def\<close>)
    qed
  qed
qed



section \<open>A schedule that never starts\<close>

text \<open>
  The histories of one schedule: reconciliations, between which anything may happen to the world, while
  \<^verbatim>\<open>Get\<close> returns the start time of the last status that was written. \<open>update_keeps_status\<close> is the
  rule of the status subresource.
\<close>

fun written_start :: "'b cluster_call list \<Rightarrow> int option" where
  "written_start [] = None"
| "written_start (StatusCall s None # cs) = (if list_ex (\<lambda>c. case c of StatusCall _ None \<Rightarrow> True | _ \<Rightarrow> False) cs then written_start cs else lastBackupStart s)"
| "written_start (_ # cs) = written_start cs"

definition update_keeps_status :: "('w, 'b) schedule_env \<Rightarrow> bool" where
  "update_keeps_status h \<longleftrightarrow>
     (\<forall>s w w' s'. cl_Update (se_client h) s w = (w', Inr s') \<longrightarrow> lastBackupStart s' = lastBackupStart s)"

inductive schedule_history :: "('w, 'b) schedule_env \<Rightarrow> string \<Rightarrow> string \<Rightarrow> 'w \<times> 'b cluster_call list \<Rightarrow> bool"
  for h ns n where
  start: "schedule_history h ns n (w, [])"
| reconcile:
    "schedule_history h ns n (w, t) \<Longrightarrow>
     (\<And>w1 s. cl_Get (se_client h) ns n w = (w1, Inr s) \<Longrightarrow> lastBackupStart s = written_start t) \<Longrightarrow>
     schedule_history h ns n (fst (schedule_Reconcile (watched h) ns n (w, t)))"
| outside: "schedule_history h ns n (w, t) \<Longrightarrow> schedule_history h ns n (w', t)"

definition idle_call :: "'b cluster_call \<Rightarrow> bool" where
  "idle_call c = (case c of CreateCall _ _ \<Rightarrow> False | StatusCall s _ \<Rightarrow> lastBackupStart s = None | _ \<Rightarrow> True)"

lemma idle_start: "list_all idle_call t \<Longrightarrow> written_start t = None"
  by (induction t rule: written_start.induct) (auto simp: idle_call_def)

lemma idle_calls:
  assumes "reconcile_calls h s w u" "lastBackupStart s = None"
  shows "list_all idle_call u"
proof -
  have "\<not> schedule_due h s w" using assms(2) by (simp add: schedule_due_def)
  moreover have "list_all idle_call (delete_calls ds)" for ds :: "('b DatabaseBackup \<times> go_error option) list"
    by (auto simp: list_all_iff idle_call_def)
  ultimately show ?thesis
    using assms unfolding reconcile_calls_def by (elim exE conjE disjE) (simp_all add: idle_call_def)
qed

lemma idle_Reconcile:
  assumes "sorts_newest h" "update_keeps_status h"
    and read: "\<And>w1 s. cl_Get (se_client h) ns n w = (w1, Inr s) \<Longrightarrow> lastBackupStart s = None"
  shows "\<exists>u. snd (fst (schedule_Reconcile (watched h) ns n (w, t))) = t @ u \<and> list_all idle_call u"
proof -
  obtain w' u r where run: "schedule_Reconcile (watched h) ns n (w, t) = ((w', t @ u), r)"
    and u: "Reconcile_calls h (cl_Get (se_client h) ns n w) u"
    using Reconcile_watched [OF assms(1)] by blast
  obtain w1 a where got: "cl_Get (se_client h) ns n w = (w1, a)" by force
  have "list_all idle_call u"
  proof (cases a)
    case (Inr s)
    then have "lastBackupStart s = None" using read got by simp
    moreover have "lastBackupStart (s\<lparr>bs_meta := m\<rparr>) = lastBackupStart s" for m by (simp add: lastBackupStart_def)
    ultimately show ?thesis
      using u got Inr assms(2) idle_calls [of h s w1 u] unfolding Reconcile_calls_def update_keeps_status_def Let_def
      by (fastforce split: if_splits prod.splits sum.splits simp: idle_call_def dest: idle_calls)
  qed (use u got in \<open>simp add: Reconcile_calls_def\<close>)
  then show ?thesis using run by simp
qed

text \<open>
  C29: a schedule never starts by itself. From an empty status, whatever happens to the cluster and
  whatever the clock says, no reconciliation ever creates a backup: a backup is due only after the start
  of a last backup, and only a created backup is recorded as the last one.
\<close>

theorem new_schedule_never_runs:
  assumes "schedule_history h ns n wt" "sorts_newest h" "update_keeps_status h"
  shows "CreateCall b e \<notin> set (snd wt) \<and> written_start (snd wt) = None"
proof -
  have "list_all idle_call (snd wt)"
    using assms(1)
  proof (induction rule: schedule_history.induct)
    case (reconcile w t)
    then have "\<exists>u. snd (fst (schedule_Reconcile (watched h) ns n (w, t))) = t @ u \<and> list_all idle_call u"
      using idle_start by (intro idle_Reconcile assms(2,3)) auto
    with reconcile.IH show ?case by auto
  qed simp_all
  then show ?thesis using idle_start by (fastforce simp: list_all_iff idle_call_def)
qed

section \<open>The list of recent backups\<close>

definition recent_info :: "'b DatabaseBackup \<Rightarrow> RecentBackupInfo" where
  "recent_info b = \<lparr>rbi_Name = bk_Name b, rbi_Status = bk_Phase b\<rparr>"

definition with_Status :: "Phase \<Rightarrow> RecentBackupInfo list \<Rightarrow> RecentBackupInfo list" where
  "with_Status phase rs = filter (\<lambda>r. rbi_Status r = phase) rs"

lemma recent_counted:
  assumes "0 \<le> sc" "sc \<le> sm" "sm < 2 ^ 31" "0 \<le> fc" "fc \<le> fm" "fm < 2 ^ 31"
  shows "with_Status PhaseCompleted (recent_backups sm fm sc fc bs) = map recent_info (take (nat (sm - sc)) (FilterBackupsByPhase bs PhaseCompleted)) \<and>
    with_Status PhaseFailed (recent_backups sm fm sc fc bs) = map recent_info (take (nat (fm - fc)) (FilterBackupsByPhase bs PhaseFailed)) \<and>
    with_Status PhaseRunning (recent_backups sm fm sc fc bs) = map recent_info (FilterBackupsByPhase bs PhaseRunning) \<and>
    with_Status PhasePending (recent_backups sm fm sc fc bs) = map recent_info (FilterBackupsByPhase bs PhasePending) \<and>
    subseq (recent_backups sm fm sc fc bs) (map recent_info bs)"
  using assms
proof (induction bs arbitrary: sc fc)
  case (Cons b bs)
  have up: "sc < sm \<Longrightarrow> wrap32 (sc + 1) = sc + 1" "fc < fm \<Longrightarrow> wrap32 (fc + 1) = fc + 1"
    using Cons.prems by (auto intro!: wrap32_id)
  have step: "sc < sm \<Longrightarrow> nat (sm - sc) = Suc (nat (sm - (sc + 1)))" "fc < fm \<Longrightarrow> nat (fm - fc) = Suc (nat (fm - (fc + 1)))"
    using Cons.prems by auto
  note facts = up step with_Status_def FilterBackupsByPhase_def recent_info_def Let_def phases list_emb_Cons
  consider (success) "bk_Phase b = PhaseCompleted" | (failed) "bk_Phase b = PhaseFailed"
    | (other) "bk_Phase b \<noteq> PhaseCompleted" "bk_Phase b \<noteq> PhaseFailed" by blast
  then show ?case
  proof cases
    case success
    then show ?thesis
      using Cons.IH [of sc fc] Cons.IH [of "sc + 1" fc] Cons.prems by (cases "sc < sm") (simp_all add: facts)
  next
    case failed
    then show ?thesis
      using Cons.IH [of sc fc] Cons.IH [of sc "fc + 1"] Cons.prems by (cases "fc < fm") (simp_all add: facts)
  next
    case other
    then show ?thesis using Cons.IH [of sc fc] Cons.prems by (simp add: facts)
  qed
qed (simp_all add: with_Status_def FilterBackupsByPhase_def)

text \<open>
  The list of recent backups. With limits in their range, it shows the newest completed backups up to
  the limit (5 when it is 0), the newest failed ones up to theirs (3 when it is 0), every running and pending
  backup, and all of them newest first.
\<close>

theorem recent_backups_exact:
  fixes h :: "('w, 'b) schedule_env" and backups :: "'b DatabaseBackup list"
  assumes "sorts_newest h" and limits: "0 \<le> ss_SuccessfulBackupsHistoryLimit (bs_Spec schedule)"
    "ss_SuccessfulBackupsHistoryLimit (bs_Spec schedule) < 2 ^ 31" "0 \<le> ss_FailedBackupsHistoryLimit (bs_Spec schedule)"
    "ss_FailedBackupsHistoryLimit (bs_Spec schedule) < 2 ^ 31"
  defines "ordered \<equiv> GetBackupsSortedByTime h backups"
    and "rs \<equiv> GetRecentBackupsList h schedule backups"
    and "limit \<equiv> \<lambda>configured default. if configured = 0 then default else nat configured"
  shows "with_Status PhaseCompleted rs = map recent_info (take (limit (ss_SuccessfulBackupsHistoryLimit (bs_Spec schedule)) 5) (FilterBackupsByPhase ordered PhaseCompleted)) \<and>
    with_Status PhaseFailed rs = map recent_info (take (limit (ss_FailedBackupsHistoryLimit (bs_Spec schedule)) 3) (FilterBackupsByPhase ordered PhaseFailed)) \<and>
    with_Status PhaseRunning rs = map recent_info (FilterBackupsByPhase ordered PhaseRunning) \<and>
    with_Status PhasePending rs = map recent_info (FilterBackupsByPhase ordered PhasePending) \<and>
    subseq rs (map recent_info ordered) \<and> sorted_wrt (\<lambda>a b. bk_created a \<ge> bk_created b) ordered \<and> mset ordered = mset backups"
proof -
  let ?sm = "if ss_SuccessfulBackupsHistoryLimit (bs_Spec schedule) = 0 then 5 else ss_SuccessfulBackupsHistoryLimit (bs_Spec schedule)"
  let ?fm = "if ss_FailedBackupsHistoryLimit (bs_Spec schedule) = 0 then 3 else ss_FailedBackupsHistoryLimit (bs_Spec schedule)"
  have rs: "rs = recent_backups ?sm ?fm 0 0 ordered" by (simp add: rs_def GetRecentBackupsList_def ordered_def Let_def)
  have range: "0 \<le> ?sm" "?sm < 2 ^ 31" "0 \<le> ?fm" "?fm < 2 ^ 31" using limits by auto
  have order: "sorted_wrt (\<lambda>a b. bk_created a \<ge> bk_created b) ordered \<and> mset ordered = mset backups"
    using assms(1) by (simp add: ordered_def GetBackupsSortedByTime_def sorts_newest_def newer_def not_less)
  have "nat ?sm = limit (ss_SuccessfulBackupsHistoryLimit (bs_Spec schedule)) 5"
    "nat ?fm = limit (ss_FailedBackupsHistoryLimit (bs_Spec schedule)) 3"
    by (simp_all add: limit_def)
  then show ?thesis
    using order recent_counted [of 0 ?sm 0 ?fm ordered, OF _ range(1,2) _ range(3,4)] by (simp add: rs)
qed

section \<open>A cluster in memory\<close>

record backup_cluster =
  bc_now :: int
  bc_backups :: "string DatabaseBackup list"
  bc_schedule :: "string DatabaseBackupSchedule"

definition mem_runtime :: "backup_cluster runtime" where
  "mem_runtime =
     \<lparr>rt_Now = bc_now, rt_IsNotFound = (\<lambda>e. e = ErrNotFound), rt_Record = (\<lambda>_ w. w),
      rt_ContainsFinalizer = (\<lambda>m f. f \<in> set (om_finalizers m)),
      rt_AddFinalizer = (\<lambda>m f. m\<lparr>om_finalizers := om_finalizers m @ [f]\<rparr>),
      rt_RemoveFinalizer = (\<lambda>m f. m\<lparr>om_finalizers := filter (\<lambda>g. g \<noteq> f) (om_finalizers m)\<rparr>)\<rparr>"

definition mem_schedule :: "(backup_cluster, string) schedule_env" where
  "mem_schedule =
     \<lparr>se_runtime = mem_runtime,
      se_client =
        \<lparr>cl_Get = (\<lambda>ns n w. (w, Inr (bc_schedule w))),
         cl_Update = (\<lambda>s w. (w\<lparr>bc_schedule := s\<rparr>, Inr s)),
         cl_Status_Update = (\<lambda>s w. (w\<lparr>bc_schedule := s\<rparr>, Inr s))\<rparr>,
      se_List = (\<lambda>ns l w. (w, Inr (bc_backups w))),
      se_Create = (\<lambda>b w. let b' = b\<lparr>bk_meta := (bk_meta b)\<lparr>om_creationTimestamp := bc_now w\<rparr>\<rparr>
                          in (w\<lparr>bc_backups := bc_backups w @ [b']\<rparr>, Inr b')),
      se_Delete = (\<lambda>b w. if bk_Name b \<in> set (map bk_Name (bc_backups w))
                          then (w\<lparr>bc_backups := filter (\<lambda>x. bk_Name x \<noteq> bk_Name b) (bc_backups w)\<rparr>, Inr ())
                          else (w, Inl ErrNotFound)),
      se_PublishAsync = None,
      se_LoadLocation = Inr,
      se_Parse = (\<lambda>_. Inr (\<lambda>loc t. t + Hour)),
      se_AddDays = (\<lambda>t d. t + d * (24 * Hour)),
      se_Format = FormatInt,
      se_Seconds = (\<lambda>d. d div Second),
      se_Slice = (\<lambda>less. sort_key (\<lambda>b. - bk_created b)),
      se_DatabaseRef = id\<rparr>"

lemma mem_sorts_newest: "sorts_newest mem_schedule"
proof -
  have "sorted_wrt (\<lambda>a b. \<not> newer b a) (sort_key (\<lambda>b. - bk_created b) xs)" for xs :: "string DatabaseBackup list"
    using sorted_sort_key [of "\<lambda>b. - bk_created b" xs] by (simp add: sorted_map newer_def not_less)
  then show ?thesis by (simp add: sorts_newest_def mem_schedule_def)
qed

definition meta_x :: "string \<Rightarrow> int \<Rightarrow> object_meta" where
  "meta_x name created =
     \<lparr>om_name = name, om_namespace = ''prod'', om_uid = ''u1'', om_labels = None, om_annotations = None, om_ownerReferences = [],
      om_creationTimestamp = created, om_deletionTimestamp = None, om_finalizers = [FinalizerDatabaseBackupSchedule]\<rparr>"

definition backup_x :: "string \<Rightarrow> Phase \<Rightarrow> int \<Rightarrow> string DatabaseBackup" where
  "backup_x name phase created =
     \<lparr>bk_APIVersion = '''', bk_Kind = '''', bk_meta = meta_x name created, bk_Spec = ''orders'', bk_Phase = phase,
      bk_StartedAt = None, bk_CompletedAt = None, bk_Backup = None\<rparr>"

definition policy_x :: RetentionPolicy where
  "policy_x = \<lparr>rp_KeepLast = 1, rp_KeepHourly = 0, rp_KeepDaily = 0, rp_KeepWeekly = 0, rp_KeepMonthly = 0, rp_KeepYearly = 0, rp_MinAge = ''''\<rparr>"

definition schedule_x :: "int option \<Rightarrow> string DatabaseBackupSchedule" where
  "schedule_x start =
     \<lparr>bs_APIVersion = '''', bs_Kind = '''', bs_meta = meta_x ''nightly'' 0,
      bs_Spec =
        \<lparr>ss_Schedule = ''0 * * * *'', ss_Timezone = ''UTC'', ss_Paused = False, ss_ConcurrencyPolicy = ConcurrencyPolicyReplace,
         ss_Template = \<lparr>bt_Metadata = \<lparr>btm_Labels = [], btm_Annotations = []\<rparr>, bt_Spec = ''orders''\<rparr>,
         ss_Retention = Some policy_x, ss_SuccessfulBackupsHistoryLimit = 1, ss_FailedBackupsHistoryLimit = 0, ss_DeletionProtection = True\<rparr>,
      bs_Status =
        \<lparr>st_Phase = PhaseActive,
         st_LastBackup = map_option (\<lambda>t. \<lparr>sbi_Name = ''b0'', sbi_Status = PhaseCompleted, sbi_StartedAt = Some t, sbi_CompletedAt = None\<rparr>) start,
         st_NextBackupTime = None, st_Statistics = None, st_RecentBackups = [], st_Conditions = []\<rparr>\<rparr>"

definition backups_x :: "string DatabaseBackup list" where
  "backups_x = [backup_x ''b0'' PhaseCompleted 1, backup_x ''b1'' PhaseCompleted 3, backup_x ''b2'' PhaseFailed 2]"

definition cluster_x :: "int option \<Rightarrow> backup_cluster" where
  "cluster_x start = \<lparr>bc_now = 2 * Hour, bc_backups = backups_x, bc_schedule = schedule_x start\<rparr>"

lemma names_x: "distinct (map bk_Name backups_x)" "length backups_x < 2 ^ 31" "completed backups_x = {backup_x ''b0'' PhaseCompleted 1, backup_x ''b1'' PhaseCompleted 3}"
  by (auto simp: backups_x_def backup_x_def meta_x_def completed_def phases)




theorem new_schedule_never_runs_witness:
  "\<exists>w t. schedule_history mem_schedule ''prod'' ''nightly'' (w, t) \<and> t \<noteq> [] \<and> CreateCall (backup_x ''b9'' [] 0) None \<notin> set t"
proof -
  let ?run = "schedule_Reconcile (watched mem_schedule) ''prod'' ''nightly'' (cluster_x None, [])"
  have upd: "update_keeps_status mem_schedule" by (simp add: update_keeps_status_def mem_schedule_def)
  have hist: "schedule_history mem_schedule ''prod'' ''nightly'' (fst ?run)"
    by (rule schedule_history.reconcile [OF schedule_history.start])
      (simp add: mem_schedule_def cluster_x_def schedule_x_def lastBackupStart_def)
  obtain w' u r where run: "?run = ((w', [] @ u), r)" and u: "Reconcile_calls mem_schedule (cl_Get (se_client mem_schedule) ''prod'' ''nightly'' (cluster_x None)) u"
    using Reconcile_watched [OF mem_sorts_newest, of "''prod''" "''nightly''" "cluster_x None" "[]"] by (elim exE conjE)
  have "u \<noteq> []"
    using u by (auto simp: Reconcile_calls_def mem_schedule_def cluster_x_def schedule_x_def meta_x_def ShouldSkipReconcile_def
        IsMarkedForDeletion_def mem_runtime_def reconcile_calls_def)
  then show ?thesis
    using new_schedule_never_runs [OF hist mem_sorts_newest upd, of "backup_x ''b9'' [] 0" None] hist run
    by (intro exI [of _ w'] exI [of _ u]) simp
qed

theorem recent_backups_exact_witness:
  "sorts_newest mem_schedule \<and>
   with_Status PhaseCompleted (GetRecentBackupsList mem_schedule (schedule_x None) backups_x) =
     map recent_info (take 1 (FilterBackupsByPhase (GetBackupsSortedByTime mem_schedule backups_x) PhaseCompleted))"
  using recent_backups_exact [OF mem_sorts_newest, of "schedule_x None" backups_x] mem_sorts_newest
  by (simp add: schedule_x_def)

end
