(* ===== verification/Secret_Manager.thy ===== *)
theory Secret_Manager
  imports K8s_Client
begin

text \<open>
  Secrets: \<^verbatim>\<open>internal/secret/manager.go\<close> with the types it reads from
  \<^verbatim>\<open>api/v1alpha1/common_types.go\<close>. The client is the record \<open>secret_env\<close>; the cryptographic
  random source is \<open>sk_Int\<close>, which draws a number below its argument or fails, and the template engine is
  \<open>sk_Render\<close>. Bytes are characters.
\<close>

section \<open>Types\<close>

record Secret =
  sec_meta :: object_meta
  sec_Type :: string
  sec_Data :: "string go_map"
  sec_StringData :: "string go_map"

record SecretTemplate =
  stm_Type :: string
  stm_Labels :: "string go_map"
  stm_Annotations :: "string go_map"
  stm_Data :: "string go_map"

record PasswordConfig =
  pwc_Length :: int
  pwc_IncludeSpecialChars :: bool
  pwc_ExcludeChars :: string
  pwc_SecretName :: string
  pwc_SecretTemplate :: "SecretTemplate option"

record ExistingPasswordSecret =
  eps_Name :: string
  eps_Namespace :: string
  eps_Key :: string

record ConfigMapKeySelector =
  cks_Name :: string
  cks_Namespace :: string
  cks_Key :: string

record Credentials =
  cr_Username :: string
  cr_Password :: string

record TLSCredentials =
  tc_CA :: string
  tc_Cert :: string
  tc_Key :: string

record OwnerInfo =
  oi_APIVersion :: string
  oi_Kind :: string
  oi_Name :: string
  oi_UID :: string

record TemplateData =
  td_Username :: string
  td_Password :: string
  td_Host :: string
  td_Port :: int
  td_Database :: string
  td_SSLMode :: string
  td_Namespace :: string
  td_Name :: string
  td_CA :: string
  td_TLSCert :: string
  td_TLSKey :: string

record 'w secret_env =
  sk_Get :: "string \<Rightarrow> string \<Rightarrow> ('w, Secret) op"
  sk_Create :: "Secret \<Rightarrow> ('w, Secret) op"
  sk_Update :: "Secret \<Rightarrow> ('w, Secret) op"
  sk_Delete :: "Secret \<Rightarrow> ('w, unit) op"
  sk_GetConfigMap :: "string \<Rightarrow> string \<Rightarrow> ('w, string go_map) op"
  sk_IsNotFound :: "go_error \<Rightarrow> bool"
  sk_Int :: "nat \<Rightarrow> ('w, nat) op"
  sk_Render :: "string \<Rightarrow> string \<Rightarrow> TemplateData \<Rightarrow> go_error + string"

text \<open>\<^verbatim>\<open>%q\<close> of a string; bytes of longer runes are printed as they are.\<close>

definition quote_char :: "char \<Rightarrow> string" where
  "quote_char c =
     (let n = of_char c :: nat
      in if n = 0x22 \<or> n = 0x5C then [CHR 0x5C, c]
         else if n = 7 then [CHR 0x5C, CHR ''a''] else if n = 8 then [CHR 0x5C, CHR ''b'']
         else if n = 9 then [CHR 0x5C, CHR ''t''] else if n = 10 then [CHR 0x5C, CHR ''n'']
         else if n = 11 then [CHR 0x5C, CHR ''v''] else if n = 12 then [CHR 0x5C, CHR ''f'']
         else if n = 13 then [CHR 0x5C, CHR ''r'']
         else if n < 0x20 \<or> n = 0x7F then [CHR 0x5C, CHR ''x''] @ hex_byte n
         else [c])"

definition fmt_q :: "string \<Rightarrow> string" where
  "fmt_q s = [CHR 0x22] @ concat (map quote_char s) @ [CHR 0x22]"

section \<open>Reading\<close>

definition or_default :: "string \<Rightarrow> string \<Rightarrow> string" where
  "or_default s d = (if s \<noteq> '''' then s else d)"

definition missing_key :: "string \<Rightarrow> string \<Rightarrow> go_error" where
  "missing_key name key = OtherError (''secret '' @ name @ '' does not contain key '' @ key) None"

definition GetCredentials :: "'w secret_env \<Rightarrow> string \<Rightarrow> CredentialSecretRef option \<Rightarrow> ('w, Credentials) op" where
  "GetCredentials m namespace ref =
     (case ref of
        None \<Rightarrow> fail (OtherError ''credential reference is nil'' None)
      | Some r \<Rightarrow>
          check (sk_Get m (or_default (csr_Namespace r) namespace) (csr_Name r)) as_is (\<lambda>secret.
            let usernameKey = (case csr_Keys r of None \<Rightarrow> ''username'' | Some k \<Rightarrow> or_default (ck_Username k) ''username'');
                passwordKey = (case csr_Keys r of None \<Rightarrow> ''password'' | Some k \<Rightarrow> or_default (ck_Password k) ''password'')
            in case map_of (sec_Data secret) usernameKey of
                 None \<Rightarrow> fail (missing_key (csr_Name r) usernameKey)
               | Some username \<Rightarrow>
                   (case map_of (sec_Data secret) passwordKey of
                      None \<Rightarrow> fail (missing_key (csr_Name r) passwordKey)
                    | Some password \<Rightarrow> ret \<lparr>cr_Username = username, cr_Password = password\<rparr>)))"

definition data_or_empty :: "Secret \<Rightarrow> string \<Rightarrow> string" where
  "data_or_empty secret key = (case map_of (sec_Data secret) key of None \<Rightarrow> '''' | Some v \<Rightarrow> v)"

definition GetTLSCredentials :: "'w secret_env \<Rightarrow> string \<Rightarrow> TLSConfig option \<Rightarrow> ('w, TLSCredentials option) op" where
  "GetTLSCredentials m namespace tlsConfig =
     (case tlsConfig of
        None \<Rightarrow> ret None
      | Some cfg \<Rightarrow>
          if \<not> tls_Enabled cfg then ret None
          else case tls_SecretRef cfg of
            None \<Rightarrow> ret None
          | Some ref \<Rightarrow>
              check (sk_Get m namespace (tsr_Name ref)) (\<lambda>e w. Errorf_w ''failed to get TLS secret: '' e) (\<lambda>secret.
                let key = (\<lambda>sel d. case tsr_Keys ref of None \<Rightarrow> d | Some k \<Rightarrow> or_default (sel k) d)
                in ret (Some \<lparr>tc_CA = data_or_empty secret (key tk_CA ''ca.crt''),
                              tc_Cert = data_or_empty secret (key tk_Cert ''tls.crt''),
                              tc_Key = data_or_empty secret (key tk_Key ''tls.key'')\<rparr>)))"

definition getSecretData :: "'w secret_env \<Rightarrow> string \<Rightarrow> string \<Rightarrow> string \<Rightarrow> ('w, string) op" where
  "getSecretData m namespace secretName key =
     check (sk_Get m namespace secretName) as_is (\<lambda>secret.
       case map_of (sec_Data secret) key of None \<Rightarrow> fail (missing_key secretName key) | Some data \<Rightarrow> ret data)"

definition GetConfigMapData :: "'w secret_env \<Rightarrow> string \<Rightarrow> string \<Rightarrow> ('w, string go_map) op" where
  "GetConfigMapData m name namespace =
     check (sk_GetConfigMap m namespace name) (\<lambda>e w. Errorf_w (''get configmap '' @ namespace @ ''/'' @ name @ '': '') e) ret"

definition GetKeyFromConfigMap :: "'w secret_env \<Rightarrow> string \<Rightarrow> ConfigMapKeySelector \<Rightarrow> ('w, string) op" where
  "GetKeyFromConfigMap m namespace ref =
     (let ns = or_default (cks_Namespace ref) namespace
      in check (GetConfigMapData m (cks_Name ref) ns) as_is (\<lambda>data.
           case map_of data (cks_Key ref) of
             None \<Rightarrow> fail (OtherError (''configmap '' @ ns @ ''/'' @ cks_Name ref @ '' does not contain key '' @ fmt_q (cks_Key ref)) None)
           | Some content \<Rightarrow> ret content))"

definition GetSecretData :: "'w secret_env \<Rightarrow> string \<Rightarrow> string \<Rightarrow> ('w, string go_map) op" where
  "GetSecretData m secretName namespace =
     check (sk_Get m namespace secretName) as_is (\<lambda>secret. ret (map_puts (sec_Data secret)))"

definition GetPassword :: "'w secret_env \<Rightarrow> string \<Rightarrow> ExistingPasswordSecret option \<Rightarrow> ('w, string) op" where
  "GetPassword m namespace secretRef =
     (case secretRef of
        None \<Rightarrow> fail (OtherError ''password secret reference is nil'' None)
      | Some r \<Rightarrow> getSecretData m (or_default (eps_Namespace r) namespace) (eps_Name r) (eps_Key r))"

section \<open>Passwords\<close>

definition alphanumerics :: string where
  "alphanumerics = ''abcdefghijklmnopqrstuvwxyzABCDEFGHIJKLMNOPQRSTUVWXYZ0123456789''"

definition specials :: string where
  "specials = ''!@#$%^&*''"

text \<open>
  Excluded characters are compared as runes with characters of the ASCII alphabet; a byte of a longer
  rune is above 127 and equals none of them.
\<close>

definition password_charset :: "PasswordConfig option \<Rightarrow> string" where
  "password_charset opts =
     (let includeSpecial = (case opts of None \<Rightarrow> True | Some o' \<Rightarrow> pwc_IncludeSpecialChars o');
          excludeChars = (case opts of None \<Rightarrow> '''' | Some o' \<Rightarrow> pwc_ExcludeChars o');
          charset = alphanumerics @ (if includeSpecial then specials else '''');
          charset = (if excludeChars \<noteq> '''' then filter (\<lambda>c. \<not> list_ex (\<lambda>e. c = e) excludeChars) charset else charset)
      in if charset = '''' then alphanumerics else charset)"

definition password_length :: "PasswordConfig option \<Rightarrow> nat" where
  "password_length opts =
     (case opts of None \<Rightarrow> 32 | Some o' \<Rightarrow> if pwc_Length o' > 0 then nat (pwc_Length o') else 32)"

fun random_chars :: "'w secret_env \<Rightarrow> string \<Rightarrow> nat \<Rightarrow> ('w, string) op" where
  "random_chars m charset 0 w = ret '''' w"
| "random_chars m charset (Suc n) w =
     check (sk_Int m (length charset)) (\<lambda>e w. Errorf_w ''failed to generate random number: '' e) (\<lambda>idx.
       check (random_chars m charset n) as_is (\<lambda>rest. ret ((charset ! idx) # rest))) w"

definition GeneratePassword :: "'w secret_env \<Rightarrow> PasswordConfig option \<Rightarrow> ('w, string) op" where
  "GeneratePassword m opts = random_chars m (password_charset opts) (password_length opts)"

section \<open>Writing\<close>

definition opaque_secret :: "string \<Rightarrow> string \<Rightarrow> string go_map \<Rightarrow> OwnerReference list \<Rightarrow> Secret" where
  "opaque_secret namespace name data owners =
     \<lparr>sec_meta =
        \<lparr>om_name = name, om_namespace = namespace, om_uid = '''', om_labels = None, om_annotations = None,
         om_ownerReferences = owners, om_creationTimestamp = 0, om_deletionTimestamp = None, om_finalizers = []\<rparr>,
      sec_Type = ''Opaque'', sec_Data = data, sec_StringData = []\<rparr>"

definition CreateSecret :: "'w secret_env \<Rightarrow> string \<Rightarrow> string \<Rightarrow> string go_map \<Rightarrow> OwnerInfo option \<Rightarrow> ('w, unit) op" where
  "CreateSecret m namespace name data owner =
     check (sk_Create m (opaque_secret namespace name data
              (case owner of
                 None \<Rightarrow> []
               | Some ow \<Rightarrow> [\<lparr>or_APIVersion = oi_APIVersion ow, or_Kind = oi_Kind ow, or_Name = oi_Name ow,
                              or_UID = oi_UID ow, or_Controller = Some True, or_BlockOwnerDeletion = None\<rparr>])))
       as_is (\<lambda>_. ret ())"

definition UpdateSecret :: "'w secret_env \<Rightarrow> string \<Rightarrow> string \<Rightarrow> string go_map \<Rightarrow> ('w, unit) op" where
  "UpdateSecret m namespace name data =
     check (sk_Get m namespace name) as_is (\<lambda>secret.
       check (sk_Update m (secret\<lparr>sec_Data := data\<rparr>)) as_is (\<lambda>_. ret ()))"

definition EnsureSecret :: "'w secret_env \<Rightarrow> string \<Rightarrow> string \<Rightarrow> string go_map \<Rightarrow> OwnerInfo option \<Rightarrow> ('w, unit) op" where
  "EnsureSecret m namespace name data owner w =
     (case sk_Get m namespace name w of
        (w', Inl e) \<Rightarrow> if sk_IsNotFound m e then CreateSecret m namespace name data owner w' else fail e w'
      | (w', Inr secret) \<Rightarrow> check (sk_Update m (secret\<lparr>sec_Data := data\<rparr>)) as_is (\<lambda>_. ret ()) w')"

definition DeleteSecret :: "'w secret_env \<Rightarrow> string \<Rightarrow> string \<Rightarrow> ('w, unit) op" where
  "DeleteSecret m namespace name w =
     (case sk_Get m namespace name w of
        (w', Inl e) \<Rightarrow> if sk_IsNotFound m e then ret () w' else fail e w'
      | (w', Inr secret) \<Rightarrow> sk_Delete m secret w')"

definition SecretExists :: "'w secret_env \<Rightarrow> string \<Rightarrow> string \<Rightarrow> ('w, bool) op" where
  "SecretExists m namespace name w =
     (case sk_Get m namespace name w of
        (w', Inl e) \<Rightarrow> if sk_IsNotFound m e then ret False w' else fail e w'
      | (w', Inr _) \<Rightarrow> ret True w')"

text \<open>\<open>order\<close> is the order in which Go visits the map of templates.\<close>

fun render_all :: "'w secret_env \<Rightarrow> TemplateData \<Rightarrow> string go_map \<Rightarrow> string go_map \<Rightarrow> go_error + string go_map" where
  "render_all m data [] result = Inr result"
| "render_all m data ((key, value) # kvs) result =
     (case sk_Render m key value data of
        Inl e \<Rightarrow> Inl (Errorf_w (''failed to render template for key '' @ key @ '': '') e)
      | Inr rendered \<Rightarrow> render_all m data kvs (map_put key rendered result))"

definition RenderSecretTemplate ::
  "string range_order \<Rightarrow> 'w secret_env \<Rightarrow> SecretTemplate option \<Rightarrow> TemplateData \<Rightarrow> go_error + string go_map" where
  "RenderSecretTemplate order m tmpl data =
     (case tmpl of
        None \<Rightarrow> Inl (OtherError ''template is nil'' None)
      | Some t \<Rightarrow> render_all m data (order (stm_Data t)) [])"

section \<open>Properties\<close>

definition draws_below :: "'w secret_env \<Rightarrow> bool" where
  "draws_below m \<longleftrightarrow> (\<forall>n w w' i. sk_Int m n w = (w', Inr i) \<longrightarrow> i < n)"

lemma random_chars_alphabet:
  assumes "draws_below m" "random_chars m charset n w = (w', Inr p)"
  shows "length p = n \<and> set p \<subseteq> set charset"
  using assms(2)
proof (induction n arbitrary: w w' p)
  case (Suc n)
  obtain w1 i q where i: "sk_Int m (length charset) w = (w1, Inr i)"
    and "random_chars m charset n w1 = (w', Inr q)" "p = (charset ! i) # q"
    using Suc.prems by (auto elim!: check_cases)
  moreover have "charset ! i \<in> set charset" using assms(1) i by (auto simp: draws_below_def)
  ultimately show ?case using Suc.IH by auto
qed simp

text \<open>
  C36: generated passwords. A password has the configured length (32 when it is not positive) and only
  characters of the alphabet, without special characters unless they are asked for and without excluded
  ones, except that excluding the whole alphabet is ignored; the generator fails only when the random
  source does.
\<close>

theorem password_generated:
  assumes "draws_below m"
  shows "case GeneratePassword m opts w of
      (w', Inr p) \<Rightarrow>
        length p = password_length opts \<and> set p \<subseteq> set (alphanumerics @ specials) \<and>
        (\<forall>o'. opts = Some o' \<longrightarrow>
           (\<not> pwc_IncludeSpecialChars o' \<longrightarrow> set p \<subseteq> set alphanumerics) \<and>
           (set p \<inter> set (pwc_ExcludeChars o') = {} \<or> set alphanumerics \<subseteq> set (pwc_ExcludeChars o')))
    | (w', Inl e) \<Rightarrow> \<exists>n w1 w2 e'. sk_Int m n w1 = (w2, Inl e') \<and> e = Errorf_w ''failed to generate random number: '' e'"
proof (cases "GeneratePassword m opts w")
  case (Pair w' r)
  show ?thesis
  proof (cases r)
    case (Inr p)
    then have p: "length p = password_length opts" "set p \<subseteq> set (password_charset opts)"
      using random_chars_alphabet [OF assms] Pair by (auto simp: GeneratePassword_def)
    have "set (password_charset opts) \<subseteq> set (alphanumerics @ specials)"
      by (auto simp: password_charset_def Let_def)
    moreover have "\<not> pwc_IncludeSpecialChars o' \<longrightarrow> set (password_charset opts) \<subseteq> set alphanumerics" if "opts = Some o'" for o'
      by (auto simp: password_charset_def Let_def that)
    moreover have "set (password_charset opts) \<inter> set (pwc_ExcludeChars o') = {} \<or> set alphanumerics \<subseteq> set (pwc_ExcludeChars o')"
      if "opts = Some o'" for o'
      by (auto simp: password_charset_def Let_def that list_ex_iff filter_empty_conv)
    ultimately show ?thesis using p Pair Inr by (auto, blast+)
  next
    case (Inl e)
    have "\<exists>n w1 w2 e'. sk_Int m n w1 = (w2, Inl e') \<and> e = Errorf_w ''failed to generate random number: '' e'"
      if "random_chars m charset n w = (w', Inl e)" for charset n w w' e
      using that by (induction n arbitrary: w) (auto elim!: check_cases)
    then show ?thesis using Pair Inl by (simp add: GeneratePassword_def)
  qed
qed

lemma alphanumerics_nonempty: "alphanumerics \<noteq> ''''"
  by (simp add: alphanumerics_def)

definition counting_secrets :: "nat secret_env" where
  "counting_secrets =
     \<lparr>sk_Get = (\<lambda>_ _. fail ErrNotFound), sk_Create = ret, sk_Update = ret, sk_Delete = (\<lambda>_. ret ()),
      sk_GetConfigMap = (\<lambda>_ _. fail ErrNotFound), sk_IsNotFound = (\<lambda>e. e = ErrNotFound),
      sk_Int = (\<lambda>n w. (Suc w, if n = 0 then Inl (OtherError ''empty range'' None) else Inr (w mod n))),
      sk_Render = (\<lambda>_ t _. Inr t)\<rparr>"

definition password_config_x :: PasswordConfig where
  "password_config_x =
     \<lparr>pwc_Length = 3, pwc_IncludeSpecialChars = False, pwc_ExcludeChars = ''ac'', pwc_SecretName = '''', pwc_SecretTemplate = None\<rparr>"

theorem password_generated_witness:
  "\<exists>p. GeneratePassword counting_secrets (Some password_config_x) 7 = (10, Inr p) \<and> length p = 3 \<and> CHR ''a'' \<notin> set p"
proof -
  have draws: "draws_below counting_secrets" by (simp add: draws_below_def counting_secrets_def split: if_splits)
  have draw: "sk_Int counting_secrets n w = (Suc w, Inr (w mod n))" if "0 < n" for n w
    using that by (simp add: counting_secrets_def)
  have "\<exists>p. random_chars counting_secrets charset n w = (w + n, Inr p)" if "charset \<noteq> ''''" for charset n w
    using that
  proof (induction n arbitrary: w)
    case (Suc n)
    then show ?case using Suc.IH [of "Suc w"] by (auto simp: check_def draw)
  qed simp
  moreover have "password_charset (Some password_config_x) \<noteq> ''''"
    using alphanumerics_nonempty by (simp add: password_charset_def Let_def)
  ultimately have "\<exists>p. random_chars counting_secrets (password_charset (Some password_config_x)) 3 7 = (7 + 3, Inr p)"
    by blast
  then obtain p where p: "GeneratePassword counting_secrets (Some password_config_x) 7 = (10, Inr p)"
    by (auto simp: GeneratePassword_def password_length_def password_config_x_def)
  have "\<not> set alphanumerics \<subseteq> set (pwc_ExcludeChars password_config_x)"
    by (simp add: alphanumerics_def password_config_x_def)
  then show ?thesis
    using password_generated [OF draws, of "Some password_config_x" 7] p
    by (auto simp: password_length_def password_config_x_def)
qed

end
