(* ===== verification/Instance_Access.thy ===== *)
theory Instance_Access
  imports Secret_Manager
begin

text \<open>
  Access to a database instance: \<^verbatim>\<open>internal/shared/instanceresolver/resolver.go\<close> and the function
  \<^verbatim>\<open>withService\<close> that the repositories of \<^verbatim>\<open>internal/features\<close> share. It resolves the instance,
  reads its credentials, builds and connects a service, runs a function on it and closes it.

  A nil pointer is dereferenced in one case, so \<open>withService\<close> returns an option: \<open>None\<close> is a panic.
\<close>

section \<open>Instances\<close>

record InstanceReference =
  ir_Name :: string
  ir_Namespace :: string

record ClusterInstanceReference =
  cir_Name :: string

record DatabaseInstance =
  di_Name :: string
  di_Namespace :: string
  di_Spec :: DatabaseInstanceSpec
  di_DriftPolicy :: "DriftPolicy option"
  di_Phase :: Phase
  di_Version :: string

record ResolvedInstance =
  ri_Spec :: DatabaseInstanceSpec
  ri_DriftPolicy :: "DriftPolicy option"
  ri_CredentialNamespace :: string
  ri_Phase :: Phase
  ri_IsClusterScoped :: bool
  ri_Name :: string
  ri_Version :: string

record 'w access =
  ac_Instance :: "string \<Rightarrow> string \<Rightarrow> ('w, DatabaseInstance) op"
  ac_ClusterInstance :: "string \<Rightarrow> ('w, DatabaseInstance) op"
  ac_secrets :: "'w secret_env"
  ac_newAdapter :: "EngineType \<Rightarrow> ConnectionConfig \<Rightarrow> go_error + 'w adapter"

definition resolveNamespacedInstance :: "'w access \<Rightarrow> InstanceReference \<Rightarrow> string \<Rightarrow> ('w, ResolvedInstance) op" where
  "resolveNamespacedInstance a ref defaultNamespace =
     (let namespace = or_default (ir_Namespace ref) defaultNamespace
      in check (ac_Instance a namespace (ir_Name ref))
           (\<lambda>e w. Errorf_w (''get DatabaseInstance '' @ namespace @ ''/'' @ ir_Name ref @ '': '') e) (\<lambda>instance.
           ret \<lparr>ri_Spec = di_Spec instance, ri_DriftPolicy = di_DriftPolicy instance, ri_CredentialNamespace = di_Namespace instance,
                ri_Phase = di_Phase instance, ri_IsClusterScoped = False, ri_Name = di_Name instance, ri_Version = di_Version instance\<rparr>))"

definition resolveClusterInstance :: "'w access \<Rightarrow> ClusterInstanceReference \<Rightarrow> ('w, ResolvedInstance) op" where
  "resolveClusterInstance a ref =
     check (ac_ClusterInstance a (cir_Name ref))
       (\<lambda>e w. Errorf_w (''get ClusterDatabaseInstance '' @ cir_Name ref @ '': '') e) (\<lambda>instance.
       let credNamespace = (case dis_SecretRef (di_Spec instance) of None \<Rightarrow> '''' | Some r \<Rightarrow> csr_Namespace r)
       in if credNamespace = '''' then
            fail (OtherError (''ClusterDatabaseInstance '' @ cir_Name ref @
                    '': secretRef.namespace is required for cluster-scoped instances'') None)
          else
            ret \<lparr>ri_Spec = di_Spec instance, ri_DriftPolicy = di_DriftPolicy instance, ri_CredentialNamespace = credNamespace,
                 ri_Phase = di_Phase instance, ri_IsClusterScoped = True, ri_Name = di_Name instance, ri_Version = di_Version instance\<rparr>)"

definition Resolve ::
  "'w access \<Rightarrow> InstanceReference option \<Rightarrow> ClusterInstanceReference option \<Rightarrow> string \<Rightarrow> ('w, ResolvedInstance) op" where
  "Resolve a instanceRef clusterInstanceRef defaultNamespace =
     (case (instanceRef, clusterInstanceRef) of
        (None, None) \<Rightarrow> fail (OtherError ''either instanceRef or clusterInstanceRef must be specified'' None)
      | (Some _, Some _) \<Rightarrow> fail (OtherError ''instanceRef and clusterInstanceRef are mutually exclusive'' None)
      | (None, Some ref) \<Rightarrow> resolveClusterInstance a ref
      | (Some ref, None) \<Rightarrow> resolveNamespacedInstance a ref defaultNamespace)"

definition IsReady :: "ResolvedInstance \<Rightarrow> bool" where
  "IsReady ri \<longleftrightarrow> ri_Phase ri = PhaseReady"

definition ri_Engine :: "ResolvedInstance \<Rightarrow> string" where
  "ri_Engine ri = dis_Engine (ri_Spec ri)"

section \<open>\<^verbatim>\<open>withService\<close>\<close>

definition tls_enabled :: "ResolvedInstance \<Rightarrow> bool" where
  "tls_enabled ri \<longleftrightarrow> (case dis_TLS (ri_Spec ri) of None \<Rightarrow> False | Some t \<Rightarrow> tls_Enabled t)"

definition tls_material :: "'w access \<Rightarrow> ResolvedInstance \<Rightarrow> 'w \<Rightarrow> ('w \<times> string \<times> string \<times> string) option" where
  "tls_material a ri w =
     (if tls_enabled ri then
        (case GetTLSCredentials (ac_secrets a) (ri_CredentialNamespace ri) (dis_TLS (ri_Spec ri)) w of
           (w', Inl e) \<Rightarrow> Some (w', '''', '''', '''')
         | (w', Inr None) \<Rightarrow> None
         | (w', Inr (Some t)) \<Rightarrow> Some (w', tc_CA t, tc_Cert t, tc_Key t))
      else Some (w, '''', '''', ''''))"

text \<open>The service is closed when the function has run and also when it could not connect; the error of Close is dropped.\<close>

definition run_service :: "'w ResourceService \<Rightarrow> ctx \<Rightarrow> ('w ResourceService \<Rightarrow> ('w, 'a) op) \<Rightarrow> ('w, 'a) op" where
  "run_service svc c fn w =
     (case check (Connect svc c) (\<lambda>e w. Errorf_w ''connect: '' e) (\<lambda>_. fn svc) w of
        (w', r) \<Rightarrow> (fst (Close svc w'), r))"

definition withService ::
  "'w access \<Rightarrow> ctx \<Rightarrow> InstanceReference option \<Rightarrow> ClusterInstanceReference option \<Rightarrow> string \<Rightarrow>
   ('w ResourceService \<Rightarrow> ('w, 'a) op) \<Rightarrow> 'w \<Rightarrow> ('w \<times> (go_error + 'a)) option" where
  "withService a c instanceRef clusterInstanceRef namespace fn w =
     (case Resolve a instanceRef clusterInstanceRef namespace w of
        (w1, Inl e) \<Rightarrow> Some (w1, Inl (Errorf_w ''resolve instance: '' e))
      | (w1, Inr resolved) \<Rightarrow>
          if \<not> IsReady resolved then Some (w1, Inl (OtherError (''instance not ready: phase is '' @ ri_Phase resolved) None))
          else case GetCredentials (ac_secrets a) (ri_CredentialNamespace resolved) (dis_SecretRef (ri_Spec resolved)) w1 of
            (w2, Inl e) \<Rightarrow> Some (w2, Inl (Errorf_w ''get credentials: '' e))
          | (w2, Inr creds) \<Rightarrow>
              (case tls_material a resolved w2 of
                 None \<Rightarrow> None
               | Some (w3, tlsCA, tlsCert, tlsKey) \<Rightarrow>
                   (case NewResourceService (ac_newAdapter a)
                           (Some (ConfigFromInstance (ri_Spec resolved) (cr_Username creds) (cr_Password creds) tlsCA tlsCert tlsKey)) of
                      Inl e \<Rightarrow> Some (w3, Inl (Errorf_w ''create service: '' e))
                    | Inr svc \<Rightarrow> Some (run_service svc c fn w3))))"

section \<open>What a caller can rely on\<close>

lemma Resolve_one_ref:
  "Resolve a instanceRef clusterInstanceRef ns w = (w', Inr ri) \<Longrightarrow> (instanceRef = None) \<noteq> (clusterInstanceRef = None)"
  by (auto simp: Resolve_def split: option.splits)

lemma tls_material_None:
  "tls_material a ri w = None \<longleftrightarrow> tls_enabled ri \<and> (\<exists>t. dis_TLS (ri_Spec ri) = Some t \<and> tls_SecretRef t = None)"
  by (auto simp: tls_material_def tls_enabled_def GetTLSCredentials_def check_def split: option.splits prod.splits sum.splits)


end
