(* ===== verification/Bus_Events.thy ===== *)
theory Bus_Events
  imports Event_Bus
begin

text \<open>
  The events that are published on the bus: \<^verbatim>\<open>internal/shared/eventbus/events.go\<close>. A constructor
  carries the embedded base event and the fields of its struct in their order; the time is an
  argument of the functions that make events.
\<close>

section \<open>Names\<close>

definition EventInstanceConnected :: string where "EventInstanceConnected = ''InstanceConnected''"
definition EventInstanceDisconnected :: string where "EventInstanceDisconnected = ''InstanceDisconnected''"
definition EventInstanceHealthy :: string where "EventInstanceHealthy = ''InstanceHealthy''"
definition EventInstanceUnhealthy :: string where "EventInstanceUnhealthy = ''InstanceUnhealthy''"
definition EventDatabaseCreated :: string where "EventDatabaseCreated = ''DatabaseCreated''"
definition EventDatabaseDeleted :: string where "EventDatabaseDeleted = ''DatabaseDeleted''"
definition EventDatabaseUpdated :: string where "EventDatabaseUpdated = ''DatabaseUpdated''"
definition EventInitSQLExecuted :: string where "EventInitSQLExecuted = ''InitSQLExecuted''"
definition EventUserCreated :: string where "EventUserCreated = ''UserCreated''"
definition EventUserDeleted :: string where "EventUserDeleted = ''UserDeleted''"
definition EventUserUpdated :: string where "EventUserUpdated = ''UserUpdated''"
definition EventPasswordRotated :: string where "EventPasswordRotated = ''PasswordRotated''"
definition EventCredentialsSynced :: string where "EventCredentialsSynced = ''CredentialsSynced''"
definition EventRoleCreated :: string where "EventRoleCreated = ''RoleCreated''"
definition EventRoleDeleted :: string where "EventRoleDeleted = ''RoleDeleted''"
definition EventRoleUpdated :: string where "EventRoleUpdated = ''RoleUpdated''"
definition EventClusterRoleCreated :: string where "EventClusterRoleCreated = ''ClusterRoleCreated''"
definition EventClusterRoleDeleted :: string where "EventClusterRoleDeleted = ''ClusterRoleDeleted''"
definition EventClusterRoleUpdated :: string where "EventClusterRoleUpdated = ''ClusterRoleUpdated''"
definition EventGrantApplied :: string where "EventGrantApplied = ''GrantApplied''"
definition EventGrantRevoked :: string where "EventGrantRevoked = ''GrantRevoked''"
definition EventClusterGrantApplied :: string where "EventClusterGrantApplied = ''ClusterGrantApplied''"
definition EventClusterGrantRevoked :: string where "EventClusterGrantRevoked = ''ClusterGrantRevoked''"
definition EventBackupStarted :: string where "EventBackupStarted = ''BackupStarted''"
definition EventBackupCompleted :: string where "EventBackupCompleted = ''BackupCompleted''"
definition EventBackupFailed :: string where "EventBackupFailed = ''BackupFailed''"
definition EventRestoreStarted :: string where "EventRestoreStarted = ''RestoreStarted''"
definition EventRestoreCompleted :: string where "EventRestoreCompleted = ''RestoreCompleted''"
definition EventRestoreFailed :: string where "EventRestoreFailed = ''RestoreFailed''"

lemmas event_names =
  EventInstanceConnected_def EventInstanceDisconnected_def EventInstanceHealthy_def EventInstanceUnhealthy_def
  EventDatabaseCreated_def EventDatabaseDeleted_def EventDatabaseUpdated_def EventInitSQLExecuted_def
  EventUserCreated_def EventUserDeleted_def EventUserUpdated_def EventPasswordRotated_def
  EventCredentialsSynced_def EventRoleCreated_def EventRoleDeleted_def EventRoleUpdated_def
  EventClusterRoleCreated_def EventClusterRoleDeleted_def EventClusterRoleUpdated_def EventGrantApplied_def
  EventGrantRevoked_def EventClusterGrantApplied_def EventClusterGrantRevoked_def EventBackupStarted_def
  EventBackupCompleted_def EventBackupFailed_def EventRestoreStarted_def EventRestoreCompleted_def
  EventRestoreFailed_def

section \<open>Base events\<close>

definition NewBaseEvent :: "int \<Rightarrow> string \<Rightarrow> string \<Rightarrow> string \<Rightarrow> Event" where
  "NewBaseEvent now name aggregateID aggregateType =
     \<lparr>e_EventName = name, e_EventTime = now, e_AggregateID = aggregateID, e_AggregateType = aggregateType\<rparr>"

section \<open>Events\<close>

datatype BusEvent =
    InstanceConnected Event string string string string string int
  | InstanceDisconnected Event string string string
  | InstanceHealthy Event string string
  | InstanceUnhealthy Event string string string
  | DatabaseCreated Event string string string string
  | DatabaseDeleted Event string string string
  | DatabaseUpdated Event string string string "string list"
  | InitSQLExecuted Event string string bool
  | UserCreated Event string string string string
  | UserDeleted Event string string string
  | UserUpdated Event string string string "string list"
  | PasswordRotated Event string string string int string
  | CredentialsSynced Event string string string string
  | RoleCreated Event string string string
  | RoleDeleted Event string string string
  | RoleUpdated Event string string string "string list"
  | ClusterRoleCreated Event string string
  | ClusterRoleDeleted Event string string
  | ClusterRoleUpdated Event string string "string list"
  | GrantApplied Event string string string string "string list"
  | GrantRevoked Event string string string string "string list"
  | BackupStarted Event string string string string int
  | BackupCompleted Event string string string int duration string string
  | BackupFailed Event string string string string int
  | RestoreStarted Event string string string string int
  | RestoreCompleted Event string string string string duration
  | RestoreFailed Event string string string string string int
  | ClusterGrantApplied Event string string string string string "string list"
  | ClusterGrantRevoked Event string string string string string "string list"

primrec base_event :: "BusEvent \<Rightarrow> Event" where
  "base_event (InstanceConnected b x0 x1 x2 x3 x4 x5) = b"
| "base_event (InstanceDisconnected b x0 x1 x2) = b"
| "base_event (InstanceHealthy b x0 x1) = b"
| "base_event (InstanceUnhealthy b x0 x1 x2) = b"
| "base_event (DatabaseCreated b x0 x1 x2 x3) = b"
| "base_event (DatabaseDeleted b x0 x1 x2) = b"
| "base_event (DatabaseUpdated b x0 x1 x2 x3) = b"
| "base_event (InitSQLExecuted b x0 x1 x2) = b"
| "base_event (UserCreated b x0 x1 x2 x3) = b"
| "base_event (UserDeleted b x0 x1 x2) = b"
| "base_event (UserUpdated b x0 x1 x2 x3) = b"
| "base_event (PasswordRotated b x0 x1 x2 x3 x4) = b"
| "base_event (CredentialsSynced b x0 x1 x2 x3) = b"
| "base_event (RoleCreated b x0 x1 x2) = b"
| "base_event (RoleDeleted b x0 x1 x2) = b"
| "base_event (RoleUpdated b x0 x1 x2 x3) = b"
| "base_event (ClusterRoleCreated b x0 x1) = b"
| "base_event (ClusterRoleDeleted b x0 x1) = b"
| "base_event (ClusterRoleUpdated b x0 x1 x2) = b"
| "base_event (GrantApplied b x0 x1 x2 x3 x4) = b"
| "base_event (GrantRevoked b x0 x1 x2 x3 x4) = b"
| "base_event (BackupStarted b x0 x1 x2 x3 x4) = b"
| "base_event (BackupCompleted b x0 x1 x2 x3 x4 x5 x6) = b"
| "base_event (BackupFailed b x0 x1 x2 x3 x4) = b"
| "base_event (RestoreStarted b x0 x1 x2 x3 x4) = b"
| "base_event (RestoreCompleted b x0 x1 x2 x3 x4) = b"
| "base_event (RestoreFailed b x0 x1 x2 x3 x4 x5) = b"
| "base_event (ClusterGrantApplied b x0 x1 x2 x3 x4 x5) = b"
| "base_event (ClusterGrantRevoked b x0 x1 x2 x3 x4 x5) = b"

definition NewInstanceConnected :: "int \<Rightarrow> string \<Rightarrow> string \<Rightarrow> string \<Rightarrow> string \<Rightarrow> string \<Rightarrow> int \<Rightarrow> BusEvent" where
  "NewInstanceConnected now instanceName namespace engine version host port = InstanceConnected (NewBaseEvent now EventInstanceConnected instanceName ''DatabaseInstance'') instanceName namespace engine version host port"

definition NewInstanceDisconnected :: "int \<Rightarrow> string \<Rightarrow> string \<Rightarrow> string \<Rightarrow> BusEvent" where
  "NewInstanceDisconnected now instanceName namespace reason = InstanceDisconnected (NewBaseEvent now EventInstanceDisconnected instanceName ''DatabaseInstance'') instanceName namespace reason"

definition NewInstanceHealthy :: "int \<Rightarrow> string \<Rightarrow> string \<Rightarrow> BusEvent" where
  "NewInstanceHealthy now instanceName namespace = InstanceHealthy (NewBaseEvent now EventInstanceHealthy instanceName ''DatabaseInstance'') instanceName namespace"

definition NewInstanceUnhealthy :: "int \<Rightarrow> string \<Rightarrow> string \<Rightarrow> string \<Rightarrow> BusEvent" where
  "NewInstanceUnhealthy now instanceName namespace reason = InstanceUnhealthy (NewBaseEvent now EventInstanceUnhealthy instanceName ''DatabaseInstance'') instanceName namespace reason"

definition NewDatabaseCreated :: "int \<Rightarrow> string \<Rightarrow> string \<Rightarrow> string \<Rightarrow> string \<Rightarrow> BusEvent" where
  "NewDatabaseCreated now databaseName instanceRef namespace engine = DatabaseCreated (NewBaseEvent now EventDatabaseCreated databaseName ''Database'') databaseName instanceRef namespace engine"

definition NewDatabaseDeleted :: "int \<Rightarrow> string \<Rightarrow> string \<Rightarrow> string \<Rightarrow> BusEvent" where
  "NewDatabaseDeleted now databaseName instanceRef namespace = DatabaseDeleted (NewBaseEvent now EventDatabaseDeleted databaseName ''Database'') databaseName instanceRef namespace"

definition NewDatabaseUpdated :: "int \<Rightarrow> string \<Rightarrow> string \<Rightarrow> string \<Rightarrow> string list \<Rightarrow> BusEvent" where
  "NewDatabaseUpdated now databaseName instanceRef namespace changes = DatabaseUpdated (NewBaseEvent now EventDatabaseUpdated databaseName ''Database'') databaseName instanceRef namespace changes"

definition NewInitSQLExecuted :: "int \<Rightarrow> string \<Rightarrow> string \<Rightarrow> bool \<Rightarrow> BusEvent" where
  "NewInitSQLExecuted now databaseName namespace success = InitSQLExecuted (NewBaseEvent now EventInitSQLExecuted databaseName ''Database'') databaseName namespace success"

definition NewUserCreated :: "int \<Rightarrow> string \<Rightarrow> string \<Rightarrow> string \<Rightarrow> string \<Rightarrow> BusEvent" where
  "NewUserCreated now username instanceRef namespace secretName = UserCreated (NewBaseEvent now EventUserCreated username ''DatabaseUser'') username instanceRef namespace secretName"

definition NewUserDeleted :: "int \<Rightarrow> string \<Rightarrow> string \<Rightarrow> string \<Rightarrow> BusEvent" where
  "NewUserDeleted now username instanceRef namespace = UserDeleted (NewBaseEvent now EventUserDeleted username ''DatabaseUser'') username instanceRef namespace"

definition NewUserUpdated :: "int \<Rightarrow> string \<Rightarrow> string \<Rightarrow> string \<Rightarrow> string list \<Rightarrow> BusEvent" where
  "NewUserUpdated now username instanceRef namespace changes = UserUpdated (NewBaseEvent now EventUserUpdated username ''DatabaseUser'') username instanceRef namespace changes"

definition NewPasswordRotated :: "int \<Rightarrow> int \<Rightarrow> string \<Rightarrow> string \<Rightarrow> string \<Rightarrow> string \<Rightarrow> BusEvent" where
  "NewPasswordRotated now at username namespace secretName reason = PasswordRotated (NewBaseEvent now EventPasswordRotated username ''DatabaseUser'') username namespace secretName at reason"

definition NewCredentialsSynced :: "int \<Rightarrow> string \<Rightarrow> string \<Rightarrow> string \<Rightarrow> string \<Rightarrow> BusEvent" where
  "NewCredentialsSynced now username namespace secretName secretVersion = CredentialsSynced (NewBaseEvent now EventCredentialsSynced username ''DatabaseUser'') username namespace secretName secretVersion"

definition NewRoleCreated :: "int \<Rightarrow> string \<Rightarrow> string \<Rightarrow> string \<Rightarrow> BusEvent" where
  "NewRoleCreated now roleName instanceRef namespace = RoleCreated (NewBaseEvent now EventRoleCreated roleName ''DatabaseRole'') roleName instanceRef namespace"

definition NewRoleDeleted :: "int \<Rightarrow> string \<Rightarrow> string \<Rightarrow> string \<Rightarrow> BusEvent" where
  "NewRoleDeleted now roleName instanceRef namespace = RoleDeleted (NewBaseEvent now EventRoleDeleted roleName ''DatabaseRole'') roleName instanceRef namespace"

definition NewRoleUpdated :: "int \<Rightarrow> string \<Rightarrow> string \<Rightarrow> string \<Rightarrow> string list \<Rightarrow> BusEvent" where
  "NewRoleUpdated now roleName instanceRef namespace changes = RoleUpdated (NewBaseEvent now EventRoleUpdated roleName ''DatabaseRole'') roleName instanceRef namespace changes"

definition NewClusterRoleCreated :: "int \<Rightarrow> string \<Rightarrow> string \<Rightarrow> BusEvent" where
  "NewClusterRoleCreated now roleName clusterInstanceRef = ClusterRoleCreated (NewBaseEvent now EventClusterRoleCreated roleName ''ClusterDatabaseRole'') roleName clusterInstanceRef"

definition NewClusterRoleDeleted :: "int \<Rightarrow> string \<Rightarrow> string \<Rightarrow> BusEvent" where
  "NewClusterRoleDeleted now roleName clusterInstanceRef = ClusterRoleDeleted (NewBaseEvent now EventClusterRoleDeleted roleName ''ClusterDatabaseRole'') roleName clusterInstanceRef"

definition NewClusterRoleUpdated :: "int \<Rightarrow> string \<Rightarrow> string \<Rightarrow> string list \<Rightarrow> BusEvent" where
  "NewClusterRoleUpdated now roleName clusterInstanceRef changes = ClusterRoleUpdated (NewBaseEvent now EventClusterRoleUpdated roleName ''ClusterDatabaseRole'') roleName clusterInstanceRef changes"

definition NewGrantApplied :: "int \<Rightarrow> string \<Rightarrow> string \<Rightarrow> string \<Rightarrow> string \<Rightarrow> string list \<Rightarrow> BusEvent" where
  "NewGrantApplied now grantName userRef databaseRef namespace privileges = GrantApplied (NewBaseEvent now EventGrantApplied grantName ''DatabaseGrant'') grantName userRef databaseRef namespace privileges"

definition NewGrantRevoked :: "int \<Rightarrow> string \<Rightarrow> string \<Rightarrow> string \<Rightarrow> string \<Rightarrow> string list \<Rightarrow> BusEvent" where
  "NewGrantRevoked now grantName userRef databaseRef namespace privileges = GrantRevoked (NewBaseEvent now EventGrantRevoked grantName ''DatabaseGrant'') grantName userRef databaseRef namespace privileges"

definition NewBackupStarted :: "int \<Rightarrow> int \<Rightarrow> string \<Rightarrow> string \<Rightarrow> string \<Rightarrow> string \<Rightarrow> BusEvent" where
  "NewBackupStarted now at backupName databaseRef namespace storageType = BackupStarted (NewBaseEvent now EventBackupStarted backupName ''DatabaseBackup'') backupName databaseRef namespace storageType at"

definition NewBackupCompleted :: "int \<Rightarrow> string \<Rightarrow> string \<Rightarrow> string \<Rightarrow> string \<Rightarrow> string \<Rightarrow> int \<Rightarrow> duration \<Rightarrow> BusEvent" where
  "NewBackupCompleted now backupName databaseRef namespace storagePath checksum sizeBytes duration = BackupCompleted (NewBaseEvent now EventBackupCompleted backupName ''DatabaseBackup'') backupName databaseRef namespace sizeBytes duration storagePath checksum"

definition NewBackupFailed :: "int \<Rightarrow> int \<Rightarrow> string \<Rightarrow> string \<Rightarrow> string \<Rightarrow> string \<Rightarrow> BusEvent" where
  "NewBackupFailed now at backupName databaseRef namespace errMsg = BackupFailed (NewBaseEvent now EventBackupFailed backupName ''DatabaseBackup'') backupName databaseRef namespace errMsg at"

definition NewRestoreStarted :: "int \<Rightarrow> int \<Rightarrow> string \<Rightarrow> string \<Rightarrow> string \<Rightarrow> string \<Rightarrow> BusEvent" where
  "NewRestoreStarted now at restoreName backupRef databaseRef namespace = RestoreStarted (NewBaseEvent now EventRestoreStarted restoreName ''DatabaseRestore'') restoreName backupRef databaseRef namespace at"

definition NewRestoreCompleted :: "int \<Rightarrow> string \<Rightarrow> string \<Rightarrow> string \<Rightarrow> string \<Rightarrow> duration \<Rightarrow> BusEvent" where
  "NewRestoreCompleted now restoreName backupRef databaseRef namespace duration = RestoreCompleted (NewBaseEvent now EventRestoreCompleted restoreName ''DatabaseRestore'') restoreName backupRef databaseRef namespace duration"

definition NewRestoreFailed :: "int \<Rightarrow> int \<Rightarrow> string \<Rightarrow> string \<Rightarrow> string \<Rightarrow> string \<Rightarrow> string \<Rightarrow> BusEvent" where
  "NewRestoreFailed now at restoreName backupRef databaseRef namespace errMsg = RestoreFailed (NewBaseEvent now EventRestoreFailed restoreName ''DatabaseRestore'') restoreName backupRef databaseRef namespace errMsg at"

definition NewClusterGrantApplied :: "int \<Rightarrow> string \<Rightarrow> string \<Rightarrow> string \<Rightarrow> string \<Rightarrow> string \<Rightarrow> string list \<Rightarrow> BusEvent" where
  "NewClusterGrantApplied now grantName targetRef targetNamespace targetType clusterInstanceRef privileges = ClusterGrantApplied (NewBaseEvent now EventClusterGrantApplied grantName ''ClusterDatabaseGrant'') grantName targetRef targetNamespace targetType clusterInstanceRef privileges"

definition NewClusterGrantRevoked :: "int \<Rightarrow> string \<Rightarrow> string \<Rightarrow> string \<Rightarrow> string \<Rightarrow> string \<Rightarrow> string list \<Rightarrow> BusEvent" where
  "NewClusterGrantRevoked now grantName targetRef targetNamespace targetType clusterInstanceRef privileges = ClusterGrantRevoked (NewBaseEvent now EventClusterGrantRevoked grantName ''ClusterDatabaseGrant'') grantName targetRef targetNamespace targetType clusterInstanceRef privileges"

lemmas new_events =
  NewInstanceConnected_def NewInstanceDisconnected_def NewInstanceHealthy_def NewInstanceUnhealthy_def
  NewDatabaseCreated_def NewDatabaseDeleted_def NewDatabaseUpdated_def NewInitSQLExecuted_def
  NewUserCreated_def NewUserDeleted_def NewUserUpdated_def NewPasswordRotated_def
  NewCredentialsSynced_def NewRoleCreated_def NewRoleDeleted_def NewRoleUpdated_def
  NewClusterRoleCreated_def NewClusterRoleDeleted_def NewClusterRoleUpdated_def NewGrantApplied_def
  NewGrantRevoked_def NewBackupStarted_def NewBackupCompleted_def NewBackupFailed_def
  NewRestoreStarted_def NewRestoreCompleted_def NewRestoreFailed_def NewClusterGrantApplied_def
  NewClusterGrantRevoked_def

section \<open>Subscriptions see the right events\<close>

text \<open>
  A subscriber names its event by a constant and reads the event by a type assertion; the assertion
  cannot fail, since the name of an event determines its constructor.
\<close>

primrec event_kind :: "BusEvent \<Rightarrow> string" where
  "event_kind (InstanceConnected b x0 x1 x2 x3 x4 x5) = EventInstanceConnected"
| "event_kind (InstanceDisconnected b x0 x1 x2) = EventInstanceDisconnected"
| "event_kind (InstanceHealthy b x0 x1) = EventInstanceHealthy"
| "event_kind (InstanceUnhealthy b x0 x1 x2) = EventInstanceUnhealthy"
| "event_kind (DatabaseCreated b x0 x1 x2 x3) = EventDatabaseCreated"
| "event_kind (DatabaseDeleted b x0 x1 x2) = EventDatabaseDeleted"
| "event_kind (DatabaseUpdated b x0 x1 x2 x3) = EventDatabaseUpdated"
| "event_kind (InitSQLExecuted b x0 x1 x2) = EventInitSQLExecuted"
| "event_kind (UserCreated b x0 x1 x2 x3) = EventUserCreated"
| "event_kind (UserDeleted b x0 x1 x2) = EventUserDeleted"
| "event_kind (UserUpdated b x0 x1 x2 x3) = EventUserUpdated"
| "event_kind (PasswordRotated b x0 x1 x2 x3 x4) = EventPasswordRotated"
| "event_kind (CredentialsSynced b x0 x1 x2 x3) = EventCredentialsSynced"
| "event_kind (RoleCreated b x0 x1 x2) = EventRoleCreated"
| "event_kind (RoleDeleted b x0 x1 x2) = EventRoleDeleted"
| "event_kind (RoleUpdated b x0 x1 x2 x3) = EventRoleUpdated"
| "event_kind (ClusterRoleCreated b x0 x1) = EventClusterRoleCreated"
| "event_kind (ClusterRoleDeleted b x0 x1) = EventClusterRoleDeleted"
| "event_kind (ClusterRoleUpdated b x0 x1 x2) = EventClusterRoleUpdated"
| "event_kind (GrantApplied b x0 x1 x2 x3 x4) = EventGrantApplied"
| "event_kind (GrantRevoked b x0 x1 x2 x3 x4) = EventGrantRevoked"
| "event_kind (BackupStarted b x0 x1 x2 x3 x4) = EventBackupStarted"
| "event_kind (BackupCompleted b x0 x1 x2 x3 x4 x5 x6) = EventBackupCompleted"
| "event_kind (BackupFailed b x0 x1 x2 x3 x4) = EventBackupFailed"
| "event_kind (RestoreStarted b x0 x1 x2 x3 x4) = EventRestoreStarted"
| "event_kind (RestoreCompleted b x0 x1 x2 x3 x4) = EventRestoreCompleted"
| "event_kind (RestoreFailed b x0 x1 x2 x3 x4 x5) = EventRestoreFailed"
| "event_kind (ClusterGrantApplied b x0 x1 x2 x3 x4 x5) = EventClusterGrantApplied"
| "event_kind (ClusterGrantRevoked b x0 x1 x2 x3 x4 x5) = EventClusterGrantRevoked"

lemma new_event_kind:
  "e_EventName (base_event (NewInstanceConnected now1 p1_0 p1_1 p1_2 p1_3 p1_4 p1_5)) = event_kind (NewInstanceConnected now1 p1_0 p1_1 p1_2 p1_3 p1_4 p1_5)"
  "e_EventName (base_event (NewInstanceDisconnected now2 p2_0 p2_1 p2_2)) = event_kind (NewInstanceDisconnected now2 p2_0 p2_1 p2_2)"
  "e_EventName (base_event (NewInstanceHealthy now3 p3_0 p3_1)) = event_kind (NewInstanceHealthy now3 p3_0 p3_1)"
  "e_EventName (base_event (NewInstanceUnhealthy now4 p4_0 p4_1 p4_2)) = event_kind (NewInstanceUnhealthy now4 p4_0 p4_1 p4_2)"
  "e_EventName (base_event (NewDatabaseCreated now5 p5_0 p5_1 p5_2 p5_3)) = event_kind (NewDatabaseCreated now5 p5_0 p5_1 p5_2 p5_3)"
  "e_EventName (base_event (NewDatabaseDeleted now6 p6_0 p6_1 p6_2)) = event_kind (NewDatabaseDeleted now6 p6_0 p6_1 p6_2)"
  "e_EventName (base_event (NewDatabaseUpdated now7 p7_0 p7_1 p7_2 p7_3)) = event_kind (NewDatabaseUpdated now7 p7_0 p7_1 p7_2 p7_3)"
  "e_EventName (base_event (NewInitSQLExecuted now8 p8_0 p8_1 p8_2)) = event_kind (NewInitSQLExecuted now8 p8_0 p8_1 p8_2)"
  "e_EventName (base_event (NewUserCreated now9 p9_0 p9_1 p9_2 p9_3)) = event_kind (NewUserCreated now9 p9_0 p9_1 p9_2 p9_3)"
  "e_EventName (base_event (NewUserDeleted now10 p10_0 p10_1 p10_2)) = event_kind (NewUserDeleted now10 p10_0 p10_1 p10_2)"
  "e_EventName (base_event (NewUserUpdated now11 p11_0 p11_1 p11_2 p11_3)) = event_kind (NewUserUpdated now11 p11_0 p11_1 p11_2 p11_3)"
  "e_EventName (base_event (NewPasswordRotated now12 p12_0 p12_1 p12_2 p12_3 p12_4)) = event_kind (NewPasswordRotated now12 p12_0 p12_1 p12_2 p12_3 p12_4)"
  "e_EventName (base_event (NewCredentialsSynced now13 p13_0 p13_1 p13_2 p13_3)) = event_kind (NewCredentialsSynced now13 p13_0 p13_1 p13_2 p13_3)"
  "e_EventName (base_event (NewRoleCreated now14 p14_0 p14_1 p14_2)) = event_kind (NewRoleCreated now14 p14_0 p14_1 p14_2)"
  "e_EventName (base_event (NewRoleDeleted now15 p15_0 p15_1 p15_2)) = event_kind (NewRoleDeleted now15 p15_0 p15_1 p15_2)"
  "e_EventName (base_event (NewRoleUpdated now16 p16_0 p16_1 p16_2 p16_3)) = event_kind (NewRoleUpdated now16 p16_0 p16_1 p16_2 p16_3)"
  "e_EventName (base_event (NewClusterRoleCreated now17 p17_0 p17_1)) = event_kind (NewClusterRoleCreated now17 p17_0 p17_1)"
  "e_EventName (base_event (NewClusterRoleDeleted now18 p18_0 p18_1)) = event_kind (NewClusterRoleDeleted now18 p18_0 p18_1)"
  "e_EventName (base_event (NewClusterRoleUpdated now19 p19_0 p19_1 p19_2)) = event_kind (NewClusterRoleUpdated now19 p19_0 p19_1 p19_2)"
  "e_EventName (base_event (NewGrantApplied now20 p20_0 p20_1 p20_2 p20_3 p20_4)) = event_kind (NewGrantApplied now20 p20_0 p20_1 p20_2 p20_3 p20_4)"
  "e_EventName (base_event (NewGrantRevoked now21 p21_0 p21_1 p21_2 p21_3 p21_4)) = event_kind (NewGrantRevoked now21 p21_0 p21_1 p21_2 p21_3 p21_4)"
  "e_EventName (base_event (NewBackupStarted now22 p22_0 p22_1 p22_2 p22_3 p22_4)) = event_kind (NewBackupStarted now22 p22_0 p22_1 p22_2 p22_3 p22_4)"
  "e_EventName (base_event (NewBackupCompleted now23 p23_0 p23_1 p23_2 p23_3 p23_4 p23_5 p23_6)) = event_kind (NewBackupCompleted now23 p23_0 p23_1 p23_2 p23_3 p23_4 p23_5 p23_6)"
  "e_EventName (base_event (NewBackupFailed now24 p24_0 p24_1 p24_2 p24_3 p24_4)) = event_kind (NewBackupFailed now24 p24_0 p24_1 p24_2 p24_3 p24_4)"
  "e_EventName (base_event (NewRestoreStarted now25 p25_0 p25_1 p25_2 p25_3 p25_4)) = event_kind (NewRestoreStarted now25 p25_0 p25_1 p25_2 p25_3 p25_4)"
  "e_EventName (base_event (NewRestoreCompleted now26 p26_0 p26_1 p26_2 p26_3 p26_4)) = event_kind (NewRestoreCompleted now26 p26_0 p26_1 p26_2 p26_3 p26_4)"
  "e_EventName (base_event (NewRestoreFailed now27 p27_0 p27_1 p27_2 p27_3 p27_4 p27_5)) = event_kind (NewRestoreFailed now27 p27_0 p27_1 p27_2 p27_3 p27_4 p27_5)"
  "e_EventName (base_event (NewClusterGrantApplied now28 p28_0 p28_1 p28_2 p28_3 p28_4 p28_5)) = event_kind (NewClusterGrantApplied now28 p28_0 p28_1 p28_2 p28_3 p28_4 p28_5)"
  "e_EventName (base_event (NewClusterGrantRevoked now29 p29_0 p29_1 p29_2 p29_3 p29_4 p29_5)) = event_kind (NewClusterGrantRevoked now29 p29_0 p29_1 p29_2 p29_3 p29_4 p29_5)"
  by (simp_all add: new_events NewBaseEvent_def)

end
