(* ===== verification/User_Handler.thy ===== *)
theory User_Handler
  imports Instance_Access Bus_Events Recorded_Runs
begin

text \<open>
  The user feature below its controller: the resource
  (\<^verbatim>\<open>api/v1alpha1/databaseuser_types.go\<close> and the rotation types of
  \<^verbatim>\<open>api/v1alpha1/common_types.go\<close>), the repository
  (\<^verbatim>\<open>internal/features/user/repository.go\<close>) and the handler
  (\<^verbatim>\<open>internal/features/user/handler.go\<close>), which sees the repository through the interface of
  \<^verbatim>\<open>internal/features/user/api.go\<close>, here the record \<open>user_repo\<close>.

  A repository operation, of type \<open>repo_op\<close>, returns an option because \<open>withService\<close> does: \<open>None\<close> is a panic, which unwinds
  the whole reconciliation. The handler is modelled on calls that return. Counters of metrics and log
  lines are left out; the read of the engine they are labelled with is kept, since it is a call.
\<close>

section \<open>The resource\<close>

datatype RotationStrategy = RotationStrategyUnset | RotationStrategyRoleInheritance | RotationStrategyDualPassword | RotationStrategyOther string

primrec strategy_text :: "RotationStrategy \<Rightarrow> string" where
  "strategy_text RotationStrategyUnset = ''''"
| "strategy_text RotationStrategyRoleInheritance = ''role-inheritance''"
| "strategy_text RotationStrategyDualPassword = ''dual-password''"
| "strategy_text (RotationStrategyOther s) = s"

datatype OldUserAction = OldUserActionRetain | OldUserActionDisable | OldUserActionDelete | OldUserActionOther string

record ServiceRoleConfig =
  src_Name :: string
  src_AutoCreate :: bool

record OldUserPolicy =
  oup_Action :: OldUserAction
  oup_GracePeriodDays :: int
  oup_OwnershipCheck :: bool

record PasswordRotationConfig =
  rot_Enabled :: bool
  rot_Schedule :: string
  rot_MaxAge :: string
  rot_Strategy :: RotationStrategy
  rot_ServiceRole :: "ServiceRoleConfig option"
  rot_UserNaming :: string
  rot_OldUserPolicy :: "OldUserPolicy option"

text \<open>The spec: the fields the services read are those of \<open>DatabaseUserSpec\<close>, extended by what the feature reads.\<close>

record UserSpec = DatabaseUserSpec +
  us_InstanceRef :: "InstanceReference option"
  us_ClusterInstanceRef :: "ClusterInstanceReference option"
  us_PasswordSecret :: "PasswordConfig option"
  us_ExistingPasswordSecret :: "ExistingPasswordSecret option"
  us_PasswordRotation :: "PasswordRotationConfig option"
  us_DriftPolicy :: "DriftPolicy option"

definition service_spec :: "UserSpec \<Rightarrow> DatabaseUserSpec" where
  "service_spec spec = DatabaseUserSpec.truncate spec"

record PendingDeletionInfo =
  pd_User :: string
  pd_DeprecatedAt :: "int option"
  pd_DeleteAfter :: "int option"
  pd_Status :: string
  pd_BlockedReason :: string
  pd_OwnedObjects :: "OwnedObject list"
  pd_Resolution :: string

record RotationStatus =
  rs_Enabled :: bool
  rs_Strategy :: RotationStrategy
  rs_LastRotatedAt :: "int option"
  rs_NextRotationAt :: "int option"
  rs_ActiveUser :: string
  rs_ServiceRole :: string
  rs_PendingDeletion :: "PendingDeletionInfo list"

record OwnershipBlockStatus =
  ob_Blocked :: bool
  ob_LastCheckedAt :: "int option"
  ob_OwnedObjects :: "OwnedObject list"
  ob_Resolution :: string
  ob_Message :: string

record SecretInfo =
  si_Name :: string
  si_Namespace :: string

record DeletionConfirmation =
  dc_Required :: bool
  dc_Hash :: string
  dc_Children :: "string list"
  dc_RemainingCount :: nat
  dc_Message :: string

record DatabaseUserStatus =
  ust_Phase :: Phase
  ust_ReconcileID :: string
  ust_LastReconcileTime :: "int option"
  ust_Message :: string
  ust_Secret :: "SecretInfo option"
  ust_Rotation :: "RotationStatus option"
  ust_OwnershipBlock :: "OwnershipBlockStatus option"
  ust_Drift :: "DriftStatus option"
  ust_DeletionConfirmation :: "DeletionConfirmation option"
  ust_Conditions :: "Condition list"

record DatabaseUser =
  du_meta :: object_meta
  du_Spec :: UserSpec
  du_Status :: DatabaseUserStatus

section \<open>The repository\<close>

record UserResult =
  ur_Created :: bool
  ur_Updated :: bool
  ur_SecretName :: string
  ur_Message :: string

record OwnershipCheckResult =
  ocr_OwnsObjects :: bool
  ocr_OwnedObjects :: "OwnedObject list"
  ocr_BlocksDeletion :: bool
  ocr_Resolution :: string

type_synonym ('w, 'a) repo_op = "'w \<Rightarrow> ('w \<times> (go_error + 'a)) option"

definition user_withService ::
  "'w access \<Rightarrow> ctx \<Rightarrow> UserSpec \<Rightarrow> string \<Rightarrow> ('w ResourceService \<Rightarrow> ('w, 'a) op) \<Rightarrow> ('w, 'a) repo_op" where
  "user_withService a c spec namespace = withService a c (us_InstanceRef spec) (us_ClusterInstanceRef spec) namespace"

definition repo_Create :: "'w access \<Rightarrow> ctx \<Rightarrow> UserSpec \<Rightarrow> string \<Rightarrow> string \<Rightarrow> ('w, UserResult) repo_op" where
  "repo_Create a c spec namespace password =
     user_withService a c spec namespace (\<lambda>svc.
       check (User_Create svc c (Some (service_spec spec)) password) (\<lambda>e w. Errorf_w ''create user: '' e) (\<lambda>svcResult.
         ret \<lparr>ur_Created = Result.Created svcResult, ur_Updated = False, ur_SecretName = '''', ur_Message = Result.Message svcResult\<rparr>))"

definition repo_Exists :: "'w access \<Rightarrow> ctx \<Rightarrow> string \<Rightarrow> UserSpec \<Rightarrow> string \<Rightarrow> ('w, bool) repo_op" where
  "repo_Exists a c username spec namespace = user_withService a c spec namespace (\<lambda>svc. User_Exists svc c username)"

definition repo_Update :: "'w access \<Rightarrow> ctx \<Rightarrow> string \<Rightarrow> UserSpec \<Rightarrow> string \<Rightarrow> ('w, UserResult) repo_op" where
  "repo_Update a c username spec namespace =
     user_withService a c spec namespace (\<lambda>svc.
       check (User_Update svc c username (Some (service_spec spec))) (\<lambda>e w. Errorf_w ''update user: '' e) (\<lambda>svcResult.
         ret \<lparr>ur_Created = False, ur_Updated = True, ur_SecretName = '''', ur_Message = Result.Message svcResult\<rparr>))"

definition repo_Delete :: "'w access \<Rightarrow> ctx \<Rightarrow> string \<Rightarrow> UserSpec \<Rightarrow> string \<Rightarrow> bool \<Rightarrow> ('w, unit) repo_op" where
  "repo_Delete a c username spec namespace force =
     user_withService a c spec namespace (\<lambda>svc. check (User_Delete svc c username) as_is (\<lambda>_. ret ()))"

definition repo_SetPassword :: "'w access \<Rightarrow> ctx \<Rightarrow> string \<Rightarrow> string \<Rightarrow> UserSpec \<Rightarrow> string \<Rightarrow> ('w, unit) repo_op" where
  "repo_SetPassword a c username password spec namespace =
     user_withService a c spec namespace (\<lambda>svc. check (User_UpdatePassword svc c username password) as_is (\<lambda>_. ret ()))"

definition repo_GetInstance :: "'w access \<Rightarrow> UserSpec \<Rightarrow> string \<Rightarrow> ('w, DatabaseInstance) op" where
  "repo_GetInstance a spec namespace =
     (case us_InstanceRef spec of
        None \<Rightarrow> fail (OtherError ''instanceRef not specified (use ResolveInstance for clusterInstanceRef)'' None)
      | Some ref \<Rightarrow> ac_Instance a (or_default (ir_Namespace ref) namespace) (ir_Name ref))"

definition repo_ResolveInstance :: "'w access \<Rightarrow> UserSpec \<Rightarrow> string \<Rightarrow> ('w, ResolvedInstance) op" where
  "repo_ResolveInstance a spec namespace = Resolve a (us_InstanceRef spec) (us_ClusterInstanceRef spec) namespace"

definition repo_GetEngine :: "'w access \<Rightarrow> UserSpec \<Rightarrow> string \<Rightarrow> ('w, string) op" where
  "repo_GetEngine a spec namespace = check (repo_ResolveInstance a spec namespace) as_is (\<lambda>resolved. ret (ri_Engine resolved))"

text \<open>
  \<open>ord\<close> is the iteration order of the map of roles. \<open>CorrectUserDrift\<close> returns \<open>None\<close> for a panic, which never
  happens (\<open>drift_correction_careful\<close>), so the last branch is dead.
\<close>

definition repo_DetectDrift ::
  "bool range_order \<Rightarrow> 'w access \<Rightarrow> ctx \<Rightarrow> UserSpec \<Rightarrow> string \<Rightarrow> bool \<Rightarrow> ('w, DriftResult) repo_op" where
  "repo_DetectDrift ord a c spec namespace allowDestructive =
     user_withService a c spec namespace (\<lambda>svc.
       DetectUserDrift ord \<lparr>dsv_adapter = svc_adapter svc, dsv_AllowDestructive = allowDestructive\<rparr> c (service_spec spec))"

definition repo_CorrectDrift ::
  "'w access \<Rightarrow> ctx \<Rightarrow> UserSpec \<Rightarrow> string \<Rightarrow> DriftResult \<Rightarrow> bool \<Rightarrow> ('w, CorrectionResult) repo_op" where
  "repo_CorrectDrift a c spec namespace driftResult allowDestructive =
     user_withService a c spec namespace (\<lambda>svc w.
       case CorrectUserDrift \<lparr>dsv_adapter = svc_adapter svc, dsv_AllowDestructive = allowDestructive\<rparr> c
              (service_spec spec) (dr_Diffs driftResult) w of
         Some (w', r) \<Rightarrow> (w', Inr r)
       | None \<Rightarrow> (w, Inl (OtherError ''panic'' None)))"

definition repo_EnsureServiceRole :: "'w access \<Rightarrow> ctx \<Rightarrow> string \<Rightarrow> UserSpec \<Rightarrow> string \<Rightarrow> ('w, unit) repo_op" where
  "repo_EnsureServiceRole a c roleName spec namespace =
     user_withService a c spec namespace (\<lambda>svc.
       check (ad_RoleExists (svc_adapter svc) c roleName) (\<lambda>e w. Errorf_w ''check service role existence: '' e) (\<lambda>exists.
         if exists then ret ()
         else ad_CreateRole (svc_adapter svc) c (empty_CreateRoleOptions\<lparr>cro_RoleName := roleName, cro_Login := False, cro_Inherit := True\<rparr>)))"

definition repo_CreateUserWithRole ::
  "'w access \<Rightarrow> ctx \<Rightarrow> string \<Rightarrow> string \<Rightarrow> string \<Rightarrow> UserSpec \<Rightarrow> string \<Rightarrow> ('w, unit) repo_op" where
  "repo_CreateUserWithRole a c username password roleName spec namespace =
     user_withService a c spec namespace (\<lambda>svc.
       check (ad_CreateUser (svc_adapter svc) c
                (empty_CreateUserOptions\<lparr>cuo_Username := username, cuo_Password := password, cuo_Login := True, cuo_Inherit := True\<rparr>))
         (\<lambda>e w. Errorf_w ''create user: '' e) (\<lambda>_.
         check (ad_GrantRole (svc_adapter svc) c username [roleName]) (\<lambda>e w. Errorf_w ''grant role: '' e) (\<lambda>_. ret ())))"

definition repo_DisableLogin :: "'w access \<Rightarrow> ctx \<Rightarrow> string \<Rightarrow> UserSpec \<Rightarrow> string \<Rightarrow> ('w, unit) repo_op" where
  "repo_DisableLogin a c username spec namespace = user_withService a c spec namespace (\<lambda>svc. User_DisableLogin svc c username)"

definition repo_GetOwnedObjects :: "'w access \<Rightarrow> ctx \<Rightarrow> string \<Rightarrow> UserSpec \<Rightarrow> string \<Rightarrow> ('w, OwnedObject list) repo_op" where
  "repo_GetOwnedObjects a c username spec namespace =
     user_withService a c spec namespace (\<lambda>svc.
       check (User_GetOwnedObjects svc c username) (\<lambda>e w. Errorf_w ''get owned objects: '' e) ret)"

section \<open>The handler\<close>

record 'w user_repo =
  rp_Create :: "UserSpec \<Rightarrow> string \<Rightarrow> string \<Rightarrow> ('w, UserResult) op"
  rp_Exists :: "string \<Rightarrow> UserSpec \<Rightarrow> string \<Rightarrow> ('w, bool) op"
  rp_Update :: "string \<Rightarrow> UserSpec \<Rightarrow> string \<Rightarrow> ('w, UserResult) op"
  rp_Delete :: "string \<Rightarrow> UserSpec \<Rightarrow> string \<Rightarrow> bool \<Rightarrow> ('w, unit) op"
  rp_SetPassword :: "string \<Rightarrow> string \<Rightarrow> UserSpec \<Rightarrow> string \<Rightarrow> ('w, unit) op"
  rp_GetInstance :: "UserSpec \<Rightarrow> string \<Rightarrow> ('w, DatabaseInstance) op"
  rp_ResolveInstance :: "UserSpec \<Rightarrow> string \<Rightarrow> ('w, ResolvedInstance) op"
  rp_GetEngine :: "UserSpec \<Rightarrow> string \<Rightarrow> ('w, string) op"
  rp_GetOwnedObjects :: "string \<Rightarrow> UserSpec \<Rightarrow> string \<Rightarrow> ('w, OwnedObject list) op"
  rp_DetectDrift :: "UserSpec \<Rightarrow> string \<Rightarrow> bool \<Rightarrow> ('w, DriftResult) op"
  rp_CorrectDrift :: "UserSpec \<Rightarrow> string \<Rightarrow> DriftResult \<Rightarrow> bool \<Rightarrow> ('w, CorrectionResult) op"
  rp_EnsureServiceRole :: "string \<Rightarrow> UserSpec \<Rightarrow> string \<Rightarrow> ('w, unit) op"
  rp_CreateUserWithRole :: "string \<Rightarrow> string \<Rightarrow> string \<Rightarrow> UserSpec \<Rightarrow> string \<Rightarrow> ('w, unit) op"
  rp_DisableLogin :: "string \<Rightarrow> UserSpec \<Rightarrow> string \<Rightarrow> ('w, unit) op"

text \<open>\<open>uh_FormatDate\<close> is \<^verbatim>\<open>Format("20060102")\<close>; the bus is optional, and publishing on it does not wait.\<close>

record 'w user_handler =
  uh_repo :: "'w user_repo"
  uh_secrets :: "'w secret_env"
  uh_eventBus :: "(BusEvent \<Rightarrow> 'w \<Rightarrow> 'w) option"
  uh_Now :: "'w \<Rightarrow> int"
  uh_FormatDate :: "int \<Rightarrow> string"

definition publish :: "'w user_handler \<Rightarrow> (int \<Rightarrow> BusEvent) \<Rightarrow> 'w \<Rightarrow> 'w" where
  "publish h event w = (case uh_eventBus h of None \<Rightarrow> w | Some bus \<Rightarrow> bus (event (uh_Now h w)) w)"

definition resolveInstanceName :: "UserSpec \<Rightarrow> string" where
  "resolveInstanceName spec =
     (case us_InstanceRef spec of
        Some ref \<Rightarrow> ir_Name ref
      | None \<Rightarrow> (case us_ClusterInstanceRef spec of Some ref \<Rightarrow> cir_Name ref | None \<Rightarrow> ''''))"

definition Handler_Create :: "'w user_handler \<Rightarrow> UserSpec \<Rightarrow> string \<Rightarrow> string \<Rightarrow> ('w, UserResult) op" where
  "Handler_Create h spec namespace password =
     (if us_Username spec = '''' then fail (OtherError ''username is required'' None)
      else if password = '''' then fail (OtherError ''password is required'' None)
      else
        check (rp_GetEngine (uh_repo h) spec namespace) (\<lambda>e w. Errorf_w ''get engine: '' e) (\<lambda>engine.
        check (rp_Exists (uh_repo h) (us_Username spec) spec namespace) (\<lambda>e w. Errorf_w ''check existence: '' e) (\<lambda>exists.
        if exists then ret \<lparr>ur_Created = False, ur_Updated = False, ur_SecretName = '''', ur_Message = ''user already exists''\<rparr>
        else
          check (rp_Create (uh_repo h) spec namespace password) (\<lambda>e w. Errorf_w ''create: '' e) (\<lambda>result w.
            (if ur_Created result
             then publish h (\<lambda>now. NewUserCreated now (us_Username spec) (resolveInstanceName spec) namespace (ur_SecretName result)) w
             else w, Inr result)))))"

definition Handler_Update :: "'w user_handler \<Rightarrow> string \<Rightarrow> UserSpec \<Rightarrow> string \<Rightarrow> ('w, UserResult) op" where
  "Handler_Update h username spec namespace =
     check (rp_Update (uh_repo h) username spec namespace) as_is (\<lambda>result w.
       if ur_Updated result
       then (let w1 = fst (rp_GetEngine (uh_repo h) spec namespace w)
             in (publish h (\<lambda>now. NewUserUpdated now username (resolveInstanceName spec) namespace [''settings'']) w1, Inr result))
       else (w, Inr result))"

definition Handler_Delete :: "'w user_handler \<Rightarrow> string \<Rightarrow> UserSpec \<Rightarrow> string \<Rightarrow> bool \<Rightarrow> ('w, unit) op" where
  "Handler_Delete h username spec namespace force w =
     check (rp_Delete (uh_repo h) username spec namespace force) (\<lambda>e w. Errorf_w ''delete: '' e) (\<lambda>_ w.
       (publish h (\<lambda>now. NewUserDeleted now username (resolveInstanceName spec) namespace) w, Inr ()))
       (fst (rp_GetEngine (uh_repo h) spec namespace w))"

definition RotatePassword :: "'w user_handler \<Rightarrow> string \<Rightarrow> UserSpec \<Rightarrow> string \<Rightarrow> ('w, unit) op" where
  "RotatePassword h username spec namespace =
     check (GeneratePassword (uh_secrets h) (us_PasswordSecret spec)) (\<lambda>e w. Errorf_w ''generate password: '' e) (\<lambda>newPassword.
     check (rp_SetPassword (uh_repo h) username newPassword spec namespace) (\<lambda>e w. Errorf_w ''set password: '' e) (\<lambda>_ w.
       (publish h (\<lambda>now. NewPasswordRotated now now username namespace '''' ''manual'') w, Inr ())))"

record RotationResult =
  rr_NewUsername :: string
  rr_NewPassword :: string
  rr_ServiceRole :: string
  rr_RequeueAfter :: duration

text \<open>\<^verbatim>\<open>strings.ReplaceAll\<close> for a nonempty \<^verbatim>\<open>old\<close>: occurrences from the left that do not overlap.\<close>

fun ReplaceAll_from :: "nat \<Rightarrow> string \<Rightarrow> string \<Rightarrow> string \<Rightarrow> string" where
  "ReplaceAll_from skip old new [] = []"
| "ReplaceAll_from (Suc skip) old new (x # xs) = ReplaceAll_from skip old new xs"
| "ReplaceAll_from 0 old new (x # xs) =
     (if HasPrefix (x # xs) old then new @ ReplaceAll_from (length old - 1) old new xs
      else x # ReplaceAll_from 0 old new xs)"

definition ReplaceAll :: "string \<Rightarrow> string \<Rightarrow> string \<Rightarrow> string" where
  "ReplaceAll s old new = ReplaceAll_from 0 old new s"

definition unix_seconds :: "int \<Rightarrow> int" where
  "unix_seconds now = now div Second"

definition generateRotatedUsername :: "'w user_handler \<Rightarrow> PasswordRotationConfig \<Rightarrow> string \<Rightarrow> int \<Rightarrow> string" where
  "generateRotatedUsername h rotCfg username now =
     (let pattern = or_default (rot_UserNaming rotCfg) ''{{.Username}}_{{.Date}}'';
          name = ReplaceAll pattern ''{{.Username}}'' username;
          name = ReplaceAll name ''{{.Date}}'' (uh_FormatDate h now);
          name = ReplaceAll name ''{{.Timestamp}}'' (FormatInt (unix_seconds now))
      in if length name > 63 then take 63 name else name)"

text \<open>\<open>rotCfg\<close> is \<^verbatim>\<open>*user.Spec.PasswordRotation\<close>, which the callers have checked.\<close>

definition service_role_name :: "PasswordRotationConfig \<Rightarrow> string \<Rightarrow> string" where
  "service_role_name rotCfg username =
     (case rot_ServiceRole rotCfg of
        Some r \<Rightarrow> or_default (src_Name r) (''svc_'' @ username)
      | None \<Rightarrow> ''svc_'' @ username)"

definition rotateRoleInheritance :: "'w user_handler \<Rightarrow> PasswordRotationConfig \<Rightarrow> DatabaseUser \<Rightarrow> ('w, RotationResult) op" where
  "rotateRoleInheritance h rotCfg user =
     (let spec = du_Spec user; namespace = om_namespace (du_meta user);
          serviceRoleName = service_role_name rotCfg (us_Username spec);
          autoCreate = (case rot_ServiceRole rotCfg of Some r \<Rightarrow> src_AutoCreate r | None \<Rightarrow> True)
      in check (if autoCreate then rp_EnsureServiceRole (uh_repo h) serviceRoleName spec namespace else ret ())
           (\<lambda>e w. Errorf_w ''ensure service role: '' e) (\<lambda>_ w.
           let newUsername = generateRotatedUsername h rotCfg (us_Username spec) (uh_Now h w)
           in check (GeneratePassword (uh_secrets h) (us_PasswordSecret spec)) (\<lambda>e w. Errorf_w ''generate password: '' e) (\<lambda>newPassword.
              check (rp_CreateUserWithRole (uh_repo h) newUsername newPassword serviceRoleName spec namespace)
                (\<lambda>e w. Errorf_w ''create rotated user: '' e) (\<lambda>_ w.
                (fst (rp_GetEngine (uh_repo h) spec namespace
                        (publish h (\<lambda>now. NewPasswordRotated now now newUsername namespace '''' ''scheduled'') w)),
                 Inr \<lparr>rr_NewUsername = newUsername, rr_NewPassword = newPassword, rr_ServiceRole = serviceRoleName, rr_RequeueAfter = 0\<rparr>))) w))"

definition RotateWithStrategy :: "'w user_handler \<Rightarrow> PasswordRotationConfig \<Rightarrow> DatabaseUser \<Rightarrow> ('w, RotationResult) op" where
  "RotateWithStrategy h rotCfg user =
     (case rot_Strategy rotCfg of
        RotationStrategyUnset \<Rightarrow> rotateRoleInheritance h rotCfg user
      | RotationStrategyRoleInheritance \<Rightarrow> rotateRoleInheritance h rotCfg user
      | strategy \<Rightarrow> fail (OtherError (''unsupported rotation strategy: '' @ strategy_text strategy) None))"

definition default_OldUserPolicy :: OldUserPolicy where
  "default_OldUserPolicy = \<lparr>oup_Action = OldUserActionDelete, oup_GracePeriodDays = 7, oup_OwnershipCheck = True\<rparr>"

definition blocked_entry :: "RotationStatus \<Rightarrow> PendingDeletionInfo \<Rightarrow> OwnedObject list \<Rightarrow> PendingDeletionInfo" where
  "blocked_entry rotation pending owned =
     pending\<lparr>pd_Status := ''blocked'', pd_BlockedReason := ''owns '' @ FormatInt (int (length owned)) @ '' objects'',
             pd_OwnedObjects := owned,
             pd_Resolution := ''REASSIGN OWNED BY '' @ pd_User pending @ '' TO '' @ rs_ServiceRole rotation\<rparr>"

text \<open>One round of the loop: the entry as it stays in the list, or nothing.\<close>

definition cleanup_entry ::
  "'w user_handler \<Rightarrow> DatabaseUser \<Rightarrow> RotationStatus \<Rightarrow> OldUserPolicy \<Rightarrow> int \<Rightarrow> PendingDeletionInfo \<Rightarrow> 'w \<Rightarrow> 'w \<times> PendingDeletionInfo option" where
  "cleanup_entry h user rotation policy now pending w =
     (let spec = du_Spec user; namespace = om_namespace (du_meta user);
          delete = (\<lambda>w. case rp_Delete (uh_repo h) (pd_User pending) spec namespace True w of
                     (w', Inl e) \<Rightarrow> (w', Some pending) | (w', Inr _) \<Rightarrow> (w', None))
      in if pd_Status pending = ''deleted'' \<or> pd_Status pending = ''disabled'' then (w, None)
         else if (case pd_DeleteAfter pending of Some t \<Rightarrow> now < t | None \<Rightarrow> False) then (w, Some pending)
         else case oup_Action policy of
           OldUserActionDelete \<Rightarrow>
             if oup_OwnershipCheck policy then
               (case rp_GetOwnedObjects (uh_repo h) (pd_User pending) spec namespace w of
                  (w1, Inl e) \<Rightarrow> (w1, Some pending)
                | (w1, Inr owned) \<Rightarrow> if owned \<noteq> [] then (w1, Some (blocked_entry rotation pending owned)) else delete w1)
             else delete w
         | OldUserActionDisable \<Rightarrow>
             (case rp_DisableLogin (uh_repo h) (pd_User pending) spec namespace w of
                (w', Inl e) \<Rightarrow> (w', Some pending) | (w', Inr _) \<Rightarrow> (w', None))
         | _ \<Rightarrow> (w, None))"

fun cleanup_pending ::
  "'w user_handler \<Rightarrow> DatabaseUser \<Rightarrow> RotationStatus \<Rightarrow> OldUserPolicy \<Rightarrow> int \<Rightarrow> PendingDeletionInfo list \<Rightarrow> 'w \<Rightarrow> 'w \<times> PendingDeletionInfo list" where
  "cleanup_pending h user rotation policy now [] w = (w, [])"
| "cleanup_pending h user rotation policy now (p # ps) w =
     (let (w1, kept) = cleanup_entry h user rotation policy now p w;
          (w2, remaining) = cleanup_pending h user rotation policy now ps w1
      in (w2, (case kept of None \<Rightarrow> remaining | Some q \<Rightarrow> q # remaining)))"

definition with_rotation :: "RotationStatus \<Rightarrow> DatabaseUser \<Rightarrow> DatabaseUser" where
  "with_rotation r user = user\<lparr>du_Status := (du_Status user)\<lparr>ust_Rotation := Some r\<rparr>\<rparr>"

definition CleanupDeprecatedUsers :: "'w user_handler \<Rightarrow> PasswordRotationConfig \<Rightarrow> DatabaseUser \<Rightarrow> 'w \<Rightarrow> 'w \<times> DatabaseUser" where
  "CleanupDeprecatedUsers h rotCfg user w =
     (let policy = (case rot_OldUserPolicy rotCfg of None \<Rightarrow> default_OldUserPolicy | Some p \<Rightarrow> p)
      in case ust_Rotation (du_Status user) of
           None \<Rightarrow> (w, user)
         | Some rotation \<Rightarrow>
             (let (w', remaining) = cleanup_pending h user rotation policy (uh_Now h w) (rs_PendingDeletion rotation) w
              in (w', with_rotation (rotation\<lparr>rs_PendingDeletion := remaining\<rparr>) user)))"

definition Handler_DetectDrift :: "'w user_handler \<Rightarrow> UserSpec \<Rightarrow> string \<Rightarrow> bool \<Rightarrow> ('w, DriftResult) op" where
  "Handler_DetectDrift h spec namespace allowDestructive =
     check (rp_DetectDrift (uh_repo h) spec namespace allowDestructive) (\<lambda>e w. Errorf_w ''detect drift: '' e) ret"

definition Handler_CorrectDrift :: "'w user_handler \<Rightarrow> UserSpec \<Rightarrow> string \<Rightarrow> DriftResult \<Rightarrow> bool \<Rightarrow> ('w, CorrectionResult) op" where
  "Handler_CorrectDrift h spec namespace driftResult allowDestructive =
     check (rp_CorrectDrift (uh_repo h) spec namespace driftResult allowDestructive) (\<lambda>e w. Errorf_w ''correct drift: '' e) ret"

definition resolution_role :: "UserSpec \<Rightarrow> string \<Rightarrow> string" where
  "resolution_role spec username =
     (case us_PasswordRotation spec of
        None \<Rightarrow> username @ ''_service''
      | Some rotCfg \<Rightarrow>
          (case rot_ServiceRole rotCfg of None \<Rightarrow> username @ ''_service'' | Some r \<Rightarrow> or_default (src_Name r) (username @ ''_service'')))"

definition Handler_GetOwnedObjects :: "'w user_handler \<Rightarrow> string \<Rightarrow> UserSpec \<Rightarrow> string \<Rightarrow> ('w, OwnershipCheckResult) op" where
  "Handler_GetOwnedObjects h username spec namespace =
     check (rp_GetOwnedObjects (uh_repo h) username spec namespace) (\<lambda>e w. Errorf_w ''get owned objects: '' e) (\<lambda>repoObjects.
       ret \<lparr>ocr_OwnsObjects = (repoObjects \<noteq> []), ocr_OwnedObjects = repoObjects, ocr_BlocksDeletion = (repoObjects \<noteq> []),
            ocr_Resolution = (if repoObjects \<noteq> [] then ''REASSIGN OWNED BY '' @ username @ '' TO '' @ resolution_role spec username else '''')\<rparr>)"

section \<open>Recorded runs of the handler\<close>

text \<open>The calls that change the server or the cluster.\<close>

datatype user_op =
    OpCreate string
  | OpUpdate string
  | OpDelete string bool
  | OpSetPassword string string
  | OpCorrectDrift DriftResult bool
  | OpEnsureServiceRole string
  | OpCreateUserWithRole string string string
  | OpDisableLogin string

datatype user_call =
    RepoCall user_op UserSpec string "go_error option"
  | SecretCreate Secret "go_error option"
  | SecretUpdate Secret "go_error option"
  | SecretDelete Secret "go_error option"
  | UserUpdate DatabaseUser "go_error option"
  | UserStatus DatabaseUser "go_error option"
  | GrantDelete string string "go_error option"

definition watched_repo :: "'w user_repo \<Rightarrow> ('w \<times> user_call list) user_repo" where
  "watched_repo r =
     \<lparr>rp_Create = (\<lambda>spec ns p. logged (RepoCall (OpCreate p) spec ns) (rp_Create r spec ns p)),
      rp_Exists = (\<lambda>u spec ns. unlogged (rp_Exists r u spec ns)),
      rp_Update = (\<lambda>u spec ns. logged (RepoCall (OpUpdate u) spec ns) (rp_Update r u spec ns)),
      rp_Delete = (\<lambda>u spec ns f. logged (RepoCall (OpDelete u f) spec ns) (rp_Delete r u spec ns f)),
      rp_SetPassword = (\<lambda>u p spec ns. logged (RepoCall (OpSetPassword u p) spec ns) (rp_SetPassword r u p spec ns)),
      rp_GetInstance = (\<lambda>spec ns. unlogged (rp_GetInstance r spec ns)),
      rp_ResolveInstance = (\<lambda>spec ns. unlogged (rp_ResolveInstance r spec ns)),
      rp_GetEngine = (\<lambda>spec ns. unlogged (rp_GetEngine r spec ns)),
      rp_GetOwnedObjects = (\<lambda>u spec ns. unlogged (rp_GetOwnedObjects r u spec ns)),
      rp_DetectDrift = (\<lambda>spec ns al. unlogged (rp_DetectDrift r spec ns al)),
      rp_CorrectDrift = (\<lambda>spec ns d al. logged (RepoCall (OpCorrectDrift d al) spec ns) (rp_CorrectDrift r spec ns d al)),
      rp_EnsureServiceRole = (\<lambda>role spec ns. logged (RepoCall (OpEnsureServiceRole role) spec ns) (rp_EnsureServiceRole r role spec ns)),
      rp_CreateUserWithRole = (\<lambda>u p role spec ns.
        logged (RepoCall (OpCreateUserWithRole u p role) spec ns) (rp_CreateUserWithRole r u p role spec ns)),
      rp_DisableLogin = (\<lambda>u spec ns. logged (RepoCall (OpDisableLogin u) spec ns) (rp_DisableLogin r u spec ns))\<rparr>"

definition watched_secrets :: "'w secret_env \<Rightarrow> ('w \<times> user_call list) secret_env" where
  "watched_secrets m =
     \<lparr>sk_Get = (\<lambda>ns n. unlogged (sk_Get m ns n)), sk_Create = (\<lambda>s. logged (SecretCreate s) (sk_Create m s)),
      sk_Update = (\<lambda>s. logged (SecretUpdate s) (sk_Update m s)), sk_Delete = (\<lambda>s. logged (SecretDelete s) (sk_Delete m s)),
      sk_GetConfigMap = (\<lambda>ns n. unlogged (sk_GetConfigMap m ns n)), sk_IsNotFound = sk_IsNotFound m,
      sk_Int = (\<lambda>n. unlogged (sk_Int m n)), sk_Render = sk_Render m\<rparr>"

definition watched_handler :: "'w user_handler \<Rightarrow> ('w \<times> user_call list) user_handler" where
  "watched_handler h =
     \<lparr>uh_repo = watched_repo (uh_repo h), uh_secrets = watched_secrets (uh_secrets h),
      uh_eventBus = map_option (\<lambda>bus ev wt. (bus ev (fst wt), snd wt)) (uh_eventBus h),
      uh_Now = (\<lambda>wt. uh_Now h (fst wt)), uh_FormatDate = uh_FormatDate h\<rparr>"

lemma watched_handler_simps [simp]:
  "uh_repo (watched_handler h) = watched_repo (uh_repo h)"
  "uh_secrets (watched_handler h) = watched_secrets (uh_secrets h)"
  "uh_Now (watched_handler h) s = uh_Now h (fst s)"
  "uh_FormatDate (watched_handler h) = uh_FormatDate h"
  by (simp_all add: watched_handler_def)

lemma watched_secrets_simps [simp]:
  "sk_Get (watched_secrets m) ns n = unlogged (sk_Get m ns n)"
  "sk_Create (watched_secrets m) s = logged (SecretCreate s) (sk_Create m s)"
  "sk_Update (watched_secrets m) s = logged (SecretUpdate s) (sk_Update m s)"
  "sk_IsNotFound (watched_secrets m) = sk_IsNotFound m"
  "sk_Int (watched_secrets m) i = unlogged (sk_Int m i)"
  "sk_Render (watched_secrets m) = sk_Render m"
  by (simp_all add: watched_secrets_def)

lemma watched_repo_simps [simp]:
  "rp_Create (watched_repo r) spec ns p = logged (RepoCall (OpCreate p) spec ns) (rp_Create r spec ns p)"
  "rp_Exists (watched_repo r) u spec ns = unlogged (rp_Exists r u spec ns)"
  "rp_Update (watched_repo r) u spec ns = logged (RepoCall (OpUpdate u) spec ns) (rp_Update r u spec ns)"
  "rp_Delete (watched_repo r) u spec ns f = logged (RepoCall (OpDelete u f) spec ns) (rp_Delete r u spec ns f)"
  "rp_SetPassword (watched_repo r) u p spec ns = logged (RepoCall (OpSetPassword u p) spec ns) (rp_SetPassword r u p spec ns)"
  "rp_ResolveInstance (watched_repo r) spec ns = unlogged (rp_ResolveInstance r spec ns)"
  "rp_GetEngine (watched_repo r) spec ns = unlogged (rp_GetEngine r spec ns)"
  "rp_GetOwnedObjects (watched_repo r) u spec ns = unlogged (rp_GetOwnedObjects r u spec ns)"
  "rp_DetectDrift (watched_repo r) spec ns al = unlogged (rp_DetectDrift r spec ns al)"
  "rp_CorrectDrift (watched_repo r) spec ns d al = logged (RepoCall (OpCorrectDrift d al) spec ns) (rp_CorrectDrift r spec ns d al)"
  "rp_EnsureServiceRole (watched_repo r) role spec ns =
     logged (RepoCall (OpEnsureServiceRole role) spec ns) (rp_EnsureServiceRole r role spec ns)"
  "rp_CreateUserWithRole (watched_repo r) u p role spec ns =
     logged (RepoCall (OpCreateUserWithRole u p role) spec ns) (rp_CreateUserWithRole r u p role spec ns)"
  "rp_DisableLogin (watched_repo r) u spec ns = logged (RepoCall (OpDisableLogin u) spec ns) (rp_DisableLogin r u spec ns)"
  by (simp_all add: watched_repo_def)

lemma publish_watched [simp]: "publish (watched_handler h) ev (w, t) = (publish h ev w, t)"
  by (simp add: publish_def watched_handler_def split: option.split)

lemma records_publish [simp]:
  "records (\<lambda>s. (publish (watched_handler h) ev s, x)) w Q \<longleftrightarrow> Q [] (publish h ev w) x"
  by (auto simp: records_def)

text \<open>A draw of random bytes makes no call, so a generated password is one the plain source can give.\<close>

lemma random_chars_watched:
  "random_chars (watched_secrets m) charset n (w, t) = (case random_chars m charset n w of (w', r) \<Rightarrow> ((w', t), r))"
  by (induction n arbitrary: w) (auto simp: check_def split: prod.split sum.split)

lemma GeneratePassword_watched [simp]:
  "GeneratePassword (watched_secrets m) opts = unlogged (GeneratePassword m opts)"
  by (rule ext) (auto simp: GeneratePassword_def random_chars_watched split: prod.split)

section \<open>Clean-up of rotated users\<close>

definition finished :: "PendingDeletionInfo \<Rightarrow> bool" where
  "finished p \<longleftrightarrow> pd_Status p = ''deleted'' \<or> pd_Status p = ''disabled''"

definition due :: "int \<Rightarrow> PendingDeletionInfo \<Rightarrow> bool" where
  "due now p \<longleftrightarrow> \<not> finished p \<and> (case pd_DeleteAfter p of None \<Rightarrow> True | Some t \<Rightarrow> t \<le> now)"

text \<open>A call that the clean-up of an entry may make.\<close>

definition cleanup_call :: "'w user_handler \<Rightarrow> DatabaseUser \<Rightarrow> OldUserPolicy \<Rightarrow> PendingDeletionInfo \<Rightarrow> user_call \<Rightarrow> bool" where
  "cleanup_call h user policy p c \<longleftrightarrow>
     (let spec = du_Spec user; ns = om_namespace (du_meta user)
      in (\<exists>e. c = RepoCall (OpDelete (pd_User p) True) spec ns e \<and> oup_Action policy = OldUserActionDelete \<and>
              (oup_OwnershipCheck policy \<longrightarrow> (\<exists>w1 w2. rp_GetOwnedObjects (uh_repo h) (pd_User p) spec ns w1 = (w2, Inr [])))) \<or>
         (\<exists>e. c = RepoCall (OpDisableLogin (pd_User p)) spec ns e \<and> oup_Action policy = OldUserActionDisable))"

definition same_entry :: "PendingDeletionInfo \<Rightarrow> PendingDeletionInfo \<Rightarrow> bool" where
  "same_entry p q \<longleftrightarrow> pd_User q = pd_User p \<and> pd_DeleteAfter q = pd_DeleteAfter p \<and> pd_DeprecatedAt q = pd_DeprecatedAt p"

text \<open>What becomes of one entry: the calls made for it and what stays in the list.\<close>

definition entry_outcome ::
  "'w user_handler \<Rightarrow> DatabaseUser \<Rightarrow> OldUserPolicy \<Rightarrow> int \<Rightarrow> PendingDeletionInfo \<Rightarrow> user_call list \<Rightarrow> PendingDeletionInfo option \<Rightarrow> bool" where
  "entry_outcome h user policy now p u kept \<longleftrightarrow>
     (let spec = du_Spec user; ns = om_namespace (du_meta user)
      in (\<not> due now p \<longrightarrow> u = [] \<and> kept = (if finished p then None else Some p)) \<and>
         (\<forall>c \<in> set u. cleanup_call h user policy p c) \<and>
         (\<forall>q. kept = Some q \<longrightarrow> same_entry p q \<and> (\<forall>op e. RepoCall op spec ns e \<in> set u \<longrightarrow> e \<noteq> None)) \<and>
         (kept = None \<longrightarrow>
            finished p \<or> oup_Action policy \<notin> {OldUserActionDelete, OldUserActionDisable} \<or>
            u = [RepoCall (OpDelete (pd_User p) True) spec ns None] \<or> u = [RepoCall (OpDisableLogin (pd_User p)) spec ns None]))"

lemma error_of_None [simp]: "error_of r = None \<longleftrightarrow> (\<exists>x. r = Inr x)"
  by (simp add: error_of_def split: sum.split)

lemma cleanup_entry_outcome:
  "records (cleanup_entry (watched_handler h) user rotation policy now p) w (\<lambda>u w' kept. entry_outcome h user policy now p u kept)"
  unfolding records_def cleanup_entry_def
  by (auto simp: entry_outcome_def cleanup_call_def due_def finished_def same_entry_def blocked_entry_def Let_def
      split: OldUserAction.split prod.split sum.split option.splits)

text \<open>The loop: every entry is treated once, in order.\<close>

definition cleanup_outcome ::
  "'w user_handler \<Rightarrow> DatabaseUser \<Rightarrow> OldUserPolicy \<Rightarrow> int \<Rightarrow> PendingDeletionInfo list \<Rightarrow> user_call list \<Rightarrow> PendingDeletionInfo list \<Rightarrow> bool" where
  "cleanup_outcome h user policy now ps u remaining \<longleftrightarrow>
     (let spec = du_Spec user; ns = om_namespace (du_meta user)
      in (\<forall>c \<in> set u. \<exists>p \<in> set ps. due now p \<and> cleanup_call h user policy p c) \<and>
         (\<forall>p \<in> set ps. \<not> finished p \<and> \<not> due now p \<longrightarrow> p \<in> set remaining) \<and>
         subseq (map pd_User remaining) (map pd_User ps) \<and>
         (\<forall>q \<in> set remaining. \<exists>p \<in> set ps. \<not> finished p \<and> same_entry p q) \<and>
         (\<forall>p \<in> set ps. \<not> finished p \<longrightarrow>
            (\<exists>q \<in> set remaining. same_entry p q) \<or> oup_Action policy \<notin> {OldUserActionDelete, OldUserActionDisable} \<or>
            RepoCall (OpDelete (pd_User p) True) spec ns None \<in> set u \<or> RepoCall (OpDisableLogin (pd_User p)) spec ns None \<in> set u))"

lemma same_entry_refl [simp]: "same_entry p p"
  by (simp add: same_entry_def)

lemma entry_not_due: "entry_outcome h user policy now p u kept \<Longrightarrow> \<not> due now p \<Longrightarrow> u = [] \<and> kept = (if finished p then None else Some p)"
  by (simp add: entry_outcome_def Let_def)

lemma entry_kept: "entry_outcome h user policy now p u (Some q) \<Longrightarrow> same_entry p q \<and> \<not> finished p"
  by (cases "due now p") (auto simp: entry_outcome_def due_def Let_def split: if_splits)

lemma cleanup_outcome_Cons:
  assumes e: "entry_outcome h user policy now p u1 kept" and o: "cleanup_outcome h user policy now ps u2 remaining"
  shows "cleanup_outcome h user policy now (p # ps) (u1 @ u2) (case kept of None \<Rightarrow> remaining | Some q \<Rightarrow> q # remaining)"
proof (cases kept)
  case None
  have calls: "c \<in> set u1 \<Longrightarrow> due now p \<and> cleanup_call h user policy p c" for c
    using e entry_not_due [OF e] by (cases "due now p") (auto simp: entry_outcome_def Let_def)
  show ?thesis using None e o calls entry_not_due [OF e]
    unfolding cleanup_outcome_def entry_outcome_def Let_def
    by (auto split: if_splits)
next
  case (Some q)
  have calls: "c \<in> set u1 \<Longrightarrow> due now p \<and> cleanup_call h user policy p c" for c
    using e entry_not_due [OF e] by (cases "due now p") (auto simp: entry_outcome_def Let_def)
  moreover have "same_entry p q" "\<not> finished p" using entry_kept e Some by blast+
  moreover have "pd_User q = pd_User p" using calculation by (simp add: same_entry_def)
  ultimately show ?thesis using Some o entry_not_due [OF e]
    unfolding cleanup_outcome_def Let_def by auto
qed

lemma cleanup_pending_outcome:
  "records (cleanup_pending (watched_handler h) user rotation policy now ps) w (\<lambda>u w' remaining. cleanup_outcome h user policy now ps u remaining)"
proof (induction ps arbitrary: w)
  case Nil
  then show ?case by (simp add: records_def cleanup_outcome_def)
next
  case (Cons p ps)
  let ?entry = "cleanup_entry (watched_handler h) user rotation policy now p"
  let ?rest = "cleanup_pending (watched_handler h) user rotation policy now ps"
  have "records (\<lambda>s. case ?entry s of (s1, kept) \<Rightarrow> (\<lambda>s1. case ?rest s1 of (s2, remaining) \<Rightarrow>
      (\<lambda>s2. (s2, case kept of None \<Rightarrow> remaining | Some q \<Rightarrow> q # remaining)) s2) s1) w
      (\<lambda>u w' remaining. cleanup_outcome h user policy now (p # ps) u remaining)"
    by (intro records_seq records_mono [OF cleanup_entry_outcome] records_mono [OF Cons.IH])
      (simp add: cleanup_outcome_Cons)
  then show ?case by (simp add: records_def Let_def)
qed

lemma CleanupDeprecatedUsers_run:
  fixes rotCfg :: PasswordRotationConfig
  assumes rotation: "ust_Rotation (du_Status user) = Some rotation"
  defines "policy \<equiv> case rot_OldUserPolicy rotCfg of None \<Rightarrow> default_OldUserPolicy | Some p \<Rightarrow> p"
  shows "\<exists>w' u remaining.
    CleanupDeprecatedUsers (watched_handler h) rotCfg user (w, t) =
      ((w', t @ u), with_rotation (rotation\<lparr>rs_PendingDeletion := remaining\<rparr>) user) \<and>
    cleanup_outcome h user policy (uh_Now h w) (rs_PendingDeletion rotation) u remaining"
proof -
  obtain u w' remaining where
    "cleanup_pending (watched_handler h) user rotation policy (uh_Now h w) (rs_PendingDeletion rotation) (w, t) = ((w', t @ u), remaining)"
    "cleanup_outcome h user policy (uh_Now h w) (rs_PendingDeletion rotation) u remaining"
    using cleanup_pending_outcome by (rule recordsE)
  then show ?thesis using rotation by (auto simp: CleanupDeprecatedUsers_def policy_def)
qed

text \<open>
  C20: clean-up after rotations. Users are dropped (with the delete policy) or stripped of their login
  (with the disable policy) only if they are listed, their grace period has ended and, where the policy
  asks for the ownership check, the server has said that they own nothing. Entries that are not due stay
  as they are, the list only shrinks and keeps its order, and an entry leaves it only when its call
  succeeded, when it was finished before, or when the policy does nothing with old users.
\<close>

theorem cleanup_exact:
  fixes rotCfg :: PasswordRotationConfig
  assumes rotation: "ust_Rotation (du_Status user) = Some rotation"
  defines "policy \<equiv> case rot_OldUserPolicy rotCfg of None \<Rightarrow> default_OldUserPolicy | Some p \<Rightarrow> p"
  shows "\<exists>w' u remaining.
    CleanupDeprecatedUsers (watched_handler h) rotCfg user (w, t) =
      ((w', t @ u), with_rotation (rotation\<lparr>rs_PendingDeletion := remaining\<rparr>) user) \<and>
    cleanup_outcome h user policy (uh_Now h w) (rs_PendingDeletion rotation) u remaining"
  unfolding policy_def by (rule CleanupDeprecatedUsers_run [OF rotation])

lemma with_rotation_simps [simp]:
  "du_Spec (with_rotation r user) = du_Spec user" "du_meta (with_rotation r user) = du_meta user"
  "ust_Rotation (du_Status (with_rotation r user)) = Some r" "with_rotation r (with_rotation q user) = with_rotation r user"
  by (simp_all add: with_rotation_def)

lemma cleanup_outcome_rotation [simp]: "cleanup_outcome h (with_rotation r user) = cleanup_outcome h user"
  by (simp add: cleanup_outcome_def cleanup_call_def fun_eq_iff)

section \<open>Names of rotated users\<close>

lemma ReplaceAll_skip:
  "c \<notin> set s \<Longrightarrow> ReplaceAll_from 0 (c # old) new (s @ rest) = s @ ReplaceAll_from 0 (c # old) new rest"
  by (induction s) (auto simp: HasPrefix_def)

lemma ReplaceAll_absent: "c \<notin> set s \<Longrightarrow> ReplaceAll_from 0 (c # old) new s = s"
  using ReplaceAll_skip [of c s old new "[]"] by simp

lemma ReplaceAll_jump: "ReplaceAll_from (length s) old new (s @ rest) = ReplaceAll_from 0 old new rest"
  by (induction s) auto

lemma ReplaceAll_first:
  "ReplaceAll_from 0 (c # old) new ((c # old) @ rest) = new @ ReplaceAll_from 0 (c # old) new rest"
  using ReplaceAll_jump [of old "c # old" new rest] by (simp add: HasPrefix_def)

text \<open>
  Names of rotated users. A name has at most 63 bytes. With the default pattern it is the user name,
  an underscore and the date, cut to 63 bytes, so two rotations on one day produce the same name, and a
  user name of 62 bytes or more produces the same name forever.
\<close>

theorem rotated_username:
  "length (generateRotatedUsername h rotCfg username now) \<le> 63 \<and>
   (rot_UserNaming rotCfg = '''' \<and> CHR ''{'' \<notin> set username \<and> (\<forall>n. CHR ''{'' \<notin> set (uh_FormatDate h n)) \<longrightarrow>
      generateRotatedUsername h rotCfg username now = take 63 (username @ ''_'' @ uh_FormatDate h now) \<and>
      (\<forall>later. uh_FormatDate h later = uh_FormatDate h now \<or> 62 \<le> length username \<longrightarrow>
         generateRotatedUsername h rotCfg username later = generateRotatedUsername h rotCfg username now))"
proof -
  have name: "generateRotatedUsername h rotCfg username n = take 63 (username @ ''_'' @ uh_FormatDate h n)"
    if "rot_UserNaming rotCfg = ''''" "CHR ''{'' \<notin> set username" "\<forall>n. CHR ''{'' \<notin> set (uh_FormatDate h n)" for n
  proof -
    have 1: "ReplaceAll ''{{.Username}}_{{.Date}}'' ''{{.Username}}'' username = username @ ''_{{.Date}}''"
      by (simp add: ReplaceAll_def HasPrefix_def)
    have 2: "ReplaceAll (username @ ''_{{.Date}}'') ''{{.Date}}'' d = username @ ''_'' @ d" for d
      using ReplaceAll_skip [OF that(2), of "''{.Date}}''" d "''_{{.Date}}''"] by (simp add: ReplaceAll_def HasPrefix_def)
    have 3: "ReplaceAll (username @ ''_'' @ uh_FormatDate h n) ''{{.Timestamp}}'' x = username @ ''_'' @ uh_FormatDate h n" for x
      unfolding ReplaceAll_def by (rule ReplaceAll_absent) (use that in auto)
    show ?thesis by (simp add: generateRotatedUsername_def or_default_def that(1) 1 2 [simplified] 3 [simplified] Let_def)
  qed
  have cut: "take 63 (username @ ''_'' @ d) = take 63 (username @ ''_'')" if "62 \<le> length username" for d
    using that by (simp add: take_Cons')
  have short: "length (generateRotatedUsername h rotCfg username now) \<le> 63"
    by (simp only: generateRotatedUsername_def Let_def) simp
  show ?thesis
  proof (intro conjI impI allI short; elim conjE)
    fix later
    assume default: "rot_UserNaming rotCfg = ''''" "CHR ''{'' \<notin> set username" "\<forall>n. CHR ''{'' \<notin> set (uh_FormatDate h n)"
    show "generateRotatedUsername h rotCfg username now = take 63 (username @ ''_'' @ uh_FormatDate h now)"
      by (rule name [OF default])
    assume "uh_FormatDate h later = uh_FormatDate h now \<or> 62 \<le> length username"
    then show "generateRotatedUsername h rotCfg username later = generateRotatedUsername h rotCfg username now"
      by (elim disjE) (simp_all only: name [OF default] cut)
  qed
qed

section \<open>Examples\<close>

text \<open>A server whose state is its list of users.\<close>

definition repo_x :: "string list user_repo" where
  "repo_x =
     \<lparr>rp_Create = (\<lambda>spec ns p us. (us_Username spec # us, Inr \<lparr>ur_Created = True, ur_Updated = False, ur_SecretName = '''', ur_Message = ''''\<rparr>)),
      rp_Exists = (\<lambda>u spec ns us. (us, Inr (u \<in> set us))),
      rp_Update = (\<lambda>u spec ns. ret \<lparr>ur_Created = False, ur_Updated = True, ur_SecretName = '''', ur_Message = ''''\<rparr>),
      rp_Delete = (\<lambda>u spec ns f us. (removeAll u us, Inr ())), rp_SetPassword = (\<lambda>u p spec ns. ret ()),
      rp_GetInstance = (\<lambda>spec ns. fail ErrNotFound), rp_ResolveInstance = (\<lambda>spec ns. fail ErrNotFound),
      rp_GetEngine = (\<lambda>spec ns. ret ''postgres''), rp_GetOwnedObjects = (\<lambda>u spec ns. ret []),
      rp_DetectDrift = (\<lambda>spec ns al. fail ErrNotFound), rp_CorrectDrift = (\<lambda>spec ns d al. fail ErrNotFound),
      rp_EnsureServiceRole = (\<lambda>r spec ns. ret ()), rp_CreateUserWithRole = (\<lambda>u p r spec ns us. (u # us, Inr ())),
      rp_DisableLogin = (\<lambda>u spec ns. ret ())\<rparr>"

definition secrets_x :: "string list secret_env" where
  "secrets_x =
     \<lparr>sk_Get = (\<lambda>_ _. fail ErrNotFound), sk_Create = ret, sk_Update = ret, sk_Delete = (\<lambda>_. ret ()),
      sk_GetConfigMap = (\<lambda>_ _. fail ErrNotFound), sk_IsNotFound = (\<lambda>e. e = ErrNotFound), sk_Int = (\<lambda>n. ret 0), sk_Render = (\<lambda>_ t _. Inr t)\<rparr>"

definition handler_x :: "string list user_handler" where
  "handler_x =
     \<lparr>uh_repo = repo_x, uh_secrets = secrets_x, uh_eventBus = None, uh_Now = (\<lambda>_. 100), uh_FormatDate = (\<lambda>_. ''20260101'')\<rparr>"

definition rotation_config_x :: PasswordRotationConfig where
  "rotation_config_x =
     \<lparr>rot_Enabled = True, rot_Schedule = ''@daily'', rot_MaxAge = '''', rot_Strategy = RotationStrategyRoleInheritance, rot_ServiceRole = None,
      rot_UserNaming = '''', rot_OldUserPolicy = Some \<lparr>oup_Action = OldUserActionDelete, oup_GracePeriodDays = 3, oup_OwnershipCheck = True\<rparr>\<rparr>"

definition pending_x :: "string \<Rightarrow> int \<Rightarrow> PendingDeletionInfo" where
  "pending_x u due_at = \<lparr>pd_User = u, pd_DeprecatedAt = Some 0, pd_DeleteAfter = Some due_at, pd_Status = ''pending'', pd_BlockedReason = '''',
     pd_OwnedObjects = [], pd_Resolution = ''''\<rparr>"

definition rotation_x :: RotationStatus where
  "rotation_x = \<lparr>rs_Enabled = True, rs_Strategy = RotationStrategyRoleInheritance, rs_LastRotatedAt = Some 50, rs_NextRotationAt = None,
     rs_ActiveUser = ''app_2'', rs_ServiceRole = ''svc_app'', rs_PendingDeletion = [pending_x ''app_0'' 90, pending_x ''app_1'' 200]\<rparr>"

definition user_x :: "PasswordRotationConfig option \<Rightarrow> string go_map \<Rightarrow> DatabaseUser" where
  "user_x rot annotations =
     \<lparr>du_meta = \<lparr>om_name = ''app'', om_namespace = ''prod'', om_uid = '''', om_labels = None, om_annotations = Some annotations,
        om_ownerReferences = [], om_creationTimestamp = 0, om_deletionTimestamp = Some 5, om_finalizers = [''dbops.dbprovision.io/user-protection'']\<rparr>,
      du_Spec = \<lparr>us_Username = ''app'', us_Roles = [], us_Postgres = None, us_MySQL = None,
        us_InstanceRef = None, us_ClusterInstanceRef = None, us_PasswordSecret = None, us_ExistingPasswordSecret = None,
        us_PasswordRotation = rot, us_DriftPolicy = None\<rparr>,
      du_Status = \<lparr>ust_Phase = PhaseReady, ust_ReconcileID = '''', ust_LastReconcileTime = None, ust_Message = '''', ust_Secret = None,
        ust_Rotation = Some rotation_x, ust_OwnershipBlock = None, ust_Drift = None, ust_DeletionConfirmation = None, ust_Conditions = []\<rparr>\<rparr>"

theorem cleanup_exact_witness:
  "\<exists>w' u remaining. CleanupDeprecatedUsers (watched_handler handler_x) rotation_config_x (user_x (Some rotation_config_x) []) ([''app''], []) =
      ((w', u), with_rotation (rotation_x\<lparr>rs_PendingDeletion := remaining\<rparr>) (user_x (Some rotation_config_x) [])) \<and>
     pending_x ''app_1'' 200 \<in> set remaining"
proof -
  let ?user = "user_x (Some rotation_config_x) []"
  have "ust_Rotation (du_Status ?user) = Some rotation_x" by (simp add: user_x_def)
  then obtain w' u remaining where run: "CleanupDeprecatedUsers (watched_handler handler_x) rotation_config_x ?user ([''app''], []) =
      ((w', [] @ u), with_rotation (rotation_x\<lparr>rs_PendingDeletion := remaining\<rparr>) ?user)"
    and out: "cleanup_outcome handler_x ?user (case rot_OldUserPolicy rotation_config_x of None \<Rightarrow> default_OldUserPolicy | Some p \<Rightarrow> p)
      (uh_Now handler_x [''app'']) (rs_PendingDeletion rotation_x) u remaining"
    using cleanup_exact [of ?user rotation_x handler_x rotation_config_x "[''app'']" "[]"] by blast
  have "pending_x ''app_1'' 200 \<in> set (rs_PendingDeletion rotation_x)" "\<not> finished (pending_x ''app_1'' 200)"
    "\<not> due (uh_Now handler_x [''app'']) (pending_x ''app_1'' 200)"
    by (simp_all add: rotation_x_def pending_x_def finished_def due_def handler_x_def)
  then have "pending_x ''app_1'' 200 \<in> set remaining" using out unfolding cleanup_outcome_def Let_def by blast
  then show ?thesis using run by auto
qed

theorem rotated_username_witness:
  "generateRotatedUsername handler_x (rotation_config_x\<lparr>rot_UserNaming := ''''\<rparr>) ''app'' 7 = ''app_20260101''"
  using rotated_username [of handler_x "rotation_config_x\<lparr>rot_UserNaming := ''''\<rparr>" "''app''" 7]
  by (simp add: handler_x_def)

end
