(* ===== verification/User_Controller.thy ===== *)
theory User_Controller
  imports User_Handler
begin

text \<open>
  The controller of database users: \<^verbatim>\<open>internal/features/user/controller.go\<close>. Everything of Kubernetes
  it uses, the parser of cron expressions and SHA-256 are fields of the record \<open>user_ctl\<close>. The identifier
  that a reconciliation draws is an argument. The resource that the Go code changes through a pointer is
  passed and returned.
\<close>

section \<open>The environment\<close>

record UserReference =
  uref_Name :: string
  uref_Namespace :: string

record DatabaseGrant =
  dg_meta :: object_meta
  dg_UserRef :: "UserReference option"

record 'w user_ctl =
  uc_runtime :: "'w runtime"
  uc_client :: "('w, DatabaseUser) client"
  uc_handler :: "'w user_handler"
  uc_ListGrants :: "string \<Rightarrow> ('w, DatabaseGrant list) op"
  uc_GetGrant :: "string \<Rightarrow> string \<Rightarrow> ('w, DatabaseGrant) op"
  uc_DeleteGrant :: "DatabaseGrant \<Rightarrow> ('w, unit) op"
  uc_Parse :: "string \<Rightarrow> go_error + (int \<Rightarrow> int)"
  uc_ParseDuration :: "string \<Rightarrow> duration option"
  uc_defaultDriftInterval :: duration
  uc_Sum256 :: "string \<Rightarrow> nat list"
  uc_SetControllerReference :: "DatabaseUser \<Rightarrow> Secret \<Rightarrow> go_error + Secret"
  uc_order :: "string range_order"

abbreviation uc_Now :: "'w user_ctl \<Rightarrow> 'w \<Rightarrow> int" where
  "uc_Now h \<equiv> rt_Now (uc_runtime h)"

definition user_RequeueAfterError :: duration where "user_RequeueAfterError = 30 * Second"
definition rotationMinRequeue :: duration where "rotationMinRequeue = 10 * Second"
definition rotationMaxRequeue :: duration where "rotationMaxRequeue = 1 * Hour"
definition annotationManagedPassword :: string where "annotationManagedPassword = ''dbops.dbprovision.io/managed-password''"
definition FinalizerDatabaseUser :: string where "FinalizerDatabaseUser = ''dbops.dbprovision.io/user-protection''"

abbreviation user_ns :: "DatabaseUser \<Rightarrow> string" where "user_ns user \<equiv> om_namespace (du_meta user)"
abbreviation user_name :: "DatabaseUser \<Rightarrow> string" where "user_name user \<equiv> om_name (du_meta user)"

definition EventMessage :: "string \<Rightarrow> string \<Rightarrow> string" where
  "EventMessage reconcileID message = (if reconcileID \<noteq> '''' then ''['' @ reconcileID @ ''] '' @ message else message)"

definition with_ustatus :: "(DatabaseUserStatus \<Rightarrow> DatabaseUserStatus) \<Rightarrow> DatabaseUser \<Rightarrow> DatabaseUser" where
  "with_ustatus f user = user\<lparr>du_Status := f (du_Status user)\<rparr>"

definition in_state :: "int \<Rightarrow> Phase \<Rightarrow> string \<Rightarrow> string \<Rightarrow> string \<Rightarrow> DatabaseUser \<Rightarrow> DatabaseUser" where
  "in_state now phase message reason condition =
     with_ustatus (\<lambda>st. st\<lparr>ust_Phase := phase, ust_Message := message,
       ust_Conditions := SetReadyCondition now ConditionFalse reason condition (ust_Conditions st)\<rparr>)"

text \<open>A status write whose error is only logged: the server's answer replaces the resource in memory.\<close>

definition status_write :: "'w user_ctl \<Rightarrow> DatabaseUser \<Rightarrow> 'w \<Rightarrow> 'w \<times> DatabaseUser" where
  "status_write h user w =
     (case cl_Status_Update (uc_client h) user w of (w', Inl e) \<Rightarrow> (w', user) | (w', Inr user') \<Rightarrow> (w', user'))"

definition updatePhase :: "'w user_ctl \<Rightarrow> DatabaseUser \<Rightarrow> Phase \<Rightarrow> string \<Rightarrow> 'w \<Rightarrow> 'w \<times> DatabaseUser" where
  "updatePhase h user phase message = status_write h (with_ustatus (\<lambda>st. st\<lparr>ust_Phase := phase, ust_Message := message\<rparr>) user)"

definition updateReconcileID :: "int \<Rightarrow> string \<Rightarrow> DatabaseUser \<Rightarrow> DatabaseUser" where
  "updateReconcileID now reconcileID = with_ustatus (\<lambda>st. st\<lparr>ust_ReconcileID := reconcileID, ust_LastReconcileTime := Some now\<rparr>)"

definition user_handleError :: "'w user_ctl \<Rightarrow> string \<Rightarrow> DatabaseUser \<Rightarrow> go_error \<Rightarrow> string \<Rightarrow> 'w reconciler" where
  "user_handleError h reconcileID user err operation w =
     (let msg = ''Failed to '' @ operation @ '': '' @ Error err;
          w1 = recordf (uc_runtime h) EventTypeWarning ''ReconcileFailed'' (EventMessage reconcileID msg) w;
          w2 = fst (status_write h (in_state (uc_Now h w1) PhaseFailed msg ''ReconcileFailed'' (Error err) user) w1)
      in (w2, ClassifyRequeue (Some err)))"

section \<open>Deletion\<close>

definition refers_to :: "DatabaseUser \<Rightarrow> DatabaseGrant \<Rightarrow> bool" where
  "refers_to user g \<longleftrightarrow>
     (case dg_UserRef g of
        None \<Rightarrow> False
      | Some ref \<Rightarrow> uref_Name ref = user_name user \<and> (uref_Namespace ref = '''' \<or> uref_Namespace ref = user_ns user))"

definition child_name :: "DatabaseGrant \<Rightarrow> string" where
  "child_name g = ''DatabaseGrant/'' @ om_name (dg_meta g)"

text \<open>The first two results of the Go function follow from the third, the names of the children.\<close>

definition hasGrantDependencies :: "'w user_ctl \<Rightarrow> DatabaseUser \<Rightarrow> ('w, string list) op" where
  "hasGrantDependencies h user =
     check (uc_ListGrants h (user_ns user)) (\<lambda>e w. Errorf_w ''list grants: '' e) (\<lambda>grants.
       ret (map child_name (filter (refers_to user) grants)))"

definition dependencies_message :: "string list \<Rightarrow> string" where
  "dependencies_message children =
     ''cannot delete: '' @ FormatInt (int (length children)) @ '' DatabaseGrant(s) still reference this user: '' @ Join children '', '' @
     ''. Delete grants first or use force-delete annotation''"

fun cascade_grants :: "'w user_ctl \<Rightarrow> DatabaseGrant list \<Rightarrow> ('w, string list) op" where
  "cascade_grants h [] w = (w, Inr [])"
| "cascade_grants h (g # gs) w =
     (case uc_DeleteGrant h g w of
        (w1, r) \<Rightarrow>
          (case (case r of Inl e \<Rightarrow> if rt_IsNotFound (uc_runtime h) e then None else Some e | Inr _ \<Rightarrow> None) of
             Some e \<Rightarrow> (w1, Inl (Errorf_w (''delete grant '' @ om_name (dg_meta g) @ '': '') e))
           | None \<Rightarrow>
               (case uc_GetGrant h (om_namespace (dg_meta g)) (om_name (dg_meta g)) w1 of
                  (w2, found) \<Rightarrow>
                    (case cascade_grants h gs w2 of
                       (w3, Inl e) \<Rightarrow> (w3, Inl e)
                     | (w3, Inr rest) \<Rightarrow>
                         (w3, Inr (case found of Inl _ \<Rightarrow> rest | Inr g' \<Rightarrow> child_name g' # rest))))))"

definition cascadeDeleteChildren :: "'w user_ctl \<Rightarrow> DatabaseUser \<Rightarrow> ('w, string list) op" where
  "cascadeDeleteChildren h user =
     check (uc_ListGrants h (user_ns user)) (\<lambda>e w. Errorf_w ''list grants: '' e) (\<lambda>grants.
       cascade_grants h (filter (refers_to user) grants))"

definition ownership_block :: "int \<Rightarrow> OwnershipCheckResult \<Rightarrow> OwnershipBlockStatus" where
  "ownership_block now result =
     \<lparr>ob_Blocked = True, ob_LastCheckedAt = Some now, ob_OwnedObjects = ocr_OwnedObjects result, ob_Resolution = ocr_Resolution result,
      ob_Message = ''User owns '' @ FormatInt (int (length (ocr_OwnedObjects result))) @
        '' database objects. Run the resolution command before deleting.''\<rparr>"

definition checkOwnershipBeforeDelete :: "'w user_ctl \<Rightarrow> string \<Rightarrow> DatabaseUser \<Rightarrow> 'w \<Rightarrow> 'w \<times> DatabaseUser \<times> (go_error + bool)" where
  "checkOwnershipBeforeDelete h reconcileID user w =
     (case Handler_GetOwnedObjects (uc_handler h) (us_Username (du_Spec user)) (du_Spec user) (user_ns user) w of
        (w1, Inl e) \<Rightarrow> (w1, user, Inl (Errorf_w ''check owned objects: '' e))
      | (w1, Inr result) \<Rightarrow>
          if \<not> ocr_BlocksDeletion result then
            (if ust_OwnershipBlock (du_Status user) \<noteq> None
             then (case status_write h (with_ustatus (\<lambda>st. st\<lparr>ust_OwnershipBlock := None\<rparr>) user) w1 of (w2, user2) \<Rightarrow> (w2, user2, Inr False))
             else (w1, user, Inr False))
          else
            (let n = FormatInt (int (length (ocr_OwnedObjects result)));
                 now = uc_Now h w1;
                 user1 = in_state now PhaseFailed (''Deletion blocked: user owns '' @ n @ '' database objects'')
                           ''OwnershipBlocks'' (''User owns '' @ n @ '' objects, cannot delete'')
                           (with_ustatus (\<lambda>st. st\<lparr>ust_OwnershipBlock := Some (ownership_block now result)\<rparr>) user)
             in case status_write h user1 w1 of
                  (w2, user2) \<Rightarrow>
                    (recordf (uc_runtime h) EventTypeWarning ''DeletionBlocked''
                       (EventMessage reconcileID (''Deletion blocked: user owns '' @ n @ '' database objects. Resolution: '' @ ocr_Resolution result)) w2,
                     user2, Inr True)))"

definition removeFinalizer :: "'w user_ctl \<Rightarrow> DatabaseUser \<Rightarrow> 'w reconciler" where
  "removeFinalizer h user w =
     (case cl_Update (uc_client h) (user\<lparr>du_meta := rt_RemoveFinalizer (uc_runtime h) (du_meta user) FinalizerDatabaseUser\<rparr>) w of
        (w', Inl e) \<Rightarrow> (w', no_requeue, Some e)
      | (w', Inr _) \<Rightarrow> (w', no_requeue, None))"

definition drop_database_user :: "'w user_ctl \<Rightarrow> DatabaseUser \<Rightarrow> 'w reconciler" where
  "drop_database_user h user w =
     (let force = HasForceDeleteAnnotation (du_meta user)
      in case Handler_Delete (uc_handler h) (us_Username (du_Spec user)) (du_Spec user) (user_ns user) force w of
           (w1, Inl e) \<Rightarrow>
             (let w2 = recordf (uc_runtime h) EventTypeWarning ''DeleteFailed'' (''Failed to delete user: '' @ Error e) w1
              in if \<not> force then (w2, requeue_after user_RequeueAfterError, Some e) else removeFinalizer h user w2)
         | (w1, Inr _) \<Rightarrow>
             removeFinalizer h (with_ustatus (\<lambda>st. st\<lparr>ust_OwnershipBlock := None\<rparr>) user)
               (recordf (uc_runtime h) EventTypeNormal ''Deleted'' (''User '' @ us_Username (du_Spec user) @ '' deleted successfully'') w1))"

definition deletion_policy :: "DatabaseUser \<Rightarrow> string" where
  "deletion_policy user =
     (case om_annotations (du_meta user) of
        None \<Rightarrow> ''Delete''
      | Some m \<Rightarrow> (case map_of m ''dbops.dbprovision.io/deletion-policy'' of None \<Rightarrow> ''Delete'' | Some p \<Rightarrow> p))"

definition deletion_protected :: "DatabaseUser \<Rightarrow> bool" where
  "deletion_protected user \<longleftrightarrow> annotation (du_meta user) ''dbops.dbprovision.io/deletion-protection'' = ''true''"

definition finish_deletion :: "'w user_ctl \<Rightarrow> string \<Rightarrow> DatabaseUser \<Rightarrow> 'w reconciler" where
  "finish_deletion h reconcileID user0 w =
     (let user = with_ustatus (\<lambda>st. st\<lparr>ust_DeletionConfirmation := None\<rparr>) user0
      in if deletion_policy user = ''Delete'' then
           (if \<not> HasForceDeleteAnnotation (du_meta user) then
              (case checkOwnershipBeforeDelete h reconcileID user w of
                 (w1, user1, Inr True) \<Rightarrow>
                   (w1, requeue_after user_RequeueAfterError, Some (OtherError ''deletion blocked: user owns database objects'' None))
               | (w1, user1, _) \<Rightarrow> drop_database_user h user1 w1)
            else drop_database_user h user w)
         else removeFinalizer h user w)"

definition ask_confirmation :: "'w user_ctl \<Rightarrow> DatabaseUser \<Rightarrow> string list \<Rightarrow> 'w reconciler" where
  "ask_confirmation h user children w =
     (let hash = ComputeDeletionHash (uc_Sum256 h) children;
          n = FormatInt (int (length children));
          msg = ''Force-delete requires confirmation: '' @ n @ '' child(ren) will be cascade-deleted. Set annotation '' @
                AnnotationConfirmForceDelete @ ''='' @ hash @ '' to confirm.'';
          user1 = in_state (uc_Now h w) PhasePendingDeletion msg ''PendingDeletionConfirmation'' msg
                    (with_ustatus (\<lambda>st. st\<lparr>ust_DeletionConfirmation :=
                       Some \<lparr>dc_Required = True, dc_Hash = hash, dc_Children = children, dc_RemainingCount = length children, dc_Message = msg\<rparr>\<rparr>) user);
          w1 = fst (status_write h user1 w)
      in (recordf (uc_runtime h) EventTypeWarning ''ForceDeletePending''
            (''Confirmation required: '' @ n @ '' children will be cascade-deleted: '' @ Join children '', '') w1,
          requeue_after (10 * Second), None))"

definition wait_for_children :: "'w user_ctl \<Rightarrow> DatabaseUser \<Rightarrow> string list \<Rightarrow> string list \<Rightarrow> 'w reconciler" where
  "wait_for_children h user children remaining w =
     (let msg = ''Cascade-deleting: '' @ FormatInt (int (length remaining)) @ '' child(ren) remaining'';
          user1 = in_state (uc_Now h w) PhaseDeleting msg ''CascadeDeleting'' msg
                    (with_ustatus (\<lambda>st. st\<lparr>ust_DeletionConfirmation :=
                       Some \<lparr>dc_Required = False, dc_Hash = ComputeDeletionHash (uc_Sum256 h) children, dc_Children = remaining,
                             dc_RemainingCount = length remaining, dc_Message = msg\<rparr>\<rparr>) user)
      in (fst (status_write h user1 w), requeue_after (5 * Second), None))"

definition user_handleDeletion :: "'w user_ctl \<Rightarrow> string \<Rightarrow> DatabaseUser \<Rightarrow> 'w reconciler" where
  "user_handleDeletion h reconcileID user w =
     (let force = HasForceDeleteAnnotation (du_meta user)
      in if \<not> rt_ContainsFinalizer (uc_runtime h) (du_meta user) FinalizerDatabaseUser then (w, no_requeue, None)
         else if deletion_protected user \<and> \<not> force then
           (let w1 = recordf (uc_runtime h) EventTypeWarning ''DeletionBlocked'' ''Deletion blocked by deletion protection annotation'' w;
                w2 = fst (status_write h (in_state (uc_Now h w1) PhaseFailed ''Deletion blocked by deletion protection''
                       ''DeletionProtected'' ''Deletion protection is enabled'' user) w1)
            in (w2, no_requeue, Some (OtherError ''deletion protection enabled'' None)))
         else case hasGrantDependencies h user w of
           (w1, r) \<Rightarrow>
             (let children = (case r of Inl e \<Rightarrow> [] | Inr cs \<Rightarrow> cs)
              in if children \<noteq> [] \<and> \<not> force then
                   (let msg = dependencies_message children;
                        w2 = fst (status_write h (in_state (uc_Now h w1) PhaseFailed msg ''DependenciesExist'' msg user) w1)
                    in (recordf (uc_runtime h) EventTypeWarning ''DeletionBlocked'' (''Deletion blocked: '' @ msg) w2,
                        requeue_after (10 * Second), None))
                 else if children \<noteq> [] then
                   (if \<not> IsForceDeleteConfirmed (uc_Sum256 h) (du_meta user) children then ask_confirmation h user children w1
                    else case cascadeDeleteChildren h user w1 of
                      (w2, Inl e) \<Rightarrow> user_handleError h reconcileID user e ''cascade delete children'' w2
                    | (w2, Inr remaining) \<Rightarrow>
                        if remaining \<noteq> [] then wait_for_children h user children remaining w2
                        else finish_deletion h reconcileID user
                               (recordf (uc_runtime h) EventTypeNormal ''CascadeDeleteComplete''
                                  (''All '' @ FormatInt (int (length children)) @ '' children cascade-deleted'') w2))
                 else finish_deletion h reconcileID user w1))"

section \<open>The credentials secret\<close>

definition credentials_name :: "DatabaseUser \<Rightarrow> string" where
  "credentials_name user =
     (case us_PasswordSecret (du_Spec user) of
        None \<Rightarrow> us_Username (du_Spec user) @ ''-credentials''
      | Some p \<Rightarrow> or_default (pwc_SecretName p) (us_Username (du_Spec user) @ ''-credentials''))"

definition map_merge :: "'v go_map \<Rightarrow> 'v go_map \<Rightarrow> 'v go_map" where
  "map_merge m kvs = fold (\<lambda>(k, v). map_put k v) kvs m"

definition secret_template :: "DatabaseUser \<Rightarrow> SecretTemplate option" where
  "secret_template user = Option.bind (us_PasswordSecret (du_Spec user)) pwc_SecretTemplate"

definition hasSecretTemplateData :: "DatabaseUser \<Rightarrow> bool" where
  "hasSecretTemplateData user \<longleftrightarrow> (case secret_template user of None \<Rightarrow> False | Some t \<Rightarrow> stm_Data t \<noteq> [])"

definition template_data :: "DatabaseUser \<Rightarrow> string \<Rightarrow> ResolvedInstance \<Rightarrow> TemplateData" where
  "template_data user password resolved =
     \<lparr>td_Username = us_Username (du_Spec user), td_Password = password, td_Host = dis_Host (ri_Spec resolved),
      td_Port = dis_Port (ri_Spec resolved), td_Database = dis_Database (ri_Spec resolved), td_SSLMode = '''',
      td_Namespace = user_ns user, td_Name = user_name user, td_CA = '''', td_TLSCert = '''', td_TLSKey = ''''\<rparr>"

definition with_tls :: "'w user_ctl \<Rightarrow> ResolvedInstance \<Rightarrow> TemplateData \<Rightarrow> 'w \<Rightarrow> 'w \<times> TemplateData" where
  "with_tls h resolved data w =
     (case dis_TLS (ri_Spec resolved) of
        None \<Rightarrow> (w, data)
      | Some tls \<Rightarrow>
          if \<not> tls_Enabled tls then (w, data)
          else
            (let data1 = data\<lparr>td_SSLMode := tls_Mode tls\<rparr>
             in case GetTLSCredentials (uh_secrets (uc_handler h)) (ri_CredentialNamespace resolved) (Some tls) w of
                  (w', Inl e) \<Rightarrow> (w', data1)
                | (w', Inr None) \<Rightarrow> (w', data1)
                | (w', Inr (Some t)) \<Rightarrow> (w', data1\<lparr>td_CA := tc_CA t, td_TLSCert := tc_Cert t, td_TLSKey := tc_Key t\<rparr>)))"

text \<open>The data of the secret and its annotations.\<close>

definition secret_payload ::
  "'w user_ctl \<Rightarrow> DatabaseUser \<Rightarrow> string \<Rightarrow> TemplateData \<Rightarrow> string go_map \<Rightarrow> go_error + (string go_map \<times> string go_map)" where
  "secret_payload h user password data annotations =
     (if hasSecretTemplateData user then
        (case RenderSecretTemplate (uc_order h) (uh_secrets (uc_handler h)) (secret_template user) data of
           Inl e \<Rightarrow> Inl (Errorf_w ''render secret template: '' e)
         | Inr rendered \<Rightarrow> Inr (rendered, map_put annotationManagedPassword password annotations))
      else
        Inr ([(''username'', us_Username (du_Spec user)), (''password'', password), (''host'', td_Host data),
              (''port'', FormatInt (td_Port data))], annotations))"

definition credentials_secret ::
  "DatabaseUser \<Rightarrow> string \<Rightarrow> string go_map \<Rightarrow> string go_map \<Rightarrow> string go_map \<Rightarrow> string \<Rightarrow> Secret" where
  "credentials_secret user secretName labels annotations data secretType =
     \<lparr>sec_meta =
        \<lparr>om_name = secretName, om_namespace = user_ns user, om_uid = '''', om_labels = Some labels, om_annotations = Some annotations,
         om_ownerReferences = [], om_creationTimestamp = 0, om_deletionTimestamp = None, om_finalizers = []\<rparr>,
      sec_Type = secretType, sec_Data = [], sec_StringData = data\<rparr>"

definition merged_secret :: "Secret \<Rightarrow> Secret \<Rightarrow> Secret" where
  "merged_secret existing s =
     (let merge = (\<lambda>old new. Some (map_merge (case old of None \<Rightarrow> [] | Some m \<Rightarrow> m) (case new of None \<Rightarrow> [] | Some m \<Rightarrow> m)))
      in existing\<lparr>sec_StringData := sec_StringData s, sec_Type := sec_Type s,
           sec_meta := (sec_meta existing)\<lparr>om_labels := merge (om_labels (sec_meta existing)) (om_labels (sec_meta s)),
             om_annotations := merge (om_annotations (sec_meta existing)) (om_annotations (sec_meta s))\<rparr>\<rparr>)"

definition write_secret :: "'w user_ctl \<Rightarrow> Secret \<Rightarrow> ('w, unit) op" where
  "write_secret h s w =
     (let m = uh_secrets (uc_handler h)
      in case sk_Get m (om_namespace (sec_meta s)) (om_name (sec_meta s)) w of
           (w1, Inl e) \<Rightarrow>
             if sk_IsNotFound m e then check (sk_Create m s) as_is (\<lambda>_. ret ()) w1 else fail e w1
         | (w1, Inr existing) \<Rightarrow> check (sk_Update m (merged_secret existing s)) as_is (\<lambda>_. ret ()) w1)"

definition ensureCredentialsSecret :: "'w user_ctl \<Rightarrow> DatabaseUser \<Rightarrow> string \<Rightarrow> string \<Rightarrow> ('w, unit) op" where
  "ensureCredentialsSecret h user password secretName =
     check (rp_ResolveInstance (uh_repo (uc_handler h)) (du_Spec user) (user_ns user)) (\<lambda>e w. Errorf_w ''resolve instance: '' e) (\<lambda>resolved w.
       let base = [(''app.kubernetes.io/managed-by'', ''db-provision-operator''), (''dbops.dbprovision.io/user'', user_name user)];
           labels = (case secret_template user of None \<Rightarrow> base | Some t \<Rightarrow> map_merge base (stm_Labels t));
           annotations = (case secret_template user of None \<Rightarrow> [] | Some t \<Rightarrow> map_puts (stm_Annotations t));
           secretType = (case secret_template user of None \<Rightarrow> ''Opaque'' | Some t \<Rightarrow> or_default (stm_Type t) ''Opaque'');
           (w1, data) = with_tls h resolved (template_data user password resolved) w
       in case secret_payload h user password data annotations of
            Inl e \<Rightarrow> fail e w1
          | Inr (secretData, annotations') \<Rightarrow>
              (case uc_SetControllerReference h user (credentials_secret user secretName labels annotations' secretData secretType) of
                 Inl e \<Rightarrow> fail e w1
               | Inr s \<Rightarrow> write_secret h s w1))"

section \<open>Rotation\<close>

definition retire_active :: "int \<Rightarrow> PasswordRotationConfig \<Rightarrow> string \<Rightarrow> RotationStatus \<Rightarrow> RotationStatus" where
  "retire_active now rotCfg username st =
     (if rs_ActiveUser st \<noteq> '''' \<and> rs_ActiveUser st \<noteq> username then
        (let graceDays = (case rot_OldUserPolicy rotCfg of None \<Rightarrow> 7 | Some p \<Rightarrow> oup_GracePeriodDays p)
         in st\<lparr>rs_PendingDeletion := rs_PendingDeletion st @
              [\<lparr>pd_User = rs_ActiveUser st, pd_DeprecatedAt = Some now, pd_DeleteAfter = Some (now + wrap64 (graceDays * 24 * Hour)),
                pd_Status = ''pending'', pd_BlockedReason = '''', pd_OwnedObjects = [], pd_Resolution = ''''\<rparr>]\<rparr>)
      else st)"

definition initial_rotation :: "PasswordRotationConfig \<Rightarrow> RotationStatus" where
  "initial_rotation rotCfg =
     \<lparr>rs_Enabled = True, rs_Strategy = rot_Strategy rotCfg, rs_LastRotatedAt = None, rs_NextRotationAt = None,
      rs_ActiveUser = '''', rs_ServiceRole = '''', rs_PendingDeletion = []\<rparr>"

text \<open>The status before the question whether a rotation is due: the first time, an interval starts.\<close>

definition rotation_start :: "(int \<Rightarrow> int) \<Rightarrow> PasswordRotationConfig \<Rightarrow> int \<Rightarrow> DatabaseUser \<Rightarrow> RotationStatus" where
  "rotation_start next rotCfg now user =
     (let st = (case ust_Rotation (du_Status user) of None \<Rightarrow> initial_rotation rotCfg | Some r \<Rightarrow> r);
          st1 = (case rs_LastRotatedAt st of
                   None \<Rightarrow> st\<lparr>rs_LastRotatedAt := Some now, rs_ActiveUser := us_Username (du_Spec user)\<rparr>
                 | Some _ \<Rightarrow> st)
      in st1\<lparr>rs_NextRotationAt := Some (next (the (rs_LastRotatedAt st1)))\<rparr>)"

definition rotation_done :: "(int \<Rightarrow> int) \<Rightarrow> PasswordRotationConfig \<Rightarrow> int \<Rightarrow> RotationResult \<Rightarrow> string \<Rightarrow> RotationStatus \<Rightarrow> RotationStatus" where
  "rotation_done next rotCfg now result username st =
     (retire_active now rotCfg username st)\<lparr>rs_LastRotatedAt := Some now, rs_ActiveUser := rr_NewUsername result,
       rs_ServiceRole := rr_ServiceRole result, rs_Strategy := rot_Strategy rotCfg, rs_NextRotationAt := Some (next now)\<rparr>"

definition rotation_requeue :: "int \<Rightarrow> int \<Rightarrow> duration" where
  "rotation_requeue next now =
     (let requeueAfter = time_Sub next now
      in if requeueAfter < rotationMinRequeue then rotationMinRequeue
         else if requeueAfter > rotationMaxRequeue then rotationMaxRequeue else requeueAfter)"

definition rotate_now ::
  "'w user_ctl \<Rightarrow> (int \<Rightarrow> int) \<Rightarrow> PasswordRotationConfig \<Rightarrow> int \<Rightarrow> DatabaseUser \<Rightarrow> RotationStatus \<Rightarrow> 'w \<Rightarrow> 'w \<times> (go_error + DatabaseUser)" where
  "rotate_now h next rotCfg now user st w =
     (case RotateWithStrategy (uc_handler h) rotCfg user w of
        (w1, Inl e) \<Rightarrow>
          (recordf (uc_runtime h) EventTypeWarning ''RotationFailed'' (''Password rotation failed: '' @ Error e) w1,
           Inl (Errorf_w ''rotate: '' e))
      | (w1, Inr result) \<Rightarrow>
          (let w2 = fst (ensureCredentialsSecret h user (rr_NewPassword result) (credentials_name user) w1);
               st' = rotation_done next rotCfg now result (us_Username (du_Spec user)) st
           in (recordf (uc_runtime h) EventTypeNormal ''PasswordRotated''
                 (''Password rotated: new user '' @ rr_NewUsername result @ '', service role '' @ rr_ServiceRole result) w2,
               Inr (with_rotation st' user))))"

definition handleRotation :: "'w user_ctl \<Rightarrow> DatabaseUser \<Rightarrow> 'w \<Rightarrow> 'w \<times> DatabaseUser \<times> (go_error + RotationResult option)" where
  "handleRotation h user w =
     (case us_PasswordRotation (du_Spec user) of
        None \<Rightarrow> (w, user, Inr None)
      | Some rotCfg \<Rightarrow>
          if \<not> rot_Enabled rotCfg \<or> rot_Schedule rotCfg = '''' then (w, user, Inr None)
          else case uc_Parse h (rot_Schedule rotCfg) of
            Inl e \<Rightarrow>
              (recordf (uc_runtime h) EventTypeWarning ''InvalidRotationSchedule''
                 (''Invalid cron schedule '' @ fmt_q (rot_Schedule rotCfg) @ '': '' @ Error e) w,
               user, Inl (Errorf_w (''invalid cron schedule '' @ fmt_q (rot_Schedule rotCfg) @ '': '') e))
          | Inr next \<Rightarrow>
              (let now = uc_Now h w;
                   st = rotation_start next rotCfg now user;
                   user1 = with_rotation st user;
                   (w1, r) = (if now > the (rs_NextRotationAt st) then rotate_now h next rotCfg now user1 st w else (w, Inr user1))
               in case r of
                    Inl e \<Rightarrow> (w1, user1, Inl e)
                  | Inr user2 \<Rightarrow>
                      (let (w2, user3) = CleanupDeprecatedUsers (uc_handler h) rotCfg user2 w1;
                           nextAt = the (rs_NextRotationAt (the (ust_Rotation (du_Status user3))))
                       in (w2, user3, Inr (Some \<lparr>rr_NewUsername = '''', rr_NewPassword = '''', rr_ServiceRole = '''',
                                                rr_RequeueAfter = rotation_requeue nextAt (uc_Now h w2)\<rparr>)))))"

section \<open>Reconciliation\<close>

definition secret_password :: "Secret \<Rightarrow> string" where
  "secret_password s = or_default (annotation (sec_meta s) annotationManagedPassword) (data_or_empty s ''password'')"

text \<open>
  The password and whether the secret has to be made again; an error comes with the operation that
  failed.
\<close>

definition obtain_password :: "'w user_ctl \<Rightarrow> DatabaseUser \<Rightarrow> 'w \<Rightarrow> 'w \<times> ((go_error \<times> string) + (string \<times> bool))" where
  "obtain_password h user w =
     (let m = uh_secrets (uc_handler h);
          generate = (\<lambda>w. case GeneratePassword m (us_PasswordSecret (du_Spec user)) w of
                        (w', Inl e) \<Rightarrow> (w', Inl (e, ''generate password''))
                      | (w', Inr p) \<Rightarrow> (w', Inr (p, True)))
      in case sk_Get m (user_ns user) (credentials_name user) w of
           (w1, Inl e) \<Rightarrow> if sk_IsNotFound m e then generate w1 else (w1, Inl (e, ''get secret''))
         | (w1, Inr existing) \<Rightarrow>
             if secret_password existing = '''' then generate w1 else (w1, Inr (secret_password existing, False)))"

definition provision_user ::
  "'w user_ctl \<Rightarrow> DatabaseUser \<Rightarrow> bool \<Rightarrow> string \<Rightarrow> bool \<Rightarrow> 'w \<Rightarrow> 'w \<times> DatabaseUser \<times> (go_error \<times> string) option" where
  "provision_user h user exists password secretMissing w =
     (let spec = du_Spec user
      in if \<not> exists then
           (case updatePhase h user PhaseCreating ''Creating user'' w of
              (w1, user1) \<Rightarrow>
                (case Handler_Create (uc_handler h) (du_Spec user1) (user_ns user1) password w1 of
                   (w2, Inl e) \<Rightarrow> (w2, user1, Some (e, ''create user''))
                 | (w2, Inr _) \<Rightarrow>
                     (recordf (uc_runtime h) EventTypeNormal ''Created'' (''User '' @ us_Username (du_Spec user1) @ '' created successfully'') w2,
                      user1, None)))
         else if secretMissing then
           (case rp_SetPassword (uh_repo (uc_handler h)) (us_Username spec) password spec (user_ns user) w of
              (w1, Inl e) \<Rightarrow> (w1, user, Some (e, ''sync password''))
            | (w1, Inr _) \<Rightarrow>
                (recordf (uc_runtime h) EventTypeNormal ''SecretRegenerated''
                   (''Secret was missing for user '' @ us_Username spec @ '', password synced and secret recreated'') w1, user, None))
         else (w, user, None))"

definition user_resource :: "DatabaseUser \<Rightarrow> DriftableResource" where
  "user_resource user = \<lparr>rs_driftPolicy = us_DriftPolicy (du_Spec user), rs_annotations = om_annotations (du_meta user)\<rparr>"

definition user_detector :: "'w user_ctl \<Rightarrow> DatabaseUser \<Rightarrow> 'w Detector" where
  "user_detector h user =
     \<lparr>dt_DetectDrift = (\<lambda>c allow. check (Handler_DetectDrift (uc_handler h) (du_Spec user) (user_ns user) allow) as_is (\<lambda>r. ret (Some r))),
      dt_CorrectDrift = (\<lambda>c r allow. check (Handler_CorrectDrift (uc_handler h) (du_Spec user) (user_ns user) r allow) as_is (\<lambda>x. ret (Some x)))\<rparr>"

text \<open>The events of the drift run are recorded when it has ended.\<close>

definition detect_user_drift :: "'w user_ctl \<Rightarrow> DatabaseUser \<Rightarrow> DriftPolicy option option \<Rightarrow> 'w \<Rightarrow> 'w \<times> DatabaseUser" where
  "detect_user_drift h user instancePolicy w =
     (let st = PerformDriftDetection (uc_defaultDriftInterval h) \<lparr>ctx_deadline = None\<rparr> (user_resource user) instancePolicy (user_detector h user)
                 \<lparr>os_world = w, os_status = ust_Drift (du_Status user), os_events = []\<rparr>
      in (fold (rt_Record (uc_runtime h)) (os_events st) (os_world st), with_ustatus (\<lambda>s. s\<lparr>ust_Drift := os_status st\<rparr>) user))"

definition finish_user :: "'w user_ctl \<Rightarrow> string \<Rightarrow> DatabaseUser \<Rightarrow> string \<Rightarrow> DriftPolicy option option \<Rightarrow> duration \<Rightarrow> 'w reconciler" where
  "finish_user h reconcileID user secretName instancePolicy rotationRequeue w =
     (let now = uc_Now h w;
          user1 = with_ustatus (\<lambda>st. st\<lparr>ust_Phase := PhaseReady, ust_Message := ''User is ready'',
                    ust_Secret := Some \<lparr>si_Name = secretName, si_Namespace = user_ns user\<rparr>,
                    ust_Conditions := SetReadyCondition now ConditionTrue ''ReconcileSuccess'' ''User is ready''
                      (SetSyncedCondition now ConditionTrue ''ReconcileSuccess'' ''User is synced'' (ust_Conditions st)),
                    ust_ReconcileID := reconcileID, ust_LastReconcileTime := Some now\<rparr>) user
      in case cl_Status_Update (uc_client h) user1 w of
           (w1, Inl e) \<Rightarrow> (w1, no_requeue, Some e)
         | (w1, Inr user2) \<Rightarrow>
             (let driftRequeue = GetRequeueInterval (uc_ParseDuration h) (uc_defaultDriftInterval h) (user_resource user2) instancePolicy
              in (w1, requeue_after (if rotationRequeue > 0 \<and> rotationRequeue < driftRequeue then rotationRequeue else driftRequeue), None)))"

definition user_reconcile :: "'w user_ctl \<Rightarrow> string \<Rightarrow> DatabaseUser \<Rightarrow> 'w reconciler" where
  "user_reconcile h reconcileID user w =
     (let repo = uh_repo (uc_handler h); secretName = credentials_name user
      in case rp_Exists repo (us_Username (du_Spec user)) (du_Spec user) (user_ns user) w of
        (w1, Inl e) \<Rightarrow> user_handleError h reconcileID user e ''check existence'' w1
      | (w1, Inr exists) \<Rightarrow>
        (case obtain_password h user w1 of
          (w2, Inl (e, operation)) \<Rightarrow> user_handleError h reconcileID user e operation w2
        | (w2, Inr (password, secretMissing)) \<Rightarrow>
          (case provision_user h user exists password secretMissing w2 of
            (w3, user1, Some (e, operation)) \<Rightarrow> user_handleError h reconcileID user1 e operation w3
          | (w3, user1, None) \<Rightarrow>
            (let w4 = fst (Handler_Update (uc_handler h) (us_Username (du_Spec user1)) (du_Spec user1) (user_ns user1) w3)
             in case ensureCredentialsSecret h user1 password secretName w4 of
              (w5, Inl e) \<Rightarrow> user_handleError h reconcileID user1 e ''ensure credentials secret'' w5
            | (w5, Inr _) \<Rightarrow>
              (case rp_ResolveInstance repo (du_Spec user1) (user_ns user1) w5 of
                (w6, resolved) \<Rightarrow>
                (let instancePolicy = (case resolved of Inl e \<Rightarrow> None | Inr ri \<Rightarrow> Some (ri_DriftPolicy ri))
                 in case detect_user_drift h user1 instancePolicy w6 of
                  (w7, user2) \<Rightarrow>
                  (case handleRotation h user2 w7 of
                    (w8, user3, r) \<Rightarrow>
                      finish_user h reconcileID user3 secretName instancePolicy
                        (case r of Inr (Some rr) \<Rightarrow> rr_RequeueAfter rr | _ \<Rightarrow> 0) w8)))))))"

definition user_Reconcile :: "'w user_ctl \<Rightarrow> string \<Rightarrow> string \<Rightarrow> string \<Rightarrow> 'w reconciler" where
  "user_Reconcile h reconcileID namespace name w =
     (case cl_Get (uc_client h) namespace name w of
        (w1, Inl e) \<Rightarrow> if rt_IsNotFound (uc_runtime h) e then (w1, no_requeue, None) else (w1, no_requeue, Some e)
      | (w1, Inr user0) \<Rightarrow>
          (let user = updateReconcileID (uc_Now h w1) reconcileID user0
           in if ShouldSkipReconcile (du_meta user) then (w1, no_requeue, None)
              else if IsMarkedForDeletion (du_meta user) then user_handleDeletion h reconcileID user w1
              else if \<not> rt_ContainsFinalizer (uc_runtime h) (du_meta user) FinalizerDatabaseUser then
                (case cl_Update (uc_client h) (user\<lparr>du_meta := rt_AddFinalizer (uc_runtime h) (du_meta user) FinalizerDatabaseUser\<rparr>) w1 of
                   (w2, Inl e) \<Rightarrow> (w2, no_requeue, Some e)
                 | (w2, Inr user') \<Rightarrow> user_reconcile h reconcileID user' w2)
              else user_reconcile h reconcileID user w1))"

section \<open>Recorded runs of the controller\<close>

definition watched_ctl :: "'w user_ctl \<Rightarrow> ('w \<times> user_call list) user_ctl" where
  "watched_ctl h =
     \<lparr>uc_runtime = watched_runtime (uc_runtime h),
      uc_client = \<lparr>cl_Get = (\<lambda>ns n. unlogged (cl_Get (uc_client h) ns n)),
                   cl_Update = (\<lambda>x. logged (UserUpdate x) (cl_Update (uc_client h) x)),
                   cl_Status_Update = (\<lambda>x. logged (UserStatus x) (cl_Status_Update (uc_client h) x))\<rparr>,
      uc_handler = watched_handler (uc_handler h),
      uc_ListGrants = (\<lambda>ns. unlogged (uc_ListGrants h ns)),
      uc_GetGrant = (\<lambda>ns n. unlogged (uc_GetGrant h ns n)),
      uc_DeleteGrant = (\<lambda>g. logged (GrantDelete (om_namespace (dg_meta g)) (om_name (dg_meta g))) (uc_DeleteGrant h g)),
      uc_Parse = uc_Parse h, uc_ParseDuration = uc_ParseDuration h, uc_defaultDriftInterval = uc_defaultDriftInterval h,
      uc_Sum256 = uc_Sum256 h, uc_SetControllerReference = uc_SetControllerReference h, uc_order = uc_order h\<rparr>"

lemma watched_ctl_simps [simp]:
  "uc_runtime (watched_ctl h) = watched_runtime (uc_runtime h)"
  "cl_Get (uc_client (watched_ctl h)) ns n = unlogged (cl_Get (uc_client h) ns n)"
  "cl_Update (uc_client (watched_ctl h)) x = logged (UserUpdate x) (cl_Update (uc_client h) x)"
  "cl_Status_Update (uc_client (watched_ctl h)) x = logged (UserStatus x) (cl_Status_Update (uc_client h) x)"
  "uc_handler (watched_ctl h) = watched_handler (uc_handler h)"
  "uc_ListGrants (watched_ctl h) ns = unlogged (uc_ListGrants h ns)"
  "uc_GetGrant (watched_ctl h) ns n = unlogged (uc_GetGrant h ns n)"
  "uc_DeleteGrant (watched_ctl h) g = logged (GrantDelete (om_namespace (dg_meta g)) (om_name (dg_meta g))) (uc_DeleteGrant h g)"
  "uc_Parse (watched_ctl h) = uc_Parse h"
  "uc_ParseDuration (watched_ctl h) = uc_ParseDuration h"
  "uc_defaultDriftInterval (watched_ctl h) = uc_defaultDriftInterval h"
  "uc_Sum256 (watched_ctl h) = uc_Sum256 h"
  "uc_SetControllerReference (watched_ctl h) = uc_SetControllerReference h"
  "uc_order (watched_ctl h) = uc_order h"
  by (simp_all add: watched_ctl_def)

text \<open>A status write changes neither the spec nor the metadata: the server ignores or refuses such changes.\<close>

definition status_keeps_spec :: "'w user_ctl \<Rightarrow> bool" where
  "status_keeps_spec h \<longleftrightarrow>
     (\<forall>user w w' user'. cl_Status_Update (uc_client h) user w = (w', Inr user') \<longrightarrow> du_Spec user' = du_Spec user \<and> du_meta user' = du_meta user)"

lemma with_ustatus_simps [simp]:
  "du_Spec (with_ustatus f user) = du_Spec user" "du_meta (with_ustatus f user) = du_meta user"
  "du_Status (with_ustatus f user) = f (du_Status user)"
  by (simp_all add: with_ustatus_def)

lemma in_state_simps [simp]:
  "du_Spec (in_state now phase msg reason cond user) = du_Spec user" "du_meta (in_state now phase msg reason cond user) = du_meta user"
  by (simp_all add: in_state_def)

lemma status_write_records:
  assumes "status_keeps_spec h"
  shows "records (status_write (watched_ctl h) user) w
    (\<lambda>u w' user'. (\<exists>e. u = [UserStatus user e]) \<and> du_Spec user' = du_Spec user \<and> du_meta user' = du_meta user)"
  using assms unfolding status_write_def status_keeps_spec_def
  by (intro wp) (force split: sum.split prod.split)

definition same_resource :: "DatabaseUser \<Rightarrow> DatabaseUser \<Rightarrow> bool" where
  "same_resource user user' \<longleftrightarrow> du_Spec user' = du_Spec user \<and> du_meta user' = du_meta user"

lemma status_write_run:
  assumes "status_keeps_spec h" "same_resource user user1"
  shows "\<exists>e w' user'. status_write (watched_ctl h) user1 (w, t) = ((w', t @ [UserStatus user1 e]), user') \<and> same_resource user user'"
proof -
  obtain u w' user' where "status_write (watched_ctl h) user1 (w, t) = ((w', t @ u), user')"
    "(\<exists>e. u = [UserStatus user1 e]) \<and> du_Spec user' = du_Spec user1 \<and> du_meta user' = du_meta user1"
    using status_write_records [OF assms(1)] by (rule recordsE)
  then show ?thesis using assms(2) unfolding same_resource_def by metis
qed

text \<open>\<^verbatim>\<open>SetControllerReference\<close> writes the owner and nothing else.\<close>

definition sets_only_owner :: "'w user_ctl \<Rightarrow> bool" where
  "sets_only_owner h \<longleftrightarrow>
     (\<forall>user s s'. uc_SetControllerReference h user s = Inr s' \<longrightarrow>
        (\<exists>owners. s' = s\<lparr>sec_meta := (sec_meta s)\<lparr>om_ownerReferences := owners\<rparr>\<rparr>))"
text \<open>
  The values that the custom resource definition allows for the phase of a user, and an API server that
  enforces them.
\<close>

definition user_phases :: "Phase list" where
  "user_phases = [PhasePending, PhaseCreating, PhaseReady, PhaseFailed, PhaseDeleting]"

definition validates_phase :: "'w user_ctl \<Rightarrow> bool" where
  "validates_phase h \<longleftrightarrow>
     (\<forall>user w. ust_Phase (du_Status user) \<notin> set user_phases \<longrightarrow> isl (snd (cl_Status_Update (uc_client h) user w)))"

section \<open>Examples\<close>

text \<open>A cluster that accepts every status but one that the definition of the resource forbids.\<close>

definition grant_x :: DatabaseGrant where
  "grant_x = \<lparr>dg_meta = \<lparr>om_name = ''g'', om_namespace = ''prod'', om_uid = '''', om_labels = None, om_annotations = None, om_ownerReferences = [],
     om_creationTimestamp = 0, om_deletionTimestamp = None, om_finalizers = []\<rparr>, dg_UserRef = Some \<lparr>uref_Name = ''app'', uref_Namespace = ''''\<rparr>\<rparr>"

definition ctl_x :: "string list user_ctl" where
  "ctl_x =
     \<lparr>uc_runtime = \<lparr>rt_Now = (\<lambda>_. 100), rt_IsNotFound = (\<lambda>e. e = ErrNotFound), rt_Record = (\<lambda>_ w. w),
        rt_ContainsFinalizer = (\<lambda>m f. f \<in> set (om_finalizers m)), rt_AddFinalizer = (\<lambda>m f. m\<lparr>om_finalizers := f # om_finalizers m\<rparr>),
        rt_RemoveFinalizer = (\<lambda>m f. m\<lparr>om_finalizers := removeAll f (om_finalizers m)\<rparr>)\<rparr>,
      uc_client = \<lparr>cl_Get = (\<lambda>_ _. fail ErrNotFound), cl_Update = ret,
        cl_Status_Update = (\<lambda>u. if ust_Phase (du_Status u) \<in> set user_phases then ret u else fail (OtherError ''invalid'' None))\<rparr>,
      uc_handler = handler_x, uc_ListGrants = (\<lambda>ns. ret [grant_x]), uc_GetGrant = (\<lambda>_ _. fail ErrNotFound), uc_DeleteGrant = (\<lambda>g. ret ()),
      uc_Parse = (\<lambda>s. Inr (\<lambda>t. t + 10)), uc_ParseDuration = (\<lambda>_. None), uc_defaultDriftInterval = 1000,
      uc_Sum256 = (\<lambda>s. [1, 2, 3, 4, 5]), uc_SetControllerReference = (\<lambda>u s. Inr s), uc_order = (\<lambda>m. m)\<rparr>"

lemma ctl_x_laws: "status_keeps_spec ctl_x" "sets_only_owner ctl_x" "validates_phase ctl_x"
proof -
  show "status_keeps_spec ctl_x" by (simp add: status_keeps_spec_def ctl_x_def ret_def fail_def)
  have "\<exists>owners. s = s\<lparr>sec_meta := (sec_meta s)\<lparr>om_ownerReferences := owners\<rparr>\<rparr>" for s :: Secret
    by (rule exI [of _ "om_ownerReferences (sec_meta s)"]) simp
  then show "sets_only_owner ctl_x" unfolding sets_only_owner_def by (simp add: ctl_x_def)
  show "validates_phase ctl_x" by (simp add: validates_phase_def ctl_x_def fail_def)
qed

end
