(* ===== verification/User_Deletion.thy ===== *)
theory User_Deletion
  imports User_Controller
begin

text \<open>
  Properties of the deletion of database users: which calls a deletion makes, under which guards, and what
  becomes of the confirmation that a forced deletion asks for.
\<close>

section \<open>Deletion is guarded\<close>

definition is_status :: "user_call \<Rightarrow> bool" where
  "is_status c \<longleftrightarrow> (\<exists>x e. c = UserStatus x e)"

lemma is_status_simps [simp]:
  "is_status (UserStatus x e)" "\<not> is_status (RepoCall op' spec ns e)" "\<not> is_status (UserUpdate x e)" "\<not> is_status (GrantDelete ns n e)"
  by (simp_all add: is_status_def)

lemma removeFinalizer_records:
  "records (removeFinalizer (watched_ctl h) user) w (\<lambda>u w' r. \<exists>x e. u = [UserUpdate x e])"
  unfolding removeFinalizer_def by (intro wp) (simp split: sum.split prod.split)

text \<open>The calls that end a deletion: the user is dropped, then the finalizer goes.\<close>

definition drop_calls :: "DatabaseUser \<Rightarrow> user_call list \<Rightarrow> bool" where
  "drop_calls user u \<longleftrightarrow>
     (let force = HasForceDeleteAnnotation (du_meta user); drop = RepoCall (OpDelete (us_Username (du_Spec user)) force) (du_Spec user) (user_ns user)
      in (\<exists>e. u = [drop (Some e)] \<and> \<not> force) \<or> (\<exists>e x e'. u = [drop e, UserUpdate x e'] \<and> (e = None \<or> force)))"

lemma drop_database_user_records:
  "records (drop_database_user (watched_ctl h) user) w (\<lambda>u w' r. drop_calls user u)"
proof -
  have final: "records (\<lambda>s. removeFinalizer (watched_ctl h) user1 (recordf (watched_runtime rt) ty reason msg s)) w1 (\<lambda>u w' r. \<exists>x e. u = [UserUpdate x e])"
    for user1 rt ty reason msg w1
    by (intro records_event removeFinalizer_records)
  show ?thesis
    unfolding drop_database_user_def Handler_Delete_def Let_def watched_ctl_simps watched_handler_simps watched_repo_simps
    by (intro wp) (auto simp: drop_calls_def intro!: wp records_mono [OF final] split: sum.split prod.split)
qed

text \<open>The server has said that the user owns nothing, or could not be asked.\<close>

definition unowned :: "'w user_ctl \<Rightarrow> DatabaseUser \<Rightarrow> bool" where
  "unowned h user \<longleftrightarrow>
     (\<exists>w1 w2 r. rp_GetOwnedObjects (uh_repo (uc_handler h)) (us_Username (du_Spec user)) (du_Spec user) (user_ns user) w1 = (w2, r) \<and>
        (r = Inr [] \<or> isl r))"

lemma same_resource_calls: "same_resource user user' \<Longrightarrow> drop_calls user' = drop_calls user"
  by (simp add: same_resource_def drop_calls_def fun_eq_iff)

lemma checkOwnership_records:
  assumes keeps: "status_keeps_spec h"
  shows "records (checkOwnershipBeforeDelete (watched_ctl h) reconcileID user) w
    (\<lambda>u w' (user', r). list_all is_status u \<and> same_resource user user' \<and> (r \<noteq> Inr True \<longrightarrow> unowned h user))"
  unfolding records_def
proof
  fix t
  let ?get = "rp_GetOwnedObjects (uh_repo (uc_handler h)) (us_Username (du_Spec user)) (du_Spec user) (user_ns user)"
  let ?check = "checkOwnershipBeforeDelete (watched_ctl h) reconcileID user (w, t)"
  obtain w1 r where got: "?get w = (w1, r)" by force
  have same: "same_resource user user" "\<And>f. same_resource user (with_ustatus f user)"
    "\<And>now phase msg reason c f. same_resource user (in_state now phase msg reason c (with_ustatus f user))"
    by (simp_all add: same_resource_def)
  note code = checkOwnershipBeforeDelete_def Handler_GetOwnedObjects_def check_def got Let_def
  have "\<exists>u w' user' r'. ?check = ((w', t @ u), user', r') \<and> list_all is_status u \<and> same_resource user user' \<and> (r' \<noteq> Inr True \<longrightarrow> unowned h user)"
  proof (cases "r = Inr [] \<or> isl r")
    case free: True
    then have own: "unowned h user" using got unfolding unowned_def by blast
    show ?thesis
    proof (cases "isl r \<or> ust_OwnershipBlock (du_Status user) = None")
      case True
      then show ?thesis using free own same(1) by (cases r) (auto simp: code)
    next
      case False
      obtain e w' user' where "status_write (watched_ctl h) (with_ustatus (\<lambda>st. st\<lparr>ust_OwnershipBlock := None\<rparr>) user) (w1, t) =
          ((w', t @ [UserStatus (with_ustatus (\<lambda>st. st\<lparr>ust_OwnershipBlock := None\<rparr>) user) e]), user')" "same_resource user user'"
        using status_write_run [OF keeps same(2)] by blast
      then show ?thesis using free False own by (cases r) (auto simp: code)
    qed
  next
    case False
    then obtain owned where r: "r = Inr owned" "owned \<noteq> []" by (cases r) auto
    define user1 where "user1 = in_state (uc_Now h w1) PhaseFailed (''Deletion blocked: user owns '' @ FormatInt (int (length owned)) @ '' database objects'')
        ''OwnershipBlocks'' (''User owns '' @ FormatInt (int (length owned)) @ '' objects, cannot delete'')
        (with_ustatus (\<lambda>st. st\<lparr>ust_OwnershipBlock := Some (ownership_block (uc_Now h w1)
           \<lparr>ocr_OwnsObjects = True, ocr_OwnedObjects = owned, ocr_BlocksDeletion = True,
            ocr_Resolution = ''REASSIGN OWNED BY '' @ us_Username (du_Spec user) @ '' TO '' @ resolution_role (du_Spec user) (us_Username (du_Spec user))\<rparr>)\<rparr>) user)"
    obtain e w' user' where "status_write (watched_ctl h) user1 (w1, t) = ((w', t @ [UserStatus user1 e]), user')" "same_resource user user'"
      using status_write_run [OF keeps, of user user1 w1 t] same(3) unfolding user1_def by blast
    then show ?thesis using r by (simp add: code user1_def)
  qed
  then show "\<exists>u w' x. ?check = ((w', t @ u), x) \<and>
      (case x of (user', r) \<Rightarrow> list_all is_status u \<and> same_resource user user' \<and> (r \<noteq> Inr True \<longrightarrow> unowned h user))"
    by (elim exE conjE) (rule exI, rule exI, rule exI, rule conjI, assumption, simp)
qed

text \<open>Status writes first, then something else.\<close>

definition after_status :: "(user_call list \<Rightarrow> bool) \<Rightarrow> user_call list \<Rightarrow> bool" where
  "after_status P u \<longleftrightarrow> (\<exists>v z. u = v @ z \<and> list_all is_status v \<and> P z)"

lemma after_statusI:
  "list_all is_status v \<Longrightarrow> P z \<Longrightarrow> after_status P (v @ z)" "list_all is_status v \<Longrightarrow> P [] \<Longrightarrow> after_status P v" "P z \<Longrightarrow> after_status P z"
  unfolding after_status_def by (blast, metis append_Nil2, metis append_Nil list.pred_inject(1))

definition closing_calls :: "'w user_ctl \<Rightarrow> DatabaseUser \<Rightarrow> user_call list \<Rightarrow> bool" where
  "closing_calls h user u \<longleftrightarrow>
     (if deletion_policy user = ''Delete'' then
        after_status (\<lambda>z. z = [] \<or> drop_calls user z \<and> (HasForceDeleteAnnotation (du_meta user) \<or> unowned h user)) u
      else \<exists>x e. u = [UserUpdate x e])"

lemma finish_deletion_records:
  assumes "status_keeps_spec h"
  shows "records (finish_deletion (watched_ctl h) reconcileID user) w (\<lambda>u w' r. closing_calls h user u)"
proof -
  let ?user = "with_ustatus (\<lambda>st. st\<lparr>ust_DeletionConfirmation := None\<rparr>) user"
  have same: "drop_calls ?user = drop_calls user" "unowned h ?user = unowned h user" "deletion_policy ?user = deletion_policy user"
    by (simp_all add: drop_calls_def unowned_def fun_eq_iff deletion_policy_def)
  have checked: "records (\<lambda>s. case checkOwnershipBeforeDelete (watched_ctl h) reconcileID ?user s of (w1, ur) \<Rightarrow>
      (case ur of (user1, r) \<Rightarrow> \<lambda>w1. if r = Inr True
         then (w1, requeue_after user_RequeueAfterError, Some (OtherError ''deletion blocked: user owns database objects'' None))
         else drop_database_user (watched_ctl h) user1 w1) w1) w
      (\<lambda>u w' r. after_status (\<lambda>z. z = [] \<or> drop_calls user z \<and> (HasForceDeleteAnnotation (du_meta user) \<or> unowned h user)) u)"
  proof (rule records_seq, rule records_mono [OF checkOwnership_records [OF assms]])
    fix u w1 x
    assume x: "case x of (user', r) \<Rightarrow> list_all is_status u \<and> same_resource ?user user' \<and> (r \<noteq> Inr True \<longrightarrow> unowned h ?user)"
    obtain user' r where "x = (user', r)" by force
    moreover from this x have "list_all is_status u" "r \<noteq> Inr True \<longrightarrow> unowned h user" "drop_calls user' = drop_calls user"
      using same_resource_calls [of ?user user'] by (auto simp: same)
    ultimately show "records (case x of (user1, r) \<Rightarrow> \<lambda>w1. if r = Inr True
         then (w1, requeue_after user_RequeueAfterError, Some (OtherError ''deletion blocked: user owns database objects'' None))
         else drop_database_user (watched_ctl h) user1 w1) w1
         (\<lambda>u2 w' r. after_status (\<lambda>z. z = [] \<or> drop_calls user z \<and> (HasForceDeleteAnnotation (du_meta user) \<or> unowned h user)) (u @ u2))"
      by (cases "r = Inr True") (simp_all add: after_statusI(2), auto intro!: records_mono [OF drop_database_user_records] after_statusI(1))
  qed
  have "(\<lambda>s. case checkOwnershipBeforeDelete (watched_ctl h) reconcileID ?user s of
        (w1, user1, Inr True) \<Rightarrow> (w1, requeue_after user_RequeueAfterError, Some (OtherError ''deletion blocked: user owns database objects'' None))
      | (w1, user1, _) \<Rightarrow> drop_database_user (watched_ctl h) user1 w1) =
    (\<lambda>s. case checkOwnershipBeforeDelete (watched_ctl h) reconcileID ?user s of (w1, ur) \<Rightarrow>
      (case ur of (user1, r) \<Rightarrow> \<lambda>w1. if r = Inr True
         then (w1, requeue_after user_RequeueAfterError, Some (OtherError ''deletion blocked: user owns database objects'' None))
         else drop_database_user (watched_ctl h) user1 w1) w1)"
    by (auto simp: fun_eq_iff split: prod.split sum.split bool.split)
  then show ?thesis
    unfolding finish_deletion_def Let_def closing_calls_def
    using checked by (auto simp: same intro!: records_mono [OF removeFinalizer_records] records_mono [OF drop_database_user_records] after_statusI(3))
qed

lemma hasGrantDependencies_watched [simp]:
  "hasGrantDependencies (watched_ctl h) user = unlogged (hasGrantDependencies h user)"
  by (rule ext) (auto simp: hasGrantDependencies_def check_def split: prod.split sum.split)

definition grant_calls :: "DatabaseUser \<Rightarrow> user_call list \<Rightarrow> bool" where
  "grant_calls user u \<longleftrightarrow> (\<forall>c \<in> set u. \<exists>g e. refers_to user g \<and> c = GrantDelete (om_namespace (dg_meta g)) (om_name (dg_meta g)) e)"

lemma grant_calls_simps [simp]:
  "grant_calls user []" "grant_calls user (u @ v) \<longleftrightarrow> grant_calls user u \<and> grant_calls user v"
  "refers_to user g \<Longrightarrow> grant_calls user (GrantDelete (om_namespace (dg_meta g)) (om_name (dg_meta g)) e # u) \<longleftrightarrow> grant_calls user u"
  by (auto simp: grant_calls_def)

lemma cascade_grants_records:
  "\<forall>g \<in> set gs. refers_to user g \<Longrightarrow>
   records (cascade_grants (watched_ctl h) gs) w (\<lambda>u w' r. grant_calls user u \<and> cascade_grants h gs w = (w', r))"
proof (induction gs arbitrary: w)
  case Nil
  then show ?case by (simp add: records_def)
next
  case (Cons g gs)
  show ?case unfolding records_def
  proof
    fix t
    obtain w1 r where del: "uc_DeleteGrant h g w = (w1, r)" by force
    obtain w2 found where get: "uc_GetGrant h (om_namespace (dg_meta g)) (om_name (dg_meta g)) w1 = (w2, found)" by force
    let ?call = "GrantDelete (om_namespace (dg_meta g)) (om_name (dg_meta g)) (error_of r)"
    have "records (cascade_grants (watched_ctl h) gs) w2 (\<lambda>u w' r. grant_calls user u \<and> cascade_grants h gs w2 = (w', r))"
      using Cons by simp
    then obtain u w3 x where "cascade_grants (watched_ctl h) gs (w2, t @ [?call]) = ((w3, (t @ [?call]) @ u), x)" "grant_calls user u" "cascade_grants h gs w2 = (w3, x)"
      by (rule recordsE) blast
    then show "\<exists>u w' r. cascade_grants (watched_ctl h) (g # gs) (w, t) = ((w', t @ u), r) \<and> grant_calls user u \<and> cascade_grants h (g # gs) w = (w', r)"
      using Cons.prems del get by (auto split: sum.split option.split)
  qed
qed

lemma cascadeDeleteChildren_records:
  "records (cascadeDeleteChildren (watched_ctl h) user) w (\<lambda>u w' r. grant_calls user u \<and> cascadeDeleteChildren h user w = (w', r))"
  unfolding cascadeDeleteChildren_def
  by (intro wp) (auto simp: check_def split: prod.split sum.split intro!: records_mono [OF cascade_grants_records])

text \<open>The calls of a deletion, case by case.\<close>

definition deletion_calls :: "'w user_ctl \<Rightarrow> DatabaseUser \<Rightarrow> 'w \<Rightarrow> user_call list \<Rightarrow> bool" where
  "deletion_calls h user w u \<longleftrightarrow>
     (let force = HasForceDeleteAnnotation (du_meta user)
      in if \<not> rt_ContainsFinalizer (uc_runtime h) (du_meta user) FinalizerDatabaseUser then u = []
         else if deletion_protected user \<and> \<not> force then list_all is_status u
         else case hasGrantDependencies h user w of
           (w1, Inl e) \<Rightarrow> closing_calls h user u
         | (w1, Inr children) \<Rightarrow>
             if children = [] then closing_calls h user u
             else if \<not> force \<or> \<not> IsForceDeleteConfirmed (uc_Sum256 h) (du_meta user) children then list_all is_status u
             else \<exists>ds v. u = ds @ v \<and> grant_calls user ds \<and>
                    (list_all is_status v \<or> closing_calls h user v \<and> (\<exists>w2. cascadeDeleteChildren h user w1 = (w2, Inr []))))"

lemma status_only_records:
  "records (ask_confirmation (watched_ctl h) user children) w (\<lambda>u w' r. list_all is_status u)"
  "records (wait_for_children (watched_ctl h) user children remaining) w (\<lambda>u w' r. list_all is_status u)"
  "records (user_handleError (watched_ctl h) reconcileID user e op') w (\<lambda>u w' r. list_all is_status u)"
  by (auto simp: records_def ask_confirmation_def wait_for_children_def user_handleError_def status_write_def Let_def split: prod.split sum.split)

lemma handleDeletion_records:
  assumes "status_keeps_spec h"
  shows "records (user_handleDeletion (watched_ctl h) reconcileID user) w (\<lambda>u w' r. deletion_calls h user w u)"
  unfolding records_def
proof
  fix t
  let ?force = "HasForceDeleteAnnotation (du_meta user)"
  let ?fin = "rt_ContainsFinalizer (uc_runtime h) (du_meta user) FinalizerDatabaseUser"
  let ?goal = "\<exists>u w' r. user_handleDeletion (watched_ctl h) reconcileID user (w, t) = ((w', t @ u), r) \<and> deletion_calls h user w u"
  show ?goal
  proof (cases "?fin \<and> (deletion_protected user \<longrightarrow> ?force)")
    case False
    then show ?thesis by (auto simp: user_handleDeletion_def deletion_calls_def status_write_def Let_def split: prod.split sum.split)
  next
    case ok: True
    obtain w1 r where deps: "hasGrantDependencies h user w = (w1, r)" by force
    define children where "children = (case r of Inl e \<Rightarrow> [] | Inr cs \<Rightarrow> cs)"
    show ?thesis
    proof (cases "children = [] \<or> \<not> ?force \<or> \<not> IsForceDeleteConfirmed (uc_Sum256 h) (du_meta user) children")
      case True
      moreover obtain u w' x where "finish_deletion (watched_ctl h) reconcileID user (w1, t) = ((w', t @ u), x)" "closing_calls h user u"
        using finish_deletion_records [OF assms] by (rule recordsE)
      moreover obtain v w'' y where "ask_confirmation (watched_ctl h) user children (w1, t) = ((w'', t @ v), y)" "list_all is_status v"
        using status_only_records(1) by (rule recordsE)
      ultimately show ?thesis using ok deps
        by (cases r; cases "children = []"; cases ?force)
          (auto simp: user_handleDeletion_def deletion_calls_def children_def status_write_def Let_def split: prod.split sum.split)
    next
      case confirmed: False
      then have r: "r = Inr children" by (auto simp: children_def split: sum.splits)
      obtain ds w2 x where casc: "cascadeDeleteChildren (watched_ctl h) user (w1, t) = ((w2, t @ ds), x)" "grant_calls user ds"
        "cascadeDeleteChildren h user w1 = (w2, x)"
        using cascadeDeleteChildren_records by (rule recordsE) blast
      let ?rest = "user_handleDeletion (watched_ctl h) reconcileID user (w, t)"
      have "\<exists>v w' y. ?rest = ((w', (t @ ds) @ v), y) \<and> (list_all is_status v \<or> closing_calls h user v \<and> x = Inr [])"
      proof (cases x)
        case (Inl e)
        obtain v w' y where "user_handleError (watched_ctl h) reconcileID user e ''cascade delete children'' (w2, t @ ds) = ((w', (t @ ds) @ v), y)"
          "list_all is_status v"
          using status_only_records(3) by (rule recordsE)
        then show ?thesis using ok deps r confirmed casc Inl
          by (intro exI [of _ v] exI [of _ w'] exI [of _ y]) (simp add: user_handleDeletion_def Let_def)
      next
        case (Inr remaining)
        let ?w = "recordf (uc_runtime h) EventTypeNormal ''CascadeDeleteComplete'' (''All '' @ FormatInt (int (length children)) @ '' children cascade-deleted'') w2"
        have "\<exists>v w' y. finish_deletion (watched_ctl h) reconcileID user (?w, t @ ds) = ((w', (t @ ds) @ v), y) \<and> closing_calls h user v"
          by (rule recordsE [OF finish_deletion_records [OF assms]]) blast
        moreover have "\<exists>v w' y. wait_for_children (watched_ctl h) user children remaining (w2, t @ ds) = ((w', (t @ ds) @ v), y) \<and> list_all is_status v"
          by (rule recordsE [OF status_only_records(2)]) blast
        ultimately show ?thesis using ok deps r confirmed casc Inr
          by (cases "remaining = []") (simp add: user_handleDeletion_def Let_def; blast)+
      qed
      then show ?thesis using ok deps r confirmed casc by (auto simp: deletion_calls_def Let_def)
    qed
  qed
qed

text \<open>
  A deletion may go on: the finalizer is there, protection is off or overridden, and no grants refer to the
  user, or they could not be listed, or their deletion was forced, confirmed and is finished.
\<close>

definition deletion_cleared :: "'w user_ctl \<Rightarrow> DatabaseUser \<Rightarrow> 'w \<Rightarrow> bool" where
  "deletion_cleared h user w \<longleftrightarrow>
     (let force = HasForceDeleteAnnotation (du_meta user)
      in rt_ContainsFinalizer (uc_runtime h) (du_meta user) FinalizerDatabaseUser \<and> (deletion_protected user \<longrightarrow> force) \<and>
         (case hasGrantDependencies h user w of
            (w1, Inl e) \<Rightarrow> True
          | (w1, Inr children) \<Rightarrow>
              children = [] \<or>
              force \<and> IsForceDeleteConfirmed (uc_Sum256 h) (du_meta user) children \<and> (\<exists>w2. cascadeDeleteChildren h user w1 = (w2, Inr []))))"

definition cascade_allowed :: "'w user_ctl \<Rightarrow> DatabaseUser \<Rightarrow> 'w \<Rightarrow> bool" where
  "cascade_allowed h user w \<longleftrightarrow>
     HasForceDeleteAnnotation (du_meta user) \<and>
     (\<exists>w1 children. hasGrantDependencies h user w = (w1, Inr children) \<and> children \<noteq> [] \<and>
        IsForceDeleteConfirmed (uc_Sum256 h) (du_meta user) children)"

definition drop_call :: "DatabaseUser \<Rightarrow> go_error option \<Rightarrow> user_call" where
  "drop_call user = RepoCall (OpDelete (us_Username (du_Spec user)) (HasForceDeleteAnnotation (du_meta user))) (du_Spec user) (user_ns user)"

fun call_safe :: "'w user_ctl \<Rightarrow> DatabaseUser \<Rightarrow> 'w \<Rightarrow> user_call list \<Rightarrow> user_call \<Rightarrow> bool" where
  "call_safe h user w u (RepoCall op' spec ns e) \<longleftrightarrow>
     RepoCall op' spec ns e = drop_call user e \<and> deletion_cleared h user w \<and> deletion_policy user = ''Delete'' \<and>
     (HasForceDeleteAnnotation (du_meta user) \<or> unowned h user)"
| "call_safe h user w u (UserUpdate x e) \<longleftrightarrow>
     UserUpdate x e = last u \<and> deletion_cleared h user w \<and>
     (deletion_policy user = ''Delete'' \<longrightarrow> HasForceDeleteAnnotation (du_meta user) \<or> drop_call user None \<in> set u)"
| "call_safe h user w u (GrantDelete ns n e) \<longleftrightarrow>
     cascade_allowed h user w \<and> (\<exists>g. refers_to user g \<and> ns = om_namespace (dg_meta g) \<and> n = om_name (dg_meta g))"
| "call_safe h user w u (UserStatus x e) \<longleftrightarrow> True"
| "call_safe h user w u _ \<longleftrightarrow> False"

definition deletion_safe :: "'w user_ctl \<Rightarrow> DatabaseUser \<Rightarrow> 'w \<Rightarrow> user_call list \<Rightarrow> bool" where
  "deletion_safe h user w u \<longleftrightarrow> (\<forall>c \<in> set u. call_safe h user w u c) \<and> length (filter (\<lambda>c. \<exists>e. c = drop_call user e) u) \<le> 1"

lemma drop_call_simps [simp]:
  "drop_call user e = drop_call user e' \<longleftrightarrow> e = e'" "drop_call user e \<noteq> UserUpdate x e'" "UserUpdate x e' \<noteq> drop_call user e"
  "call_safe h user w u (drop_call user e) \<longleftrightarrow> deletion_cleared h user w \<and> deletion_policy user = ''Delete'' \<and>
     (HasForceDeleteAnnotation (du_meta user) \<or> unowned h user)"
  by (simp_all add: drop_call_def)

lemma drop_calls_safe:
  assumes "drop_calls user z" "deletion_cleared h user w" "deletion_policy user = ''Delete''" "HasForceDeleteAnnotation (du_meta user) \<or> unowned h user"
  shows "deletion_safe h user w z"
proof -
  have "(\<exists>e. z = [drop_call user (Some e)]) \<or>
      (\<exists>e x e'. z = [drop_call user e, UserUpdate x e'] \<and> (e = None \<or> HasForceDeleteAnnotation (du_meta user)))"
    using assms(1) by (auto simp: drop_calls_def drop_call_def Let_def)
  then show ?thesis using assms(2-4) by (auto simp: deletion_safe_def)
qed

lemma call_safe_later:
  assumes "c \<in> set z" "call_safe h user w z c"
  shows "call_safe h user w (v @ z) c"
proof -
  have "last (v @ z) = last z" using assms(1) by (cases z) auto
  then show ?thesis using assms(2)
  proof (cases c)
    case (UserUpdate x e)
    have "call_safe h user w z (UserUpdate x e)" using assms(2) unfolding UserUpdate .
    then have "call_safe h user w (v @ z) (UserUpdate x e)"
      unfolding call_safe.simps \<open>last (v @ z) = last z\<close> set_append by blast
    then show ?thesis unfolding UserUpdate .
  qed (use assms(2) in simp_all)
qed

lemma deletion_safe_prefix:
  assumes z: "deletion_safe h user w z" and v: "list_all is_status v \<or> grant_calls user v \<and> cascade_allowed h user w"
  shows "deletion_safe h user w (v @ z)"
proof -
  have "call_safe h user w (v @ z) c" "\<nexists>e. c = drop_call user e" if "c \<in> set v" for c
  proof -
    have "(\<exists>x e. c = UserStatus x e) \<or> cascade_allowed h user w \<and>
        (\<exists>g e. refers_to user g \<and> c = GrantDelete (om_namespace (dg_meta g)) (om_name (dg_meta g)) e)"
      using v that unfolding list_all_iff is_status_def grant_calls_def by blast
    then show "call_safe h user w (v @ z) c" "\<nexists>e. c = drop_call user e" by (auto simp: drop_call_def)
  qed
  then have "filter (\<lambda>c. \<exists>e. c = drop_call user e) v = []" "\<forall>c \<in> set v. call_safe h user w (v @ z) c"
    by (auto simp: filter_empty_conv)
  moreover have "\<forall>c \<in> set z. call_safe h user w (v @ z) c" using z call_safe_later [of _ z h user w v] by (metis deletion_safe_def)
  ultimately show ?thesis using z unfolding deletion_safe_def by auto
qed

lemma deletion_safe_Nil: "deletion_safe h user w []"
  by (simp add: deletion_safe_def)

lemma status_safe: "list_all is_status u \<Longrightarrow> deletion_safe h user w u"
  using deletion_safe_prefix [OF deletion_safe_Nil, of u] by simp

lemma closing_calls_safe:
  assumes "closing_calls h user u" "deletion_cleared h user w"
  shows "deletion_safe h user w u"
proof (cases "deletion_policy user = ''Delete''")
  case True
  then obtain v z where "u = v @ z" "list_all is_status v"
    "z = [] \<or> drop_calls user z \<and> (HasForceDeleteAnnotation (du_meta user) \<or> unowned h user)"
    using assms(1) by (auto simp: closing_calls_def after_status_def)
  then show ?thesis using drop_calls_safe [OF _ assms(2) True] by (auto intro!: deletion_safe_prefix simp: status_safe)
next
  case False
  then show ?thesis using assms by (auto simp: closing_calls_def deletion_safe_def)
qed


section \<open>The confirmation that is never stored\<close>

text \<open>
  C37: a forced deletion never shows its confirmation. When grants refer to a user under force-delete and
  the confirmation is missing, the only call is a status write that carries the hash to confirm with;
  its phase is not one that the resource definition allows, so a server that validates it refuses the
  write, and the reconciliation still reports success and comes back after ten seconds.
\<close>

theorem confirmation_not_stored:
  fixes h :: "'w user_ctl"
  assumes server: "validates_phase h"
    and user: "rt_ContainsFinalizer (uc_runtime h) (du_meta user) FinalizerDatabaseUser" "HasForceDeleteAnnotation (du_meta user)"
    and grants: "hasGrantDependencies h user w = (w1, Inr children)" "children \<noteq> []"
    and unconfirmed: "\<not> IsForceDeleteConfirmed (uc_Sum256 h) (du_meta user) children"
  shows "\<exists>w' x e dc. user_handleDeletion (watched_ctl h) reconcileID user (w, t) = ((w', t @ [UserStatus x (Some e)]), requeue_after (10 * Second), None) \<and>
    ust_DeletionConfirmation (du_Status x) = Some dc \<and> dc_Required dc \<and> dc_Hash dc = ComputeDeletionHash (uc_Sum256 h) children"
proof -
  have phase: "ust_Phase (du_Status (in_state now PhasePendingDeletion msg reason c user)) \<notin> set user_phases" for now msg reason c user
    by (simp add: in_state_def user_phases_def phases)
  have refused: "\<exists>w' e. cl_Status_Update (uc_client h) (in_state now PhasePendingDeletion msg reason c user) w = (w', Inl e)"
    for now msg reason c user w
    using server phase [of now msg reason c user] unfolding validates_phase_def by (metis isl_def prod.collapse)
  have "\<exists>w' x e dc. ask_confirmation (watched_ctl h) user children (w1, t) = ((w', t @ [UserStatus x (Some e)]), requeue_after (10 * Second), None) \<and>
    ust_DeletionConfirmation (du_Status x) = Some dc \<and> dc_Required dc \<and> dc_Hash dc = ComputeDeletionHash (uc_Sum256 h) children"
  proof -
    define n where "n = FormatInt (int (length children))"
    define hash where "hash = ComputeDeletionHash (uc_Sum256 h) children"
    define msg where "msg = ''Force-delete requires confirmation: '' @ n @ '' child(ren) will be cascade-deleted. Set annotation '' @
                AnnotationConfirmForceDelete @ ''='' @ hash @ '' to confirm.''"
    define x where "x = in_state (uc_Now h w1) PhasePendingDeletion msg ''PendingDeletionConfirmation'' msg
                    (with_ustatus (\<lambda>st. st\<lparr>ust_DeletionConfirmation :=
                       Some \<lparr>dc_Required = True, dc_Hash = hash, dc_Children = children, dc_RemainingCount = length children, dc_Message = msg\<rparr>\<rparr>) user)"
    obtain w2 e where refuse: "cl_Status_Update (uc_client h) x w1 = (w2, Inl e)"
      using refused [of "uc_Now h w1" msg] unfolding x_def by blast
    have "ust_DeletionConfirmation (du_Status x) =
        Some \<lparr>dc_Required = True, dc_Hash = hash, dc_Children = children, dc_RemainingCount = length children, dc_Message = msg\<rparr>"
      by (simp add: x_def in_state_def)
    moreover have "status_write (watched_ctl h) x (w1, t) = ((w2, t @ [UserStatus x (Some e)]), x)"
      by (simp add: status_write_def refuse)
    moreover have "ask_confirmation (watched_ctl h) user children (w1, t) =
        (recordf (watched_runtime (uc_runtime h)) EventTypeWarning ''ForceDeletePending''
           (''Confirmation required: '' @ n @ '' children will be cascade-deleted: '' @ Join children '', '')
           (fst (status_write (watched_ctl h) x (w1, t))), requeue_after (10 * Second), None)"
      by (simp only: ask_confirmation_def Let_def x_def msg_def hash_def n_def watched_ctl_simps watched_runtime_simps)
    ultimately show ?thesis unfolding hash_def by auto
  qed
  then show ?thesis using user grants unconfirmed
    by (simp add: user_handleDeletion_def Let_def)
qed

section \<open>Examples\<close>


theorem confirmation_not_stored_witness:
  "\<exists>w' x e. user_handleDeletion (watched_ctl ctl_x) ''id'' (user_x None [(AnnotationForceDelete, ''true'')]) ([''app''], []) =
     ((w', [UserStatus x (Some e)]), requeue_after (10 * Second), None)"
proof -
  let ?user = "user_x None [(AnnotationForceDelete, ''true'')]"
  have x: "rt_ContainsFinalizer (uc_runtime ctl_x) (du_meta ?user) FinalizerDatabaseUser" "HasForceDeleteAnnotation (du_meta ?user)"
    "hasGrantDependencies ctl_x ?user [''app''] = ([''app''], Inr [''DatabaseGrant/g''])" "[''DatabaseGrant/g''] \<noteq> []"
    by (simp_all add: user_x_def FinalizerDatabaseUser_def ctl_x_def HasForceDeleteAnnotation_def hasGrantDependencies_def check_def ret_def refers_to_def grant_x_def child_name_def)
  have "\<not> IsForceDeleteConfirmed (uc_Sum256 ctl_x) (du_meta ?user) [''DatabaseGrant/g'']"
    by (simp add: IsForceDeleteConfirmed_def GetConfirmForceDeleteAnnotation_def annotation_def user_x_def ComputeDeletionHash_def ctl_x_def
        AnnotationForceDelete_def AnnotationConfirmForceDelete_def hex_byte_def)
  then show ?thesis using confirmation_not_stored [OF ctl_x_laws(3) x, of "''id''" "[]"] by auto
qed

end
