(* ===== verification/User_Rotation.thy ===== *)
theory User_Rotation
  imports User_Controller
begin

text \<open>
  Properties of reconciliations of database users: the passwords given to the server and stored in the
  secret, rotations and the grace period of the users that they retire.
\<close>

section \<open>Passwords in the server and in the secret\<close>

text \<open>A run that adds only calls of one kind.\<close>

definition adds :: "('c \<Rightarrow> bool) \<Rightarrow> 'w \<times> 'c list \<Rightarrow> 'w \<times> 'c list \<Rightarrow> bool" where
  "adds P s s' \<longleftrightarrow> (\<exists>u. snd s' = snd s @ u \<and> (\<forall>c \<in> set u. P c))"

lemma adds_refl [simp]: "adds P s s" "adds P (w, t) (w', t)"
  by (auto simp: adds_def)

lemma adds_trans: "adds P s s' \<Longrightarrow> adds P s' s'' \<Longrightarrow> adds P s s''"
  unfolding adds_def by (metis Un_iff append.assoc set_append)

lemma adds_one: "P c \<Longrightarrow> adds P (w, t) (w', t @ [c])"
  by (auto simp: adds_def)

lemma adds_weaken: "adds P s s' \<Longrightarrow> (\<And>c. P c \<Longrightarrow> Q c) \<Longrightarrow> adds Q s s'"
  unfolding adds_def by blast

lemma adds_unlogged: "unlogged m s = (s', r) \<Longrightarrow> adds P s s'"
  by (cases s) (auto split: prod.splits)

lemma adds_logged: "logged call m s = (s', r) \<Longrightarrow> P (call (error_of r)) \<Longrightarrow> adds P s s'"
  by (cases s) (auto simp: adds_one split: prod.splits)

lemma adds_event [simp]: "adds P s (recordf (watched_runtime rt) ty reason msg s')  \<longleftrightarrow> adds P s s'"
  by (cases s') (simp add: adds_def)

lemma adds_publish [simp]: "adds P s (publish (watched_handler h) ev s') \<longleftrightarrow> adds P s s'"
  by (cases s') (simp add: adds_def)

lemma adds_status_write:
  assumes "status_write (watched_ctl h) user s = (s', user')" "\<And>e. P (UserStatus user e)"
  shows "adds P s s'"
proof (cases s)
  case (Pair w t)
  then show ?thesis using assms by (auto simp: status_write_def adds_one split: prod.splits sum.splits)
qed

lemma adds_handleError:
  assumes "user_handleError (watched_ctl h) reconcileID user err op' s = (s', r)" "\<And>x e. P (UserStatus x e)"
  shows "adds P s s'"
proof -
  let ?s = "recordf (watched_runtime (uc_runtime h)) EventTypeWarning ''ReconcileFailed''
     (EventMessage reconcileID (''Failed to '' @ op' @ '': '' @ Error err)) s"
  obtain s2 user2 where run: "status_write (watched_ctl h) (in_state (uc_Now (watched_ctl h) ?s) PhaseFailed (''Failed to '' @ op' @ '': '' @ Error err)
      ''ReconcileFailed'' (Error err) user) ?s = (s2, user2)" by (meson surj_pair)
  then have "adds P ?s s2" using assms(2) by (rule adds_status_write)
  moreover have "s' = s2" using assms(1) run by (simp add: user_handleError_def Let_def)
  moreover have "adds P s ?s" by simp
  ultimately show ?thesis using adds_trans by blast
qed


definition carries :: "DatabaseUser \<Rightarrow> string \<Rightarrow> Secret \<Rightarrow> bool" where
  "carries user password s \<longleftrightarrow>
     (if hasSecretTemplateData user then annotation (sec_meta s) annotationManagedPassword = password
      else map_of (sec_StringData s) ''username'' = Some (us_Username (du_Spec user)) \<and> map_of (sec_StringData s) ''password'' = Some password)"

lemma map_merge_lookup:
  assumes "distinct (map fst kvs)" "map_of kvs k = Some v"
  shows "map_of (map_merge m kvs) k = Some v"
proof -
  have keep: "k \<notin> fst ` set kvs \<Longrightarrow> map_of (fold (\<lambda>(k, v). map_put k v) kvs m) k = map_of m k" for kvs m
    by (induction kvs arbitrary: m) (auto simp: map_put_lookup)
  have "map_of (fold (\<lambda>(k, v). map_put k v) kvs m) k = Some v"
    using assms by (induction kvs arbitrary: m) (auto simp: map_put_lookup keep split: if_splits)
  then show ?thesis by (simp add: map_merge_def)
qed

definition secret_write :: "(Secret \<Rightarrow> bool) \<Rightarrow> user_call \<Rightarrow> bool" where
  "secret_write Q c \<longleftrightarrow> (\<exists>s e. (c = SecretCreate s e \<or> c = SecretUpdate s e) \<and> Q s)"

lemma carries_created:
  assumes "sets_only_owner h" and payload: "secret_payload h user password data annotations = Inr (secretData, annotations')"
    and set: "uc_SetControllerReference h user (credentials_secret user secretName labels annotations' secretData secretType) = Inr s"
    and distinct: "distinct (map fst annotations)"
  shows "carries user password s \<and> carries user password (merged_secret existing s)"
proof -
  obtain owners where s: "s = (credentials_secret user secretName labels annotations' secretData secretType)
      \<lparr>sec_meta := (sec_meta (credentials_secret user secretName labels annotations' secretData secretType))\<lparr>om_ownerReferences := owners\<rparr>\<rparr>"
    using assms(1) set unfolding sets_only_owner_def by blast
  show ?thesis
  proof (cases "hasSecretTemplateData user")
    case True
    then have a: "annotations' = map_put annotationManagedPassword password annotations"
      using payload by (auto simp: secret_payload_def split: sum.splits)
    have "map_of annotations' annotationManagedPassword = Some password" "distinct (map fst annotations')"
      unfolding a using distinct map_put_distinct by (simp_all add: map_put_lookup)
    then show ?thesis using True
      by (simp add: carries_def s credentials_secret_def merged_secret_def annotation_def map_merge_lookup)
  next
    case False
    then have "secretData = [(''username'', us_Username (du_Spec user)), (''password'', password), (''host'', td_Host data), (''port'', FormatInt (td_Port data))]"
      using payload by (simp add: secret_payload_def)
    then show ?thesis using False by (simp add: carries_def s credentials_secret_def merged_secret_def)
  qed
qed

lemma GetTLSCredentials_watched [simp]:
  "GetTLSCredentials (watched_secrets m) ns cfg = unlogged (GetTLSCredentials m ns cfg)"
  by (rule ext) (auto simp: GetTLSCredentials_def check_def split: option.split prod.split sum.split)

lemma RenderSecretTemplate_watched [simp]: "RenderSecretTemplate ord (watched_secrets m) = RenderSecretTemplate ord m"
proof -
  have "render_all (watched_secrets m) data kvs acc = render_all m data kvs acc" for data kvs acc
    by (induction m data kvs acc rule: render_all.induct) (auto split: sum.split)
  then show ?thesis by (simp add: RenderSecretTemplate_def fun_eq_iff split: option.split)
qed

lemma adds_with_tls:
  assumes "with_tls (watched_ctl h) resolved data s = (s', data')"
  shows "adds P s s' \<and> td_Host data' = td_Host data"
proof (cases s)
  case (Pair w t)
  then show ?thesis using assms by (auto simp: with_tls_def Let_def split: option.splits if_splits prod.splits sum.splits)
qed

lemma adds_write_secret:
  assumes "write_secret (watched_ctl h) x s = (s', r)" "Q x" "\<And>existing. Q (merged_secret existing x)"
  shows "adds (secret_write Q) s s'"
proof (cases s)
  case (Pair w t)
  then show ?thesis using assms
    by (auto simp: write_secret_def Let_def check_def secret_write_def intro!: adds_one split: if_splits prod.splits sum.splits)
qed

lemma adds_ensureCredentialsSecret:
  assumes "sets_only_owner h" "ensureCredentialsSecret (watched_ctl h) user password secretName s = (s', r)"
  shows "adds (secret_write (carries user password)) s s'"
proof -
  let ?P = "secret_write (carries user password)"
  let ?annotations = "case secret_template user of None \<Rightarrow> [] | Some t \<Rightarrow> map_puts (stm_Annotations t)"
  have distinct: "distinct (map fst ?annotations)" by (simp add: map_puts_distinct split: option.split)
  obtain s1 x where res: "unlogged (rp_ResolveInstance (uh_repo (uc_handler h)) (du_Spec user) (user_ns user)) s = (s1, x)" by (meson surj_pair)
  show ?thesis
  proof (cases x)
    case (Inl e)
    then show ?thesis using assms(2) res adds_unlogged [OF res] by (simp add: ensureCredentialsSecret_def check_def)
  next
    case (Inr resolved)
    obtain s2 data where tls: "with_tls (watched_ctl h) resolved (template_data user password resolved) s1 = (s2, data)" by (meson surj_pair)
    have "adds ?P s s2" using adds_unlogged [OF res] adds_with_tls [OF tls] adds_trans by blast
    moreover have "adds ?P s2 s'"
    proof (cases "secret_payload h user password data ?annotations")
      case (Inl e)
      then show ?thesis using assms(2) res \<open>x = Inr resolved\<close> tls
        by (simp add: ensureCredentialsSecret_def check_def secret_payload_def Let_def fail_def split: if_splits sum.splits)
    next
      case payload: (Inr p)
      obtain secretData annotations' where p: "p = (secretData, annotations')" by force
      have payload': "secret_payload (watched_ctl h) user password data ?annotations = Inr (secretData, annotations')"
        using payload p by (simp add: secret_payload_def split: if_splits sum.splits)
      show ?thesis
      proof (rule ccontr)
        assume no: "\<not> adds ?P s2 s'"
        then obtain labels secretType c where
          "uc_SetControllerReference h user (credentials_secret user secretName labels annotations' secretData secretType) = Inr c"
          "write_secret (watched_ctl h) c s2 = (s', r)"
          using assms(2) res \<open>x = Inr resolved\<close> tls payload'
          by (auto simp: ensureCredentialsSecret_def check_def Let_def fail_def split: sum.splits)
        moreover from this carries_created [OF assms(1) _ this(1) distinct] payload p
        have "adds ?P s2 s'" by (blast intro: adds_write_secret)
        ultimately show False using no by blast
      qed
    qed
    ultimately show ?thesis using adds_trans by blast
  qed
qed

lemma adds_obtain_password: "obtain_password (watched_ctl h) user s = (s', r) \<Longrightarrow> adds P s s'"
  by (cases s) (auto simp: obtain_password_def Let_def split: if_splits prod.splits sum.splits)

text \<open>The calls that create a user or set its password; \<open>ok\<close> says that they succeeded.\<close>

definition account_call :: "DatabaseUser \<Rightarrow> bool \<Rightarrow> bool \<Rightarrow> string \<Rightarrow> bool \<Rightarrow> user_call \<Rightarrow> bool" where
  "account_call user exists secretMissing password ok c \<longleftrightarrow>
     (\<exists>x e. c = UserStatus x e) \<or>
     (\<exists>e. c = RepoCall (OpCreate password) (du_Spec user) (user_ns user) e \<and> \<not> exists \<and> (ok \<longrightarrow> e = None)) \<or>
     (\<exists>e. c = RepoCall (OpSetPassword (us_Username (du_Spec user)) password) (du_Spec user) (user_ns user) e \<and> exists \<and> secretMissing \<and>
          (ok \<longrightarrow> e = None))"

lemma adds_Handler_Create:
  assumes "Handler_Create (watched_handler h) spec ns password s = (s', r)"
    "\<And>e. isl r \<or> e = None \<Longrightarrow> P (RepoCall (OpCreate password) spec ns e)"
  shows "adds P s s'"
proof (cases s)
  case (Pair w t)
  then show ?thesis using assms
    by (auto simp: Handler_Create_def check_def intro!: adds_one split: if_splits prod.splits sum.splits)
qed

lemma adds_Handler_Update:
  assumes "Handler_Update (watched_handler h) username spec ns s = (s', r)" "\<And>e. P (RepoCall (OpUpdate username) spec ns e)"
  shows "adds P s s'"
proof (cases s)
  case (Pair w t)
  then show ?thesis using assms
    by (auto simp: Handler_Update_def check_def Let_def intro!: adds_one split: if_splits prod.splits sum.splits)
qed

lemma adds_provision_user:
  assumes keeps: "status_keeps_spec h" and run: "provision_user (watched_ctl h) user exists password secretMissing s = (s', user', r)"
  shows "adds (account_call user exists secretMissing password (r = None)) s s' \<and> same_resource user user'"
proof (cases exists)
  case True
  show ?thesis
  proof (cases s)
    case (Pair w t)
    then show ?thesis using run True
      by (auto simp: provision_user_def Let_def same_resource_def account_call_def intro!: adds_one split: if_splits prod.splits sum.splits)
  qed
next
  case False
  let ?P = "account_call user exists secretMissing password (r = None)"
  obtain s1 user1 where phase: "updatePhase (watched_ctl h) user PhaseCreating ''Creating user'' s = (s1, user1)" by (meson surj_pair)
  obtain s2 x where create: "Handler_Create (watched_handler (uc_handler h)) (du_Spec user1) (user_ns user1) password s1 = (s2, x)" by (meson surj_pair)
  have 1: "adds ?P s s1" using phase unfolding updatePhase_def by (rule adds_status_write) (simp add: account_call_def)
  have same: "same_resource user user1"
  proof (cases s)
    case (Pair w t)
    then show ?thesis using phase status_write_run [OF keeps, of user "with_ustatus (\<lambda>st. st\<lparr>ust_Phase := PhaseCreating, ust_Message := ''Creating user''\<rparr>) user" w t]
      by (auto simp: updatePhase_def same_resource_def)
  qed
  moreover have "isl x \<longleftrightarrow> r \<noteq> None" using run False phase create by (auto simp: provision_user_def split: sum.splits)
  ultimately have "adds ?P s1 s2" using False by (intro adds_Handler_Create [OF create]) (auto simp: account_call_def same_resource_def)
  then have "adds ?P s s2" using 1 adds_trans by blast
  moreover have "adds ?P s2 s'" "user' = user1"
    using run False phase create by (auto simp: provision_user_def split: sum.splits)
  ultimately show ?thesis using same adds_trans by blast
qed

definition drift_call :: "DatabaseUser \<Rightarrow> user_call \<Rightarrow> bool" where
  "drift_call user c \<longleftrightarrow> (\<exists>d al e. c = RepoCall (OpCorrectDrift d al) (du_Spec user) (user_ns user) e)"

lemma adds_detector:
  "dt_DetectDrift (user_detector (watched_ctl h) user) c al s = (s', r) \<Longrightarrow> adds P s s'"
  "dt_CorrectDrift (user_detector (watched_ctl h) user) c d al s = (s', r') \<Longrightarrow> adds (drift_call user) s s'"
  by (cases s; auto simp: user_detector_def Handler_DetectDrift_def Handler_CorrectDrift_def check_def drift_call_def
      intro!: adds_one split: prod.splits sum.splits)+

lemma adds_PerformDriftDetection:
  "adds (drift_call user) (os_world st) (os_world (PerformDriftDetection i c resource p (user_detector (watched_ctl h) user) st))"
proof -
  let ?d = "user_detector (watched_ctl h) user"
  have correct: "adds (drift_call user) (os_world st) (os_world (correctDrift ?d c r al st))" for r al st
    unfolding correctDrift_def Eventf_def SetDriftStatus_def
    by (auto dest!: adds_detector(1) [where P = "drift_call user"] adds_detector(2) intro: adds_trans split: prod.split sum.split option.split)
  have after: "adds (drift_call user) s (os_world (correctDrift ?d c r al st))" if "adds (drift_call user) s (os_world st)" for r al st s
    using adds_trans [OF that correct] .
  show ?thesis
    unfolding PerformDriftDetection_def Let_def
    by (auto simp: SetDriftStatus_def Eventf_def dest!: adds_detector(1) [where P = "drift_call user"]
        intro: adds_trans intro!: after split: prod.split sum.split option.split)
qed

definition reconcile_call :: "DatabaseUser \<Rightarrow> bool \<Rightarrow> bool \<Rightarrow> string \<Rightarrow> bool \<Rightarrow> user_call \<Rightarrow> bool" where
  "reconcile_call user exists secretMissing password ok c \<longleftrightarrow>
     account_call user exists secretMissing password ok c \<or>
     ok \<and> ((\<exists>e. c = RepoCall (OpUpdate (us_Username (du_Spec user))) (du_Spec user) (user_ns user) e) \<or> drift_call user c \<or>
            secret_write (carries user password) c)"

lemma reconcile_call_status [simp]: "reconcile_call user exists secretMissing password ok (UserStatus x e)"
  by (simp add: reconcile_call_def account_call_def)

lemma same_resource_reconcile:
  assumes "same_resource user user'"
  shows "carries user' = carries user" "drift_call user' = drift_call user"
  using assms by (auto simp: same_resource_def carries_def drift_call_def hasSecretTemplateData_def secret_template_def fun_eq_iff)

lemma adds_drift: "detect_user_drift (watched_ctl h) user p s = (s', user') \<Longrightarrow> adds (drift_call user) s s' \<and> same_resource user user'"
proof -
  assume run: "detect_user_drift (watched_ctl h) user p s = (s', user')"
  have events: "adds P s (fold (rt_Record (watched_runtime rt)) evs s1) \<longleftrightarrow> adds P s s1" for P evs and rt :: "'a runtime" and s1
    by (induction evs arbitrary: s1) (auto simp: adds_def watched_runtime_def)
  have "adds (drift_call user) s (os_world (PerformDriftDetection (uc_defaultDriftInterval h) \<lparr>ctx_deadline = None\<rparr> (user_resource user) p
      (user_detector (watched_ctl h) user) \<lparr>os_world = s, os_status = ust_Drift (du_Status user), os_events = []\<rparr>))"
    using adds_PerformDriftDetection [of user "\<lparr>os_world = s, os_status = ust_Drift (du_Status user), os_events = []\<rparr>"] by simp
  then show ?thesis using run by (auto simp: detect_user_drift_def Let_def same_resource_def events)
qed

lemma adds_finish_user:
  assumes "finish_user (watched_ctl h) reconcileID user secretName p rq s = (s', r)" "\<And>x e. P (UserStatus x e)"
  shows "adds P s s'"
proof (cases s)
  case (Pair w t)
  then show ?thesis using assms by (auto simp: finish_user_def Let_def intro!: adds_one split: prod.splits sum.splits)
qed

text \<open>What follows the creation of the user, up to the rotation.\<close>

definition tail_reconcile ::
  "'w user_ctl \<Rightarrow> string \<Rightarrow> DatabaseUser \<Rightarrow> string \<Rightarrow> string \<Rightarrow> 'w reconciler" where
  "tail_reconcile h reconcileID user1 password secretName w3 =
     (let repo = uh_repo (uc_handler h); w4 = fst (Handler_Update (uc_handler h) (us_Username (du_Spec user1)) (du_Spec user1) (user_ns user1) w3)
      in case ensureCredentialsSecret h user1 password secretName w4 of
           (w5, Inl e) \<Rightarrow> user_handleError h reconcileID user1 e ''ensure credentials secret'' w5
         | (w5, Inr _) \<Rightarrow>
             (case rp_ResolveInstance repo (du_Spec user1) (user_ns user1) w5 of
                (w6, resolved) \<Rightarrow>
                (let instancePolicy = (case resolved of Inl e \<Rightarrow> None | Inr ri \<Rightarrow> Some (ri_DriftPolicy ri))
                 in case detect_user_drift h user1 instancePolicy w6 of
                  (w7, user2) \<Rightarrow>
                  (case handleRotation h user2 w7 of
                    (w8, user3, r) \<Rightarrow>
                      finish_user h reconcileID user3 secretName instancePolicy
                        (case r of Inr (Some rr) \<Rightarrow> rr_RequeueAfter rr | _ \<Rightarrow> 0) w8))))"

lemma user_reconcile_tail:
  "user_reconcile h reconcileID user w =
     (case rp_Exists (uh_repo (uc_handler h)) (us_Username (du_Spec user)) (du_Spec user) (user_ns user) w of
        (w1, Inl e) \<Rightarrow> user_handleError h reconcileID user e ''check existence'' w1
      | (w1, Inr exists) \<Rightarrow>
        (case obtain_password h user w1 of
          (w2, Inl (e, operation)) \<Rightarrow> user_handleError h reconcileID user e operation w2
        | (w2, Inr (password, secretMissing)) \<Rightarrow>
          (case provision_user h user exists password secretMissing w2 of
            (w3, user1, Some (e, operation)) \<Rightarrow> user_handleError h reconcileID user1 e operation w3
          | (w3, user1, None) \<Rightarrow> tail_reconcile h reconcileID user1 password (credentials_name user) w3)))"
  by (simp only: user_reconcile_def tail_reconcile_def Let_def)

lemma adds_tail:
  assumes owner: "sets_only_owner h" and norot: "us_PasswordRotation (du_Spec user) = None"
    and run: "tail_reconcile (watched_ctl h) reconcileID user password secretName s = (s', r)"
  shows "adds (reconcile_call user exists secretMissing password True) s s'"
proof -
  let ?P = "reconcile_call user exists secretMissing password True"
  have weak: "secret_write (carries user password) c \<Longrightarrow> ?P c" "drift_call user c \<Longrightarrow> ?P c" for c
    by (simp_all add: reconcile_call_def)
  obtain s4 x4 where upd: "Handler_Update (watched_handler (uc_handler h)) (us_Username (du_Spec user)) (du_Spec user) (user_ns user) s = (s4, x4)"
    by (meson surj_pair)
  have 4: "adds ?P s s4" by (rule adds_Handler_Update [OF upd]) (simp add: reconcile_call_def)
  obtain s5 x5 where sec: "ensureCredentialsSecret (watched_ctl h) user password secretName s4 = (s5, x5)" by (meson surj_pair)
  have "adds ?P s4 s5" by (rule adds_weaken [OF adds_ensureCredentialsSecret [OF owner sec]]) (rule weak(1))
  then have 5: "adds ?P s s5" using 4 adds_trans by blast
  show ?thesis
  proof (cases x5)
    case (Inl e)
    then have "adds ?P s5 s'" using run upd sec by (intro adds_handleError [of h]) (auto simp: tail_reconcile_def)
    then show ?thesis using 5 adds_trans by blast
  next
    case (Inr y)
    obtain s6 x6 where res: "unlogged (rp_ResolveInstance (uh_repo (uc_handler h)) (du_Spec user) (user_ns user)) s5 = (s6, x6)" by (meson surj_pair)
    define p where "p = (case x6 of Inl e \<Rightarrow> None | Inr ri \<Rightarrow> Some (ri_DriftPolicy ri))"
    obtain s7 user2 where drift: "detect_user_drift (watched_ctl h) user p s6 = (s7, user2)" by (meson surj_pair)
    have "adds ?P s6 s7" by (rule adds_weaken [OF conjunct1 [OF adds_drift [OF drift]]]) (rule weak(2))
    then have 7: "adds ?P s s7" using 5 adds_unlogged [OF res] adds_trans by blast
    have "handleRotation (watched_ctl h) user2 s7 = (s7, user2, Inr None)"
      using adds_drift [OF drift] norot by (simp add: handleRotation_def same_resource_def)
    then have "finish_user (watched_ctl h) reconcileID user2 secretName p 0 s7 = (s', r)"
      using run upd sec Inr res drift by (simp add: tail_reconcile_def p_def)
    then have "adds ?P s7 s'" by (rule adds_finish_user) simp
    then show ?thesis using 7 adds_trans by blast
  qed
qed

lemma obtain_password_watched:
  "obtain_password (watched_ctl h) user (w, t) = (case obtain_password h user w of (w', r) \<Rightarrow> ((w', t), r))"
  by (auto simp: obtain_password_def Let_def split: prod.split sum.split)

text \<open>The password has been given to the user: it was created or set, or somebody else created it in between.\<close>

definition given :: "'w user_ctl \<Rightarrow> DatabaseUser \<Rightarrow> bool \<Rightarrow> bool \<Rightarrow> string \<Rightarrow> user_call list \<Rightarrow> bool" where
  "given h user exists secretMissing password u \<longleftrightarrow>
     (if exists then secretMissing \<longrightarrow> RepoCall (OpSetPassword (us_Username (du_Spec user)) password) (du_Spec user) (user_ns user) None \<in> set u
      else RepoCall (OpCreate password) (du_Spec user) (user_ns user) None \<in> set u \<or>
        (\<exists>w1 w2. rp_Exists (uh_repo (uc_handler h)) (us_Username (du_Spec user)) (du_Spec user) (user_ns user) w1 = (w2, Inr True)))"

lemma given_append: "given h user exists secretMissing password u \<Longrightarrow> given h user exists secretMissing password (u @ v)"
  by (auto simp: given_def)

lemma Handler_Create_given:
  assumes "Handler_Create (watched_handler h) spec ns password (w, t) = ((w', t'), Inr x)"
  shows "t' = t @ [RepoCall (OpCreate password) spec ns None] \<or> (\<exists>w1 w2. rp_Exists (uh_repo h) (us_Username spec) spec ns w1 = (w2, Inr True))"
  using assms by (auto simp: Handler_Create_def check_def split: if_splits prod.splits sum.splits)

lemma provision_given:
  assumes keeps: "status_keeps_spec h" and run: "provision_user (watched_ctl h) user exists password secretMissing (w, t) = ((w', t'), user', None)"
  shows "\<exists>u. t' = t @ u \<and> given h user exists secretMissing password u"
proof (cases exists)
  case True
  then show ?thesis using run
    by (auto simp: provision_user_def given_def Let_def split: if_splits prod.splits sum.splits)
next
  case False
  obtain w1 e user1 where phase: "updatePhase (watched_ctl h) user PhaseCreating ''Creating user'' (w, t) = ((w1, t @ [UserStatus
      (with_ustatus (\<lambda>st. st\<lparr>ust_Phase := PhaseCreating, ust_Message := ''Creating user''\<rparr>) user) e]), user1)" and same: "same_resource user user1"
    using status_write_run [OF keeps, of user "with_ustatus (\<lambda>st. st\<lparr>ust_Phase := PhaseCreating, ust_Message := ''Creating user''\<rparr>) user" w t]
    by (auto simp: updatePhase_def same_resource_def)
  obtain w2 t2 x where create: "Handler_Create (watched_handler (uc_handler h)) (du_Spec user1) (user_ns user1) password (w1, t @ [UserStatus
      (with_ustatus (\<lambda>st. st\<lparr>ust_Phase := PhaseCreating, ust_Message := ''Creating user''\<rparr>) user) e]) = ((w2, t2), x)" by (metis surj_pair)
  obtain y where x: "x = Inr y" "t' = t2" using run False phase create by (auto simp: provision_user_def split: sum.splits)
  then show ?thesis using Handler_Create_given [OF create [unfolded x(1)]] create same False adds_Handler_Create [OF create, of "\<lambda>_. True"]
    by (auto simp: given_def same_resource_def adds_def)
qed


section \<open>Rotation\<close>

text \<open>The calls of a rotation by role inheritance, with the new user's name and password.\<close>

definition rotate_call :: "PasswordRotationConfig \<Rightarrow> DatabaseUser \<Rightarrow> string \<Rightarrow> string \<Rightarrow> user_call \<Rightarrow> bool" where
  "rotate_call rotCfg user n p c \<longleftrightarrow>
     (let spec = du_Spec user; role = service_role_name rotCfg (us_Username spec)
      in (\<exists>e. c = RepoCall (OpEnsureServiceRole role) spec (user_ns user) e) \<or>
         (\<exists>e. c = RepoCall (OpCreateUserWithRole n p role) spec (user_ns user) e))"

definition created_call :: "PasswordRotationConfig \<Rightarrow> DatabaseUser \<Rightarrow> string \<Rightarrow> string \<Rightarrow> user_call" where
  "created_call rotCfg user n p =
     RepoCall (OpCreateUserWithRole n p (service_role_name rotCfg (us_Username (du_Spec user)))) (du_Spec user) (user_ns user) None"

lemma generateRotatedUsername_watched [simp]:
  "generateRotatedUsername (watched_handler h) = generateRotatedUsername h"
  by (simp add: generateRotatedUsername_def fun_eq_iff Let_def)

definition rotate_outcome :: "'w user_handler \<Rightarrow> PasswordRotationConfig \<Rightarrow> DatabaseUser \<Rightarrow> user_call list \<Rightarrow> go_error + RotationResult \<Rightarrow> bool" where
  "rotate_outcome h rotCfg user u r \<longleftrightarrow>
     (\<exists>n p now. (\<forall>c \<in> set u. rotate_call rotCfg user n p c) \<and>
        (\<forall>res. r = Inr res \<longrightarrow> rr_NewUsername res = n \<and> rr_NewPassword res = p \<and>
           rr_ServiceRole res = service_role_name rotCfg (us_Username (du_Spec user)) \<and>
           n = generateRotatedUsername h rotCfg (us_Username (du_Spec user)) now \<and> created_call rotCfg user n p \<in> set u))"

lemma RotateWithStrategy_records:
  "records (RotateWithStrategy (watched_handler h) rotCfg user) w (\<lambda>u w' r. rotate_outcome h rotCfg user u r)"
proof -
  have "records (rotateRoleInheritance (watched_handler h) rotCfg user) w (\<lambda>u w' r. rotate_outcome h rotCfg user u r)"
    unfolding records_def rotateRoleInheritance_def Let_def rotate_outcome_def rotate_call_def created_call_def
    by (auto simp: check_def ret_def split: prod.split sum.split option.split)
  then show ?thesis
    by (cases "rot_Strategy rotCfg") (simp_all add: RotateWithStrategy_def rotate_outcome_def)
qed

section \<open>Rotations\<close>

text \<open>The entry that a rotation adds for the user that was active before.\<close>

definition retired :: "int \<Rightarrow> PasswordRotationConfig \<Rightarrow> string \<Rightarrow> RotationStatus \<Rightarrow> PendingDeletionInfo list" where
  "retired now rotCfg username st =
     (if rs_ActiveUser st = '''' \<or> rs_ActiveUser st = username then []
      else [\<lparr>pd_User = rs_ActiveUser st, pd_DeprecatedAt = Some now,
             pd_DeleteAfter = Some (now + wrap64 ((case rot_OldUserPolicy rotCfg of None \<Rightarrow> 7 | Some p \<Rightarrow> oup_GracePeriodDays p) * 24 * Hour)),
             pd_Status = ''pending'', pd_BlockedReason = '''', pd_OwnedObjects = [], pd_Resolution = ''''\<rparr>])"

text \<open>The status after a rotation, with \<open>n\<close> the user that it created.\<close>

definition rotated_status :: "(int \<Rightarrow> int) \<Rightarrow> PasswordRotationConfig \<Rightarrow> int \<Rightarrow> string \<Rightarrow> string \<Rightarrow> RotationStatus \<Rightarrow> RotationStatus" where
  "rotated_status next rotCfg now username n st =
     \<lparr>rs_Enabled = rs_Enabled st, rs_Strategy = rot_Strategy rotCfg, rs_LastRotatedAt = Some now, rs_NextRotationAt = Some (next now),
      rs_ActiveUser = n, rs_ServiceRole = service_role_name rotCfg username,
      rs_PendingDeletion = rs_PendingDeletion st @ retired now rotCfg username st\<rparr>"

lemma rotation_done_status:
  assumes "rr_NewUsername result = n" "rr_ServiceRole result = service_role_name rotCfg username"
  shows "rotation_done next rotCfg now result username st = rotated_status next rotCfg now username n st"
  using assms by (simp add: rotation_done_def rotated_status_def retire_active_def retired_def Let_def)

definition rotation_calls :: "PasswordRotationConfig \<Rightarrow> DatabaseUser \<Rightarrow> string \<Rightarrow> string \<Rightarrow> user_call list \<Rightarrow> bool" where
  "rotation_calls rotCfg user n p u \<longleftrightarrow>
     (\<forall>c \<in> set u. rotate_call rotCfg user n p c \<or> created_call rotCfg user n p \<in> set u \<and> secret_write (carries user p) c)"

lemma rotate_now_records:
  assumes owner: "sets_only_owner h"
  shows "records (rotate_now (watched_ctl h) next rotCfg now user st) w (\<lambda>u w' r. \<exists>n p. rotation_calls rotCfg user n p u \<and>
    (\<forall>user'. r = Inr user' \<longrightarrow> created_call rotCfg user n p \<in> set u \<and> (\<exists>moment. n = generateRotatedUsername (uc_handler h) rotCfg (us_Username (du_Spec user)) moment) \<and>
       user' = with_rotation (rotated_status next rotCfg now (us_Username (du_Spec user)) n st) user))"
  unfolding records_def
proof
  fix t
  obtain u w1 r where rot: "RotateWithStrategy (watched_handler (uc_handler h)) rotCfg user (w, t) = ((w1, t @ u), r)"
    and out: "rotate_outcome (uc_handler h) rotCfg user u r"
    using RotateWithStrategy_records by (rule recordsE)
  let ?goal = "\<lambda>u w' r. rotate_now (watched_ctl h) next rotCfg now user st (w, t) = ((w', t @ u), r) \<and> (\<exists>n p. rotation_calls rotCfg user n p u \<and>
    (\<forall>user'. r = Inr user' \<longrightarrow> created_call rotCfg user n p \<in> set u \<and> (\<exists>moment. n = generateRotatedUsername (uc_handler h) rotCfg (us_Username (du_Spec user)) moment) \<and>
       user' = with_rotation (rotated_status next rotCfg now (us_Username (du_Spec user)) n st) user))"
  show "\<exists>u w' r. ?goal u w' r"
  proof (cases r)
    case (Inl e)
    then show ?thesis using rot out by (auto simp: rotate_now_def rotate_outcome_def rotation_calls_def)
  next
    case (Inr res)
    then obtain n p moment where calls: "\<forall>c \<in> set u. rotate_call rotCfg user n p c" and res: "rr_NewUsername res = n" "rr_NewPassword res = p"
        "rr_ServiceRole res = service_role_name rotCfg (us_Username (du_Spec user))"
        "n = generateRotatedUsername (uc_handler h) rotCfg (us_Username (du_Spec user)) moment" "created_call rotCfg user n p \<in> set u"
      using out unfolding rotate_outcome_def by blast
    obtain s2 x where sec: "ensureCredentialsSecret (watched_ctl h) user p (credentials_name user) (w1, t @ u) = (s2, x)" by (meson surj_pair)
    then obtain v w2 where v: "s2 = (w2, t @ u @ v)" "\<forall>c \<in> set v. secret_write (carries user p) c"
      using adds_ensureCredentialsSecret [OF owner sec] by (cases s2) (auto simp: adds_def)
    have "rotation_calls rotCfg user n p (u @ v)" using calls v(2) res(5) by (auto simp: rotation_calls_def)
    then show ?thesis using rot Inr sec v(1) res rotation_done_status [OF res(1,3)]
      by (auto simp: rotate_now_def Let_def)
  qed
qed


text \<open>
  The grace period. The user that a rotation retires is due after the configured number of days, up to
  106751 days; beyond, the product of the duration wraps around and the user is due at once.
\<close>

theorem grace_period_bounds:
  fixes st :: RotationStatus
  assumes "rs_ActiveUser st \<noteq> ''''" "rs_ActiveUser st \<noteq> username" "rot_OldUserPolicy rotCfg = Some policy"
  defines "days \<equiv> oup_GracePeriodDays policy"
  shows "\<exists>e d. retire_active now rotCfg username st = st\<lparr>rs_PendingDeletion := rs_PendingDeletion st @ [e]\<rparr> \<and>
    pd_User e = rs_ActiveUser st \<and> pd_Status e = ''pending'' \<and> pd_DeleteAfter e = Some d \<and>
    (0 \<le> days \<and> days \<le> 106751 \<longrightarrow> d = now + days * 24 * Hour) \<and> (days = 106752 \<longrightarrow> d < now)"
proof -
  have "0 \<le> days \<and> days \<le> 106751 \<longrightarrow> wrap64 (days * 24 * Hour) = days * 24 * Hour"
    by (auto intro!: wrap64_id simp: Hour_def Minute_def Second_def)
  moreover have "wrap64 (106752 * 24 * Hour) < 0" by (simp add: wrap64_def Hour_def Minute_def Second_def)
  ultimately show ?thesis using assms(1-3)
    by (intro exI [of _ "\<lparr>pd_User = rs_ActiveUser st, pd_DeprecatedAt = Some now, pd_DeleteAfter = Some (now + wrap64 (days * 24 * Hour)),
        pd_Status = ''pending'', pd_BlockedReason = '''', pd_OwnedObjects = [], pd_Resolution = ''''\<rparr>"] exI [of _ "now + wrap64 (days * 24 * Hour)"])
      (auto simp: retire_active_def days_def)
qed

section \<open>Examples\<close>



theorem grace_period_bounds_witness:
  "\<exists>e. retire_active 100 rotation_config_x ''app'' rotation_x = rotation_x\<lparr>rs_PendingDeletion := rs_PendingDeletion rotation_x @ [e]\<rparr> \<and>
     pd_User e = ''app_2'' \<and> pd_DeleteAfter e = Some (100 + 3 * 24 * Hour)"
proof -
  have "rs_ActiveUser rotation_x = ''app_2''" "rot_OldUserPolicy rotation_config_x =
      Some \<lparr>oup_Action = OldUserActionDelete, oup_GracePeriodDays = 3, oup_OwnershipCheck = True\<rparr>"
    by (simp_all add: rotation_x_def rotation_config_x_def)
  then show ?thesis using grace_period_bounds [of rotation_x "''app''" rotation_config_x _ 100] by auto
qed

end
