(* ===== verification/Storage_Crypto.thy ===== *)
theory Storage_Crypto
  imports Secret_Manager "HOL-Library.Word"
begin

unbundle bit_operations_syntax

text \<open>
  Encryption of backups: \<^verbatim>\<open>internal/storage/encryption.go\<close>. Bytes are words of eight bits. The chaining
  of blocks, which is \<^verbatim>\<open>crypto/cipher\<close>, and the padding are written out; the block cipher AES, the
  sealed box GCM and the random source are fields of the record \<open>crypto\<close>. A reader is a function of the
  length of the buffer and of its state that returns the bytes it has put there; a call that never returns
  is \<open>None\<close>.
\<close>

type_synonym byte = "8 word"
type_synonym bytes = "byte list"

definition bytes_of :: "string \<Rightarrow> bytes" where
  "bytes_of s = map of_char s"

section \<open>Readers\<close>

datatype io_error = EOF | IO_Error go_error

type_synonym 's reader = "nat \<Rightarrow> 's \<Rightarrow> ('s \<times> bytes \<times> io_error option) option"

text \<open>
  \<^verbatim>\<open>io.ReadAll\<close> reads into the free part of a buffer that it lets grow when it is full; how much is free
  when \<open>n\<close> bytes have been read is \<open>room n\<close>, which the runtime decides and which is never zero.
\<close>

partial_function (option) ReadAll_from ::
  "'s reader \<Rightarrow> (nat \<Rightarrow> nat) \<Rightarrow> bytes \<Rightarrow> 's \<Rightarrow> ('s \<times> (go_error + bytes)) option" where
  [code]: "ReadAll_from r room b s =
     (case r (room (length b)) s of
        None \<Rightarrow> None
      | Some (s', p, err) \<Rightarrow>
          (case err of
             Some EOF \<Rightarrow> Some (s', Inr (b @ p))
           | Some (IO_Error e) \<Rightarrow> Some (s', Inl e)
           | None \<Rightarrow> ReadAll_from r room (b @ p) s'))"

definition ReadAll :: "'s reader \<Rightarrow> (nat \<Rightarrow> nat) \<Rightarrow> 's \<Rightarrow> ('s \<times> (go_error + bytes)) option" where
  "ReadAll r room s = ReadAll_from r room [] s"

text \<open>\<^verbatim>\<open>bytes.NewReader\<close>: its state is the rest of the bytes. It reports the end when nothing is left.\<close>

definition bytes_reader :: "bytes reader" where
  "bytes_reader n b = (if b = [] then Some ([], [], Some EOF) else Some (drop n b, take n b, None))"

section \<open>Configuration\<close>

record SecretKeySelector =
  sks_Name :: string
  sks_Namespace :: string
  sks_Key :: string

datatype EncryptionAlgorithm = EncryptionAES256GCM | EncryptionAES256CBC | EncryptionUnset | EncryptionOther string

record EncryptionConfig =
  ec_Enabled :: bool
  ec_Algorithm :: EncryptionAlgorithm
  ec_SecretRef :: "SecretKeySelector option"

section \<open>Ciphers\<close>

record block_cipher =
  bc_BlockSize :: nat
  bc_Encrypt :: "bytes \<Rightarrow> bytes"
  bc_Decrypt :: "bytes \<Rightarrow> bytes"

record aead =
  ae_NonceSize :: nat
  ae_Seal :: "bytes \<Rightarrow> bytes \<Rightarrow> bytes"
  ae_Open :: "bytes \<Rightarrow> bytes \<Rightarrow> go_error + bytes"

record 'w crypto =
  cy_NewCipher :: "bytes \<Rightarrow> go_error + block_cipher"
  cy_NewGCM :: "block_cipher \<Rightarrow> go_error + aead"
  cy_ReadFull :: "nat \<Rightarrow> ('w, bytes) op"

definition xor_bytes :: "bytes \<Rightarrow> bytes \<Rightarrow> bytes" where
  "xor_bytes a b = map2 (XOR) a b"

definition blocks_of :: "nat \<Rightarrow> 'a list \<Rightarrow> 'a list list" where
  "blocks_of n xs = map (\<lambda>i. take n (drop (i * n) xs)) [0..<length xs div n]"

text \<open>\<^verbatim>\<open>CryptBlocks\<close> of the two modes, block by block.\<close>

fun cbc_encrypt :: "(bytes \<Rightarrow> bytes) \<Rightarrow> bytes \<Rightarrow> bytes list \<Rightarrow> bytes list" where
  "cbc_encrypt f iv [] = []"
| "cbc_encrypt f iv (b # bs) = (let c = f (xor_bytes b iv) in c # cbc_encrypt f c bs)"

fun cbc_decrypt :: "(bytes \<Rightarrow> bytes) \<Rightarrow> bytes \<Rightarrow> bytes list \<Rightarrow> bytes list" where
  "cbc_decrypt f iv [] = []"
| "cbc_decrypt f iv (c # cs) = xor_bytes (f c) iv # cbc_decrypt f c cs"

definition CryptBlocks_encrypt :: "block_cipher \<Rightarrow> bytes \<Rightarrow> bytes \<Rightarrow> bytes" where
  "CryptBlocks_encrypt block iv src = concat (cbc_encrypt (bc_Encrypt block) iv (blocks_of (bc_BlockSize block) src))"

definition CryptBlocks_decrypt :: "block_cipher \<Rightarrow> bytes \<Rightarrow> bytes \<Rightarrow> bytes" where
  "CryptBlocks_decrypt block iv src = concat (cbc_decrypt (bc_Decrypt block) iv (blocks_of (bc_BlockSize block) src))"

section \<open>Encryptors\<close>

datatype Encryptor = NoopEncryptor | AESGCMEncryptor aead | AESCBCEncryptor block_cipher

definition newAESGCMEncryptor :: "'w crypto \<Rightarrow> bytes \<Rightarrow> go_error + Encryptor" where
  "newAESGCMEncryptor cy key =
     (case cy_NewCipher cy key of
        Inl e \<Rightarrow> Inl (Errorf_w ''failed to create AES cipher: '' e)
      | Inr block \<Rightarrow>
          (case cy_NewGCM cy block of
             Inl e \<Rightarrow> Inl (Errorf_w ''failed to create GCM: '' e)
           | Inr gcm \<Rightarrow> Inr (AESGCMEncryptor gcm)))"

definition newAESCBCEncryptor :: "'w crypto \<Rightarrow> bytes \<Rightarrow> go_error + Encryptor" where
  "newAESCBCEncryptor cy key =
     (case cy_NewCipher cy key of
        Inl e \<Rightarrow> Inl (Errorf_w ''failed to create AES cipher: '' e)
      | Inr block \<Rightarrow> Inr (AESCBCEncryptor block))"

definition gcm_encrypt :: "'w crypto \<Rightarrow> aead \<Rightarrow> bytes \<Rightarrow> ('w, bytes) op" where
  "gcm_encrypt cy gcm plaintext =
     check (cy_ReadFull cy (ae_NonceSize gcm)) (\<lambda>e w. Errorf_w ''failed to generate nonce: '' e) (\<lambda>nonce.
     ret (nonce @ ae_Seal gcm nonce plaintext))"

definition gcm_decrypt :: "aead \<Rightarrow> bytes \<Rightarrow> go_error + bytes" where
  "gcm_decrypt gcm ciphertext =
     (let nonceSize = ae_NonceSize gcm
      in if length ciphertext < nonceSize then Inl (OtherError ''ciphertext too short'' None)
         else case ae_Open gcm (take nonceSize ciphertext) (drop nonceSize ciphertext) of
           Inl e \<Rightarrow> Inl (Errorf_w ''failed to decrypt: '' e)
         | Inr plaintext \<Rightarrow> Inr plaintext)"

definition pad :: "nat \<Rightarrow> bytes \<Rightarrow> bytes" where
  "pad blockSize plaintext =
     (let padding = blockSize - length plaintext mod blockSize
      in plaintext @ replicate padding (of_nat padding))"

definition cbc_encrypt_bytes :: "'w crypto \<Rightarrow> block_cipher \<Rightarrow> bytes \<Rightarrow> ('w, bytes) op" where
  "cbc_encrypt_bytes cy block plaintext =
     (let padtext = pad (bc_BlockSize block) plaintext
      in check (cy_ReadFull cy (bc_BlockSize block)) (\<lambda>e w. Errorf_w ''failed to generate IV: '' e) (\<lambda>iv.
         ret (iv @ CryptBlocks_encrypt block iv padtext)))"

definition unpad :: "nat \<Rightarrow> bytes \<Rightarrow> go_error + bytes" where
  "unpad blockSize plaintext =
     (let padding = unat (plaintext ! (length plaintext - 1))
      in if padding > blockSize \<or> padding = 0 then Inl (OtherError ''invalid padding'' None)
         else if \<exists>i \<in> {length plaintext - padding..<length plaintext}. plaintext ! i \<noteq> of_nat padding
           then Inl (OtherError ''invalid padding'' None)
         else Inr (take (length plaintext - padding) plaintext))"

definition cbc_decrypt_bytes :: "block_cipher \<Rightarrow> bytes \<Rightarrow> go_error + bytes" where
  "cbc_decrypt_bytes block ciphertext =
     (let blockSize = bc_BlockSize block
      in if length ciphertext < blockSize * 2 then Inl (OtherError ''ciphertext too short'' None)
         else if length ciphertext mod blockSize \<noteq> 0 then Inl (OtherError ''ciphertext is not a multiple of the block size'' None)
         else unpad blockSize (CryptBlocks_decrypt block (take blockSize ciphertext) (drop blockSize ciphertext)))"

fun Encrypt :: "'w crypto \<Rightarrow> Encryptor \<Rightarrow> bytes \<Rightarrow> ('w, bytes) op" where
  "Encrypt cy NoopEncryptor plaintext = ret plaintext"
| "Encrypt cy (AESGCMEncryptor gcm) plaintext = gcm_encrypt cy gcm plaintext"
| "Encrypt cy (AESCBCEncryptor block) plaintext = cbc_encrypt_bytes cy block plaintext"

fun Decrypt :: "Encryptor \<Rightarrow> bytes \<Rightarrow> go_error + bytes" where
  "Decrypt NoopEncryptor ciphertext = Inr ciphertext"
| "Decrypt (AESGCMEncryptor gcm) ciphertext = gcm_decrypt gcm ciphertext"
| "Decrypt (AESCBCEncryptor block) ciphertext = cbc_decrypt_bytes block ciphertext"

fun Encryptor_Extension :: "Encryptor \<Rightarrow> string" where
  "Encryptor_Extension NoopEncryptor = ''''"
| "Encryptor_Extension (AESGCMEncryptor gcm) = ''.enc''"
| "Encryptor_Extension (AESCBCEncryptor block) = ''.enc''"

definition getEncryptionKey :: "'w secret_env \<Rightarrow> SecretKeySelector \<Rightarrow> string \<Rightarrow> ('w, bytes) op" where
  "getEncryptionKey m secretRef namespace =
     check (GetSecretData m (sks_Name secretRef) (or_default (sks_Namespace secretRef) namespace))
       (\<lambda>e w. Errorf_w (''failed to get secret '' @ sks_Name secretRef @ '': '') e) (\<lambda>secretData.
     case map_of secretData (sks_Key secretRef) of
       None \<Rightarrow> fail (missing_key (sks_Name secretRef) (sks_Key secretRef))
     | Some keyStr \<Rightarrow>
         (let key = bytes_of keyStr
          in if length key \<noteq> 32 then
               fail (OtherError (''encryption key must be exactly 32 bytes for AES-256, got '' @ FormatInt (int (length key)) @ '' bytes'') None)
             else ret key))"

definition NewEncryptor ::
  "'w crypto \<Rightarrow> 'w secret_env \<Rightarrow> EncryptionConfig option \<Rightarrow> string \<Rightarrow> ('w, Encryptor) op" where
  "NewEncryptor cy m cfg namespace =
     (case cfg of
        None \<Rightarrow> ret NoopEncryptor
      | Some config \<Rightarrow>
          if \<not> ec_Enabled config then ret NoopEncryptor
          else case ec_SecretRef config of
            None \<Rightarrow> fail (OtherError ''encryption secret reference is required when encryption is enabled'' None)
          | Some secretRef \<Rightarrow>
              check (getEncryptionKey m secretRef namespace) (\<lambda>e w. Errorf_w ''failed to get encryption key: '' e) (\<lambda>key w.
                (w, case ec_Algorithm config of
                      EncryptionAES256GCM \<Rightarrow> newAESGCMEncryptor cy key
                    | EncryptionUnset \<Rightarrow> newAESGCMEncryptor cy key
                    | EncryptionAES256CBC \<Rightarrow> newAESCBCEncryptor cy key
                    | EncryptionOther a \<Rightarrow> Inl (OtherError (''unsupported encryption algorithm: '' @ a) None))))"

section \<open>Writers and readers that encrypt\<close>

record 'w write_closer =
  wr_Write :: "bytes \<Rightarrow> ('w, nat) op"
  wr_Close :: "('w, unit) op"

record 'w EncryptingWriter =
  ew_encryptor :: Encryptor
  ew_underlying :: "'w write_closer"
  ew_buffer :: bytes

definition NewEncryptingWriter :: "'w write_closer \<Rightarrow> Encryptor \<Rightarrow> 'w EncryptingWriter" where
  "NewEncryptingWriter w encryptor = \<lparr>ew_encryptor = encryptor, ew_underlying = w, ew_buffer = []\<rparr>"

definition EncryptingWriter_Write :: "'w EncryptingWriter \<Rightarrow> bytes \<Rightarrow> 'w EncryptingWriter \<times> nat" where
  "EncryptingWriter_Write w p = (w\<lparr>ew_buffer := ew_buffer w @ p\<rparr>, length p)"

definition EncryptingWriter_Close :: "'w crypto \<Rightarrow> 'w EncryptingWriter \<Rightarrow> ('w, unit) op" where
  "EncryptingWriter_Close cy w s =
     (case Encrypt cy (ew_encryptor w) (ew_buffer w) s of
        (s1, Inl e) \<Rightarrow> (fst (wr_Close (ew_underlying w) s1), Inl (Errorf_w ''failed to encrypt data: '' e))
      | (s1, Inr encrypted) \<Rightarrow>
          (case wr_Write (ew_underlying w) encrypted s1 of
             (s2, Inl e) \<Rightarrow> (fst (wr_Close (ew_underlying w) s2), Inl (Errorf_w ''failed to write encrypted data: '' e))
           | (s2, Inr _) \<Rightarrow> wr_Close (ew_underlying w) s2))"

record 's DecryptingReader =
  dr_decrypted :: bytes
  dr_offset :: nat
  dr_underlying :: 's
  dr_encryptor :: Encryptor
  dr_initialized :: bool

definition NewDecryptingReader :: "'s \<Rightarrow> Encryptor \<Rightarrow> 's DecryptingReader" where
  "NewDecryptingReader r encryptor =
     \<lparr>dr_decrypted = [], dr_offset = 0, dr_underlying = r, dr_encryptor = encryptor, dr_initialized = False\<rparr>"

definition read_decrypted :: "'s DecryptingReader reader" where
  "read_decrypted n r =
     (if dr_offset r \<ge> length (dr_decrypted r) then Some (r, [], Some EOF)
      else let p = take n (drop (dr_offset r) (dr_decrypted r))
           in Some (r\<lparr>dr_offset := dr_offset r + length p\<rparr>, p, None))"

definition DecryptingReader_Read :: "'s reader \<Rightarrow> (nat \<Rightarrow> nat) \<Rightarrow> 's DecryptingReader reader" where
  "DecryptingReader_Read underlying room n r =
     (if dr_initialized r then read_decrypted n r
      else case ReadAll underlying room (dr_underlying r) of
        None \<Rightarrow> None
      | Some (s, Inl e) \<Rightarrow> Some (r\<lparr>dr_underlying := s\<rparr>, [], Some (IO_Error (Errorf_w ''failed to read encrypted data: '' e)))
      | Some (s, Inr ciphertext) \<Rightarrow>
          (case Decrypt (dr_encryptor r) ciphertext of
             Inl e \<Rightarrow> Some (r\<lparr>dr_underlying := s, dr_decrypted := []\<rparr>, [], Some (IO_Error (Errorf_w ''failed to decrypt data: '' e)))
           | Inr plaintext \<Rightarrow> read_decrypted n (r\<lparr>dr_underlying := s, dr_decrypted := plaintext, dr_initialized := True\<rparr>)))"

section \<open>Reading to the end\<close>

lemma ReadAll_bytes_from:
  assumes "\<And>n. 0 < room n"
  shows "ReadAll_from bytes_reader room b c = Some ([], Inr (b @ c))"
proof (induction "length c" arbitrary: b c rule: less_induct)
  case less
  show ?case
  proof (cases "c = []")
    case True
    then show ?thesis by (subst ReadAll_from.simps) (simp add: bytes_reader_def)
  next
    case False
    then have "length (drop (room (length b)) c) < length c" using assms [of "length b"] by simp
    then show ?thesis using False less [of "drop (room (length b)) c" "b @ take (room (length b)) c"]
      by (subst ReadAll_from.simps) (simp add: bytes_reader_def)
  qed
qed

lemma ReadAll_bytes: "(\<And>n. 0 < room n) \<Longrightarrow> ReadAll bytes_reader room c = Some ([], Inr c)"
  by (simp add: ReadAll_def ReadAll_bytes_from)

lemma ReadAll_decrypted_from:
  assumes room: "\<And>n. 0 < room n" and init: "dr_initialized r"
  shows "\<exists>r'. ReadAll_from (DecryptingReader_Read underlying room') room b r = Some (r', Inr (b @ drop (dr_offset r) (dr_decrypted r)))"
  using init
proof (induction "length (dr_decrypted r) - dr_offset r" arbitrary: b r rule: less_induct)
  case less
  show ?case
  proof (cases "dr_offset r \<ge> length (dr_decrypted r)")
    case True
    then show ?thesis using less.prems by (subst ReadAll_from.simps) (simp add: DecryptingReader_Read_def read_decrypted_def)
  next
    case False
    define p where "p = take (room (length b)) (drop (dr_offset r) (dr_decrypted r))"
    let ?r = "r\<lparr>dr_offset := dr_offset r + length p\<rparr>"
    have p: "0 < length p" using False room [of "length b"] by (simp add: p_def)
    have "take k xs @ drop (length (take k xs)) xs = xs" for k and xs :: bytes
      by (cases "length xs \<le> k") simp_all
    from this [of "room (length b)" "drop (dr_offset r) (dr_decrypted r)"]
    have rest: "p @ drop (dr_offset r + length p) (dr_decrypted r) = drop (dr_offset r) (dr_decrypted r)"
      by (simp only: p_def drop_drop add.commute)
    obtain r' where "ReadAll_from (DecryptingReader_Read underlying room') room (b @ p) ?r =
        Some (r', Inr ((b @ p) @ drop (dr_offset ?r) (dr_decrypted ?r)))"
    proof -
      have "length (dr_decrypted ?r) - dr_offset ?r < length (dr_decrypted r) - dr_offset r"
        using p False diff_less_mono2 [of "dr_offset r" "dr_offset r + length p" "length (dr_decrypted r)"] by simp
      then show ?thesis using less.hyps [of ?r "b @ p"] less.prems that by auto
    qed
    moreover have "ReadAll_from (DecryptingReader_Read underlying room') room b r =
        ReadAll_from (DecryptingReader_Read underlying room') room (b @ p) ?r"
      using False less.prems by (subst ReadAll_from.simps) (simp add: DecryptingReader_Read_def read_decrypted_def p_def Let_def)
    ultimately show ?thesis using rest by simp
  qed
qed

text \<open>Reading the first part decides everything: the ciphertext is read to its end and decrypted at once.\<close>

lemma ReadAll_DecryptingReader:
  assumes room: "\<And>n. 0 < room n" and all: "ReadAll underlying room' s = Some (s', Inr c)" and dec: "Decrypt e c = Inr p"
  shows "\<exists>r'. ReadAll (DecryptingReader_Read underlying room') room (NewDecryptingReader s e) = Some (r', Inr p)"
proof -
  let ?r = "\<lparr>dr_decrypted = p, dr_offset = 0, dr_underlying = s', dr_encryptor = e, dr_initialized = True\<rparr>"
  have "DecryptingReader_Read underlying room' n (NewDecryptingReader s e) = DecryptingReader_Read underlying room' n ?r" for n
    using all dec by (simp add: DecryptingReader_Read_def NewDecryptingReader_def)
  then have "ReadAll_from (DecryptingReader_Read underlying room') room [] (NewDecryptingReader s e) =
      ReadAll_from (DecryptingReader_Read underlying room') room [] ?r"
    by (subst (1 2) ReadAll_from.simps) simp
  then show ?thesis using ReadAll_decrypted_from [where room = room and room' = room' and r = ?r and underlying = underlying and b = "[]"] room by (simp add: ReadAll_def)
qed

section \<open>What the ciphers promise\<close>

text \<open>A block cipher is a permutation of blocks; the block of AES has 16 bytes. Other sizes stay below 256.\<close>

definition block_law :: "block_cipher \<Rightarrow> bool" where
  "block_law b \<longleftrightarrow> 0 < bc_BlockSize b \<and> bc_BlockSize b < 256 \<and>
     (\<forall>x. length x = bc_BlockSize b \<longrightarrow> length (bc_Encrypt b x) = bc_BlockSize b \<and>
        length (bc_Decrypt b x) = bc_BlockSize b \<and> bc_Decrypt b (bc_Encrypt b x) = x)"

definition aead_law :: "aead \<Rightarrow> bool" where
  "aead_law g \<longleftrightarrow> (\<forall>nonce p. length nonce = ae_NonceSize g \<longrightarrow> ae_Open g nonce (ae_Seal g nonce p) = Inr p)"

definition random_law :: "'w crypto \<Rightarrow> bool" where
  "random_law cy \<longleftrightarrow> (\<forall>n w w' b. cy_ReadFull cy n w = (w', Inr b) \<longrightarrow> length b = n)"

definition crypto_laws :: "'w crypto \<Rightarrow> bool" where
  "crypto_laws cy \<longleftrightarrow> random_law cy \<and>
     (\<forall>key b. cy_NewCipher cy key = Inr b \<longrightarrow> block_law b \<and> (\<forall>g. cy_NewGCM cy b = Inr g \<longrightarrow> aead_law g))"

fun sound_encryptor :: "Encryptor \<Rightarrow> bool" where
  "sound_encryptor NoopEncryptor = True"
| "sound_encryptor (AESGCMEncryptor g) = aead_law g"
| "sound_encryptor (AESCBCEncryptor b) = block_law b"

lemma NewEncryptor_sound:
  assumes "crypto_laws cy" "NewEncryptor cy m cfg ns w = (w', Inr e)"
  shows "sound_encryptor e"
  using assms
  by (auto simp: NewEncryptor_def check_def newAESGCMEncryptor_def newAESCBCEncryptor_def crypto_laws_def
      split: option.splits if_splits prod.splits sum.splits EncryptionAlgorithm.splits)

section \<open>Blocks\<close>

lemma length_xor_bytes [simp]: "length (xor_bytes a b) = min (length a) (length b)"
  by (simp add: xor_bytes_def)

lemma xor_bytes_cancel: "length a = length b \<Longrightarrow> xor_bytes (xor_bytes a b) b = a"
  by (induction a b rule: list_induct2) (simp_all add: xor_bytes_def xor.assoc)

lemma blocks_of_append:
  assumes "length b = n" "0 < n"
  shows "blocks_of n (b @ xs) = b # blocks_of n xs"
proof -
  have "length (b @ xs) div n = Suc (length xs div n)" using assms by simp
  moreover have "drop (i * n + n) (b @ xs) = drop (i * n) xs" for i using assms by (simp add: add.commute)
  ultimately show ?thesis using assms
    by (simp add: blocks_of_def upt_conv_Cons map_Suc_upt [symmetric] o_def add.commute del: upt_Suc)
qed

lemma blocks_of_concat: "\<forall>b \<in> set bs. length b = n \<Longrightarrow> 0 < n \<Longrightarrow> blocks_of n (concat bs) = bs"
proof (induction bs)
  case Nil
  then show ?case by (simp add: blocks_of_def)
qed (simp add: blocks_of_append)

lemma concat_blocks_of: "0 < n \<Longrightarrow> n dvd length xs \<Longrightarrow> concat (blocks_of n xs) = xs"
proof (induction "length xs" arbitrary: xs rule: less_induct)
  case less
  show ?case
  proof (cases "xs = []")
    case True
    then show ?thesis by (simp add: blocks_of_def)
  next
    case False
    then have n: "n \<le> length xs" using less.prems by (simp add: dvd_imp_le)
    then have "length (take n xs) = n" by simp
    moreover have "n dvd length (drop n xs)" using less.prems n by (simp add: dvd_minus_self)
    moreover have "length (drop n xs) < length xs" using False less.prems by simp
    ultimately have "concat (blocks_of n (take n xs @ drop n xs)) = take n xs @ drop n xs"
      using less by (simp only: blocks_of_append concat.simps)
    then show ?thesis by simp
  qed
qed

lemma blocks_of_length: "b \<in> set (blocks_of n xs) \<Longrightarrow> length b = n"
proof -
  assume "b \<in> set (blocks_of n xs)"
  then obtain i where i: "i < length xs div n" and b: "b = take n (drop (i * n) xs)" by (auto simp: blocks_of_def)
  from i have "Suc i * n \<le> length xs" using less_eq_div_iff_mult_less_eq [of n "Suc i" "length xs"] by (cases "n = 0") auto
  then show ?thesis using b by simp
qed

lemma cbc_round_trip:
  assumes "block_law c" "\<forall>b \<in> set bs. length b = bc_BlockSize c" "length iv = bc_BlockSize c"
  shows "cbc_decrypt (bc_Decrypt c) iv (cbc_encrypt (bc_Encrypt c) iv bs) = bs \<and>
    (\<forall>b \<in> set (cbc_encrypt (bc_Encrypt c) iv bs). length b = bc_BlockSize c)"
  using assms(2,3)
proof (induction bs arbitrary: iv)
  case (Cons b bs)
  let ?c = "bc_Encrypt c (xor_bytes b iv)"
  have "length (xor_bytes b iv) = bc_BlockSize c" using Cons.prems by simp
  then have c: "length ?c = bc_BlockSize c" "bc_Decrypt c ?c = xor_bytes b iv" using assms(1) by (auto simp: block_law_def)
  have "xor_bytes (xor_bytes b iv) iv = b" using Cons.prems by (simp add: xor_bytes_cancel)
  moreover have "cbc_decrypt (bc_Decrypt c) ?c (cbc_encrypt (bc_Encrypt c) ?c bs) = bs \<and>
    (\<forall>b \<in> set (cbc_encrypt (bc_Encrypt c) ?c bs). length b = bc_BlockSize c)"
    using Cons.IH [OF _ c(1)] Cons.prems(1) by simp
  ultimately show ?case using c unfolding cbc_encrypt.simps cbc_decrypt.simps Let_def by simp
qed simp

lemma CryptBlocks_round_trip:
  assumes law: "block_law c" and iv: "length iv = bc_BlockSize c" and xs: "bc_BlockSize c dvd length xs"
  shows "CryptBlocks_decrypt c iv (CryptBlocks_encrypt c iv xs) = xs"
proof -
  let ?bs = "blocks_of (bc_BlockSize c) xs"
  let ?cs = "cbc_encrypt (bc_Encrypt c) iv ?bs"
  have n: "0 < bc_BlockSize c" using law by (simp add: block_law_def)
  have "cbc_decrypt (bc_Decrypt c) iv ?cs = ?bs" "\<forall>b \<in> set ?cs. length b = bc_BlockSize c"
    using cbc_round_trip [OF law _ iv, of ?bs] blocks_of_length by blast+
  then show ?thesis using n xs
    by (simp add: CryptBlocks_decrypt_def CryptBlocks_encrypt_def blocks_of_concat concat_blocks_of)
qed

lemma concat_length: "\<forall>b \<in> set bs. length b = n \<Longrightarrow> length (concat bs) = length bs * n"
  by (induction bs) simp_all

lemma length_cbc_encrypt [simp]: "length (cbc_encrypt f iv bs) = length bs"
  by (induction bs arbitrary: iv) (simp_all add: Let_def)

lemma CryptBlocks_encrypt_length:
  assumes law: "block_law c" and iv: "length iv = bc_BlockSize c" and xs: "bc_BlockSize c dvd length xs"
  shows "length (CryptBlocks_encrypt c iv xs) = length xs"
proof -
  let ?bs = "blocks_of (bc_BlockSize c) xs"
  have cs: "\<forall>b \<in> set (cbc_encrypt (bc_Encrypt c) iv ?bs). length b = bc_BlockSize c"
    using cbc_round_trip [OF law _ iv, of ?bs] blocks_of_length by blast
  have bs: "length ?bs * bc_BlockSize c = length xs" using xs by (simp add: blocks_of_def)
  show ?thesis unfolding CryptBlocks_encrypt_def concat_length [OF cs] length_cbc_encrypt bs ..
qed

lemma CryptBlocks_decrypt_length:
  assumes law: "block_law c" and iv: "length iv = bc_BlockSize c" and xs: "bc_BlockSize c dvd length xs"
  shows "length (CryptBlocks_decrypt c iv xs) = length xs"
proof -
  have blocks: "(\<forall>b \<in> set (cbc_decrypt (bc_Decrypt c) iv bs). length b = bc_BlockSize c) \<and> length (cbc_decrypt (bc_Decrypt c) iv bs) = length bs"
    if "\<forall>b \<in> set bs. length b = bc_BlockSize c" for bs
    using that iv
  proof (induction bs arbitrary: iv)
    case (Cons b bs)
    then have "length b = bc_BlockSize c" by simp
    then have "length (bc_Decrypt c b) = bc_BlockSize c" using law by (simp add: block_law_def)
    moreover have "(\<forall>x \<in> set (cbc_decrypt (bc_Decrypt c) b bs). length x = bc_BlockSize c) \<and> length (cbc_decrypt (bc_Decrypt c) b bs) = length bs"
      using Cons.IH [of b] Cons.prems(1) by simp
    ultimately show ?case using Cons.prems(2) by simp
  qed simp
  let ?bs = "blocks_of (bc_BlockSize c) xs"
  have cs: "\<forall>b \<in> set (cbc_decrypt (bc_Decrypt c) iv ?bs). length b = bc_BlockSize c" "length (cbc_decrypt (bc_Decrypt c) iv ?bs) = length ?bs"
    using blocks [of ?bs] blocks_of_length by blast+
  have bs: "length ?bs * bc_BlockSize c = length xs" using xs by (simp add: blocks_of_def)
  show ?thesis unfolding CryptBlocks_decrypt_def concat_length [OF cs(1)] cs(2) bs ..
qed

section \<open>Padding\<close>

text \<open>The data that ends in \<open>k\<close> bytes of value \<open>k\<close>, with \<open>k\<close> from 1 to the block size.\<close>

definition padded :: "nat \<Rightarrow> bytes \<Rightarrow> bytes \<Rightarrow> bool" where
  "padded n p xs \<longleftrightarrow> (\<exists>k. 0 < k \<and> k \<le> n \<and> xs = p @ replicate k (of_nat k))"

lemma pad_padded: "0 < n \<Longrightarrow> padded n p (pad n p)"
  unfolding padded_def pad_def Let_def
  by (rule exI [of _ "n - length p mod n"]) simp

lemma pad_dvd: "0 < n \<Longrightarrow> n dvd length (pad n p)"
proof -
  assume "0 < n"
  then have "length (pad n p) = length p div n * n + n" using div_mult_mod_eq [of "length p" n] mod_less_divisor [of n "length p"]
    unfolding pad_def Let_def length_append length_replicate by linarith
  then show ?thesis by simp
qed

lemma unpad_exact:
  assumes "0 < n" "n < 256" "n \<le> length xs"
  shows "unpad n xs = Inr p \<longleftrightarrow> padded n p xs" "isl (unpad n xs) \<Longrightarrow> unpad n xs = Inl (OtherError ''invalid padding'' None)"
proof -
  define k where "k = unat (xs ! (length xs - 1))"
  have k: "padding \<le> n \<Longrightarrow> padding \<noteq> 0 \<Longrightarrow> xs = q @ replicate padding (of_nat padding) \<Longrightarrow> k = padding" for padding q
    using assms(2) by (auto simp: k_def nth_append unat_of_nat)
  have tail: "(\<forall>i \<in> {length xs - k..<length xs}. xs ! i = of_nat k) \<longleftrightarrow> xs = take (length xs - k) xs @ replicate k (of_nat k)"
    if "k \<le> length xs"
  proof
    assume all: "\<forall>i \<in> {length xs - k..<length xs}. xs ! i = of_nat k"
    have "xs ! (length xs - k + i) = of_nat k" if "i < k" for i
    proof -
      have "length xs - k + i \<in> {length xs - k..<length xs}" using that \<open>k \<le> length xs\<close> by auto
      then show ?thesis using all by blast
    qed
    then have "drop (length xs - k) xs = replicate k (of_nat k)"
      using that by (intro nth_equalityI) simp_all
    then show "xs = take (length xs - k) xs @ replicate k (of_nat k)" by (metis append_take_drop_id)
  next
    assume "xs = take (length xs - k) xs @ replicate k (of_nat k)"
    then have "drop (length xs - k) xs = replicate k (of_nat k)" by (metis append_take_drop_id same_append_eq)
    then have "drop (length xs - k) xs ! i = of_nat k" if "i < k" for i using that by simp
    then have nth: "xs ! (length xs - k + i) = of_nat k" if "i < k" for i using that by simp
    show "\<forall>i \<in> {length xs - k..<length xs}. xs ! i = of_nat k"
    proof
      fix i assume "i \<in> {length xs - k..<length xs}"
      then have "i - (length xs - k) < k" "length xs - k + (i - (length xs - k)) = i" using that by auto
      then show "xs ! i = of_nat k" using nth [of "i - (length xs - k)"] by simp
    qed
  qed
  have code: "unpad n xs = (if k > n \<or> k = 0 then Inl (OtherError ''invalid padding'' None)
      else if \<exists>i \<in> {length xs - k..<length xs}. xs ! i \<noteq> of_nat k then Inl (OtherError ''invalid padding'' None)
      else Inr (take (length xs - k) xs))"
    unfolding unpad_def Let_def k_def ..
  show "unpad n xs = Inr p \<longleftrightarrow> padded n p xs"
  proof
    assume "unpad n xs = Inr p"
    then have k0: "0 < k" "k \<le> n" and all: "\<forall>i \<in> {length xs - k..<length xs}. xs ! i = of_nat k" and p: "p = take (length xs - k) xs"
      unfolding code by (auto split: if_splits)
    have "k \<le> length xs" using k0 assms(3) by linarith
    from tail [OF this] all have "xs = p @ replicate k (of_nat k)" unfolding p by (rule iffD1)
    with k0 show "padded n p xs" unfolding padded_def by blast
  next
    assume "padded n p xs"
    then obtain j where j: "0 < j" "j \<le> n" "xs = p @ replicate j (of_nat j)" by (auto simp: padded_def)
    then have "k = j" using k by auto
    then have p: "take (length xs - k) xs = p" "xs = take (length xs - k) xs @ replicate k (of_nat k)" using j by auto
    have "\<forall>i \<in> {length xs - k..<length xs}. xs ! i = of_nat k" using tail [THEN iffD2, OF _ p(2)] j \<open>k = j\<close> assms(3) by linarith
    then show "unpad n xs = Inr p" using j \<open>k = j\<close> p(1) unfolding code by simp
  qed
  show "isl (unpad n xs) \<Longrightarrow> unpad n xs = Inl (OtherError ''invalid padding'' None)"
    unfolding code by (simp split: if_splits)
qed

section \<open>Round trips\<close>

text \<open>The interface of an encryptor: what has been encrypted can be decrypted.\<close>

locale encryption =
  fixes enc :: "bytes \<Rightarrow> ('w, bytes) op" and dec :: "bytes \<Rightarrow> go_error + bytes"
  assumes dec_enc: "enc p w = (w', Inr c) \<Longrightarrow> dec c = Inr p"
begin

lemma no_two_plaintexts: "enc p w = (w1, Inr c) \<Longrightarrow> enc q v = (v1, Inr c) \<Longrightarrow> p = q"
  using dec_enc [of p w w1 c] dec_enc [of q v v1 c] by simp

end

interpretation noop: encryption "Encrypt cy NoopEncryptor" "Decrypt NoopEncryptor"
  by unfold_locales simp

lemma Encrypt_encryption:
  assumes random: "random_law cy" and sound: "sound_encryptor e"
  shows "encryption (Encrypt cy e) (Decrypt e)"
proof
  fix p w w' c
  assume run: "Encrypt cy e p w = (w', Inr c)"
  show "Decrypt e c = Inr p"
  proof (cases e)
    case NoopEncryptor
    then show ?thesis using run by simp
  next
    case (AESGCMEncryptor g)
    then obtain nonce where "c = nonce @ ae_Seal g nonce p" "length nonce = ae_NonceSize g"
      using run random by (auto simp: gcm_encrypt_def check_def random_law_def split: prod.splits sum.splits)
    then show ?thesis using sound AESGCMEncryptor by (simp add: gcm_decrypt_def aead_law_def Let_def)
  next
    case (AESCBCEncryptor b)
    let ?n = "bc_BlockSize b" and ?m = "pad (bc_BlockSize b) p"
    have law: "block_law b" and n: "0 < ?n" "?n < 256" using sound AESCBCEncryptor by (auto simp: block_law_def)
    obtain iv where c: "c = iv @ CryptBlocks_encrypt b iv ?m" "length iv = ?n"
      using run random AESCBCEncryptor by (auto simp: cbc_encrypt_bytes_def check_def random_law_def Let_def split: prod.splits sum.splits)
    have dvd: "?n dvd length ?m" by (rule pad_dvd [OF n(1)])
    have "?n \<le> length ?m" using pad_padded [OF n(1), of p] dvd by (auto simp: padded_def intro: dvd_imp_le)
    moreover have len: "length (CryptBlocks_encrypt b iv ?m) = length ?m"
      using CryptBlocks_encrypt_length [OF law c(2) dvd] .
    ultimately have "Decrypt e c = unpad ?n (CryptBlocks_decrypt b iv (CryptBlocks_encrypt b iv ?m))"
      using AESCBCEncryptor c dvd n by (auto simp: cbc_decrypt_bytes_def Let_def)
    also have "\<dots> = unpad ?n ?m" using CryptBlocks_round_trip [OF law c(2) dvd] by simp
    also have "\<dots> = Inr p" using unpad_exact(1) [OF n \<open>?n \<le> length ?m\<close>] pad_padded [OF n(1)] by blast
    finally show ?thesis .
  qed
qed

section \<open>What is written can be read\<close>

lemma written_buffer:
  "foldl (\<lambda>w p. fst (EncryptingWriter_Write w p)) w ps = w\<lparr>ew_buffer := ew_buffer w @ concat ps\<rparr>"
  by (induction ps arbitrary: w) (simp_all add: EncryptingWriter_Write_def)

text \<open>
  C12: an encrypted stream can be read back. When data have been written in any pieces to an encrypting
  writer and it closes without an error, the underlying writer has got one ciphertext and has been
  closed, and reading that ciphertext with a decrypting reader, into buffers of any size, ends and
  yields the pieces in their order. The encryptor is the one that the configuration and the secret give.
\<close>

theorem encrypted_stream_round_trip:
  fixes u :: "'w write_closer"
  assumes laws: "crypto_laws cy" and new: "NewEncryptor cy m cfg ns w = (w1, Inr e)" and room: "\<And>n. 0 < room n" "\<And>n. 0 < room' n"
    and close: "EncryptingWriter_Close cy (foldl (\<lambda>w p. fst (EncryptingWriter_Write w p)) (NewEncryptingWriter u e) ps) s = (s', Inr ())"
  shows "\<exists>s1 c s2 n r. Encrypt cy e (concat ps) s = (s1, Inr c) \<and> wr_Write u c s1 = (s2, Inr n) \<and> wr_Close u s2 = (s', Inr ()) \<and>
    ReadAll (DecryptingReader_Read bytes_reader room') room (NewDecryptingReader c e) = Some (r, Inr (concat ps))"
proof -
  obtain s1 c s2 n where run: "Encrypt cy e (concat ps) s = (s1, Inr c)" "wr_Write u c s1 = (s2, Inr n)" "wr_Close u s2 = (s', Inr ())"
    using close by (auto simp: EncryptingWriter_Close_def written_buffer NewEncryptingWriter_def split: prod.splits sum.splits)
  have "encryption (Encrypt cy e) (Decrypt e)"
    using NewEncryptor_sound [OF laws new] laws by (intro Encrypt_encryption) (simp_all add: crypto_laws_def)
  then have "Decrypt e c = Inr (concat ps)" using run(1) by (rule encryption.dec_enc)
  then show ?thesis using run ReadAll_DecryptingReader [where room = room and room' = room', OF room(1) ReadAll_bytes [OF room(2)]] by blast
qed

text \<open>
  C38: reading through a decrypting reader ends. If the underlying reader can be read to its end, so can
  the decrypting one, whatever the sizes of the buffers; the result is the decryption of everything
  the underlying reader had, or its error, or the error of the decryption, each of them wrapped.
\<close>

theorem decrypting_reader_terminates:
  assumes room: "\<And>n. 0 < room n" and all: "ReadAll underlying room' s = Some (s', x)"
  shows "\<exists>r. ReadAll (DecryptingReader_Read underlying room') room (NewDecryptingReader s e) = Some (r,
    (case x of
       Inl err \<Rightarrow> Inl (Errorf_w ''failed to read encrypted data: '' err)
     | Inr c \<Rightarrow> (case Decrypt e c of Inl err \<Rightarrow> Inl (Errorf_w ''failed to decrypt data: '' err) | Inr p \<Rightarrow> Inr p)))"
proof (cases "\<exists>c p. x = Inr c \<and> Decrypt e c = Inr p")
  case True
  then obtain c p where "x = Inr c" "Decrypt e c = Inr p" by blast
  then show ?thesis using ReadAll_DecryptingReader [OF room, of underlying room' s s' c e p] all by simp
next
  case False
  then show ?thesis using all
    by (cases x) (auto simp: ReadAll_def [of "DecryptingReader_Read underlying room'"] ReadAll_from.simps [of "DecryptingReader_Read underlying room'"]
        DecryptingReader_Read_def NewDecryptingReader_def split: sum.splits)
qed

text \<open>
  C99: the decryption of the block mode accepts exactly well-padded data. A ciphertext is accepted, with
  plaintext \<open>C39: p\<close>, iff it consists of at least two whole blocks and its decryption is \<open>p\<close> followed by \<open>k\<close>
  bytes of value \<open>k\<close>, for \<open>k\<close> from 1 to the block size; every other ciphertext gets one of three errors.
\<close>

theorem cbc_decrypt_exact:
  assumes law: "block_law b"
  defines "n \<equiv> bc_BlockSize b"
  defines "blocks \<equiv> \<lambda>c. CryptBlocks_decrypt b (take n c) (drop n c)"
  shows "(Decrypt (AESCBCEncryptor b) c = Inr p \<longleftrightarrow> 2 * n \<le> length c \<and> n dvd length c \<and> padded n p (blocks c)) \<and>
    Decrypt (AESCBCEncryptor b) c \<in> range Inr \<union> {Inl (
      if length c < 2 * n then OtherError ''ciphertext too short'' None
      else if \<not> n dvd length c then OtherError ''ciphertext is not a multiple of the block size'' None
      else OtherError ''invalid padding'' None)}"
proof -
  have n: "0 < n" "n < 256" using law by (auto simp: block_law_def n_def)
  have len: "n \<le> length (blocks c)" if "2 * n \<le> length c" "n dvd length c"
  proof -
    have "n dvd length (drop n c)" using that by (simp add: dvd_minus_self)
    then have "length (blocks c) = length (drop n c)"
      using CryptBlocks_decrypt_length [OF law, of "take n c" "drop n c"] that n by (simp add: blocks_def n_def)
    then show ?thesis using that by simp
  qed
  have code: "Decrypt (AESCBCEncryptor b) c = (if length c < 2 * n then Inl (OtherError ''ciphertext too short'' None)
      else if \<not> n dvd length c then Inl (OtherError ''ciphertext is not a multiple of the block size'' None)
      else unpad n (blocks c))"
    by (simp add: cbc_decrypt_bytes_def Let_def n_def blocks_def dvd_eq_mod_eq_0 mult.commute)
  have "Decrypt (AESCBCEncryptor b) c = Inr p \<longleftrightarrow> 2 * n \<le> length c \<and> n dvd length c \<and> padded n p (blocks c)"
    using unpad_exact(1) [OF n len] unfolding code by auto
  moreover have "unpad n (blocks c) \<in> range Inr \<union> {Inl (OtherError ''invalid padding'' None)}" if "2 * n \<le> length c" "n dvd length c"
    using unpad_exact(2) [OF n len [OF that]] by (cases "unpad n (blocks c)") auto
  ultimately show ?thesis unfolding code by (simp add: not_less)
qed

section \<open>Examples\<close>

text \<open>A cipher that adds nothing and a box that appends the nonce.\<close>

definition block_x :: block_cipher where
  "block_x = \<lparr>bc_BlockSize = 2, bc_Encrypt = rev, bc_Decrypt = rev\<rparr>"

definition aead_x :: aead where
  "aead_x = \<lparr>ae_NonceSize = 2, ae_Seal = (\<lambda>n p. p @ n),
     ae_Open = (\<lambda>n c. if drop (length c - 2) c = n then Inr (take (length c - 2) c) else Inl (OtherError ''message authentication failed'' None))\<rparr>"

definition crypto_x :: "nat crypto" where
  "crypto_x = \<lparr>cy_NewCipher = (\<lambda>key. Inr block_x), cy_NewGCM = (\<lambda>b. Inr aead_x),
     cy_ReadFull = (\<lambda>n w. (Suc w, Inr (map (\<lambda>i. of_nat (w + i)) [0..<n])))\<rparr>"

definition key_secret_x :: Secret where
  "key_secret_x = \<lparr>sec_meta = \<lparr>om_name = ''k'', om_namespace = ''prod'', om_uid = '''', om_labels = None, om_annotations = None,
     om_ownerReferences = [], om_creationTimestamp = 0, om_deletionTimestamp = None, om_finalizers = []\<rparr>,
     sec_Type = '''', sec_Data = [(''key'', replicate 32 CHR ''k'')], sec_StringData = []\<rparr>"

definition key_secrets_x :: "nat secret_env" where
  "key_secrets_x = counting_secrets\<lparr>sk_Get := (\<lambda>ns n w. (w, Inr key_secret_x))\<rparr>"

definition encryption_config_x :: EncryptionConfig where
  "encryption_config_x =
     \<lparr>ec_Enabled = True, ec_Algorithm = EncryptionUnset, ec_SecretRef = Some \<lparr>sks_Name = ''k'', sks_Namespace = '''', sks_Key = ''key''\<rparr>\<rparr>"

definition writer_x :: "nat write_closer" where
  "writer_x = \<lparr>wr_Write = (\<lambda>p w. (w, Inr (length p))), wr_Close = (\<lambda>w. (w, Inr ()))\<rparr>"

lemma crypto_x_laws: "crypto_laws crypto_x" "block_law block_x"
proof -
  show "block_law block_x" by (simp add: block_law_def block_x_def)
  moreover have "aead_law aead_x" by (auto simp: aead_law_def aead_x_def)
  ultimately show "crypto_laws crypto_x" by (auto simp: crypto_laws_def random_law_def crypto_x_def)
qed

lemma NewEncryptor_x: "NewEncryptor crypto_x key_secrets_x (Some encryption_config_x) ''prod'' w = (w, Inr (AESGCMEncryptor aead_x))"
  by (simp add: NewEncryptor_def encryption_config_x_def getEncryptionKey_def GetSecretData_def key_secrets_x_def key_secret_x_def check_def
      map_puts_def newAESGCMEncryptor_def crypto_x_def bytes_of_def ret_def)

theorem encrypted_stream_round_trip_witness:
  "\<exists>s1 c s2 n r. Encrypt crypto_x (AESGCMEncryptor aead_x) [1, 2, 3] 5 = (s1, Inr c) \<and>
     ReadAll (DecryptingReader_Read bytes_reader Suc) Suc (NewDecryptingReader c (AESGCMEncryptor aead_x)) = Some (r, Inr [1, 2, 3]) \<and>
     wr_Write writer_x c s1 = (s2, Inr n)"
proof -
  have "EncryptingWriter_Close crypto_x (foldl (\<lambda>w p. fst (EncryptingWriter_Write w p)) (NewEncryptingWriter writer_x (AESGCMEncryptor aead_x)) [[1, 2], [3]]) 5 = (6, Inr ())"
    by (simp add: EncryptingWriter_Close_def written_buffer NewEncryptingWriter_def writer_x_def gcm_encrypt_def check_def crypto_x_def)
  then show ?thesis
    using encrypted_stream_round_trip [OF crypto_x_laws(1) NewEncryptor_x, where room = Suc and room' = Suc] by fastforce
qed

theorem decrypting_reader_terminates_witness:
  "\<exists>r. ReadAll (DecryptingReader_Read bytes_reader Suc) Suc (NewDecryptingReader [7] (AESGCMEncryptor aead_x)) =
     Some (r, Inl (Errorf_w ''failed to decrypt data: '' (OtherError ''ciphertext too short'' None)))"
proof -
  have "Decrypt (AESGCMEncryptor aead_x) [7] = Inl (OtherError ''ciphertext too short'' None)"
    by (simp add: gcm_decrypt_def aead_x_def)
  then show ?thesis
    using decrypting_reader_terminates [where room = Suc, OF _ ReadAll_bytes, of Suc "[7]" "AESGCMEncryptor aead_x"] by simp
qed

theorem cbc_decrypt_exact_witness: "Decrypt (AESCBCEncryptor block_x) [3, 4, 5, 6, 4, 7] = Inr [5, 1]"
proof -
  have "CryptBlocks_decrypt block_x [3, 4] [5, 6, 4, 7] = [5, 1] @ replicate 2 (of_nat 2)"
    by code_simp
  then have "padded 2 [5, 1] (CryptBlocks_decrypt block_x [3, 4] [5, 6, 4, 7])"
    unfolding padded_def by (intro exI [of _ 2]) simp
  then show ?thesis using cbc_decrypt_exact [OF crypto_x_laws(2), of "[3, 4, 5, 6, 4, 7]" "[5, 1]"] by (simp add: block_x_def)
qed

end
