(* ===== verification/Storage_Backend.thy ===== *)
theory Storage_Backend
  imports Storage_Crypto
begin

text \<open>
  Where backups are stored: \<^verbatim>\<open>factory.go\<close>, \<^verbatim>\<open>interface.go\<close>, \<^verbatim>\<open>pvc.go\<close>,
  \<^verbatim>\<open>s3.go\<close>, \<^verbatim>\<open>gcs.go\<close> and \<^verbatim>\<open>azure.go\<close> of \<^verbatim>\<open>internal/storage\<close>. The
  functions of \<^verbatim>\<open>path\<close> are written out; the operating system and the clients of the cloud services
  are records of operations on the world. A reader that a backend returns is the operation that reads it
  to its end and closes it.
\<close>

section \<open>Paths\<close>

fun parts :: "string \<Rightarrow> string list" where
  "parts [] = [[]]"
| "parts (c # cs) = (if c = CHR ''/'' then [] # parts cs else (c # hd (parts cs)) # tl (parts cs))"

definition clean_step :: "bool \<Rightarrow> string list \<Rightarrow> string \<Rightarrow> string list" where
  "clean_step rooted st p =
     (if p = '''' \<or> p = ''.'' then st
      else if p = ''..'' then
        (case st of
           [] \<Rightarrow> if rooted then [] else [''..'']
         | q # st' \<Rightarrow> if q = ''..'' then ''..'' # st else st')
      else p # st)"

definition Clean :: "string \<Rightarrow> string" where
  "Clean path =
     (let rooted = (take 1 path = ''/''); names = rev (foldl (clean_step rooted) [] (parts path))
      in if rooted then ''/'' @ Join names ''/'' else if names = [] then ''.'' else Join names ''/'')"

definition path_Join :: "string list \<Rightarrow> string" where
  "path_Join elems = (let es = filter (\<lambda>e. e \<noteq> '''') elems in if es = [] then '''' else Clean (Join es ''/''))"

definition Dir :: "string \<Rightarrow> string" where
  "Dir path = Clean (rev (dropWhile (\<lambda>c. c \<noteq> CHR ''/'') (rev path)))"

fun strip_common :: "string list \<Rightarrow> string list \<Rightarrow> string list \<times> string list" where
  "strip_common (b # bs) (t # ts) = (if b = t then strip_common bs ts else (b # bs, t # ts))"
| "strip_common bs ts = (bs, ts)"

text \<open>\<^verbatim>\<open>filepath.Rel\<close> of two rooted paths.\<close>

definition Rel :: "string \<Rightarrow> string \<Rightarrow> string" where
  "Rel base targ =
     (let names = (\<lambda>p. rev (foldl (clean_step True) [] (parts p))); (bs, ts) = strip_common (names base) (names targ);
          rel = replicate (length bs) ''..'' @ ts
      in if rel = [] then ''.'' else Join rel ''/'')"

section \<open>The interface\<close>

record ObjectInfo =
  oi_Path :: string
  oi_Size :: int
  oi_LastModified :: int
  oi_Checksum :: string

type_synonym 'w stored = "('w, bytes) op"

record 'w Backend =
  be_Write :: "string \<Rightarrow> bytes \<Rightarrow> ('w, unit) op"
  be_Read :: "string \<Rightarrow> ('w, 'w stored) op"
  be_Delete :: "string \<Rightarrow> ('w, unit) op"
  be_Exists :: "string \<Rightarrow> ('w, bool) op"
  be_List :: "string \<Rightarrow> ('w, ObjectInfo list) op"
  be_GetSize :: "string \<Rightarrow> ('w, int) op"
  be_Close :: "('w, unit) op"

text \<open>An error that only tells whether an object is there.\<close>

definition unless_missing :: "(go_error \<Rightarrow> bool) \<Rightarrow> 'a \<Rightarrow> string \<Rightarrow> ('w, 'a) op \<Rightarrow> ('w, 'a) op" where
  "unless_missing missing x msg m w =
     (case m w of
        (w', Inl e) \<Rightarrow> if missing e then (w', Inr x) else (w', Inl (Errorf_w msg e))
      | (w', Inr y) \<Rightarrow> (w', Inr y))"

section \<open>Volumes\<close>

record FileInfo =
  fi_Size :: int
  fi_ModTime :: int

record 'w os =
  os_MkdirAll :: "string \<Rightarrow> ('w, unit) op"
  os_Create :: "string \<Rightarrow> ('w, unit) op"
  os_Copy :: "string \<Rightarrow> bytes \<Rightarrow> ('w, unit) op"
  os_CloseFile :: "string \<Rightarrow> ('w, unit) op"
  os_Remove :: "string \<Rightarrow> ('w, unit) op"
  os_Open :: "string \<Rightarrow> ('w, 'w stored) op"
  os_Stat :: "string \<Rightarrow> ('w, FileInfo) op"
  os_Walk :: "string \<Rightarrow> ('w, (string \<times> bool \<times> FileInfo) list) op"
  os_IsNotExist :: "go_error \<Rightarrow> bool"

record PVCStorageConfig =
  pvcc_ClaimName :: string
  pvcc_SubPath :: string

record PVCBackend =
  pvc_claimName :: string
  pvc_subPath :: string
  pvc_basePath :: string

definition NewPVCBackend :: "PVCStorageConfig \<Rightarrow> go_error + PVCBackend" where
  "NewPVCBackend config =
     (if pvcc_ClaimName config = '''' then Inl (OtherError ''PVC claim name is required'' None)
      else Inr \<lparr>pvc_claimName = pvcc_ClaimName config, pvc_subPath = pvcc_SubPath config,
                pvc_basePath = (if pvcc_SubPath config \<noteq> '''' then path_Join [''/data'', pvcc_SubPath config] else ''/data'')\<rparr>)"

definition fullPath :: "PVCBackend \<Rightarrow> string \<Rightarrow> string" where
  "fullPath b path = path_Join [pvc_basePath b, path]"

definition pvc_Write :: "'w os \<Rightarrow> PVCBackend \<Rightarrow> string \<Rightarrow> bytes \<Rightarrow> ('w, unit) op" where
  "pvc_Write h b path bs =
     (let full = fullPath b path; dir = Dir full
      in check (os_MkdirAll h dir) (\<lambda>e w. Errorf_w (''failed to create directory '' @ dir @ '': '') e) (\<lambda>_.
         check (os_Create h full) (\<lambda>e w. Errorf_w (''failed to create file '' @ full @ '': '') e) (\<lambda>_ w.
         case os_Copy h full bs w of
           (w1, Inl e) \<Rightarrow>
             (fst (os_CloseFile h full (fst (os_Remove h full w1))), Inl (Errorf_w (''failed to write data to '' @ full @ '': '') e))
         | (w1, Inr _) \<Rightarrow> (fst (os_CloseFile h full w1), Inr ()))))"

definition pvc_Read :: "'w os \<Rightarrow> PVCBackend \<Rightarrow> string \<Rightarrow> ('w, 'w stored) op" where
  "pvc_Read h b path =
     check (os_Open h (fullPath b path))
       (\<lambda>e w. if os_IsNotExist h e then OtherError (''file not found: '' @ path) None
              else Errorf_w (''failed to open file '' @ fullPath b path @ '': '') e) ret"

definition pvc_Delete :: "'w os \<Rightarrow> PVCBackend \<Rightarrow> string \<Rightarrow> ('w, unit) op" where
  "pvc_Delete h b path =
     unless_missing (os_IsNotExist h) () (''failed to delete file '' @ fullPath b path @ '': '') (os_Remove h (fullPath b path))"

definition pvc_Exists :: "'w os \<Rightarrow> PVCBackend \<Rightarrow> string \<Rightarrow> ('w, bool) op" where
  "pvc_Exists h b path =
     unless_missing (os_IsNotExist h) False (''failed to stat file '' @ fullPath b path @ '': '')
       (check (os_Stat h (fullPath b path)) as_is (\<lambda>_. ret True))"

definition pvc_List :: "'w os \<Rightarrow> PVCBackend \<Rightarrow> string \<Rightarrow> ('w, ObjectInfo list) op" where
  "pvc_List h b pre =
     (let dir = Dir (path_Join [pvc_basePath b, pre])
      in unless_missing (os_IsNotExist h) [] ''failed to list files: ''
           (check (os_Walk h dir) as_is (\<lambda>entries. ret (map (\<lambda>(path, isDir, info).
              \<lparr>oi_Path = Rel (pvc_basePath b) path, oi_Size = fi_Size info, oi_LastModified = fi_ModTime info, oi_Checksum = ''''\<rparr>)
              (filter (\<lambda>(path, isDir, info). \<not> isDir) entries)))))"

definition pvc_GetSize :: "'w os \<Rightarrow> PVCBackend \<Rightarrow> string \<Rightarrow> ('w, int) op" where
  "pvc_GetSize h b path =
     check (os_Stat h (fullPath b path))
       (\<lambda>e w. if os_IsNotExist h e then OtherError (''file not found: '' @ path) None
              else Errorf_w (''failed to stat file '' @ fullPath b path @ '': '') e) (\<lambda>info. ret (fi_Size info))"

definition pvc_backend :: "'w os \<Rightarrow> PVCBackend \<Rightarrow> 'w Backend" where
  "pvc_backend h b =
     \<lparr>be_Write = pvc_Write h b, be_Read = pvc_Read h b, be_Delete = pvc_Delete h b, be_Exists = pvc_Exists h b,
      be_List = pvc_List h b, be_GetSize = pvc_GetSize h b, be_Close = ret ()\<rparr>"

section \<open>Object stores\<close>

text \<open>Keys are the same in the three of them. A listing is a list of pages, or of items, each with its own error.\<close>

definition buildKey :: "string \<Rightarrow> string \<Rightarrow> string" where
  "buildKey pre objectPath = (if pre = '''' then objectPath else path_Join [pre, objectPath])"

definition relative_path :: "string \<Rightarrow> string \<Rightarrow> string" where
  "relative_path pre key = (if pre = '''' then key else TrimPrefix key (pre @ ''/''))"

record object_attrs =
  oa_Name :: string
  oa_Size :: int
  oa_Updated :: int
  oa_MD5 :: "nat list"

fun collect_pages :: "(object_attrs \<Rightarrow> ObjectInfo) \<Rightarrow> string \<Rightarrow> (go_error + object_attrs list) list \<Rightarrow> go_error + ObjectInfo list" where
  "collect_pages info msg [] = Inr []"
| "collect_pages info msg (Inl e # pages) = Inl (Errorf_w msg e)"
| "collect_pages info msg (Inr objs # pages) =
     (case collect_pages info msg pages of Inl e \<Rightarrow> Inl e | Inr rest \<Rightarrow> Inr (map info objs @ rest))"

definition object_info :: "string \<Rightarrow> (object_attrs \<Rightarrow> string) \<Rightarrow> object_attrs \<Rightarrow> ObjectInfo" where
  "object_info pre checksum a =
     \<lparr>oi_Path = relative_path pre (oa_Name a), oi_Size = oa_Size a, oi_LastModified = oa_Updated a, oi_Checksum = checksum a\<rparr>"

record 'w s3_client =
  s3c_PutObject :: "string \<Rightarrow> string \<Rightarrow> bytes \<Rightarrow> ('w, unit) op"
  s3c_GetObject :: "string \<Rightarrow> string \<Rightarrow> ('w, 'w stored) op"
  s3c_DeleteObject :: "string \<Rightarrow> string \<Rightarrow> ('w, unit) op"
  s3c_HeadObject :: "string \<Rightarrow> string \<Rightarrow> ('w, int) op"
  s3c_ListPages :: "string \<Rightarrow> string \<Rightarrow> 'w \<Rightarrow> 'w \<times> (go_error + object_attrs list) list"

record S3SecretKeys =
  s3k_AccessKey :: string
  s3k_SecretKey :: string

record S3StorageConfig =
  s3s_Bucket :: string
  s3s_Region :: string
  s3s_Prefix :: string
  s3s_Endpoint :: string
  s3s_SecretName :: string
  s3s_SecretKeys :: "S3SecretKeys option"
  s3s_ForcePathStyle :: bool

record 'w S3Backend =
  s3_client :: "'w s3_client"
  s3_bucket :: string
  s3_prefix :: string

definition s3_Write :: "'w S3Backend \<Rightarrow> string \<Rightarrow> bytes \<Rightarrow> ('w, unit) op" where
  "s3_Write b objectPath bs =
     check (s3c_PutObject (s3_client b) (s3_bucket b) (buildKey (s3_prefix b) objectPath) bs) (\<lambda>e w. Errorf_w ''failed to upload to S3: '' e) ret"

definition s3_Read :: "'w S3Backend \<Rightarrow> string \<Rightarrow> ('w, 'w stored) op" where
  "s3_Read b objectPath =
     check (s3c_GetObject (s3_client b) (s3_bucket b) (buildKey (s3_prefix b) objectPath)) (\<lambda>e w. Errorf_w ''failed to get object from S3: '' e) ret"

definition s3_Delete :: "'w S3Backend \<Rightarrow> string \<Rightarrow> ('w, unit) op" where
  "s3_Delete b objectPath =
     check (s3c_DeleteObject (s3_client b) (s3_bucket b) (buildKey (s3_prefix b) objectPath)) (\<lambda>e w. Errorf_w ''failed to delete object from S3: '' e) ret"

definition s3_Exists :: "'w S3Backend \<Rightarrow> string \<Rightarrow> ('w, bool) op" where
  "s3_Exists b objectPath =
     unless_missing (\<lambda>e. Contains (Error e) ''NotFound'' \<or> Contains (Error e) ''404'') False ''failed to check object existence: ''
       (check (s3c_HeadObject (s3_client b) (s3_bucket b) (buildKey (s3_prefix b) objectPath)) as_is (\<lambda>_. ret True))"

definition s3_List :: "'w S3Backend \<Rightarrow> string \<Rightarrow> ('w, ObjectInfo list) op" where
  "s3_List b pre w =
     (case s3c_ListPages (s3_client b) (s3_bucket b) (buildKey (s3_prefix b) pre) w of
        (w', pages) \<Rightarrow> (w', collect_pages (object_info (s3_prefix b) (\<lambda>_. '''')) ''failed to list objects: '' pages))"

definition s3_GetSize :: "'w S3Backend \<Rightarrow> string \<Rightarrow> ('w, int) op" where
  "s3_GetSize b objectPath =
     check (s3c_HeadObject (s3_client b) (s3_bucket b) (buildKey (s3_prefix b) objectPath)) (\<lambda>e w. Errorf_w ''failed to get object metadata: '' e) ret"

definition s3_backend :: "'w S3Backend \<Rightarrow> 'w Backend" where
  "s3_backend b =
     \<lparr>be_Write = s3_Write b, be_Read = s3_Read b, be_Delete = s3_Delete b, be_Exists = s3_Exists b,
      be_List = s3_List b, be_GetSize = s3_GetSize b, be_Close = ret ()\<rparr>"

definition secret_key :: "string \<Rightarrow> string go_map \<Rightarrow> string \<Rightarrow> ('w, string) op" where
  "secret_key name data key =
     (case map_of data key of None \<Rightarrow> fail (missing_key name key) | Some v \<Rightarrow> ret v)"

definition getS3Credentials :: "'w secret_env \<Rightarrow> S3StorageConfig \<Rightarrow> string \<Rightarrow> ('w, string \<times> string) op" where
  "getS3Credentials m config namespace =
     (let name = s3s_SecretName config;
          accessKeyName = (case s3s_SecretKeys config of None \<Rightarrow> ''AWS_ACCESS_KEY_ID'' | Some k \<Rightarrow> or_default (s3k_AccessKey k) ''AWS_ACCESS_KEY_ID'');
          secretKeyName = (case s3s_SecretKeys config of None \<Rightarrow> ''AWS_SECRET_ACCESS_KEY'' | Some k \<Rightarrow> or_default (s3k_SecretKey k) ''AWS_SECRET_ACCESS_KEY'')
      in check (GetSecretData m name namespace) (\<lambda>e w. Errorf_w (''failed to get secret '' @ name @ '': '') e) (\<lambda>data.
         check (secret_key name data accessKeyName) as_is (\<lambda>accessKey.
         check (secret_key name data secretKeyName) as_is (\<lambda>secretKey.
         ret (accessKey, secretKey)))))"

text \<open>\<open>connect\<close> loads the configuration of the client and creates it.\<close>

definition NewS3Backend ::
  "(S3StorageConfig \<Rightarrow> string \<Rightarrow> string \<Rightarrow> ('w, 'w s3_client) op) \<Rightarrow> 'w secret_env \<Rightarrow> S3StorageConfig \<Rightarrow> string \<Rightarrow> ('w, 'w S3Backend) op" where
  "NewS3Backend connect m config namespace =
     (if s3s_Bucket config = '''' then fail (OtherError ''S3 bucket name is required'' None)
      else if s3s_Region config = '''' then fail (OtherError ''S3 region is required'' None)
      else check (getS3Credentials m config namespace) (\<lambda>e w. Errorf_w ''failed to get S3 credentials: '' e) (\<lambda>(accessKey, secretKey).
           check (connect config accessKey secretKey) (\<lambda>e w. Errorf_w ''failed to load AWS config: '' e) (\<lambda>client.
           ret \<lparr>s3_client = client, s3_bucket = s3s_Bucket config, s3_prefix = TrimPrefix (s3s_Prefix config) ''/''\<rparr>)))"

text \<open>
  A writer of Google Cloud Storage gets the data and stores the object when it is closed; the error of the
  library for a missing object is \<open>gcsc_NotExist\<close>.
\<close>

record 'w gcs_client =
  gcsc_Copy :: "string \<Rightarrow> string \<Rightarrow> bytes \<Rightarrow> ('w, unit) op"
  gcsc_CloseWriter :: "string \<Rightarrow> string \<Rightarrow> ('w, unit) op"
  gcsc_NewReader :: "string \<Rightarrow> string \<Rightarrow> ('w, 'w stored) op"
  gcsc_Delete :: "string \<Rightarrow> string \<Rightarrow> ('w, unit) op"
  gcsc_Attrs :: "string \<Rightarrow> string \<Rightarrow> ('w, object_attrs) op"
  gcsc_Objects :: "string \<Rightarrow> string \<Rightarrow> 'w \<Rightarrow> 'w \<times> (go_error + object_attrs) list"
  gcsc_Close :: "('w, unit) op"
  gcsc_NotExist :: go_error

record GCSStorageConfig =
  gcs_Bucket :: string
  gcs_Prefix :: string
  gcs_SecretRef :: SecretKeySelector

record 'w GCSBackend =
  gcs_client :: "'w gcs_client"
  gcs_bucket :: string
  gcs_prefix :: string

definition gcs_Write :: "'w GCSBackend \<Rightarrow> string \<Rightarrow> bytes \<Rightarrow> ('w, unit) op" where
  "gcs_Write b objectPath bs w =
     (let key = buildKey (gcs_prefix b) objectPath; c = gcs_client b
      in case gcsc_Copy c (gcs_bucket b) key bs w of
           (w1, Inl e) \<Rightarrow> (fst (gcsc_CloseWriter c (gcs_bucket b) key w1), Inl (Errorf_w ''failed to write to GCS: '' e))
         | (w1, Inr _) \<Rightarrow> check (gcsc_CloseWriter c (gcs_bucket b) key) (\<lambda>e w. Errorf_w ''failed to close GCS writer: '' e) ret w1)"

definition gcs_Read :: "'w GCSBackend \<Rightarrow> string \<Rightarrow> ('w, 'w stored) op" where
  "gcs_Read b objectPath =
     check (gcsc_NewReader (gcs_client b) (gcs_bucket b) (buildKey (gcs_prefix b) objectPath))
       (\<lambda>e w. if e = gcsc_NotExist (gcs_client b) then OtherError (''object not found: '' @ objectPath) None
              else Errorf_w ''failed to read from GCS: '' e) ret"

definition gcs_Delete :: "'w GCSBackend \<Rightarrow> string \<Rightarrow> ('w, unit) op" where
  "gcs_Delete b objectPath =
     unless_missing (\<lambda>e. e = gcsc_NotExist (gcs_client b)) () ''failed to delete from GCS: ''
       (gcsc_Delete (gcs_client b) (gcs_bucket b) (buildKey (gcs_prefix b) objectPath))"

definition gcs_Exists :: "'w GCSBackend \<Rightarrow> string \<Rightarrow> ('w, bool) op" where
  "gcs_Exists b objectPath =
     unless_missing (\<lambda>e. e = gcsc_NotExist (gcs_client b)) False ''failed to check object existence: ''
       (check (gcsc_Attrs (gcs_client b) (gcs_bucket b) (buildKey (gcs_prefix b) objectPath)) as_is (\<lambda>_. ret True))"

definition gcs_List :: "'w GCSBackend \<Rightarrow> string \<Rightarrow> ('w, ObjectInfo list) op" where
  "gcs_List b pre w =
     (case gcsc_Objects (gcs_client b) (gcs_bucket b) (buildKey (gcs_prefix b) pre) w of
        (w', items) \<Rightarrow>
          (w', collect_pages (object_info (gcs_prefix b) (\<lambda>a. concat (map hex_byte (oa_MD5 a)))) ''failed to list objects: ''
                 (map (\<lambda>i. case i of Inl e \<Rightarrow> Inl e | Inr a \<Rightarrow> Inr [a]) items)))"

definition gcs_GetSize :: "'w GCSBackend \<Rightarrow> string \<Rightarrow> ('w, int) op" where
  "gcs_GetSize b objectPath =
     check (gcsc_Attrs (gcs_client b) (gcs_bucket b) (buildKey (gcs_prefix b) objectPath))
       (\<lambda>e w. if e = gcsc_NotExist (gcs_client b) then OtherError (''object not found: '' @ objectPath) None
              else Errorf_w ''failed to get object attributes: '' e) (\<lambda>a. ret (oa_Size a))"

definition gcs_backend :: "'w GCSBackend \<Rightarrow> 'w Backend" where
  "gcs_backend b =
     \<lparr>be_Write = gcs_Write b, be_Read = gcs_Read b, be_Delete = gcs_Delete b, be_Exists = gcs_Exists b,
      be_List = gcs_List b, be_GetSize = gcs_GetSize b, be_Close = gcsc_Close (gcs_client b)\<rparr>"

definition getGCSCredentials :: "'w secret_env \<Rightarrow> SecretKeySelector \<Rightarrow> string \<Rightarrow> ('w, string) op" where
  "getGCSCredentials m secretRef namespace =
     check (GetSecretData m (sks_Name secretRef) (or_default (sks_Namespace secretRef) namespace))
       (\<lambda>e w. Errorf_w (''failed to get secret '' @ sks_Name secretRef @ '': '') e)
       (\<lambda>data. secret_key (sks_Name secretRef) data (sks_Key secretRef))"

definition NewGCSBackend ::
  "(string \<Rightarrow> ('w, 'w gcs_client) op) \<Rightarrow> 'w secret_env \<Rightarrow> GCSStorageConfig \<Rightarrow> string \<Rightarrow> ('w, 'w GCSBackend) op" where
  "NewGCSBackend connect m config namespace =
     (if gcs_Bucket config = '''' then fail (OtherError ''GCS bucket name is required'' None)
      else check (getGCSCredentials m (gcs_SecretRef config) namespace) (\<lambda>e w. Errorf_w ''failed to get GCS credentials: '' e) (\<lambda>credentialsJSON.
           check (connect credentialsJSON) (\<lambda>e w. Errorf_w ''failed to create GCS client: '' e) (\<lambda>client.
           ret \<lparr>gcs_client = client, gcs_bucket = gcs_Bucket config, gcs_prefix = TrimPrefix (gcs_Prefix config) ''/''\<rparr>)))"

text \<open>Azure leaves out the time and the length of a blob when it does not know them; both are then zero.\<close>

record blob_item =
  bl_Name :: string
  bl_LastModified :: "int option"
  bl_ContentLength :: "int option"

record 'w azure_client =
  azc_UploadBuffer :: "string \<Rightarrow> string \<Rightarrow> bytes \<Rightarrow> ('w, unit) op"
  azc_DownloadStream :: "string \<Rightarrow> string \<Rightarrow> ('w, 'w stored) op"
  azc_DeleteBlob :: "string \<Rightarrow> string \<Rightarrow> ('w, unit) op"
  azc_GetProperties :: "string \<Rightarrow> string \<Rightarrow> ('w, int) op"
  azc_ListPages :: "string \<Rightarrow> string \<Rightarrow> 'w \<Rightarrow> 'w \<times> (go_error + blob_item list) list"

record SecretReference =
  sref_Name :: string
  sref_Namespace :: string

record AzureStorageConfig =
  azs_Container :: string
  azs_StorageAccount :: string
  azs_Prefix :: string
  azs_SecretRef :: SecretReference

record 'w AzureBackend =
  az_client :: "'w azure_client"
  az_containerName :: string
  az_prefix :: string
  az_storageAccount :: string

definition blob_not_found :: "go_error \<Rightarrow> bool" where
  "blob_not_found e \<longleftrightarrow> Contains (Error e) ''BlobNotFound''"

definition az_Write :: "'w AzureBackend \<Rightarrow> string \<Rightarrow> bytes \<Rightarrow> ('w, unit) op" where
  "az_Write b objectPath bs =
     check (azc_UploadBuffer (az_client b) (az_containerName b) (buildKey (az_prefix b) objectPath) bs)
       (\<lambda>e w. Errorf_w ''failed to upload to Azure Blob: '' e) ret"

definition az_Read :: "'w AzureBackend \<Rightarrow> string \<Rightarrow> ('w, 'w stored) op" where
  "az_Read b objectPath =
     check (azc_DownloadStream (az_client b) (az_containerName b) (buildKey (az_prefix b) objectPath))
       (\<lambda>e w. Errorf_w ''failed to download from Azure Blob: '' e) ret"

definition az_Delete :: "'w AzureBackend \<Rightarrow> string \<Rightarrow> ('w, unit) op" where
  "az_Delete b objectPath =
     unless_missing blob_not_found () ''failed to delete from Azure Blob: ''
       (azc_DeleteBlob (az_client b) (az_containerName b) (buildKey (az_prefix b) objectPath))"

definition az_Exists :: "'w AzureBackend \<Rightarrow> string \<Rightarrow> ('w, bool) op" where
  "az_Exists b objectPath =
     unless_missing blob_not_found False ''failed to check blob existence: ''
       (check (azc_GetProperties (az_client b) (az_containerName b) (buildKey (az_prefix b) objectPath)) as_is (\<lambda>_. ret True))"

definition az_List :: "'w AzureBackend \<Rightarrow> string \<Rightarrow> ('w, ObjectInfo list) op" where
  "az_List b pre w =
     (case azc_ListPages (az_client b) (az_containerName b) (buildKey (az_prefix b) pre) w of
        (w', pages) \<Rightarrow>
          (let attrs = (\<lambda>i. \<lparr>oa_Name = bl_Name i, oa_Size = (case bl_ContentLength i of None \<Rightarrow> 0 | Some n \<Rightarrow> n),
                             oa_Updated = (case bl_LastModified i of None \<Rightarrow> 0 | Some t \<Rightarrow> t), oa_MD5 = []\<rparr>)
           in (w', collect_pages (object_info (az_prefix b) (\<lambda>_. '''')) ''failed to list blobs: ''
                     (map (\<lambda>p. case p of Inl e \<Rightarrow> Inl e | Inr items \<Rightarrow> Inr (map attrs items)) pages))))"

definition az_GetSize :: "'w AzureBackend \<Rightarrow> string \<Rightarrow> ('w, int) op" where
  "az_GetSize b objectPath =
     check (azc_GetProperties (az_client b) (az_containerName b) (buildKey (az_prefix b) objectPath))
       (\<lambda>e w. Errorf_w ''failed to get blob properties: '' e) ret"

definition azure_backend :: "'w AzureBackend \<Rightarrow> 'w Backend" where
  "azure_backend b =
     \<lparr>be_Write = az_Write b, be_Read = az_Read b, be_Delete = az_Delete b, be_Exists = az_Exists b,
      be_List = az_List b, be_GetSize = az_GetSize b, be_Close = ret ()\<rparr>"

definition azure_key_names :: "string list" where
  "azure_key_names = [''AZURE_STORAGE_ACCOUNT_KEY'', ''accountKey'', ''storageAccountKey'', ''key'']"

fun first_key :: "string go_map \<Rightarrow> string list \<Rightarrow> string option" where
  "first_key data [] = None"
| "first_key data (n # ns) = (case map_of data n of Some v \<Rightarrow> Some v | None \<Rightarrow> first_key data ns)"

definition getAzureCredentials :: "'w secret_env \<Rightarrow> SecretReference \<Rightarrow> string \<Rightarrow> ('w, string) op" where
  "getAzureCredentials m secretRef namespace =
     check (GetSecretData m (sref_Name secretRef) (or_default (sref_Namespace secretRef) namespace))
       (\<lambda>e w. Errorf_w (''failed to get secret '' @ sref_Name secretRef @ '': '') e) (\<lambda>data.
     case first_key data azure_key_names of
       Some key \<Rightarrow> ret key
     | None \<Rightarrow> fail (OtherError (''secret '' @ sref_Name secretRef @ '' does not contain Azure storage account key (tried: ['' @
                 Join azure_key_names '' '' @ ''])'') None))"

text \<open>\<open>credential\<close> and \<open>connect\<close> are the two constructors of the Azure library.\<close>

definition NewAzureBackend ::
  "(string \<Rightarrow> string \<Rightarrow> go_error + 'k) \<Rightarrow> (string \<Rightarrow> 'k \<Rightarrow> go_error + 'w azure_client) \<Rightarrow> 'w secret_env \<Rightarrow> AzureStorageConfig \<Rightarrow> string \<Rightarrow>
   ('w, 'w AzureBackend) op" where
  "NewAzureBackend credential connect m config namespace =
     (if azs_Container config = '''' then fail (OtherError ''Azure container name is required'' None)
      else if azs_StorageAccount config = '''' then fail (OtherError ''Azure storage account is required'' None)
      else check (getAzureCredentials m (azs_SecretRef config) namespace) (\<lambda>e w. Errorf_w ''failed to get Azure credentials: '' e) (\<lambda>accountKey.
           case credential (azs_StorageAccount config) accountKey of
             Inl e \<Rightarrow> fail (Errorf_w ''failed to create Azure credential: '' e)
           | Inr cred \<Rightarrow>
               (case connect (''https://'' @ azs_StorageAccount config @ ''.blob.core.windows.net/'') cred of
                  Inl e \<Rightarrow> fail (Errorf_w ''failed to create Azure client: '' e)
                | Inr client \<Rightarrow>
                    ret \<lparr>az_client = client, az_containerName = azs_Container config, az_prefix = TrimPrefix (azs_Prefix config) ''/'',
                         az_storageAccount = azs_StorageAccount config\<rparr>)))"

section \<open>The factory\<close>

datatype StorageType = StorageTypeGCS | StorageTypeS3 | StorageTypeAzure | StorageTypePVC | StorageTypeOther string

record StorageConfig =
  sg_Type :: StorageType
  sg_GCS :: "GCSStorageConfig option"
  sg_S3 :: "S3StorageConfig option"
  sg_Azure :: "AzureStorageConfig option"
  sg_PVC :: "PVCStorageConfig option"

record ('w, 'k) storage_env =
  sv_os :: "'w os"
  sv_secrets :: "'w secret_env"
  sv_crypto :: "'w crypto"
  sv_connectS3 :: "S3StorageConfig \<Rightarrow> string \<Rightarrow> string \<Rightarrow> ('w, 'w s3_client) op"
  sv_connectGCS :: "string \<Rightarrow> ('w, 'w gcs_client) op"
  sv_credentialAzure :: "string \<Rightarrow> string \<Rightarrow> go_error + 'k"
  sv_connectAzure :: "string \<Rightarrow> 'k \<Rightarrow> go_error + 'w azure_client"

definition from_config :: "string \<Rightarrow> 'c option \<Rightarrow> ('c \<Rightarrow> ('w, 'b) op) \<Rightarrow> ('b \<Rightarrow> 'w Backend) \<Rightarrow> ('w, 'w Backend) op" where
  "from_config msg config new wrap =
     (case config of
        None \<Rightarrow> fail (OtherError msg None)
      | Some c \<Rightarrow> check (new c) as_is (\<lambda>b. ret (wrap b)))"

definition NewBackend :: "('w, 'k) storage_env \<Rightarrow> StorageConfig option \<Rightarrow> string \<Rightarrow> ('w, 'w Backend) op" where
  "NewBackend h cfg namespace =
     (case cfg of
        None \<Rightarrow> fail (OtherError ''storage configuration is required'' None)
      | Some config \<Rightarrow>
          (case sg_Type config of
             StorageTypePVC \<Rightarrow>
               from_config ''PVC configuration is required for PVC storage type'' (sg_PVC config) (\<lambda>c w. (w, NewPVCBackend c)) (pvc_backend (sv_os h))
           | StorageTypeS3 \<Rightarrow>
               from_config ''S3 configuration is required for S3 storage type'' (sg_S3 config)
                 (\<lambda>c. NewS3Backend (sv_connectS3 h) (sv_secrets h) c namespace) s3_backend
           | StorageTypeGCS \<Rightarrow>
               from_config ''GCS configuration is required for GCS storage type'' (sg_GCS config)
                 (\<lambda>c. NewGCSBackend (sv_connectGCS h) (sv_secrets h) c namespace) gcs_backend
           | StorageTypeAzure \<Rightarrow>
               from_config ''Azure configuration is required for Azure storage type'' (sg_Azure config)
                 (\<lambda>c. NewAzureBackend (sv_credentialAzure h) (sv_connectAzure h) (sv_secrets h) c namespace) azure_backend
           | StorageTypeOther t \<Rightarrow> fail (OtherError (''unsupported storage type: '' @ t) None)))"

definition GenerateBackupPath :: "string \<Rightarrow> string \<Rightarrow> string \<Rightarrow> string" where
  "GenerateBackupPath pre backupName extension =
     (if pre \<noteq> '''' then pre @ ''/'' @ backupName @ ''.'' @ extension else backupName @ ''.'' @ extension)"

section \<open>Clean paths\<close>

lemma parts_nonempty [simp]: "parts s \<noteq> []"
  by (cases s) auto

lemma parts_slash: "parts (a @ CHR ''/'' # b) = parts a @ parts b"
  by (induction a) (auto simp: hd_append tl_append split: list.split)

lemma parts_plain: "CHR ''/'' \<notin> set s \<Longrightarrow> parts s = [s]"
  by (induction s) auto

lemma parts_no_slash: "p \<in> set (parts s) \<Longrightarrow> CHR ''/'' \<notin> set p"
proof (induction s arbitrary: p)
  case (Cons c s)
  obtain q qs where q: "parts s = q # qs" by (cases "parts s") auto
  then show ?case using Cons by (auto split: if_splits)
qed simp

lemma parts_Join: "ns \<noteq> [] \<Longrightarrow> \<forall>n \<in> set ns. CHR ''/'' \<notin> set n \<Longrightarrow> parts (Join ns ''/'') = ns"
proof (induction ns)
  case (Cons n ns)
  then show ?case by (cases ns) (simp_all add: parts_plain parts_slash)
qed simp

text \<open>The names in a path; a path is plain if none of them goes up.\<close>

definition names :: "string \<Rightarrow> string list" where
  "names s = filter (\<lambda>p. p \<noteq> '''' \<and> p \<noteq> ''.'') (parts s)"

definition plain :: "string \<Rightarrow> bool" where
  "plain s \<longleftrightarrow> ''..'' \<notin> set (parts s)"

lemma foldl_clean_plain: "''..'' \<notin> set ps \<Longrightarrow> foldl (clean_step r) st ps = rev (filter (\<lambda>p. p \<noteq> '''' \<and> p \<noteq> ''.'') ps) @ st"
  by (induction ps arbitrary: st) (auto simp: clean_step_def)

lemma names_empty [simp]: "names '''' = []" "plain ''''"
  by (simp_all add: names_def plain_def)

lemma names_no_slash: "n \<in> set (names s) \<Longrightarrow> CHR ''/'' \<notin> set n"
  by (auto simp: names_def dest: parts_no_slash)

lemma names_rooted: "\<forall>n \<in> set ns. CHR ''/'' \<notin> set n \<and> n \<noteq> '''' \<and> n \<noteq> ''.'' \<Longrightarrow> names (''/'' @ Join ns ''/'') = ns"
proof (cases ns)
  case (Cons n ms)
  assume "\<forall>n \<in> set ns. CHR ''/'' \<notin> set n \<and> n \<noteq> '''' \<and> n \<noteq> ''.''"
  then have "filter (\<lambda>p. p \<noteq> '''' \<and> p \<noteq> ''.'') ns = ns" "parts (Join ns ''/'') = ns" using Cons by (simp_all add: parts_Join)
  then show ?thesis using parts_slash [of "''''" "Join ns ''/''"] by (simp add: names_def)
qed (simp add: names_def)

lemma Clean_rooted_join:
  assumes "take 1 a = ''/''" "plain a" "plain b"
  shows "Clean (a @ ''/'' @ b) = ''/'' @ Join (names a @ names b) ''/''"
proof -
  have "take 1 (a @ ''/'' @ b) = ''/''" using assms(1) by (cases a) auto
  moreover have "foldl (clean_step True) [] (parts (a @ CHR ''/'' # b)) = rev (names a @ names b)"
    using assms(2,3) by (simp add: parts_slash foldl_clean_plain plain_def names_def)
  ultimately show ?thesis by (simp add: Clean_def Let_def)
qed

lemma Clean_rooted: "take 1 a = ''/'' \<Longrightarrow> plain a \<Longrightarrow> Clean a = ''/'' @ Join (names a) ''/''"
  by (simp add: Clean_def Let_def foldl_clean_plain plain_def names_def)

lemma base_path:
  assumes "NewPVCBackend config = Inr b" "plain (pvcc_SubPath config)"
  shows "pvc_basePath b = ''/'' @ Join (''data'' # names (pvcc_SubPath config)) ''/''"
proof -
  have data: "names ''/data'' = [''data'']" "plain ''/data''" by (simp_all add: names_def plain_def)
  show ?thesis using assms Clean_rooted_join [of "''/data''" "pvcc_SubPath config"] data
    by (auto simp: NewPVCBackend_def path_Join_def split: if_splits)
qed

lemma full_path:
  assumes "NewPVCBackend config = Inr b" "plain (pvcc_SubPath config)" "plain path"
  shows "fullPath b path = ''/'' @ Join (''data'' # names (pvcc_SubPath config) @ names path) ''/''"
proof -
  let ?ns = "''data'' # names (pvcc_SubPath config)"
  have base: "pvc_basePath b = ''/'' @ Join ?ns ''/''" using assms(1,2) by (rule base_path)
  have ns: "\<forall>n \<in> set ?ns. CHR ''/'' \<notin> set n \<and> n \<noteq> '''' \<and> n \<noteq> ''.''"
    using names_no_slash [of _ "pvcc_SubPath config"] by (auto simp: names_def)
  have "parts (''/'' @ Join ?ns ''/'') = '''' # ?ns"
    using parts_slash [of "''''" "Join ?ns ''/''"] ns by (simp add: parts_Join del: Join.simps)
  then have base_plain: "plain (pvc_basePath b)" using assms(2) base by (auto simp: plain_def names_def)
  have "names (pvc_basePath b) = ?ns" using names_rooted [OF ns] base by simp
  moreover have "take 1 (pvc_basePath b) = ''/''" using base by simp
  ultimately show ?thesis
    using Clean_rooted_join [of "pvc_basePath b" path] Clean_rooted [of "pvc_basePath b"] base_plain assms(3)
    by (cases "path = ''''") (auto simp: fullPath_def path_Join_def)
qed

lemma rooted_inj:
  assumes "\<forall>n \<in> set ns. CHR ''/'' \<notin> set n \<and> n \<noteq> '''' \<and> n \<noteq> ''.''" "\<forall>n \<in> set ms. CHR ''/'' \<notin> set n \<and> n \<noteq> '''' \<and> n \<noteq> ''.''"
  shows "''/'' @ Join ns ''/'' = ''/'' @ Join ms ''/'' \<longleftrightarrow> ns = ms"
  using names_rooted [OF assms(1)] names_rooted [OF assms(2)] by metis

text \<open>
  C40: where a volume backend puts its files. If neither the sub-path of the configuration nor the path
  goes up, the file is below \<^verbatim>\<open>/data\<close> and its sub-path, and two such paths share a file only if they
  consist of the same names. Nothing checks that: without a sub-path, a path that starts by going up once
  names any file of the system.
\<close>

theorem pvc_paths:
  assumes new: "NewPVCBackend config = Inr b" and sub: "plain (pvcc_SubPath config)" and path: "plain path"
  shows "fullPath b path = ''/'' @ Join (''data'' # names (pvcc_SubPath config) @ names path) ''/'' \<and>
    (\<forall>q. plain q \<longrightarrow> (fullPath b q = fullPath b path \<longleftrightarrow> names q = names path)) \<and>
    (pvcc_SubPath config = '''' \<longrightarrow> fullPath b (''../'' @ path) = ''/'' @ Join (names path) ''/'')"
proof (intro conjI allI impI)
  let ?ns = "\<lambda>p. ''data'' # names (pvcc_SubPath config) @ names p"
  show full: "fullPath b path = ''/'' @ Join (?ns path) ''/''" using new sub path by (rule full_path)
  have ok: "\<forall>n \<in> set (?ns p). CHR ''/'' \<notin> set n \<and> n \<noteq> '''' \<and> n \<noteq> ''.''" for p
    using names_no_slash [of _ p] names_no_slash [of _ "pvcc_SubPath config"] by (auto simp: names_def)
  show "fullPath b q = fullPath b path \<longleftrightarrow> names q = names path" if "plain q" for q
    unfolding full full_path [OF new sub that] rooted_inj [OF ok ok] by simp
  assume "pvcc_SubPath config = ''''"
  then have "pvc_basePath b = ''/data''" using new by (auto simp: NewPVCBackend_def split: if_splits)
  moreover have "parts (''/data/../'' @ path) = ['''', ''data'', ''..''] @ parts path"
    using parts_slash [of "''/data/..''" path] by simp
  moreover have "foldl (clean_step True) [] (['''', ''data'', ''..''] @ parts path) = rev (names path)"
    using path by (simp add: clean_step_def foldl_clean_plain plain_def names_def)
  ultimately show "fullPath b (''../'' @ path) = ''/'' @ Join (names path) ''/''"
    by (simp add: fullPath_def path_Join_def Clean_def)
qed

section \<open>What a backend promises\<close>

text \<open>
  A backend keeps objects under keys: a write that succeeds stores the data, a read that succeeds returns
  what is stored, a delete that succeeds removes it, and the other operations change nothing.
\<close>

locale object_store =
  fixes be :: "'w Backend" and stored :: "'w \<Rightarrow> string \<Rightarrow> bytes option" and key :: "string \<Rightarrow> string"
  assumes write_stores: "be_Write be p bs w = (w', Inr ()) \<Longrightarrow> stored w' = (stored w)(key p \<mapsto> bs)"
    and read_stored: "be_Read be p w = (w', Inr get) \<Longrightarrow> stored w' = stored w \<and>
      (\<forall>v v' bs. stored v = stored w \<longrightarrow> get v = (v', Inr bs) \<longrightarrow> stored w (key p) = Some bs)"
    and delete_removes: "be_Delete be p w = (w', Inr ()) \<Longrightarrow> stored w' = (stored w)(key p := None)"
    and close_keeps: "keeps stored (be_Close be)"
begin

lemma read_after_write:
  assumes "be_Write be p bs w = (w1, Inr ())" "stored w2 = stored w1" "be_Read be p w2 = (w3, Inr get)" "get w3 = (w4, Inr bs')"
  shows "bs' = bs"
  using write_stores [OF assms(1)] read_stored [OF assms(3)] assms(2,4) by fastforce

lemma deleted_unreadable:
  assumes "be_Delete be p w = (w1, Inr ())" "stored w2 = stored w1" "be_Read be p w2 = (w3, Inr get)"
  shows "isl (snd (get w3))"
  using delete_removes [OF assms(1)] read_stored [OF assms(3)] assms(2)
  by (cases "get w3"; cases "snd (get w3)") auto

end

text \<open>What the backends rely on: the files of the system, and the objects of a bucket.\<close>

definition os_laws :: "'w os \<Rightarrow> ('w \<Rightarrow> string \<Rightarrow> bytes option) \<Rightarrow> bool" where
  "os_laws h files \<longleftrightarrow>
     (\<forall>d. keeps files (os_MkdirAll h d)) \<and> (\<forall>f. keeps files (os_CloseFile h f)) \<and>
     (\<forall>f w w'. os_Create h f w = (w', Inr ()) \<longrightarrow> files w' = (files w)(f \<mapsto> [])) \<and>
     (\<forall>f bs w w'. os_Copy h f bs w = (w', Inr ()) \<longrightarrow> files w' = (files w)(f \<mapsto> bs)) \<and>
     (\<forall>f w w' r. os_Remove h f w = (w', r) \<longrightarrow> (case r of
        Inr _ \<Rightarrow> files w' = (files w)(f := None)
      | Inl e \<Rightarrow> os_IsNotExist h e \<longrightarrow> files w' = files w \<and> files w f = None)) \<and>
     (\<forall>f w w' get. os_Open h f w = (w', Inr get) \<longrightarrow> files w' = files w \<and>
        (\<forall>v v' bs. files v = files w \<longrightarrow> get v = (v', Inr bs) \<longrightarrow> files w f = Some bs))"

lemma pvc_store:
  assumes "os_laws h files"
  shows "object_store (pvc_backend h b) files (fullPath b)"
proof
  show "files w' = (files w)(fullPath b p \<mapsto> bs)" if "be_Write (pvc_backend h b) p bs w = (w', Inr ())" for p bs w w'
    using that assms
    by (auto simp: pvc_backend_def pvc_Write_def os_laws_def keeps_def check_def Let_def split: prod.splits sum.splits) (metis fst_conv)+
  show "files w' = files w \<and> (\<forall>v v' bs. files v = files w \<longrightarrow> get v = (v', Inr bs) \<longrightarrow> files w (fullPath b p) = Some bs)"
    if "be_Read (pvc_backend h b) p w = (w', Inr get)" for p w w' get
    using that assms by (auto simp: pvc_backend_def pvc_Read_def os_laws_def check_def split: prod.splits sum.splits)
  show "files w' = (files w)(fullPath b p := None)" if run: "be_Delete (pvc_backend h b) p w = (w', Inr ())" for p w w'
  proof -
    obtain r where r: "os_Remove h (fullPath b p) w = (w', r)" "\<forall>e. r = Inl e \<longrightarrow> os_IsNotExist h e"
      using run by (auto simp: pvc_backend_def pvc_Delete_def unless_missing_def split: prod.splits sum.splits if_splits)
    have "case r of Inr _ \<Rightarrow> files w' = (files w)(fullPath b p := None)
      | Inl e \<Rightarrow> os_IsNotExist h e \<longrightarrow> files w' = files w \<and> files w (fullPath b p) = None"
      using assms r(1) unfolding os_laws_def by blast
    then show ?thesis using r(2) by (cases r) auto
  qed
  show "keeps files (be_Close (pvc_backend h b))" by (simp add: pvc_backend_def)
qed

definition s3_laws :: "'w s3_client \<Rightarrow> ('w \<Rightarrow> string \<Rightarrow> string \<Rightarrow> bytes option) \<Rightarrow> bool" where
  "s3_laws c objects \<longleftrightarrow>
     (\<forall>b k bs w w'. s3c_PutObject c b k bs w = (w', Inr ()) \<longrightarrow> objects w' = (objects w)(b := (objects w b)(k \<mapsto> bs))) \<and>
     (\<forall>b k w w'. s3c_DeleteObject c b k w = (w', Inr ()) \<longrightarrow> objects w' = (objects w)(b := (objects w b)(k := None))) \<and>
     (\<forall>b k w w' get. s3c_GetObject c b k w = (w', Inr get) \<longrightarrow> objects w' = objects w \<and>
        (\<forall>v v' bs. objects v b = objects w b \<longrightarrow> get v = (v', Inr bs) \<longrightarrow> objects w b k = Some bs))"

lemma s3_store:
  assumes "s3_laws (s3_client b) objects"
  shows "object_store (s3_backend b) (\<lambda>w. objects w (s3_bucket b)) (buildKey (s3_prefix b))"
proof
  let ?o = "\<lambda>w. objects w (s3_bucket b)"
  show "?o w' = (?o w)(buildKey (s3_prefix b) p \<mapsto> bs)" if "be_Write (s3_backend b) p bs w = (w', Inr ())" for p bs w w'
    using that assms by (auto simp: s3_backend_def s3_Write_def s3_laws_def check_def split: prod.splits sum.splits)
  show "?o w' = ?o w \<and> (\<forall>v v' bs. ?o v = ?o w \<longrightarrow> get v = (v', Inr bs) \<longrightarrow> ?o w (buildKey (s3_prefix b) p) = Some bs)"
    if "be_Read (s3_backend b) p w = (w', Inr get)" for p w w' get
    using that assms by (auto simp: s3_backend_def s3_Read_def s3_laws_def check_def split: prod.splits sum.splits)
  show "?o w' = (?o w)(buildKey (s3_prefix b) p := None)" if "be_Delete (s3_backend b) p w = (w', Inr ())" for p w w'
    using that assms by (auto simp: s3_backend_def s3_Delete_def s3_laws_def check_def split: prod.splits sum.splits)
  show "keeps ?o (be_Close (s3_backend b))" by (simp add: s3_backend_def)
qed

section \<open>A file system in memory\<close>

text \<open>The files of a volume, by their full path.\<close>

definition mem_os :: "(string \<Rightarrow> bytes option) os" where
  "mem_os =
     \<lparr>os_MkdirAll = (\<lambda>_. ret ()), os_Create = (\<lambda>f w. (w(f \<mapsto> []), Inr ())), os_Copy = (\<lambda>f bs w. (w(f \<mapsto> bs), Inr ())),
      os_CloseFile = (\<lambda>_. ret ()), os_Remove = (\<lambda>f w. if w f = None then (w, Inl ErrNotFound) else (w(f := None), Inr ())),
      os_Open = (\<lambda>f w. case w f of None \<Rightarrow> (w, Inl ErrNotFound) | Some bs \<Rightarrow> (w, Inr (\<lambda>v. (v, Inr bs)))),
      os_Stat = (\<lambda>f w. case w f of None \<Rightarrow> (w, Inl ErrNotFound) | Some bs \<Rightarrow> (w, Inr \<lparr>fi_Size = int (length bs), fi_ModTime = 0\<rparr>)),
      os_Walk = (\<lambda>d. ret []), os_IsNotExist = (\<lambda>e. e = ErrNotFound)\<rparr>"

lemma mem_os_laws: "os_laws mem_os (\<lambda>w. w)"
  by (auto simp: os_laws_def mem_os_def keeps_def split: option.splits sum.splits if_splits)

interpretation pvc: object_store "pvc_backend mem_os b" "\<lambda>w. w" "fullPath b" for b
  by (rule pvc_store [OF mem_os_laws])

definition pvc_config_x :: PVCStorageConfig where
  "pvc_config_x = \<lparr>pvcc_ClaimName = ''backups'', pvcc_SubPath = ''team/a''\<rparr>"

theorem pvc_paths_witness:
  "\<exists>b. NewPVCBackend pvc_config_x = Inr b \<and> fullPath b ''db.sql'' = ''/data/team/a/db.sql''"
proof -
  obtain b where b: "NewPVCBackend pvc_config_x = Inr b" by (simp add: NewPVCBackend_def pvc_config_x_def)
  have "plain (pvcc_SubPath pvc_config_x)" "plain ''db.sql''" by (simp_all add: plain_def pvc_config_x_def)
  from pvc_paths [OF b this] have "fullPath b ''db.sql'' = ''/data/team/a/db.sql''"
    by (simp add: names_def pvc_config_x_def)
  then show ?thesis using b by blast
qed

end
