(* ===== verification/Backup_Storage.thy ===== *)
theory Backup_Storage
  imports Storage_Backend
begin

text \<open>
  From the dump of a database to an object in storage and back: \<^verbatim>\<open>compression.go\<close> and
  \<^verbatim>\<open>backup_helper.go\<close> of \<^verbatim>\<open>internal/storage\<close>. The compression libraries are records of
  operations over a buffer in memory, whose writes cannot fail: a writer returns the bytes it passes on.
\<close>

section \<open>Compression\<close>

datatype CompressionAlgorithm = CompressionGzip | CompressionLZ4 | CompressionZstd | CompressionNone | CompressionUnset | CompressionOther string

record CompressionConfig =
  cc_Enabled :: bool
  cc_Algorithm :: CompressionAlgorithm
  cc_Level :: int

record ('l, 'z) zlib =
  zl_NewWriter :: "'l \<Rightarrow> go_error + 'z"
  zl_Write :: "'z \<Rightarrow> bytes \<Rightarrow> 'z \<times> bytes \<times> go_error option"
  zl_Close :: "'z \<Rightarrow> bytes \<times> go_error option"
  zl_NewReader :: "bytes \<Rightarrow> go_error + 'z"
  zl_Read :: "'z reader"
  zl_CloseReader :: "'z \<Rightarrow> go_error option"

datatype lz4_level = Lz4Fast | Lz4Level5 | Lz4Level9
datatype zstd_level = SpeedFastest | SpeedDefault | SpeedBestCompression

record 'z zlibs =
  zs_gzip :: "(int, 'z) zlib"
  zs_lz4 :: "(lz4_level option, 'z) zlib"
  zs_zstd :: "(zstd_level, 'z) zlib"

datatype Compressor = NoopCompressor | GzipCompressor int | Lz4Compressor int | ZstdCompressor int

definition NewCompressor :: "CompressionConfig option \<Rightarrow> go_error + Compressor" where
  "NewCompressor cfg =
     (case cfg of
        None \<Rightarrow> Inr NoopCompressor
      | Some config \<Rightarrow>
          if \<not> cc_Enabled config then Inr NoopCompressor
          else case cc_Algorithm config of
            CompressionGzip \<Rightarrow> Inr (GzipCompressor (cc_Level config))
          | CompressionUnset \<Rightarrow> Inr (GzipCompressor (cc_Level config))
          | CompressionLZ4 \<Rightarrow> Inr (Lz4Compressor (cc_Level config))
          | CompressionZstd \<Rightarrow> Inr (ZstdCompressor (cc_Level config))
          | CompressionNone \<Rightarrow> Inr NoopCompressor
          | CompressionOther a \<Rightarrow> Inl (OtherError (''unsupported compression algorithm: '' @ a) None))"

fun Compressor_Extension :: "Compressor \<Rightarrow> string" where
  "Compressor_Extension NoopCompressor = ''''"
| "Compressor_Extension (GzipCompressor _) = ''.gz''"
| "Compressor_Extension (Lz4Compressor _) = ''.lz4''"
| "Compressor_Extension (ZstdCompressor _) = ''.zst''"

definition gzip_level :: "int \<Rightarrow> int" where
  "gzip_level level = (if level = 0 then -1 else level)"

definition lz4_level :: "int \<Rightarrow> lz4_level option" where
  "lz4_level level =
     (if level > 0 then Some (if level \<le> 3 then Lz4Fast else if level \<le> 6 then Lz4Level5 else Lz4Level9) else None)"

definition zstd_level :: "int \<Rightarrow> zstd_level" where
  "zstd_level level =
     (if level > 0 then (if level \<le> 3 then SpeedFastest else if level \<le> 6 then SpeedDefault else SpeedBestCompression) else SpeedDefault)"

datatype 'z CompWriter = NopWriteCloser | GzipWriter 'z | Lz4Writer 'z | ZstdWriter 'z
datatype 'z CompReader = PlainReader bytes | GzipReader 'z | Lz4Reader 'z | ZstdReader 'z

fun Compress :: "'z zlibs \<Rightarrow> Compressor \<Rightarrow> go_error + 'z CompWriter" where
  "Compress zs NoopCompressor = Inr NopWriteCloser"
| "Compress zs (GzipCompressor level) = map_sum id GzipWriter (zl_NewWriter (zs_gzip zs) (gzip_level level))"
| "Compress zs (Lz4Compressor level) =
     map_sum (Errorf_w ''failed to set lz4 compression level: '') Lz4Writer (zl_NewWriter (zs_lz4 zs) (lz4_level level))"
| "Compress zs (ZstdCompressor level) = map_sum id ZstdWriter (zl_NewWriter (zs_zstd zs) (zstd_level level))"

fun comp_Write :: "'z zlibs \<Rightarrow> 'z CompWriter \<Rightarrow> bytes \<Rightarrow> 'z CompWriter \<times> bytes \<times> go_error option" where
  "comp_Write zs NopWriteCloser p = (NopWriteCloser, p, None)"
| "comp_Write zs (GzipWriter z) p = map_prod GzipWriter id (zl_Write (zs_gzip zs) z p)"
| "comp_Write zs (Lz4Writer z) p = map_prod Lz4Writer id (zl_Write (zs_lz4 zs) z p)"
| "comp_Write zs (ZstdWriter z) p = map_prod ZstdWriter id (zl_Write (zs_zstd zs) z p)"

fun comp_Close :: "'z zlibs \<Rightarrow> 'z CompWriter \<Rightarrow> bytes \<times> go_error option" where
  "comp_Close zs NopWriteCloser = ([], None)"
| "comp_Close zs (GzipWriter z) = zl_Close (zs_gzip zs) z"
| "comp_Close zs (Lz4Writer z) = zl_Close (zs_lz4 zs) z"
| "comp_Close zs (ZstdWriter z) = zl_Close (zs_zstd zs) z"

fun Decompress :: "'z zlibs \<Rightarrow> Compressor \<Rightarrow> bytes \<Rightarrow> go_error + 'z CompReader" where
  "Decompress zs NoopCompressor b = Inr (PlainReader b)"
| "Decompress zs (GzipCompressor level) b = map_sum id GzipReader (zl_NewReader (zs_gzip zs) b)"
| "Decompress zs (Lz4Compressor level) b = map_sum id Lz4Reader (zl_NewReader (zs_lz4 zs) b)"
| "Decompress zs (ZstdCompressor level) b = map_sum id ZstdReader (zl_NewReader (zs_zstd zs) b)"

definition wrap_read :: "('s \<Rightarrow> 't) \<Rightarrow> ('s \<times> bytes \<times> io_error option) option \<Rightarrow> ('t \<times> bytes \<times> io_error option) option" where
  "wrap_read f = map_option (map_prod f id)"

fun comp_Read :: "'z zlibs \<Rightarrow> nat \<Rightarrow> 'z CompReader \<Rightarrow> ('z CompReader \<times> bytes \<times> io_error option) option" where
  "comp_Read zs n (PlainReader b) = wrap_read PlainReader (bytes_reader n b)"
| "comp_Read zs n (GzipReader z) = wrap_read GzipReader (zl_Read (zs_gzip zs) n z)"
| "comp_Read zs n (Lz4Reader z) = wrap_read Lz4Reader (zl_Read (zs_lz4 zs) n z)"
| "comp_Read zs n (ZstdReader z) = wrap_read ZstdReader (zl_Read (zs_zstd zs) n z)"

fun comp_CloseReader :: "'z zlibs \<Rightarrow> 'z CompReader \<Rightarrow> go_error option" where
  "comp_CloseReader zs (GzipReader z) = zl_CloseReader (zs_gzip zs) z"
| "comp_CloseReader zs r = None"

section \<open>Writing a backup\<close>

record ('w, 'k, 'z) archive_env =
  ar_storage :: "('w, 'k) storage_env"
  ar_zlibs :: "'z zlibs"
  ar_Format :: "int \<Rightarrow> string"

record BackupWriterConfig =
  bwc_StorageConfig :: "StorageConfig option"
  bwc_CompressionConfig :: "CompressionConfig option"
  bwc_EncryptionConfig :: "EncryptionConfig option"
  bwc_Namespace :: string
  bwc_BackupName :: string
  bwc_DatabaseName :: string
  bwc_Timestamp :: int
  bwc_Extension :: string

record 'w BackupWriter =
  bw_backend :: "'w Backend"
  bw_compressor :: Compressor
  bw_encryptor :: Encryptor
  bw_path :: string
  bw_buffer :: bytes

definition getStoragePrefix :: "StorageConfig option \<Rightarrow> string" where
  "getStoragePrefix cfg =
     (case cfg of
        None \<Rightarrow> ''''
      | Some c \<Rightarrow>
          (case sg_Type c of
             StorageTypeS3 \<Rightarrow> (case sg_S3 c of None \<Rightarrow> '''' | Some s \<Rightarrow> s3s_Prefix s)
           | StorageTypeGCS \<Rightarrow> (case sg_GCS c of None \<Rightarrow> '''' | Some s \<Rightarrow> gcs_Prefix s)
           | StorageTypeAzure \<Rightarrow> (case sg_Azure c of None \<Rightarrow> '''' | Some s \<Rightarrow> azs_Prefix s)
           | StorageTypePVC \<Rightarrow> (case sg_PVC c of None \<Rightarrow> '''' | Some s \<Rightarrow> pvcc_SubPath s)
           | StorageTypeOther _ \<Rightarrow> ''''))"

definition backup_path :: "(int \<Rightarrow> string) \<Rightarrow> BackupWriterConfig \<Rightarrow> Compressor \<Rightarrow> Encryptor \<Rightarrow> string" where
  "backup_path format cfg compressor encryptor =
     (let baseName = bwc_DatabaseName cfg @ ''-'' @ bwc_BackupName cfg @ ''-'' @ format (bwc_Timestamp cfg);
          path = baseName @ bwc_Extension cfg @ Compressor_Extension compressor @ Encryptor_Extension encryptor;
          pre = getStoragePrefix (bwc_StorageConfig cfg)
      in if pre \<noteq> '''' then pre @ ''/'' @ path else path)"

text \<open>Close the backend and return the error.\<close>

definition abandon :: "'w Backend \<Rightarrow> go_error \<Rightarrow> ('w, 'a) op" where
  "abandon backend e w = (fst (be_Close backend w), Inl e)"

definition NewBackupWriter :: "('w, 'k, 'z) archive_env \<Rightarrow> BackupWriterConfig \<Rightarrow> ('w, 'w BackupWriter) op" where
  "NewBackupWriter h cfg =
     check (NewBackend (ar_storage h) (bwc_StorageConfig cfg) (bwc_Namespace cfg)) (\<lambda>e w. Errorf_w ''failed to create storage backend: '' e) (\<lambda>backend.
     case NewCompressor (bwc_CompressionConfig cfg) of
       Inl e \<Rightarrow> abandon backend (Errorf_w ''failed to create compressor: '' e)
     | Inr compressor \<Rightarrow> (\<lambda>w.
         case NewEncryptor (sv_crypto (ar_storage h)) (sv_secrets (ar_storage h)) (bwc_EncryptionConfig cfg) (bwc_Namespace cfg) w of
           (w1, Inl e) \<Rightarrow> abandon backend (Errorf_w ''failed to create encryptor: '' e) w1
         | (w1, Inr encryptor) \<Rightarrow>
             (w1, Inr \<lparr>bw_backend = backend, bw_compressor = compressor, bw_encryptor = encryptor,
                       bw_path = backup_path (ar_Format h) cfg compressor encryptor, bw_buffer = []\<rparr>)))"

definition BackupWriter_Write :: "'w BackupWriter \<Rightarrow> bytes \<Rightarrow> 'w BackupWriter \<times> nat" where
  "BackupWriter_Write w p = (w\<lparr>bw_buffer := bw_buffer w @ p\<rparr>, length p)"

definition compressed :: "'z zlibs \<Rightarrow> Compressor \<Rightarrow> bytes \<Rightarrow> go_error + bytes" where
  "compressed zs compressor buffer =
     (case Compress zs compressor of
        Inl e \<Rightarrow> Inl (Errorf_w ''failed to create compression writer: '' e)
      | Inr compWriter \<Rightarrow>
          (case comp_Write zs compWriter buffer of
             (_, _, Some e) \<Rightarrow> Inl (Errorf_w ''failed to compress data: '' e)
           | (compWriter1, out, None) \<Rightarrow>
               (case comp_Close zs compWriter1 of
                  (_, Some e) \<Rightarrow> Inl (Errorf_w ''failed to close compression writer: '' e)
                | (out2, None) \<Rightarrow> Inr (out @ out2))))"

definition BackupWriter_Close :: "('w, 'k, 'z) archive_env \<Rightarrow> 'w BackupWriter \<Rightarrow> ('w, unit) op" where
  "BackupWriter_Close h w =
     (case compressed (ar_zlibs h) (bw_compressor w) (bw_buffer w) of
        Inl e \<Rightarrow> fail e
      | Inr compressedBuf \<Rightarrow>
          check (Encrypt (sv_crypto (ar_storage h)) (bw_encryptor w) compressedBuf) (\<lambda>e w. Errorf_w ''failed to encrypt data: '' e) (\<lambda>encryptedData.
          check (be_Write (bw_backend w) (bw_path w) encryptedData) (\<lambda>e w. Errorf_w ''failed to write to storage: '' e) ret))"

definition UncompressedSize :: "'w BackupWriter \<Rightarrow> int" where
  "UncompressedSize w = int (length (bw_buffer w))"

section \<open>Reading a backup\<close>

record RestoreReaderConfig =
  rrc_StorageConfig :: "StorageConfig option"
  rrc_CompressionConfig :: "CompressionConfig option"
  rrc_EncryptionConfig :: "EncryptionConfig option"
  rrc_Namespace :: string
  rrc_BackupPath :: string

record ('w, 'z) RestoreReader =
  rr_backend :: "'w Backend"
  rr_compressor :: Compressor
  rr_encryptor :: Encryptor
  rr_reader :: "'z CompReader"

definition NewRestoreReader :: "('w, 'k, 'z) archive_env \<Rightarrow> RestoreReaderConfig \<Rightarrow> ('w, ('w, 'z) RestoreReader) op" where
  "NewRestoreReader h cfg =
     check (NewBackend (ar_storage h) (rrc_StorageConfig cfg) (rrc_Namespace cfg)) (\<lambda>e w. Errorf_w ''failed to create storage backend: '' e) (\<lambda>backend.
     case NewCompressor (rrc_CompressionConfig cfg) of
       Inl e \<Rightarrow> abandon backend (Errorf_w ''failed to create compressor: '' e)
     | Inr compressor \<Rightarrow> (\<lambda>w.
         case NewEncryptor (sv_crypto (ar_storage h)) (sv_secrets (ar_storage h)) (rrc_EncryptionConfig cfg) (rrc_Namespace cfg) w of
           (w1, Inl e) \<Rightarrow> abandon backend (Errorf_w ''failed to create encryptor: '' e) w1
         | (w1, Inr encryptor) \<Rightarrow>
             (case be_Read backend (rrc_BackupPath cfg) w1 of
                (w2, Inl e) \<Rightarrow> abandon backend (Errorf_w ''failed to read from storage: '' e) w2
              | (w2, Inr storageReader) \<Rightarrow>
                  (case storageReader w2 of
                     (w3, Inl e) \<Rightarrow> abandon backend (Errorf_w ''failed to read encrypted data: '' e) w3
                   | (w3, Inr encryptedData) \<Rightarrow>
                       (case Decrypt encryptor encryptedData of
                          Inl e \<Rightarrow> abandon backend (Errorf_w ''failed to decrypt data: '' e) w3
                        | Inr compressedData \<Rightarrow>
                            (case Decompress (ar_zlibs h) compressor compressedData of
                               Inl e \<Rightarrow> abandon backend (Errorf_w ''failed to create decompression reader: '' e) w3
                             | Inr decompReader \<Rightarrow>
                                 (w3, Inr \<lparr>rr_backend = backend, rr_compressor = compressor, rr_encryptor = encryptor,
                                           rr_reader = decompReader\<rparr>)))))))"

definition RestoreReader_Read :: "'z zlibs \<Rightarrow> ('w, 'z) RestoreReader reader" where
  "RestoreReader_Read zs n r = wrap_read (\<lambda>reader. r\<lparr>rr_reader := reader\<rparr>) (comp_Read zs n (rr_reader r))"

definition RestoreReader_Close :: "'z zlibs \<Rightarrow> ('w, 'z) RestoreReader \<Rightarrow> ('w, unit) op" where
  "RestoreReader_Close zs r w =
     (case comp_CloseReader zs (rr_reader r) of
        Some e \<Rightarrow> abandon (rr_backend r) e w
      | None \<Rightarrow> be_Close (rr_backend r) w)"

definition with_backend :: "('w, 'k) storage_env \<Rightarrow> StorageConfig option \<Rightarrow> string \<Rightarrow> ('w Backend \<Rightarrow> ('w, 'a) op) \<Rightarrow> ('w, 'a) op" where
  "with_backend h cfg namespace f =
     check (NewBackend h cfg namespace) (\<lambda>e w. Errorf_w ''failed to create storage backend: '' e) (\<lambda>backend w.
       case f backend w of (w1, r) \<Rightarrow> (fst (be_Close backend w1), r))"

definition storage_DeleteBackup :: "('w, 'k) storage_env \<Rightarrow> StorageConfig option \<Rightarrow> string \<Rightarrow> string \<Rightarrow> ('w, unit) op" where
  "storage_DeleteBackup h cfg namespace path = with_backend h cfg namespace (\<lambda>backend. be_Delete backend path)"

definition GetBackupSize :: "('w, 'k) storage_env \<Rightarrow> StorageConfig option \<Rightarrow> string \<Rightarrow> string \<Rightarrow> ('w, int) op" where
  "GetBackupSize h cfg namespace path = with_backend h cfg namespace (\<lambda>backend. be_GetSize backend path)"

definition ListBackups :: "('w, 'k) storage_env \<Rightarrow> StorageConfig option \<Rightarrow> string \<Rightarrow> string \<Rightarrow> ('w, ObjectInfo list) op" where
  "ListBackups h cfg namespace pre = with_backend h cfg namespace (\<lambda>backend. be_List backend pre)"

section \<open>What is compressed can be read\<close>

text \<open>Reading through a wrapper of the state of a reader.\<close>

lemma ReadAll_wrap:
  assumes run: "ReadAll_from r room b s = Some y" and wrap: "\<And>n s. R n (f s) = wrap_read f (r n s)"
  shows "ReadAll_from R room b (f s) = Some (map_prod f id y)"
proof -
  define P where "P r room b s y \<longleftrightarrow> (\<forall>n s. R n (f s) = wrap_read f (r n s)) \<longrightarrow> ReadAll_from R room b (f s) = Some (map_prod f id y)" for r room b s y
  have "P r room b s y"
  proof (rule ReadAll_from.raw_induct [OF _ run])
    fix rec and r :: "'a reader" and room b s y
    assume IH: "\<And>r room b s y. rec r room b s = Some y \<Longrightarrow> P r room b s y"
      and body: "(case r (room (length b)) s of None \<Rightarrow> None | Some (s', p, err) \<Rightarrow>
        (case err of Some EOF \<Rightarrow> Some (s', Inr (b @ p)) | Some (IO_Error e) \<Rightarrow> Some (s', Inl e) | None \<Rightarrow> rec r room (b @ p) s')) = Some y"
    show "P r room b s y"
      unfolding P_def
    proof
      assume R: "\<forall>n s. R n (f s) = wrap_read f (r n s)"
      obtain s1 p err where step: "r (room (length b)) s = Some (s1, p, err)"
        using body by (cases "r (room (length b)) s") auto
      have "R (room (length b)) (f s) = Some (f s1, p, err)" using R step by (simp add: wrap_read_def)
      then show "ReadAll_from R room b (f s) = Some (map_prod f id y)"
        using body IH [of r room "b @ p" s1 y] R step unfolding P_def
        by (subst ReadAll_from.simps) (auto split: option.splits io_error.splits)
    qed
  qed
  then show ?thesis using wrap by (simp add: P_def)
qed

lemma ReadAll_wrapped:
  assumes "ReadAll r room s = Some (s', x)" "\<And>n s. R n (f s) = wrap_read f (r n s)"
  shows "ReadAll R room (f s) = Some (f s', x)"
  using ReadAll_wrap [OF assms(1) [unfolded ReadAll_def], of R f] assms(2) by (simp add: ReadAll_def)

text \<open>What goes through a library comes back, in a stream that can be read in pieces of any size.\<close>

definition reads_back :: "'s reader \<Rightarrow> 's \<Rightarrow> bytes \<Rightarrow> bool" where
  "reads_back r s p \<longleftrightarrow> (\<forall>room. (\<forall>n. 0 < room n) \<longrightarrow> (\<exists>s'. ReadAll r room s = Some (s', Inr p)))"

definition zlib_law :: "('l, 'z) zlib \<Rightarrow> bool" where
  "zlib_law z \<longleftrightarrow>
     (\<forall>l w p w1 o1 o2. zl_NewWriter z l = Inr w \<longrightarrow> zl_Write z w p = (w1, o1, None) \<longrightarrow> zl_Close z w1 = (o2, None) \<longrightarrow>
        (\<exists>r. zl_NewReader z (o1 @ o2) = Inr r \<and> reads_back (zl_Read z) r p))"

definition zlibs_law :: "'z zlibs \<Rightarrow> bool" where
  "zlibs_law zs \<longleftrightarrow> zlib_law (zs_gzip zs) \<and> zlib_law (zs_lz4 zs) \<and> zlib_law (zs_zstd zs)"

lemma reads_back_wrap:
  "reads_back r s p \<Longrightarrow> (\<And>n s. R n (f s) = wrap_read f (r n s)) \<Longrightarrow> reads_back R (f s) p"
  unfolding reads_back_def using ReadAll_wrapped [of r _ s _ "Inr p" R f] by blast

lemma map_prod_eq_iff: "map_prod f id x = (a, y) \<longleftrightarrow> (\<exists>z. x = (z, y) \<and> a = f z)"
  by (cases x) auto

lemma compressed_round_trip:
  assumes law: "zlibs_law zs" and run: "compressed zs c p = Inr b"
  shows "\<exists>r. Decompress zs c b = Inr r \<and> reads_back (comp_Read zs) r p"
proof (cases c)
  case NoopCompressor
  then have "b = p" using run by (simp add: compressed_def)
  moreover have "reads_back bytes_reader p p" by (simp add: reads_back_def ReadAll_bytes)
  then have "reads_back (comp_Read zs) (PlainReader p) p" by (rule reads_back_wrap) simp
  ultimately show ?thesis using NoopCompressor by simp
next
  case (GzipCompressor l)
  then obtain w w1 o1 o2 where w: "zl_NewWriter (zs_gzip zs) (gzip_level l) = Inr w" "zl_Write (zs_gzip zs) w p = (w1, o1, None)"
      "zl_Close (zs_gzip zs) w1 = (o2, None)" "b = o1 @ o2"
    using run by (auto simp: compressed_def map_sum_def map_prod_eq_iff split: sum.splits prod.splits option.splits)
  then obtain r where r: "zl_NewReader (zs_gzip zs) b = Inr r" "reads_back (zl_Read (zs_gzip zs)) r p"
    using law unfolding zlibs_law_def zlib_law_def by blast
  have "reads_back (comp_Read zs) (GzipReader r) p" using r(2) by (rule reads_back_wrap) simp
  then show ?thesis using r(1) GzipCompressor by simp
next
  case (Lz4Compressor l)
  then obtain w w1 o1 o2 where w: "zl_NewWriter (zs_lz4 zs) (lz4_level l) = Inr w" "zl_Write (zs_lz4 zs) w p = (w1, o1, None)"
      "zl_Close (zs_lz4 zs) w1 = (o2, None)" "b = o1 @ o2"
    using run by (auto simp: compressed_def map_sum_def map_prod_eq_iff split: sum.splits prod.splits option.splits)
  then obtain r where r: "zl_NewReader (zs_lz4 zs) b = Inr r" "reads_back (zl_Read (zs_lz4 zs)) r p"
    using law unfolding zlibs_law_def zlib_law_def by blast
  have "reads_back (comp_Read zs) (Lz4Reader r) p" using r(2) by (rule reads_back_wrap) simp
  then show ?thesis using r(1) Lz4Compressor by simp
next
  case (ZstdCompressor l)
  then obtain w w1 o1 o2 where w: "zl_NewWriter (zs_zstd zs) (zstd_level l) = Inr w" "zl_Write (zs_zstd zs) w p = (w1, o1, None)"
      "zl_Close (zs_zstd zs) w1 = (o2, None)" "b = o1 @ o2"
    using run by (auto simp: compressed_def map_sum_def map_prod_eq_iff split: sum.splits prod.splits option.splits)
  then obtain r where r: "zl_NewReader (zs_zstd zs) b = Inr r" "reads_back (zl_Read (zs_zstd zs)) r p"
    using law unfolding zlibs_law_def zlib_law_def by blast
  have "reads_back (comp_Read zs) (ZstdReader r) p" using r(2) by (rule reads_back_wrap) simp
  then show ?thesis using r(1) ZstdCompressor by simp
qed

section \<open>A backup can be restored\<close>

definition archive_laws :: "('w, 'k, 'z) archive_env \<Rightarrow> bool" where
  "archive_laws h \<longleftrightarrow> crypto_laws (sv_crypto (ar_storage h)) \<and> zlibs_law (ar_zlibs h)"

text \<open>Every backend that the configuration gives works on the same objects; making one changes none of them.\<close>

definition serves ::
  "('w, 'k) storage_env \<Rightarrow> StorageConfig option \<Rightarrow> string \<Rightarrow> ('w \<Rightarrow> string \<Rightarrow> bytes option) \<Rightarrow> (string \<Rightarrow> string) \<Rightarrow> bool" where
  "serves h cfg ns stored key \<longleftrightarrow>
     (\<forall>w w' be. NewBackend h cfg ns w = (w', Inr be) \<longrightarrow> stored w' = stored w \<and> object_store be stored key)"

lemma serves_pvc:
  assumes "os_laws (sv_os h) files" "sg_Type cfg = StorageTypePVC" "sg_PVC cfg = Some c" "NewPVCBackend c = Inr b"
  shows "serves h (Some cfg) ns files (fullPath b)"
  unfolding serves_def using assms pvc_store [OF assms(1), of b]
  by (auto simp: NewBackend_def from_config_def check_def)

lemma backup_buffer: "foldl (\<lambda>b p. fst (BackupWriter_Write b p)) w ps = w\<lparr>bw_buffer := bw_buffer w @ concat ps\<rparr>"
  by (induction ps arbitrary: w) (simp_all add: BackupWriter_Write_def)

lemma NewBackupWriter_cases:
  assumes "NewBackupWriter h cfg w = (w', Inr bw)"
  obtains w1 where "NewBackend (ar_storage h) (bwc_StorageConfig cfg) (bwc_Namespace cfg) w = (w1, Inr (bw_backend bw))"
    "NewCompressor (bwc_CompressionConfig cfg) = Inr (bw_compressor bw)"
    "NewEncryptor (sv_crypto (ar_storage h)) (sv_secrets (ar_storage h)) (bwc_EncryptionConfig cfg) (bwc_Namespace cfg) w1 = (w', Inr (bw_encryptor bw))"
    "bw_path bw = backup_path (ar_Format h) cfg (bw_compressor bw) (bw_encryptor bw)" "bw_buffer bw = []"
  using assms by (auto simp: NewBackupWriter_def check_def abandon_def split: prod.splits sum.splits)

lemma BackupWriter_Close_cases:
  assumes "BackupWriter_Close h bw w = (w', Inr ())"
  obtains z w1 c where "compressed (ar_zlibs h) (bw_compressor bw) (bw_buffer bw) = Inr z"
    "Encrypt (sv_crypto (ar_storage h)) (bw_encryptor bw) z w = (w1, Inr c)" "be_Write (bw_backend bw) (bw_path bw) c w1 = (w', Inr ())"
  using assms by (auto simp: BackupWriter_Close_def check_def split: prod.splits sum.splits)

definition restore_failures :: "string list" where
  "restore_failures = [''failed to create storage backend: '', ''failed to create encryptor: '', ''failed to read from storage: '',
     ''failed to read encrypted data: '']"

lemma restore_reader_steps:
  assumes comp: "NewCompressor (rrc_CompressionConfig cfg) = Inr c"
  obtains (failed) msg cause where "msg \<in> set restore_failures" "snd (NewRestoreReader h cfg w) = Inl (Errorf_w msg cause)"
  | (fetched) be u1 u2 u3 u4 e get bs where "NewBackend (ar_storage h) (rrc_StorageConfig cfg) (rrc_Namespace cfg) w = (u1, Inr be)"
    "NewEncryptor (sv_crypto (ar_storage h)) (sv_secrets (ar_storage h)) (rrc_EncryptionConfig cfg) (rrc_Namespace cfg) u1 = (u2, Inr e)"
    "be_Read be (rrc_BackupPath cfg) u2 = (u3, Inr get)" "get u3 = (u4, Inr bs)"
    "\<And>z r. Decrypt e bs = Inr z \<Longrightarrow> Decompress (ar_zlibs h) c z = Inr r \<Longrightarrow>
       snd (NewRestoreReader h cfg w) = Inr \<lparr>rr_backend = be, rr_compressor = c, rr_encryptor = e, rr_reader = r\<rparr>"
proof -
  note code = NewRestoreReader_def check_def abandon_def comp
  obtain u1 x1 where b: "NewBackend (ar_storage h) (rrc_StorageConfig cfg) (rrc_Namespace cfg) w = (u1, x1)" by (meson surj_pair)
  obtain u2 x2 where e: "NewEncryptor (sv_crypto (ar_storage h)) (sv_secrets (ar_storage h)) (rrc_EncryptionConfig cfg) (rrc_Namespace cfg) u1 = (u2, x2)"
    by (meson surj_pair)
  show thesis
  proof (cases "isl x1 \<or> isl x2")
    case True
    then show ?thesis using failed b e by (cases x1; cases x2) (auto simp: code restore_failures_def)
  next
    case False
    then obtain be e' where x: "x1 = Inr be" "x2 = Inr e'" by (cases x1; cases x2) auto
    obtain u3 x3 where rd: "be_Read be (rrc_BackupPath cfg) u2 = (u3, x3)" by (meson surj_pair)
    show ?thesis
    proof (cases "\<exists>get u4 bs. x3 = Inr get \<and> get u3 = (u4, Inr bs)")
      case True
      then show ?thesis using fetched b e rd x by (auto simp: code)
    next
      case unread: False
      show ?thesis
      proof (cases x3)
        case (Inl err)
        then show ?thesis using failed b e rd x by (auto simp: code restore_failures_def)
      next
        case (Inr get)
        obtain u4 x4 where g: "get u3 = (u4, x4)" by (meson surj_pair)
        then obtain err where "x4 = Inl err" using unread Inr by (cases x4) auto
        then show ?thesis using failed b e rd x Inr g by (auto simp: code restore_failures_def)
      qed
    qed
  qed
qed


section \<open>Examples\<close>

text \<open>A volume in memory, a cipher that appends its nonce, and libraries that reverse the data.\<close>

definition crypto_files :: "(string \<Rightarrow> bytes option) crypto" where
  "crypto_files = \<lparr>cy_NewCipher = (\<lambda>key. Inr block_x), cy_NewGCM = (\<lambda>b. Inr aead_x), cy_ReadFull = (\<lambda>n. ret (replicate n 7))\<rparr>"

definition secrets_files :: "(string \<Rightarrow> bytes option) secret_env" where
  "secrets_files =
     \<lparr>sk_Get = (\<lambda>_ _. ret key_secret_x), sk_Create = ret, sk_Update = ret, sk_Delete = (\<lambda>_. ret ()), sk_GetConfigMap = (\<lambda>_ _. fail ErrNotFound),
      sk_IsNotFound = (\<lambda>e. e = ErrNotFound), sk_Int = (\<lambda>n. ret 0), sk_Render = (\<lambda>_ t _. Inr t)\<rparr>"

definition rev_zlib :: "('l, bytes) zlib" where
  "rev_zlib = \<lparr>zl_NewWriter = (\<lambda>l. Inr []), zl_Write = (\<lambda>z p. (z @ p, [], None)), zl_Close = (\<lambda>z. (rev z, None)),
     zl_NewReader = (\<lambda>b. Inr (rev b)), zl_Read = bytes_reader, zl_CloseReader = (\<lambda>z. None)\<rparr>"

definition archive_x :: "(string \<Rightarrow> bytes option, unit, bytes) archive_env" where
  "archive_x =
     \<lparr>ar_storage = \<lparr>sv_os = mem_os, sv_secrets = secrets_files, sv_crypto = crypto_files, sv_connectS3 = (\<lambda>_ _ _. fail ErrNotFound),
        sv_connectGCS = (\<lambda>_. fail ErrNotFound), sv_credentialAzure = (\<lambda>_ _. Inl ErrNotFound), sv_connectAzure = (\<lambda>_ _. Inl ErrNotFound)\<rparr>,
      ar_zlibs = \<lparr>zs_gzip = rev_zlib, zs_lz4 = rev_zlib, zs_zstd = rev_zlib\<rparr>, ar_Format = FormatInt\<rparr>"

definition backup_config_x :: BackupWriterConfig where
  "backup_config_x =
     \<lparr>bwc_StorageConfig = Some \<lparr>sg_Type = StorageTypePVC, sg_GCS = None, sg_S3 = None, sg_Azure = None, sg_PVC = Some pvc_config_x\<rparr>,
      bwc_CompressionConfig = Some \<lparr>cc_Enabled = True, cc_Algorithm = CompressionZstd, cc_Level = 3\<rparr>,
      bwc_EncryptionConfig = Some encryption_config_x, bwc_Namespace = ''prod'', bwc_BackupName = ''nightly'', bwc_DatabaseName = ''app'',
      bwc_Timestamp = 0, bwc_Extension = ''.sql''\<rparr>"

lemma rev_zlib_law: "zlib_law rev_zlib"
proof -
  have "reads_back bytes_reader p p" for p by (simp add: reads_back_def ReadAll_bytes)
  then show ?thesis by (auto simp: zlib_law_def rev_zlib_def)
qed

lemma archive_x_laws: "archive_laws archive_x"
proof -
  have "aead_law aead_x" by (auto simp: aead_law_def aead_x_def)
  then have "crypto_laws crypto_files"
    using crypto_x_laws(2) by (auto simp: crypto_laws_def random_law_def crypto_files_def)
  then show ?thesis by (simp add: archive_laws_def archive_x_def zlibs_law_def rev_zlib_law)
qed

lemma encryptor_archive_x:
  "NewEncryptor (sv_crypto (ar_storage archive_x)) (sv_secrets (ar_storage archive_x)) (bwc_EncryptionConfig backup_config_x)
     (bwc_Namespace backup_config_x) w = (w, Inr (AESGCMEncryptor aead_x))"
  by (simp add: archive_x_def backup_config_x_def NewEncryptor_def encryption_config_x_def getEncryptionKey_def GetSecretData_def secrets_files_def
      key_secret_x_def check_def map_puts_def newAESGCMEncryptor_def crypto_files_def bytes_of_def)


end
