(* ===== verification/Engine_Jobs.thy ===== *)
theory Engine_Jobs
  imports Backup_Storage Instance_Access Bus_Events Recorded_Runs
begin

text \<open>
  Long operations on a database server: what the repositories of \<^verbatim>\<open>internal/features/backup\<close> and
  \<^verbatim>\<open>internal/features/restore\<close> share. Credentials are read and a connection is made under
  \<^verbatim>\<open>RetryWithBackoff\<close>, the adapter comes from \<^verbatim>\<open>internal/adapter/factory.go\<close>, and it is closed when the
  job has ended. The adapters, which run the tools of an engine, are parameters: an adapter that makes a
  backup answers with the pieces it has written to the writer before it returned.

  A job returns an option: \<open>None\<close> is a panic.
\<close>

section \<open>Options and results of the engines\<close>

record BackupOptions =
  bo_Database :: string
  bo_BackupID :: string
  bo_Method :: string
  bo_Format :: string
  bo_Jobs :: int
  bo_DataOnly :: bool
  bo_SchemaOnly :: bool
  bo_Blobs :: bool
  bo_NoOwner :: bool
  bo_NoPrivileges :: bool
  bo_Schemas :: "string list"
  bo_ExcludeSchemas :: "string list"
  bo_Tables :: "string list"
  bo_ExcludeTables :: "string list"
  bo_LockWaitTimeout :: string
  bo_SingleTransaction :: bool
  bo_Quick :: bool
  bo_LockTables :: bool
  bo_Routines :: bool
  bo_Triggers :: bool
  bo_Events :: bool
  bo_ExtendedInsert :: bool
  bo_SetGtidPurged :: string
  bo_Databases :: "string list"

record BackupResult =
  br_BackupID :: string
  br_Path :: string
  br_SizeBytes :: int
  br_CompressedSizeBytes :: int
  br_Checksum :: string
  br_Format :: string
  br_StartTime :: string
  br_EndTime :: string

record 'rd RestoreOptions =
  ro_Database :: string
  ro_RestoreID :: string
  ro_Reader :: 'rd
  ro_DropExisting :: bool
  ro_CreateDatabase :: bool
  ro_DataOnly :: bool
  ro_SchemaOnly :: bool
  ro_NoOwner :: bool
  ro_NoPrivileges :: bool
  ro_RoleMapping :: "string go_map"
  ro_Schemas :: "string list"
  ro_Tables :: "string list"
  ro_Jobs :: int
  ro_DisableTriggers :: bool
  ro_Analyze :: bool
  ro_Routines :: bool
  ro_Triggers :: bool
  ro_Events :: bool
  ro_DisableForeignKeyChecks :: bool
  ro_DisableBinlog :: bool

record RestoreResult =
  rsr_RestoreID :: string
  rsr_TargetDatabase :: string
  rsr_TablesRestored :: int
  rsr_StartTime :: string
  rsr_EndTime :: string
  rsr_Warnings :: "string list"

text \<open>The reader of a restore is a handle; what it still has to give is part of the world.\<close>

record ('w, 'rd) engine_adapter =
  ea_Connect :: "('w, unit) op"
  ea_Close :: "('w, unit) op"
  ea_Backup :: "BackupOptions \<Rightarrow> 'w \<Rightarrow> 'w \<times> bytes list \<times> (go_error + BackupResult)"
  ea_Restore :: "'rd RestoreOptions \<Rightarrow> ('w, RestoreResult) op"

record ('w, 'rd) engines =
  en_postgres :: "ConnectionConfig \<Rightarrow> ('w, 'rd) engine_adapter"
  en_mysql :: "ConnectionConfig \<Rightarrow> ('w, 'rd) engine_adapter"
  en_cockroachdb :: "ConnectionConfig \<Rightarrow> ('w, 'rd) engine_adapter"
  en_clickhouse :: "ConnectionConfig \<Rightarrow> ('w, 'rd) engine_adapter"

definition NewAdapter :: "('w, 'rd) engines \<Rightarrow> EngineType \<Rightarrow> ConnectionConfig \<Rightarrow> go_error + ('w, 'rd) engine_adapter" where
  "NewAdapter en engine config =
     (if engine = EngineTypePostgres then Inr (en_postgres en config)
      else if engine = EngineTypeMySQL \<or> engine = EngineTypeMariaDB then Inr (en_mysql en config)
      else if engine = EngineTypeCockroachDB then Inr (en_cockroachdb en config)
      else if engine = EngineTypeClickHouse then Inr (en_clickhouse en config)
      else Inl (OtherError (''unsupported engine type: '' @ engine) None))"

definition empty_ConnectionConfig :: ConnectionConfig where
  "empty_ConnectionConfig =
     \<lparr>cc_Host = '''', cc_Port = 0, cc_Database = '''', cc_Username = '''', cc_Password = '''', cc_TLSEnabled = False, cc_TLSMode = '''',
      cc_TLSCA = '''', cc_TLSCert = '''', cc_TLSKey = '''', cc_SSLMode = '''', cc_ConnectTimeout = 0, cc_StatementTimeout = '''',
      cc_ApplicationName = '''', cc_Charset = '''', cc_Collation = '''', cc_ParseTime = False, cc_Timeout = '''', cc_ReadTimeout = '''',
      cc_WriteTimeout = ''''\<rparr>"

definition spec_tls :: "DatabaseInstanceSpec \<Rightarrow> bool" where
  "spec_tls spec \<longleftrightarrow> (case dis_TLS spec of None \<Rightarrow> False | Some t \<Rightarrow> tls_Enabled t)"

definition BuildConnectionConfig ::
  "DatabaseInstanceSpec \<Rightarrow> string \<Rightarrow> string \<Rightarrow> string \<Rightarrow> string \<Rightarrow> string \<Rightarrow> ConnectionConfig" where
  "BuildConnectionConfig spec username password tlsCA tlsCert tlsKey =
     (let c = empty_ConnectionConfig\<lparr>cc_Host := dis_Host spec, cc_Port := dis_Port spec, cc_Database := dis_Database spec,
                cc_Username := username, cc_Password := password\<rparr>;
          c = (case dis_TLS spec of None \<Rightarrow> c | Some t \<Rightarrow>
                 if tls_Enabled t
                 then c\<lparr>cc_TLSEnabled := True, cc_TLSMode := tls_Mode t, cc_TLSCA := tlsCA, cc_TLSCert := tlsCert, cc_TLSKey := tlsKey\<rparr>
                 else c);
          c = (case dis_Postgres spec of None \<Rightarrow> c | Some p \<Rightarrow>
                 c\<lparr>cc_SSLMode := pic_SSLMode p, cc_ConnectTimeout := pic_ConnectTimeout p,
                   cc_StatementTimeout := pic_StatementTimeout p, cc_ApplicationName := pic_ApplicationName p\<rparr>)
      in case dis_MySQL spec of None \<Rightarrow> c | Some m \<Rightarrow>
           c\<lparr>cc_Charset := mic_Charset m, cc_Collation := mic_Collation m, cc_ParseTime := mic_ParseTime m,
             cc_Timeout := mic_Timeout m, cc_ReadTimeout := mic_ReadTimeout m, cc_WriteTimeout := mic_WriteTimeout m\<rparr>)"

section \<open>Operations under retry\<close>

text \<open>
  The waiting, which the context can interrupt, the random source and the clock of \<^verbatim>\<open>RetryWithBackoff\<close>,
  and its floating-point arithmetic. The function under retry stores its result in a variable of its
  caller, \<open>None\<close> as long as that is a nil pointer.
\<close>

record 'w timer =
  tm_wait :: "duration \<Rightarrow> 'w \<Rightarrow> 'w \<times> go_error option"
  tm_rand :: "'w \<Rightarrow> 'w \<times> rat"
  tm_now :: "'w \<Rightarrow> int"
  tm_floats :: float_ops

definition attempt_env :: "'w timer \<Rightarrow> ('w, 'a) op \<Rightarrow> ('w \<times> 'a option) retry_env" where
  "attempt_env T m =
     \<lparr>re_fn = (\<lambda>(w, _). case m w of (w', Inl e) \<Rightarrow> ((w', None), Some e) | (w', Inr x) \<Rightarrow> ((w', Some x), None)),
      re_wait = (\<lambda>d (w, x). case tm_wait T d w of (w', e) \<Rightarrow> ((w', x), e)),
      re_rand = (\<lambda>(w, x). case tm_rand T w of (w', r) \<Rightarrow> ((w', x), r)),
      re_now = (\<lambda>(w, x). tm_now T w)\<rparr>"

definition retried :: "'w timer \<Rightarrow> RetryConfig \<Rightarrow> ('w, 'a) op \<Rightarrow> 'w \<Rightarrow> 'w \<times> RetryResult \<times> 'a option" where
  "retried T cfg m w = (case RetryWithBackoff (tm_floats T) (attempt_env T m) cfg (w, None) of ((w', x), r) \<Rightarrow> (w', r, x))"

type_synonym ('w, 'a) job = "'w \<Rightarrow> ('w \<times> (go_error + 'a)) option"

definition then_do :: "('w, 'a) op \<Rightarrow> string \<Rightarrow> ('a \<Rightarrow> ('w, 'b) job) \<Rightarrow> ('w, 'b) job" where
  "then_do m msg k w = (case m w of (w', Inl e) \<Rightarrow> Some (w', Inl (Errorf_w msg e)) | (w', Inr x) \<Rightarrow> k x w')"

definition retry_job :: "'w timer \<Rightarrow> RetryConfig \<Rightarrow> ('w, 'a) op \<Rightarrow> (int \<Rightarrow> string) \<Rightarrow> ('a \<Rightarrow> ('w, 'b) job) \<Rightarrow> ('w, 'b) job" where
  "retry_job T cfg m msg k w =
     (case retried T cfg m w of
        (w', r, x) \<Rightarrow>
          (case LastError r of
             Some e \<Rightarrow> Some (w', Inl (Errorf_w (msg (Attempts r)) e))
           | None \<Rightarrow> (case x of None \<Rightarrow> None | Some y \<Rightarrow> k y w')))"

section \<open>A session on a server\<close>

text \<open>The two repositories word their errors differently.\<close>

record session_errors =
  se_credentials :: "int \<Rightarrow> string"
  se_tls :: "int \<Rightarrow> string"
  se_adapter :: "EngineType \<Rightarrow> string"
  se_connect :: "int \<Rightarrow> string"

record ('w, 'rd) engine_env =
  ee_secrets :: "'w secret_env"
  ee_timer :: "'w timer"
  ee_engines :: "('w, 'rd) engines"

definition tls_job ::
  "('w, 'rd) engine_env \<Rightarrow> session_errors \<Rightarrow> DatabaseInstanceSpec \<Rightarrow> string \<Rightarrow> (string \<Rightarrow> string \<Rightarrow> string \<Rightarrow> ('w, 'b) job) \<Rightarrow> ('w, 'b) job" where
  "tls_job h es spec ns k =
     (if spec_tls spec then
        retry_job (ee_timer h) ConnectionRetryConfig (GetTLSCredentials (ee_secrets h) ns (dis_TLS spec)) (se_tls es)
          (\<lambda>t w. case t of None \<Rightarrow> None | Some c \<Rightarrow> k (tc_CA c) (tc_Cert c) (tc_Key c) w)
      else k '''' '''' '''')"

definition closing :: "('w, 'rd) engine_adapter \<Rightarrow> ('w, 'a) job \<Rightarrow> ('w, 'a) job" where
  "closing a m w = map_option (\<lambda>(w', r). (fst (ea_Close a w'), r)) (m w)"

definition engine_session ::
  "('w, 'rd) engine_env \<Rightarrow> session_errors \<Rightarrow> DatabaseInstanceSpec \<Rightarrow> string \<Rightarrow> (('w, 'rd) engine_adapter \<Rightarrow> ('w, 'a) job) \<Rightarrow> ('w, 'a) job" where
  "engine_session h es spec ns run =
     retry_job (ee_timer h) ConnectionRetryConfig (GetCredentials (ee_secrets h) ns (dis_SecretRef spec)) (se_credentials es) (\<lambda>creds.
     tls_job h es spec ns (\<lambda>tlsCA tlsCert tlsKey.
       case NewAdapter (ee_engines h) (dis_Engine spec) (BuildConnectionConfig spec (cr_Username creds) (cr_Password creds) tlsCA tlsCert tlsKey) of
         Inl e \<Rightarrow> (\<lambda>w. Some (w, Inl (Errorf_w (se_adapter es (dis_Engine spec)) e)))
       | Inr a \<Rightarrow> closing a (retry_job (ee_timer h) ConnectionRetryConfig (ea_Connect a) (se_connect es) (\<lambda>_. run a))))"

section \<open>Objects the jobs read\<close>

record DatabaseReference =
  dref_Name :: string
  dref_Namespace :: string

text \<open>What the features read of a \<^verbatim>\<open>Database\<close>.\<close>

record Database_Resource =
  dbr_meta :: object_meta
  dbr_Name :: string
  dbr_InstanceRef :: "InstanceReference option"
  dbr_ClusterInstanceRef :: "ClusterInstanceReference option"
  dbr_Phase :: Phase

text \<open>Publishing on the optional bus does not wait.\<close>

definition publish_on :: "(BusEvent \<Rightarrow> 'w \<Rightarrow> 'w) option \<Rightarrow> ('w \<Rightarrow> int) \<Rightarrow> (int \<Rightarrow> BusEvent) \<Rightarrow> 'w \<Rightarrow> 'w" where
  "publish_on bus now event w = (case bus of None \<Rightarrow> w | Some b \<Rightarrow> b (event (now w)) w)"

primrec storage_type_text :: "StorageType \<Rightarrow> string" where
  "storage_type_text StorageTypeGCS = ''gcs''"
| "storage_type_text StorageTypeS3 = ''s3''"
| "storage_type_text StorageTypeAzure = ''azure''"
| "storage_type_text StorageTypePVC = ''pvc''"
| "storage_type_text (StorageTypeOther s) = s"

section \<open>What a retried operation has done\<close>

lemma attempt_env_simps [simp]:
  "re_fn (attempt_env T m) (w, x) = (case m w of (w', Inl e) \<Rightarrow> ((w', None), Some e) | (w', Inr y) \<Rightarrow> ((w', Some y), None))"
  "re_wait (attempt_env T m) d (w, x) = (case tm_wait T d w of (w', e) \<Rightarrow> ((w', x), e))"
  "re_rand (attempt_env T m) (w, x) = (case tm_rand T w of (w', r) \<Rightarrow> ((w', x), r))"
  by (simp_all add: attempt_env_def)

text \<open>
  An invariant that counts the attempts: kept by waiting and random numbers, advanced by a failed attempt.
\<close>

definition attempt_invariant :: "'w timer \<Rightarrow> ('w, 'a) op \<Rightarrow> (nat \<Rightarrow> 'w \<Rightarrow> bool) \<Rightarrow> bool" where
  "attempt_invariant T m I \<longleftrightarrow>
     (\<forall>k d v. I k v \<longrightarrow> I k (fst (tm_wait T d v))) \<and> (\<forall>k v. I k v \<longrightarrow> I k (fst (tm_rand T v))) \<and>
     (\<forall>k v v' e. I k v \<longrightarrow> m v = (v', Inl e) \<longrightarrow> I (Suc k) v')"

lemma invariant_pause:
  "attempt_invariant T m I \<Longrightarrow> I k (fst wx) \<Longrightarrow> pause (attempt_env T m) d wx = (wx', e) \<Longrightarrow> I k (fst wx')"
  unfolding attempt_invariant_def pause_def
  by (cases wx) (auto split: if_splits prod.splits, metis fst_conv)

lemma invariant_next:
  "attempt_invariant T m I \<Longrightarrow> I k (fst wx) \<Longrightarrow> next_interval F (attempt_env T m) cfg a i wx = (wx', j) \<Longrightarrow> I k (fst wx')"
  unfolding attempt_invariant_def next_interval_def
  by (cases wx) (auto simp: Let_def split: if_splits prod.splits, metis fst_conv)

lemma retry_from_success:
  assumes "attempt_invariant T m I" "I k (fst wx)" "lastErr \<noteq> None \<or> 0 < n"
    and "retry_from F (attempt_env T m) cfg start n attempt interval lastErr wx = (wx', r)" "LastError r = None"
  shows "\<exists>j v y. j < k + n \<and> I j v \<and> m v = (fst wx', Inr y) \<and> snd wx' = Some y"
  using assms
proof (induction n arbitrary: k attempt interval lastErr wx)
  case 0
  then show ?case by auto
next
  case (Suc n)
  from Suc.prems(4) show ?case
  proof (cases rule: retry_step)
    case (cancelled e)
    then show ?thesis using Suc.prems(5) by simp
  next
    case (stopped w1 err)
    have "I k (fst w1)" by (rule invariant_pause [OF Suc.prems(1,2) stopped(1)])
    moreover obtain y where "m (fst w1) = (fst wx', Inr y)" "snd wx' = Some y"
      using stopped(2,4) Suc.prems(5) by (cases w1) (auto split: prod.splits sum.splits)
    ultimately show ?thesis by (intro exI [of _ k]) auto
  next
    case (again w1 w2 w3 err i)
    have "I k (fst w1)" by (rule invariant_pause [OF Suc.prems(1,2) again(1)])
    then have "I (Suc k) (fst w2)"
      using Suc.prems(1) again(2) unfolding attempt_invariant_def by (cases w1) (force split: prod.splits sum.splits)
    then have "I (Suc k) (fst w3)" by (rule invariant_next [OF Suc.prems(1) _ again(4)])
    then show ?thesis using Suc.IH [OF Suc.prems(1) _ _ again(5) Suc.prems(5)] by force
  qed
qed

lemma retried_success:
  assumes inv: "attempt_invariant T m I" "I 0 w" and run: "retried T cfg m w = (w', r, x)" and ok: "LastError r = None"
    and cfg: "0 \<le> MaxRetries cfg" "MaxRetries cfg < 2 ^ 63 - 1"
  shows "\<exists>j v y. int j \<le> MaxRetries cfg \<and> I j v \<and> m v = (w', Inr y) \<and> x = Some y"
proof -
  have n: "max_attempts cfg = MaxRetries cfg + 1" using cfg by (simp add: max_attempts_def wrap64_def)
  obtain wx' where rf: "RetryWithBackoff (tm_floats T) (attempt_env T m) cfg (w, None) = (wx', r)" "w' = fst wx'" "x = snd wx'"
    using run by (auto simp: retried_def split: prod.splits)
  have pos: "I 0 (fst (w, None :: 'b option))" "(None :: go_error option) \<noteq> None \<or> 0 < nat (max_attempts cfg)" using inv(2) n cfg by simp_all
  obtain j v y where j: "j < 0 + nat (max_attempts cfg)" "I j v" "m v = (fst wx', Inr y)" "snd wx' = Some y"
    using retry_from_success [OF inv(1) pos rf(1) [unfolded RetryWithBackoff_def] ok] by blast
  have "int j \<le> MaxRetries cfg" using j(1) unfolding n by linarith
  then show ?thesis using j(2-4) unfolding rf(2,3) by blast
qed

lemma retry_configs: "MaxRetries ConnectionRetryConfig = 3" "MaxRetries BackupRetryConfig = 2"
  by (simp_all add: ConnectionRetryConfig_def BackupRetryConfig_def)

lemma retry_job_success:
  assumes "retry_job T cfg m msg k w = Some (w', Inr z)" "attempt_invariant T m I" "I 0 w"
    and "0 \<le> MaxRetries cfg" "MaxRetries cfg < 2 ^ 63 - 1"
  obtains j v y w1 where "int j \<le> MaxRetries cfg" "I j v" "m v = (w1, Inr y)" "k y w1 = Some (w', Inr z)"
proof -
  obtain w1 r x where run: "retried T cfg m w = (w1, r, x)" by (cases "retried T cfg m w") auto
  have ok: "LastError r = None" using assms(1) run by (auto simp: retry_job_def split: option.splits)
  obtain j v y where "int j \<le> MaxRetries cfg" "I j v" "m v = (w1, Inr y)" "x = Some y"
    using retried_success [OF assms(2,3) run ok assms(4,5)] by blast
  then show ?thesis using that assms(1) run ok by (simp add: retry_job_def)
qed

lemma attempt_invariant_True: "attempt_invariant T m (\<lambda>_ _. True)"
  by (simp add: attempt_invariant_def)

lemmas retry_job_runs = retry_job_success [OF _ attempt_invariant_True]

lemma connection_job_success:
  assumes "retry_job T ConnectionRetryConfig m msg k w = Some (w', Inr z)"
  obtains y w1 where "k y w1 = Some (w', Inr z)"
  by (rule retry_job_runs [OF assms]) (simp_all add: retry_configs that)

text \<open>A session that succeeds has run the job on an open adapter and closed it.\<close>

lemma engine_session_success:
  assumes "engine_session h es spec ns run w = Some (w', Inr z)"
  obtains a v v' where "run a v = Some (v', Inr z)" "w' = fst (ea_Close a v')"
proof -
  obtain creds :: Credentials and w1 where 1: "tls_job h es spec ns (\<lambda>tlsCA tlsCert tlsKey.
       case NewAdapter (ee_engines h) (dis_Engine spec) (BuildConnectionConfig spec (cr_Username creds) (cr_Password creds) tlsCA tlsCert tlsKey) of
         Inl e \<Rightarrow> (\<lambda>w. Some (w, Inl (Errorf_w (se_adapter es (dis_Engine spec)) e)))
       | Inr a \<Rightarrow> closing a (retry_job (ee_timer h) ConnectionRetryConfig (ea_Connect a) (se_connect es) (\<lambda>_. run a))) w1 = Some (w', Inr z)"
    using assms unfolding engine_session_def by (rule connection_job_success) (rule that)
  obtain ca cert key w2 where 2: "(case NewAdapter (ee_engines h) (dis_Engine spec) (BuildConnectionConfig spec (cr_Username creds) (cr_Password creds) ca cert key) of
         Inl e \<Rightarrow> (\<lambda>w. Some (w, Inl (Errorf_w (se_adapter es (dis_Engine spec)) e)))
       | Inr a \<Rightarrow> closing a (retry_job (ee_timer h) ConnectionRetryConfig (ea_Connect a) (se_connect es) (\<lambda>_. run a))) w2 = Some (w', Inr z)"
  proof (cases "spec_tls spec")
    case True
    show ?thesis
      by (rule connection_job_success [OF 1 [unfolded tls_job_def if_P [OF True]]]) (auto intro: that split: option.splits)
  next
    case False
    then show ?thesis using 1 that by (simp add: tls_job_def)
  qed
  then obtain a where a: "closing a (retry_job (ee_timer h) ConnectionRetryConfig (ea_Connect a) (se_connect es) (\<lambda>_. run a)) w2 = Some (w', Inr z)"
    by (cases "NewAdapter (ee_engines h) (dis_Engine spec) (BuildConnectionConfig spec (cr_Username creds) (cr_Password creds) ca cert key)") auto
  then obtain v' where v': "retry_job (ee_timer h) ConnectionRetryConfig (ea_Connect a) (se_connect es) (\<lambda>_. run a) w2 = Some (v', Inr z)" "w' = fst (ea_Close a v')"
    by (auto simp: closing_def)
  obtain v where "run a v = Some (v', Inr z)" using v'(1) by (rule connection_job_success) (rule that)
  then show ?thesis using that v'(2) by blast
qed

lemma retry_job_first:
  assumes "m w = (w', Inr y)" "0 \<le> MaxRetries cfg" "MaxRetries cfg < 2 ^ 63 - 1"
  shows "retry_job T cfg m msg k w = k y w'"
proof -
  have "max_attempts cfg = MaxRetries cfg + 1" using assms(2,3) by (simp add: max_attempts_def wrap64_def)
  then obtain n where n: "nat (max_attempts cfg) = Suc n" using assms(2) by (metis Suc_nat_eq_nat_zadd1 add.commute)
  have "retried T cfg m w = (w', r, Some y) \<Longrightarrow> LastError r = None \<Longrightarrow> retry_job T cfg m msg k w = k y w'" for r
    by (simp add: retry_job_def)
  moreover have "\<exists>r. retried T cfg m w = (w', r, Some y) \<and> LastError r = None"
    by (simp add: retried_def RetryWithBackoff_def n pause_def assms(1))
  ultimately show ?thesis by blast
qed

lemma retry_job_second:
  assumes fails: "m w = (w1, Inl e)" "IsRetryableError (Some e)" and then_ok: "m w1 = (w', Inr y)" and cfg: "0 < MaxRetries cfg" "MaxRetries cfg < 2 ^ 63 - 1"
    and calm: "\<And>d v. tm_wait T d v = (v, None)" "\<And>v. fst (tm_rand T v) = v"
  shows "retry_job T cfg m msg k w = k y w'"
proof -
  have "max_attempts cfg = MaxRetries cfg + 1" using cfg by (simp add: max_attempts_def wrap64_def)
  then obtain n where n: "nat (max_attempts cfg) = Suc (Suc n)" using cfg(1)
    by (metis Suc_nat_eq_nat_zadd1 add.commute gr0_implies_Suc int_one_le_iff_zero_less nat_0_iff not_less zero_less_nat_eq order.strict_implies_order)
  obtain q where "tm_rand T w1 = (w1, q)" using calm(2) [of w1] by (cases "tm_rand T w1") simp
  then have "\<exists>i. next_interval (tm_floats T) (attempt_env T m) cfg 0 0 (w1, None) = ((w1, None), i)" by (simp add: next_interval_def Let_def)
  then obtain i where i: "next_interval (tm_floats T) (attempt_env T m) cfg 0 0 (w1, None) = ((w1, None), i)" by blast
  have p: "pause (attempt_env T m) d (v, x) = ((v, x), None)" for d v x by (simp add: pause_def calm(1))
  have "\<exists>r. retried T cfg m w = (w', r, Some y) \<and> LastError r = None"
    using fails(2) by (simp add: retried_def RetryWithBackoff_def n p fails(1) then_ok i)
  then show ?thesis by (auto simp: retry_job_def)
qed

end
