(* ===== verification/Backup_Feature.thy ===== *)
theory Backup_Feature
  imports Engine_Jobs
begin

text \<open>
  Backups: the resource (\<^verbatim>\<open>api/v1alpha1/databasebackup_types.go\<close> and the backup types of
  \<^verbatim>\<open>postgres_types.go\<close> and \<^verbatim>\<open>mysql_types.go\<close>) and
  \<^verbatim>\<open>repository.go\<close>, \<^verbatim>\<open>handler.go\<close> and \<^verbatim>\<open>controller.go\<close> of
  \<^verbatim>\<open>internal/features/backup\<close>. The handler sees the repository through the interface of
  \<^verbatim>\<open>api.go\<close>, the record \<open>backup_repo\<close>, and is modelled on calls that return. Metrics and logs are
  left out.
\<close>

section \<open>The resource\<close>

record PostgresBackupConfig =
  pbc_Method :: string
  pbc_Format :: string
  pbc_Jobs :: int
  pbc_DataOnly :: bool
  pbc_SchemaOnly :: bool
  pbc_Blobs :: bool
  pbc_NoOwner :: bool
  pbc_NoPrivileges :: bool
  pbc_Schemas :: "string list"
  pbc_ExcludeSchemas :: "string list"
  pbc_Tables :: "string list"
  pbc_ExcludeTables :: "string list"
  pbc_LockWaitTimeout :: string
  pbc_NoSync :: bool

record MySQLBackupConfig =
  mbc_Method :: string
  mbc_SingleTransaction :: bool
  mbc_Quick :: bool
  mbc_LockTables :: bool
  mbc_Routines :: bool
  mbc_Triggers :: bool
  mbc_Events :: bool
  mbc_ExtendedInsert :: bool
  mbc_SetGtidPurged :: string
  mbc_Databases :: "string list"
  mbc_Tables :: "string list"
  mbc_ExcludeTables :: "string list"

record DatabaseBackupSpec =
  bks_DatabaseRef :: DatabaseReference
  bks_Storage :: StorageConfig
  bks_Compression :: "CompressionConfig option"
  bks_Encryption :: "EncryptionConfig option"
  bks_TTL :: string
  bks_ActiveDeadlineSeconds :: int
  bks_Postgres :: "PostgresBackupConfig option"
  bks_MySQL :: "MySQLBackupConfig option"

record BackupFile =
  bkf_Path :: string
  bkf_SizeBytes :: int
  bkf_CompressedSizeBytes :: int
  bkf_Checksum :: string
  bkf_Format :: string

record BackupSourceInfo =
  bsi_Instance :: string
  bsi_Database :: string
  bsi_Engine :: string
  bsi_Version :: string
  bsi_Timestamp :: "int option"

record DatabaseBackupStatus =
  bkt_Phase :: Phase
  bkt_StartedAt :: "int option"
  bkt_CompletedAt :: "int option"
  bkt_Message :: string
  bkt_Backup :: "BackupFile option"
  bkt_Source :: "BackupSourceInfo option"
  bkt_ExpiresAt :: "int option"
  bkt_Conditions :: "Condition list"

record Backup_Resource =
  bkr_meta :: object_meta
  bkr_Spec :: DatabaseBackupSpec
  bkr_Status :: DatabaseBackupStatus

abbreviation bkr_name :: "Backup_Resource \<Rightarrow> string" where "bkr_name b \<equiv> om_name (bkr_meta b)"
abbreviation bkr_ns :: "Backup_Resource \<Rightarrow> string" where "bkr_ns b \<equiv> om_namespace (bkr_meta b)"

section \<open>The repository\<close>

record BackupExecutionResult =
  ber_Path :: string
  ber_SizeBytes :: int
  ber_CompressedSizeBytes :: int
  ber_Checksum :: string
  ber_Format :: string
  ber_Duration :: duration
  ber_Instance :: string
  ber_Database :: string
  ber_Engine :: string
  ber_Version :: string

text \<open>All parts use the same secrets and the same clock; \<open>bx_Database\<close> is the read of a \<^verbatim>\<open>Database\<close>.\<close>

record ('w, 'k, 'z, 'rd) backup_env =
  bx_engine :: "('w, 'rd) engine_env"
  bx_archive :: "('w, 'k, 'z) archive_env"
  bx_access :: "'w access"
  bx_Database :: "string \<Rightarrow> string \<Rightarrow> ('w, Database_Resource) op"

definition backup_GetDatabase :: "('w, 'k, 'z, 'rd) backup_env \<Rightarrow> Backup_Resource \<Rightarrow> ('w, Database_Resource) op" where
  "backup_GetDatabase h backup =
     (let ref = bks_DatabaseRef (bkr_Spec backup)
      in bx_Database h (or_default (dref_Namespace ref) (bkr_ns backup)) (dref_Name ref))"

definition backup_GetInstance :: "('w, 'k, 'z, 'rd) backup_env \<Rightarrow> Database_Resource \<Rightarrow> ('w, DatabaseInstance) op" where
  "backup_GetInstance h database =
     (case dbr_InstanceRef database of
        None \<Rightarrow> fail (OtherError ''database uses clusterInstanceRef, use ResolveInstanceForDatabase instead'' None)
      | Some ref \<Rightarrow> ac_Instance (bx_access h) (or_default (ir_Namespace ref) (om_namespace (dbr_meta database))) (ir_Name ref))"

definition ResolveInstanceForDatabase :: "('w, 'k, 'z, 'rd) backup_env \<Rightarrow> Database_Resource \<Rightarrow> ('w, ResolvedInstance) op" where
  "ResolveInstanceForDatabase h database =
     Resolve (bx_access h) (dbr_InstanceRef database) (dbr_ClusterInstanceRef database) (om_namespace (dbr_meta database))"

definition backup_GetEngine :: "('w, 'k, 'z, 'rd) backup_env \<Rightarrow> Backup_Resource \<Rightarrow> ('w, string) op" where
  "backup_GetEngine h backup =
     check (backup_GetDatabase h backup) as_is (\<lambda>database.
     check (ResolveInstanceForDatabase h database) as_is (\<lambda>resolved. ret (ri_Engine resolved)))"

definition getBackupExtension :: "EngineType \<Rightarrow> Backup_Resource \<Rightarrow> string" where
  "getBackupExtension engine backup =
     (if engine = EngineTypePostgres then
        (case bks_Postgres (bkr_Spec backup) of
           None \<Rightarrow> ''.dump''
         | Some p \<Rightarrow>
             if pbc_Format p = ''plain'' then ''.sql'' else if pbc_Format p = ''custom'' then ''.dump''
             else if pbc_Format p = ''directory'' then ''.dir'' else if pbc_Format p = ''tar'' then ''.tar'' else ''.dump'')
      else if engine = EngineTypeMySQL then ''.sql'' else ''.bak'')"

definition empty_BackupOptions :: BackupOptions where
  "empty_BackupOptions =
     \<lparr>bo_Database = '''', bo_BackupID = '''', bo_Method = '''', bo_Format = '''', bo_Jobs = 0, bo_DataOnly = False, bo_SchemaOnly = False,
      bo_Blobs = False, bo_NoOwner = False, bo_NoPrivileges = False, bo_Schemas = [], bo_ExcludeSchemas = [], bo_Tables = [],
      bo_ExcludeTables = [], bo_LockWaitTimeout = '''', bo_SingleTransaction = False, bo_Quick = False, bo_LockTables = False,
      bo_Routines = False, bo_Triggers = False, bo_Events = False, bo_ExtendedInsert = False, bo_SetGtidPurged = '''', bo_Databases = []\<rparr>"

definition buildBackupOptions :: "Backup_Resource \<Rightarrow> Database_Resource \<Rightarrow> EngineType \<Rightarrow> BackupOptions" where
  "buildBackupOptions backup database engine =
     (let opts = empty_BackupOptions\<lparr>bo_Database := dbr_Name database, bo_BackupID := om_uid (bkr_meta backup)\<rparr>
      in if engine = EngineTypePostgres then
           (case bks_Postgres (bkr_Spec backup) of
              Some p \<Rightarrow>
                opts\<lparr>bo_Method := pbc_Method p, bo_Format := pbc_Format p, bo_Jobs := pbc_Jobs p, bo_DataOnly := pbc_DataOnly p,
                  bo_SchemaOnly := pbc_SchemaOnly p, bo_Blobs := pbc_Blobs p, bo_NoOwner := pbc_NoOwner p,
                  bo_NoPrivileges := pbc_NoPrivileges p, bo_Schemas := pbc_Schemas p, bo_ExcludeSchemas := pbc_ExcludeSchemas p,
                  bo_Tables := pbc_Tables p, bo_ExcludeTables := pbc_ExcludeTables p, bo_LockWaitTimeout := pbc_LockWaitTimeout p\<rparr>
            | None \<Rightarrow> opts\<lparr>bo_Method := ''pg_dump'', bo_Format := ''custom'', bo_Jobs := 1, bo_Blobs := True\<rparr>)
         else if engine = EngineTypeMySQL then
           (case bks_MySQL (bkr_Spec backup) of
              Some m \<Rightarrow>
                opts\<lparr>bo_SingleTransaction := mbc_SingleTransaction m, bo_Quick := mbc_Quick m, bo_LockTables := mbc_LockTables m,
                  bo_Routines := mbc_Routines m, bo_Triggers := mbc_Triggers m, bo_Events := mbc_Events m,
                  bo_ExtendedInsert := mbc_ExtendedInsert m, bo_SetGtidPurged := mbc_SetGtidPurged m\<rparr>
            | None \<Rightarrow> opts\<lparr>bo_SingleTransaction := True, bo_Quick := True, bo_Routines := True, bo_Triggers := True\<rparr>)
         else opts)"

definition writer_config :: "Backup_Resource \<Rightarrow> Database_Resource \<Rightarrow> EngineType \<Rightarrow> int \<Rightarrow> BackupWriterConfig" where
  "writer_config backup database engine now =
     \<lparr>bwc_StorageConfig = Some (bks_Storage (bkr_Spec backup)), bwc_CompressionConfig = bks_Compression (bkr_Spec backup),
      bwc_EncryptionConfig = bks_Encryption (bkr_Spec backup), bwc_Namespace = bkr_ns backup, bwc_BackupName = bkr_name backup,
      bwc_DatabaseName = dbr_Name database, bwc_Timestamp = now, bwc_Extension = getBackupExtension engine backup\<rparr>"

text \<open>One attempt writes to the writer that all attempts share.\<close>

definition backup_attempt ::
  "('w, 'rd) engine_adapter \<Rightarrow> BackupOptions \<Rightarrow> ('w \<times> 'w BackupWriter, BackupResult) op" where
  "backup_attempt a opts = (\<lambda>(w, bw).
     case ea_Backup a opts w of (w', ps, r) \<Rightarrow> ((w', foldl (\<lambda>b p. fst (BackupWriter_Write b p)) bw ps), r))"

definition beside :: "'w timer \<Rightarrow> ('w \<times> 's) timer" where
  "beside T =
     \<lparr>tm_wait = (\<lambda>d (w, s). case tm_wait T d w of (w', e) \<Rightarrow> ((w', s), e)), tm_rand = (\<lambda>(w, s). case tm_rand T w of (w', r) \<Rightarrow> ((w', s), r)),
      tm_now = (\<lambda>(w, s). tm_now T w), tm_floats = tm_floats T\<rparr>"

definition store_backup ::
  "('w, 'k, 'z, 'rd) backup_env \<Rightarrow> Backup_Resource \<Rightarrow> Database_Resource \<Rightarrow> ResolvedInstance \<Rightarrow> ('w, 'rd) engine_adapter \<Rightarrow>
   'w BackupWriter \<Rightarrow> ('w, BackupExecutionResult) job" where
  "store_backup h backup database resolved a bw w =
     (let T = ee_timer (bx_engine h); startTime = tm_now T w
      in case retry_job (beside T) BackupRetryConfig (backup_attempt a (buildBackupOptions backup database (dis_Engine (ri_Spec resolved))))
                (\<lambda>_. ''execute backup: '') (\<lambda>r s. Some (s, Inr r)) (w, bw) of
           None \<Rightarrow> None
         | Some ((w1, bw1), Inl e) \<Rightarrow> Some (w1, Inl e)
         | Some ((w1, bw1), Inr backupResult) \<Rightarrow>
             then_do (BackupWriter_Close (bx_archive h) bw1) ''finalize backup: '' (\<lambda>_ w2.
               Some (w2, Inr \<lparr>ber_Path = bw_path bw1, ber_SizeBytes = UncompressedSize bw1,
                 ber_CompressedSizeBytes = br_CompressedSizeBytes backupResult, ber_Checksum = br_Checksum backupResult,
                 ber_Format = br_Format backupResult, ber_Duration = time_Sub (tm_now T w2) startTime, ber_Instance = ri_Name resolved,
                 ber_Database = dbr_Name database, ber_Engine = ri_Engine resolved, ber_Version = ri_Version resolved\<rparr>)) w1)"

definition backup_errors :: session_errors where
  "backup_errors =
     \<lparr>se_credentials = (\<lambda>_. ''get credentials: ''), se_tls = (\<lambda>_. ''get TLS credentials: ''), se_adapter = (\<lambda>_. ''create adapter: ''),
      se_connect = (\<lambda>_. ''connect to database: '')\<rparr>"

definition ExecuteBackup :: "('w, 'k, 'z, 'rd) backup_env \<Rightarrow> Backup_Resource \<Rightarrow> ('w, BackupExecutionResult) job" where
  "ExecuteBackup h backup =
     then_do (backup_GetDatabase h backup) ''get database: '' (\<lambda>database.
     then_do (ResolveInstanceForDatabase h database) ''resolve instance: '' (\<lambda>resolved.
     engine_session (bx_engine h) backup_errors (ri_Spec resolved) (ri_CredentialNamespace resolved) (\<lambda>a w.
       then_do (NewBackupWriter (bx_archive h) (writer_config backup database (dis_Engine (ri_Spec resolved)) (tm_now (ee_timer (bx_engine h)) w)))
         ''create backup writer: '' (store_backup h backup database resolved a) w)))"

definition backup_DeleteBackup :: "('w, 'k) storage_env \<Rightarrow> Backup_Resource \<Rightarrow> ('w, unit) op" where
  "backup_DeleteBackup sv backup =
     (case bkt_Backup (bkr_Status backup) of
        None \<Rightarrow> ret ()
      | Some file \<Rightarrow>
          if bkf_Path file = '''' then ret ()
          else check (storage_DeleteBackup sv (Some (bks_Storage (bkr_Spec backup))) (bkr_ns backup) (bkf_Path file))
                 (\<lambda>e w. Errorf_w ''delete backup file: '' e) ret)"

section \<open>What a backup stores\<close>

lemma writes_append: "foldl (\<lambda>b p. fst (BackupWriter_Write b p)) bw ps = bw\<lparr>bw_buffer := bw_buffer bw @ concat ps\<rparr>"
  by (rule backup_buffer)

text \<open>The attempts so far have failed, and what they wrote is in the buffer.\<close>

definition failed_attempts :: "('w, 'rd) engine_adapter \<Rightarrow> BackupOptions \<Rightarrow> bytes list list \<Rightarrow> bool" where
  "failed_attempts a opts outs \<longleftrightarrow> (\<forall>ps \<in> set outs. \<exists>u u' e. ea_Backup a opts u = (u', ps, Inl e))"

definition attempts_buffered ::
  "('w, 'rd) engine_adapter \<Rightarrow> BackupOptions \<Rightarrow> 'w BackupWriter \<Rightarrow> nat \<Rightarrow> 'w \<times> 'w BackupWriter \<Rightarrow> bool" where
  "attempts_buffered a opts bw n s \<longleftrightarrow>
     (\<exists>outs. length outs = n \<and> failed_attempts a opts outs \<and> snd s = bw\<lparr>bw_buffer := bw_buffer bw @ concat (concat outs)\<rparr>)"

lemma attempts_buffered_invariant:
  "attempt_invariant (beside T) (backup_attempt a opts) (attempts_buffered a opts bw)"
  unfolding attempt_invariant_def
proof (intro conjI allI impI)
  fix k and s s' :: "'a \<times> 'a BackupWriter" and e
  assume I: "attempts_buffered a opts bw k s" and run: "backup_attempt a opts s = (s', Inl e)"
  obtain outs where outs: "length outs = k" "failed_attempts a opts outs" "snd s = bw\<lparr>bw_buffer := bw_buffer bw @ concat (concat outs)\<rparr>"
    using I unfolding attempts_buffered_def by blast
  obtain w' ps where ps: "ea_Backup a opts (fst s) = (w', ps, Inl e)" "s' = (w', (snd s)\<lparr>bw_buffer := bw_buffer (snd s) @ concat ps\<rparr>)"
    using run by (cases s) (auto simp: backup_attempt_def writes_append split: prod.splits)
  have "failed_attempts a opts (outs @ [ps])" using outs(2) ps(1) unfolding failed_attempts_def by auto
  then show "attempts_buffered a opts bw (Suc k) s'"
    using outs ps(2) unfolding attempts_buffered_def by (intro exI [of _ "outs @ [ps]"]) simp
qed (auto simp: attempts_buffered_def beside_def split: prod.splits)


section \<open>The handler\<close>

record Backup_Result =
  bres_Success :: bool
  bres_Path :: string
  bres_SizeBytes :: int
  bres_CompressedSizeBytes :: int
  bres_Checksum :: string
  bres_Format :: string
  bres_Duration :: duration
  bres_Message :: string

record 'w backup_repo =
  bp_ExecuteBackup :: "Backup_Resource \<Rightarrow> ('w, BackupExecutionResult) op"
  bp_DeleteBackup :: "Backup_Resource \<Rightarrow> ('w, unit) op"
  bp_GetDatabase :: "Backup_Resource \<Rightarrow> ('w, Database_Resource) op"
  bp_GetInstance :: "Database_Resource \<Rightarrow> ('w, DatabaseInstance) op"
  bp_GetEngine :: "Backup_Resource \<Rightarrow> ('w, string) op"

text \<open>The map of connected instances is part of the world; the event handlers below change it.\<close>

record 'w backup_handler =
  bh_repo :: "'w backup_repo"
  bh_eventBus :: "(BusEvent \<Rightarrow> 'w \<Rightarrow> 'w) option"
  bh_Now :: "'w \<Rightarrow> int"
  bh_instanceConnected :: "'w \<Rightarrow> string \<Rightarrow> bool option"

definition backup_Execute :: "'w backup_handler \<Rightarrow> Backup_Resource \<Rightarrow> ('w, Backup_Result) op" where
  "backup_Execute h backup =
     check (bp_GetEngine (bh_repo h) backup) (\<lambda>e w. Errorf_w ''get engine: '' e) (\<lambda>engine w.
       (let ref = dref_Name (bks_DatabaseRef (bkr_Spec backup));
            w1 = publish_on (bh_eventBus h) (bh_Now h) (\<lambda>now. NewBackupStarted now now (bkr_name backup) ref (bkr_ns backup)
                   (storage_type_text (sg_Type (bks_Storage (bkr_Spec backup))))) w;
            startTime = bh_Now h w1
        in case bp_ExecuteBackup (bh_repo h) backup w1 of
             (w2, Inl e) \<Rightarrow>
               (publish_on (bh_eventBus h) (bh_Now h) (\<lambda>now. NewBackupFailed now now (bkr_name backup) ref (bkr_ns backup) (Error e)) w2,
                Inl (Errorf_w ''execute backup: '' e))
           | (w2, Inr res) \<Rightarrow>
               (let duration = time_Sub (bh_Now h w2) startTime
                in (publish_on (bh_eventBus h) (bh_Now h) (\<lambda>now. NewBackupCompleted now (bkr_name backup) ref (bkr_ns backup)
                      (ber_Path res) (ber_Checksum res) (ber_SizeBytes res) duration) w2,
                    Inr \<lparr>bres_Success = True, bres_Path = ber_Path res, bres_SizeBytes = ber_SizeBytes res,
                      bres_CompressedSizeBytes = ber_CompressedSizeBytes res, bres_Checksum = ber_Checksum res, bres_Format = ber_Format res,
                      bres_Duration = duration, bres_Message = ''Backup completed successfully''\<rparr>))))"

definition backup_Delete :: "'w backup_handler \<Rightarrow> Backup_Resource \<Rightarrow> ('w, unit) op" where
  "backup_Delete h backup = check (bp_DeleteBackup (bh_repo h) backup) (\<lambda>e w. Errorf_w ''delete backup file: '' e) ret"

definition backup_IsExpired :: "'w backup_handler \<Rightarrow> Backup_Resource \<Rightarrow> 'w \<Rightarrow> bool" where
  "backup_IsExpired h backup w \<longleftrightarrow> (case bkt_ExpiresAt (bkr_Status backup) of None \<Rightarrow> False | Some t \<Rightarrow> bh_Now h w > t)"

definition instance_key :: "string \<Rightarrow> string \<Rightarrow> string" where
  "instance_key namespace name = namespace @ ''/'' @ name"

definition backup_OnInstanceDisconnected :: "string \<Rightarrow> string \<Rightarrow> (string \<Rightarrow> bool option) \<Rightarrow> string \<Rightarrow> bool option" where
  "backup_OnInstanceDisconnected namespace name con = con(instance_key namespace name \<mapsto> False)"

definition backup_OnInstanceConnected :: "string \<Rightarrow> string \<Rightarrow> (string \<Rightarrow> bool option) \<Rightarrow> string \<Rightarrow> bool option" where
  "backup_OnInstanceConnected namespace name con = con(instance_key namespace name \<mapsto> True)"

definition IsInstanceConnected :: "(string \<Rightarrow> bool option) \<Rightarrow> string \<Rightarrow> string \<Rightarrow> bool" where
  "IsInstanceConnected con namespace name \<longleftrightarrow> (case con (instance_key namespace name) of None \<Rightarrow> True | Some b \<Rightarrow> b)"

section \<open>The controller\<close>

record 'w backup_ctl =
  bkc_runtime :: "'w runtime"
  bkc_client :: "('w, Backup_Resource) client"
  bkc_Delete :: "Backup_Resource \<Rightarrow> ('w, unit) op"
  bkc_handler :: "'w backup_handler"
  bkc_ParseDuration :: "string \<Rightarrow> duration option"

abbreviation bkc_Now :: "'w backup_ctl \<Rightarrow> 'w \<Rightarrow> int" where
  "bkc_Now h \<equiv> rt_Now (bkc_runtime h)"

definition backup_RequeueAfterError :: duration where "backup_RequeueAfterError = 30 * Second"
definition backup_RequeueAfterPending :: duration where "backup_RequeueAfterPending = 10 * Second"
definition FinalizerDatabaseBackup :: string where "FinalizerDatabaseBackup = ''dbops.dbprovision.io/backup-protection''"

definition with_bstatus :: "(DatabaseBackupStatus \<Rightarrow> DatabaseBackupStatus) \<Rightarrow> Backup_Resource \<Rightarrow> Backup_Resource" where
  "with_bstatus f b = b\<lparr>bkr_Status := f (bkr_Status b)\<rparr>"

definition bphase :: "Backup_Resource \<Rightarrow> Phase" where
  "bphase b = bkt_Phase (bkr_Status b)"

definition backup_handleError :: "'w backup_ctl \<Rightarrow> Backup_Resource \<Rightarrow> go_error \<Rightarrow> string \<Rightarrow> 'w reconciler" where
  "backup_handleError h backup err operation w =
     (let msg = ''Failed to '' @ operation @ '': '' @ Error err;
          w1 = recordf (bkc_runtime h) EventTypeWarning ''Failed'' (''Backup failed to '' @ operation @ '': '' @ Error err) w;
          now = bkc_Now h w1;
          failed = with_bstatus (\<lambda>st. st\<lparr>bkt_Phase := PhaseFailed, bkt_Message := msg,
            bkt_Conditions := SetReadyCondition now ConditionFalse ''BackupFailed'' msg
              (SetSyncedCondition now ConditionFalse ''BackupFailed'' msg (bkt_Conditions st))\<rparr>) backup
      in (fst (cl_Status_Update (bkc_client h) failed w1), ClassifyRequeue (Some err)))"

definition backup_handlePending :: "'w backup_ctl \<Rightarrow> Backup_Resource \<Rightarrow> string \<Rightarrow> 'w reconciler" where
  "backup_handlePending h backup message w =
     (let pending = with_bstatus (\<lambda>st. st\<lparr>bkt_Phase := PhasePending, bkt_Message := message,
            bkt_Conditions := SetReadyCondition (bkc_Now h w) ConditionFalse ''Reconciling'' message (bkt_Conditions st)\<rparr>) backup
      in (fst (cl_Status_Update (bkc_client h) pending w), requeue_after backup_RequeueAfterPending, None))"

definition handleCompletedBackup :: "'w backup_ctl \<Rightarrow> Backup_Resource \<Rightarrow> 'w reconciler" where
  "handleCompletedBackup h backup w =
     (if backup_IsExpired (bkc_handler h) backup w then
        (case bkc_Delete h backup w of
           (w1, Inl e) \<Rightarrow> (w1, requeue_after (5 * Minute), None)
         | (w1, Inr _) \<Rightarrow> (w1, no_requeue, None))
      else case bkt_ExpiresAt (bkr_Status backup) of
        None \<Rightarrow> (w, no_requeue, None)
      | Some t \<Rightarrow>
          (let requeueAfter = time_Sub t (bkc_Now h w)
           in (w, if requeueAfter > 0 then requeue_after requeueAfter else no_requeue, None)))"

text \<open>The error of the deletion of the file decides only whether the finalizer is kept.\<close>

definition remove_backup_finalizer :: "'w backup_ctl \<Rightarrow> Backup_Resource \<Rightarrow> 'w reconciler" where
  "remove_backup_finalizer h backup w =
     (case cl_Update (bkc_client h) (backup\<lparr>bkr_meta := rt_RemoveFinalizer (bkc_runtime h) (bkr_meta backup) FinalizerDatabaseBackup\<rparr>) w of
        (w1, Inl e) \<Rightarrow> (w1, no_requeue, Some e)
      | (w1, Inr _) \<Rightarrow> (w1, no_requeue, None))"

definition backup_status_write :: "'w backup_ctl \<Rightarrow> Backup_Resource \<Rightarrow> 'w \<Rightarrow> 'w \<times> Backup_Resource" where
  "backup_status_write h b w =
     (case cl_Status_Update (bkc_client h) b w of (w', Inl e) \<Rightarrow> (w', b) | (w', Inr b') \<Rightarrow> (w', b'))"

definition backup_handleDeletion :: "'w backup_ctl \<Rightarrow> Backup_Resource \<Rightarrow> 'w reconciler" where
  "backup_handleDeletion h backup w =
     (if \<not> rt_ContainsFinalizer (bkc_runtime h) (bkr_meta backup) FinalizerDatabaseBackup then (w, no_requeue, None)
      else
        case backup_status_write h (with_bstatus (\<lambda>st. st\<lparr>bkt_Phase := PhaseDeleting, bkt_Message := ''Cleaning up backup''\<rparr>) backup) w of
          (w1, backup1) \<Rightarrow>
            (case backup_Delete (bkc_handler h) backup1 w1 of
               (w2, Inl e) \<Rightarrow>
                 (let w3 = recordf (bkc_runtime h) EventTypeWarning ''DeleteFailed'' (''Failed to delete backup: '' @ Error e) w2
                  in if \<not> rt_IsNotFound (bkc_runtime h) e \<and> \<not> HasForceDeleteAnnotation (bkr_meta backup1)
                     then (w3, requeue_after backup_RequeueAfterError, Some e)
                     else remove_backup_finalizer h backup1 w3)
             | (w2, Inr _) \<Rightarrow> remove_backup_finalizer h backup1 w2))"

text \<open>\<open>GetInstance\<close> rejects a database without \<^verbatim>\<open>instanceRef\<close> with an error that is not a missing object.\<close>

definition instance_name :: "Database_Resource \<Rightarrow> string" where
  "instance_name database = (case dbr_InstanceRef database of None \<Rightarrow> '''' | Some ref \<Rightarrow> ir_Name ref)"

definition complete_backup :: "'w backup_ctl \<Rightarrow> Backup_Resource \<Rightarrow> Backup_Result \<Rightarrow> 'w reconciler" where
  "complete_backup h backup result w =
     (let ttl = bks_TTL (bkr_Spec backup);
          now = bkc_Now h w;
          expiresAt = (if ttl \<noteq> '''' then map_option (\<lambda>d. now + d) (bkc_ParseDuration h ttl) else None);
          done = with_bstatus (\<lambda>st. st\<lparr>bkt_Phase := PhaseCompleted, bkt_Message := bres_Message result, bkt_CompletedAt := Some now,
            bkt_ExpiresAt := expiresAt,
            bkt_Backup := Some \<lparr>bkf_Path = bres_Path result, bkf_SizeBytes = bres_SizeBytes result,
              bkf_CompressedSizeBytes = bres_CompressedSizeBytes result, bkf_Checksum = bres_Checksum result, bkf_Format = bres_Format result\<rparr>,
            bkt_Conditions := SetReadyCondition now ConditionTrue ''Ready'' ''DatabaseBackup is ready''
              (SetSyncedCondition now ConditionTrue ''BackupCompleted'' ''Backup completed successfully'' (bkt_Conditions st))\<rparr>) backup
      in case cl_Status_Update (bkc_client h) done w of
           (w1, Inl e) \<Rightarrow> (w1, no_requeue, Some e)
         | (w1, Inr _) \<Rightarrow>
             (let w2 = recordf (bkc_runtime h) EventTypeNormal ''Completed''
                         (''Backup completed successfully, size: '' @ FormatInt (bres_SizeBytes result) @ '' bytes'') w1
              in (w2, case expiresAt of None \<Rightarrow> no_requeue | Some t \<Rightarrow> requeue_after (time_Sub t (bkc_Now h w2)), None)))"

definition run_ready_backup :: "'w backup_ctl \<Rightarrow> Backup_Resource \<Rightarrow> Database_Resource \<Rightarrow> DatabaseInstance \<Rightarrow> 'w reconciler" where
  "run_ready_backup h backup database inst w =
     (let now = bkc_Now h w;
          w1 = recordf (bkc_runtime h) EventTypeNormal ''Started'' (''Backup started for database '' @ dbr_Name database) w;
          running = with_bstatus (\<lambda>st. st\<lparr>bkt_Phase := PhaseRunning, bkt_Message := ''Backup in progress'', bkt_StartedAt := Some now,
            bkt_Source := Some \<lparr>bsi_Instance = di_Name inst, bsi_Database = dbr_Name database, bsi_Engine = dis_Engine (di_Spec inst),
              bsi_Version = di_Version inst, bsi_Timestamp = Some now\<rparr>\<rparr>) backup
      in case cl_Status_Update (bkc_client h) running w1 of
           (w2, Inl e) \<Rightarrow> (w2, no_requeue, Some e)
         | (w2, Inr backup1) \<Rightarrow>
             (case backup_Execute (bkc_handler h) backup1 w2 of
                (w3, Inl e) \<Rightarrow> backup_handleError h backup1 e ''execute backup'' w3
              | (w3, Inr result) \<Rightarrow> complete_backup h backup1 result w3))"

definition start_backup :: "'w backup_ctl \<Rightarrow> Backup_Resource \<Rightarrow> 'w reconciler" where
  "start_backup h backup w =
     (let repo = bh_repo (bkc_handler h)
      in case bp_GetDatabase repo backup w of
           (w1, Inl e) \<Rightarrow>
             if rt_IsNotFound (bkc_runtime h) e
             then backup_handleError h backup (OtherError (''database '' @ dref_Name (bks_DatabaseRef (bkr_Spec backup)) @ '' not found'') None)
                    ''DatabaseNotFound'' w1
             else backup_handleError h backup e ''get database'' w1
         | (w1, Inr database) \<Rightarrow>
             if dbr_Phase database \<noteq> PhaseReady
             then backup_handlePending h backup (''Waiting for Database '' @ om_name (dbr_meta database) @ '' to be ready'') w1
             else case bp_GetInstance repo database w1 of
               (w2, Inl e) \<Rightarrow>
                 if rt_IsNotFound (bkc_runtime h) e
                 then backup_handleError h backup (OtherError (''instance '' @ instance_name database @ '' not found'') None) ''InstanceNotFound'' w2
                 else backup_handleError h backup e ''get instance'' w2
             | (w2, Inr inst) \<Rightarrow>
                 if di_Phase inst \<noteq> PhaseReady
                 then backup_handlePending h backup (''Waiting for DatabaseInstance '' @ di_Name inst @ '' to be ready'') w2
                 else if \<not> IsInstanceConnected (bh_instanceConnected (bkc_handler h) w2) (di_Namespace inst) (di_Name inst)
                 then backup_handlePending h backup (''Waiting for DatabaseInstance '' @ di_Name inst @ '' to reconnect'') w2
                 else run_ready_backup h backup database inst w2)"

definition backup_reconcile :: "'w backup_ctl \<Rightarrow> Backup_Resource \<Rightarrow> 'w reconciler" where
  "backup_reconcile h backup w =
     (if bphase backup = '''' then
        (case cl_Status_Update (bkc_client h)
                (with_bstatus (\<lambda>st. st\<lparr>bkt_Phase := PhasePending, bkt_Message := ''Initializing backup''\<rparr>) backup) w of
           (w1, Inl e) \<Rightarrow> (w1, no_requeue, Some e)
         | (w1, Inr backup1) \<Rightarrow> start_backup h backup1 w1)
      else start_backup h backup w)"

definition backup_phases :: "'w backup_ctl \<Rightarrow> Backup_Resource \<Rightarrow> 'w reconciler" where
  "backup_phases h backup w =
     (if bphase backup = PhaseCompleted then handleCompletedBackup h backup w
      else if bphase backup = PhaseFailed then (w, no_requeue, None)
      else backup_reconcile h backup w)"

definition backup_Reconcile :: "'w backup_ctl \<Rightarrow> string \<Rightarrow> string \<Rightarrow> 'w reconciler" where
  "backup_Reconcile h namespace name w =
     (case cl_Get (bkc_client h) namespace name w of
        (w1, Inl e) \<Rightarrow> (w1, no_requeue, if rt_IsNotFound (bkc_runtime h) e then None else Some e)
      | (w1, Inr backup) \<Rightarrow>
          if ShouldSkipReconcile (bkr_meta backup) then (w1, no_requeue, None)
          else if IsMarkedForDeletion (bkr_meta backup) then backup_handleDeletion h backup w1
          else if \<not> rt_ContainsFinalizer (bkc_runtime h) (bkr_meta backup) FinalizerDatabaseBackup then
            (case cl_Update (bkc_client h) (backup\<lparr>bkr_meta := rt_AddFinalizer (bkc_runtime h) (bkr_meta backup) FinalizerDatabaseBackup\<rparr>) w1 of
               (w2, Inl e) \<Rightarrow> (w2, no_requeue, Some e)
             | (w2, Inr backup1) \<Rightarrow> backup_phases h backup1 w2)
          else backup_phases h backup w1)"

section \<open>Recorded runs of the controller\<close>

text \<open>The calls that change the cluster, the server or the storage.\<close>

datatype backup_call =
    BStatus Backup_Resource "go_error option"
  | BUpdate Backup_Resource "go_error option"
  | BDelete Backup_Resource "go_error option"
  | BExecute Backup_Resource "go_error option"
  | BFile Backup_Resource "go_error option"

definition watched_brepo :: "'w backup_repo \<Rightarrow> ('w \<times> backup_call list) backup_repo" where
  "watched_brepo r =
     \<lparr>bp_ExecuteBackup = (\<lambda>b. logged (BExecute b) (bp_ExecuteBackup r b)), bp_DeleteBackup = (\<lambda>b. logged (BFile b) (bp_DeleteBackup r b)),
      bp_GetDatabase = (\<lambda>b. unlogged (bp_GetDatabase r b)), bp_GetInstance = (\<lambda>d. unlogged (bp_GetInstance r d)),
      bp_GetEngine = (\<lambda>b. unlogged (bp_GetEngine r b))\<rparr>"

definition watched_bhandler :: "'w backup_handler \<Rightarrow> ('w \<times> backup_call list) backup_handler" where
  "watched_bhandler h =
     \<lparr>bh_repo = watched_brepo (bh_repo h), bh_eventBus = map_option (\<lambda>bus ev wt. (bus ev (fst wt), snd wt)) (bh_eventBus h),
      bh_Now = (\<lambda>wt. bh_Now h (fst wt)), bh_instanceConnected = (\<lambda>wt. bh_instanceConnected h (fst wt))\<rparr>"

definition watched_bctl :: "'w backup_ctl \<Rightarrow> ('w \<times> backup_call list) backup_ctl" where
  "watched_bctl h =
     \<lparr>bkc_runtime = watched_runtime (bkc_runtime h),
      bkc_client = \<lparr>cl_Get = (\<lambda>ns n. unlogged (cl_Get (bkc_client h) ns n)), cl_Update = (\<lambda>b. logged (BUpdate b) (cl_Update (bkc_client h) b)),
        cl_Status_Update = (\<lambda>b. logged (BStatus b) (cl_Status_Update (bkc_client h) b))\<rparr>,
      bkc_Delete = (\<lambda>b. logged (BDelete b) (bkc_Delete h b)), bkc_handler = watched_bhandler (bkc_handler h),
      bkc_ParseDuration = bkc_ParseDuration h\<rparr>"

lemma recordsD: "records m w Q \<Longrightarrow> \<exists>u w' r. m (w, t) = ((w', t @ u), r) \<and> Q u w' r"
  by (simp add: records_def)

lemma records_only: "records m w (\<lambda>u w' r. P u) \<Longrightarrow> \<exists>u. (\<exists>w' r. m (w, t) = ((w', t @ u), r)) \<and> P u"
  by (auto simp: records_def)

lemma publish_on_watched [simp]:
  "publish_on (map_option (\<lambda>bus ev wt. (bus ev (fst wt), snd wt)) bus) (\<lambda>wt. now (fst wt)) event (w, t) = (publish_on bus now event w, t)"
  by (cases bus) (simp_all add: publish_on_def)

lemma watched_b_simps [simp]:
  "bkc_runtime (watched_bctl h) = watched_runtime (bkc_runtime h)"
  "cl_Get (bkc_client (watched_bctl h)) ns n = unlogged (cl_Get (bkc_client h) ns n)"
  "cl_Update (bkc_client (watched_bctl h)) b = logged (BUpdate b) (cl_Update (bkc_client h) b)"
  "cl_Status_Update (bkc_client (watched_bctl h)) b = logged (BStatus b) (cl_Status_Update (bkc_client h) b)"
  "bkc_Delete (watched_bctl h) b = logged (BDelete b) (bkc_Delete h b)"
  "bkc_handler (watched_bctl h) = watched_bhandler (bkc_handler h)"
  "bkc_ParseDuration (watched_bctl h) = bkc_ParseDuration h"
  "bp_ExecuteBackup (bh_repo (watched_bhandler g)) b = logged (BExecute b) (bp_ExecuteBackup (bh_repo g) b)"
  "bp_DeleteBackup (bh_repo (watched_bhandler g)) b = logged (BFile b) (bp_DeleteBackup (bh_repo g) b)"
  "bp_GetDatabase (bh_repo (watched_bhandler g)) b = unlogged (bp_GetDatabase (bh_repo g) b)"
  "bp_GetInstance (bh_repo (watched_bhandler g)) d = unlogged (bp_GetInstance (bh_repo g) d)"
  "bp_GetEngine (bh_repo (watched_bhandler g)) b = unlogged (bp_GetEngine (bh_repo g) b)"
  "bh_eventBus (watched_bhandler g) = map_option (\<lambda>bus ev wt. (bus ev (fst wt), snd wt)) (bh_eventBus g)"
  "bh_Now (watched_bhandler g) = (\<lambda>wt. bh_Now g (fst wt))"
  "bh_instanceConnected (watched_bhandler g) wt = bh_instanceConnected g (fst wt)"
  by (simp_all add: watched_bctl_def watched_bhandler_def watched_brepo_def)

lemma bphase_simps [simp]:
  "bphase (with_bstatus f b) = bkt_Phase (f (bkr_Status b))" "bkr_meta (with_bstatus f b) = bkr_meta b" "bkr_Spec (with_bstatus f b) = bkr_Spec b"
  by (simp_all add: bphase_def with_bstatus_def)

definition status_in :: "Phase \<Rightarrow> backup_call list \<Rightarrow> bool" where
  "status_in p u \<longleftrightarrow> (\<exists>x e. u = [BStatus x e] \<and> bphase x = p)"

text \<open>The calls of a backup that has been started, and of one that may be started.\<close>

definition execution_calls :: "backup_call list \<Rightarrow> bool" where
  "execution_calls u \<longleftrightarrow>
     status_in PhaseFailed u \<or> (\<exists>x e v. u = BExecute x (Some e) # v \<and> status_in PhaseFailed v) \<or>
     (\<exists>x v. u = BExecute x None # v \<and> status_in PhaseCompleted v)"

definition start_calls :: "backup_call list \<Rightarrow> bool" where
  "start_calls u \<longleftrightarrow>
     status_in PhaseFailed u \<or> status_in PhasePending u \<or> status_in PhaseRunning u \<or>
     (\<exists>x v. u = BStatus x None # v \<and> bphase x = PhaseRunning \<and> execution_calls v)"

lemma handleError_bcalls: "records (backup_handleError (watched_bctl h) b err op') w (\<lambda>u w' r. status_in PhaseFailed u)"
  by (auto simp: records_def backup_handleError_def Let_def status_in_def split: prod.split)

lemma handlePending_bcalls: "records (backup_handlePending (watched_bctl h) b msg) w (\<lambda>u w' r. status_in PhasePending u)"
  by (auto simp: records_def backup_handlePending_def Let_def status_in_def split: prod.split)

lemma complete_bcalls: "records (complete_backup (watched_bctl h) b result) w (\<lambda>u w' r. status_in PhaseCompleted u)"
  by (auto simp: records_def complete_backup_def Let_def status_in_def split: prod.split sum.split)

lemma Execute_bcalls:
  "records (backup_Execute (watched_bhandler g) b) w (\<lambda>u w' r. if u = [] then isl r else \<exists>e. u = [BExecute b e] \<and> (e = None) = (\<not> isl r))"
  by (auto simp: records_def backup_Execute_def check_def Let_def split: prod.split sum.split)

lemma run_ready_bcalls: "records (run_ready_backup (watched_bctl h) b d inst) w (\<lambda>u w' r. start_calls u)"
proof (rule recordsI)
  fix t
  define running where "running = with_bstatus (\<lambda>st. st\<lparr>bkt_Phase := PhaseRunning, bkt_Message := ''Backup in progress'', bkt_StartedAt := Some (bkc_Now h w),
    bkt_Source := Some \<lparr>bsi_Instance = di_Name inst, bsi_Database = dbr_Name d, bsi_Engine = dis_Engine (di_Spec inst), bsi_Version = di_Version inst,
      bsi_Timestamp = Some (bkc_Now h w)\<rparr>\<rparr>) b"
  let ?w1 = "recordf (bkc_runtime h) EventTypeNormal ''Started'' (''Backup started for database '' @ dbr_Name d) w"
  have phase: "bphase running = PhaseRunning" by (simp add: running_def)
  obtain w2 r2 where upd: "cl_Status_Update (bkc_client h) running ?w1 = (w2, r2)" by force
  note code = run_ready_backup_def Let_def running_def [symmetric] upd
  show "\<exists>u w' r. run_ready_backup (watched_bctl h) b d inst (w, t) = ((w', t @ u), r) \<and> start_calls u"
  proof (cases r2)
    case (Inl e)
    then show ?thesis using phase
      by (intro exI [of _ "[BStatus running (Some e)]"]) (simp add: code start_calls_def status_in_def del: append_Cons)
  next
    case (Inr b1)
    let ?t = "t @ [BStatus running None]"
    obtain u w3 r3 where ex: "backup_Execute (watched_bhandler (bkc_handler h)) b1 (w2, ?t) = ((w3, ?t @ u), r3)"
      "if u = [] then isl r3 else \<exists>e. u = [BExecute b1 e] \<and> (e = None) = (\<not> isl r3)"
      using Execute_bcalls by (rule recordsE)
    have "\<exists>v w' r. (case r3 of Inl e \<Rightarrow> backup_handleError (watched_bctl h) b1 e ''execute backup'' (w3, ?t @ u)
        | Inr result \<Rightarrow> complete_backup (watched_bctl h) b1 result (w3, ?t @ u)) = ((w', (?t @ u) @ v), r) \<and>
        status_in (if isl r3 then PhaseFailed else PhaseCompleted) v"
    proof (cases r3)
      case (Inl e)
      then show ?thesis using recordsD [OF handleError_bcalls, of h b1 e "''execute backup''" w3 "?t @ u"]
        by (simp del: append_assoc append_Cons append_Nil)
    next
      case (Inr result)
      then show ?thesis using recordsD [OF complete_bcalls, of h b1 result w3 "?t @ u"]
        by (simp del: append_assoc append_Cons append_Nil)
    qed
    then obtain v w' r where v: "(case r3 of Inl e \<Rightarrow> backup_handleError (watched_bctl h) b1 e ''execute backup'' (w3, ?t @ u)
        | Inr result \<Rightarrow> complete_backup (watched_bctl h) b1 result (w3, ?t @ u)) = ((w', (?t @ u) @ v), r)"
      "status_in (if isl r3 then PhaseFailed else PhaseCompleted) v" by blast
    have "execution_calls (u @ v)" using ex(2) v(2) unfolding execution_calls_def
      by (cases "u = []"; cases "isl r3") auto
    moreover have "run_ready_backup (watched_bctl h) b d inst (w, t) = ((w', t @ [BStatus running None] @ u @ v), r)"
      using Inr ex(1) v(1) by (simp add: code del: append_Cons split: sum.splits)
    ultimately show ?thesis using phase by (auto simp: start_calls_def)
  qed
qed

lemma start_callsI:
  "status_in PhaseFailed u \<Longrightarrow> start_calls u" "status_in PhasePending u \<Longrightarrow> start_calls u" "status_in PhaseRunning u \<Longrightarrow> start_calls u"
  by (simp_all add: start_calls_def)

lemmas started_calls = records_mono [OF handleError_bcalls start_callsI(1)] records_mono [OF handlePending_bcalls start_callsI(2)] run_ready_bcalls

lemma start_backup_bcalls: "records (start_backup (watched_bctl h) b) w (\<lambda>u w' r. start_calls u)"
proof (rule recordsI)
  fix t
  let ?repo = "bh_repo (bkc_handler h)"
  note ends = started_calls [THEN records_only, where t = t]
  obtain w1 r1 where db: "bp_GetDatabase ?repo b w = (w1, r1)" by force
  show "\<exists>u w' r. start_backup (watched_bctl h) b (w, t) = ((w', t @ u), r) \<and> start_calls u"
  proof (cases r1)
    case (Inl e)
    then show ?thesis by (simp add: start_backup_def Let_def db del: split_paired_Ex) (intro conjI impI ends)
  next
    case (Inr d)
    obtain w2 r2 where inst: "bp_GetInstance ?repo d w1 = (w2, r2)" by force
    show ?thesis
    proof (cases "dbr_Phase d = PhaseReady")
      case False
      then show ?thesis using Inr by (simp add: start_backup_def Let_def db del: split_paired_Ex) (intro conjI impI ends)
    next
      case True
      note ready = this Inr
      show ?thesis
      proof (cases r2)
        case (Inl e)
        then show ?thesis using ready by (simp add: start_backup_def Let_def db inst del: split_paired_Ex) (intro conjI impI ends)
      next
        case (Inr i)
        then show ?thesis using ready by (simp add: start_backup_def Let_def db inst del: split_paired_Ex) (intro conjI impI ends)
      qed
    qed
  qed
qed

text \<open>A backup that is not deleted: what happens in each phase.\<close>

definition phase_calls :: "'w backup_ctl \<Rightarrow> Backup_Resource \<Rightarrow> 'w \<Rightarrow> backup_call list \<Rightarrow> bool" where
  "phase_calls h b w u \<longleftrightarrow>
     (if bphase b = PhaseCompleted then
        (if backup_IsExpired (bkc_handler h) b w then \<exists>e. u = [BDelete b e] else u = [])
      else if bphase b = PhaseFailed then u = []
      else if bphase b = '''' then status_in PhasePending u \<or> (\<exists>x v. u = BStatus x None # v \<and> bphase x = PhasePending \<and> start_calls v)
      else start_calls u)"

lemma phases_bcalls: "records (backup_phases (watched_bctl h) b) w (\<lambda>u w' r. phase_calls h b w u)"
proof (cases "bphase b = PhaseCompleted \<or> bphase b = PhaseFailed")
  case True
  then show ?thesis
    by (auto simp: records_def backup_phases_def handleCompletedBackup_def phase_calls_def Let_def backup_IsExpired_def phases
        split: prod.split sum.split option.split)
next
  case open': False
  show ?thesis
  proof (cases "bphase b = ''''")
    case False
    then show ?thesis using open' start_backup_bcalls [of h b w]
      by (simp add: records_def backup_phases_def backup_reconcile_def phase_calls_def)
  next
    case True
    let ?init = "with_bstatus (\<lambda>st. st\<lparr>bkt_Phase := PhasePending, bkt_Message := ''Initializing backup''\<rparr>) b"
    obtain w1 r1 where upd: "cl_Status_Update (bkc_client h) ?init w = (w1, r1)" by force
    show ?thesis
    proof (rule recordsI)
      fix t
      show "\<exists>u w' r. backup_phases (watched_bctl h) b (w, t) = ((w', t @ u), r) \<and> phase_calls h b w u"
      proof (cases r1)
        case (Inl e)
        then show ?thesis using True upd
          by (intro exI [of _ "[BStatus ?init (Some e)]"]) (simp add: backup_phases_def backup_reconcile_def phase_calls_def status_in_def phases)
      next
        case (Inr b1)
        obtain u w' r where "start_backup (watched_bctl h) b1 (w1, t @ [BStatus ?init None]) = ((w', (t @ [BStatus ?init None]) @ u), r)" "start_calls u"
          using start_backup_bcalls by (rule recordsE)
        then show ?thesis using True upd Inr
          by (intro exI [of _ "BStatus ?init None # u"]) (simp add: backup_phases_def backup_reconcile_def phase_calls_def phases)
      qed
    qed
  qed
qed

text \<open>A deletion: the status, the file, and the finalizer if the file is gone, missing, or given up.\<close>

definition file_settled :: "'w backup_ctl \<Rightarrow> Backup_Resource \<Rightarrow> go_error option \<Rightarrow> bool" where
  "file_settled h b f \<longleftrightarrow>
     (case f of
        None \<Rightarrow> True
      | Some e \<Rightarrow> rt_IsNotFound (bkc_runtime h) (Errorf_w ''delete backup file: '' e) \<or> HasForceDeleteAnnotation (bkr_meta b))"

definition deletion_bcalls :: "'w backup_ctl \<Rightarrow> Backup_Resource \<Rightarrow> backup_call list \<Rightarrow> bool" where
  "deletion_bcalls h b u \<longleftrightarrow>
     (if \<not> rt_ContainsFinalizer (bkc_runtime h) (bkr_meta b) FinalizerDatabaseBackup then u = []
      else \<exists>x e b1 f v. u = BStatus x e # BFile b1 f # v \<and> bphase x = PhaseDeleting \<and>
        (if file_settled h b1 f then \<exists>e. v = [BUpdate (b1\<lparr>bkr_meta := rt_RemoveFinalizer (bkc_runtime h) (bkr_meta b1) FinalizerDatabaseBackup\<rparr>) e]
         else v = []))"

lemma remove_finalizer_bcalls:
  "records (remove_backup_finalizer (watched_bctl h) b) w
     (\<lambda>u w' r. \<exists>e. u = [BUpdate (b\<lparr>bkr_meta := rt_RemoveFinalizer (bkc_runtime h) (bkr_meta b) FinalizerDatabaseBackup\<rparr>) e])"
  by (auto simp: records_def remove_backup_finalizer_def split: prod.split sum.split)

lemma handleDeletion_bcalls: "records (backup_handleDeletion (watched_bctl h) b) w (\<lambda>u w' r. deletion_bcalls h b u)"
proof (cases "rt_ContainsFinalizer (bkc_runtime h) (bkr_meta b) FinalizerDatabaseBackup")
  case False
  then show ?thesis by (simp add: records_def backup_handleDeletion_def deletion_bcalls_def)
next
  case True
  show ?thesis
  proof (rule recordsI)
    fix t
    let ?x = "with_bstatus (\<lambda>st. st\<lparr>bkt_Phase := PhaseDeleting, bkt_Message := ''Cleaning up backup''\<rparr>) b"
    obtain w1 r1 where upd: "cl_Status_Update (bkc_client h) ?x w = (w1, r1)" by force
    define b1 where "b1 = (case r1 of Inl _ \<Rightarrow> ?x | Inr y \<Rightarrow> y)"
    obtain w2 r2 where del: "bp_DeleteBackup (bh_repo (bkc_handler h)) b1 w1 = (w2, r2)" by force
    let ?t = "t @ [BStatus ?x (error_of r1), BFile b1 (error_of r2)]"
    note rem = remove_finalizer_bcalls [THEN recordsD, of h b1 _ ?t]
    let ?run = "backup_handleDeletion (watched_bctl h) b (w, t)"
    have "\<exists>v w' r. ?run = ((w', ?t @ v), r) \<and> (if file_settled h b1 (error_of r2)
        then \<exists>e. v = [BUpdate (b1\<lparr>bkr_meta := rt_RemoveFinalizer (bkc_runtime h) (bkr_meta b1) FinalizerDatabaseBackup\<rparr>) e] else v = [])"
      using True upd del rem
      by (cases r1; cases r2) (auto simp: backup_handleDeletion_def backup_status_write_def backup_Delete_def check_def b1_def Let_def file_settled_def)
    then obtain v w' r where v: "?run = ((w', ?t @ v), r)" and rest: "if file_settled h b1 (error_of r2)
        then \<exists>e. v = [BUpdate (b1\<lparr>bkr_meta := rt_RemoveFinalizer (bkc_runtime h) (bkr_meta b1) FinalizerDatabaseBackup\<rparr>) e] else v = []"
      by blast
    have "bphase ?x = PhaseDeleting" by simp
    then have "deletion_bcalls h b (BStatus ?x (error_of r1) # BFile b1 (error_of r2) # v)"
      unfolding deletion_bcalls_def using rest by (simp only: True simp_thms if_False) blast
    then show "\<exists>u w' r. ?run = ((w', t @ u), r) \<and> deletion_bcalls h b u" using v by force
  qed
qed

section \<open>What a reconciliation may do\<close>

fun call_after :: "backup_call option \<Rightarrow> backup_call \<Rightarrow> bool" where
  "call_after prev (BExecute x e) = (case prev of Some (BStatus y None) \<Rightarrow> bphase y = PhaseRunning | _ \<Rightarrow> False)"
| "call_after prev (BStatus x e) = (bphase x = PhaseCompleted \<longrightarrow> (case prev of Some (BExecute y None) \<Rightarrow> True | _ \<Rightarrow> False))"
| "call_after prev c = True"

fun calls_ordered :: "backup_call option \<Rightarrow> backup_call list \<Rightarrow> bool" where
  "calls_ordered prev [] = True"
| "calls_ordered prev (c # cs) = (call_after prev c \<and> calls_ordered (Some c) cs)"

fun is_execute :: "backup_call \<Rightarrow> bool" where
  "is_execute (BExecute x e) = True"
| "is_execute c = False"

fun backup_call_allowed :: "'w backup_ctl \<Rightarrow> Backup_Resource \<Rightarrow> backup_call list \<Rightarrow> backup_call \<Rightarrow> bool" where
  "backup_call_allowed h b u (BExecute x e) \<longleftrightarrow> \<not> IsMarkedForDeletion (bkr_meta b) \<and> bphase b \<noteq> PhaseCompleted \<and> bphase b \<noteq> PhaseFailed"
| "backup_call_allowed h b u (BStatus x e) \<longleftrightarrow> True"
| "backup_call_allowed h b u (BDelete x e) \<longleftrightarrow> bphase b = PhaseCompleted \<and> (\<exists>v. backup_IsExpired (bkc_handler h) b v)"
| "backup_call_allowed h b u (BFile x e) \<longleftrightarrow> IsMarkedForDeletion (bkr_meta b)"
| "backup_call_allowed h b u (BUpdate x e) \<longleftrightarrow>
     rt_ContainsFinalizer (bkc_runtime h) (bkr_meta x) FinalizerDatabaseBackup \<or>
     IsMarkedForDeletion (bkr_meta b) \<and> (\<exists>y f. BFile y f \<in> set u \<and> file_settled h y f)"

definition backup_calls_safe :: "'w backup_ctl \<Rightarrow> Backup_Resource \<Rightarrow> backup_call list \<Rightarrow> bool" where
  "backup_calls_safe h b u \<longleftrightarrow>
     calls_ordered None u \<and> length (filter is_execute u) \<le> 1 \<and> (\<forall>c \<in> set u. backup_call_allowed h b u c) \<and>
     (ShouldSkipReconcile (bkr_meta b) \<longrightarrow> u = [])"

definition update_keeps_bstatus :: "'w backup_ctl \<Rightarrow> bool" where
  "update_keeps_bstatus h \<longleftrightarrow> (\<forall>b w w' b'. cl_Update (bkc_client h) b w = (w', Inr b') \<longrightarrow> bkr_Status b' = bkr_Status b)"

lemma distinct_phases [simp]:
  "PhaseRunning \<noteq> PhaseCompleted" "PhasePending \<noteq> PhaseCompleted" "PhaseFailed \<noteq> PhaseCompleted" "PhaseDeleting \<noteq> PhaseCompleted"
  by (simp_all add: phases)

lemma status_in_ordered:
  "status_in p u \<Longrightarrow> p \<noteq> PhaseCompleted \<Longrightarrow> calls_ordered prev u \<and> filter is_execute u = [] \<and> (\<forall>c \<in> set u. \<exists>x e. c = BStatus x e)"
  by (auto simp: status_in_def)

lemma execution_ordered:
  assumes "execution_calls u" "bphase y = PhaseRunning"
  shows "calls_ordered (Some (BStatus y None)) u \<and> length (filter is_execute u) \<le> 1 \<and> (\<forall>c \<in> set u. (\<exists>x e. c = BStatus x e) \<or> (\<exists>x e. c = BExecute x e))"
  using assms unfolding execution_calls_def
  by (elim disjE) (auto simp: status_in_def)

lemma start_ordered:
  assumes "start_calls u"
  shows "calls_ordered prev u \<and> length (filter is_execute u) \<le> 1 \<and> (\<forall>c \<in> set u. (\<exists>x e. c = BStatus x e) \<or> (\<exists>x e. c = BExecute x e))"
  using assms unfolding start_calls_def
proof (elim disjE exE conjE)
  fix x v
  assume "u = BStatus x None # v" "bphase x = PhaseRunning" "execution_calls v"
  then show ?thesis using execution_ordered [of v x] by auto
qed (use status_in_ordered [of _ u prev] in auto)

lemma phase_calls_safe:
  assumes calls: "phase_calls h b w u" and live: "\<not> IsMarkedForDeletion (bkr_meta b0)" "bkr_Status b = bkr_Status b0"
  shows "calls_ordered prev u \<and> length (filter is_execute u) \<le> 1 \<and> (\<forall>c \<in> set u. backup_call_allowed h b0 z c)"
proof -
  have same: "bphase b = bphase b0" "backup_IsExpired (bkc_handler h) b w = backup_IsExpired (bkc_handler h) b0 w"
    using live(2) by (simp_all add: bphase_def backup_IsExpired_def)
  show ?thesis
  proof (cases "bphase b = PhaseCompleted \<or> bphase b = PhaseFailed")
    case True
    then show ?thesis using calls same by (auto simp: phase_calls_def split: if_splits)
  next
    case False
    then have allowed: "(\<exists>x e. c = BStatus x e) \<or> (\<exists>x e. c = BExecute x e) \<Longrightarrow> backup_call_allowed h b0 z c" for c
      using live(1) same(1) by auto
    consider (init) "status_in PhasePending u" | (begun) x v where "u = BStatus x None # v" "bphase x = PhasePending" "start_calls v" | (started) "start_calls u"
      using calls False by (auto simp: phase_calls_def split: if_splits)
    then show ?thesis
    proof cases
      case init
      then show ?thesis using status_in_ordered [OF init, of prev] allowed by auto
    next
      case begun
      then show ?thesis using start_ordered [of v "Some (BStatus x None)"] allowed by auto
    next
      case started
      then show ?thesis using start_ordered [OF started, of prev] allowed by blast
    qed
  qed
qed

lemma deletion_calls_safe:
  assumes "deletion_bcalls h b u" "IsMarkedForDeletion (bkr_meta b)"
  shows "calls_ordered None u \<and> length (filter is_execute u) \<le> 1 \<and> (\<forall>c \<in> set u. backup_call_allowed h b u c)"
proof (cases "u = []")
  case False
  then obtain x e b1 f v where u: "u = BStatus x e # BFile b1 f # v" "bphase x = PhaseDeleting"
    "if file_settled h b1 f then \<exists>e. v = [BUpdate (b1\<lparr>bkr_meta := rt_RemoveFinalizer (bkc_runtime h) (bkr_meta b1) FinalizerDatabaseBackup\<rparr>) e] else v = []"
    using assms(1) unfolding deletion_bcalls_def by (auto split: if_splits)
  show ?thesis
  proof (cases "file_settled h b1 f")
    case True
    then show ?thesis using u assms(2) by auto
  next
    case False
    then show ?thesis using u assms(2) by auto
  qed
qed simp


section \<open>Examples\<close>

text \<open>
  A volume in memory, secrets with credentials, and an engine whose first attempt breaks off after a byte:
  a file of the world remembers it.
\<close>

definition bmeta_x :: "string \<Rightarrow> object_meta" where
  "bmeta_x name = \<lparr>om_name = name, om_namespace = ''prod'', om_uid = ''u'', om_labels = None, om_annotations = None, om_ownerReferences = [],
     om_creationTimestamp = 0, om_deletionTimestamp = None, om_finalizers = [FinalizerDatabaseBackup]\<rparr>"

definition database_x :: Database_Resource where
  "database_x = \<lparr>dbr_meta = bmeta_x ''db'', dbr_Name = ''app'', dbr_InstanceRef = Some \<lparr>ir_Name = ''pg'', ir_Namespace = ''''\<rparr>,
     dbr_ClusterInstanceRef = None, dbr_Phase = PhaseReady\<rparr>"

definition instance_x :: DatabaseInstance where
  "instance_x = \<lparr>di_Name = ''pg'', di_Namespace = ''prod'',
     di_Spec = \<lparr>dis_Engine = EngineTypePostgres, dis_Host = ''h'', dis_Port = 5432, dis_Database = ''postgres'',
       dis_SecretRef = Some \<lparr>csr_Name = ''s'', csr_Namespace = '''', csr_Keys = None\<rparr>, dis_TLS = None, dis_Postgres = None, dis_MySQL = None\<rparr>,
     di_DriftPolicy = None, di_Phase = PhaseReady, di_Version = ''16''\<rparr>"

definition resource_x :: Backup_Resource where
  "resource_x = \<lparr>bkr_meta = bmeta_x ''nightly'',
     bkr_Spec = \<lparr>bks_DatabaseRef = \<lparr>dref_Name = ''db'', dref_Namespace = ''''\<rparr>,
       bks_Storage = \<lparr>sg_Type = StorageTypePVC, sg_GCS = None, sg_S3 = None, sg_Azure = None, sg_PVC = Some pvc_config_x\<rparr>,
       bks_Compression = None, bks_Encryption = None, bks_TTL = '''', bks_ActiveDeadlineSeconds = 3600, bks_Postgres = None, bks_MySQL = None\<rparr>,
     bkr_Status = \<lparr>bkt_Phase = PhasePending, bkt_StartedAt = None, bkt_CompletedAt = None, bkt_Message = '''', bkt_Backup = None,
       bkt_Source = None, bkt_ExpiresAt = None, bkt_Conditions = []\<rparr>\<rparr>"

definition timer_x :: "'w timer" where
  "timer_x = \<lparr>tm_wait = (\<lambda>d w. (w, None)), tm_rand = (\<lambda>w. (w, 0)), tm_now = (\<lambda>w. 0), tm_floats = exact_floats\<rparr>"

definition result_x :: BackupResult where
  "result_x = \<lparr>br_BackupID = ''u'', br_Path = '''', br_SizeBytes = 2, br_CompressedSizeBytes = 0, br_Checksum = '''', br_Format = ''custom'',
     br_StartTime = '''', br_EndTime = ''''\<rparr>"

definition flaky_engine :: "(string \<Rightarrow> bytes option, unit) engine_adapter" where
  "flaky_engine =
     \<lparr>ea_Connect = ret (), ea_Close = ret (),
      ea_Backup = (\<lambda>opts w. if w ''tried'' = None then (w(''tried'' \<mapsto> []), [[1]], Inl refused) else (w, [[2], [3]], Inr result_x)),
      ea_Restore = (\<lambda>opts. fail ErrNotFound)\<rparr>"

definition benv_x :: "(string \<Rightarrow> bytes option, unit, bytes, unit) backup_env" where
  "benv_x =
     (let secrets = secrets_files\<lparr>sk_Get := (\<lambda>_ _. ret (key_secret_x\<lparr>sec_Data := [(''username'', ''u''), (''password'', ''p'')]\<rparr>))\<rparr>
      in \<lparr>bx_engine = \<lparr>ee_secrets = secrets, ee_timer = timer_x,
            ee_engines = \<lparr>en_postgres = (\<lambda>_. flaky_engine), en_mysql = (\<lambda>_. flaky_engine), en_cockroachdb = (\<lambda>_. flaky_engine),
              en_clickhouse = (\<lambda>_. flaky_engine)\<rparr>\<rparr>,
          bx_archive = archive_x,
          bx_access = \<lparr>ac_Instance = (\<lambda>_ _. ret instance_x), ac_ClusterInstance = (\<lambda>_. fail ErrNotFound), ac_secrets = secrets,
            ac_newAdapter = (\<lambda>_ _. Inl ErrNotFound)\<rparr>,
          bx_Database = (\<lambda>_ _. ret database_x)\<rparr>)"

lemma flaky_backup:
  "\<exists>w' res. ExecuteBackup benv_x resource_x Map.empty = Some (w', Inr res) \<and> ber_SizeBytes res = 3"
proof -
  obtain b where b: "NewPVCBackend pvc_config_x = Inr b" by (simp add: NewPVCBackend_def pvc_config_x_def)
  define resolved where "resolved = \<lparr>ri_Spec = di_Spec instance_x, ri_DriftPolicy = None, ri_CredentialNamespace = ''prod'', ri_Phase = PhaseReady,
      ri_IsClusterScoped = False, ri_Name = ''pg'', ri_Version = ''16''\<rparr>"
  define cfg where "cfg = writer_config resource_x database_x EngineTypePostgres 0"
  define bw where "bw = \<lparr>bw_backend = pvc_backend mem_os b, bw_compressor = NoopCompressor, bw_encryptor = NoopEncryptor,
      bw_path = backup_path (ar_Format archive_x) cfg NoopCompressor NoopEncryptor, bw_buffer = []\<rparr>"
  define opts where "opts = buildBackupOptions resource_x database_x EngineTypePostgres"
  let ?w1 = "[''tried'' \<mapsto> []] :: string \<Rightarrow> bytes option"
  have parts: "ee_timer (bx_engine benv_x) = timer_x" "bx_archive benv_x = archive_x" by (simp_all add: benv_x_def Let_def)
  have engine: "dis_Engine (ri_Spec resolved) = EngineTypePostgres" by (simp add: resolved_def instance_x_def)
  have new: "NewBackupWriter archive_x cfg w = (w, Inr bw)" for w
    using b by (simp add: NewBackupWriter_def check_def cfg_def writer_config_def resource_x_def NewBackend_def from_config_def archive_x_def
        NewCompressor_def NewEncryptor_def bw_def)
  have first: "backup_attempt flaky_engine opts (Map.empty, bw) = ((?w1, bw\<lparr>bw_buffer := [1]\<rparr>), Inl refused)"
    and second: "backup_attempt flaky_engine opts (?w1, bw\<lparr>bw_buffer := [1]\<rparr>) = ((?w1, bw\<lparr>bw_buffer := [1, 2, 3]\<rparr>), Inr result_x)"
    by (simp_all add: backup_attempt_def flaky_engine_def BackupWriter_Write_def bw_def)
  have calm: "tm_wait (beside timer_x) d v = (v, None)" "fst (tm_rand (beside timer_x) v) = v" for d v
    by (cases v, simp add: beside_def timer_x_def)+
  have retry: "retry_job (beside timer_x) BackupRetryConfig (backup_attempt flaky_engine opts) (\<lambda>_. ''execute backup: '') (\<lambda>r s. Some (s, Inr r)) (Map.empty, bw) =
      Some ((?w1, bw\<lparr>bw_buffer := [1, 2, 3]\<rparr>), Inr result_x)"
    by (rule retry_job_second [OF first refused_retryable second _ _ calm]) (simp_all add: retry_configs)
  have "\<exists>w2. BackupWriter_Close archive_x (bw\<lparr>bw_buffer := [1, 2, 3]\<rparr>) ?w1 = (w2, Inr ())"
    by (simp add: BackupWriter_Close_def bw_def compressed_def check_def pvc_backend_def pvc_Write_def mem_os_def archive_x_def Let_def)
  then obtain w2 where close: "BackupWriter_Close archive_x (bw\<lparr>bw_buffer := [1, 2, 3]\<rparr>) ?w1 = (w2, Inr ())" by blast
  obtain res where store: "store_backup benv_x resource_x database_x resolved flaky_engine bw Map.empty = Some (w2, Inr res)" "ber_SizeBytes res = 3"
    using retry close by (simp add: store_backup_def parts engine opts_def [symmetric] then_do_def UncompressedSize_def Let_def)
  have creds: "GetCredentials (ee_secrets (bx_engine benv_x)) (ri_CredentialNamespace resolved) (dis_SecretRef (ri_Spec resolved)) w =
      (w, Inr \<lparr>cr_Username = ''u'', cr_Password = ''p''\<rparr>)" for w
    by (simp add: GetCredentials_def benv_x_def Let_def resolved_def instance_x_def check_def)
  have spec: "\<not> spec_tls (ri_Spec resolved)" "NewAdapter (ee_engines (bx_engine benv_x)) (dis_Engine (ri_Spec resolved)) c = Inr flaky_engine" for c
    by (simp_all add: spec_tls_def resolved_def instance_x_def NewAdapter_def benv_x_def Let_def)
  have connect: "ea_Connect flaky_engine w = (w, Inr ())" "ea_Close flaky_engine w = (w, Inr ())" for w by (simp_all add: flaky_engine_def)
  have session: "engine_session (bx_engine benv_x) backup_errors (ri_Spec resolved) (ri_CredentialNamespace resolved) run w = closing flaky_engine (run flaky_engine) w"
    for run :: "(string \<Rightarrow> bytes option, unit) engine_adapter \<Rightarrow> (string \<Rightarrow> bytes option, BackupExecutionResult) job" and w
    unfolding engine_session_def
    by (subst retry_job_first [OF creds]) (simp_all add: retry_configs tls_job_def spec closing_def retry_job_first [OF connect(1)])
  have "ExecuteBackup benv_x resource_x Map.empty = engine_session (bx_engine benv_x) backup_errors (ri_Spec resolved) (ri_CredentialNamespace resolved) (\<lambda>a w.
       then_do (NewBackupWriter archive_x cfg) ''create backup writer: '' (store_backup benv_x resource_x database_x resolved a) w) Map.empty"
    by (simp add: ExecuteBackup_def then_do_def backup_GetDatabase_def ResolveInstanceForDatabase_def Resolve_def resolveNamespacedInstance_def check_def
        benv_x_def Let_def database_x_def instance_x_def cfg_def resolved_def timer_x_def)
  also have "\<dots> = Some (w2, Inr res)" unfolding session by (simp add: closing_def then_do_def new store connect)
  finally show ?thesis using store(2) by blast
qed


text \<open>A cluster with one pending backup of a ready database, where every call succeeds.\<close>

definition bctl_x :: "unit backup_ctl" where
  "bctl_x =
     \<lparr>bkc_runtime = \<lparr>rt_Now = (\<lambda>_. 100), rt_IsNotFound = (\<lambda>e. e = ErrNotFound), rt_Record = (\<lambda>_ w. w),
        rt_ContainsFinalizer = (\<lambda>m f. f \<in> set (om_finalizers m)), rt_AddFinalizer = (\<lambda>m f. m\<lparr>om_finalizers := f # om_finalizers m\<rparr>),
        rt_RemoveFinalizer = (\<lambda>m f. m\<lparr>om_finalizers := removeAll f (om_finalizers m)\<rparr>)\<rparr>,
      bkc_client = \<lparr>cl_Get = (\<lambda>_ _. ret resource_x), cl_Update = ret, cl_Status_Update = ret\<rparr>,
      bkc_Delete = (\<lambda>_. ret ()),
      bkc_handler = \<lparr>bh_repo = \<lparr>bp_ExecuteBackup = (\<lambda>_. ret \<lparr>ber_Path = ''p'', ber_SizeBytes = 3, ber_CompressedSizeBytes = 0, ber_Checksum = '''',
            ber_Format = ''custom'', ber_Duration = 0, ber_Instance = ''pg'', ber_Database = ''app'', ber_Engine = EngineTypePostgres, ber_Version = ''16''\<rparr>),
          bp_DeleteBackup = (\<lambda>_. ret ()), bp_GetDatabase = (\<lambda>_. ret database_x), bp_GetInstance = (\<lambda>_. ret instance_x),
          bp_GetEngine = (\<lambda>_. ret EngineTypePostgres)\<rparr>,
        bh_eventBus = None, bh_Now = (\<lambda>_. 100), bh_instanceConnected = (\<lambda>_. Map.empty)\<rparr>,
      bkc_ParseDuration = (\<lambda>_. None)\<rparr>"


end
