(* ===== verification/Restore_Feature.thy ===== *)
theory Restore_Feature
  imports Backup_Feature
begin

text \<open>
  Restores: the resource (\<^verbatim>\<open>api/v1alpha1/databaserestore_types.go\<close> and the restore types of
  \<^verbatim>\<open>postgres_types.go\<close> and \<^verbatim>\<open>mysql_types.go\<close>) and \<^verbatim>\<open>repository.go\<close>,
  \<^verbatim>\<open>handler.go\<close> and \<^verbatim>\<open>controller.go\<close> of \<^verbatim>\<open>internal/features/restore\<close>.
  The handler sees the repository through the interface of \<^verbatim>\<open>api.go\<close>, the record
  \<open>restore_repo\<close>, where a reader is a handle of type \<open>'rd\<close>, and is modelled on calls that return. Metrics and
  logs are left out.
\<close>

section \<open>The resource\<close>

record PostgresRestoreConfig =
  psr_DropExisting :: bool
  psr_CreateDatabase :: bool
  psr_DataOnly :: bool
  psr_SchemaOnly :: bool
  psr_NoOwner :: bool
  psr_NoPrivileges :: bool
  psr_RoleMapping :: "string go_map"
  psr_Schemas :: "string list"
  psr_Tables :: "string list"
  psr_Jobs :: int
  psr_DisableTriggers :: bool
  psr_Analyze :: bool

record MySQLRestoreConfig =
  msr_DropExisting :: bool
  msr_CreateDatabase :: bool
  msr_Routines :: bool
  msr_Triggers :: bool
  msr_Events :: bool
  msr_DisableForeignKeyChecks :: bool
  msr_DisableBinlog :: bool

record BackupReference =
  bref_Name :: string
  bref_Namespace :: string

record RestoreFromPath =
  rfp_Storage :: StorageConfig
  rfp_BackupPath :: string
  rfp_Compression :: "CompressionConfig option"
  rfp_Encryption :: "EncryptionConfig option"

record RestoreTarget =
  rtg_InstanceRef :: "InstanceReference option"
  rtg_ClusterInstanceRef :: "ClusterInstanceReference option"
  rtg_DatabaseName :: string
  rtg_InPlace :: bool
  rtg_DatabaseRef :: "DatabaseReference option"

record RestoreConfirmation =
  rcn_AcknowledgeDataLoss :: string

record DatabaseRestoreSpec =
  rsp_BackupRef :: "BackupReference option"
  rsp_FromPath :: "RestoreFromPath option"
  rsp_Target :: RestoreTarget
  rsp_Confirmation :: "RestoreConfirmation option"
  rsp_ActiveDeadlineSeconds :: int
  rsp_Postgres :: "PostgresRestoreConfig option"
  rsp_MySQL :: "MySQLRestoreConfig option"

record RestoreInfo =
  rin_SourceBackup :: string
  rin_TargetInstance :: string
  rin_TargetDatabase :: string

record RestoreProgress =
  rpg_Percentage :: int
  rpg_CurrentPhase :: string
  rpg_TablesRestored :: int
  rpg_TablesTotal :: int

record DatabaseRestoreStatus =
  rst_Phase :: Phase
  rst_StartedAt :: "int option"
  rst_CompletedAt :: "int option"
  rst_Message :: string
  rst_Restore :: "RestoreInfo option"
  rst_Progress :: "RestoreProgress option"
  rst_Warnings :: "string list"
  rst_Conditions :: "Condition list"

record Restore_Resource =
  rsc_meta :: object_meta
  rsc_Spec :: DatabaseRestoreSpec
  rsc_Status :: DatabaseRestoreStatus

abbreviation rsc_name :: "Restore_Resource \<Rightarrow> string" where "rsc_name r \<equiv> om_name (rsc_meta r)"
abbreviation rsc_ns :: "Restore_Resource \<Rightarrow> string" where "rsc_ns r \<equiv> om_namespace (rsc_meta r)"

definition RestoreConfirmDataLoss :: string where "RestoreConfirmDataLoss = ''I-UNDERSTAND-DATA-LOSS''"

section \<open>The repository\<close>

record ('w, 'rd) restore_env =
  rx_engine :: "('w, 'rd) engine_env"
  rx_access :: "'w access"
  rx_Backup :: "string \<Rightarrow> string \<Rightarrow> ('w, Backup_Resource) op"
  rx_Database :: "string \<Rightarrow> string \<Rightarrow> ('w, Database_Resource) op"

definition restore_GetBackup :: "('w, 'rd) restore_env \<Rightarrow> string \<Rightarrow> BackupReference \<Rightarrow> ('w, Backup_Resource) op" where
  "restore_GetBackup h namespace ref = rx_Backup h (or_default (bref_Namespace ref) namespace) (bref_Name ref)"

definition restore_GetDatabase :: "('w, 'rd) restore_env \<Rightarrow> string \<Rightarrow> DatabaseReference \<Rightarrow> ('w, Database_Resource) op" where
  "restore_GetDatabase h namespace ref = rx_Database h (or_default (dref_Namespace ref) namespace) (dref_Name ref)"

definition restore_GetInstance :: "('w, 'rd) restore_env \<Rightarrow> string \<Rightarrow> InstanceReference option \<Rightarrow> ('w, DatabaseInstance) op" where
  "restore_GetInstance h namespace instanceRef =
     (case instanceRef of
        None \<Rightarrow> fail (OtherError ''instanceRef not specified'' None)
      | Some ref \<Rightarrow> ac_Instance (rx_access h) (or_default (ir_Namespace ref) namespace) (ir_Name ref))"

definition restore_ResolveInstance ::
  "('w, 'rd) restore_env \<Rightarrow> string \<Rightarrow> InstanceReference option \<Rightarrow> ClusterInstanceReference option \<Rightarrow> ('w, ResolvedInstance) op" where
  "restore_ResolveInstance h namespace instanceRef clusterInstanceRef = Resolve (rx_access h) instanceRef clusterInstanceRef namespace"

definition CreateRestoreReader :: "('w, 'k, 'z) archive_env \<Rightarrow> RestoreReaderConfig \<Rightarrow> ('w, ('w, 'z) RestoreReader) op" where
  "CreateRestoreReader h cfg = NewRestoreReader h cfg"

definition restore_errors :: session_errors where
  "restore_errors =
     \<lparr>se_credentials = (\<lambda>n. ''failed to get credentials after '' @ FormatInt n @ '' attempts: ''),
      se_tls = (\<lambda>_. ''failed to get TLS credentials: ''), se_adapter = (\<lambda>engine. ''unsupported database engine '' @ engine @ '': ''),
      se_connect = (\<lambda>n. ''failed to connect to database after '' @ FormatInt n @ '' attempts: '')\<rparr>"

definition executeRestoreInternal ::
  "('w, 'rd) restore_env \<Rightarrow> DatabaseInstanceSpec \<Rightarrow> string \<Rightarrow> 'rd RestoreOptions \<Rightarrow> ('w, RestoreResult) job" where
  "executeRestoreInternal h spec credentialNamespace opts =
     engine_session (rx_engine h) restore_errors spec credentialNamespace (\<lambda>a.
       retry_job (ee_timer (rx_engine h)) BackupRetryConfig (ea_Restore a opts) (\<lambda>n. ''restore failed after '' @ FormatInt n @ '' attempts: '')
         (\<lambda>r w. Some (w, Inr r)))"

definition ExecuteRestore :: "('w, 'rd) restore_env \<Rightarrow> DatabaseInstance \<Rightarrow> 'rd RestoreOptions \<Rightarrow> ('w, RestoreResult) job" where
  "ExecuteRestore h inst opts = executeRestoreInternal h (di_Spec inst) (di_Namespace inst) opts"

definition ExecuteRestoreWithResolved :: "('w, 'rd) restore_env \<Rightarrow> ResolvedInstance \<Rightarrow> 'rd RestoreOptions \<Rightarrow> ('w, RestoreResult) job" where
  "ExecuteRestoreWithResolved h resolved opts = executeRestoreInternal h (ri_Spec resolved) (ri_CredentialNamespace resolved) opts"

definition restore_GetEngine :: "('w, 'rd) restore_env \<Rightarrow> string \<Rightarrow> InstanceReference option \<Rightarrow> ('w, string) op" where
  "restore_GetEngine h namespace instanceRef =
     check (restore_GetInstance h namespace instanceRef) as_is (\<lambda>inst. ret (dis_Engine (di_Spec inst)))"

definition GetEngineWithRefs ::
  "('w, 'rd) restore_env \<Rightarrow> string \<Rightarrow> InstanceReference option \<Rightarrow> ClusterInstanceReference option \<Rightarrow> ('w, string) op" where
  "GetEngineWithRefs h namespace instanceRef clusterInstanceRef =
     check (restore_ResolveInstance h namespace instanceRef clusterInstanceRef) as_is (\<lambda>resolved. ret (ri_Engine resolved))"

section \<open>The handler\<close>

record Restore_Result =
  rres_TargetDatabase :: string
  rres_TargetInstance :: string
  rres_SourceBackup :: string
  rres_TablesRestored :: int
  rres_Duration :: duration
  rres_Warnings :: "string list"

record ('w, 'rd) restore_repo =
  rrp_GetBackup :: "string \<Rightarrow> BackupReference \<Rightarrow> ('w, Backup_Resource) op"
  rrp_GetDatabase :: "string \<Rightarrow> DatabaseReference \<Rightarrow> ('w, Database_Resource) op"
  rrp_ResolveInstance :: "string \<Rightarrow> InstanceReference option \<Rightarrow> ClusterInstanceReference option \<Rightarrow> ('w, ResolvedInstance) op"
  rrp_CreateRestoreReader :: "RestoreReaderConfig \<Rightarrow> ('w, 'rd) op"
  rrp_CloseReader :: "'rd \<Rightarrow> ('w, unit) op"
  rrp_ExecuteRestore :: "ResolvedInstance \<Rightarrow> 'rd RestoreOptions \<Rightarrow> ('w, RestoreResult) op"

text \<open>The flag \<open>rh_paused\<close> is part of the world; the events of instances set and clear it, whatever the instance.\<close>

record ('w, 'rd) restore_handler =
  rh_repo :: "('w, 'rd) restore_repo"
  rh_eventBus :: "(BusEvent \<Rightarrow> 'w \<Rightarrow> 'w) option"
  rh_Now :: "'w \<Rightarrow> int"
  rh_paused :: "'w \<Rightarrow> bool"
  rh_IsNotFound :: "go_error \<Rightarrow> bool"

definition restore_OnInstanceDisconnected :: "string \<Rightarrow> string \<Rightarrow> bool \<Rightarrow> bool" where
  "restore_OnInstanceDisconnected namespace name paused = True"

definition restore_OnInstanceConnected :: "string \<Rightarrow> string \<Rightarrow> bool \<Rightarrow> bool" where
  "restore_OnInstanceConnected namespace name paused = False"

definition target_missing :: string where
  "target_missing = ''either target.instanceRef, target.clusterInstanceRef, or target.databaseRef (with inPlace: true) must be specified''"

definition resolveTarget :: "('w, 'rd) restore_handler \<Rightarrow> Restore_Resource \<Rightarrow> ('w, ResolvedInstance \<times> string) op" where
  "resolveTarget h restore =
     (let target = rsp_Target (rsc_Spec restore)
      in case (if rtg_InPlace target then rtg_DatabaseRef target else None) of
           Some ref \<Rightarrow>
             check (rrp_GetDatabase (rh_repo h) (rsc_ns restore) ref)
               (\<lambda>e w. if rh_IsNotFound h e then OtherError (''target database '' @ dref_Name ref @ '' not found'') None
                      else Errorf_w ''get target database: '' e) (\<lambda>targetDB.
             check (rrp_ResolveInstance (rh_repo h) (om_namespace (dbr_meta targetDB)) (dbr_InstanceRef targetDB) (dbr_ClusterInstanceRef targetDB))
               (\<lambda>e w. Errorf_w (''resolve instance for database '' @ om_name (dbr_meta targetDB) @ '': '') e) (\<lambda>resolved.
             ret (resolved, dbr_Name targetDB)))
         | None \<Rightarrow>
             if rtg_InstanceRef target \<noteq> None \<or> rtg_ClusterInstanceRef target \<noteq> None then
               check (rrp_ResolveInstance (rh_repo h) (rsc_ns restore) (rtg_InstanceRef target) (rtg_ClusterInstanceRef target))
                 (\<lambda>e w. Errorf_w ''resolve target instance: '' e) (\<lambda>resolved. ret (resolved, rtg_DatabaseName target))
             else fail (OtherError target_missing None))"

record RestoreSource =
  rso_Backup :: "Backup_Resource option"
  rso_Path :: string
  rso_Storage :: "StorageConfig option"
  rso_Compression :: "CompressionConfig option"
  rso_Encryption :: "EncryptionConfig option"

definition resolveSource :: "('w, 'rd) restore_handler \<Rightarrow> Restore_Resource \<Rightarrow> ('w, RestoreSource) op" where
  "resolveSource h restore =
     (case rsp_BackupRef (rsc_Spec restore) of
        Some ref \<Rightarrow>
          check (rrp_GetBackup (rh_repo h) (rsc_ns restore) ref) (\<lambda>e w. Errorf_w ''get backup: '' e) (\<lambda>b.
            ret \<lparr>rso_Backup = Some b, rso_Path = (case bkt_Backup (bkr_Status b) of None \<Rightarrow> '''' | Some f \<Rightarrow> bkf_Path f),
                 rso_Storage = Some (bks_Storage (bkr_Spec b)), rso_Compression = bks_Compression (bkr_Spec b),
                 rso_Encryption = bks_Encryption (bkr_Spec b)\<rparr>)
      | None \<Rightarrow>
          (case rsp_FromPath (rsc_Spec restore) of
             Some p \<Rightarrow> ret \<lparr>rso_Backup = None, rso_Path = rfp_BackupPath p, rso_Storage = Some (rfp_Storage p),
                            rso_Compression = rfp_Compression p, rso_Encryption = rfp_Encryption p\<rparr>
           | None \<Rightarrow> ret \<lparr>rso_Backup = None, rso_Path = '''', rso_Storage = None, rso_Compression = None, rso_Encryption = None\<rparr>))"

definition empty_RestoreOptions :: "'rd \<Rightarrow> 'rd RestoreOptions" where
  "empty_RestoreOptions reader =
     \<lparr>ro_Database = '''', ro_RestoreID = '''', ro_Reader = reader, ro_DropExisting = False, ro_CreateDatabase = False, ro_DataOnly = False,
      ro_SchemaOnly = False, ro_NoOwner = False, ro_NoPrivileges = False, ro_RoleMapping = [], ro_Schemas = [], ro_Tables = [], ro_Jobs = 0,
      ro_DisableTriggers = False, ro_Analyze = False, ro_Routines = False, ro_Triggers = False, ro_Events = False,
      ro_DisableForeignKeyChecks = False, ro_DisableBinlog = False\<rparr>"

definition buildRestoreOptions :: "Restore_Resource \<Rightarrow> string \<Rightarrow> EngineType \<Rightarrow> 'rd \<Rightarrow> 'rd RestoreOptions" where
  "buildRestoreOptions restore targetDatabase engine reader =
     (let opts = (empty_RestoreOptions reader)\<lparr>ro_Database := targetDatabase, ro_RestoreID := om_uid (rsc_meta restore)\<rparr>;
          opts = (if rtg_InPlace (rsp_Target (rsc_Spec restore)) then opts\<lparr>ro_DropExisting := True\<rparr> else opts)
      in if engine = EngineTypePostgres then
           (case rsp_Postgres (rsc_Spec restore) of
              Some p \<Rightarrow>
                opts\<lparr>ro_DropExisting := psr_DropExisting p \<or> ro_DropExisting opts, ro_CreateDatabase := psr_CreateDatabase p,
                  ro_DataOnly := psr_DataOnly p, ro_SchemaOnly := psr_SchemaOnly p, ro_NoOwner := psr_NoOwner p,
                  ro_NoPrivileges := psr_NoPrivileges p, ro_RoleMapping := psr_RoleMapping p, ro_Schemas := psr_Schemas p,
                  ro_Tables := psr_Tables p, ro_Jobs := psr_Jobs p, ro_DisableTriggers := psr_DisableTriggers p, ro_Analyze := psr_Analyze p\<rparr>
            | None \<Rightarrow> opts\<lparr>ro_CreateDatabase := True, ro_NoOwner := True, ro_Jobs := 1, ro_Analyze := True\<rparr>)
         else if engine = EngineTypeMySQL then
           (case rsp_MySQL (rsc_Spec restore) of
              Some m \<Rightarrow>
                opts\<lparr>ro_DropExisting := msr_DropExisting m \<or> ro_DropExisting opts, ro_CreateDatabase := msr_CreateDatabase m,
                  ro_Routines := msr_Routines m, ro_Triggers := msr_Triggers m, ro_Events := msr_Events m,
                  ro_DisableForeignKeyChecks := msr_DisableForeignKeyChecks m, ro_DisableBinlog := msr_DisableBinlog m\<rparr>
            | None \<Rightarrow>
                opts\<lparr>ro_CreateDatabase := True, ro_Routines := True, ro_Triggers := True, ro_Events := True,
                  ro_DisableForeignKeyChecks := True, ro_DisableBinlog := True\<rparr>)
         else opts)"

definition restore_publish :: "('w, 'rd) restore_handler \<Rightarrow> (int \<Rightarrow> BusEvent) \<Rightarrow> 'w \<Rightarrow> 'w" where
  "restore_publish h = publish_on (rh_eventBus h) (rh_Now h)"

text \<open>With the reader open: restore, publish the outcome, and close the reader last.\<close>

definition restore_from_reader ::
  "('w, 'rd) restore_handler \<Rightarrow> Restore_Resource \<Rightarrow> ResolvedInstance \<Rightarrow> string \<Rightarrow> string \<Rightarrow> int \<Rightarrow> 'rd \<Rightarrow> ('w, Restore_Result) op" where
  "restore_from_reader h restore resolved targetDatabase backupName startTime reader w =
     (case rrp_ExecuteRestore (rh_repo h) resolved
             (buildRestoreOptions restore targetDatabase (dis_Engine (ri_Spec resolved)) reader) w of
        (w1, Inl e) \<Rightarrow>
          (fst (rrp_CloseReader (rh_repo h) reader
             (restore_publish h (\<lambda>now. NewRestoreFailed now now (rsc_name restore) backupName targetDatabase (rsc_ns restore) (Error e)) w1)),
           Inl (Errorf_w ''execute restore: '' e))
      | (w1, Inr result) \<Rightarrow>
          (let duration = time_Sub (rh_Now h w1) startTime
           in (fst (rrp_CloseReader (rh_repo h) reader
                 (restore_publish h (\<lambda>now. NewRestoreCompleted now (rsc_name restore) backupName targetDatabase (rsc_ns restore) duration) w1)),
               Inr \<lparr>rres_TargetDatabase = rsr_TargetDatabase result, rres_TargetInstance = ri_Name resolved, rres_SourceBackup = backupName,
                    rres_TablesRestored = rsr_TablesRestored result, rres_Duration = duration, rres_Warnings = rsr_Warnings result\<rparr>)))"

definition restore_Execute :: "('w, 'rd) restore_handler \<Rightarrow> Restore_Resource \<Rightarrow> ('w, Restore_Result) op" where
  "restore_Execute h restore w =
     (if rh_paused h w then (w, Inl (OtherError ''restore operations are paused due to instance disconnection'' None))
      else
        (let startTime = rh_Now h w
         in check (resolveTarget h restore) (\<lambda>e w. Errorf_w ''resolve target: '' e) (\<lambda>(resolved, targetDatabase).
            if \<not> IsReady resolved
            then fail (OtherError (''instance '' @ ri_Name resolved @ '' is not ready (phase: '' @ ri_Phase resolved @ '')'') None)
            else
              check (resolveSource h restore) (\<lambda>e w. Errorf_w ''resolve source: '' e) (\<lambda>source.
              if rso_Path source = '''' then fail (OtherError ''backup path not found'' None)
              else
                (\<lambda>w. let backupName = (case rso_Backup source of None \<Rightarrow> '''' | Some b \<Rightarrow> bkr_name b);
                         w1 = restore_publish h (\<lambda>now. NewRestoreStarted now now (rsc_name restore) backupName targetDatabase (rsc_ns restore)) w
                     in case rrp_CreateRestoreReader (rh_repo h)
                               \<lparr>rrc_StorageConfig = rso_Storage source, rrc_CompressionConfig = rso_Compression source,
                                rrc_EncryptionConfig = rso_Encryption source, rrc_Namespace = rsc_ns restore, rrc_BackupPath = rso_Path source\<rparr> w1 of
                          (w2, Inl e) \<Rightarrow>
                            (restore_publish h (\<lambda>now. NewRestoreFailed now now (rsc_name restore) backupName targetDatabase (rsc_ns restore) (Error e)) w2,
                             Inl (Errorf_w ''create restore reader: '' e))
                        | (w2, Inr reader) \<Rightarrow> restore_from_reader h restore resolved targetDatabase backupName startTime reader w2))) w))"

text \<open>A validation error is a value of its own type; other errors come from the client.\<close>

datatype validation = ValidationError string string | ValidationFailed go_error

definition validation_text :: "string \<Rightarrow> string \<Rightarrow> string" where
  "validation_text field message = field @ '': '' @ message"

definition ValidateSpec :: "('w, 'rd) restore_handler \<Rightarrow> Restore_Resource \<Rightarrow> 'w \<Rightarrow> 'w \<times> validation option" where
  "ValidateSpec h restore w =
     (let spec = rsc_Spec restore; target = rsp_Target spec
      in if rsp_BackupRef spec = None \<and> rsp_FromPath spec = None
         then (w, Some (ValidationError ''spec'' ''either backupRef or fromPath must be specified''))
         else if rtg_InPlace target \<and> map_option rcn_AcknowledgeDataLoss (rsp_Confirmation spec) \<noteq> Some RestoreConfirmDataLoss
         then (w, Some (ValidationError ''spec.confirmation.acknowledgeDataLoss''
                (''in-place restore requires confirmation.acknowledgeDataLoss to be set to '' @ [CHR 0x27] @ RestoreConfirmDataLoss @ [CHR 0x27])))
         else if \<not> rtg_InPlace target \<and> rtg_InstanceRef target = None \<and> rtg_ClusterInstanceRef target = None \<and> rtg_DatabaseRef target = None
         then (w, Some (ValidationError ''spec.target'' target_missing))
         else case rsp_BackupRef spec of
           None \<Rightarrow> (w, None)
         | Some ref \<Rightarrow>
             (case rrp_GetBackup (rh_repo h) (rsc_ns restore) ref w of
                (w1, Inl e) \<Rightarrow>
                  (w1, Some (if rh_IsNotFound h e
                             then ValidationError ''spec.backupRef'' (''referenced backup '' @ bref_Name ref @ '' not found'')
                             else ValidationFailed (Errorf_w ''get backup: '' e)))
              | (w1, Inr b) \<Rightarrow>
                  (w1, if bphase b \<noteq> PhaseCompleted
                       then Some (ValidationError ''spec.backupRef'' (''backup '' @ bkr_name b @ '' is not completed (phase: '' @ bphase b @ '')''))
                       else None)))"

text \<open>Seconds times \<^verbatim>\<open>time.Second\<close> wraps around at 64 bits.\<close>

definition CheckDeadline :: "('w, 'rd) restore_handler \<Rightarrow> Restore_Resource \<Rightarrow> 'w \<Rightarrow> bool" where
  "CheckDeadline h restore w \<longleftrightarrow>
     (case rst_StartedAt (rsc_Status restore) of
        None \<Rightarrow> False
      | Some start \<Rightarrow>
          rsp_ActiveDeadlineSeconds (rsc_Spec restore) > 0 \<and>
          rh_Now h w > start + wrap64 (rsp_ActiveDeadlineSeconds (rsc_Spec restore) * Second))"

definition rphase :: "Restore_Resource \<Rightarrow> Phase" where
  "rphase r = rst_Phase (rsc_Status r)"

definition IsTerminal :: "Restore_Resource \<Rightarrow> bool" where
  "IsTerminal restore \<longleftrightarrow> rphase restore = PhaseCompleted \<or> rphase restore = PhaseFailed"

section \<open>The controller\<close>

record ('w, 'rd) restore_ctl =
  rcl_runtime :: "'w runtime"
  rcl_client :: "('w, Restore_Resource) client"
  rcl_handler :: "('w, 'rd) restore_handler"

abbreviation rcl_Now :: "('w, 'rd) restore_ctl \<Rightarrow> 'w \<Rightarrow> int" where
  "rcl_Now h \<equiv> rt_Now (rcl_runtime h)"

definition restore_RequeueAfterError :: duration where "restore_RequeueAfterError = 30 * Second"
definition restore_RequeueAfterPending :: duration where "restore_RequeueAfterPending = 10 * Second"
definition FinalizerDatabaseRestore :: string where "FinalizerDatabaseRestore = ''dbops.dbprovision.io/restore-protection''"

definition with_rstatus :: "(DatabaseRestoreStatus \<Rightarrow> DatabaseRestoreStatus) \<Rightarrow> Restore_Resource \<Rightarrow> Restore_Resource" where
  "with_rstatus f r = r\<lparr>rsc_Status := f (rsc_Status r)\<rparr>"

definition in_rstate :: "int \<Rightarrow> Phase \<Rightarrow> string \<Rightarrow> string \<Rightarrow> string \<Rightarrow> Restore_Resource \<Rightarrow> Restore_Resource" where
  "in_rstate now phase message reason condition =
     with_rstatus (\<lambda>st. st\<lparr>rst_Phase := phase, rst_Message := message,
       rst_Conditions := SetReadyCondition now ConditionFalse reason condition (rst_Conditions st)\<rparr>)"

text \<open>A status write whose error is only logged.\<close>

definition restore_status_write :: "('w, 'rd) restore_ctl \<Rightarrow> Restore_Resource \<Rightarrow> 'w \<Rightarrow> 'w \<times> Restore_Resource" where
  "restore_status_write h r w =
     (case cl_Status_Update (rcl_client h) r w of (w', Inl e) \<Rightarrow> (w', r) | (w', Inr r') \<Rightarrow> (w', r'))"

definition restore_handleDeletion :: "('w, 'rd) restore_ctl \<Rightarrow> Restore_Resource \<Rightarrow> 'w reconciler" where
  "restore_handleDeletion h restore w =
     (if \<not> rt_ContainsFinalizer (rcl_runtime h) (rsc_meta restore) FinalizerDatabaseRestore then (w, no_requeue, None)
      else case cl_Update (rcl_client h) (restore\<lparr>rsc_meta := rt_RemoveFinalizer (rcl_runtime h) (rsc_meta restore) FinalizerDatabaseRestore\<rparr>) w of
        (w1, Inl e) \<Rightarrow> (w1, no_requeue, Some e)
      | (w1, Inr _) \<Rightarrow> (w1, no_requeue, None))"

definition handleDeadlineExceeded :: "('w, 'rd) restore_ctl \<Rightarrow> Restore_Resource \<Rightarrow> string \<Rightarrow> 'w reconciler" where
  "handleDeadlineExceeded h restore message w =
     (let w1 = recordf (rcl_runtime h) EventTypeWarning ''DeadlineExceeded'' (''Restore deadline exceeded: '' @ message) w
      in (fst (restore_status_write h (in_rstate (rcl_Now h w1) PhaseFailed message ''DeadlineExceeded'' message restore) w1), no_requeue, None))"

definition handleValidationError :: "('w, 'rd) restore_ctl \<Rightarrow> Restore_Resource \<Rightarrow> string \<Rightarrow> 'w reconciler" where
  "handleValidationError h restore text w =
     (let w1 = recordf (rcl_runtime h) EventTypeWarning ''ValidationFailed'' (''Restore validation failed: '' @ text) w
      in (fst (restore_status_write h (in_rstate (rcl_Now h w1) PhaseFailed text ''ValidationFailed'' text restore) w1), no_requeue, None))"

definition restore_handleError :: "('w, 'rd) restore_ctl \<Rightarrow> Restore_Resource \<Rightarrow> go_error \<Rightarrow> string \<Rightarrow> 'w reconciler" where
  "restore_handleError h restore err operation w =
     (let w1 = recordf (rcl_runtime h) EventTypeWarning ''Failed'' (''Restore failed to '' @ operation @ '': '' @ Error err) w;
          failed = in_rstate (rcl_Now h w1) PhaseFailed (''Failed to '' @ operation @ '': '' @ Error err) ''ReconcileFailed'' (Error err) restore
      in (fst (restore_status_write h failed w1), requeue_after restore_RequeueAfterError, Some err))"

definition restore_handlePending :: "('w, 'rd) restore_ctl \<Rightarrow> Restore_Resource \<Rightarrow> string \<Rightarrow> 'w reconciler" where
  "restore_handlePending h restore message w =
     (fst (restore_status_write h (in_rstate (rcl_Now h w) PhasePending message ''Reconciling'' message restore) w),
      requeue_after restore_RequeueAfterPending, None)"

definition handleCompleted :: "('w, 'rd) restore_ctl \<Rightarrow> Restore_Resource \<Rightarrow> Restore_Result \<Rightarrow> 'w reconciler" where
  "handleCompleted h restore result w =
     (let now = rcl_Now h w;
          done = with_rstatus (\<lambda>st. st\<lparr>rst_Phase := PhaseCompleted, rst_Message := ''Restore completed successfully'', rst_CompletedAt := Some now,
            rst_Restore := Some \<lparr>rin_SourceBackup = rres_SourceBackup result, rin_TargetInstance = rres_TargetInstance result,
              rin_TargetDatabase = rres_TargetDatabase result\<rparr>,
            rst_Progress := Some \<lparr>rpg_Percentage = 100, rpg_CurrentPhase = ''Completed'', rpg_TablesRestored = rres_TablesRestored result,
              rpg_TablesTotal = rres_TablesRestored result\<rparr>,
            rst_Warnings := rres_Warnings result,
            rst_Conditions := SetReadyCondition now ConditionTrue ''Ready'' ''DatabaseRestore is ready''
              (SetSyncedCondition now ConditionTrue ''RestoreCompleted'' ''Restore completed successfully'' (rst_Conditions st))\<rparr>) restore
      in case cl_Status_Update (rcl_client h) done w of
           (w1, Inl e) \<Rightarrow> (w1, no_requeue, Some e)
         | (w1, Inr _) \<Rightarrow>
             (recordf (rcl_runtime h) EventTypeNormal ''Completed''
                (''Restore completed successfully, '' @ FormatInt (rres_TablesRestored result) @ '' tables restored'') w1, no_requeue, None))"

text \<open>The start of the first attempt is kept.\<close>

definition first_start :: "int \<Rightarrow> int option \<Rightarrow> int option" where
  "first_start now start = (case start of None \<Rightarrow> Some now | Some s \<Rightarrow> Some s)"

definition run_restore :: "('w, 'rd) restore_ctl \<Rightarrow> Restore_Resource \<Rightarrow> ResolvedInstance \<Rightarrow> 'w reconciler" where
  "run_restore h restore target w =
     (let running = with_rstatus (\<lambda>st. st\<lparr>rst_Phase := PhaseRunning, rst_Message := ''Restore in progress'',
            rst_StartedAt := first_start (rcl_Now h w) (rst_StartedAt st),
            rst_Progress := Some \<lparr>rpg_Percentage = 0, rpg_CurrentPhase = ''Starting'', rpg_TablesRestored = 0, rpg_TablesTotal = 0\<rparr>\<rparr>) restore
      in case restore_status_write h running w of
           (w1, restore1) \<Rightarrow>
             (case restore_Execute (rcl_handler h) restore1
                     (recordf (rcl_runtime h) EventTypeNormal ''Started'' (''Restore started for target '' @ ri_Name target) w1) of
                (w2, Inl e) \<Rightarrow> restore_handleError h restore1 e ''execute restore'' w2
              | (w2, Inr result) \<Rightarrow> handleCompleted h restore1 result w2))"

definition check_target :: "('w, 'rd) restore_ctl \<Rightarrow> Restore_Resource \<Rightarrow> 'w reconciler" where
  "check_target h restore w =
     (case resolveTarget (rcl_handler h) restore w of
        (w1, Inl e) \<Rightarrow>
          if rt_IsNotFound (rcl_runtime h) e then restore_handlePending h restore (Error e) w1
          else restore_handleError h restore e ''resolve target'' w1
      | (w1, Inr (target, _)) \<Rightarrow>
          if \<not> IsReady target
          then restore_handlePending h restore
                 (''Waiting for instance '' @ ri_Name target @ '' to be ready (current phase: '' @ ri_Phase target @ '')'') w1
          else run_restore h restore target w1)"

definition check_source :: "('w, 'rd) restore_ctl \<Rightarrow> Restore_Resource \<Rightarrow> 'w reconciler" where
  "check_source h restore w =
     (case rsp_BackupRef (rsc_Spec restore) of
        None \<Rightarrow> check_target h restore w
      | Some ref \<Rightarrow>
          (case rrp_GetBackup (rh_repo (rcl_handler h)) (rsc_ns restore) ref w of
             (w1, Inl e) \<Rightarrow>
               if rt_IsNotFound (rcl_runtime h) e
               then restore_handlePending h restore (''Waiting for DatabaseBackup '' @ bref_Name ref) w1
               else restore_handleError h restore e ''get backup'' w1
           | (w1, Inr b) \<Rightarrow>
               if bphase b \<noteq> PhaseCompleted
               then restore_handlePending h restore (''Waiting for DatabaseBackup '' @ bkr_name b @ '' to complete'') w1
               else check_target h restore w1))"

definition restore_reconcile :: "('w, 'rd) restore_ctl \<Rightarrow> Restore_Resource \<Rightarrow> 'w reconciler" where
  "restore_reconcile h restore w =
     (if rphase restore = '''' then restore_handlePending h restore ''Initializing restore'' w
      else case ValidateSpec (rcl_handler h) restore w of
        (w1, Some (ValidationError field message)) \<Rightarrow> handleValidationError h restore (validation_text field message) w1
      | (w1, Some (ValidationFailed e)) \<Rightarrow> restore_handleError h restore e ''validate spec'' w1
      | (w1, None) \<Rightarrow> check_source h restore w1)"

definition restore_phases :: "('w, 'rd) restore_ctl \<Rightarrow> Restore_Resource \<Rightarrow> 'w reconciler" where
  "restore_phases h restore w =
     (if IsTerminal restore then (w, no_requeue, None)
      else if CheckDeadline (rcl_handler h) restore w then handleDeadlineExceeded h restore ''Restore exceeded active deadline'' w
      else restore_reconcile h restore w)"

definition restore_Reconcile :: "('w, 'rd) restore_ctl \<Rightarrow> string \<Rightarrow> string \<Rightarrow> 'w reconciler" where
  "restore_Reconcile h namespace name w =
     (case cl_Get (rcl_client h) namespace name w of
        (w1, Inl e) \<Rightarrow> (w1, no_requeue, if rt_IsNotFound (rcl_runtime h) e then None else Some e)
      | (w1, Inr restore) \<Rightarrow>
          if ShouldSkipReconcile (rsc_meta restore) then (w1, no_requeue, None)
          else if IsMarkedForDeletion (rsc_meta restore) then restore_handleDeletion h restore w1
          else if \<not> rt_ContainsFinalizer (rcl_runtime h) (rsc_meta restore) FinalizerDatabaseRestore then
            (case cl_Update (rcl_client h) (restore\<lparr>rsc_meta := rt_AddFinalizer (rcl_runtime h) (rsc_meta restore) FinalizerDatabaseRestore\<rparr>) w1 of
               (w2, Inl e) \<Rightarrow> (w2, no_requeue, Some e)
             | (w2, Inr restore1) \<Rightarrow> restore_phases h restore1 w2)
          else restore_phases h restore w1)"

section \<open>Recorded runs\<close>

datatype 'rd restore_call =
    RStatus Restore_Resource "go_error option"
  | RUpdate Restore_Resource "go_error option"
  | RExecute ResolvedInstance "'rd RestoreOptions" "go_error option"

definition watched_rrepo :: "('w, 'rd) restore_repo \<Rightarrow> ('w \<times> 'rd restore_call list, 'rd) restore_repo" where
  "watched_rrepo r =
     \<lparr>rrp_GetBackup = (\<lambda>ns b. unlogged (rrp_GetBackup r ns b)), rrp_GetDatabase = (\<lambda>ns d. unlogged (rrp_GetDatabase r ns d)),
      rrp_ResolveInstance = (\<lambda>ns i c. unlogged (rrp_ResolveInstance r ns i c)),
      rrp_CreateRestoreReader = (\<lambda>cfg. unlogged (rrp_CreateRestoreReader r cfg)), rrp_CloseReader = (\<lambda>rd. unlogged (rrp_CloseReader r rd)),
      rrp_ExecuteRestore = (\<lambda>i opts. logged (RExecute i opts) (rrp_ExecuteRestore r i opts))\<rparr>"

definition watched_rhandler :: "('w, 'rd) restore_handler \<Rightarrow> ('w \<times> 'rd restore_call list, 'rd) restore_handler" where
  "watched_rhandler h =
     \<lparr>rh_repo = watched_rrepo (rh_repo h), rh_eventBus = map_option (\<lambda>bus ev wt. (bus ev (fst wt), snd wt)) (rh_eventBus h),
      rh_Now = (\<lambda>wt. rh_Now h (fst wt)), rh_paused = (\<lambda>wt. rh_paused h (fst wt)), rh_IsNotFound = rh_IsNotFound h\<rparr>"

definition watched_rctl :: "('w, 'rd) restore_ctl \<Rightarrow> ('w \<times> 'rd restore_call list, 'rd) restore_ctl" where
  "watched_rctl h =
     \<lparr>rcl_runtime = watched_runtime (rcl_runtime h),
      rcl_client = \<lparr>cl_Get = (\<lambda>ns n. unlogged (cl_Get (rcl_client h) ns n)), cl_Update = (\<lambda>r. logged (RUpdate r) (cl_Update (rcl_client h) r)),
        cl_Status_Update = (\<lambda>r. logged (RStatus r) (cl_Status_Update (rcl_client h) r))\<rparr>,
      rcl_handler = watched_rhandler (rcl_handler h)\<rparr>"

lemma watched_r_simps [simp]:
  "rcl_runtime (watched_rctl h) = watched_runtime (rcl_runtime h)"
  "cl_Get (rcl_client (watched_rctl h)) ns n = unlogged (cl_Get (rcl_client h) ns n)"
  "cl_Update (rcl_client (watched_rctl h)) r = logged (RUpdate r) (cl_Update (rcl_client h) r)"
  "cl_Status_Update (rcl_client (watched_rctl h)) r = logged (RStatus r) (cl_Status_Update (rcl_client h) r)"
  "rcl_handler (watched_rctl h) = watched_rhandler (rcl_handler h)"
  "rrp_GetBackup (rh_repo (watched_rhandler g)) ns b = unlogged (rrp_GetBackup (rh_repo g) ns b)"
  "rrp_GetDatabase (rh_repo (watched_rhandler g)) ns d = unlogged (rrp_GetDatabase (rh_repo g) ns d)"
  "rrp_ResolveInstance (rh_repo (watched_rhandler g)) ns i c = unlogged (rrp_ResolveInstance (rh_repo g) ns i c)"
  "rrp_CreateRestoreReader (rh_repo (watched_rhandler g)) cfg = unlogged (rrp_CreateRestoreReader (rh_repo g) cfg)"
  "rrp_CloseReader (rh_repo (watched_rhandler g)) rd = unlogged (rrp_CloseReader (rh_repo g) rd)"
  "rrp_ExecuteRestore (rh_repo (watched_rhandler g)) inst opts = logged (RExecute inst opts) (rrp_ExecuteRestore (rh_repo g) inst opts)"
  "rh_eventBus (watched_rhandler g) = map_option (\<lambda>bus ev wt. (bus ev (fst wt), snd wt)) (rh_eventBus g)"
  "rh_Now (watched_rhandler g) = (\<lambda>wt. rh_Now g (fst wt))"
  "rh_paused (watched_rhandler g) wt = rh_paused g (fst wt)"
  "rh_IsNotFound (watched_rhandler g) = rh_IsNotFound g"
  by (simp_all add: watched_rctl_def watched_rhandler_def watched_rrepo_def)

lemma restore_publish_watched [simp]: "restore_publish (watched_rhandler g) event (w, t) = (restore_publish g event w, t)"
  by (simp add: restore_publish_def)

lemma resolve_watched [simp]:
  "resolveTarget (watched_rhandler g) r (w, t) = (case resolveTarget g r w of (w', x) \<Rightarrow> ((w', t), x))"
  "resolveSource (watched_rhandler g) r (w, t) = (case resolveSource g r w of (w', x) \<Rightarrow> ((w', t), x))"
proof -
  show "resolveTarget (watched_rhandler g) r (w, t) = (case resolveTarget g r w of (w', x) \<Rightarrow> ((w', t), x))"
    by (cases "rtg_InPlace (rsp_Target (rsc_Spec r))"; cases "rtg_DatabaseRef (rsp_Target (rsc_Spec r))")
      (simp_all add: resolveTarget_def Let_def check_def split: prod.split sum.split)
  show "resolveSource (watched_rhandler g) r (w, t) = (case resolveSource g r w of (w', x) \<Rightarrow> ((w', t), x))"
    by (cases "rsp_BackupRef (rsc_Spec r)"; cases "rsp_FromPath (rsc_Spec r)")
      (simp_all add: resolveSource_def check_def split: prod.split sum.split)
qed

lemma validate_watched [simp]: "ValidateSpec (watched_rhandler g) r (w, t) = (case ValidateSpec g r w of (w', v) \<Rightarrow> ((w', t), v))"
  by (auto simp: ValidateSpec_def Let_def split: option.splits prod.split sum.split)

lemma deadline_watched [simp]: "CheckDeadline (watched_rhandler g) r (w, t) = CheckDeadline g r w"
  by (simp add: CheckDeadline_def split: option.split)

section \<open>What a restore may do\<close>

lemma with_rstatus_simps [simp]:
  "rphase (with_rstatus f r) = rst_Phase (f (rsc_Status r))" "rsc_Spec (with_rstatus f r) = rsc_Spec r" "rsc_meta (with_rstatus f r) = rsc_meta r"
  "rphase (in_rstate now p m re c r) = p"
  by (simp_all add: rphase_def with_rstatus_def in_rstate_def)

definition drop_requested :: "DatabaseRestoreSpec \<Rightarrow> EngineType \<Rightarrow> bool" where
  "drop_requested spec engine \<longleftrightarrow>
     engine = EngineTypePostgres \<and> (case rsp_Postgres spec of None \<Rightarrow> False | Some p \<Rightarrow> psr_DropExisting p) \<or>
     engine = EngineTypeMySQL \<and> (case rsp_MySQL spec of None \<Rightarrow> False | Some m \<Rightarrow> msr_DropExisting m)"

definition restore_confirmed :: "DatabaseRestoreSpec \<Rightarrow> bool" where
  "restore_confirmed spec \<longleftrightarrow> map_option rcn_AcknowledgeDataLoss (rsp_Confirmation spec) = Some RestoreConfirmDataLoss"

lemma buildRestoreOptions_drop:
  "ro_DropExisting (buildRestoreOptions r db engine rd) \<longleftrightarrow> rtg_InPlace (rsp_Target (rsc_Spec r)) \<or> drop_requested (rsc_Spec r) engine"
  by (simp add: buildRestoreOptions_def Let_def drop_requested_def empty_RestoreOptions_def split: option.split)

text \<open>The call of the engine fits the spec.\<close>

definition fitting :: "DatabaseRestoreSpec \<Rightarrow> ResolvedInstance \<Rightarrow> 'rd RestoreOptions \<Rightarrow> bool" where
  "fitting spec inst opts \<longleftrightarrow>
     IsReady inst \<and> (ro_DropExisting opts \<longleftrightarrow> rtg_InPlace (rsp_Target spec) \<or> drop_requested spec (dis_Engine (ri_Spec inst)))"

lemma from_reader_records:
  "records (restore_from_reader (watched_rhandler g) r inst db name start rd) w
     (\<lambda>u w' x. \<exists>e. u = [RExecute inst (buildRestoreOptions r db (dis_Engine (ri_Spec inst)) rd) e] \<and> (e = None) = (\<not> isl x))"
  by (auto simp: records_def restore_from_reader_def Let_def split: prod.split sum.split)

lemma Execute_records:
  fixes g :: "('w, 'rd) restore_handler"
  shows "records (restore_Execute (watched_rhandler g) r) w
     (\<lambda>u w' x. if u = [] then isl x else \<exists>inst opts e. u = [RExecute inst opts e] \<and> (e = None) = (\<not> isl x) \<and> fitting (rsc_Spec r) inst opts)"
proof (rule recordsI)
  fix t
  let ?goal = "\<lambda>run. \<exists>u w' x. run = ((w', t @ u), x) \<and> (if u = [] then isl x else
      \<exists>inst (opts :: 'rd RestoreOptions) e. u = [RExecute inst opts e] \<and> (e = None) = (\<not> isl x) \<and> fitting (rsc_Spec r) inst opts)"
  obtain w1 x1 where target: "resolveTarget g r w = (w1, x1)" by force
  show "?goal (restore_Execute (watched_rhandler g) r (w, t))"
  proof (cases "rh_paused g w \<or> isl x1 \<or> (\<exists>inst db. x1 = Inr (inst, db) \<and> \<not> IsReady inst)")
    case True
    then show ?thesis using target by (cases x1) (auto simp: restore_Execute_def check_def)
  next
    case False
    then obtain inst db where x1: "x1 = Inr (inst, db)" and ready: "IsReady inst" and go: "\<not> rh_paused g w" by (cases x1) auto
    obtain w2 x2 where source: "resolveSource g r w1 = (w2, x2)" by force
    show ?thesis
    proof (cases "isl x2 \<or> (\<exists>s. x2 = Inr s \<and> rso_Path s = '''')")
      case True
      then show ?thesis using target x1 ready go source by (cases x2) (auto simp: restore_Execute_def check_def)
    next
      case False
      then obtain s where s: "x2 = Inr s" "rso_Path s \<noteq> ''''" by (cases x2) auto
      define name where "name = (case rso_Backup s of None \<Rightarrow> '''' | Some b \<Rightarrow> bkr_name b)"
      define cfg where "cfg = \<lparr>rrc_StorageConfig = rso_Storage s, rrc_CompressionConfig = rso_Compression s, rrc_EncryptionConfig = rso_Encryption s,
          rrc_Namespace = rsc_ns r, rrc_BackupPath = rso_Path s\<rparr>"
      define w3 where "w3 = restore_publish g (\<lambda>now. NewRestoreStarted now now (rsc_name r) name db (rsc_ns r)) w2"
      obtain w4 x4 where reader: "rrp_CreateRestoreReader (rh_repo g) cfg w3 = (w4, x4)" by force
      have run: "restore_Execute (watched_rhandler g) r (w, t) =
          (case x4 of Inl e \<Rightarrow> ((restore_publish g (\<lambda>now. NewRestoreFailed now now (rsc_name r) name db (rsc_ns r) (Error e)) w4, t), Inl (Errorf_w ''create restore reader: '' e))
           | Inr rd \<Rightarrow> restore_from_reader (watched_rhandler g) r inst db name (rh_Now g w) rd (w4, t))"
        using target x1 ready go source s reader
        by (simp add: restore_Execute_def check_def Let_def name_def [symmetric] cfg_def [symmetric] w3_def [symmetric] split: sum.split)
      show ?thesis
      proof (cases x4)
        case (Inl e)
        then show ?thesis using run by auto
      next
        case (Inr rd)
        obtain u w' x e where "restore_from_reader (watched_rhandler g) r inst db name (rh_Now g w) rd (w4, t) = ((w', t @ u), x)"
          "u = [RExecute inst (buildRestoreOptions r db (dis_Engine (ri_Spec inst)) rd) e]" "(e = None) = (\<not> isl x)"
          by (rule recordsE [OF from_reader_records]) blast
        moreover have "fitting (rsc_Spec r) inst (buildRestoreOptions r db (dis_Engine (ri_Spec inst)) rd)"
          using ready by (simp add: fitting_def buildRestoreOptions_drop)
        ultimately show ?thesis using run Inr by (intro exI [of _ u] exI [of _ w'] exI [of _ x]) auto
      qed
    qed
  qed
qed

definition status_keeps_rspec :: "('w, 'rd) restore_ctl \<Rightarrow> bool" where
  "status_keeps_rspec h \<longleftrightarrow> (\<forall>r w w' r'. cl_Status_Update (rcl_client h) r w = (w', Inr r') \<longrightarrow> rsc_Spec r' = rsc_Spec r)"

definition rstatus_in :: "Phase \<Rightarrow> 'rd restore_call list \<Rightarrow> bool" where
  "rstatus_in p u \<longleftrightarrow> (\<exists>x e. u = [RStatus x e] \<and> rphase x = p)"

definition run_rcalls :: "DatabaseRestoreSpec \<Rightarrow> 'rd restore_call list \<Rightarrow> bool" where
  "run_rcalls spec u \<longleftrightarrow>
     (\<exists>x e v. u = RStatus x e # v \<and> rphase x = PhaseRunning \<and>
        (rstatus_in PhaseFailed v \<or>
         (\<exists>inst opts e z. v = RExecute inst opts e # z \<and> fitting spec inst opts \<and>
            rstatus_in (if e = None then PhaseCompleted else PhaseFailed) z)))"

lemma run_rcallsI:
  "rphase x = PhaseRunning \<Longrightarrow> rstatus_in PhaseFailed v \<Longrightarrow> run_rcalls spec (RStatus x e0 # v)"
  "rphase x = PhaseRunning \<Longrightarrow> fitting spec inst opts \<Longrightarrow> rstatus_in (if e = None then PhaseCompleted else PhaseFailed) v \<Longrightarrow>
     run_rcalls spec (RStatus x e0 # RExecute inst opts e # v)"
  unfolding run_rcalls_def by blast+

lemma status_write_rrecords:
  assumes "status_keeps_rspec h"
  shows "records (restore_status_write (watched_rctl h) r) w (\<lambda>u w' r'. (\<exists>e. u = [RStatus r e]) \<and> rsc_Spec r' = rsc_Spec r)"
  using assms by (auto simp: records_def restore_status_write_def status_keeps_rspec_def split: prod.split sum.split)

lemma error_rcalls:
  "records (restore_handleError (watched_rctl h) r e op') w (\<lambda>u w' x. rstatus_in PhaseFailed u)"
  "records (handleValidationError (watched_rctl h) r msg) w (\<lambda>u w' x. rstatus_in PhaseFailed u)"
  "records (handleDeadlineExceeded (watched_rctl h) r msg) w (\<lambda>u w' x. rstatus_in PhaseFailed u)"
  "records (restore_handlePending (watched_rctl h) r msg) w (\<lambda>u w' x. rstatus_in PhasePending u)"
  "records (handleCompleted (watched_rctl h) r result) w (\<lambda>u w' x. rstatus_in PhaseCompleted u)"
  by (auto simp: records_def restore_handleError_def handleValidationError_def handleDeadlineExceeded_def restore_handlePending_def handleCompleted_def
      restore_status_write_def Let_def rstatus_in_def split: prod.split sum.split)

lemma run_restore_rcalls:
  assumes law: "status_keeps_rspec h"
  shows "records (run_restore (watched_rctl h) r target) w (\<lambda>u w' x. run_rcalls (rsc_Spec r) u)"
proof (rule recordsI)
  fix t
  define running where "running = with_rstatus (\<lambda>st. st\<lparr>rst_Phase := PhaseRunning, rst_Message := ''Restore in progress'',
      rst_StartedAt := first_start (rcl_Now h w) (rst_StartedAt st),
      rst_Progress := Some \<lparr>rpg_Percentage = 0, rpg_CurrentPhase = ''Starting'', rpg_TablesRestored = 0, rpg_TablesTotal = 0\<rparr>\<rparr>) r"
  have phase: "rphase running = PhaseRunning" "rsc_Spec running = rsc_Spec r" by (simp_all add: running_def)
  obtain e0 w1 r1 where wr: "restore_status_write (watched_rctl h) running (w, t) = ((w1, t @ [RStatus running e0]), r1)" "rsc_Spec r1 = rsc_Spec running"
    by (rule recordsE [OF status_write_rrecords [OF law]]) blast
  let ?t = "t @ [RStatus running e0]"
  define w2 where "w2 = recordf (rcl_runtime h) EventTypeNormal ''Started'' (''Restore started for target '' @ ri_Name target) w1"
  obtain u w3 x3 where ex: "restore_Execute (watched_rhandler (rcl_handler h)) r1 (w2, ?t) = ((w3, ?t @ u), x3)"
    "if u = [] then isl x3 else \<exists>inst opts e. u = [RExecute inst opts e] \<and> (e = None) = (\<not> isl x3) \<and> fitting (rsc_Spec r1) inst opts"
    by (rule recordsE [OF Execute_records])
  have "\<exists>v w' x. (case x3 of Inl e \<Rightarrow> restore_handleError (watched_rctl h) r1 e ''execute restore'' (w3, ?t @ u)
      | Inr result \<Rightarrow> handleCompleted (watched_rctl h) r1 result (w3, ?t @ u)) = ((w', (?t @ u) @ v), x) \<and>
      rstatus_in (if isl x3 then PhaseFailed else PhaseCompleted) v"
  proof (cases x3)
    case (Inl e)
    then show ?thesis using recordsD [OF error_rcalls(1), of h r1 e "''execute restore''" w3 "?t @ u"]
      by (simp del: append_assoc append_Cons append_Nil)
  next
    case (Inr result)
    then show ?thesis using recordsD [OF error_rcalls(5), of h r1 result w3 "?t @ u"]
      by (simp del: append_assoc append_Cons append_Nil)
  qed
  then obtain v w' x where v: "(case x3 of Inl e \<Rightarrow> restore_handleError (watched_rctl h) r1 e ''execute restore'' (w3, ?t @ u)
      | Inr result \<Rightarrow> handleCompleted (watched_rctl h) r1 result (w3, ?t @ u)) = ((w', (?t @ u) @ v), x)"
      "rstatus_in (if isl x3 then PhaseFailed else PhaseCompleted) v" by blast
  have "run_restore (watched_rctl h) r target (w, t) = ((w', t @ [RStatus running e0] @ u @ v), x)"
    using wr(1) ex(1) v(1) by (simp add: run_restore_def Let_def running_def [symmetric] w2_def [symmetric] del: append_Cons split: sum.splits)
  moreover have "run_rcalls (rsc_Spec r) ([RStatus running e0] @ u @ v)"
  proof (cases "u = []")
    case True
    then show ?thesis using ex(2) v(2) phase(1) by (simp add: run_rcallsI(1))
  next
    case False
    then obtain inst opts e where "u = [RExecute inst opts e]" "(e = None) = (\<not> isl x3)" "fitting (rsc_Spec r) inst opts"
      using ex(2) wr(2) phase(2) by auto
    then show ?thesis using v(2) phase(1) by (auto intro!: run_rcallsI(2))
  qed
  ultimately show "\<exists>u w' x. run_restore (watched_rctl h) r target (w, t) = ((w', t @ u), x) \<and> run_rcalls (rsc_Spec r) u" by blast
qed

definition reconcile_rcalls :: "DatabaseRestoreSpec \<Rightarrow> 'rd restore_call list \<Rightarrow> bool" where
  "reconcile_rcalls spec u \<longleftrightarrow> rstatus_in PhaseFailed u \<or> rstatus_in PhasePending u \<or> run_rcalls spec u"

lemma reconcile_rcallsI:
  "rstatus_in PhaseFailed u \<Longrightarrow> reconcile_rcalls spec u" "rstatus_in PhasePending u \<Longrightarrow> reconcile_rcalls spec u"
  "run_rcalls spec u \<Longrightarrow> reconcile_rcalls spec u"
  by (simp_all add: reconcile_rcalls_def)

lemmas reconcile_ends =
  error_rcalls(1) [THEN records_mono, OF reconcile_rcallsI(1)] error_rcalls(2) [THEN records_mono, OF reconcile_rcallsI(1)]
  error_rcalls(4) [THEN records_mono, OF reconcile_rcallsI(2)] run_restore_rcalls [THEN records_mono, OF _ reconcile_rcallsI(3)]

lemma check_target_rcalls:
  assumes "status_keeps_rspec h"
  shows "records (check_target (watched_rctl h) r) w (\<lambda>u w' x. reconcile_rcalls (rsc_Spec r) u)"
proof (rule recordsI)
  fix t
  note ends = reconcile_ends(1-3) [THEN records_only, where t = t] reconcile_ends(4) [OF assms, THEN records_only, where t = t]
  obtain w1 x1 where target: "resolveTarget (rcl_handler h) r w = (w1, x1)" by force
  show "\<exists>u w' x. check_target (watched_rctl h) r (w, t) = ((w', t @ u), x) \<and> reconcile_rcalls (rsc_Spec r) u"
  proof (cases x1)
    case (Inl e)
    then show ?thesis by (simp add: check_target_def target del: split_paired_Ex) (intro conjI impI ends)
  next
    case (Inr td)
    obtain inst db where "td = (inst, db)" by force
    then show ?thesis using Inr by (simp add: check_target_def target del: split_paired_Ex) (intro conjI impI ends)
  qed
qed

lemma check_source_rcalls:
  assumes "status_keeps_rspec h"
  shows "records (check_source (watched_rctl h) r) w (\<lambda>u w' x. reconcile_rcalls (rsc_Spec r) u)"
proof (rule recordsI)
  fix t
  note ends = reconcile_ends(1-3) [THEN records_only, where t = t] check_target_rcalls [OF assms, THEN records_only, where t = t]
  show "\<exists>u w' x. check_source (watched_rctl h) r (w, t) = ((w', t @ u), x) \<and> reconcile_rcalls (rsc_Spec r) u"
  proof (cases "rsp_BackupRef (rsc_Spec r)")
    case None
    then show ?thesis by (simp add: check_source_def del: split_paired_Ex) (intro conjI impI ends)
  next
    case (Some ref)
    obtain w1 x1 where got: "rrp_GetBackup (rh_repo (rcl_handler h)) (rsc_ns r) ref w = (w1, x1)" by force
    show ?thesis
    proof (cases x1)
      case (Inl e)
      then show ?thesis using Some by (simp add: check_source_def got del: split_paired_Ex) (intro conjI impI ends)
    next
      case (Inr b)
      then show ?thesis using Some by (simp add: check_source_def got del: split_paired_Ex) (intro conjI impI ends)
    qed
  qed
qed

text \<open>What the validation has established when it returns no error.\<close>

definition source_ready :: "('w, 'rd) restore_handler \<Rightarrow> string \<Rightarrow> DatabaseRestoreSpec \<Rightarrow> bool" where
  "source_ready g ns spec \<longleftrightarrow>
     (case rsp_BackupRef spec of
        None \<Rightarrow> rsp_FromPath spec \<noteq> None
      | Some ref \<Rightarrow> \<exists>v v' b. rrp_GetBackup (rh_repo g) ns ref v = (v', Inr b) \<and> bphase b = PhaseCompleted)"

definition restore_valid :: "('w, 'rd) restore_handler \<Rightarrow> Restore_Resource \<Rightarrow> bool" where
  "restore_valid g r \<longleftrightarrow>
     (rtg_InPlace (rsp_Target (rsc_Spec r)) \<longrightarrow> restore_confirmed (rsc_Spec r)) \<and> source_ready g (rsc_ns r) (rsc_Spec r)"

lemma ValidateSpec_valid: "ValidateSpec g r w = (w', None) \<Longrightarrow> restore_valid g r"
  by (auto simp: ValidateSpec_def Let_def restore_valid_def restore_confirmed_def source_ready_def split: option.splits if_splits prod.splits sum.splits)

definition phase_rcalls :: "('w, 'rd) restore_handler \<Rightarrow> Restore_Resource \<Rightarrow> 'w \<Rightarrow> 'rd restore_call list \<Rightarrow> bool" where
  "phase_rcalls g r w u \<longleftrightarrow>
     (if IsTerminal r then u = []
      else rstatus_in PhaseFailed u \<or> rstatus_in PhasePending u \<or>
        rphase r \<noteq> '''' \<and> \<not> CheckDeadline g r w \<and> restore_valid g r \<and> reconcile_rcalls (rsc_Spec r) u)"

lemma phase_rcallsI:
  "\<not> IsTerminal r \<Longrightarrow> rstatus_in PhaseFailed u \<Longrightarrow> phase_rcalls g r w u" "\<not> IsTerminal r \<Longrightarrow> rstatus_in PhasePending u \<Longrightarrow> phase_rcalls g r w u"
  "\<not> IsTerminal r \<Longrightarrow> rphase r \<noteq> '''' \<Longrightarrow> \<not> CheckDeadline g r w \<Longrightarrow> restore_valid g r \<Longrightarrow> reconcile_rcalls (rsc_Spec r) u \<Longrightarrow> phase_rcalls g r w u"
  by (simp_all add: phase_rcalls_def)

lemma phases_rcalls:
  assumes law: "status_keeps_rspec h"
  shows "records (restore_phases (watched_rctl h) r) w (\<lambda>u w' x. phase_rcalls (rcl_handler h) r w u)"
proof (cases "IsTerminal r")
  case True
  then show ?thesis by (simp add: records_def restore_phases_def phase_rcalls_def)
next
  case open': False
  note ends = error_rcalls(1-3) [THEN records_mono, OF phase_rcallsI(1) [OF open'], THEN records_only]
    error_rcalls(4) [THEN records_mono, OF phase_rcallsI(2) [OF open'], THEN records_only]
  show ?thesis
  proof (rule recordsI)
    fix t
    let ?run = "restore_phases (watched_rctl h) r (w, t)"
    obtain w1 v where val: "ValidateSpec (rcl_handler h) r w = (w1, v)" by force
    consider (deadline) "CheckDeadline (rcl_handler h) r w" | (init) "\<not> CheckDeadline (rcl_handler h) r w" "rphase r = ''''"
      | (invalid) f m where "\<not> CheckDeadline (rcl_handler h) r w" "rphase r \<noteq> ''''" "v = Some (ValidationError f m)"
      | (unknown) e where "\<not> CheckDeadline (rcl_handler h) r w" "rphase r \<noteq> ''''" "v = Some (ValidationFailed e)"
      | (valid) "\<not> CheckDeadline (rcl_handler h) r w" "rphase r \<noteq> ''''" "v = None"
      by (metis validation.exhaust option.exhaust)
    then show "\<exists>u w' x. ?run = ((w', t @ u), x) \<and> phase_rcalls (rcl_handler h) r w u"
    proof cases
      case deadline
      then show ?thesis using open' by (simp add: restore_phases_def del: split_paired_Ex) (rule ends)
    next
      case init
      then show ?thesis using open'
        by (simp add: restore_phases_def restore_reconcile_def del: split_paired_Ex) (rule ends)
    next
      case invalid
      then show ?thesis using open' val
        by (simp add: restore_phases_def restore_reconcile_def del: split_paired_Ex) (rule ends)
    next
      case unknown
      then show ?thesis using open' val
        by (simp add: restore_phases_def restore_reconcile_def del: split_paired_Ex) (rule ends)
    next
      case valid
      then have ok: "restore_valid (rcl_handler h) r" using val by (intro ValidateSpec_valid) simp
      obtain u w' x where "check_source (watched_rctl h) r (w1, t) = ((w', t @ u), x)" "reconcile_rcalls (rsc_Spec r) u"
        using check_source_rcalls [OF law] by (rule recordsE)
      then have "?run = ((w', t @ u), x)" "phase_rcalls (rcl_handler h) r w u"
        using valid open' val ok by (simp_all add: restore_phases_def restore_reconcile_def phase_rcallsI(3))
      then show ?thesis by blast
    qed
  qed
qed

fun rcall_after :: "'rd restore_call option \<Rightarrow> 'rd restore_call \<Rightarrow> bool" where
  "rcall_after prev (RExecute i opts e) = (case prev of Some (RStatus y _) \<Rightarrow> rphase y = PhaseRunning | _ \<Rightarrow> False)"
| "rcall_after prev (RStatus x e) = (rphase x = PhaseCompleted \<longrightarrow> (case prev of Some (RExecute _ _ None) \<Rightarrow> True | _ \<Rightarrow> False))"
| "rcall_after prev (RUpdate x e) = True"

fun rcalls_ordered :: "'rd restore_call option \<Rightarrow> 'rd restore_call list \<Rightarrow> bool" where
  "rcalls_ordered prev [] = True"
| "rcalls_ordered prev (c # cs) = (rcall_after prev c \<and> rcalls_ordered (Some c) cs)"

fun is_rexecute :: "'rd restore_call \<Rightarrow> bool" where
  "is_rexecute (RExecute i opts e) = True"
| "is_rexecute c = False"

fun rcall_allowed :: "('w, 'rd) restore_ctl \<Rightarrow> Restore_Resource \<Rightarrow> 'rd restore_call \<Rightarrow> bool" where
  "rcall_allowed h r (RExecute inst opts e) \<longleftrightarrow>
     \<not> IsMarkedForDeletion (rsc_meta r) \<and> \<not> IsTerminal r \<and> rphase r \<noteq> '''' \<and> (\<exists>v. \<not> CheckDeadline (rcl_handler h) r v) \<and>
     IsReady inst \<and> source_ready (rcl_handler h) (rsc_ns r) (rsc_Spec r) \<and>
     (rtg_InPlace (rsp_Target (rsc_Spec r)) \<longrightarrow> restore_confirmed (rsc_Spec r)) \<and>
     (ro_DropExisting opts \<longrightarrow> restore_confirmed (rsc_Spec r) \<or> drop_requested (rsc_Spec r) (dis_Engine (ri_Spec inst)))"
| "rcall_allowed h r (RStatus x e) \<longleftrightarrow> True"
| "rcall_allowed h r (RUpdate x e) \<longleftrightarrow>
     rt_ContainsFinalizer (rcl_runtime h) (rsc_meta x) FinalizerDatabaseRestore \<or> IsMarkedForDeletion (rsc_meta r)"

definition restore_calls_safe :: "('w, 'rd) restore_ctl \<Rightarrow> Restore_Resource \<Rightarrow> 'rd restore_call list \<Rightarrow> bool" where
  "restore_calls_safe h r u \<longleftrightarrow>
     rcalls_ordered None u \<and> length (filter is_rexecute u) \<le> 1 \<and> (\<forall>c \<in> set u. rcall_allowed h r c) \<and>
     (ShouldSkipReconcile (rsc_meta r) \<longrightarrow> u = [])"

definition update_keeps_restore :: "('w, 'rd) restore_ctl \<Rightarrow> bool" where
  "update_keeps_restore h \<longleftrightarrow>
     (\<forall>r w w' r'. cl_Update (rcl_client h) r w = (w', Inr r') \<longrightarrow>
        rsc_Status r' = rsc_Status r \<and> rsc_Spec r' = rsc_Spec r \<and> rsc_ns r' = rsc_ns r)"

definition sets_only_finalizers :: "'w runtime \<Rightarrow> bool" where
  "sets_only_finalizers rt \<longleftrightarrow> (\<forall>m f. om_namespace (rt_AddFinalizer rt m f) = om_namespace m)"

lemma run_rcalls_safe:
  assumes "run_rcalls spec u"
  shows "rcalls_ordered prev u \<and> length (filter is_rexecute u) \<le> 1 \<and>
    (\<forall>c \<in> set u. (\<exists>x e. c = RStatus x e) \<or> (\<exists>inst opts e. c = RExecute inst opts e \<and> fitting spec inst opts))"
  using assms unfolding run_rcalls_def
  by (elim exE conjE disjE) (auto simp: rstatus_in_def split: if_splits)

lemma status_rcalls_safe:
  "rstatus_in p u \<Longrightarrow> p \<noteq> PhaseCompleted \<Longrightarrow> rcalls_ordered prev u \<and> filter is_rexecute u = [] \<and> (\<forall>c \<in> set u. \<exists>x e. c = RStatus x e)"
  by (auto simp: rstatus_in_def)

lemma phase_rcalls_safe:
  assumes calls: "phase_rcalls (rcl_handler h) r w u" and live: "\<not> IsMarkedForDeletion (rsc_meta r0)"
    and same: "rsc_Status r = rsc_Status r0" "rsc_Spec r = rsc_Spec r0" "rsc_ns r = rsc_ns r0"
  shows "rcalls_ordered prev u \<and> length (filter is_rexecute u) \<le> 1 \<and> (\<forall>c \<in> set u. rcall_allowed h r0 c)"
proof (cases "u = [] \<or> rstatus_in PhaseFailed u \<or> rstatus_in PhasePending u")
  case True
  then show ?thesis using status_rcalls_safe [of _ u prev] by fastforce
next
  case False
  then have open': "\<not> IsTerminal r" "rphase r \<noteq> ''''" "\<not> CheckDeadline (rcl_handler h) r w" "restore_valid (rcl_handler h) r" "run_rcalls (rsc_Spec r) u"
    using calls by (auto simp: phase_rcalls_def reconcile_rcalls_def split: if_splits)
  have "CheckDeadline (rcl_handler h) r w = CheckDeadline (rcl_handler h) r0 w"
    using same by (simp add: CheckDeadline_def split: option.split)
  then have "\<not> IsTerminal r0" "rphase r0 \<noteq> ''''" "\<not> CheckDeadline (rcl_handler h) r0 w" "restore_valid (rcl_handler h) r0"
    using open'(1-4) same by (simp_all add: IsTerminal_def rphase_def restore_valid_def)
  then have "fitting (rsc_Spec r) inst opts \<Longrightarrow> rcall_allowed h r0 (RExecute inst opts e)" for inst opts e
    using live same(2) by (auto simp: fitting_def restore_valid_def)
  then show ?thesis using run_rcalls_safe [OF open'(5), of prev] by fastforce
qed


section \<open>Examples\<close>

text \<open>A confirmed restore in place, of a backup named by its path, in a cluster where every call succeeds.\<close>

definition restore_x :: Restore_Resource where
  "restore_x = \<lparr>rsc_meta = (bmeta_x ''back'')\<lparr>om_finalizers := [FinalizerDatabaseRestore]\<rparr>,
     rsc_Spec = \<lparr>rsp_BackupRef = None,
       rsp_FromPath = Some \<lparr>rfp_Storage = bks_Storage (bkr_Spec resource_x), rfp_BackupPath = ''app.dump'', rfp_Compression = None, rfp_Encryption = None\<rparr>,
       rsp_Target = \<lparr>rtg_InstanceRef = None, rtg_ClusterInstanceRef = None, rtg_DatabaseName = '''', rtg_InPlace = True,
         rtg_DatabaseRef = Some \<lparr>dref_Name = ''db'', dref_Namespace = ''''\<rparr>\<rparr>,
       rsp_Confirmation = Some \<lparr>rcn_AcknowledgeDataLoss = RestoreConfirmDataLoss\<rparr>, rsp_ActiveDeadlineSeconds = 7200, rsp_Postgres = None, rsp_MySQL = None\<rparr>,
     rsc_Status = \<lparr>rst_Phase = PhasePending, rst_StartedAt = None, rst_CompletedAt = None, rst_Message = '''', rst_Restore = None, rst_Progress = None,
       rst_Warnings = [], rst_Conditions = []\<rparr>\<rparr>"

definition rctl_x :: "(unit, unit) restore_ctl" where
  "rctl_x =
     \<lparr>rcl_runtime = bkc_runtime bctl_x,
      rcl_client = \<lparr>cl_Get = (\<lambda>_ _. ret restore_x), cl_Update = ret, cl_Status_Update = ret\<rparr>,
      rcl_handler = \<lparr>rh_repo = \<lparr>rrp_GetBackup = (\<lambda>_ _. fail ErrNotFound), rrp_GetDatabase = (\<lambda>_ _. ret database_x),
          rrp_ResolveInstance = (\<lambda>_ _ _. ret \<lparr>ri_Spec = di_Spec instance_x, ri_DriftPolicy = None, ri_CredentialNamespace = ''prod'',
            ri_Phase = PhaseReady, ri_IsClusterScoped = False, ri_Name = ''pg'', ri_Version = ''16''\<rparr>),
          rrp_CreateRestoreReader = (\<lambda>_. ret ()), rrp_CloseReader = (\<lambda>_. ret ()),
          rrp_ExecuteRestore = (\<lambda>_ _. ret \<lparr>rsr_RestoreID = ''u'', rsr_TargetDatabase = ''app'', rsr_TablesRestored = 0, rsr_StartTime = '''',
            rsr_EndTime = '''', rsr_Warnings = []\<rparr>)\<rparr>,
        rh_eventBus = None, rh_Now = (\<lambda>_. 100), rh_paused = (\<lambda>_. False), rh_IsNotFound = (\<lambda>e. e = ErrNotFound)\<rparr>\<rparr>"


end
