(* ===== verification/Spec2Isabelle.thy ===== *)
theory Spec2Isabelle
  imports Sql_Grant_Spec Sql_Role Sql_Database Drift_Orchestrator Conditions Event_Bus Backup_Schedule User_Deletion User_Rotation Restore_Feature
begin

text \<open>
  A verification library for the database provisioning operator: a Kubernetes operator, written in
  Go, that keeps databases, users, roles and grants on PostgreSQL, CockroachDB, MySQL, MariaDB and
  ClickHouse servers in line with custom resources.

  \<^bold>\<open>The program and its model.\<close> A custom resource reaches the operator as a spec
  (\<^verbatim>\<open>api/v1alpha1\<close>). The controller of its feature (\<^verbatim>\<open>internal/features\<close>) watches it, calls the
  handler, which publishes events on a bus (\<^verbatim>\<open>internal/shared/eventbus\<close>), and the handler calls the
  repository, which resolves the instance (\<^verbatim>\<open>internal/shared/instanceresolver\<close>), reads its
  credentials (\<^verbatim>\<open>internal/secret\<close>) and runs a service. A service (\<^verbatim>\<open>internal/service\<close>) turns the
  spec into options by an engine's spec builder and makes calls on an adapter
  (\<^verbatim>\<open>internal/adapter\<close>), which writes SQL with the builders of
  \<^verbatim>\<open>internal/adapter/sqlbuilder\<close> and sends it to the server. Errors come back wrapped, are
  classified (\<^verbatim>\<open>internal/reconcileutil\<close>) and decide when a reconciliation runs again
  (\<^verbatim>\<open>internal/util\<close>). Between reconciliations a server may drift from its resources
  (\<^verbatim>\<open>internal/service/drift\<close>); backups are written to storage (\<^verbatim>\<open>internal/storage\<close>), by hand or on
  a schedule, and restored from it.

  Every theory models the code it names in its opening text, in the order of the code and with its
  names.

  \<^item> \<^verbatim>\<open>Op_Prelude\<close>: Go's strings, maps and their iteration order, and the lemmas all theories share.
  \<^item> \<^verbatim>\<open>Sql_Dialect\<close>, \<^verbatim>\<open>Sql_Grant\<close>, \<^verbatim>\<open>Sql_Grant_Spec\<close>, \<^verbatim>\<open>Sql_Role\<close>, \<^verbatim>\<open>Sql_Database\<close>: the SQL
    builders. A reader of SQL tokens, which is specification and not code, says what a text means; the quoting
    functions meet the contract of locale \<^verbatim>\<open>lexical_quote\<close>, the statements of the grant builder refine
    an abstract statement, and caller text cannot become syntax.
  \<^item> \<^verbatim>\<open>Go_Errors\<close>, \<^verbatim>\<open>Retry\<close>: error values with their chain of causes, classification, timeouts, and
    the retry loop with its bounds and its liveness.
  \<^item> \<^verbatim>\<open>Api_Types\<close>, \<^verbatim>\<open>Service_Config\<close>, \<^verbatim>\<open>Spec_Builder\<close>: the specs, the option records, the
    configuration, and the three spec builders against one contract (locale \<^verbatim>\<open>spec_builder\<close>).
  \<^item> \<^verbatim>\<open>Adapter\<close>, \<^verbatim>\<open>Service_Logic\<close>, \<^verbatim>\<open>Mem_Adapter\<close>: the adapter interface as a record of functions
    over an abstract world, Hoare triples and the fail-stop discipline for code that calls it, and a
    server in memory on which the hypotheses about adapters hold.
  \<^item> \<^verbatim>\<open>Database_Service\<close>, \<^verbatim>\<open>Account_Service\<close>, \<^verbatim>\<open>Grant_Service\<close>: the services. Each operation stops
    at the first failed call and keeps its cause; the operations converge to what the spec asks and
    touch nothing else; the three grant strategies meet one contract (locale \<^verbatim>\<open>grant_strategy\<close>).
  \<^item> \<^verbatim>\<open>Ownership\<close>: derived names, the ownership operations, and the provisioning pipeline, with the
    state a successful run establishes.
  \<^item> \<^verbatim>\<open>Drift\<close>, \<^verbatim>\<open>Drift_Database\<close>, \<^verbatim>\<open>Drift_Account\<close>, \<^verbatim>\<open>Drift_Grant\<close>, \<^verbatim>\<open>Drift_Orchestrator\<close>: differences between a
    spec and a server, exact for databases; the correction loop, which skips destructive corrections that
    are not allowed, accounts for every difference and applies nothing else; and the policy of a
    resource, which decides whether anything is detected or corrected at all.
  \<^item> \<^verbatim>\<open>Conditions\<close>, \<^verbatim>\<open>Event_Bus\<close>, \<^verbatim>\<open>Bus_Events\<close>: the condition list of a status as a map, the confirmation of a
    deletion, the bus as a state machine whose invariant holds under every interleaving of subscriptions
    and publications, and the events with their fields.
  \<^item> \<^verbatim>\<open>K8s_Client\<close>, \<^verbatim>\<open>Recorded_Runs\<close>: the client and the recorder of Kubernetes as records of functions, the laws
    the controllers rely on, and runs over a world that also records the calls made, with the rules that
    compute what a run records.
  \<^item> \<^verbatim>\<open>Secret_Manager\<close>, \<^verbatim>\<open>Instance_Access\<close>: secrets, passwords and credentials, and the session \<^verbatim>\<open>withService\<close>
    of a repository with an instance, which closes what it opened.
  \<^item> \<^verbatim>\<open>Backup_Schedule\<close>: scheduled backups: retention, concurrency policies, evaluation of the schedule and the
    controller, with what one reconciliation creates, deletes and cancels.
  \<^item> \<^verbatim>\<open>User_Handler\<close>, \<^verbatim>\<open>User_Controller\<close>, \<^verbatim>\<open>User_Deletion\<close>, \<^verbatim>\<open>User_Rotation\<close>: the user feature from its repository to its
    controller: guarded deletion, agreement of the password in the secret with the one on the server,
    rotation and the clean-up of retired users.
  \<^item> \<^verbatim>\<open>Storage_Crypto\<close>, \<^verbatim>\<open>Storage_Backend\<close>, \<^verbatim>\<open>Backup_Storage\<close>: encryption with its padding, chaining and readers,
    paths and backends, compression, and the round trip from a dump to an object and back.
  \<^item> \<^verbatim>\<open>Engine_Jobs\<close>, \<^verbatim>\<open>Backup_Feature\<close>, \<^verbatim>\<open>Restore_Feature\<close>: the session of a long operation under the retry loop, and
    the backup and the restore from their repositories to their controllers: what a backup stores, when
    a backup or a restore may run, and how often.

  \<^bold>\<open>State and effects.\<close> An operation of a service is a function from the state of the outside world to
  a new state and a result or an error (\<^verbatim>\<open>('w, 'a) op\<close>). The world is abstract: what a theorem needs of
  the server is a named hypothesis (for example \<^verbatim>\<open>tracks_databases\<close>) that states the documented
  behaviour of the adapter's calls, and the witnesses instantiate it with the server in memory. Code of
  other repositories is a parameter of the definitions: the engine adapters' drivers and tools, the Kubernetes
  client, the parsers of durations and cron expressions, time zones and \<^verbatim>\<open>sort.Slice\<close>, the order in which
  Go ranges over a map, the clock, the random source, SHA-256, AES and GCM, the compression libraries, the clients
  of cloud storage, the operating system and the template engine. Where Go dereferences a nil pointer and
  panics, an operation returns \<open>None\<close>.

  The code below a controller is composed as the program composes it: a controller is a record with its handler,
  a handler a record with the interface of its repository, and a repository function uses the services and
  the secret manager. Theorems about a controller hold for every handler, so also for a repository whose
  server fails at any call; they are stated over a watched environment that records the calls in order.

  \<^bold>\<open>Bounds.\<close> The retry loop recurses on the number of attempts left, which the code fixes before the
  loop; it is total and needs no fuel. The readers of the encryption are
  functions that may not return; that reading to the end returns is a theorem, with the number of calls. Durations
  are 64-bit integers with their wrap-around written out, bytes are words of eight bits.

  \<^bold>\<open>Not modelled.\<close> Generated deep copies, metrics and logging have no influence on what the operator
  does. The wiring of the application, the command-line tools and the test helpers only call the parts above and
  libraries. The engine adapters below the interface \<^verbatim>\<open>Adapter\<close> send SQL to drivers and read their rows; the
  SQL they build is modelled, the calls of the drivers are not. The controllers of databases, roles,
  grants and instances and the discovery of unmanaged objects have the structure of the user feature and are not
  modelled.
\<close>

end
